(* ===== verification/ApiErrors.thy ===== *)
theory ApiErrors
  imports Prelude
begin

text \<open>
  \<^verbatim>\<open>frontend/src/lib/api-errors.ts\<close>: the \<open>ApiError\<close> class and the functions that turn a
  thrown value into the Hebrew message the user sees.

  A message is a constructor of \<open>hebrew\<close>, one per distinct string literal of the file (two
  literals of the file are the same constructor exactly when they are the same text); the
  constructors are named by an English gloss.
\<close>

datatype (plugins only:) hebrew =
    NoConnection | ReloginRequired | NoPermission | ItemNotFound | ItemExists | FileTooLarge
  | FileTypeUnsupported | InvalidDetails | TooManyRequests | SystemError | ErrorTryAgain
  | BadCredentials | AccountSuspended | TooManyAttempts | LoginFailed
  | SlugTaken | SlugBadFormat | InvalidDetailsCheckForm | SaveFailed
  | MemberNotFound | MemberPhoneExists | NotInCurrentStatus | ConflictCheckDetails | MemberSaveFailed
  | OwnersOnlyClasses | ClassNotFound | ClassNameExists | ClassSaveFailed
  | NoActiveSubscription | UndoWindowClosed | EntryAlreadyUndone | QuotaExhausted
  | ClassNotInPlan | ActionNotPossible | AttendanceFailed
  | AlreadyActiveSubscription | PickDifferentPlan | SubscriptionFailed
  | OwnersOnlyPlans | PlanNotFound | PlanNameExists | PlanSaveFailed
  | UserEmailExists | UserSaveFailed
  | LogoTooLarge | LogoTypeUnsupported | UploadFailed
  | ScheduleFeatureOff | SessionOrTemplateNotFound | NotInSessionStatus | BadDateRange | ScheduleFailed
  | LeadsFeatureOff | LeadNotFound | LeadAlreadyConverted | LeadTransitionBlocked
  | MemberPhoneExistsSamePerson | PlanOfOtherGym | LeadFailed
  | PaymentNotFound | RefundExceedsRemaining | AlreadyFullyRefunded | AmountOrDateInvalid | PaymentFailed
  | CoachOrClassNotFound | CoachAlreadyLinked | CoachRoleTaken | CoachSaveFailed

text \<open>
  What a \<open>catch\<close> clause may receive: an \<open>ApiError\<close>; another \<open>Error\<close> object that has a
  \<open>status\<close> property; an \<open>Error\<close> without one; anything else.
\<close>

datatype thrown =
    ApiError string int
  | ErrorWithStatus string int
  | PlainError string
  | NotAnError

text \<open>The test every humanizer starts with, giving \<open>(err.message, err.status)\<close> when it holds.\<close>

definition status_error :: "thrown \<Rightarrow> (string \<times> int) option" where
  "status_error err = (case err of
     ApiError m s \<Rightarrow> Some (m, s)
   | ErrorWithStatus m s \<Rightarrow> Some (m, s)
   | PlainError m \<Rightarrow> None
   | NotAnError \<Rightarrow> None)"

lemma status_error_simps [simp]:
  "status_error (ApiError m s) = Some (m, s)"
  "status_error (ErrorWithStatus m s) = Some (m, s)"
  "status_error (PlainError m) = None"
  "status_error NotAnError = None"
  by (simp_all add: status_error_def)

definition genericMessage :: "int \<Rightarrow> hebrew" where
  "genericMessage status =
    (if status = 0 then NoConnection
     else if status = 401 then ReloginRequired
     else if status = 403 then NoPermission
     else if status = 404 then ItemNotFound
     else if status = 409 then ItemExists
     else if status = 413 then FileTooLarge
     else if status = 415 then FileTypeUnsupported
     else if status = 422 then InvalidDetails
     else if status = 429 then TooManyRequests
     else if status \<ge> 500 then SystemError
     else ErrorTryAgain)"

definition humanizeLoginError :: "thrown \<Rightarrow> hebrew" where
  "humanizeLoginError err = (case status_error err of
     None \<Rightarrow> LoginFailed
   | Some (message, status) \<Rightarrow>
      if status = 401 then BadCredentials
      else if status = 403 then AccountSuspended
      else if status = 429 then TooManyAttempts
      else genericMessage status)"

definition humanizeTenantError :: "thrown \<Rightarrow> hebrew" where
  "humanizeTenantError err = (case status_error err of
     None \<Rightarrow> SaveFailed
   | Some (message, status) \<Rightarrow>
      if status = 409 then SlugTaken
      else if status = 422 then
        (if str_includes message ''slug_invalid_format'' then SlugBadFormat
         else InvalidDetailsCheckForm)
      else genericMessage status)"

definition humanizeMemberError :: "thrown \<Rightarrow> hebrew" where
  "humanizeMemberError err = (case status_error err of
     None \<Rightarrow> MemberSaveFailed
   | Some (message, status) \<Rightarrow>
      if status = 404 then MemberNotFound
      else if status = 409 then
        (if str_includes (toLowerCase message) ''already exists'' then MemberPhoneExists
         else if str_includes (toLowerCase message) ''cannot '' then NotInCurrentStatus
         else ConflictCheckDetails)
      else if status = 422 then InvalidDetailsCheckForm
      else genericMessage status)"

definition humanizeClassError :: "thrown \<Rightarrow> hebrew" where
  "humanizeClassError err = (case status_error err of
     None \<Rightarrow> ClassSaveFailed
   | Some (message, status) \<Rightarrow>
      if status = 403 then OwnersOnlyClasses
      else if status = 404 then ClassNotFound
      else if status = 409 then ClassNameExists
      else if status = 422 then InvalidDetailsCheckForm
      else genericMessage status)"

definition humanizeAttendanceError :: "thrown \<Rightarrow> hebrew" where
  "humanizeAttendanceError err = (case status_error err of
     None \<Rightarrow> AttendanceFailed
   | Some (raw, status) \<Rightarrow>
      let message = toLowerCase raw in
      if status = 403 then NoPermission
      else if status = 404 then ItemNotFound
      else if status = 409 then
        (if str_includes message ''no active subscription'' then NoActiveSubscription
         else if str_includes message ''undo window'' then UndoWindowClosed
         else if str_includes message ''already undone'' then EntryAlreadyUndone
         else if str_includes message ''quota exceeded'' then QuotaExhausted
         else if str_includes message ''not covered'' then ClassNotInPlan
         else ActionNotPossible)
      else if status = 422 then InvalidDetails
      else genericMessage status)"

definition humanizeSubscriptionError :: "thrown \<Rightarrow> hebrew" where
  "humanizeSubscriptionError err = (case status_error err of
     None \<Rightarrow> SubscriptionFailed
   | Some (raw, status) \<Rightarrow>
      let message = toLowerCase raw in
      if status = 403 then NoPermission
      else if status = 404 then MemberNotFound
      else if status = 409 then
        (if str_includes message ''already'' then AlreadyActiveSubscription
         else if str_includes message ''same plan'' then PickDifferentPlan
         else NotInCurrentStatus)
      else if status = 422 then InvalidDetailsCheckForm
      else genericMessage status)"

definition humanizePlanError :: "thrown \<Rightarrow> hebrew" where
  "humanizePlanError err = (case status_error err of
     None \<Rightarrow> PlanSaveFailed
   | Some (message, status) \<Rightarrow>
      if status = 403 then OwnersOnlyPlans
      else if status = 404 then PlanNotFound
      else if status = 409 then PlanNameExists
      else if status = 422 then InvalidDetailsCheckForm
      else genericMessage status)"

definition humanizeUserError :: "thrown \<Rightarrow> hebrew" where
  "humanizeUserError err = (case status_error err of
     None \<Rightarrow> UserSaveFailed
   | Some (message, status) \<Rightarrow>
      if status = 409 then UserEmailExists
      else if status = 422 then InvalidDetailsCheckForm
      else genericMessage status)"

definition humanizeUploadError :: "thrown \<Rightarrow> hebrew" where
  "humanizeUploadError err = (case status_error err of
     None \<Rightarrow> UploadFailed
   | Some (message, status) \<Rightarrow>
      if status = 413 then LogoTooLarge
      else if status = 415 then LogoTypeUnsupported
      else genericMessage status)"

definition humanizeScheduleError :: "thrown \<Rightarrow> hebrew" where
  "humanizeScheduleError err = (case status_error err of
     None \<Rightarrow> ScheduleFailed
   | Some (msg, status) \<Rightarrow>
      if status = 403 \<and> str_includes msg ''FEATURE_DISABLED'' then ScheduleFeatureOff
      else if status = 404 then SessionOrTemplateNotFound
      else if status = 409 \<and> str_includes msg ''SESSION_TRANSITION'' then NotInSessionStatus
      else if status = 409 then ActionNotPossible
      else if status = 422 \<and> str_includes msg ''INVALID_BULK_RANGE'' then BadDateRange
      else if status = 422 then InvalidDetails
      else genericMessage status)"

definition humanizeLeadError :: "thrown \<Rightarrow> hebrew" where
  "humanizeLeadError err = (case status_error err of
     None \<Rightarrow> LeadFailed
   | Some (msg, status) \<Rightarrow>
      if status = 403 \<and> str_includes msg ''FEATURE_DISABLED'' then LeadsFeatureOff
      else if status = 404 \<and> str_includes msg ''PLAN_NOT_FOUND'' then PlanNotFound
      else if status = 404 then LeadNotFound
      else if status = 409 \<and> str_includes msg ''LEAD_ALREADY_CONVERTED'' then LeadAlreadyConverted
      else if status = 409 \<and> str_includes msg ''INVALID_LEAD_STATUS_TRANSITION'' then LeadTransitionBlocked
      else if status = 409 \<and> str_includes msg ''MEMBER_ALREADY_EXISTS'' then MemberPhoneExistsSamePerson
      else if status = 422 \<and> str_includes msg ''SUBSCRIPTION_PLAN_TENANT_MISMATCH'' then PlanOfOtherGym
      else if status = 422 then InvalidDetailsCheckForm
      else genericMessage status)"

definition humanizePaymentError :: "thrown \<Rightarrow> hebrew" where
  "humanizePaymentError err = (case status_error err of
     None \<Rightarrow> PaymentFailed
   | Some (msg, status) \<Rightarrow>
      if status = 403 then NoPermission
      else if status = 404 then PaymentNotFound
      else if status = 409 \<and> str_includes msg ''PAYMENT_REFUND_EXCEEDS_ORIGINAL'' then RefundExceedsRemaining
      else if status = 409 \<and> str_includes msg ''PAYMENT_ALREADY_FULLY_REFUNDED'' then AlreadyFullyRefunded
      else if status = 422 \<and> str_includes msg ''PAYMENT_AMOUNT_INVALID'' then AmountOrDateInvalid
      else if status = 422 then InvalidDetailsCheckForm
      else genericMessage status)"

definition humanizeCoachError :: "thrown \<Rightarrow> hebrew" where
  "humanizeCoachError err = (case status_error err of
     None \<Rightarrow> CoachSaveFailed
   | Some (msg, status) \<Rightarrow>
      if status = 404 then CoachOrClassNotFound
      else if status = 409 \<and> str_includes msg ''COACH_ALREADY_LINKED'' then CoachAlreadyLinked
      else if status = 409 \<and> str_includes msg ''CLASS_COACH_CONFLICT'' then CoachRoleTaken
      else if status = 409 then NotInCurrentStatus
      else if status = 422 \<and> str_includes msg ''EARNINGS_RANGE'' then BadDateRange
      else if status = 422 then InvalidDetails
      else genericMessage status)"

section \<open>The interface of a humanizer\<close>

text \<open>
  Each of the thirteen functions keeps one contract: it reads the error only through its message
  and status, a network failure (status 0) is always reported as such, and a server failure
  (status 500 and above) is always the system-error message. Pages that show an error rely on
  nothing else.
\<close>

locale humanizer =
  fixes humanize :: "thrown \<Rightarrow> hebrew"
  assumes humanize_generic:
    "s \<notin> {401, 403, 404, 409, 413, 415, 422, 429} \<Longrightarrow> humanize (ApiError m s) = genericMessage s"
  and humanize_status: "humanize (ErrorWithStatus m s) = humanize (ApiError m s)"
  and humanize_plain: "humanize (PlainError m) = humanize NotAnError"
begin

lemma network_failure: "humanize (ApiError m 0) = NoConnection"
  by (simp add: humanize_generic genericMessage_def)

lemma server_failure: "s \<ge> 500 \<Longrightarrow> humanize (ApiError m s) = SystemError"
  by (subst humanize_generic) (auto simp: genericMessage_def)

end

lemmas humanize_defs =
  humanizeLoginError_def humanizeTenantError_def humanizeMemberError_def humanizeClassError_def
  humanizeAttendanceError_def humanizeSubscriptionError_def humanizePlanError_def
  humanizeUserError_def humanizeUploadError_def humanizeScheduleError_def humanizeLeadError_def
  humanizePaymentError_def humanizeCoachError_def

interpretation login_err: humanizer humanizeLoginError
  by unfold_locales (simp_all add: humanize_defs)

interpretation tenant_err: humanizer humanizeTenantError
  by unfold_locales (simp_all add: humanize_defs)

interpretation member_err: humanizer humanizeMemberError
  by unfold_locales (simp_all add: humanize_defs)

interpretation class_err: humanizer humanizeClassError
  by unfold_locales (simp_all add: humanize_defs)

interpretation attendance_err: humanizer humanizeAttendanceError
  by unfold_locales (simp_all add: humanize_defs)

interpretation subscription_err: humanizer humanizeSubscriptionError
  by unfold_locales (simp_all add: humanize_defs)

interpretation plan_err: humanizer humanizePlanError
  by unfold_locales (simp_all add: humanize_defs)

interpretation user_err: humanizer humanizeUserError
  by unfold_locales (simp_all add: humanize_defs)

interpretation upload_err: humanizer humanizeUploadError
  by unfold_locales (simp_all add: humanize_defs)

interpretation schedule_err: humanizer humanizeScheduleError
  by unfold_locales (simp_all add: humanize_defs)

interpretation lead_err: humanizer humanizeLeadError
  by unfold_locales (simp_all add: humanize_defs)

interpretation payment_err: humanizer humanizePaymentError
  by unfold_locales (simp_all add: humanize_defs)

interpretation coach_err: humanizer humanizeCoachError
  by unfold_locales (simp_all add: humanize_defs)

end
