(* ===== verification/ApiClient.thy ===== *)
theory ApiClient
  imports ApiErrors
begin

text \<open>
  \<^verbatim>\<open>frontend/src/lib/api-client.ts\<close>, with \<open>login\<close> and \<open>uploadLogo\<close>, the two calls that bypass it
  (\<^verbatim>\<open>features/auth/api.ts\<close>, \<^verbatim>\<open>features/tenants/api.ts\<close>).

  The network is a parameter: a function from the request to \<open>Some\<close> response, or \<open>None\<close> when
  \<open>fetch\<close> rejects. A response body is \<open>Some\<close> JSON value or \<open>None\<close> when \<open>res.json()\<close>
  rejects. A call yields \<open>Inl\<close> the thrown value or \<open>Inr\<close> the JSON value, \<open>None\<close> standing for
  \<open>undefined\<close>.
\<close>

datatype http_method = GET | POST | PATCH | DELETE

text \<open>What \<open>fetch\<close> is given. A body is JSON text or a multipart form with one file.\<close>

datatype http_body = NoBody | JsonBody json | FormBody string string

record http_request =
  rq_method :: http_method
  rq_url :: string
  rq_headers :: "(string \<times> string) list"
  rq_credentials :: string
  rq_body :: http_body

record http_response =
  res_status :: int
  res_statusText :: string
  res_body :: "json option"

type_synonym network = "http_request \<Rightarrow> http_response option"

definition res_ok :: "http_response \<Rightarrow> bool" where
  "res_ok res = (200 \<le> res_status res \<and> res_status res \<le> 299)"

text \<open>
  \<open>data.detail\<close> of the parsed error body: \<open>Inl\<close> the TypeError that reading a property of null
  raises, else the string when \<open>typeof data.detail === "string"\<close>.
\<close>

definition detail_of :: "json \<Rightarrow> thrown + string option" where
  "detail_of data = (case data of
     JNull \<Rightarrow> Inl (PlainError ''TypeError'')
   | JObj kvs \<Rightarrow> Inr (case map_of kvs ''detail'' of Some (JStr d) \<Rightarrow> Some d | _ \<Rightarrow> None)
   | _ \<Rightarrow> Inr None)"

text \<open>\<open>await res.json().catch(() => ({}))\<close>\<close>

definition error_body :: "http_response \<Rightarrow> json" where
  "error_body res = nullish (res_body res) (JObj [])"

definition API_BASE :: string where
  "API_BASE = ''/api/v1''"

definition build_request :: "http_method \<Rightarrow> string \<Rightarrow> json option \<Rightarrow> http_request" where
  "build_request method path body = \<lparr>
     rq_method = method,
     rq_url = API_BASE @ path,
     rq_headers = [(''Content-Type'', ''application/json'')],
     rq_credentials = ''include'',
     rq_body = (case body of Some b \<Rightarrow> if truthy b then JsonBody b else NoBody | None \<Rightarrow> NoBody) \<rparr>"

text \<open>The part of \<open>request\<close> after \<open>fetch\<close> has answered.\<close>

definition handle_response :: "http_response \<Rightarrow> thrown + json option" where
  "handle_response res =
    (if res_status res = 204 then Inr None
     else if res_status res = 401 then Inl (ApiError ''Unauthorized'' 401)
     else if \<not> res_ok res then
       (case detail_of (error_body res) of
          Inl e \<Rightarrow> Inl e
        | Inr d \<Rightarrow> Inl (ApiError (nullish d (''Request failed: '' @ string_of_int (res_status res)))
                           (res_status res)))
     else (case res_body res of
             None \<Rightarrow> Inl (PlainError ''SyntaxError'')
           | Some j \<Rightarrow> Inr (Some j)))"

definition request :: "network \<Rightarrow> http_method \<Rightarrow> string \<Rightarrow> json option \<Rightarrow> thrown + json option" where
  "request fetch method path body =
     (case fetch (build_request method path body) of
        None \<Rightarrow> Inl (ApiError ''network'' 0)
      | Some res \<Rightarrow> handle_response res)"

text \<open>The four public methods, as the call they make on \<open>request\<close>.\<close>

record api_call =
  c_method :: http_method
  c_path :: string
  c_body :: "json option"

definition api_get :: "string \<Rightarrow> api_call" where
  [api_defs]: "api_get path = \<lparr>c_method = GET, c_path = path, c_body = None\<rparr>"

definition api_post :: "string \<Rightarrow> json option \<Rightarrow> api_call" where
  [api_defs]: "api_post path body = \<lparr>c_method = POST, c_path = path, c_body = body\<rparr>"

definition api_patch :: "string \<Rightarrow> json option \<Rightarrow> api_call" where
  [api_defs]: "api_patch path body = \<lparr>c_method = PATCH, c_path = path, c_body = body\<rparr>"

definition api_delete :: "string \<Rightarrow> api_call" where
  [api_defs]: "api_delete path = \<lparr>c_method = DELETE, c_path = path, c_body = None\<rparr>"

definition run_call :: "network \<Rightarrow> api_call \<Rightarrow> thrown + json option" where
  "run_call fetch c = request fetch (c_method c) (c_path c) (c_body c)"

section \<open>The two calls outside the client\<close>

definition login :: "network \<Rightarrow> json \<Rightarrow> thrown + json option" where
  "login fetch data =
     (case fetch \<lparr>rq_method = POST, rq_url = ''/api/v1/auth/login'',
                  rq_headers = [(''Content-Type'', ''application/json'')],
                  rq_credentials = ''include'', rq_body = JsonBody data\<rparr> of
        None \<Rightarrow> Inl (ApiError ''network'' 0)
      | Some res \<Rightarrow>
          if \<not> res_ok res then
            (case detail_of (error_body res) of
               Inl e \<Rightarrow> Inl e
             | Inr d \<Rightarrow> Inl (ApiError (nullish d (res_statusText res)) (res_status res)))
          else (case res_body res of
                  None \<Rightarrow> Inl (PlainError ''SyntaxError'')
                | Some j \<Rightarrow> Inr (Some j)))"

text \<open>
  \<open>uploadLogo\<close> throws a plain \<open>Error\<close>, and a rejected \<open>fetch\<close> surfaces as the TypeError that
  \<open>fetch\<close> rejects with.
\<close>

definition uploadLogo :: "network \<Rightarrow> string \<Rightarrow> thrown + json option" where
  "uploadLogo fetch file =
     (case fetch \<lparr>rq_method = POST, rq_url = ''/api/v1/uploads/logo'', rq_headers = [],
                  rq_credentials = ''include'', rq_body = FormBody ''file'' file\<rparr> of
        None \<Rightarrow> Inl (PlainError ''TypeError'')
      | Some res \<Rightarrow>
          if \<not> res_ok res then
            (case detail_of (error_body res) of
               Inl e \<Rightarrow> Inl e
             | Inr d \<Rightarrow> Inl (PlainError (nullish d (''Upload failed: '' @ string_of_int (res_status res)))))
          else (case res_body res of
                  None \<Rightarrow> Inl (PlainError ''SyntaxError'')
                | Some j \<Rightarrow> Inr (Some j)))"

section \<open>What the callers rely on\<close>

lemma detail_of_obj [simp]:
  "detail_of (JObj ((''error'', e) # (''detail'', JStr d) # r)) = Inr (Some d)"
  by (simp add: detail_of_def)

lemma handle_204: "res_status res = 204 \<Longrightarrow> handle_response res = Inr None"
  by (simp add: handle_response_def)

lemma handle_ok:
  "res_ok res \<Longrightarrow> res_status res \<noteq> 204 \<Longrightarrow> res_body res = Some j \<Longrightarrow> handle_response res = Inr (Some j)"
  by (auto simp: handle_response_def res_ok_def)

lemma handle_api_error:
  "handle_response res = Inl (ApiError m s) \<Longrightarrow> s = res_status res \<and> \<not> res_ok res"
  by (auto simp: handle_response_def res_ok_def detail_of_def error_body_def
           split: if_splits json.splits option.splits sum.splits)

lemma handle_success:
  "handle_response res = Inr r \<Longrightarrow> res_ok res \<and> r = (if res_status res = 204 then None else res_body res)"
  by (auto simp: handle_response_def res_ok_def split: if_splits option.splits sum.splits)


text \<open>Whatever page shows it, a call that could not reach the server is reported as a missing
  connection, and never as a domain error, by every humanizer.\<close>

lemma network_failure_uniform:
  "fetch (build_request m path body) = None \<Longrightarrow>
   (\<exists>e. request fetch m path body = Inl e \<and>
     (\<forall>h \<in> {humanizeLoginError, humanizeTenantError, humanizeMemberError, humanizeClassError,
            humanizeAttendanceError, humanizeSubscriptionError, humanizePlanError,
            humanizeUserError, humanizeUploadError, humanizeScheduleError, humanizeLeadError,
            humanizePaymentError, humanizeCoachError}. h e = NoConnection))"
  by (auto simp: request_def intro!: login_err.network_failure tenant_err.network_failure
        member_err.network_failure class_err.network_failure attendance_err.network_failure
        subscription_err.network_failure plan_err.network_failure user_err.network_failure
        upload_err.network_failure schedule_err.network_failure lead_err.network_failure
        payment_err.network_failure coach_err.network_failure)

lemma network_failure_uniform_witness:
  "\<exists>e. request (\<lambda>_. None) GET ''/members'' None = Inl e \<and> humanizeMemberError e = NoConnection
       \<and> humanizeLeadError e = NoConnection"
  using network_failure_uniform [of "\<lambda>_. None" GET "''/members''" None] by auto

text \<open>\<open>uploadLogo\<close> never throws a value with a status, so the upload messages for 413 and 415
  (and the connection message) are unreachable from it: every failure shows the fallback.\<close>

lemma uploadLogo_always_fallback:
  "uploadLogo fetch file = Inl e \<Longrightarrow> humanizeUploadError e = UploadFailed"
  by (auto simp: uploadLogo_def humanizeUploadError_def detail_of_def
           split: option.splits if_splits sum.splits json.splits)

lemma uploadLogo_always_fallback_witness:
  "uploadLogo (\<lambda>_. Some \<lparr>res_status = 413, res_statusText = [], res_body = None\<rparr>) ''logo.png''
     = Inl (PlainError ''Upload failed: 413'')
   \<and> humanizeUploadError (PlainError ''Upload failed: 413'') = UploadFailed"
proof -
  have call: "uploadLogo (\<lambda>_. Some \<lparr>res_status = 413, res_statusText = [], res_body = None\<rparr>) ''logo.png''
     = Inl (PlainError ''Upload failed: 413'')"
    by (simp add: uploadLogo_def res_ok_def error_body_def detail_of_def nullish_def
        string_of_int_def string_of_nat.simps digit_char_def)
  with uploadLogo_always_fallback [OF call] show ?thesis by simp
qed

end
