(* ===== verification/ServerErrors.thy ===== *)
theory ServerErrors
  imports ApiClient
begin

text \<open>
  The error half of the HTTP contract, from the server's side:
  \<^verbatim>\<open>backend/app/domain/exceptions.py\<close> (the exception classes with their messages and codes) and
  \<^verbatim>\<open>backend/app/api/error_handler.py\<close> (the status map and the JSON body), composed with the
  client's \<^const>\<open>handle_response\<close> and with the humanizers.

  Exception arguments are the texts the services pass: ids, names, status values and free-text
  reasons (the hours of an expired undo window are its one-decimal rendering).
\<close>

text \<open>Python's \<open>'{x}'\<close>: the text between single quotes.\<close>

definition quoted :: "string \<Rightarrow> string" where
  "quoted s = CHR 0x27 # s @ [CHR 0x27]"

datatype (plugins only:) app_error =
    InvalidCredentialsError
  | InsufficientPermissionsError
  | UserNotFoundError string
  | UserAlreadyExistsError string
  | TenantNotFoundError string
  | TenantSuspendedError string
  | MembershipPlanNotFoundError string
  | MembershipPlanAlreadyExistsError string
  | InvalidPlanShapeError string
  | GymClassNotFoundError string
  | GymClassAlreadyExistsError string
  | MemberNotFoundError string
  | MemberAlreadyExistsError string
  | InvalidMemberStatusTransitionError string string
  | SubscriptionNotFoundError string
  | InvalidSubscriptionStateTransitionError string string
  | MemberAlreadyHasActiveSubscriptionError string
  | SamePlanChangeError
  | SubscriptionPlanMismatchError
  | ClassEntryNotFoundError string
  | MemberHasNoActiveSubscriptionError string
  | QuotaExceededError int int
  | ClassNotCoveredByPlanError string
  | UndoWindowExpiredError string
  | ClassEntryAlreadyUndoneError string
  | CoachNotFoundError string
  | CoachAlreadyLinkedToUserError string
  | CoachStatusTransitionError string string string
  | ClassCoachLinkNotFoundError string
  | ClassCoachConflictError string
  | InvalidPayModelError string
  | InvalidEarningsRangeError string
  | FeatureDisabledError string
  | ClassScheduleTemplateNotFoundError string
  | ClassSessionNotFoundError string
  | SessionStatusTransitionError string string string
  | InvalidBulkRangeError string
  | LeadNotFoundError string
  | InvalidLeadStatusTransitionError string string string
  | LeadAlreadyConvertedError string
  | PaymentNotFoundError string
  | PaymentAmountInvalidError string
  | PaymentRefundExceedsOriginalError string int int
  | PaymentAlreadyFullyRefundedError string

primrec app_message :: "app_error \<Rightarrow> string" where
  "app_message InvalidCredentialsError = ''Invalid email or password''"
| "app_message InsufficientPermissionsError = ''Insufficient permissions''"
| "app_message (UserNotFoundError identifier) = ''User not found: '' @ identifier"
| "app_message (UserAlreadyExistsError email) = ''User already exists: '' @ email"
| "app_message (TenantNotFoundError identifier) = ''Tenant not found: '' @ identifier"
| "app_message (TenantSuspendedError tenant) = ''Tenant suspended: '' @ tenant"
| "app_message (MembershipPlanNotFoundError plan) = ''Plan not found: '' @ plan"
| "app_message (MembershipPlanAlreadyExistsError name) = ''Plan with this name already exists in this tenant: '' @ name"
| "app_message (InvalidPlanShapeError reason) = ''Invalid plan shape: '' @ reason"
| "app_message (GymClassNotFoundError cls) = ''Class not found: '' @ cls"
| "app_message (GymClassAlreadyExistsError name) = ''Class with this name already exists in this tenant: '' @ name"
| "app_message (MemberNotFoundError member) = ''Member not found: '' @ member"
| "app_message (MemberAlreadyExistsError phone) = ''Member with phone already exists in this tenant: '' @ phone"
| "app_message (InvalidMemberStatusTransitionError current action) = ''Cannot '' @ action @ '' member in status '' @ quoted current"
| "app_message (SubscriptionNotFoundError sub) = ''Subscription not found: '' @ sub"
| "app_message (InvalidSubscriptionStateTransitionError current action) = ''Cannot '' @ action @ '' subscription in status '' @ quoted current"
| "app_message (MemberAlreadyHasActiveSubscriptionError member) = ''Member already has a live subscription: '' @ member"
| "app_message SamePlanChangeError = ''New plan must differ from the current plan''"
| "app_message SubscriptionPlanMismatchError = ''Plan and member belong to different tenants''"
| "app_message (ClassEntryNotFoundError entry) = ''Class entry not found: '' @ entry"
| "app_message (MemberHasNoActiveSubscriptionError member) = ''Member has no active subscription: '' @ member"
| "app_message (QuotaExceededError used quantity) = ''Quota exceeded: '' @ string_of_int used @ ''/'' @ string_of_int quantity @ '' used in the current window''"
| "app_message (ClassNotCoveredByPlanError cls) = ''Class not covered by the member'' @ [CHR 0x27] @ ''s plan: '' @ cls"
| "app_message (UndoWindowExpiredError hours) = ''Undo window expired ('' @ hours @ ''h since entry)''"
| "app_message (ClassEntryAlreadyUndoneError entry) = ''Class entry already undone: '' @ entry"
| "app_message (CoachNotFoundError coach) = ''Coach not found: '' @ coach"
| "app_message (CoachAlreadyLinkedToUserError coach) = ''Coach already linked to a user: '' @ coach"
| "app_message (CoachStatusTransitionError coach current attempted) = ''Cannot '' @ attempted @ '' coach '' @ coach @ '' in status '' @ current"
| "app_message (ClassCoachLinkNotFoundError link) = ''Class-coach link not found: '' @ link"
| "app_message (ClassCoachConflictError detail) = detail"
| "app_message (InvalidPayModelError value) = ''Invalid pay_model: '' @ quoted value @ ''. Expected one of '' @ quoted ''fixed'' @ '', '' @ quoted ''per_session'' @ '', '' @ quoted ''per_attendance'' @ ''.''"
| "app_message (InvalidEarningsRangeError detail) = detail"
| "app_message (FeatureDisabledError feature) = ''Feature '' @ quoted feature @ '' is not enabled for this tenant''"
| "app_message (ClassScheduleTemplateNotFoundError template) = ''Schedule template not found: '' @ template"
| "app_message (ClassSessionNotFoundError session) = ''Class session not found: '' @ session"
| "app_message (SessionStatusTransitionError session current attempted) = ''Cannot '' @ attempted @ '' session '' @ session @ '' in status '' @ current"
| "app_message (InvalidBulkRangeError detail) = detail"
| "app_message (LeadNotFoundError lead) = ''Lead not found: '' @ lead"
| "app_message (InvalidLeadStatusTransitionError lead current attempted) = ''Cannot transition lead '' @ lead @ '' from '' @ current @ '' to '' @ attempted"
| "app_message (LeadAlreadyConvertedError lead) = ''Lead already converted: '' @ lead"
| "app_message (PaymentNotFoundError payment) = ''Payment not found: '' @ payment"
| "app_message (PaymentAmountInvalidError reason) = ''Invalid payment amount: '' @ reason"
| "app_message (PaymentRefundExceedsOriginalError payment requested remaining) = ''Refund of '' @ string_of_int requested @ '' exceeds remaining '' @ string_of_int remaining @ '' on payment '' @ payment"
| "app_message (PaymentAlreadyFullyRefundedError payment) = ''Payment already fully refunded: '' @ payment"

primrec app_code :: "app_error \<Rightarrow> string" where
  "app_code InvalidCredentialsError = ''INVALID_CREDENTIALS''"
| "app_code InsufficientPermissionsError = ''INSUFFICIENT_PERMISSIONS''"
| "app_code (UserNotFoundError _) = ''USER_NOT_FOUND''"
| "app_code (UserAlreadyExistsError _) = ''USER_ALREADY_EXISTS''"
| "app_code (TenantNotFoundError _) = ''TENANT_NOT_FOUND''"
| "app_code (TenantSuspendedError _) = ''TENANT_SUSPENDED''"
| "app_code (MembershipPlanNotFoundError _) = ''PLAN_NOT_FOUND''"
| "app_code (MembershipPlanAlreadyExistsError _) = ''PLAN_ALREADY_EXISTS''"
| "app_code (InvalidPlanShapeError _) = ''PLAN_INVALID_SHAPE''"
| "app_code (GymClassNotFoundError _) = ''CLASS_NOT_FOUND''"
| "app_code (GymClassAlreadyExistsError _) = ''CLASS_ALREADY_EXISTS''"
| "app_code (MemberNotFoundError _) = ''MEMBER_NOT_FOUND''"
| "app_code (MemberAlreadyExistsError _) = ''MEMBER_ALREADY_EXISTS''"
| "app_code (InvalidMemberStatusTransitionError _ _) = ''MEMBER_INVALID_TRANSITION''"
| "app_code (SubscriptionNotFoundError _) = ''SUBSCRIPTION_NOT_FOUND''"
| "app_code (InvalidSubscriptionStateTransitionError _ _) = ''SUBSCRIPTION_INVALID_TRANSITION''"
| "app_code (MemberAlreadyHasActiveSubscriptionError _) = ''MEMBER_HAS_ACTIVE_SUBSCRIPTION''"
| "app_code SamePlanChangeError = ''SUBSCRIPTION_SAME_PLAN''"
| "app_code SubscriptionPlanMismatchError = ''SUBSCRIPTION_PLAN_TENANT_MISMATCH''"
| "app_code (ClassEntryNotFoundError _) = ''CLASS_ENTRY_NOT_FOUND''"
| "app_code (MemberHasNoActiveSubscriptionError _) = ''MEMBER_NO_ACTIVE_SUBSCRIPTION''"
| "app_code (QuotaExceededError _ _) = ''ATTENDANCE_QUOTA_EXCEEDED''"
| "app_code (ClassNotCoveredByPlanError _) = ''ATTENDANCE_CLASS_NOT_COVERED''"
| "app_code (UndoWindowExpiredError _) = ''ATTENDANCE_UNDO_WINDOW_EXPIRED''"
| "app_code (ClassEntryAlreadyUndoneError _) = ''ATTENDANCE_ALREADY_UNDONE''"
| "app_code (CoachNotFoundError _) = ''COACH_NOT_FOUND''"
| "app_code (CoachAlreadyLinkedToUserError _) = ''COACH_ALREADY_LINKED''"
| "app_code (CoachStatusTransitionError _ _ _) = ''COACH_STATUS_TRANSITION''"
| "app_code (ClassCoachLinkNotFoundError _) = ''CLASS_COACH_LINK_NOT_FOUND''"
| "app_code (ClassCoachConflictError _) = ''CLASS_COACH_CONFLICT''"
| "app_code (InvalidPayModelError _) = ''COACH_INVALID_PAY_MODEL''"
| "app_code (InvalidEarningsRangeError _) = ''COACH_INVALID_EARNINGS_RANGE''"
| "app_code (FeatureDisabledError _) = ''FEATURE_DISABLED''"
| "app_code (ClassScheduleTemplateNotFoundError _) = ''SCHEDULE_TEMPLATE_NOT_FOUND''"
| "app_code (ClassSessionNotFoundError _) = ''SCHEDULE_SESSION_NOT_FOUND''"
| "app_code (SessionStatusTransitionError _ _ _) = ''SCHEDULE_SESSION_TRANSITION''"
| "app_code (InvalidBulkRangeError _) = ''SCHEDULE_INVALID_BULK_RANGE''"
| "app_code (LeadNotFoundError _) = ''LEAD_NOT_FOUND''"
| "app_code (InvalidLeadStatusTransitionError _ _ _) = ''INVALID_LEAD_STATUS_TRANSITION''"
| "app_code (LeadAlreadyConvertedError _) = ''LEAD_ALREADY_CONVERTED''"
| "app_code (PaymentNotFoundError _) = ''PAYMENT_NOT_FOUND''"
| "app_code (PaymentAmountInvalidError _) = ''PAYMENT_AMOUNT_INVALID''"
| "app_code (PaymentRefundExceedsOriginalError _ _ _) = ''PAYMENT_REFUND_EXCEEDS_ORIGINAL''"
| "app_code (PaymentAlreadyFullyRefundedError _) = ''PAYMENT_ALREADY_FULLY_REFUNDED''"

definition STATUS_MAP :: "(string \<times> int) list" where
  "STATUS_MAP = [
    (''INVALID_CREDENTIALS'', 401),
    (''INSUFFICIENT_PERMISSIONS'', 403),
    (''USER_NOT_FOUND'', 404),
    (''USER_ALREADY_EXISTS'', 409),
    (''TENANT_NOT_FOUND'', 404),
    (''TENANT_SUSPENDED'', 403),
    (''TENANT_SLUG_TAKEN'', 409),
    (''MEMBER_NOT_FOUND'', 404),
    (''MEMBER_ALREADY_EXISTS'', 409),
    (''MEMBER_INVALID_TRANSITION'', 409),
    (''CLASS_NOT_FOUND'', 404),
    (''CLASS_ALREADY_EXISTS'', 409),
    (''PLAN_NOT_FOUND'', 404),
    (''PLAN_ALREADY_EXISTS'', 409),
    (''PLAN_INVALID_SHAPE'', 422),
    (''SUBSCRIPTION_NOT_FOUND'', 404),
    (''SUBSCRIPTION_INVALID_TRANSITION'', 409),
    (''MEMBER_HAS_ACTIVE_SUBSCRIPTION'', 409),
    (''SUBSCRIPTION_SAME_PLAN'', 409),
    (''SUBSCRIPTION_PLAN_TENANT_MISMATCH'', 422),
    (''CLASS_ENTRY_NOT_FOUND'', 404),
    (''MEMBER_NO_ACTIVE_SUBSCRIPTION'', 409),
    (''ATTENDANCE_QUOTA_EXCEEDED'', 409),
    (''ATTENDANCE_CLASS_NOT_COVERED'', 409),
    (''ATTENDANCE_UNDO_WINDOW_EXPIRED'', 409),
    (''ATTENDANCE_ALREADY_UNDONE'', 409),
    (''COACH_NOT_FOUND'', 404),
    (''COACH_ALREADY_LINKED'', 409),
    (''COACH_STATUS_TRANSITION'', 409),
    (''CLASS_COACH_LINK_NOT_FOUND'', 404),
    (''CLASS_COACH_CONFLICT'', 409),
    (''COACH_INVALID_PAY_MODEL'', 422),
    (''COACH_INVALID_EARNINGS_RANGE'', 422),
    (''FEATURE_DISABLED'', 403),
    (''SCHEDULE_TEMPLATE_NOT_FOUND'', 404),
    (''SCHEDULE_SESSION_NOT_FOUND'', 404),
    (''SCHEDULE_SESSION_TRANSITION'', 409),
    (''SCHEDULE_INVALID_BULK_RANGE'', 422),
    (''LEAD_NOT_FOUND'', 404),
    (''INVALID_LEAD_STATUS_TRANSITION'', 409),
    (''LEAD_ALREADY_CONVERTED'', 409),
    (''PAYMENT_NOT_FOUND'', 404),
    (''PAYMENT_AMOUNT_INVALID'', 422),
    (''PAYMENT_REFUND_EXCEEDS_ORIGINAL'', 409),
    (''PAYMENT_ALREADY_FULLY_REFUNDED'', 409)
  ]"

definition DEFAULT_STATUS :: int where
  "DEFAULT_STATUS = 500"

text \<open>\<open>app_error_handler\<close>: the code's status and the body with \<open>error\<close> and \<open>detail\<close>.\<close>

definition app_error_handler :: "app_error \<Rightarrow> http_response" where
  "app_error_handler exc = \<lparr>
     res_status = nullish (map_of STATUS_MAP (app_code exc)) DEFAULT_STATUS,
     res_statusText = [],
     res_body = Some (JObj [(''error'', JStr (app_code exc)), (''detail'', JStr (app_message exc))])\<rparr>"

definition app_status :: "app_error \<Rightarrow> int" where
  "app_status exc = res_status (app_error_handler exc)"

lemma app_status_eval: "app_status exc = nullish (map_of STATUS_MAP (app_code exc)) DEFAULT_STATUS"
  by (simp add: app_status_def app_error_handler_def)

lemmas app_status_simps = app_status_eval STATUS_MAP_def nullish_def

lemma app_status_table [simp]:
  "app_status InvalidCredentialsError = 401"
  "app_status InsufficientPermissionsError = 403"
  "app_status (UserNotFoundError identifier) = 404"
  "app_status (UserAlreadyExistsError email) = 409"
  "app_status (TenantNotFoundError identifier) = 404"
  "app_status (TenantSuspendedError tenant) = 403"
  "app_status (MembershipPlanNotFoundError plan) = 404"
  "app_status (MembershipPlanAlreadyExistsError name) = 409"
  "app_status (InvalidPlanShapeError reason) = 422"
  "app_status (GymClassNotFoundError cls) = 404"
  "app_status (GymClassAlreadyExistsError name) = 409"
  "app_status (MemberNotFoundError member) = 404"
  "app_status (MemberAlreadyExistsError phone) = 409"
  "app_status (InvalidMemberStatusTransitionError current action) = 409"
  "app_status (SubscriptionNotFoundError sub) = 404"
  "app_status (InvalidSubscriptionStateTransitionError current action) = 409"
  "app_status (MemberAlreadyHasActiveSubscriptionError member) = 409"
  "app_status SamePlanChangeError = 409"
  "app_status SubscriptionPlanMismatchError = 422"
  "app_status (ClassEntryNotFoundError entry) = 404"
  "app_status (MemberHasNoActiveSubscriptionError member) = 409"
  "app_status (QuotaExceededError used quantity) = 409"
  "app_status (ClassNotCoveredByPlanError cls) = 409"
  "app_status (UndoWindowExpiredError hours) = 409"
  "app_status (ClassEntryAlreadyUndoneError entry) = 409"
  "app_status (CoachNotFoundError coach) = 404"
  "app_status (CoachAlreadyLinkedToUserError coach) = 409"
  "app_status (CoachStatusTransitionError coach current attempted) = 409"
  "app_status (ClassCoachLinkNotFoundError link) = 404"
  "app_status (ClassCoachConflictError detail) = 409"
  "app_status (InvalidPayModelError value) = 422"
  "app_status (InvalidEarningsRangeError detail) = 422"
  "app_status (FeatureDisabledError feature) = 403"
  "app_status (ClassScheduleTemplateNotFoundError template) = 404"
  "app_status (ClassSessionNotFoundError session) = 404"
  "app_status (SessionStatusTransitionError session current attempted) = 409"
  "app_status (InvalidBulkRangeError detail) = 422"
  "app_status (LeadNotFoundError lead) = 404"
  "app_status (InvalidLeadStatusTransitionError lead current attempted) = 409"
  "app_status (LeadAlreadyConvertedError lead) = 409"
  "app_status (PaymentNotFoundError payment) = 404"
  "app_status (PaymentAmountInvalidError reason) = 422"
  "app_status (PaymentRefundExceedsOriginalError payment requested remaining) = 409"
  "app_status (PaymentAlreadyFullyRefundedError payment) = 409"
  by (simp_all add: app_status_simps)

lemma app_status_error: "400 \<le> app_status exc"
  by (cases exc) simp_all

lemma app_status_unauthorized: "app_status exc = 401 \<longleftrightarrow> exc = InvalidCredentialsError"
  by (cases exc) simp_all

text \<open>What the client throws for a domain error: the message travels, the code does not.\<close>

lemma handle_app_error:
  "exc \<noteq> InvalidCredentialsError \<Longrightarrow>
   handle_response (app_error_handler exc) = Inl (ApiError (app_message exc) (app_status exc))"
proof -
  assume "exc \<noteq> InvalidCredentialsError"
  then have "app_status exc \<noteq> 401" by (simp add: app_status_unauthorized)
  moreover have "400 \<le> app_status exc" by (rule app_status_error)
  moreover have "detail_of (error_body (app_error_handler exc)) = Inr (Some (app_message exc))"
    by (simp add: app_error_handler_def error_body_def nullish_def)
  ultimately show ?thesis
    by (simp add: handle_response_def res_ok_def app_status_def nullish_def)
qed

end
