(* ===== verification/ErrorContract.thy ===== *)
theory ErrorContract
  imports ServerErrors
begin

text \<open>
  What the user reads when the server raises a domain error: the server's handler, the client's
  \<^const>\<open>handle_response\<close> and a humanizer, composed. The contract a page needs is that each error
  its service raises is shown with the message written for it.
\<close>

text \<open>The message shown for a domain error, through the whole path.\<close>

definition shown :: "(thrown \<Rightarrow> hebrew) \<Rightarrow> app_error \<Rightarrow> hebrew option" where
  "shown humanize exc =
     (case handle_response (app_error_handler exc) of Inl e \<Rightarrow> Some (humanize e) | Inr _ \<Rightarrow> None)"

lemma shown_eq:
  "exc \<noteq> InvalidCredentialsError \<Longrightarrow>
   shown humanize exc = Some (humanize (ApiError (app_message exc) (app_status exc)))"
  by (simp add: shown_def handle_app_error)

text \<open>Ids, counts and hour figures: the only arguments of the attendance messages.\<close>

definition id_text :: "string \<Rightarrow> bool" where
  "id_text s \<longleftrightarrow> set s \<subseteq> set ''0123456789abcdef-.''"

lemma id_text_not_includes:
  "id_text s \<Longrightarrow> c \<in> set p \<Longrightarrow> c \<notin> set ''0123456789abcdef-.'' \<Longrightarrow> \<not> str_includes s p"
  unfolding id_text_def using not_includes_char by blast

lemma lower_id_text:
  assumes "id_text s" shows "toLowerCase s = s"
proof -
  have "\<forall>c \<in> set ''0123456789abcdef-.''. lower_char c = c" by (simp add: js_simps)
  then have "\<forall>c \<in> set s. lower_char c = c" using assms unfolding id_text_def by blast
  then show ?thesis by (simp add: toLowerCase_def map_idI)
qed

lemma id_text_digit: "d < 10 \<Longrightarrow> digit_char d \<in> set ''0123456789abcdef-.''"
proof -
  assume "d < 10"
  then have "d \<in> set [0..<10]" by simp
  also have "[0..<10] = [0, 1, 2, 3, 4, 5, 6, 7, 8, 9::nat]" by (simp add: upt_rec)
  finally show ?thesis by (auto simp: digit_char_def)
qed

lemma id_text_append [simp]: "id_text (s @ t) \<longleftrightarrow> id_text s \<and> id_text t"
  by (simp add: id_text_def)

lemma id_text_single: "d < 10 \<Longrightarrow> id_text [digit_char d]"
  using id_text_digit [of d] by (simp add: id_text_def)

lemma id_text_nat: "id_text (string_of_nat n)"
proof (induction n rule: string_of_nat.induct)
  case (1 n)
  show ?case
  proof (cases "n < 10")
    case True
    then show ?thesis by (simp add: string_of_nat.simps [of n] id_text_single)
  next
    case False
    with "1.IH" show ?thesis by (simp add: string_of_nat.simps [of n] id_text_single)
  qed
qed

lemma id_text_int: "id_text (string_of_int i)"
  using id_text_nat by (auto simp: string_of_int_def id_text_def)

text \<open>Searching a phrase in a message that starts with a known text: the phrase is found at one of
  its positions, or later.\<close>

lemmas includes_eval = str_includes.simps prefix_Cons

lemma includes_after_id:
  "id_text s \<Longrightarrow> c \<notin> set ''0123456789abcdef-.'' \<Longrightarrow> str_includes (s @ t) (c # p) \<longleftrightarrow> str_includes t (c # p)"
  by (induction s) (auto simp: id_text_def)

lemma includes_id:
  "id_text s \<Longrightarrow> c \<notin> set ''0123456789abcdef-.'' \<Longrightarrow> \<not> str_includes s (c # p)"
  by (rule id_text_not_includes) auto

section \<open>Attendance\<close>

text \<open>Every conflict the attendance service raises is shown with the message meant for it,
  whatever the ids and counts.\<close>

lemma attendance_errors_shown:
  assumes "id_text m" "id_text c" "id_text h" "id_text e"
  shows "shown humanizeAttendanceError (MemberHasNoActiveSubscriptionError m) = Some NoActiveSubscription
    \<and> shown humanizeAttendanceError (UndoWindowExpiredError h) = Some UndoWindowClosed
    \<and> shown humanizeAttendanceError (ClassEntryAlreadyUndoneError e) = Some EntryAlreadyUndone
    \<and> shown humanizeAttendanceError (QuotaExceededError used quantity) = Some QuotaExhausted
    \<and> shown humanizeAttendanceError (ClassNotCoveredByPlanError c) = Some ClassNotInPlan"
proof -
  note ids = assms id_text_int [of used] id_text_int [of quantity]
  note ev = shown_eq humanizeAttendanceError_def includes_eval lower_id_text ids includes_id Let_def
  have e1: "shown humanizeAttendanceError (MemberHasNoActiveSubscriptionError m) = Some NoActiveSubscription"
    by (simp add: ev)
  have e2: "shown humanizeAttendanceError (UndoWindowExpiredError h) = Some UndoWindowClosed"
    by (simp add: ev includes_after_id)
  have e3: "shown humanizeAttendanceError (ClassEntryAlreadyUndoneError e) = Some EntryAlreadyUndone"
    by (simp add: ev includes_after_id)
  have l: "CHR ''l'' \<notin> set (string_of_int i)" for i
    using id_text_int [of i] by (auto simp: id_text_def)
  have undone: "\<not> str_includes (string_of_int used @ CHR ''/'' # string_of_int quantity @ t) ''already undone''"
    if "CHR ''l'' \<notin> set t" for t
    by (rule not_includes_char [of "CHR ''l''"]) (use l that in simp_all)
  have e4: "shown humanizeAttendanceError (QuotaExceededError used quantity) = Some QuotaExhausted"
    by (simp add: ev includes_after_id undone)
  have undone_c: "\<not> str_includes c ''already undone''"
    by (rule id_text_not_includes [OF assms(2), of "CHR ''l''"]) simp_all
  have e5: "shown humanizeAttendanceError (ClassNotCoveredByPlanError c) = Some ClassNotInPlan"
    by (simp add: ev includes_after_id undone_c)
  from e1 e2 e3 e4 e5 show ?thesis by simp
qed

lemma attendance_errors_shown_witness:
  "shown humanizeAttendanceError (ClassNotCoveredByPlanError ''0f3a-9'') = Some ClassNotInPlan
   \<and> shown humanizeAttendanceError (QuotaExceededError 3 3) = Some QuotaExhausted"
  using attendance_errors_shown [of "''1''" "''0f3a-9''" "''25.0''" "''2''" 3 3]
  by (simp add: id_text_def)

section \<open>Members and subscriptions\<close>

text \<open>The member conflicts are told apart: a phone collision shows the phone message whatever
  the phone, and every illegal status change shows the status message.\<close>

lemma member_errors_shown:
  "shown humanizeMemberError (MemberAlreadyExistsError phone) = Some MemberPhoneExists
   \<and> (\<forall>current \<in> {''active'', ''frozen'', ''cancelled'', ''expired''}.
        \<forall>action \<in> {''freeze'', ''unfreeze'', ''cancel''}.
          shown humanizeMemberError (InvalidMemberStatusTransitionError current action)
            = Some NotInCurrentStatus)"
proof -
  have phone: "shown humanizeMemberError (MemberAlreadyExistsError phone) = Some MemberPhoneExists"
    by (simp add: shown_eq humanizeMemberError_def includes_eval)
  have status: "shown humanizeMemberError (InvalidMemberStatusTransitionError current action)
      = Some NotInCurrentStatus"
    if "current \<in> {''active'', ''frozen'', ''cancelled'', ''expired''}"
       "action \<in> {''freeze'', ''unfreeze'', ''cancel''}" for current action
  proof -
    have y: "CHR ''y'' \<notin> set (toLowerCase current)" "CHR ''y'' \<notin> set (toLowerCase action)"
      using that by (elim insertE emptyE; simp)+
    have "\<not> str_includes (toLowerCase (app_message (InvalidMemberStatusTransitionError current action))) ''already exists''"
      by (rule not_includes_char [of "CHR ''y''"]) (use y in \<open>simp_all add: quoted_def\<close>)
    moreover have "str_includes (toLowerCase (app_message (InvalidMemberStatusTransitionError current action))) ''cannot ''"
      by (simp add: includes_eval)
    ultimately show ?thesis
      by (simp add: shown_eq humanizeMemberError_def del: app_message.simps)
  qed
  from phone status show ?thesis by blast
qed

lemma member_errors_shown_witness:
  "shown humanizeMemberError (InvalidMemberStatusTransitionError ''cancelled'' ''freeze'')
     = Some NotInCurrentStatus"
  using member_errors_shown [of "''0501234567''"] by blast

text \<open>The subscription conflicts: a second live subscription and an illegal status change show
  their messages, but a change to the same plan shows the status message: the phrase the client
  looks for is not in the server's text.\<close>

lemma subscription_errors_shown:
  "shown humanizeSubscriptionError (MemberAlreadyHasActiveSubscriptionError m) = Some AlreadyActiveSubscription
   \<and> shown humanizeSubscriptionError SamePlanChangeError = Some NotInCurrentStatus
   \<and> (\<forall>current \<in> {''active'', ''frozen'', ''cancelled'', ''expired'', ''replaced'', ''inactive''}.
        \<forall>action \<in> {''freeze'', ''unfreeze'', ''renew'', ''change plan'', ''cancel'', ''subscribe to''}.
          shown humanizeSubscriptionError (InvalidSubscriptionStateTransitionError current action)
            = Some NotInCurrentStatus)"
proof -
  note ev = shown_eq humanizeSubscriptionError_def includes_eval quoted_def
  have already: "shown humanizeSubscriptionError (MemberAlreadyHasActiveSubscriptionError m)
      = Some AlreadyActiveSubscription"
    by (simp add: ev)
  have same: "shown humanizeSubscriptionError SamePlanChangeError = Some NotInCurrentStatus"
    by (simp add: ev)
  have status: "shown humanizeSubscriptionError (InvalidSubscriptionStateTransitionError current action)
      = Some NotInCurrentStatus"
    if "current \<in> {''active'', ''frozen'', ''cancelled'', ''expired'', ''replaced'', ''inactive''}"
       "action \<in> {''freeze'', ''unfreeze'', ''renew'', ''change plan'', ''cancel'', ''subscribe to''}"
    for current action
  proof -
    have y: "CHR ''y'' \<notin> set (toLowerCase current)" "CHR ''y'' \<notin> set (toLowerCase action)"
      and m: "CHR ''m'' \<notin> set (toLowerCase current)" "CHR ''m'' \<notin> set (toLowerCase action)"
      using that by (elim insertE emptyE; simp)+
    have "\<not> str_includes (toLowerCase (app_message (InvalidSubscriptionStateTransitionError current action))) ''already''"
      by (rule not_includes_char [of "CHR ''y''"]) (use y in \<open>simp_all add: quoted_def\<close>)
    moreover have "\<not> str_includes (toLowerCase (app_message (InvalidSubscriptionStateTransitionError current action))) ''same plan''"
      by (rule not_includes_char [of "CHR ''m''"]) (use m in \<open>simp_all add: quoted_def\<close>)
    ultimately show ?thesis
      by (simp add: shown_eq humanizeSubscriptionError_def Let_def del: app_message.simps)
  qed
  from already same status show ?thesis by blast
qed

lemma subscription_errors_shown_witness:
  "shown humanizeSubscriptionError (InvalidSubscriptionStateTransitionError ''expired'' ''freeze'')
     = Some NotInCurrentStatus"
  using subscription_errors_shown [of "''7''"] by blast

section \<open>Branches on error codes\<close>

text \<open>The branches that look for an error code in the message are never taken for the server's
  errors: the client keeps the body's \<open>detail\<close> text and drops its \<open>error\<close> code, so any error
  whose text has no underscore falls to the generic message of its status.\<close>

lemma code_branches_never_taken:
  "CHR 0x5F \<notin> set (app_message exc) \<Longrightarrow> exc \<noteq> InvalidCredentialsError \<Longrightarrow>
   (shown humanizeLeadError exc = Some
      (if app_status exc = 404 then LeadNotFound
       else if app_status exc = 422 then InvalidDetailsCheckForm else genericMessage (app_status exc)))
   \<and> (shown humanizePaymentError exc = Some
      (if app_status exc = 403 then NoPermission else if app_status exc = 404 then PaymentNotFound
       else if app_status exc = 422 then InvalidDetailsCheckForm else genericMessage (app_status exc)))
   \<and> (shown humanizeScheduleError exc = Some
      (if app_status exc = 404 then SessionOrTemplateNotFound
       else if app_status exc = 409 then ActionNotPossible
       else if app_status exc = 422 then InvalidDetails else genericMessage (app_status exc)))
   \<and> (shown humanizeCoachError exc = Some
      (if app_status exc = 404 then CoachOrClassNotFound
       else if app_status exc = 409 then NotInCurrentStatus
       else if app_status exc = 422 then InvalidDetails else genericMessage (app_status exc)))"
proof -
  assume m: "CHR 0x5F \<notin> set (app_message exc)" and i: "exc \<noteq> InvalidCredentialsError"
  have none: "\<not> str_includes (app_message exc) p" if "CHR 0x5F \<in> set p" for p
    using that m by (rule not_includes_char)
  have codes [simp]: "\<not> str_includes (app_message exc) ''FEATURE_DISABLED''"
    "\<not> str_includes (app_message exc) ''PLAN_NOT_FOUND''"
    "\<not> str_includes (app_message exc) ''LEAD_ALREADY_CONVERTED''"
    "\<not> str_includes (app_message exc) ''INVALID_LEAD_STATUS_TRANSITION''"
    "\<not> str_includes (app_message exc) ''MEMBER_ALREADY_EXISTS''"
    "\<not> str_includes (app_message exc) ''SUBSCRIPTION_PLAN_TENANT_MISMATCH''"
    "\<not> str_includes (app_message exc) ''PAYMENT_REFUND_EXCEEDS_ORIGINAL''"
    "\<not> str_includes (app_message exc) ''PAYMENT_ALREADY_FULLY_REFUNDED''"
    "\<not> str_includes (app_message exc) ''PAYMENT_AMOUNT_INVALID''"
    "\<not> str_includes (app_message exc) ''SESSION_TRANSITION''"
    "\<not> str_includes (app_message exc) ''INVALID_BULK_RANGE''"
    "\<not> str_includes (app_message exc) ''COACH_ALREADY_LINKED''"
    "\<not> str_includes (app_message exc) ''CLASS_COACH_CONFLICT''"
    "\<not> str_includes (app_message exc) ''EARNINGS_RANGE''"
    by (rule none, simp)+
  show ?thesis
    by (simp add: shown_eq i humanizeLeadError_def humanizePaymentError_def
        humanizeScheduleError_def humanizeCoachError_def)
qed

lemma code_branches_never_taken_witness:
  "shown humanizePaymentError (PaymentRefundExceedsOriginalError ''p1'' 900 400) = Some ItemExists
   \<and> shown humanizeLeadError (LeadAlreadyConvertedError ''l1'') = Some ItemExists"
proof -
  have p: "CHR 0x5F \<notin> set (app_message (PaymentRefundExceedsOriginalError ''p1'' 900 400))"
    and l: "CHR 0x5F \<notin> set (app_message (LeadAlreadyConvertedError ''l1''))"
    by (simp_all add: string_of_int_def string_of_nat.simps digit_char_def)
  show ?thesis
    using code_branches_never_taken [OF p] code_branches_never_taken [OF l]
    by (simp add: genericMessage_def)
qed

end
