(* ===== verification/Types.thy ===== *)
theory Types
  imports Prelude
begin

text \<open>
  The data the API exchanges, as \<^verbatim>\<open>frontend/src/lib/api-schema.ts\<close> declares it (the friendly
  names are those of \<^verbatim>\<open>frontend/src/lib/api-types.ts\<close>): one datatype per string union, with the
  wire text of each constructor, and one record per response schema, field by field. A field that
  may be null or absent is an option; dates and times are their ISO texts; money is an integer
  number of agorot; open-ended JSON is \<^typ>\<open>json\<close>.
\<close>

section \<open>String unions\<close>

datatype role = R_super_admin | R_owner | R_staff | R_sales | R_coach

fun role_text :: "role \<Rightarrow> string" where
  "role_text R_super_admin = ''super_admin''"
| "role_text R_owner = ''owner''"
| "role_text R_staff = ''staff''"
| "role_text R_sales = ''sales''"
| "role_text R_coach = ''coach''"

datatype tenant_status = TS_trial | TS_active | TS_suspended | TS_cancelled

fun tenant_status_text :: "tenant_status \<Rightarrow> string" where
  "tenant_status_text TS_trial = ''trial''"
| "tenant_status_text TS_active = ''active''"
| "tenant_status_text TS_suspended = ''suspended''"
| "tenant_status_text TS_cancelled = ''cancelled''"

datatype member_status = MS_active | MS_frozen | MS_cancelled | MS_expired

fun member_status_text :: "member_status \<Rightarrow> string" where
  "member_status_text MS_active = ''active''"
| "member_status_text MS_frozen = ''frozen''"
| "member_status_text MS_cancelled = ''cancelled''"
| "member_status_text MS_expired = ''expired''"

datatype plan_type = PT_recurring | PT_one_time

fun plan_type_text :: "plan_type \<Rightarrow> string" where
  "plan_type_text PT_recurring = ''recurring''"
| "plan_type_text PT_one_time = ''one_time''"

datatype billing_period = BP_monthly | BP_quarterly | BP_yearly | BP_one_time

fun billing_period_text :: "billing_period \<Rightarrow> string" where
  "billing_period_text BP_monthly = ''monthly''"
| "billing_period_text BP_quarterly = ''quarterly''"
| "billing_period_text BP_yearly = ''yearly''"
| "billing_period_text BP_one_time = ''one_time''"

datatype reset_period = RP_weekly | RP_monthly | RP_billing_period | RP_never | RP_unlimited

fun reset_period_text :: "reset_period \<Rightarrow> string" where
  "reset_period_text RP_weekly = ''weekly''"
| "reset_period_text RP_monthly = ''monthly''"
| "reset_period_text RP_billing_period = ''billing_period''"
| "reset_period_text RP_never = ''never''"
| "reset_period_text RP_unlimited = ''unlimited''"

datatype subscription_status = SS_active | SS_frozen | SS_expired | SS_cancelled | SS_replaced

fun subscription_status_text :: "subscription_status \<Rightarrow> string" where
  "subscription_status_text SS_active = ''active''"
| "subscription_status_text SS_frozen = ''frozen''"
| "subscription_status_text SS_expired = ''expired''"
| "subscription_status_text SS_cancelled = ''cancelled''"
| "subscription_status_text SS_replaced = ''replaced''"

datatype subscription_event_type = SE_created | SE_frozen | SE_unfrozen | SE_expired | SE_renewed | SE_replaced | SE_changed_plan | SE_cancelled

fun subscription_event_type_text :: "subscription_event_type \<Rightarrow> string" where
  "subscription_event_type_text SE_created = ''created''"
| "subscription_event_type_text SE_frozen = ''frozen''"
| "subscription_event_type_text SE_unfrozen = ''unfrozen''"
| "subscription_event_type_text SE_expired = ''expired''"
| "subscription_event_type_text SE_renewed = ''renewed''"
| "subscription_event_type_text SE_replaced = ''replaced''"
| "subscription_event_type_text SE_changed_plan = ''changed_plan''"
| "subscription_event_type_text SE_cancelled = ''cancelled''"

datatype payment_method = PM_cash | PM_credit_card | PM_standing_order | PM_other

fun payment_method_text :: "payment_method \<Rightarrow> string" where
  "payment_method_text PM_cash = ''cash''"
| "payment_method_text PM_credit_card = ''credit_card''"
| "payment_method_text PM_standing_order = ''standing_order''"
| "payment_method_text PM_other = ''other''"

datatype override_kind = OK_quota_exceeded | OK_not_covered

fun override_kind_text :: "override_kind \<Rightarrow> string" where
  "override_kind_text OK_quota_exceeded = ''quota_exceeded''"
| "override_kind_text OK_not_covered = ''not_covered''"

datatype coach_status = CS_active | CS_frozen | CS_cancelled

fun coach_status_text :: "coach_status \<Rightarrow> string" where
  "coach_status_text CS_active = ''active''"
| "coach_status_text CS_frozen = ''frozen''"
| "coach_status_text CS_cancelled = ''cancelled''"

datatype pay_model = PY_fixed | PY_per_session | PY_per_attendance

fun pay_model_text :: "pay_model \<Rightarrow> string" where
  "pay_model_text PY_fixed = ''fixed''"
| "pay_model_text PY_per_session = ''per_session''"
| "pay_model_text PY_per_attendance = ''per_attendance''"

datatype session_status = SN_scheduled | SN_cancelled

fun session_status_text :: "session_status \<Rightarrow> string" where
  "session_status_text SN_scheduled = ''scheduled''"
| "session_status_text SN_cancelled = ''cancelled''"

datatype lead_source = LO_walk_in | LO_website | LO_referral | LO_social_media | LO_ad | LO_other

fun lead_source_text :: "lead_source \<Rightarrow> string" where
  "lead_source_text LO_walk_in = ''walk_in''"
| "lead_source_text LO_website = ''website''"
| "lead_source_text LO_referral = ''referral''"
| "lead_source_text LO_social_media = ''social_media''"
| "lead_source_text LO_ad = ''ad''"
| "lead_source_text LO_other = ''other''"

datatype lead_status = LD_new | LD_contacted | LD_trial | LD_converted | LD_lost

fun lead_status_text :: "lead_status \<Rightarrow> string" where
  "lead_status_text LD_new = ''new''"
| "lead_status_text LD_contacted = ''contacted''"
| "lead_status_text LD_trial = ''trial''"
| "lead_status_text LD_converted = ''converted''"
| "lead_status_text LD_lost = ''lost''"

datatype lead_activity_type = LA_call | LA_email | LA_note | LA_meeting | LA_status_change

fun lead_activity_type_text :: "lead_activity_type \<Rightarrow> string" where
  "lead_activity_type_text LA_call = ''call''"
| "lead_activity_type_text LA_email = ''email''"
| "lead_activity_type_text LA_note = ''note''"
| "lead_activity_type_text LA_meeting = ''meeting''"
| "lead_activity_type_text LA_status_change = ''status_change''"

section \<open>Response records\<close>

record user =
  u_created_at :: string
  u_email :: string
  u_first_name :: "string option"
  u_id :: string
  u_is_active :: bool
  u_last_name :: "string option"
  u_oauth_provider :: "string option"
  u_phone :: "string option"
  u_role :: role
  u_tenant_features_enabled :: "(string \<times> bool) list"
  u_tenant_id :: "string option"
  u_updated_at :: string

record tenant =
  t_address_city :: "string option"
  t_address_country :: "string option"
  t_address_postal_code :: "string option"
  t_address_street :: "string option"
  t_created_at :: string
  t_currency :: string
  t_email :: "string option"
  t_features_enabled :: "((string \<times> bool) list) option"
  t_id :: string
  t_legal_name :: "string option"
  t_locale :: string
  t_logo_presigned_url :: "string option"
  t_logo_url :: "string option"
  t_name :: string
  t_phone :: "string option"
  t_saas_plan_id :: string
  t_slug :: string
  t_status :: "tenant_status"
  t_tax_id :: "string option"
  t_timezone :: string
  t_trial_ends_at :: "string option"
  t_updated_at :: string
  t_website :: "string option"

record member =
  m_cancelled_at :: "string option"
  m_created_at :: string
  m_custom_fields :: "(string \<times> json) list"
  m_date_of_birth :: "string option"
  m_email :: "string option"
  m_first_name :: string
  m_frozen_at :: "string option"
  m_frozen_until :: "string option"
  m_gender :: "string option"
  m_id :: string
  m_join_date :: string
  m_last_name :: string
  m_notes :: "string option"
  m_phone :: string
  m_status :: "member_status"
  m_tenant_id :: string
  m_updated_at :: string

record gym_class =
  gc_color :: "string option"
  gc_created_at :: string
  gc_description :: "string option"
  gc_id :: string
  gc_is_active :: bool
  gc_name :: string
  gc_tenant_id :: string
  gc_updated_at :: string

record plan_entitlement =
  pe_class_id :: "string option"
  pe_created_at :: string
  pe_id :: string
  pe_plan_id :: string
  pe_quantity :: "int option"
  pe_reset_period :: "reset_period"

record membership_plan =
  p_billing_period :: "billing_period"
  p_created_at :: string
  p_currency :: string
  p_custom_attrs :: "(string \<times> json) list"
  p_description :: "string option"
  p_duration_days :: "int option"
  p_entitlements :: "plan_entitlement list"
  p_id :: string
  p_is_active :: bool
  p_name :: string
  p_price_cents :: int
  p_tenant_id :: string
  p_type :: "plan_type"
  p_updated_at :: string

record subscription =
  s_cancellation_reason :: "string option"
  s_cancelled_at :: "string option"
  s_created_at :: string
  s_currency :: string
  s_expired_at :: "string option"
  s_expires_at :: "string option"
  s_frozen_at :: "string option"
  s_frozen_until :: "string option"
  s_id :: string
  s_member_id :: string
  s_payment_method :: "payment_method"
  s_payment_method_detail :: "string option"
  s_plan_id :: string
  s_price_cents :: int
  s_replaced_at :: "string option"
  s_replaced_by_id :: "string option"
  s_started_at :: string
  s_status :: "subscription_status"
  s_tenant_id :: string
  s_updated_at :: string

record subscription_event =
  se_created_by :: "string option"
  se_event_data :: "(string \<times> json) list"
  se_event_type :: "subscription_event_type"
  se_id :: string
  se_occurred_at :: string
  se_subscription_id :: string
  se_tenant_id :: string

record class_entry =
  ce_class_id :: string
  ce_coach_id :: "string option"
  ce_entered_at :: string
  ce_entered_by :: "string option"
  ce_id :: string
  ce_member_id :: string
  ce_override :: bool
  ce_override_kind :: "override_kind option"
  ce_override_reason :: "string option"
  ce_session_id :: "string option"
  ce_subscription_id :: string
  ce_tenant_id :: string
  ce_undone_at :: "string option"
  ce_undone_by :: "string option"
  ce_undone_reason :: "string option"

record quota_check =
  qc_allowed :: bool
  qc_class_id :: "string option"
  qc_quantity :: "int option"
  qc_reason :: "string option"
  qc_remaining :: "int option"
  qc_reset_period :: "string option"
  qc_used :: "int option"

record summary_item =
  si_allowed :: bool
  si_class_id :: "string option"
  si_quantity :: "int option"
  si_reason :: "string option"
  si_remaining :: "int option"
  si_reset_period :: "string option"
  si_used :: "int option"

record coach =
  co_cancelled_at :: "string option"
  co_created_at :: string
  co_custom_attrs :: "(string \<times> json) list"
  co_email :: "string option"
  co_first_name :: string
  co_frozen_at :: "string option"
  co_hired_at :: string
  co_id :: string
  co_last_name :: string
  co_phone :: "string option"
  co_status :: "coach_status"
  co_tenant_id :: string
  co_updated_at :: string
  co_user_id :: "string option"

record class_coach =
  cc_class_id :: string
  cc_coach_id :: string
  cc_created_at :: string
  cc_ends_on :: "string option"
  cc_id :: string
  cc_is_primary :: bool
  cc_pay_amount_cents :: int
  cc_pay_model :: "pay_model"
  cc_role :: string
  cc_starts_on :: string
  cc_tenant_id :: string
  cc_updated_at :: string
  cc_weekdays :: "string list"

record earnings_row =
  er_cents :: int
  er_class_id :: string
  er_class_name :: "string option"
  er_pay_amount_cents :: int
  er_pay_model :: "pay_model"
  er_role :: string
  er_unit_count :: int

record earnings =
  ea_by_class_cents :: "(string \<times> int) list"
  ea_by_link :: "earnings_row list"
  ea_by_pay_model_cents :: "(string \<times> int) list"
  ea_coach_id :: string
  ea_currency :: string
  ea_effective_from :: "string option"
  ea_effective_to :: "string option"
  ea_from :: string
  ea_to :: string
  ea_total_cents :: int

record schedule_template =
  st_assistant_coach_id :: "string option"
  st_class_id :: string
  st_created_at :: string
  st_end_time :: string
  st_ends_on :: "string option"
  st_head_coach_id :: string
  st_id :: string
  st_is_active :: bool
  st_start_time :: string
  st_starts_on :: string
  st_tenant_id :: string
  st_updated_at :: string
  st_weekdays :: "string list"

record class_session =
  cs_assistant_coach_id :: "string option"
  cs_cancellation_reason :: "string option"
  cs_cancelled_at :: "string option"
  cs_cancelled_by :: "string option"
  cs_class_id :: string
  cs_created_at :: string
  cs_ends_at :: string
  cs_head_coach_id :: "string option"
  cs_id :: string
  cs_is_customized :: bool
  cs_notes :: "string option"
  cs_starts_at :: string
  cs_status :: "session_status"
  cs_template_id :: "string option"
  cs_tenant_id :: string
  cs_updated_at :: string

record bulk_result =
  br_action :: string
  br_affected_ids :: "string list"
  br_cancelled_count :: int
  br_substitute_link_id :: "string option"
  br_swapped_count :: int

record lead =
  l_assigned_to :: "string option"
  l_converted_member_id :: "string option"
  l_created_at :: string
  l_custom_fields :: "(string \<times> json) list"
  l_email :: "string option"
  l_first_name :: string
  l_id :: string
  l_last_name :: string
  l_lost_reason :: "string option"
  l_notes :: "string option"
  l_phone :: string
  l_source :: "lead_source"
  l_status :: "lead_status"
  l_tenant_id :: string
  l_updated_at :: string

record lead_activity =
  la_created_at :: string
  la_created_by :: "string option"
  la_id :: string
  la_lead_id :: string
  la_note :: string
  la_tenant_id :: string
  la_type :: "lead_activity_type"

record lead_stats =
  ls_conversion_rate_30d :: "rat option"
  ls_counts :: "(string \<times> int) list"

record lost_reason_row =
  lr_count :: int
  lr_reason :: string

record payment =
  pay_amount_cents :: int
  pay_created_at :: string
  pay_currency :: string
  pay_external_ref :: "string option"
  pay_id :: string
  pay_member_id :: string
  pay_notes :: "string option"
  pay_paid_at :: string
  pay_payment_method :: "payment_method"
  pay_recorded_by :: "string option"
  pay_refund_of_payment_id :: "string option"
  pay_subscription_id :: "string option"
  pay_tenant_id :: string

record range_revenue =
  rr_cents :: int
  rr_paid_from :: string
  rr_paid_to :: string

record plan_revenue_row =
  pr_cents :: int
  pr_plan_id :: string

record revenue_summary =
  rs_arpm_cents :: int
  rs_by_method :: "(string \<times> int) list"
  rs_by_plan :: "plan_revenue_row list"
  rs_currency :: string
  rs_last_month :: "range_revenue"
  rs_mom_pct :: "rat option"
  rs_this_month :: "range_revenue"

end
