(* ===== verification/Permissions.thy ===== *)
theory Permissions
  imports Types
begin

text \<open>
  \<^verbatim>\<open>frontend/src/features/auth/permissions.ts\<close>: which features a user may see. Two layers decide:
  the role's baseline, which an owner may extend for staff and sales, and the tenant's feature
  flags, which switch the gated features off for everybody.
\<close>

datatype feature = F_dashboard | F_tenants | F_members | F_classes | F_plans | F_attendance
  | F_coaches | F_schedule | F_leads | F_payments | F_reports | F_settings

fun feature_text :: "feature \<Rightarrow> string" where
  "feature_text F_dashboard = ''dashboard''"
| "feature_text F_tenants = ''tenants''"
| "feature_text F_members = ''members''"
| "feature_text F_classes = ''classes''"
| "feature_text F_plans = ''plans''"
| "feature_text F_attendance = ''attendance''"
| "feature_text F_coaches = ''coaches''"
| "feature_text F_schedule = ''schedule''"
| "feature_text F_leads = ''leads''"
| "feature_text F_payments = ''payments''"
| "feature_text F_reports = ''reports''"
| "feature_text F_settings = ''settings''"

definition GATED_FEATURES :: "feature list" where
  "GATED_FEATURES = [F_coaches, F_schedule, F_leads]"

fun BASELINE :: "role \<Rightarrow> feature list" where
  "BASELINE R_super_admin = [F_dashboard, F_tenants]"
| "BASELINE R_owner = [F_dashboard, F_members, F_classes, F_plans, F_attendance, F_coaches,
     F_schedule, F_leads, F_payments, F_reports, F_settings]"
| "BASELINE R_staff = [F_dashboard, F_members, F_classes, F_attendance, F_leads, F_payments]"
| "BASELINE R_sales = [F_dashboard, F_members, F_classes, F_leads, F_payments]"
| "BASELINE R_coach = [F_dashboard, F_classes, F_attendance, F_coaches, F_schedule]"

definition GRANTABLE_FEATURES :: "feature list" where
  "GRANTABLE_FEATURES = [F_members, F_classes, F_plans, F_attendance, F_coaches, F_schedule,
     F_leads, F_payments, F_reports]"

record tenant_overrides =
  ov_staff :: "feature list"
  ov_sales :: "feature list"

definition EMPTY_OVERRIDES :: tenant_overrides where
  "EMPTY_OVERRIDES = \<lparr>ov_staff = [], ov_sales = []\<rparr>"

text \<open>The JSON object of flags; a key that is missing reads as undefined, which is falsy.\<close>

type_synonym tenant_features = "(string \<times> bool) list"

definition flag_on :: "tenant_features \<Rightarrow> feature \<Rightarrow> bool" where
  "flag_on tf f = nullish (map_of tf (feature_text f)) False"

definition isGated :: "feature \<Rightarrow> bool" where
  "isGated f \<longleftrightarrow> f \<in> set GATED_FEATURES"

definition canAccess :: "user option \<Rightarrow> feature \<Rightarrow> tenant_overrides \<Rightarrow> tenant_features \<Rightarrow> bool" where
  "canAccess usr f overrides tf = (case usr of
     None \<Rightarrow> False
   | Some u \<Rightarrow>
      if isGated f \<and> \<not> flag_on tf f then False
      else if f \<in> set (BASELINE (u_role u)) then True
      else if u_role u = R_staff then f \<in> set (ov_staff overrides)
      else if u_role u = R_sales then f \<in> set (ov_sales overrides)
      else False)"

definition accessibleFeatures ::
  "user option \<Rightarrow> tenant_overrides \<Rightarrow> tenant_features \<Rightarrow> feature list" where
  "accessibleFeatures usr overrides tf = (case usr of
     None \<Rightarrow> []
   | Some u \<Rightarrow>
      let baseline = BASELINE (u_role u);
          raw = (if u_role u = R_staff then baseline @ ov_staff overrides
                 else if u_role u = R_sales then baseline @ ov_sales overrides
                 else baseline)
      in filter (\<lambda>f. \<not> isGated f \<or> flag_on tf f) raw)"

section \<open>The contract of a permission check\<close>

text \<open>
  What a guard may rely on, whichever tables decide: nobody signed out has access, and a gated
  feature needs its flag. The guards of the router and the links of the sidebar are proved against
  this interface.
\<close>

locale permission_check =
  fixes allowed :: "user option \<Rightarrow> feature \<Rightarrow> tenant_features \<Rightarrow> bool"
    and home :: feature
  assumes signed_out: "\<not> allowed None f tf"
    and gate: "allowed usr f tf \<Longrightarrow> isGated f \<Longrightarrow> flag_on tf f"
    and home_open: "allowed (Some u) home tf"
begin

lemma allowed_user: "allowed usr f tf \<Longrightarrow> usr \<noteq> None"
  using signed_out by (cases usr) auto

lemma flag_off: "isGated f \<Longrightarrow> \<not> flag_on tf f \<Longrightarrow> \<not> allowed usr f tf"
  using gate by blast

lemma home_iff: "allowed usr home tf \<longleftrightarrow> usr \<noteq> None"
  using home_open signed_out by (cases usr) auto

end

lemma canAccess_None [simp]: "\<not> canAccess None f ov tf"
  by (simp add: canAccess_def)

lemma canAccess_Some:
  "canAccess (Some u) f ov tf \<longleftrightarrow> (isGated f \<longrightarrow> flag_on tf f) \<and>
     (f \<in> set (BASELINE (u_role u)) \<or> u_role u = R_staff \<and> f \<in> set (ov_staff ov)
      \<or> u_role u = R_sales \<and> f \<in> set (ov_sales ov))"
  by (simp add: canAccess_def)

lemma accessible_Some:
  "f \<in> set (accessibleFeatures (Some u) ov tf) \<longleftrightarrow> (isGated f \<longrightarrow> flag_on tf f) \<and>
     (f \<in> set (BASELINE (u_role u)) \<or> u_role u = R_staff \<and> f \<in> set (ov_staff ov)
      \<or> u_role u = R_sales \<and> f \<in> set (ov_sales ov))"
  by (simp add: accessibleFeatures_def Let_def) blast

lemma canAccess_gate: "canAccess usr f ov tf \<Longrightarrow> isGated f \<Longrightarrow> flag_on tf f"
  by (cases usr) (simp_all add: canAccess_Some)

lemma dashboard_baseline [simp]: "F_dashboard \<in> set (BASELINE r)"
  by (cases r) simp_all

lemma dashboard_not_gated [simp]: "\<not> isGated F_dashboard"
  by (simp add: isGated_def GATED_FEATURES_def)

interpretation perm: permission_check "\<lambda>usr f tf. canAccess usr f ov tf" F_dashboard for ov
  by unfold_locales (simp, rule canAccess_gate, simp_all add: canAccess_Some)

text \<open>The single check and the bulk list agree: a feature is accessible exactly when it is in
  the list the navigation is built from, for every user, override table and flag map.\<close>

lemma canAccess_iff_listed:
  "canAccess usr f ov tf \<longleftrightarrow> f \<in> set (accessibleFeatures usr ov tf)"
  by (cases usr) (simp_all only: canAccess_Some accessible_Some, simp add: accessibleFeatures_def)

text \<open>C39: overrides only add: with any overrides a user keeps what the empty overrides give; only
  staff and sales can gain anything; a gated feature whose flag is off is closed to everyone; and
  grants drawn from the grantable list never open the platform or the settings.\<close>

theorem overrides_only_extend:
  "(canAccess usr f EMPTY_OVERRIDES tf \<longrightarrow> canAccess usr f ov tf)
   \<and> (canAccess usr f ov tf \<and> \<not> canAccess usr f EMPTY_OVERRIDES tf \<longrightarrow>
        (\<exists>u. usr = Some u \<and> u_role u \<in> {R_staff, R_sales}))
   \<and> (isGated f \<and> \<not> flag_on tf f \<longrightarrow> \<not> canAccess usr f ov tf)
   \<and> (set (ov_staff ov) \<subseteq> set GRANTABLE_FEATURES \<and> set (ov_sales ov) \<subseteq> set GRANTABLE_FEATURES \<longrightarrow>
        (canAccess usr F_tenants ov tf \<longrightarrow> (\<exists>u. usr = Some u \<and> u_role u = R_super_admin))
        \<and> (canAccess usr F_settings ov tf \<longrightarrow> (\<exists>u. usr = Some u \<and> u_role u = R_owner)))"
proof -
  have mono: "canAccess usr f EMPTY_OVERRIDES tf \<longrightarrow> canAccess usr f ov tf"
    by (cases usr) (simp_all add: canAccess_Some EMPTY_OVERRIDES_def)
  have gain: "canAccess usr f ov tf \<and> \<not> canAccess usr f EMPTY_OVERRIDES tf \<longrightarrow>
        (\<exists>u. usr = Some u \<and> u_role u \<in> {R_staff, R_sales})"
    by (cases usr) (simp_all add: canAccess_Some EMPTY_OVERRIDES_def, blast)
  have grant: "(canAccess usr F_tenants ov tf \<longrightarrow> (\<exists>u. usr = Some u \<and> u_role u = R_super_admin))
        \<and> (canAccess usr F_settings ov tf \<longrightarrow> (\<exists>u. usr = Some u \<and> u_role u = R_owner))"
    if "set (ov_staff ov) \<subseteq> set GRANTABLE_FEATURES" "set (ov_sales ov) \<subseteq> set GRANTABLE_FEATURES"
  proof (cases usr)
    case (Some u)
    have "F_tenants \<notin> set GRANTABLE_FEATURES" "F_settings \<notin> set GRANTABLE_FEATURES"
      by (simp_all add: GRANTABLE_FEATURES_def)
    with that have "F_tenants \<notin> set (ov_staff ov)" "F_tenants \<notin> set (ov_sales ov)"
      "F_settings \<notin> set (ov_staff ov)" "F_settings \<notin> set (ov_sales ov)" by auto
    then show ?thesis using Some by (cases "u_role u") (simp_all add: canAccess_Some)
  qed simp
  from mono gain grant perm.flag_off show ?thesis by blast
qed

definition sample_user :: "role \<Rightarrow> user" where
  "sample_user r = \<lparr>u_created_at = [], u_email = ''dana.levi@gym.example'', u_first_name = None, u_id = ''u1'',
     u_is_active = True, u_last_name = None, u_oauth_provider = None, u_phone = None, u_role = r,
     u_tenant_features_enabled = [(''leads'', True)], u_tenant_id = Some ''t1'', u_updated_at = []\<rparr>"

lemma sample_user_role [simp]: "u_role (sample_user r) = r"
  by (simp add: sample_user_def)

theorem overrides_only_extend_witness:
  "canAccess (Some (sample_user R_staff)) F_members \<lparr>ov_staff = [F_plans], ov_sales = []\<rparr> []
   \<and> \<not> canAccess (Some (sample_user R_staff)) F_settings \<lparr>ov_staff = [F_plans], ov_sales = []\<rparr> []
   \<and> \<not> canAccess (Some (sample_user R_owner)) F_coaches EMPTY_OVERRIDES []"
proof -
  have base: "canAccess (Some (sample_user R_staff)) F_members EMPTY_OVERRIDES []"
    by (simp add: canAccess_def isGated_def GATED_FEATURES_def)
  have off: "isGated F_coaches \<and> \<not> flag_on [] F_coaches"
    by (simp add: isGated_def GATED_FEATURES_def flag_on_def nullish_def)
  have sub: "set [F_plans] \<subseteq> set GRANTABLE_FEATURES" by (simp add: GRANTABLE_FEATURES_def)
  show ?thesis
    using overrides_only_extend [of "Some (sample_user R_staff)" F_members "[]" "\<lparr>ov_staff = [F_plans], ov_sales = []\<rparr>"]
      overrides_only_extend [of "Some (sample_user R_owner)" F_coaches "[]" EMPTY_OVERRIDES] base off sub
    by simp
qed

end
