(* ===== verification/Auth.thy ===== *)
theory Auth
  imports Permissions ApiClient
begin

text \<open>
  The signed-in session: \<^verbatim>\<open>features/auth/auth-provider.tsx\<close> (the context every guard reads),
  \<^verbatim>\<open>features/auth/api.ts\<close> and the submit handler of \<^verbatim>\<open>features/auth/LoginPage.tsx\<close>.

  The provider is asynchronous: \<open>fetchUser\<close> and \<open>logout\<close> first start a call and continue when it
  settles. A state holds the number of calls still under way, and a step is the settling of one of
  them, so that every interleaving is a sequence of steps.
\<close>

section \<open>The provider\<close>

record auth_state =
  a_user :: "user option"
  a_loading :: bool
  a_fetches :: nat
  a_logouts :: nat
  a_path :: string

text \<open>The state after mounting: the effect has called \<open>fetchUser\<close> once.\<close>

definition auth_mount :: "string \<Rightarrow> auth_state" where
  "auth_mount path = \<lparr>a_user = None, a_loading = True, a_fetches = 1, a_logouts = 0, a_path = path\<rparr>"

text \<open>\<open>fetchUser\<close> up to its \<open>await\<close>, and its continuation for a fulfilled or rejected \<open>getMe\<close>.\<close>

definition fetchUser :: "auth_state \<Rightarrow> auth_state" where
  "fetchUser a = a\<lparr>a_fetches := a_fetches a + 1\<rparr>"

definition fetchUser_settled :: "user option \<Rightarrow> auth_state \<Rightarrow> auth_state" where
  "fetchUser_settled me a = a\<lparr>a_user := me, a_loading := False, a_fetches := a_fetches a - 1\<rparr>"

definition loginRefresh :: "auth_state \<Rightarrow> auth_state" where
  "loginRefresh a = fetchUser a"

text \<open>\<open>logout\<close> up to its \<open>await\<close>; the continuation is the same whether the call failed or not.\<close>

definition logout :: "auth_state \<Rightarrow> auth_state" where
  "logout a = a\<lparr>a_logouts := a_logouts a + 1\<rparr>"

definition logout_settled :: "auth_state \<Rightarrow> auth_state" where
  "logout_settled a = a\<lparr>a_user := None, a_logouts := a_logouts a - 1, a_path := ''/login''\<rparr>"

record auth_context =
  x_user :: "user option"
  x_tenantFeatures :: tenant_features
  x_isAuthenticated :: bool
  x_isLoading :: bool

definition auth_value :: "auth_state \<Rightarrow> auth_context" where
  "auth_value a = \<lparr>x_user = a_user a,
     x_tenantFeatures = (case a_user a of None \<Rightarrow> [] | Some u \<Rightarrow> u_tenant_features_enabled u),
     x_isAuthenticated = (a_user a \<noteq> None), x_isLoading = a_loading a\<rparr>"

text \<open>\<open>useAuth\<close> outside the provider throws.\<close>

definition useAuth :: "auth_state option \<Rightarrow> thrown + auth_context" where
  "useAuth provider = (case provider of
     None \<Rightarrow> Inl (PlainError ''useAuth must be used within AuthProvider'')
   | Some a \<Rightarrow> Inr (auth_value a))"

inductive auth_step :: "auth_state \<Rightarrow> auth_state \<Rightarrow> bool" where
  refresh: "auth_step a (loginRefresh a)"
| me: "0 < a_fetches a \<Longrightarrow> auth_step a (fetchUser_settled me a)"
| ask_logout: "auth_step a (logout a)"
| logged_out: "0 < a_logouts a \<Longrightarrow> auth_step a (logout_settled a)"
| navigate: "auth_step a (a\<lparr>a_path := path\<rparr>)"

inductive auth_reachable :: "auth_state \<Rightarrow> bool" where
  mount: "auth_reachable (auth_mount path)"
| step: "auth_reachable a \<Longrightarrow> auth_step a b \<Longrightarrow> auth_reachable b"

inductive_cases auth_stepE: "auth_step a b"

lemmas auth_defs = auth_mount_def fetchUser_def fetchUser_settled_def loginRefresh_def logout_def
  logout_settled_def auth_value_def

lemma loading_invariant:
  "auth_reachable a \<Longrightarrow> a_loading a \<Longrightarrow> a_user a = None \<and> 0 < a_fetches a"
proof (induction rule: auth_reachable.induct)
  case (mount path)
  then show ?case by (simp add: auth_defs)
next
  case (step a b)
  from step.hyps(2) step.IH step.prems show ?case
    by (cases rule: auth_step.cases) (auto simp: auth_defs)
qed

text \<open>C35: the loading flag is only up while the first profile call is under way and nobody is
  signed in, so no page is shown to a user the provider has not confirmed, and once it is down it
  stays down; signed-out contexts carry no tenant flags.\<close>

theorem auth_loading_sound:
  assumes "auth_reachable a"
  shows "(x_isLoading (auth_value a) \<longrightarrow> \<not> x_isAuthenticated (auth_value a) \<and> 0 < a_fetches a)
    \<and> (\<not> x_isAuthenticated (auth_value a) \<longrightarrow> x_tenantFeatures (auth_value a) = [])
    \<and> (\<forall>b. auth_step a b \<longrightarrow> x_isLoading (auth_value b) \<longrightarrow> x_isLoading (auth_value a))"
proof -
  have "x_isLoading (auth_value b) \<longrightarrow> x_isLoading (auth_value a)" if "auth_step a b" for b
    using that by (cases rule: auth_step.cases) (simp_all add: auth_defs)
  with loading_invariant [OF assms] show ?thesis by (simp add: auth_value_def)
qed

theorem auth_loading_sound_witness:
  "\<not> x_isAuthenticated (auth_value (loginRefresh (auth_mount ''/dashboard'')))
   \<and> x_isLoading (auth_value (loginRefresh (auth_mount ''/dashboard'')))"
proof -
  have "auth_reachable (loginRefresh (auth_mount ''/dashboard''))"
    by (rule auth_reachable.step [OF auth_reachable.mount auth_step.refresh])
  from auth_loading_sound [OF this] show ?thesis by (simp add: auth_defs)
qed

text \<open>Signing out sticks as long as no profile call is under way when it settles: the user only comes
  back through a \<open>getMe\<close> that is fulfilled.\<close>

lemma user_only_from_getMe:
  assumes "auth_step a b" "a_user a = None" "a_user b = Some u"
  shows "0 < a_fetches a"
  using assms by (cases rule: auth_step.cases) (auto simp: auth_defs)

section \<open>The login page\<close>

record login_page =
  lp_email :: string
  lp_password :: string
  lp_error :: "hebrew option"
  lp_loading :: bool

definition login_page_init :: login_page where
  "login_page_init = \<lparr>lp_email = [], lp_password = [], lp_error = None, lp_loading = False\<rparr>"

definition getMe :: api_call where
  [api_defs]: "getMe = api_get ''/auth/me''"

definition logout_call :: api_call where
  [api_defs]: "logout_call = api_post ''/auth/logout'' None"

text \<open>The state \<open>handleSubmit\<close> leaves while the login call is under way.\<close>

definition handleSubmit_start :: "login_page \<Rightarrow> login_page" where
  "handleSubmit_start p = p\<lparr>lp_error := None, lp_loading := True\<rparr>"

definition login_body :: "login_page \<Rightarrow> json" where
  "login_body p = JObj [(''email'', JStr (lp_email p)), (''password'', JStr (lp_password p))]"

text \<open>
  \<open>handleSubmit\<close> to its end: \<open>decode\<close> reads a profile from the JSON of \<open>/auth/me\<close>. A profile call
  that fails is swallowed by \<open>fetchUser\<close>, so the page navigates to the dashboard all the same.
\<close>

definition handleSubmit ::
  "(json option \<Rightarrow> user option) \<Rightarrow> network \<Rightarrow> login_page \<times> auth_state \<Rightarrow> login_page \<times> auth_state" where
  "handleSubmit decode fetch st = (case st of (p0, a) \<Rightarrow>
     let p = handleSubmit_start p0 in
     case login fetch (login_body p) of
       Inl err \<Rightarrow> (p\<lparr>lp_error := Some (humanizeLoginError err), lp_loading := False\<rparr>, a)
     | Inr _ \<Rightarrow>
        (let me = (case run_call fetch getMe of Inl _ \<Rightarrow> None | Inr j \<Rightarrow> decode j);
             a1 = fetchUser_settled me (loginRefresh a)
         in (p\<lparr>lp_loading := False\<rparr>, a1\<lparr>a_path := ''/dashboard''\<rparr>)))"

lemma login_body_form [simp]: "login_body (p\<lparr>lp_error := e, lp_loading := l\<rparr>) = login_body p"
  by (simp add: login_body_def)

text \<open>A submit always ends with the spinner off; it shows an error and leaves the session alone
  exactly when the login call failed, with the wrong-credentials message for a 401 and the
  connection message when the server was not reached; otherwise it shows no error and the page
  is the dashboard's, signed in exactly when the profile call succeeded.\<close>

lemma handleSubmit_correct:
  "(case handleSubmit decode fetch (p, a) of (p', a') \<Rightarrow>
      \<not> lp_loading p' \<and> lp_email p' = lp_email p \<and> lp_password p' = lp_password p \<and>
      (case login fetch (login_body p) of
         Inl err \<Rightarrow> a' = a \<and> lp_error p' = Some (humanizeLoginError err)
           \<and> (\<forall>m. err = ApiError m 401 \<longrightarrow> lp_error p' = Some BadCredentials)
           \<and> (\<forall>m. err = ApiError m 0 \<longrightarrow> lp_error p' = Some NoConnection)
       | Inr _ \<Rightarrow> lp_error p' = None \<and> a_path a' = ''/dashboard'' \<and> \<not> a_loading a' \<and> a_fetches a' = a_fetches a
           \<and> a_user a' = (case run_call fetch getMe of Inl _ \<Rightarrow> None | Inr j \<Rightarrow> decode j)))"
proof (cases "login fetch (login_body p)")
  case (Inl err)
  then show ?thesis
    by (auto simp add: handleSubmit_def Let_def handleSubmit_start_def humanizeLoginError_def
        genericMessage_def)
next
  case (Inr j)
  then show ?thesis
    by (simp add: handleSubmit_def Let_def handleSubmit_start_def auth_defs)
qed

lemma handleSubmit_correct_witness:
  "lp_error (fst (handleSubmit (\<lambda>_. None) (\<lambda>_. None) (login_page_init, auth_mount ''/login'')))
     = Some NoConnection"
proof -
  have "login (\<lambda>_. None) (login_body login_page_init) = Inl (ApiError ''network'' 0)"
    by (simp add: login_def)
  then show ?thesis
    using handleSubmit_correct [where fetch = "\<lambda>_. None" and decode = "\<lambda>_. None" and p = login_page_init
        and a = "auth_mount ''/login''"]
    by (auto split: prod.splits)
qed

end
