(* ===== verification/Navigation.thy ===== *)
theory Navigation
  imports Auth
begin

text \<open>
  What a location shows: the route table of \<^verbatim>\<open>app/App.tsx\<close>, its guards
  \<^verbatim>\<open>components/layout/ProtectedRoute.tsx\<close> and \<^verbatim>\<open>RequireFeature.tsx\<close>, the links of
  \<^verbatim>\<open>components/layout/Sidebar.tsx\<close>, the shell \<^verbatim>\<open>DashboardLayout.tsx\<close> with the two hooks it uses,
  and the role switch of \<^verbatim>\<open>features/dashboard\<close>.
\<close>

section \<open>Routes and guards\<close>

datatype page = LandingPage | LoginPage | DashboardPage | TenantListPage | TenantDetailPage
  | MemberListPage | MemberDetailPage | ClassListPage | ClassDetailPage | PlanListPage
  | PlanDetailPage | CheckInPage | CoachListPage | CoachDetailPage | SchedulePage | LeadsPage
  | LeadDetailPage | PaymentsPage

datatype segment = Lit string | Param

datatype element = Show page | ProtectedRoute | DashboardLayout | RequireFeature feature
  | Navigate string

text \<open>A \<open><Route>\<close>: an element around its children, or a leaf with a path.\<close>

datatype route = Wrap element "route list" | Leaf "segment list" element

definition App :: "route list" where
  "App =
   [Leaf [] (Show LandingPage),
    Leaf [Lit ''login''] (Show LoginPage),
    Wrap ProtectedRoute
     [Wrap DashboardLayout
       [Leaf [Lit ''dashboard''] (Show DashboardPage),
        Wrap (RequireFeature F_tenants)
         [Leaf [Lit ''tenants''] (Show TenantListPage),
          Leaf [Lit ''tenants'', Param] (Show TenantDetailPage)],
        Wrap (RequireFeature F_members)
         [Leaf [Lit ''members''] (Show MemberListPage),
          Leaf [Lit ''members'', Param] (Show MemberDetailPage)],
        Wrap (RequireFeature F_classes)
         [Leaf [Lit ''classes''] (Show ClassListPage),
          Leaf [Lit ''classes'', Param] (Show ClassDetailPage)],
        Wrap (RequireFeature F_plans)
         [Leaf [Lit ''plans''] (Show PlanListPage),
          Leaf [Lit ''plans'', Param] (Show PlanDetailPage)],
        Wrap (RequireFeature F_attendance)
         [Leaf [Lit ''check-in''] (Show CheckInPage)],
        Wrap (RequireFeature F_coaches)
         [Leaf [Lit ''coaches''] (Show CoachListPage),
          Leaf [Lit ''coaches'', Param] (Show CoachDetailPage)],
        Wrap (RequireFeature F_schedule)
         [Leaf [Lit ''schedule''] (Show SchedulePage)],
        Wrap (RequireFeature F_leads)
         [Leaf [Lit ''leads''] (Show LeadsPage),
          Leaf [Lit ''leads'', Param] (Show LeadDetailPage)],
        Wrap (RequireFeature F_payments)
         [Leaf [Lit ''payments''] (Show PaymentsPage)]]]]"

text \<open>The catch-all \<open>path="*"\<close>.\<close>

definition fallback_route :: element where
  "fallback_route = Navigate ''/''"

text \<open>The non-empty segments of a path.\<close>

fun split_path :: "string \<Rightarrow> string \<Rightarrow> string list" where
  "split_path acc [] = (if acc = [] then [] else [rev acc])"
| "split_path acc (c # cs) =
     (if c = CHR ''/'' then (if acc = [] then [] else [rev acc]) @ split_path [] cs
      else split_path (c # acc) cs)"

definition segments :: "string \<Rightarrow> string list" where
  "segments path = split_path [] path"

fun matches :: "segment list \<Rightarrow> string list \<Rightarrow> bool" where
  "matches [] [] = True"
| "matches (Lit s # ps) (x # xs) = (s = x \<and> matches ps xs)"
| "matches (Param # ps) (x # xs) = matches ps xs"
| "matches _ _ = False"

text \<open>The chain of elements from the root to the leaf whose path matches.\<close>

fun find_chain :: "string list \<Rightarrow> route \<Rightarrow> element list option"
and find_chains :: "string list \<Rightarrow> route list \<Rightarrow> element list option" where
  "find_chain xs (Leaf ps e) = (if matches ps xs then Some [e] else None)"
| "find_chain xs (Wrap e rs) = map_option ((#) e) (find_chains xs rs)"
| "find_chains xs [] = None"
| "find_chains xs (r # rs) = (case find_chain xs r of Some c \<Rightarrow> Some c | None \<Rightarrow> find_chains xs rs)"

definition route_of :: "string \<Rightarrow> element list" where
  "route_of path = nullish (find_chains (segments path) App) [fallback_route]"

text \<open>What rendering a chain gives: \<open><Outlet />\<close> goes on with the next element.\<close>

datatype rendered = Loading | Redirect string | Page page | Nothing

text \<open>The two guards, each with its early returns.\<close>

definition protectedRoute :: "auth_context \<Rightarrow> rendered \<Rightarrow> rendered" where
  "protectedRoute ctx outlet =
     (if x_isLoading ctx then Loading
      else if \<not> x_isAuthenticated ctx then Redirect ''/login''
      else outlet)"

definition requireFeature :: "feature \<Rightarrow> auth_context \<Rightarrow> rendered \<Rightarrow> rendered" where
  "requireFeature f ctx outlet =
     (if x_isLoading ctx then Loading
      else if \<not> canAccess (x_user ctx) f EMPTY_OVERRIDES (x_tenantFeatures ctx) then Redirect ''/dashboard''
      else outlet)"

fun render :: "auth_context \<Rightarrow> element list \<Rightarrow> rendered" where
  "render ctx [] = Nothing"
| "render ctx (Show p # es) = Page p"
| "render ctx (Navigate path # es) = Redirect path"
| "render ctx (ProtectedRoute # es) = protectedRoute ctx (render ctx es)"
| "render ctx (DashboardLayout # es) = render ctx es"
| "render ctx (RequireFeature f # es) = requireFeature f ctx (render ctx es)"

text \<open>Following \<open><Navigate replace />\<close> until something is shown; \<open>None\<close> when the fuel runs out.\<close>

fun visit :: "nat \<Rightarrow> auth_context \<Rightarrow> string \<Rightarrow> (string \<times> rendered) option" where
  "visit n ctx path = (case render ctx (route_of path) of
     Redirect path' \<Rightarrow> (case n of 0 \<Rightarrow> None | Suc k \<Rightarrow> visit k ctx path')
   | r \<Rightarrow> Some (path, r))"

declare visit.simps [simp del]

text \<open>The feature a page is reserved to; the landing and login pages are public.\<close>

fun page_feature :: "page \<Rightarrow> feature option" where
  "page_feature LandingPage = None"
| "page_feature LoginPage = None"
| "page_feature DashboardPage = Some F_dashboard"
| "page_feature TenantListPage = Some F_tenants"
| "page_feature TenantDetailPage = Some F_tenants"
| "page_feature MemberListPage = Some F_members"
| "page_feature MemberDetailPage = Some F_members"
| "page_feature ClassListPage = Some F_classes"
| "page_feature ClassDetailPage = Some F_classes"
| "page_feature PlanListPage = Some F_plans"
| "page_feature PlanDetailPage = Some F_plans"
| "page_feature CheckInPage = Some F_attendance"
| "page_feature CoachListPage = Some F_coaches"
| "page_feature CoachDetailPage = Some F_coaches"
| "page_feature SchedulePage = Some F_schedule"
| "page_feature LeadsPage = Some F_leads"
| "page_feature LeadDetailPage = Some F_leads"
| "page_feature PaymentsPage = Some F_payments"

text \<open>The shapes of chain the table has.\<close>

definition chain_ok :: "element list \<Rightarrow> bool" where
  "chain_ok c \<longleftrightarrow> (\<exists>p. c = [Show p] \<and> page_feature p = None) \<or> c = [fallback_route]
     \<or> c = [ProtectedRoute, DashboardLayout, Show DashboardPage]
     \<or> (\<exists>f p. c = [ProtectedRoute, DashboardLayout, RequireFeature f, Show p] \<and> page_feature p = Some f)"

lemma route_of_ok: "chain_ok (route_of path)"
proof -
  have "find_chains xs App = Some c \<Longrightarrow> chain_ok c" for xs c
    unfolding App_def
    by (auto simp: chain_ok_def split: if_splits option.splits)
  then show ?thesis
    by (auto simp: route_of_def nullish_def chain_ok_def split: option.splits)
qed

lemma route_home [simp]: "route_of ''/'' = [Show LandingPage]"
  by (simp add: route_of_def segments_def App_def nullish_def)

lemma route_login [simp]: "route_of ''/login'' = [Show LoginPage]"
  by (simp add: route_of_def segments_def App_def nullish_def)

lemma route_dashboard [simp]: "route_of ''/dashboard'' = [ProtectedRoute, DashboardLayout, Show DashboardPage]"
  by (simp add: route_of_def segments_def App_def nullish_def)

lemma visit_home [simp]: "visit n ctx ''/'' = Some (''/'', Page LandingPage)"
  by (simp add: visit.simps)

lemma visit_login [simp]: "visit n ctx ''/login'' = Some (''/login'', Page LoginPage)"
  by (simp add: visit.simps)

lemma visit_Suc:
  "visit (Suc n) ctx path = (case render ctx (route_of path) of
     Redirect path' \<Rightarrow> visit n ctx path' | r \<Rightarrow> Some (path, r))"
  by (subst visit.simps) (simp split: rendered.splits)

lemma visit_0:
  "visit 0 ctx path = (case render ctx (route_of path) of
     Redirect path' \<Rightarrow> None | r \<Rightarrow> Some (path, r))"
  by (subst visit.simps) (simp split: rendered.splits)

lemmas visit_steps = visit_Suc visit_0 protectedRoute_def requireFeature_def

lemma auth_value_authenticated: "x_isAuthenticated (auth_value a) \<longleftrightarrow> x_user (auth_value a) \<noteq> None"
  by (simp add: auth_value_def)

text \<open>Every location settles after at most one redirect; what it settles on is the loading
  screen, only while the session loads, or a page, and a page reserved to a feature is only shown
  to a signed-in user who can access the feature.\<close>

lemma visit_settles:
  "\<exists>path' r. visit 1 (auth_value a) path = Some (path', r) \<and>
     (r = Loading \<and> x_isLoading (auth_value a) \<or>
      (\<exists>p. r = Page p \<and>
        (case page_feature p of
           None \<Rightarrow> True
         | Some f \<Rightarrow> \<not> x_isLoading (auth_value a) \<and> x_isAuthenticated (auth_value a)
             \<and> canAccess (x_user (auth_value a)) f EMPTY_OVERRIDES (x_tenantFeatures (auth_value a)))))"
proof -
  let ?ctx = "auth_value a"
  have home: "canAccess (x_user ?ctx) F_dashboard EMPTY_OVERRIDES tf \<longleftrightarrow> x_isAuthenticated ?ctx" for tf
    using perm.home_iff auth_value_authenticated by blast
  note steps = visit_steps fallback_route_def home
  from route_of_ok [of path] show ?thesis
    unfolding chain_ok_def
    by (elim disjE exE conjE) (auto simp: steps)
qed

text \<open>The links of the sidebar.\<close>

record nav_item =
  nav_to :: string
  nav_feature :: feature

definition NAV_ITEMS :: "nav_item list" where
  "NAV_ITEMS =
    [\<lparr>nav_to = ''/dashboard'', nav_feature = F_dashboard\<rparr>,
     \<lparr>nav_to = ''/tenants'', nav_feature = F_tenants\<rparr>,
     \<lparr>nav_to = ''/members'', nav_feature = F_members\<rparr>,
     \<lparr>nav_to = ''/check-in'', nav_feature = F_attendance\<rparr>,
     \<lparr>nav_to = ''/classes'', nav_feature = F_classes\<rparr>,
     \<lparr>nav_to = ''/plans'', nav_feature = F_plans\<rparr>,
     \<lparr>nav_to = ''/coaches'', nav_feature = F_coaches\<rparr>,
     \<lparr>nav_to = ''/schedule'', nav_feature = F_schedule\<rparr>,
     \<lparr>nav_to = ''/leads'', nav_feature = F_leads\<rparr>,
     \<lparr>nav_to = ''/payments'', nav_feature = F_payments\<rparr>]"

definition visibleItems :: "auth_context \<Rightarrow> nav_item list" where
  "visibleItems ctx =
     filter (\<lambda>item. canAccess (x_user ctx) (nav_feature item) EMPTY_OVERRIDES (x_tenantFeatures ctx)) NAV_ITEMS"

lemma nav_routes [simp]:
  "route_of ''/tenants'' = [ProtectedRoute, DashboardLayout, RequireFeature F_tenants, Show TenantListPage]"
  "route_of ''/members'' = [ProtectedRoute, DashboardLayout, RequireFeature F_members, Show MemberListPage]"
  "route_of ''/check-in'' = [ProtectedRoute, DashboardLayout, RequireFeature F_attendance, Show CheckInPage]"
  "route_of ''/classes'' = [ProtectedRoute, DashboardLayout, RequireFeature F_classes, Show ClassListPage]"
  "route_of ''/plans'' = [ProtectedRoute, DashboardLayout, RequireFeature F_plans, Show PlanListPage]"
  "route_of ''/coaches'' = [ProtectedRoute, DashboardLayout, RequireFeature F_coaches, Show CoachListPage]"
  "route_of ''/schedule'' = [ProtectedRoute, DashboardLayout, RequireFeature F_schedule, Show SchedulePage]"
  "route_of ''/leads'' = [ProtectedRoute, DashboardLayout, RequireFeature F_leads, Show LeadsPage]"
  "route_of ''/payments'' = [ProtectedRoute, DashboardLayout, RequireFeature F_payments, Show PaymentsPage]"
  by (simp_all add: route_of_def segments_def App_def nullish_def)

lemma nav_chain:
  assumes "item \<in> set NAV_ITEMS"
  shows "\<exists>p. page_feature p = Some (nav_feature item) \<and>
     (route_of (nav_to item) = [ProtectedRoute, DashboardLayout, RequireFeature (nav_feature item), Show p]
      \<or> route_of (nav_to item) = [ProtectedRoute, DashboardLayout, Show p])"
  using assms unfolding NAV_ITEMS_def
  by (simp only: list.set insert_iff empty_iff) (elim disjE; simp)

text \<open>The sidebar and the guards agree: once the session is loaded, a listed link opens its
  own page without a redirect, and a link that is not listed is turned away.\<close>

lemma sidebar_matches_guards:
  assumes "item \<in> set NAV_ITEMS" "\<not> x_isLoading (auth_value a)" "x_isAuthenticated (auth_value a)"
  shows "(item \<in> set (visibleItems (auth_value a)) \<longleftrightarrow>
            (\<exists>p. page_feature p = Some (nav_feature item) \<and>
                 visit 0 (auth_value a) (nav_to item) = Some (nav_to item, Page p)))
    \<and> (item \<notin> set (visibleItems (auth_value a)) \<longrightarrow>
            visit 1 (auth_value a) (nav_to item) = Some (''/dashboard'', Page DashboardPage))"
proof -
  let ?ctx = "auth_value a"
  have home: "canAccess (x_user ?ctx) F_dashboard EMPTY_OVERRIDES tf" for tf
    using perm.home_iff assms(3) auth_value_authenticated by blast
  have listed: "item \<in> set (visibleItems ?ctx) \<longleftrightarrow>
      canAccess (x_user ?ctx) (nav_feature item) EMPTY_OVERRIDES (x_tenantFeatures ?ctx)"
    using assms(1) by (simp add: visibleItems_def)
  note steps = visit_steps home
  from nav_chain [OF assms(1)] obtain p where p: "page_feature p = Some (nav_feature item)"
    and chain: "route_of (nav_to item) = [ProtectedRoute, DashboardLayout, RequireFeature (nav_feature item), Show p]
      \<or> route_of (nav_to item) = [ProtectedRoute, DashboardLayout, Show p]" by blast
  have plain: "nav_feature item = F_dashboard"
    if "route_of (nav_to item) = [ProtectedRoute, DashboardLayout, Show p]"
    using that assms(1) unfolding NAV_ITEMS_def
    by (simp only: list.set insert_iff empty_iff) (elim disjE; simp)
  from chain show ?thesis
  proof
    assume r: "route_of (nav_to item) = [ProtectedRoute, DashboardLayout, RequireFeature (nav_feature item), Show p]"
    then show ?thesis using p listed assms(2,3) by (simp add: steps)
  next
    assume r: "route_of (nav_to item) = [ProtectedRoute, DashboardLayout, Show p]"
    then show ?thesis using p listed assms(2,3) plain [OF r] by (simp add: steps)
  qed
qed

definition signed_in :: "role \<Rightarrow> auth_state" where
  "signed_in r = fetchUser_settled (Some (sample_user r)) (auth_mount ''/dashboard'')"

lemma signed_in_value:
  "x_isAuthenticated (auth_value (signed_in r))" "\<not> x_isLoading (auth_value (signed_in r))"
  "x_user (auth_value (signed_in r)) = Some (sample_user r)"
  "x_tenantFeatures (auth_value (signed_in r)) = [(''leads'', True)]"
  by (simp_all add: signed_in_def auth_defs sample_user_def)

lemma sidebar_matches_guards_witness:
  "visit 1 (auth_value (signed_in R_sales)) ''/check-in'' = Some (''/dashboard'', Page DashboardPage)"
proof -
  let ?item = "\<lparr>nav_to = ''/check-in'', nav_feature = F_attendance\<rparr>"
  have "?item \<in> set NAV_ITEMS" by (simp add: NAV_ITEMS_def)
  moreover have "?item \<notin> set (visibleItems (auth_value (signed_in R_sales)))"
    by (simp add: visibleItems_def signed_in_value canAccess_Some EMPTY_OVERRIDES_def)
  ultimately show ?thesis
    using sidebar_matches_guards [of ?item "signed_in R_sales"] by (simp add: signed_in_value)
qed

section \<open>The sidebar's user banner and brand\<close>

definition brandName :: "tenant option \<Rightarrow> string" where
  "brandName t = nullish (map_option t_name t) ''DopaCRM''"

definition brandLogo :: "tenant option \<Rightarrow> string" where
  "brandLogo t = nullish (Option.bind t t_logo_presigned_url) ''/dopa-icon.png''"

definition charAt0 :: "string \<Rightarrow> string" where
  "charAt0 s = take 1 s"

text \<open>\<open>email.split("@")[0]\<close>.\<close>

definition local_part :: "string \<Rightarrow> string" where
  "local_part email = takeWhile (\<lambda>c. c \<noteq> CHR ''@'') email"

text \<open>\<open>split(/[._-]+/).filter(Boolean)\<close>.\<close>

fun split_words :: "string \<Rightarrow> string \<Rightarrow> string list" where
  "split_words acc [] = (if acc = [] then [] else [rev acc])"
| "split_words acc (c # cs) =
     (if c \<in> set ''._-'' then (if acc = [] then [] else [rev acc]) @ split_words [] cs
      else split_words (c # acc) cs)"

definition getInitials :: "user \<Rightarrow> string" where
  "getInitials u =
     (if truthy_str (u_first_name u) \<or> truthy_str (u_last_name u) then
        let a = nullish (map_option charAt0 (u_first_name u)) [];
            b = nullish (map_option charAt0 (u_last_name u)) []
        in nullish (or_null (toUpperCase (a @ b))) ''?''
      else
        let locl = local_part (u_email u);
            parts = split_words [] locl
        in if length parts \<ge> 2 then toUpperCase (charAt0 (parts ! 0) @ charAt0 (parts ! 1))
           else toUpperCase (nullish (or_null (charAt0 locl)) ''?''))"

definition getDisplayName :: "user \<Rightarrow> string" where
  "getDisplayName u =
     (if truthy_str (u_first_name u) \<or> truthy_str (u_last_name u)
      then join_with '' '' (filter (\<lambda>s. s \<noteq> [])
             (map (\<lambda>s. nullish s []) [u_first_name u, u_last_name u]))
      else local_part (u_email u))"

lemma split_words_nonempty: "w \<in> set (split_words acc cs) \<Longrightarrow> w \<noteq> []"
  by (induction acc cs rule: split_words.induct) (auto split: if_splits)

lemma length_charAt0 [simp]: "length (charAt0 s) = (if s = [] then 0 else 1)"
  by (cases s) (simp_all add: charAt0_def)

lemma charAt0_Nil [simp]: "charAt0 s = [] \<longleftrightarrow> s = []"
  by (simp add: charAt0_def)

text \<open>The avatar always has one or two letters, whatever names and address the profile has.\<close>

lemma initials_one_or_two:
  "1 \<le> length (getInitials u) \<and> length (getInitials u) \<le> 2"
proof (cases "truthy_str (u_first_name u) \<or> truthy_str (u_last_name u)")
  case True
  then show ?thesis
    by (cases "u_first_name u"; cases "u_last_name u")
       (auto simp add: getInitials_def nullish_def or_null_def truthy_str_def)
next
  case False
  let ?l = "local_part (u_email u)"
  show ?thesis
  proof (cases "length (split_words [] ?l) \<ge> 2")
    case two: True
    have "split_words [] ?l ! i \<noteq> []" if "i < 2" for i
      by (rule split_words_nonempty [OF nth_mem]) (use two that in simp)
    then have "split_words [] ?l ! 0 \<noteq> []" "split_words [] ?l ! 1 \<noteq> []" by simp_all
    with False two show ?thesis
      by (simp add: getInitials_def Let_def)
  next
    case one: False
    with False show ?thesis
      by (cases "?l = []") (simp_all add: getInitials_def Let_def nullish_def or_null_def)
  qed
qed

end
