(* ===== verification/Shell.thy ===== *)
theory Shell
  imports Navigation
begin

text \<open>
  The application shell: \<^verbatim>\<open>hooks/useDevice.ts\<close>, \<^verbatim>\<open>hooks/useSidebarCollapsed.ts\<close> and
  \<^verbatim>\<open>components/layout/DashboardLayout.tsx\<close> as one state machine whose events are what the user and
  the browser do, and the role switch of \<^verbatim>\<open>features/dashboard\<close>.
\<close>

section \<open>The device class\<close>

datatype device_type = Mobile | Tablet | Desktop

definition TABLET_MIN_PX :: nat where "TABLET_MIN_PX = 768"
definition DESKTOP_MIN_PX :: nat where "DESKTOP_MIN_PX = 1024"

text \<open>\<open>matchMedia("(min-width: n px)").matches\<close> at a viewport width.\<close>

definition min_width :: "nat \<Rightarrow> nat \<Rightarrow> bool" where
  "min_width px width \<longleftrightarrow> px \<le> width"

definition getSnapshot :: "nat \<Rightarrow> device_type" where
  "getSnapshot width =
     (if min_width DESKTOP_MIN_PX width then Desktop
      else if min_width TABLET_MIN_PX width then Tablet
      else Mobile)"

section \<open>The collapsed sidebar\<close>

type_synonym storage = "string \<rightharpoonup> string"

definition STORAGE_KEY :: string where
  "STORAGE_KEY = ''dopacrm.sidebar.collapsed''"

definition bool_text :: "bool \<Rightarrow> string" where
  "bool_text b = (if b then ''true'' else ''false'')"

definition read_collapsed :: "storage \<Rightarrow> bool" where
  "read_collapsed st \<longleftrightarrow> st STORAGE_KEY = Some ''true''"

definition write_collapsed :: "bool \<Rightarrow> storage \<Rightarrow> storage" where
  "write_collapsed c st = st(STORAGE_KEY \<mapsto> bool_text c)"

lemma read_write_collapsed [simp]: "read_collapsed (write_collapsed c st) = c"
  by (simp add: read_collapsed_def write_collapsed_def bool_text_def)

section \<open>The layout\<close>

record layout =
  ly_width :: nat
  ly_drawerOpen :: bool
  ly_collapsed :: bool
  ly_path :: string
  ly_storage :: storage

definition layout_mount :: "nat \<Rightarrow> string \<Rightarrow> storage \<Rightarrow> layout" where
  "layout_mount width path st =
     (let c = read_collapsed st
      in \<lparr>ly_width = width, ly_drawerOpen = False, ly_collapsed = c, ly_path = path,
          ly_storage = write_collapsed c st\<rparr>)"

datatype layout_event = ToggleDrawer | CloseDrawer | KeyDown string | GoTo string
  | ToggleCollapsed | Resize nat | Reload

fun layout_step :: "layout_event \<Rightarrow> layout \<Rightarrow> layout" where
  "layout_step ToggleDrawer l = l\<lparr>ly_drawerOpen := \<not> ly_drawerOpen l\<rparr>"
| "layout_step CloseDrawer l = l\<lparr>ly_drawerOpen := False\<rparr>"
| "layout_step (KeyDown key) l =
     (if \<not> ly_drawerOpen l then l
      else if key = ''Escape'' then l\<lparr>ly_drawerOpen := False\<rparr> else l)"
| "layout_step (GoTo path) l =
     (if path = ly_path l then l else l\<lparr>ly_path := path, ly_drawerOpen := False\<rparr>)"
| "layout_step ToggleCollapsed l =
     (let c = \<not> ly_collapsed l
      in l\<lparr>ly_collapsed := c, ly_storage := write_collapsed c (ly_storage l)\<rparr>)"
| "layout_step (Resize width) l = l\<lparr>ly_width := width\<rparr>"
| "layout_step Reload l = layout_mount (ly_width l) (ly_path l) (ly_storage l)"

definition layout_run :: "layout_event list \<Rightarrow> layout \<Rightarrow> layout" where
  "layout_run es l = fold layout_step es l"

text \<open>What is on screen: the drawer on a phone, the rail or the full sidebar elsewhere.\<close>

datatype sidebar_view = NoSidebar | DrawerSidebar | FullSidebar | RailSidebar

definition layout_view :: "layout \<Rightarrow> sidebar_view" where
  [view_defs]: "layout_view l =
     (if getSnapshot (ly_width l) = Mobile
      then (if ly_drawerOpen l then DrawerSidebar else NoSidebar)
      else (if ly_collapsed l then RailSidebar else FullSidebar))"

definition stored :: "layout \<Rightarrow> bool" where
  "stored l \<longleftrightarrow> read_collapsed (ly_storage l) = ly_collapsed l"

lemma stored_mount [simp]: "stored (layout_mount width path st)"
  by (simp add: stored_def layout_mount_def Let_def)

lemma stored_step: "stored l \<Longrightarrow> stored (layout_step e l)"
  by (cases e) (simp_all add: stored_def Let_def layout_mount_def)

lemma stored_run: "stored l \<Longrightarrow> stored (layout_run es l)"
  unfolding layout_run_def by (induction es arbitrary: l) (simp_all add: stored_step)

text \<open>The sidebar preference survives a reload after any history of events, other keys of the
  storage are never touched, and a reload, like a change of page, closes the drawer.\<close>

lemma collapsed_persists:
  "(let l = layout_run es (layout_mount width path st) in
      ly_collapsed (layout_step Reload l) = ly_collapsed l
      \<and> (\<forall>k. k \<noteq> STORAGE_KEY \<longrightarrow> ly_storage l k = st k)
      \<and> \<not> ly_drawerOpen (layout_step Reload l)
      \<and> (\<forall>p. p \<noteq> ly_path l \<longrightarrow> \<not> ly_drawerOpen (layout_step (GoTo p) l)))"
proof -
  have other: "ly_storage (layout_step e l) k = ly_storage l k" if "k \<noteq> STORAGE_KEY" for e l k
    using that by (cases e) (simp_all add: Let_def layout_mount_def write_collapsed_def)
  have "ly_storage (fold layout_step es l) k = ly_storage l k" if "k \<noteq> STORAGE_KEY" for l k
    using that by (induction es arbitrary: l) (simp_all add: other)
  then have rest: "ly_storage (layout_run es (layout_mount width path st)) k = st k" if "k \<noteq> STORAGE_KEY" for k
    using that by (simp add: layout_run_def layout_mount_def write_collapsed_def Let_def)
  have "stored (layout_run es (layout_mount width path st))" by (simp add: stored_run)
  with rest show ?thesis by (simp add: Let_def stored_def layout_mount_def)
qed

lemma collapsed_persists_witness:
  "ly_collapsed (layout_step Reload (layout_run [ToggleDrawer, ToggleCollapsed] (layout_mount 800 ''/members'' (\<lambda>_. None))))
   \<and> layout_view (layout_step Reload (layout_run [ToggleDrawer, ToggleCollapsed] (layout_mount 800 ''/members'' (\<lambda>_. None))))
     = RailSidebar"
  using collapsed_persists [of "[ToggleDrawer, ToggleCollapsed]" 800 "''/members''" "\<lambda>_. None"]
  by (simp add: Let_def layout_run_def layout_mount_def read_collapsed_def layout_view_def
      getSnapshot_def min_width_def TABLET_MIN_PX_def DESKTOP_MIN_PX_def write_collapsed_def bool_text_def)

section \<open>The dashboard\<close>

datatype dashboard = AdminDashboard | GymDashboard

definition dashboardPage :: "user option \<Rightarrow> dashboard" where
  "dashboardPage usr = (case usr of
     None \<Rightarrow> GymDashboard
   | Some u \<Rightarrow> if u_role u = R_super_admin then AdminDashboard else GymDashboard)"

text \<open>The three states of a number of \<open>AdminDashboard\<close>: ellipsis, dash, or the number.\<close>

datatype stat_text = Ellipsis | Dash | StatValue string

definition admin_fmt :: "int option \<Rightarrow> bool \<Rightarrow> bool \<Rightarrow> stat_text" where
  "admin_fmt value isLoading error =
     (if isLoading then Ellipsis else if error then Dash
      else StatValue (string_of_int (nullish value 0)))"

text \<open>The cards of \<open>GymDashboard\<close>; \<open>toLocaleString\<close> is the browser's number format.\<close>

record gym_cards =
  gd_name :: string
  gd_revenue :: "string option"
  gd_trend :: "(bool \<times> rat) option"
  gd_arpm :: "string option"

definition gym_money :: "(rat \<Rightarrow> string) \<Rightarrow> int \<Rightarrow> string \<Rightarrow> string" where
  "gym_money toLocaleString cents currency =
     toLocaleString (Fract cents 100) @ '' '' @ currency"

definition gymDashboard :: "(rat \<Rightarrow> string) \<Rightarrow> user option \<Rightarrow> revenue_summary option \<Rightarrow> gym_cards" where
  "gymDashboard loc usr revenue = \<lparr>
     gd_name = nullish (map_option (\<lambda>u. local_part (u_email u)) usr) [],
     gd_revenue = map_option (\<lambda>r. gym_money loc (rr_cents (rs_this_month r)) (rs_currency r)) revenue,
     gd_trend = Option.bind revenue (\<lambda>r. map_option (\<lambda>p. (p \<ge> 0, \<bar>p\<bar>)) (rs_mom_pct r)),
     gd_arpm = Option.bind revenue (\<lambda>r. if rs_arpm_cents r > 0
                  then Some (gym_money loc (rs_arpm_cents r) (rs_currency r)) else None)\<rparr>"

definition quick_actions :: "string list" where
  "quick_actions = [''/members'', ''/payments'', ''/leads'']"

text \<open>A coach sees the three quick actions, and each of them leads back to the dashboard.\<close>

lemma coach_quick_actions:
  assumes "path \<in> set quick_actions"
  shows "visit 1 (auth_value (signed_in R_coach)) path = Some (''/dashboard'', Page DashboardPage)"
  using assms unfolding quick_actions_def
  by (simp only: list.set insert_iff empty_iff)
     (elim disjE; simp add: visit_steps signed_in_value canAccess_Some EMPTY_OVERRIDES_def)

end
