(* ===== verification/QueryString.thy ===== *)
theory QueryString
  imports Prelude
begin

text \<open>
  \<open>URLSearchParams\<close>, the standard-library class every list endpoint builds its query with: the
  list of pairs with \<open>set\<close> and \<open>append\<close>, its \<open>application/x-www-form-urlencoded\<close> text, and the
  inverse reading a server performs. A character is a byte of the UTF-8 text.
\<close>

type_synonym params = "(string \<times> string) list"

section \<open>The pairs\<close>

definition append_param :: "string \<Rightarrow> string \<Rightarrow> params \<Rightarrow> params" where
  [api_defs]: "append_param k v ps = ps @ [(k, v)]"

text \<open>\<open>set\<close>: the first pair of that name gets the value and the others go, or the pair is added.\<close>

fun set_param :: "string \<Rightarrow> string \<Rightarrow> params \<Rightarrow> params" where
  "set_param k v [] = [(k, v)]"
| "set_param k v ((k', v') # ps) =
     (if k' = k then (k, v) # filter (\<lambda>p. fst p \<noteq> k) ps else (k', v') # set_param k v ps)"

lemma set_param_fresh: "k \<notin> fst ` set ps \<Longrightarrow> set_param k v ps = ps @ [(k, v)]"
  by (induction ps) auto

text \<open>The guards of the list endpoints.\<close>

definition set_if_truthy :: "string \<Rightarrow> string option \<Rightarrow> params \<Rightarrow> params" where
  "set_if_truthy k v ps = (if truthy_str v then set_param k (the v) ps else ps)"

definition set_if_defined :: "string \<Rightarrow> int option \<Rightarrow> params \<Rightarrow> params" where
  "set_if_defined k v ps = (case v of None \<Rightarrow> ps | Some n \<Rightarrow> set_param k (string_of_int n) ps)"

definition set_if_flag :: "string \<Rightarrow> bool option \<Rightarrow> params \<Rightarrow> params" where
  "set_if_flag k v ps = (if v = Some True then set_param k ''true'' ps else ps)"

definition set_if_false :: "string \<Rightarrow> bool option \<Rightarrow> params \<Rightarrow> params" where
  "set_if_false k v ps = (if v = Some False then set_param k ''false'' ps else ps)"

definition append_each :: "string \<Rightarrow> string list option \<Rightarrow> params \<Rightarrow> params" where
  "append_each k vs ps = foldl (\<lambda>acc v. append_param k v acc) ps (nullish vs [])"

text \<open>What each guard contributes, when the key is new.\<close>

definition when_truthy :: "string \<Rightarrow> string option \<Rightarrow> params" where
  "when_truthy k v = (if truthy_str v then [(k, the v)] else [])"

definition when_defined :: "string \<Rightarrow> int option \<Rightarrow> params" where
  "when_defined k v = (case v of None \<Rightarrow> [] | Some n \<Rightarrow> [(k, string_of_int n)])"

definition when_flag :: "string \<Rightarrow> bool option \<Rightarrow> params" where
  "when_flag k v = (if v = Some True then [(k, ''true'')] else [])"

definition when_false :: "string \<Rightarrow> bool option \<Rightarrow> params" where
  "when_false k v = (if v = Some False then [(k, ''false'')] else [])"

definition each_param :: "string \<Rightarrow> string list option \<Rightarrow> params" where
  "each_param k vs = map (\<lambda>v. (k, v)) (nullish vs [])"

lemmas when_defs = when_truthy_def when_defined_def when_flag_def when_false_def each_param_def

lemma when_keys [simp]:
  "fst ` set (when_truthy k v) \<subseteq> {k}" "fst ` set (when_defined k n) \<subseteq> {k}"
  "fst ` set (when_flag k b) \<subseteq> {k}" "fst ` set (when_false k b) \<subseteq> {k}"
  "fst ` set (each_param k vs) \<subseteq> {k}"
  by (auto simp: when_defs split: option.splits)

text \<open>A decidable form of freshness: no pair of that name.\<close>

definition fresh :: "string \<Rightarrow> params \<Rightarrow> bool" where
  "fresh k ps \<longleftrightarrow> list_all (\<lambda>p. fst p \<noteq> k) ps"

lemma fresh_append [simp]: "fresh k (ps @ qs) \<longleftrightarrow> fresh k ps \<and> fresh k qs"
  and fresh_Nil [simp]: "fresh k []"
  and fresh_Cons [simp]: "fresh k (p # ps) \<longleftrightarrow> fst p \<noteq> k \<and> fresh k ps"
  by (simp_all add: fresh_def)

lemma fresh_when [simp]:
  "k' \<noteq> k \<Longrightarrow> fresh k (when_truthy k' v)" "k' \<noteq> k \<Longrightarrow> fresh k (when_defined k' n)"
  "k' \<noteq> k \<Longrightarrow> fresh k (when_flag k' b)" "k' \<noteq> k \<Longrightarrow> fresh k (when_false k' b)"
  "k' \<noteq> k \<Longrightarrow> fresh k (each_param k' vs)"
  by (auto simp: fresh_def when_defs list_all_iff split: option.splits)

lemma fresh_set_param: "fresh k ps \<Longrightarrow> set_param k v ps = ps @ [(k, v)]"
  by (rule set_param_fresh) (auto simp: fresh_def list_all_iff)

lemma set_if_fresh [simp]:
  "fresh k ps \<Longrightarrow> set_if_truthy k v ps = ps @ when_truthy k v"
  "fresh k ps \<Longrightarrow> set_if_defined k n ps = ps @ when_defined k n"
  "fresh k ps \<Longrightarrow> set_if_flag k b ps = ps @ when_flag k b"
  "fresh k ps \<Longrightarrow> set_if_false k b ps = ps @ when_false k b"
  by (auto simp: set_if_truthy_def set_if_defined_def set_if_flag_def set_if_false_def when_defs
      fresh_set_param split: option.splits)

lemma append_each_eq [simp]: "append_each k vs ps = ps @ each_param k vs"
proof -
  have "foldl (\<lambda>acc v. append_param k v acc) ps xs = ps @ map (\<lambda>v. (k, v)) xs" for xs
    by (induction xs arbitrary: ps) (simp_all add: append_param_def)
  then show ?thesis by (simp add: append_each_def each_param_def)
qed

section \<open>The text\<close>

definition unreserved :: string where
  "unreserved = ''ABCDEFGHIJKLMNOPQRSTUVWXYZabcdefghijklmnopqrstuvwxyz0123456789*-._''"

definition hex_char :: "nat \<Rightarrow> char" where
  "hex_char n = ''0123456789ABCDEF'' ! n"

definition enc_char :: "char \<Rightarrow> string" where
  "enc_char c = (if c \<in> set unreserved then [c]
     else if c = CHR '' '' then ''+''
     else [CHR ''%'', hex_char (of_char c div 16), hex_char (of_char c mod 16)])"

definition enc :: "string \<Rightarrow> string" where
  "enc s = concat (map enc_char s)"

definition enc_pair :: "string \<times> string \<Rightarrow> string" where
  "enc_pair p = enc (fst p) @ CHR ''='' # enc (snd p)"

definition to_query :: "params \<Rightarrow> string" where
  "to_query ps = join_with ''&'' (map enc_pair ps)"

text \<open>\<open>`base${qs ? `?${qs}` : ""}`\<close>.\<close>

definition with_query :: "string \<Rightarrow> params \<Rightarrow> string" where
  "with_query base ps = (let qs = to_query ps in base @ (if qs \<noteq> [] then ''?'' @ qs else []))"

section \<open>The reading\<close>

fun index_of :: "char \<Rightarrow> string \<Rightarrow> nat" where
  "index_of c [] = 0"
| "index_of c (x # xs) = (if x = c then 0 else Suc (index_of c xs))"

definition hex_val :: "char \<Rightarrow> nat" where
  "hex_val c = index_of c ''0123456789ABCDEF''"

fun dec :: "string \<Rightarrow> string" where
  "dec [] = []"
| "dec [c] = [if c = CHR ''+'' then CHR '' '' else c]"
| "dec [c, d] = (if c = CHR ''+'' then CHR '' '' else c) # dec [d]"
| "dec (c # h # l # cs) =
     (if c = CHR ''%'' then char_of (16 * hex_val h + hex_val l) # dec cs
      else (if c = CHR ''+'' then CHR '' '' else c) # dec (h # l # cs))"

fun split_on :: "char \<Rightarrow> string \<Rightarrow> string list" where
  "split_on c [] = [[]]"
| "split_on c (x # xs) = (if x = c then [] # split_on c xs
     else case split_on c xs of [] \<Rightarrow> [[x]] | w # ws \<Rightarrow> (x # w) # ws)"

definition dec_pair :: "string \<Rightarrow> string \<times> string" where
  "dec_pair s = (let k = takeWhile (\<lambda>c. c \<noteq> CHR ''='') s in
     (dec k, dec (drop (length k + 1) s)))"

definition from_query :: "string \<Rightarrow> params" where
  "from_query q = (if q = [] then [] else map dec_pair (split_on (CHR ''&'') q))"

lemma split_on_none: "c \<notin> set s \<Longrightarrow> split_on c s = [s]"
  by (induction s) auto

lemma split_on_sep: "c \<notin> set s \<Longrightarrow> split_on c (s @ c # t) = s # split_on c t"
  by (induction s) auto

lemma nibbles: "(n::nat) < 16 \<Longrightarrow> n \<in> {0, 1, 2, 3, 4, 5, 6, 7, 8, 9, 10, 11, 12, 13, 14, 15}"
proof -
  assume "n < 16"
  then have "n \<in> set [0..<16]" by simp
  also have "[0..<16] = [0, 1, 2, 3, 4, 5, 6, 7, 8, 9, 10, 11, 12, 13, 14, 15::nat]" by (simp add: upt_rec)
  finally show ?thesis by simp
qed

lemma hex_val_char: "n < 16 \<Longrightarrow> hex_val (hex_char n) = n"
  by (drule nibbles) (auto simp: hex_val_def hex_char_def)

lemma hex_char_safe: "n < 16 \<Longrightarrow> hex_char n \<noteq> CHR ''&'' \<and> hex_char n \<noteq> CHR ''=''"
  by (drule nibbles) (auto simp: hex_char_def)

lemma of_char_256: "(of_char (c::char) :: nat) < 256"
  using of_char_mod_256 [of c, where ?'a = nat] by (metis mod_less_divisor zero_less_numeral)

lemma char_nibbles: "of_char (c::char) div 16 < (16::nat)" "of_char c mod 16 < (16::nat)"
  using of_char_256 [of c] by (simp_all add: less_mult_imp_div_less)

lemma dec_plain: "c \<noteq> CHR ''%'' \<Longrightarrow> dec (c # t) = (if c = CHR ''+'' then CHR '' '' else c) # dec t"
  by (cases t rule: dec.cases) auto

lemma dec_enc_char: "dec (enc_char c @ t) = c # dec t"
proof -
  have whole: "char_of (16 * (of_char c div 16) + of_char c mod (16::nat)) = c"
    by (simp add: mult.commute)
  show ?thesis
  proof (cases "c \<in> set unreserved")
    case True
    then have "c \<noteq> CHR ''%''" "c \<noteq> CHR ''+''" by (auto simp: unreserved_def)
    with True show ?thesis by (simp add: enc_char_def dec_plain)
  next
    case False
    then show ?thesis
      using whole by (auto simp: enc_char_def dec_plain hex_val_char char_nibbles)
  qed
qed

lemma dec_enc [simp]: "dec (enc s) = s"
  by (induction s) (simp_all add: enc_def dec_enc_char)

lemma enc_safe: "CHR ''&'' \<notin> set (enc s)" "CHR ''='' \<notin> set (enc s)"
proof -
  have "CHR ''&'' \<notin> set (enc_char c) \<and> CHR ''='' \<notin> set (enc_char c)" for c
  proof -
    show ?thesis
      using hex_char_safe [OF char_nibbles(1) [of c]] hex_char_safe [OF char_nibbles(2) [of c]]
      by (auto simp: enc_char_def unreserved_def)
  qed
  then show "CHR ''&'' \<notin> set (enc s)" "CHR ''='' \<notin> set (enc s)" by (auto simp: enc_def)
qed

lemma dec_enc_pair: "dec_pair (enc_pair p) = p"
proof -
  have "takeWhile (\<lambda>c. c \<noteq> CHR ''='') (enc_pair p) = enc (fst p)"
    unfolding enc_pair_def by (subst takeWhile_append2) (use enc_safe in auto)
  then show ?thesis by (simp add: dec_pair_def Let_def enc_pair_def)
qed

lemma enc_pair_safe: "CHR ''&'' \<notin> set (enc_pair p)"
  using enc_safe by (simp add: enc_pair_def)

lemma enc_pair_nonempty [simp]: "enc_pair p \<noteq> []"
  by (simp add: enc_pair_def)

lemma to_query_Nil: "to_query ps = [] \<longleftrightarrow> ps = []"
  by (cases ps rule: list.exhaust [case_product list.exhaust]; cases "tl ps")
     (auto simp: to_query_def)

lemma from_to_query: "from_query (to_query ps) = ps"
proof -
  have split: "split_on (CHR ''&'') (join_with ''&'' (map enc_pair (p # qs))) = map enc_pair (p # qs)" for p qs
  proof (induction qs arbitrary: p)
    case Nil
    then show ?case by (simp add: split_on_none enc_pair_safe)
  next
    case (Cons q qs)
    then show ?case using split_on_sep [OF enc_pair_safe] by simp
  qed
  show ?thesis
  proof (cases ps)
    case (Cons p qs)
    then have "to_query ps \<noteq> []" by (simp add: to_query_Nil)
    with Cons split show ?thesis
      by (simp add: from_query_def to_query_def dec_enc_pair comp_def del: join_with.simps)
  qed (simp add: from_query_def to_query_def)
qed

section \<open>The interface of a query codec\<close>

text \<open>
  The list endpoints and the server agree on one thing: the reader recovers the pairs the builder
  put in, and an empty query is left out of the path.
\<close>

locale query_codec =
  fixes encode :: "params \<Rightarrow> string" and decode :: "string \<Rightarrow> params"
  assumes decode_encode: "decode (encode ps) = ps"
    and encode_Nil: "encode ps = [] \<longleftrightarrow> ps = []"
begin

lemma encode_inject: "encode ps = encode qs \<longleftrightarrow> ps = qs"
  by (metis decode_encode)

text \<open>Two requests on the same base path are the same exactly when they carry the same pairs.\<close>

lemma path_inject:
  "base @ (if encode ps \<noteq> [] then ''?'' @ encode ps else [])
     = base @ (if encode qs \<noteq> [] then ''?'' @ encode qs else []) \<longleftrightarrow> ps = qs"
  by (auto simp: encode_Nil encode_inject split: if_splits)

end

interpretation urlencoded: query_codec to_query from_query
  by unfold_locales (simp_all add: from_to_query to_query_Nil)

lemma with_query_inject: "with_query base ps = with_query base qs \<longleftrightarrow> ps = qs"
  unfolding with_query_def Let_def by (rule urlencoded.path_inject)

text \<open>The part of a request path after the question mark, as the server reads it.\<close>

definition query_of :: "string \<Rightarrow> params" where
  "query_of path = from_query (drop 1 (dropWhile (\<lambda>c. c \<noteq> CHR ''?'') path))"

definition path_of :: "string \<Rightarrow> string" where
  "path_of path = takeWhile (\<lambda>c. c \<noteq> CHR ''?'') path"

lemma dropWhile_none: "c \<notin> set s \<Longrightarrow> dropWhile (\<lambda>x. x \<noteq> c) s = []"
  by (simp add: dropWhile_eq_Nil_conv) blast

lemma query_of_with_query:
  assumes "CHR ''?'' \<notin> set base" shows "query_of (with_query base ps) = ps"
proof (cases "ps = []")
  case True
  with assms show ?thesis
    by (simp add: query_of_def with_query_def to_query_def dropWhile_none from_query_def)
next
  case False
  then have "with_query base ps = base @ CHR ''?'' # to_query ps"
    by (simp add: with_query_def Let_def to_query_Nil)
  moreover have "dropWhile (\<lambda>c. c \<noteq> CHR ''?'') (base @ CHR ''?'' # to_query ps) = CHR ''?'' # to_query ps"
    by (subst dropWhile_append2) (use assms in auto)
  ultimately show ?thesis by (simp add: query_of_def from_to_query)
qed

lemma path_of_with_query:
  assumes "CHR ''?'' \<notin> set base" shows "path_of (with_query base ps) = base"
proof -
  have "takeWhile (\<lambda>c. c \<noteq> CHR ''?'') (base @ CHR ''?'' # t) = base" for t
    by (subst takeWhile_append2) (use assms in auto)
  moreover have "takeWhile (\<lambda>c. c \<noteq> CHR ''?'') base = base"
    by (rule takeWhile_eq_all_conv [THEN iffD2]) (use assms in auto)
  ultimately show ?thesis by (simp add: path_of_def with_query_def Let_def)
qed

end
