(* ===== verification/Endpoints.thy ===== *)
theory Endpoints
  imports Types ApiClient QueryString
begin

text \<open>
  The request each API function makes: the \<^verbatim>\<open>features/*/api.ts\<close> files, one definition per
  function, in file order. A function returns the \<^typ>\<open>api_call\<close> it hands to the client; a request
  body is the JSON the caller passes. An \<open>options?\<close> argument that is left out behaves as the object
  without keys, the record whose members are all \<^const>\<open>None\<close>.
\<close>

section \<open>Attendance\<close>

definition quotaCheck :: "string \<Rightarrow> string \<Rightarrow> api_call" where
  [api_defs]: "quotaCheck memberId classId = api_get
     (''/attendance/quota-check?'' @ to_query [(''member_id'', memberId), (''class_id'', classId)])"

definition recordEntry :: "json \<Rightarrow> api_call" where
  [api_defs]: "recordEntry data = api_post ''/attendance'' (Some data)"

definition undoEntry :: "string \<Rightarrow> json \<Rightarrow> api_call" where
  [api_defs]: "undoEntry ident data = api_post (''/attendance/'' @ ident @ ''/undo'') (Some data)"

record entry_filters =
  ef_memberId :: "string option"
  ef_classId :: "string option"
  ef_dateFrom :: "string option"
  ef_dateTo :: "string option"
  ef_includeUndone :: "bool option"
  ef_undoneOnly :: "bool option"
  ef_overrideOnly :: "bool option"
  ef_limit :: "int option"
  ef_offset :: "int option"

definition listEntries :: "entry_filters \<Rightarrow> api_call" where
  [api_defs]: "listEntries filters = (
     let params = [] in
     let params = set_if_truthy ''member_id'' (ef_memberId filters) params in
     let params = set_if_truthy ''class_id'' (ef_classId filters) params in
     let params = set_if_truthy ''date_from'' (ef_dateFrom filters) params in
     let params = set_if_truthy ''date_to'' (ef_dateTo filters) params in
     let params = set_if_flag ''include_undone'' (ef_includeUndone filters) params in
     let params = set_if_flag ''undone_only'' (ef_undoneOnly filters) params in
     let params = set_if_flag ''override_only'' (ef_overrideOnly filters) params in
     let params = set_if_defined ''limit'' (ef_limit filters) params in
     let params = set_if_defined ''offset'' (ef_offset filters) params in
     api_get (with_query ''/attendance'' params))"

text \<open>\<open>limit\<close> defaults to 50.\<close>

definition listMemberEntries :: "string \<Rightarrow> int option \<Rightarrow> api_call" where
  [api_defs]: "listMemberEntries memberId limit = api_get
     (''/attendance/members/'' @ memberId @ ''?limit='' @ string_of_int (nullish limit 50))"

definition memberSummary :: "string \<Rightarrow> api_call" where
  [api_defs]: "memberSummary memberId = api_get (''/attendance/members/'' @ memberId @ ''/summary'')"

section \<open>Classes\<close>

record catalog_filters =
  cf_includeInactive :: "bool option"
  cf_limit :: "int option"
  cf_offset :: "int option"

definition listClasses :: "catalog_filters \<Rightarrow> api_call" where
  [api_defs]: "listClasses filters = (
     let params = [] in
     let params = set_if_flag ''include_inactive'' (cf_includeInactive filters) params in
     let params = set_if_defined ''limit'' (cf_limit filters) params in
     let params = set_if_defined ''offset'' (cf_offset filters) params in
     api_get (with_query ''/classes'' params))"

definition getClass :: "string \<Rightarrow> api_call" where
  [api_defs]: "getClass ident = api_get (''/classes/'' @ ident)"

definition createClass :: "json \<Rightarrow> api_call" where
  [api_defs]: "createClass data = api_post ''/classes'' (Some data)"

definition updateClass :: "string \<Rightarrow> json \<Rightarrow> api_call" where
  [api_defs]: "updateClass ident data = api_patch (''/classes/'' @ ident) (Some data)"

definition deactivateClass :: "string \<Rightarrow> api_call" where
  [api_defs]: "deactivateClass ident = api_post (''/classes/'' @ ident @ ''/deactivate'') None"

definition activateClass :: "string \<Rightarrow> api_call" where
  [api_defs]: "activateClass ident = api_post (''/classes/'' @ ident @ ''/activate'') None"

section \<open>Coaches\<close>

record coach_filters =
  chf_status :: "coach_status list option"
  chf_search :: "string option"
  chf_limit :: "int option"
  chf_offset :: "int option"

definition listCoaches :: "coach_filters \<Rightarrow> api_call" where
  [api_defs]: "listCoaches filters = (
     let params = [] in
     let params = append_each ''status'' (map_option (map coach_status_text) (chf_status filters)) params in
     let params = set_if_truthy ''search'' (chf_search filters) params in
     let params = set_if_defined ''limit'' (chf_limit filters) params in
     let params = set_if_defined ''offset'' (chf_offset filters) params in
     api_get (with_query ''/coaches'' params))"

definition getCoach :: "string \<Rightarrow> api_call" where
  [api_defs]: "getCoach ident = api_get (''/coaches/'' @ ident)"

definition createCoach :: "json \<Rightarrow> api_call" where
  [api_defs]: "createCoach data = api_post ''/coaches'' (Some data)"

definition updateCoach :: "string \<Rightarrow> json \<Rightarrow> api_call" where
  [api_defs]: "updateCoach ident data = api_patch (''/coaches/'' @ ident) (Some data)"

definition freezeCoach :: "string \<Rightarrow> api_call" where
  [api_defs]: "freezeCoach ident = api_post (''/coaches/'' @ ident @ ''/freeze'') None"

definition unfreezeCoach :: "string \<Rightarrow> api_call" where
  [api_defs]: "unfreezeCoach ident = api_post (''/coaches/'' @ ident @ ''/unfreeze'') None"

definition cancelCoach :: "string \<Rightarrow> api_call" where
  [api_defs]: "cancelCoach ident = api_post (''/coaches/'' @ ident @ ''/cancel'') None"

definition inviteCoachUser :: "string \<Rightarrow> json \<Rightarrow> api_call" where
  [api_defs]: "inviteCoachUser ident data = api_post (''/coaches/'' @ ident @ ''/invite-user'') (Some data)"

definition listCoachesForClass :: "string \<Rightarrow> bool \<Rightarrow> api_call" where
  [api_defs]: "listCoachesForClass classId onlyCurrent =
     (let qs = (if onlyCurrent then ''?only_current=true'' else [])
      in api_get (''/classes/'' @ classId @ ''/coaches'' @ qs))"

definition listClassesForCoach :: "string \<Rightarrow> bool \<Rightarrow> api_call" where
  [api_defs]: "listClassesForCoach coachId onlyCurrent =
     (let qs = (if onlyCurrent then ''?only_current=true'' else [])
      in api_get (''/coaches/'' @ coachId @ ''/classes'' @ qs))"

definition assignCoachToClass :: "string \<Rightarrow> json \<Rightarrow> api_call" where
  [api_defs]: "assignCoachToClass classId data = api_post (''/classes/'' @ classId @ ''/coaches'') (Some data)"

definition updateClassCoachLink :: "string \<Rightarrow> json \<Rightarrow> api_call" where
  [api_defs]: "updateClassCoachLink linkId data = api_patch (''/class-coaches/'' @ linkId) (Some data)"

definition deleteClassCoachLink :: "string \<Rightarrow> api_call" where
  [api_defs]: "deleteClassCoachLink linkId = api_delete (''/class-coaches/'' @ linkId)"

definition getCoachEarnings :: "string \<Rightarrow> string \<Rightarrow> string \<Rightarrow> api_call" where
  [api_defs]: "getCoachEarnings coachId frm to =
     (let params = [(''from'', frm), (''to'', to)]
      in api_get (''/coaches/'' @ coachId @ ''/earnings?'' @ to_query params))"

definition getEarningsSummary :: "string \<Rightarrow> string \<Rightarrow> api_call" where
  [api_defs]: "getEarningsSummary frm to =
     (let params = [(''from'', frm), (''to'', to)]
      in api_get (''/coaches/earnings/summary?'' @ to_query params))"

definition reassignEntryCoach :: "string \<Rightarrow> string option \<Rightarrow> api_call" where
  [api_defs]: "reassignEntryCoach entryId coachId =
     api_post (''/attendance/'' @ entryId @ ''/reassign-coach'') (Some (JObj [(''coach_id'', jopt JStr coachId)]))"

section \<open>Dashboard\<close>

definition getPlatformStats :: "api_call" where
  [api_defs]: "getPlatformStats = api_get ''/admin/stats''"

section \<open>Leads\<close>

record lead_filters =
  lf_status :: "lead_status list option"
  lf_source :: "lead_source list option"
  lf_assignedTo :: "string option"
  lf_search :: "string option"
  lf_limit :: "int option"
  lf_offset :: "int option"

definition listLeads :: "lead_filters \<Rightarrow> api_call" where
  [api_defs]: "listLeads filters = (
     let params = [] in
     let params = append_each ''status'' (map_option (map lead_status_text) (lf_status filters)) params in
     let params = append_each ''source'' (map_option (map lead_source_text) (lf_source filters)) params in
     let params = set_if_truthy ''assigned_to'' (lf_assignedTo filters) params in
     let params = set_if_truthy ''search'' (lf_search filters) params in
     let params = set_if_defined ''limit'' (lf_limit filters) params in
     let params = set_if_defined ''offset'' (lf_offset filters) params in
     api_get (with_query ''/leads'' params))"

definition getLead :: "string \<Rightarrow> api_call" where
  [api_defs]: "getLead ident = api_get (''/leads/'' @ ident)"

definition createLead :: "json \<Rightarrow> api_call" where
  [api_defs]: "createLead data = api_post ''/leads'' (Some data)"

definition updateLead :: "string \<Rightarrow> json \<Rightarrow> api_call" where
  [api_defs]: "updateLead ident data = api_patch (''/leads/'' @ ident) (Some data)"

definition setLeadStatus :: "string \<Rightarrow> json \<Rightarrow> api_call" where
  [api_defs]: "setLeadStatus ident data = api_post (''/leads/'' @ ident @ ''/status'') (Some data)"

definition assignLead :: "string \<Rightarrow> json \<Rightarrow> api_call" where
  [api_defs]: "assignLead ident data = api_post (''/leads/'' @ ident @ ''/assign'') (Some data)"

definition convertLead :: "string \<Rightarrow> json \<Rightarrow> api_call" where
  [api_defs]: "convertLead ident data = api_post (''/leads/'' @ ident @ ''/convert'') (Some data)"

record activity_filters =
  af_limit :: "int option"
  af_offset :: "int option"

definition listActivities :: "string \<Rightarrow> activity_filters \<Rightarrow> api_call" where
  [api_defs]: "listActivities leadId filters = (
     let params = [] in
     let params = set_if_defined ''limit'' (af_limit filters) params in
     let params = set_if_defined ''offset'' (af_offset filters) params in
     api_get (with_query (''/leads/'' @ leadId @ ''/activities'') params))"

definition addActivity :: "string \<Rightarrow> json \<Rightarrow> api_call" where
  [api_defs]: "addActivity leadId data = api_post (''/leads/'' @ leadId @ ''/activities'') (Some data)"

definition getLeadStats :: "api_call" where
  [api_defs]: "getLeadStats = api_get ''/leads/stats''"

record lost_reason_filters =
  lrf_days :: "int option"
  lrf_limit :: "int option"

definition listLostReasons :: "lost_reason_filters \<Rightarrow> api_call" where
  [api_defs]: "listLostReasons filters = (
     let params = [] in
     let params = set_if_defined ''days'' (lrf_days filters) params in
     let params = set_if_defined ''limit'' (lrf_limit filters) params in
     api_get (with_query ''/leads/lost-reasons'' params))"

section \<open>Members\<close>

record member_filters =
  mf_status :: "member_status list option"
  mf_search :: "string option"
  mf_limit :: "int option"
  mf_offset :: "int option"

definition listMembers :: "member_filters \<Rightarrow> api_call" where
  [api_defs]: "listMembers filters = (
     let params = [] in
     let params = append_each ''status'' (map_option (map member_status_text) (mf_status filters)) params in
     let params = set_if_truthy ''search'' (mf_search filters) params in
     let params = set_if_defined ''limit'' (mf_limit filters) params in
     let params = set_if_defined ''offset'' (mf_offset filters) params in
     api_get (with_query ''/members'' params))"

definition getMember :: "string \<Rightarrow> api_call" where
  [api_defs]: "getMember ident = api_get (''/members/'' @ ident)"

definition createMember :: "json \<Rightarrow> api_call" where
  [api_defs]: "createMember data = api_post ''/members'' (Some data)"

definition updateMember :: "string \<Rightarrow> json \<Rightarrow> api_call" where
  [api_defs]: "updateMember ident data = api_patch (''/members/'' @ ident) (Some data)"

definition freezeMember :: "string \<Rightarrow> string option \<Rightarrow> api_call" where
  [api_defs]: "freezeMember ident until =
     api_post (''/members/'' @ ident @ ''/freeze'') (Some (JObj [(''until'', jopt JStr until)]))"

definition unfreezeMember :: "string \<Rightarrow> api_call" where
  [api_defs]: "unfreezeMember ident = api_post (''/members/'' @ ident @ ''/unfreeze'') None"

definition cancelMember :: "string \<Rightarrow> api_call" where
  [api_defs]: "cancelMember ident = api_post (''/members/'' @ ident @ ''/cancel'') None"

section \<open>Payments\<close>

record payment_filters =
  pf_memberId :: "string option"
  pf_subscriptionId :: "string option"
  pf_paidFrom :: "string option"
  pf_paidTo :: "string option"
  pf_method :: "payment_method option"
  pf_includeRefunds :: "bool option"
  pf_limit :: "int option"
  pf_offset :: "int option"

definition listPayments :: "payment_filters \<Rightarrow> api_call" where
  [api_defs]: "listPayments filters = (
     let params = [] in
     let params = set_if_truthy ''member_id'' (pf_memberId filters) params in
     let params = set_if_truthy ''subscription_id'' (pf_subscriptionId filters) params in
     let params = set_if_truthy ''paid_from'' (pf_paidFrom filters) params in
     let params = set_if_truthy ''paid_to'' (pf_paidTo filters) params in
     let params = set_if_truthy ''method'' (map_option payment_method_text (pf_method filters)) params in
     let params = set_if_false ''include_refunds'' (pf_includeRefunds filters) params in
     let params = set_if_defined ''limit'' (pf_limit filters) params in
     let params = set_if_defined ''offset'' (pf_offset filters) params in
     api_get (with_query ''/payments'' params))"

definition getPayment :: "string \<Rightarrow> api_call" where
  [api_defs]: "getPayment ident = api_get (''/payments/'' @ ident)"

definition recordPayment :: "json \<Rightarrow> api_call" where
  [api_defs]: "recordPayment data = api_post ''/payments'' (Some data)"

definition refundPayment :: "string \<Rightarrow> json \<Rightarrow> api_call" where
  [api_defs]: "refundPayment ident data = api_post (''/payments/'' @ ident @ ''/refund'') (Some data)"

definition listMemberPayments :: "string \<Rightarrow> api_call" where
  [api_defs]: "listMemberPayments memberId = api_get (''/members/'' @ memberId @ ''/payments'')"

definition getRevenueSummary :: "api_call" where
  [api_defs]: "getRevenueSummary = api_get ''/dashboard/revenue''"

section \<open>Plans\<close>

definition listPlans :: "catalog_filters \<Rightarrow> api_call" where
  [api_defs]: "listPlans filters = (
     let params = [] in
     let params = set_if_flag ''include_inactive'' (cf_includeInactive filters) params in
     let params = set_if_defined ''limit'' (cf_limit filters) params in
     let params = set_if_defined ''offset'' (cf_offset filters) params in
     api_get (with_query ''/plans'' params))"

definition getPlan :: "string \<Rightarrow> api_call" where
  [api_defs]: "getPlan ident = api_get (''/plans/'' @ ident)"

definition createPlan :: "json \<Rightarrow> api_call" where
  [api_defs]: "createPlan data = api_post ''/plans'' (Some data)"

definition updatePlan :: "string \<Rightarrow> json \<Rightarrow> api_call" where
  [api_defs]: "updatePlan ident data = api_patch (''/plans/'' @ ident) (Some data)"

definition deactivatePlan :: "string \<Rightarrow> api_call" where
  [api_defs]: "deactivatePlan ident = api_post (''/plans/'' @ ident @ ''/deactivate'') None"

definition activatePlan :: "string \<Rightarrow> api_call" where
  [api_defs]: "activatePlan ident = api_post (''/plans/'' @ ident @ ''/activate'') None"

section \<open>Schedule\<close>

record template_filters =
  tf_class_id :: "string option"
  tf_only_active :: "bool option"

definition listTemplates :: "template_filters \<Rightarrow> api_call" where
  [api_defs]: "listTemplates filters = (
     let params = [] in
     let params = set_if_truthy ''class_id'' (tf_class_id filters) params in
     let params = set_if_flag ''only_active'' (tf_only_active filters) params in
     api_get (with_query ''/schedule/templates'' params))"

definition getTemplate :: "string \<Rightarrow> api_call" where
  [api_defs]: "getTemplate ident = api_get (''/schedule/templates/'' @ ident)"

definition createTemplate :: "json \<Rightarrow> api_call" where
  [api_defs]: "createTemplate data = api_post ''/schedule/templates'' (Some data)"

definition updateTemplate :: "string \<Rightarrow> json \<Rightarrow> api_call" where
  [api_defs]: "updateTemplate ident data = api_patch (''/schedule/templates/'' @ ident) (Some data)"

definition deactivateTemplate :: "string \<Rightarrow> api_call" where
  [api_defs]: "deactivateTemplate ident = api_delete (''/schedule/templates/'' @ ident)"

record session_filters =
  sf_from :: "string"
  sf_to :: "string"
  sf_class_id :: "string option"
  sf_coach_id :: "string option"
  sf_include_cancelled :: "bool option"

definition listSessions :: "session_filters \<Rightarrow> api_call" where
  [api_defs]: "listSessions filters = (
     let params = [(''from'', sf_from filters), (''to'', sf_to filters)] in
     let params = set_if_truthy ''class_id'' (sf_class_id filters) params in
     let params = set_if_truthy ''coach_id'' (sf_coach_id filters) params in
     let params = set_if_false ''include_cancelled'' (sf_include_cancelled filters) params in
     api_get (''/schedule/sessions'' @ ''?'' @ to_query params))"

definition getSession :: "string \<Rightarrow> api_call" where
  [api_defs]: "getSession ident = api_get (''/schedule/sessions/'' @ ident)"

definition createAdHocSession :: "json \<Rightarrow> api_call" where
  [api_defs]: "createAdHocSession data = api_post ''/schedule/sessions'' (Some data)"

definition updateSession :: "string \<Rightarrow> json \<Rightarrow> api_call" where
  [api_defs]: "updateSession ident data = api_patch (''/schedule/sessions/'' @ ident) (Some data)"

definition cancelSession :: "string \<Rightarrow> json \<Rightarrow> api_call" where
  [api_defs]: "cancelSession ident data = api_post (''/schedule/sessions/'' @ ident @ ''/cancel'') (Some data)"

definition bulkAction :: "json \<Rightarrow> api_call" where
  [api_defs]: "bulkAction data = api_post ''/schedule/bulk-action'' (Some data)"

definition updateTenantFeatures :: "string \<Rightarrow> json \<Rightarrow> api_call" where
  [api_defs]: "updateTenantFeatures tenantId data = api_patch (''/tenants/'' @ tenantId @ ''/features'') (Some data)"

section \<open>Subscriptions\<close>

record subscription_filters =
  sbf_memberId :: "string option"
  sbf_status :: "subscription_status option"
  sbf_planId :: "string option"
  sbf_expiresBefore :: "string option"
  sbf_expiresWithinDays :: "int option"
  sbf_limit :: "int option"
  sbf_offset :: "int option"

definition listSubscriptions :: "subscription_filters \<Rightarrow> api_call" where
  [api_defs]: "listSubscriptions filters = (
     let params = [] in
     let params = set_if_truthy ''member_id'' (sbf_memberId filters) params in
     let params = set_if_truthy ''status'' (map_option subscription_status_text (sbf_status filters)) params in
     let params = set_if_truthy ''plan_id'' (sbf_planId filters) params in
     let params = set_if_truthy ''expires_before'' (sbf_expiresBefore filters) params in
     let params = set_if_defined ''expires_within_days'' (sbf_expiresWithinDays filters) params in
     let params = set_if_defined ''limit'' (sbf_limit filters) params in
     let params = set_if_defined ''offset'' (sbf_offset filters) params in
     api_get (with_query ''/subscriptions'' params))"

definition getSubscription :: "string \<Rightarrow> api_call" where
  [api_defs]: "getSubscription ident = api_get (''/subscriptions/'' @ ident)"

definition listSubscriptionEvents :: "string \<Rightarrow> api_call" where
  [api_defs]: "listSubscriptionEvents ident = api_get (''/subscriptions/'' @ ident @ ''/events'')"

definition createSubscription :: "json \<Rightarrow> api_call" where
  [api_defs]: "createSubscription data = api_post ''/subscriptions'' (Some data)"

definition freezeSubscription :: "string \<Rightarrow> json \<Rightarrow> api_call" where
  [api_defs]: "freezeSubscription ident data = api_post (''/subscriptions/'' @ ident @ ''/freeze'') (Some data)"

definition unfreezeSubscription :: "string \<Rightarrow> api_call" where
  [api_defs]: "unfreezeSubscription ident = api_post (''/subscriptions/'' @ ident @ ''/unfreeze'') None"

definition renewSubscription :: "string \<Rightarrow> json \<Rightarrow> api_call" where
  [api_defs]: "renewSubscription ident data = api_post (''/subscriptions/'' @ ident @ ''/renew'') (Some data)"

definition changePlan :: "string \<Rightarrow> json \<Rightarrow> api_call" where
  [api_defs]: "changePlan ident data = api_post (''/subscriptions/'' @ ident @ ''/change-plan'') (Some data)"

definition cancelSubscription :: "string \<Rightarrow> json \<Rightarrow> api_call" where
  [api_defs]: "cancelSubscription ident data = api_post (''/subscriptions/'' @ ident @ ''/cancel'') (Some data)"

section \<open>Tenants and users\<close>

definition listTenants :: "api_call" where
  [api_defs]: "listTenants = api_get ''/tenants''"

definition getTenant :: "string \<Rightarrow> api_call" where
  [api_defs]: "getTenant ident = api_get (''/tenants/'' @ ident)"

definition createTenant :: "json \<Rightarrow> api_call" where
  [api_defs]: "createTenant data = api_post ''/tenants'' (Some data)"

definition updateTenant :: "string \<Rightarrow> json \<Rightarrow> api_call" where
  [api_defs]: "updateTenant ident data = api_patch (''/tenants/'' @ ident) (Some data)"

definition suspendTenant :: "string \<Rightarrow> api_call" where
  [api_defs]: "suspendTenant ident = api_post (''/tenants/'' @ ident @ ''/suspend'') None"

definition activateTenant :: "string \<Rightarrow> api_call" where
  [api_defs]: "activateTenant ident = api_post (''/tenants/'' @ ident @ ''/activate'') None"

definition cancelTenant :: "string \<Rightarrow> api_call" where
  [api_defs]: "cancelTenant ident = api_post (''/tenants/'' @ ident @ ''/cancel'') None"

definition getTenantStats :: "string \<Rightarrow> api_call" where
  [api_defs]: "getTenantStats ident = api_get (''/tenants/'' @ ident @ ''/stats'')"

definition createUser :: "json \<Rightarrow> api_call" where
  [api_defs]: "createUser data = api_post ''/users'' (Some data)"

definition listUsersForTenant :: "string \<Rightarrow> api_call" where
  [api_defs]: "listUsersForTenant tenantId = api_get (''/tenants/'' @ tenantId @ ''/users'')"

definition updateUser :: "string \<Rightarrow> json \<Rightarrow> api_call" where
  [api_defs]: "updateUser ident data = api_patch (''/users/'' @ ident) (Some data)"

definition deleteUser :: "string \<Rightarrow> api_call" where
  [api_defs]: "deleteUser ident = api_delete (''/users/'' @ ident)"

section \<open>What the server reads\<close>

lemmas list_defs = listEntries_def listClasses_def listCoaches_def listLeads_def listActivities_def
  listLostReasons_def listMembers_def listPayments_def listPlans_def listTemplates_def
  listSubscriptions_def

lemma call_path [simp]: "c_path (api_get p) = p" "c_path (api_post p b) = p"
    "c_path (api_patch p b) = p" "c_path (api_delete p) = p"
  by (simp_all add: api_get_def api_post_def api_patch_def api_delete_def)

lemma api_get_inject [simp]: "api_get p = api_get q \<longleftrightarrow> p = q"
  by (auto simp: api_get_def)

lemma listSessions_path:
  "c_path (listSessions f) = with_query ''/schedule/sessions''
     ([(''from'', sf_from f), (''to'', sf_to f)] @ when_truthy ''class_id'' (sf_class_id f)
      @ when_truthy ''coach_id'' (sf_coach_id f) @ when_false ''include_cancelled'' (sf_include_cancelled f))"
  by (simp add: listSessions_def with_query_def Let_def to_query_Nil)


end
