(* ===== verification/QueryHooks.thy ===== *)
theory QueryHooks
  imports Endpoints
begin

text \<open>
  The cache layer: the \<^verbatim>\<open>features/*/hooks.ts\<close> files. A query hook is its key, the call its
  \<open>queryFn\<close> makes and its \<open>enabled\<close> condition; a mutation hook is the call of its \<open>mutationFn\<close> and
  what \<open>onSuccess\<close> does to the cache, given the ids in the server's answer.

  The cache itself (TanStack Query) is not part of the repository: where a property needs it, how an
  invalidation matches a key is a parameter.
\<close>

datatype key_part = KS string | KO "(string \<times> json) list"

record query =
  q_key :: "key_part list"
  q_call :: api_call
  q_live :: bool
  q_enabled :: bool

datatype cache_op = Invalidate "key_part list" | SetData "key_part list"

record response_ids =
  re_id :: string
  re_tenant :: string

record mutation =
  mu_call :: api_call
  mu_success :: "response_ids \<Rightarrow> cache_op list"

section \<open>Filter objects as keys\<close>

text \<open>A filter object inside a key: the members that are defined, as the key's hash sees it.\<close>

definition key_field :: "string \<Rightarrow> ('a \<Rightarrow> json) \<Rightarrow> 'a option \<Rightarrow> (string \<times> json) list" where
  "key_field k f v = (case v of None \<Rightarrow> [] | Some x \<Rightarrow> [(k, f x)])"

definition JStrs :: "('a \<Rightarrow> string) \<Rightarrow> 'a list \<Rightarrow> json" where
  "JStrs f xs = JArr (map (\<lambda>x. JStr (f x)) xs)"

definition entry_key :: "entry_filters \<Rightarrow> (string \<times> json) list" where
  "entry_key f = key_field ''memberId'' JStr (ef_memberId f)
     @ key_field ''classId'' JStr (ef_classId f)
     @ key_field ''dateFrom'' JStr (ef_dateFrom f)
     @ key_field ''dateTo'' JStr (ef_dateTo f)
     @ key_field ''includeUndone'' JBool (ef_includeUndone f)
     @ key_field ''undoneOnly'' JBool (ef_undoneOnly f)
     @ key_field ''overrideOnly'' JBool (ef_overrideOnly f)
     @ key_field ''limit'' JNum (ef_limit f)
     @ key_field ''offset'' JNum (ef_offset f)"

definition catalog_key :: "catalog_filters \<Rightarrow> (string \<times> json) list" where
  "catalog_key f = key_field ''includeInactive'' JBool (cf_includeInactive f)
     @ key_field ''limit'' JNum (cf_limit f)
     @ key_field ''offset'' JNum (cf_offset f)"

definition coach_key :: "coach_filters \<Rightarrow> (string \<times> json) list" where
  "coach_key f = key_field ''status'' (JStrs coach_status_text) (chf_status f)
     @ key_field ''search'' JStr (chf_search f)
     @ key_field ''limit'' JNum (chf_limit f)
     @ key_field ''offset'' JNum (chf_offset f)"

definition lead_key :: "lead_filters \<Rightarrow> (string \<times> json) list" where
  "lead_key f = key_field ''status'' (JStrs lead_status_text) (lf_status f)
     @ key_field ''source'' (JStrs lead_source_text) (lf_source f)
     @ key_field ''assignedTo'' JStr (lf_assignedTo f)
     @ key_field ''search'' JStr (lf_search f)
     @ key_field ''limit'' JNum (lf_limit f)
     @ key_field ''offset'' JNum (lf_offset f)"

definition lost_reason_key :: "lost_reason_filters \<Rightarrow> (string \<times> json) list" where
  "lost_reason_key f = key_field ''days'' JNum (lrf_days f)
     @ key_field ''limit'' JNum (lrf_limit f)"

definition member_key :: "member_filters \<Rightarrow> (string \<times> json) list" where
  "member_key f = key_field ''status'' (JStrs member_status_text) (mf_status f)
     @ key_field ''search'' JStr (mf_search f)
     @ key_field ''limit'' JNum (mf_limit f)
     @ key_field ''offset'' JNum (mf_offset f)"

definition payment_key :: "payment_filters \<Rightarrow> (string \<times> json) list" where
  "payment_key f = key_field ''memberId'' JStr (pf_memberId f)
     @ key_field ''subscriptionId'' JStr (pf_subscriptionId f)
     @ key_field ''paidFrom'' JStr (pf_paidFrom f)
     @ key_field ''paidTo'' JStr (pf_paidTo f)
     @ key_field ''method'' (JStr \<circ> payment_method_text) (pf_method f)
     @ key_field ''includeRefunds'' JBool (pf_includeRefunds f)
     @ key_field ''limit'' JNum (pf_limit f)
     @ key_field ''offset'' JNum (pf_offset f)"

definition template_key :: "template_filters \<Rightarrow> (string \<times> json) list" where
  "template_key f = key_field ''class_id'' JStr (tf_class_id f)
     @ key_field ''only_active'' JBool (tf_only_active f)"

definition session_key :: "session_filters \<Rightarrow> (string \<times> json) list" where
  "session_key f = [(''from'', JStr (sf_from f)), (''to'', JStr (sf_to f))]
     @ key_field ''class_id'' JStr (sf_class_id f)
     @ key_field ''coach_id'' JStr (sf_coach_id f)
     @ key_field ''include_cancelled'' JBool (sf_include_cancelled f)"

definition subscription_key :: "subscription_filters \<Rightarrow> (string \<times> json) list" where
  "subscription_key f = key_field ''memberId'' JStr (sbf_memberId f)
     @ key_field ''status'' (JStr \<circ> subscription_status_text) (sbf_status f)
     @ key_field ''planId'' JStr (sbf_planId f)
     @ key_field ''expiresBefore'' JStr (sbf_expiresBefore f)
     @ key_field ''expiresWithinDays'' JNum (sbf_expiresWithinDays f)
     @ key_field ''limit'' JNum (sbf_limit f)
     @ key_field ''offset'' JNum (sbf_offset f)"

section \<open>Attendance\<close>

definition useAttendanceList :: "entry_filters \<Rightarrow> query" where
  [api_defs]: "useAttendanceList filters = \<lparr>q_key = [KS ''attendance'', KS ''list'', KO (entry_key filters)],
     q_call = listEntries filters, q_live = False, q_enabled = True\<rparr>"

definition useMemberAttendance :: "string \<Rightarrow> query" where
  [api_defs]: "useMemberAttendance memberId = \<lparr>q_key = [KS ''attendance'', KS ''member'', KS memberId],
     q_call = listMemberEntries memberId None, q_live = False, q_enabled = memberId \<noteq> []\<rparr>"

definition useMemberAttendanceSummary :: "string \<Rightarrow> query" where
  [api_defs]: "useMemberAttendanceSummary memberId = \<lparr>q_key = [KS ''attendance'', KS ''summary'', KS memberId],
     q_call = memberSummary memberId, q_live = False, q_enabled = memberId \<noteq> []\<rparr>"

definition useQuotaCheck :: "string \<Rightarrow> string \<Rightarrow> bool \<Rightarrow> query" where
  [api_defs]: "useQuotaCheck memberId classId enabled = \<lparr>q_key = [KS ''attendance'', KS ''quota-check'', KS memberId, KS classId],
     q_call = quotaCheck memberId classId, q_live = False, q_enabled = enabled \<and> memberId \<noteq> [] \<and> classId \<noteq> []\<rparr>"

definition invalidate_attendance :: "cache_op list" where
  "invalidate_attendance = [Invalidate [KS ''attendance'']]"

definition useRecordEntry :: "json \<Rightarrow> mutation" where
  [api_defs]: "useRecordEntry data = \<lparr>mu_call = recordEntry data,
     mu_success = (\<lambda>res. invalidate_attendance)\<rparr>"

definition useUndoEntry :: "string \<Rightarrow> json \<Rightarrow> mutation" where
  [api_defs]: "useUndoEntry ident data = \<lparr>mu_call = undoEntry ident data,
     mu_success = (\<lambda>res. invalidate_attendance)\<rparr>"

section \<open>Classes\<close>

definition useClasses :: "catalog_filters \<Rightarrow> query" where
  [api_defs]: "useClasses filters = \<lparr>q_key = [KS ''classes'', KO (catalog_key filters)],
     q_call = listClasses filters, q_live = False, q_enabled = True\<rparr>"

definition useClass :: "string \<Rightarrow> query" where
  [api_defs]: "useClass ident = \<lparr>q_key = [KS ''classes'', KS ident],
     q_call = getClass ident, q_live = False, q_enabled = ident \<noteq> []\<rparr>"

definition useCreateClass :: "json \<Rightarrow> mutation" where
  [api_defs]: "useCreateClass data = \<lparr>mu_call = createClass data,
     mu_success = (\<lambda>res. [Invalidate [KS ''classes'']])\<rparr>"

definition useUpdateClass :: "string \<Rightarrow> json \<Rightarrow> mutation" where
  [api_defs]: "useUpdateClass ident data = \<lparr>mu_call = updateClass ident data,
     mu_success = (\<lambda>res. [Invalidate [KS ''classes''], SetData [KS ''classes'', KS (re_id res)]])\<rparr>"

definition useDeactivateClass :: "string \<Rightarrow> mutation" where
  [api_defs]: "useDeactivateClass ident = \<lparr>mu_call = deactivateClass ident,
     mu_success = (\<lambda>res. [Invalidate [KS ''classes'']])\<rparr>"

definition useActivateClass :: "string \<Rightarrow> mutation" where
  [api_defs]: "useActivateClass ident = \<lparr>mu_call = activateClass ident,
     mu_success = (\<lambda>res. [Invalidate [KS ''classes'']])\<rparr>"

section \<open>Coaches\<close>

definition useCoaches :: "coach_filters \<Rightarrow> query" where
  [api_defs]: "useCoaches filters = \<lparr>q_key = [KS ''coaches'', KO (coach_key filters)],
     q_call = listCoaches filters, q_live = False, q_enabled = True\<rparr>"

definition useCoach :: "string \<Rightarrow> query" where
  [api_defs]: "useCoach ident = \<lparr>q_key = [KS ''coaches'', KS ident],
     q_call = getCoach ident, q_live = False, q_enabled = ident \<noteq> []\<rparr>"

definition useCoachesForClass :: "string \<Rightarrow> bool \<Rightarrow> query" where
  [api_defs]: "useCoachesForClass classId onlyCurrent = \<lparr>q_key = [KS ''class-coaches'', KS classId, KO [(''onlyCurrent'', JBool onlyCurrent)]],
     q_call = listCoachesForClass classId onlyCurrent, q_live = False, q_enabled = classId \<noteq> []\<rparr>"

definition useClassesForCoach :: "string \<Rightarrow> bool \<Rightarrow> query" where
  [api_defs]: "useClassesForCoach coachId onlyCurrent = \<lparr>q_key = [KS ''coaches'', KS coachId, KS ''classes'', KO [(''onlyCurrent'', JBool onlyCurrent)]],
     q_call = listClassesForCoach coachId onlyCurrent, q_live = False, q_enabled = coachId \<noteq> []\<rparr>"

definition useCoachEarnings :: "string \<Rightarrow> string \<Rightarrow> string \<Rightarrow> query" where
  [api_defs]: "useCoachEarnings coachId frm to = \<lparr>q_key = [KS ''coaches'', KS coachId, KS ''earnings'', KS frm, KS to],
     q_call = getCoachEarnings coachId frm to, q_live = False, q_enabled = coachId \<noteq> [] \<and> frm \<noteq> [] \<and> to \<noteq> []\<rparr>"

definition useEarningsSummary :: "string \<Rightarrow> string \<Rightarrow> query" where
  [api_defs]: "useEarningsSummary frm to = \<lparr>q_key = [KS ''coaches'', KS ''earnings-summary'', KS frm, KS to],
     q_call = getEarningsSummary frm to, q_live = False, q_enabled = frm \<noteq> [] \<and> to \<noteq> []\<rparr>"

definition useCreateCoach :: "json \<Rightarrow> mutation" where
  [api_defs]: "useCreateCoach data = \<lparr>mu_call = createCoach data,
     mu_success = (\<lambda>res. [Invalidate [KS ''coaches'']])\<rparr>"

definition useUpdateCoach :: "string \<Rightarrow> json \<Rightarrow> mutation" where
  [api_defs]: "useUpdateCoach ident data = \<lparr>mu_call = updateCoach ident data,
     mu_success = (\<lambda>res. [Invalidate [KS ''coaches''], SetData [KS ''coaches'', KS (re_id res)]])\<rparr>"

definition useFreezeCoach :: "string \<Rightarrow> mutation" where
  [api_defs]: "useFreezeCoach ident = \<lparr>mu_call = freezeCoach ident,
     mu_success = (\<lambda>res. [Invalidate [KS ''coaches'']])\<rparr>"

definition useUnfreezeCoach :: "string \<Rightarrow> mutation" where
  [api_defs]: "useUnfreezeCoach ident = \<lparr>mu_call = unfreezeCoach ident,
     mu_success = (\<lambda>res. [Invalidate [KS ''coaches'']])\<rparr>"

definition useCancelCoach :: "string \<Rightarrow> mutation" where
  [api_defs]: "useCancelCoach ident = \<lparr>mu_call = cancelCoach ident,
     mu_success = (\<lambda>res. [Invalidate [KS ''coaches'']])\<rparr>"

definition useInviteCoachUser :: "string \<Rightarrow> json \<Rightarrow> mutation" where
  [api_defs]: "useInviteCoachUser ident data = \<lparr>mu_call = inviteCoachUser ident data,
     mu_success = (\<lambda>res. [Invalidate [KS ''coaches''], SetData [KS ''coaches'', KS (re_id res)]])\<rparr>"

definition useAssignCoachToClass :: "string \<Rightarrow> json \<Rightarrow> mutation" where
  [api_defs]: "useAssignCoachToClass classId data = \<lparr>mu_call = assignCoachToClass classId data,
     mu_success = (\<lambda>res. [Invalidate [KS ''class-coaches'', KS classId], Invalidate [KS ''coaches'']])\<rparr>"

definition useUpdateClassCoachLink :: "string \<Rightarrow> json \<Rightarrow> mutation" where
  [api_defs]: "useUpdateClassCoachLink linkId data = \<lparr>mu_call = updateClassCoachLink linkId data,
     mu_success = (\<lambda>res. [Invalidate [KS ''class-coaches''], Invalidate [KS ''coaches'']])\<rparr>"

definition useDeleteClassCoachLink :: "string \<Rightarrow> mutation" where
  [api_defs]: "useDeleteClassCoachLink linkId = \<lparr>mu_call = deleteClassCoachLink linkId,
     mu_success = (\<lambda>res. [Invalidate [KS ''class-coaches''], Invalidate [KS ''coaches'']])\<rparr>"

definition useReassignEntryCoach :: "string \<Rightarrow> string option \<Rightarrow> mutation" where
  [api_defs]: "useReassignEntryCoach entryId coachId = \<lparr>mu_call = reassignEntryCoach entryId coachId,
     mu_success = (\<lambda>res. [Invalidate [KS ''attendance'']])\<rparr>"

section \<open>Dashboard\<close>

definition usePlatformStats :: "query" where
  [api_defs]: "usePlatformStats = \<lparr>q_key = [KS ''admin'', KS ''platform-stats''],
     q_call = getPlatformStats, q_live = False, q_enabled = True\<rparr>"

section \<open>Leads\<close>

definition useLeads :: "lead_filters \<Rightarrow> query" where
  [api_defs]: "useLeads filters = \<lparr>q_key = [KS ''leads'', KO (lead_key filters)],
     q_call = listLeads filters, q_live = False, q_enabled = True\<rparr>"

definition useLead :: "string \<Rightarrow> query" where
  [api_defs]: "useLead ident = \<lparr>q_key = [KS ''leads'', KS ident],
     q_call = getLead ident, q_live = False, q_enabled = ident \<noteq> []\<rparr>"

definition useLeadActivities :: "string \<Rightarrow> query" where
  [api_defs]: "useLeadActivities leadId = \<lparr>q_key = [KS ''leads'', KS leadId, KS ''activities''],
     q_call = listActivities leadId \<lparr>af_limit = None, af_offset = None\<rparr>, q_live = False, q_enabled = leadId \<noteq> []\<rparr>"

definition useLeadStats :: "query" where
  [api_defs]: "useLeadStats = \<lparr>q_key = [KS ''leads'', KS ''stats''],
     q_call = getLeadStats, q_live = False, q_enabled = True\<rparr>"

definition useLostReasons :: "lost_reason_filters \<Rightarrow> query" where
  [api_defs]: "useLostReasons opts = \<lparr>q_key = [KS ''leads'', KS ''lost-reasons'', KO (lost_reason_key opts)],
     q_call = listLostReasons opts, q_live = False, q_enabled = True\<rparr>"

definition invalidateAllLeadQueries :: "cache_op list" where
  "invalidateAllLeadQueries = [Invalidate [KS ''leads'']]"

definition useCreateLead :: "json \<Rightarrow> mutation" where
  [api_defs]: "useCreateLead data = \<lparr>mu_call = createLead data,
     mu_success = (\<lambda>res. invalidateAllLeadQueries)\<rparr>"

definition useUpdateLead :: "string \<Rightarrow> json \<Rightarrow> mutation" where
  [api_defs]: "useUpdateLead ident data = \<lparr>mu_call = updateLead ident data,
     mu_success = (\<lambda>res. invalidateAllLeadQueries @ [SetData [KS ''leads'', KS (re_id res)]])\<rparr>"

definition useSetLeadStatus :: "string \<Rightarrow> json \<Rightarrow> mutation" where
  [api_defs]: "useSetLeadStatus ident data = \<lparr>mu_call = setLeadStatus ident data,
     mu_success = (\<lambda>res. invalidateAllLeadQueries @ [SetData [KS ''leads'', KS (re_id res)]])\<rparr>"

definition useAssignLead :: "string \<Rightarrow> json \<Rightarrow> mutation" where
  [api_defs]: "useAssignLead ident data = \<lparr>mu_call = assignLead ident data,
     mu_success = (\<lambda>res. invalidateAllLeadQueries @ [SetData [KS ''leads'', KS (re_id res)]])\<rparr>"

definition useConvertLead :: "string \<Rightarrow> json \<Rightarrow> mutation" where
  [api_defs]: "useConvertLead ident data = \<lparr>mu_call = convertLead ident data,
     mu_success = (\<lambda>res. invalidateAllLeadQueries @ [SetData [KS ''leads'', KS (re_id res)], Invalidate [KS ''members''], Invalidate [KS ''subscriptions'']])\<rparr>"

definition useAddActivity :: "string \<Rightarrow> json \<Rightarrow> mutation" where
  [api_defs]: "useAddActivity ident data = \<lparr>mu_call = addActivity ident data,
     mu_success = (\<lambda>res. [Invalidate [KS ''leads'', KS ident, KS ''activities'']])\<rparr>"

section \<open>Members\<close>

definition useMembers :: "member_filters \<Rightarrow> query" where
  [api_defs]: "useMembers filters = \<lparr>q_key = [KS ''members'', KO (member_key filters)],
     q_call = listMembers filters, q_live = False, q_enabled = True\<rparr>"

definition useMember :: "string \<Rightarrow> query" where
  [api_defs]: "useMember ident = \<lparr>q_key = [KS ''members'', KS ident],
     q_call = getMember ident, q_live = False, q_enabled = ident \<noteq> []\<rparr>"

definition useCreateMember :: "json \<Rightarrow> mutation" where
  [api_defs]: "useCreateMember data = \<lparr>mu_call = createMember data,
     mu_success = (\<lambda>res. [Invalidate [KS ''members''], Invalidate [KS ''tenants'', KS (re_tenant res), KS ''stats'']])\<rparr>"

definition useUpdateMember :: "string \<Rightarrow> json \<Rightarrow> mutation" where
  [api_defs]: "useUpdateMember ident data = \<lparr>mu_call = updateMember ident data,
     mu_success = (\<lambda>res. [Invalidate [KS ''members''], SetData [KS ''members'', KS (re_id res)]])\<rparr>"

definition useFreezeMember :: "string \<Rightarrow> string option \<Rightarrow> mutation" where
  [api_defs]: "useFreezeMember ident until = \<lparr>mu_call = freezeMember ident until,
     mu_success = (\<lambda>res. [Invalidate [KS ''members''], Invalidate [KS ''tenants'', KS (re_tenant res), KS ''stats'']])\<rparr>"

definition useUnfreezeMember :: "string \<Rightarrow> mutation" where
  [api_defs]: "useUnfreezeMember ident = \<lparr>mu_call = unfreezeMember ident,
     mu_success = (\<lambda>res. [Invalidate [KS ''members''], Invalidate [KS ''tenants'', KS (re_tenant res), KS ''stats'']])\<rparr>"

definition useCancelMember :: "string \<Rightarrow> mutation" where
  [api_defs]: "useCancelMember ident = \<lparr>mu_call = cancelMember ident,
     mu_success = (\<lambda>res. [Invalidate [KS ''members''], Invalidate [KS ''tenants'', KS (re_tenant res), KS ''stats'']])\<rparr>"

section \<open>Payments\<close>

definition usePayments :: "payment_filters \<Rightarrow> query" where
  [api_defs]: "usePayments filters = \<lparr>q_key = [KS ''payments'', KO (payment_key filters)],
     q_call = listPayments filters, q_live = False, q_enabled = True\<rparr>"

definition usePayment :: "string \<Rightarrow> query" where
  [api_defs]: "usePayment ident = \<lparr>q_key = [KS ''payments'', KS ident],
     q_call = getPayment ident, q_live = False, q_enabled = ident \<noteq> []\<rparr>"

definition useMemberPayments :: "string \<Rightarrow> query" where
  [api_defs]: "useMemberPayments memberId = \<lparr>q_key = [KS ''payments'', KS ''member'', KS memberId],
     q_call = listMemberPayments memberId, q_live = False, q_enabled = memberId \<noteq> []\<rparr>"

definition useRevenueSummary :: "query" where
  [api_defs]: "useRevenueSummary = \<lparr>q_key = [KS ''payments'', KS ''revenue-summary''],
     q_call = getRevenueSummary, q_live = False, q_enabled = True\<rparr>"

definition invalidate_payments :: "cache_op list" where
  "invalidate_payments = [Invalidate [KS ''payments'']]"

definition useRecordPayment :: "json \<Rightarrow> mutation" where
  [api_defs]: "useRecordPayment data = \<lparr>mu_call = recordPayment data,
     mu_success = (\<lambda>res. invalidate_payments)\<rparr>"

definition useRefundPayment :: "string \<Rightarrow> json \<Rightarrow> mutation" where
  [api_defs]: "useRefundPayment ident data = \<lparr>mu_call = refundPayment ident data,
     mu_success = (\<lambda>res. invalidate_payments)\<rparr>"

section \<open>Plans\<close>

definition usePlans :: "catalog_filters \<Rightarrow> query" where
  [api_defs]: "usePlans filters = \<lparr>q_key = [KS ''plans'', KO (catalog_key filters)],
     q_call = listPlans filters, q_live = False, q_enabled = True\<rparr>"

definition usePlan :: "string \<Rightarrow> query" where
  [api_defs]: "usePlan ident = \<lparr>q_key = [KS ''plans'', KS ident],
     q_call = getPlan ident, q_live = False, q_enabled = ident \<noteq> []\<rparr>"

definition useCreatePlan :: "json \<Rightarrow> mutation" where
  [api_defs]: "useCreatePlan data = \<lparr>mu_call = createPlan data,
     mu_success = (\<lambda>res. [Invalidate [KS ''plans'']])\<rparr>"

definition useUpdatePlan :: "string \<Rightarrow> json \<Rightarrow> mutation" where
  [api_defs]: "useUpdatePlan ident data = \<lparr>mu_call = updatePlan ident data,
     mu_success = (\<lambda>res. [Invalidate [KS ''plans''], SetData [KS ''plans'', KS (re_id res)]])\<rparr>"

definition useDeactivatePlan :: "string \<Rightarrow> mutation" where
  [api_defs]: "useDeactivatePlan ident = \<lparr>mu_call = deactivatePlan ident,
     mu_success = (\<lambda>res. [Invalidate [KS ''plans'']])\<rparr>"

definition useActivatePlan :: "string \<Rightarrow> mutation" where
  [api_defs]: "useActivatePlan ident = \<lparr>mu_call = activatePlan ident,
     mu_success = (\<lambda>res. [Invalidate [KS ''plans'']])\<rparr>"

section \<open>Schedule\<close>

definition useTemplates :: "template_filters \<Rightarrow> query" where
  [api_defs]: "useTemplates filters = \<lparr>q_key = [KS ''schedule-templates'', KO (template_key filters)],
     q_call = listTemplates filters, q_live = False, q_enabled = True\<rparr>"

definition useTemplate :: "string \<Rightarrow> query" where
  [api_defs]: "useTemplate ident = \<lparr>q_key = [KS ''schedule-templates'', KS ident],
     q_call = getTemplate ident, q_live = False, q_enabled = ident \<noteq> []\<rparr>"

definition useSessions :: "session_filters \<Rightarrow> query" where
  [api_defs]: "useSessions filters = \<lparr>q_key = [KS ''schedule-sessions'', KO (session_key filters)],
     q_call = listSessions filters, q_live = False, q_enabled = True\<rparr>"

definition useSession :: "string \<Rightarrow> query" where
  [api_defs]: "useSession ident = \<lparr>q_key = [KS ''schedule-sessions'', KS ident],
     q_call = getSession ident, q_live = False, q_enabled = ident \<noteq> []\<rparr>"

definition useCreateTemplate :: "json \<Rightarrow> mutation" where
  [api_defs]: "useCreateTemplate data = \<lparr>mu_call = createTemplate data,
     mu_success = (\<lambda>res. [Invalidate [KS ''schedule-templates''], Invalidate [KS ''schedule-sessions'']])\<rparr>"

definition useUpdateTemplate :: "string \<Rightarrow> json \<Rightarrow> mutation" where
  [api_defs]: "useUpdateTemplate ident data = \<lparr>mu_call = updateTemplate ident data,
     mu_success = (\<lambda>res. [Invalidate [KS ''schedule-templates''], Invalidate [KS ''schedule-sessions'']])\<rparr>"

definition useDeactivateTemplate :: "string \<Rightarrow> mutation" where
  [api_defs]: "useDeactivateTemplate ident = \<lparr>mu_call = deactivateTemplate ident,
     mu_success = (\<lambda>res. [Invalidate [KS ''schedule-templates''], Invalidate [KS ''schedule-sessions'']])\<rparr>"

definition useCreateAdHocSession :: "json \<Rightarrow> mutation" where
  [api_defs]: "useCreateAdHocSession data = \<lparr>mu_call = createAdHocSession data,
     mu_success = (\<lambda>res. [Invalidate [KS ''schedule-sessions'']])\<rparr>"

definition useUpdateSession :: "string \<Rightarrow> json \<Rightarrow> mutation" where
  [api_defs]: "useUpdateSession ident data = \<lparr>mu_call = updateSession ident data,
     mu_success = (\<lambda>res. [Invalidate [KS ''schedule-sessions'']])\<rparr>"

definition useCancelSession :: "string \<Rightarrow> json \<Rightarrow> mutation" where
  [api_defs]: "useCancelSession ident data = \<lparr>mu_call = cancelSession ident data,
     mu_success = (\<lambda>res. [Invalidate [KS ''schedule-sessions'']])\<rparr>"

definition useBulkAction :: "json \<Rightarrow> mutation" where
  [api_defs]: "useBulkAction data = \<lparr>mu_call = bulkAction data,
     mu_success = (\<lambda>res. [Invalidate [KS ''schedule-sessions'']])\<rparr>"

definition useUpdateTenantFeatures :: "string \<Rightarrow> json \<Rightarrow> mutation" where
  [api_defs]: "useUpdateTenantFeatures tenantId data = \<lparr>mu_call = updateTenantFeatures tenantId data,
     mu_success = (\<lambda>res. [Invalidate [KS ''tenants''], SetData [KS ''tenants'', KS (re_id res)]])\<rparr>"

section \<open>Subscriptions\<close>

definition useSubscriptions :: "subscription_filters \<Rightarrow> query" where
  [api_defs]: "useSubscriptions filters = \<lparr>q_key = [KS ''subscriptions'', KO (subscription_key filters)],
     q_call = listSubscriptions filters, q_live = False, q_enabled = True\<rparr>"

definition useSubscription :: "string \<Rightarrow> query" where
  [api_defs]: "useSubscription ident = \<lparr>q_key = [KS ''subscriptions'', KS ident],
     q_call = getSubscription ident, q_live = False, q_enabled = ident \<noteq> []\<rparr>"

definition useSubscriptionEvents :: "string \<Rightarrow> query" where
  [api_defs]: "useSubscriptionEvents ident = \<lparr>q_key = [KS ''subscriptions'', KS ident, KS ''events''],
     q_call = listSubscriptionEvents ident, q_live = False, q_enabled = ident \<noteq> []\<rparr>"

definition by_member :: "string \<Rightarrow> subscription_filters" where
  "by_member memberId = \<lparr>sbf_memberId = Some memberId, sbf_status = None, sbf_planId = None,
     sbf_expiresBefore = None, sbf_expiresWithinDays = None, sbf_limit = None, sbf_offset = None\<rparr>"

text \<open>
  The two member hooks make the same call; the first keeps only the live subscription of the answer
  (\<open>q_live\<close>), which \<open>live_of\<close> computes.
\<close>

definition live_of :: "subscription list \<Rightarrow> subscription option" where
  "live_of subs = List.find (\<lambda>s. s_status s = SS_active \<or> s_status s = SS_frozen) subs"

definition useCurrentSubscriptionForMember :: "string \<Rightarrow> query" where
  [api_defs]: "useCurrentSubscriptionForMember memberId = \<lparr>q_key = [KS ''subscriptions'', KO [(''memberId'', JStr memberId), (''live'', JBool True)]],
     q_call = listSubscriptions (by_member memberId), q_live = True, q_enabled = memberId \<noteq> []\<rparr>"

definition useSubscriptionHistoryForMember :: "string \<Rightarrow> query" where
  [api_defs]: "useSubscriptionHistoryForMember memberId = \<lparr>q_key = [KS ''subscriptions'', KO [(''memberId'', JStr memberId), (''history'', JBool True)]],
     q_call = listSubscriptions (by_member memberId), q_live = False, q_enabled = memberId \<noteq> []\<rparr>"

definition invalidate_subscriptions :: "cache_op list" where
  "invalidate_subscriptions = [Invalidate [KS ''subscriptions''], Invalidate [KS ''members'']]"

definition useCreateSubscription :: "json \<Rightarrow> mutation" where
  [api_defs]: "useCreateSubscription data = \<lparr>mu_call = createSubscription data,
     mu_success = (\<lambda>res. invalidate_subscriptions)\<rparr>"

definition useFreezeSubscription :: "string \<Rightarrow> json \<Rightarrow> mutation" where
  [api_defs]: "useFreezeSubscription ident data = \<lparr>mu_call = freezeSubscription ident data,
     mu_success = (\<lambda>res. invalidate_subscriptions)\<rparr>"

definition useUnfreezeSubscription :: "string \<Rightarrow> mutation" where
  [api_defs]: "useUnfreezeSubscription ident = \<lparr>mu_call = unfreezeSubscription ident,
     mu_success = (\<lambda>res. invalidate_subscriptions)\<rparr>"

definition useRenewSubscription :: "string \<Rightarrow> json \<Rightarrow> mutation" where
  [api_defs]: "useRenewSubscription ident data = \<lparr>mu_call = renewSubscription ident data,
     mu_success = (\<lambda>res. invalidate_subscriptions)\<rparr>"

definition useChangePlan :: "string \<Rightarrow> json \<Rightarrow> mutation" where
  [api_defs]: "useChangePlan ident data = \<lparr>mu_call = changePlan ident data,
     mu_success = (\<lambda>res. invalidate_subscriptions)\<rparr>"

definition useCancelSubscription :: "string \<Rightarrow> json \<Rightarrow> mutation" where
  [api_defs]: "useCancelSubscription ident data = \<lparr>mu_call = cancelSubscription ident data,
     mu_success = (\<lambda>res. invalidate_subscriptions)\<rparr>"

section \<open>Tenants and users\<close>

definition useTenants :: "query" where
  [api_defs]: "useTenants = \<lparr>q_key = [KS ''tenants''],
     q_call = listTenants, q_live = False, q_enabled = True\<rparr>"

definition useTenant :: "string \<Rightarrow> query" where
  [api_defs]: "useTenant ident = \<lparr>q_key = [KS ''tenants'', KS ident],
     q_call = getTenant ident, q_live = False, q_enabled = ident \<noteq> []\<rparr>"

definition useTenantStats :: "string \<Rightarrow> query" where
  [api_defs]: "useTenantStats ident = \<lparr>q_key = [KS ''tenants'', KS ident, KS ''stats''],
     q_call = getTenantStats ident, q_live = False, q_enabled = ident \<noteq> []\<rparr>"

definition useTenantUsers :: "string \<Rightarrow> query" where
  [api_defs]: "useTenantUsers tenantId = \<lparr>q_key = [KS ''tenants'', KS tenantId, KS ''users''],
     q_call = listUsersForTenant tenantId, q_live = False, q_enabled = tenantId \<noteq> []\<rparr>"

definition useCreateTenant :: "json \<Rightarrow> mutation" where
  [api_defs]: "useCreateTenant data = \<lparr>mu_call = createTenant data,
     mu_success = (\<lambda>res. [Invalidate [KS ''tenants'']])\<rparr>"

definition useUpdateTenant :: "string \<Rightarrow> json \<Rightarrow> mutation" where
  [api_defs]: "useUpdateTenant ident data = \<lparr>mu_call = updateTenant ident data,
     mu_success = (\<lambda>res. [Invalidate [KS ''tenants'']])\<rparr>"

definition useSuspendTenant :: "string \<Rightarrow> mutation" where
  [api_defs]: "useSuspendTenant ident = \<lparr>mu_call = suspendTenant ident,
     mu_success = (\<lambda>res. [Invalidate [KS ''tenants'']])\<rparr>"

definition useActivateTenant :: "string \<Rightarrow> mutation" where
  [api_defs]: "useActivateTenant ident = \<lparr>mu_call = activateTenant ident,
     mu_success = (\<lambda>res. [Invalidate [KS ''tenants'']])\<rparr>"

definition useCancelTenant :: "string \<Rightarrow> mutation" where
  [api_defs]: "useCancelTenant ident = \<lparr>mu_call = cancelTenant ident,
     mu_success = (\<lambda>res. [Invalidate [KS ''tenants'']])\<rparr>"

text \<open>\<open>useUploadLogo\<close>: the call bypasses the client and nothing is invalidated.\<close>

definition useUploadLogo :: "network \<Rightarrow> string \<Rightarrow> (thrown + json option) \<times> cache_op list" where
  "useUploadLogo fetch file = (uploadLogo fetch file, [])"

definition useCreateUser :: "string option \<Rightarrow> json \<Rightarrow> mutation" where
  [api_defs]: "useCreateUser tenantId data = \<lparr>mu_call = createUser data,
     mu_success = (\<lambda>res. if truthy_str tenantId then [Invalidate [KS ''tenants'', KS (the tenantId), KS ''users''], Invalidate [KS ''tenants'', KS (the tenantId), KS ''stats'']] else [])\<rparr>"

definition useUpdateUser :: "string option \<Rightarrow> string \<Rightarrow> json \<Rightarrow> mutation" where
  [api_defs]: "useUpdateUser tenantId ident data = \<lparr>mu_call = updateUser ident data,
     mu_success = (\<lambda>res. if truthy_str tenantId then [Invalidate [KS ''tenants'', KS (the tenantId), KS ''users'']] else [])\<rparr>"

definition useDeleteUser :: "string option \<Rightarrow> string \<Rightarrow> mutation" where
  [api_defs]: "useDeleteUser tenantId ident = \<lparr>mu_call = deleteUser ident,
     mu_success = (\<lambda>res. if truthy_str tenantId then [Invalidate [KS ''tenants'', KS (the tenantId), KS ''users''], Invalidate [KS ''tenants'', KS (the tenantId), KS ''stats'']] else [])\<rparr>"

section \<open>All hooks\<close>

datatype (plugins only:) hook =
    UseAttendanceList entry_filters
  | UseMemberAttendance string
  | UseMemberAttendanceSummary string
  | UseQuotaCheck string string bool
  | UseClasses catalog_filters
  | UseClass string
  | UseCoaches coach_filters
  | UseCoach string
  | UseCoachesForClass string bool
  | UseClassesForCoach string bool
  | UseCoachEarnings string string string
  | UseEarningsSummary string string
  | UsePlatformStats
  | UseLeads lead_filters
  | UseLead string
  | UseLeadActivities string
  | UseLeadStats
  | UseLostReasons lost_reason_filters
  | UseMembers member_filters
  | UseMember string
  | UsePayments payment_filters
  | UsePayment string
  | UseMemberPayments string
  | UseRevenueSummary
  | UsePlans catalog_filters
  | UsePlan string
  | UseTemplates template_filters
  | UseTemplate string
  | UseSessions session_filters
  | UseSession string
  | UseSubscriptions subscription_filters
  | UseSubscription string
  | UseSubscriptionEvents string
  | UseCurrentSubscriptionForMember string
  | UseSubscriptionHistoryForMember string
  | UseTenants
  | UseTenant string
  | UseTenantStats string
  | UseTenantUsers string

primrec query_of_hook :: "hook \<Rightarrow> query" where
  "query_of_hook (UseAttendanceList filters) = useAttendanceList filters"
| "query_of_hook (UseMemberAttendance memberId) = useMemberAttendance memberId"
| "query_of_hook (UseMemberAttendanceSummary memberId) = useMemberAttendanceSummary memberId"
| "query_of_hook (UseQuotaCheck memberId classId enabled) = useQuotaCheck memberId classId enabled"
| "query_of_hook (UseClasses filters) = useClasses filters"
| "query_of_hook (UseClass ident) = useClass ident"
| "query_of_hook (UseCoaches filters) = useCoaches filters"
| "query_of_hook (UseCoach ident) = useCoach ident"
| "query_of_hook (UseCoachesForClass classId onlyCurrent) = useCoachesForClass classId onlyCurrent"
| "query_of_hook (UseClassesForCoach coachId onlyCurrent) = useClassesForCoach coachId onlyCurrent"
| "query_of_hook (UseCoachEarnings coachId frm to) = useCoachEarnings coachId frm to"
| "query_of_hook (UseEarningsSummary frm to) = useEarningsSummary frm to"
| "query_of_hook (UsePlatformStats) = usePlatformStats"
| "query_of_hook (UseLeads filters) = useLeads filters"
| "query_of_hook (UseLead ident) = useLead ident"
| "query_of_hook (UseLeadActivities leadId) = useLeadActivities leadId"
| "query_of_hook (UseLeadStats) = useLeadStats"
| "query_of_hook (UseLostReasons opts) = useLostReasons opts"
| "query_of_hook (UseMembers filters) = useMembers filters"
| "query_of_hook (UseMember ident) = useMember ident"
| "query_of_hook (UsePayments filters) = usePayments filters"
| "query_of_hook (UsePayment ident) = usePayment ident"
| "query_of_hook (UseMemberPayments memberId) = useMemberPayments memberId"
| "query_of_hook (UseRevenueSummary) = useRevenueSummary"
| "query_of_hook (UsePlans filters) = usePlans filters"
| "query_of_hook (UsePlan ident) = usePlan ident"
| "query_of_hook (UseTemplates filters) = useTemplates filters"
| "query_of_hook (UseTemplate ident) = useTemplate ident"
| "query_of_hook (UseSessions filters) = useSessions filters"
| "query_of_hook (UseSession ident) = useSession ident"
| "query_of_hook (UseSubscriptions filters) = useSubscriptions filters"
| "query_of_hook (UseSubscription ident) = useSubscription ident"
| "query_of_hook (UseSubscriptionEvents ident) = useSubscriptionEvents ident"
| "query_of_hook (UseCurrentSubscriptionForMember memberId) = useCurrentSubscriptionForMember memberId"
| "query_of_hook (UseSubscriptionHistoryForMember memberId) = useSubscriptionHistoryForMember memberId"
| "query_of_hook (UseTenants) = useTenants"
| "query_of_hook (UseTenant ident) = useTenant ident"
| "query_of_hook (UseTenantStats ident) = useTenantStats ident"
| "query_of_hook (UseTenantUsers tenantId) = useTenantUsers tenantId"

datatype (plugins only:) mutation_hook =
    UseRecordEntry json
  | UseUndoEntry string json
  | UseCreateClass json
  | UseUpdateClass string json
  | UseDeactivateClass string
  | UseActivateClass string
  | UseCreateCoach json
  | UseUpdateCoach string json
  | UseFreezeCoach string
  | UseUnfreezeCoach string
  | UseCancelCoach string
  | UseInviteCoachUser string json
  | UseAssignCoachToClass string json
  | UseUpdateClassCoachLink string json
  | UseDeleteClassCoachLink string
  | UseReassignEntryCoach string "string option"
  | UseCreateLead json
  | UseUpdateLead string json
  | UseSetLeadStatus string json
  | UseAssignLead string json
  | UseConvertLead string json
  | UseAddActivity string json
  | UseCreateMember json
  | UseUpdateMember string json
  | UseFreezeMember string "string option"
  | UseUnfreezeMember string
  | UseCancelMember string
  | UseRecordPayment json
  | UseRefundPayment string json
  | UseCreatePlan json
  | UseUpdatePlan string json
  | UseDeactivatePlan string
  | UseActivatePlan string
  | UseCreateTemplate json
  | UseUpdateTemplate string json
  | UseDeactivateTemplate string
  | UseCreateAdHocSession json
  | UseUpdateSession string json
  | UseCancelSession string json
  | UseBulkAction json
  | UseUpdateTenantFeatures string json
  | UseCreateSubscription json
  | UseFreezeSubscription string json
  | UseUnfreezeSubscription string
  | UseRenewSubscription string json
  | UseChangePlan string json
  | UseCancelSubscription string json
  | UseCreateTenant json
  | UseUpdateTenant string json
  | UseSuspendTenant string
  | UseActivateTenant string
  | UseCancelTenant string
  | UseCreateUser "string option" json
  | UseUpdateUser "string option" string json
  | UseDeleteUser "string option" string

primrec mutation_of :: "mutation_hook \<Rightarrow> mutation" where
  "mutation_of (UseRecordEntry data) = useRecordEntry data"
| "mutation_of (UseUndoEntry ident data) = useUndoEntry ident data"
| "mutation_of (UseCreateClass data) = useCreateClass data"
| "mutation_of (UseUpdateClass ident data) = useUpdateClass ident data"
| "mutation_of (UseDeactivateClass ident) = useDeactivateClass ident"
| "mutation_of (UseActivateClass ident) = useActivateClass ident"
| "mutation_of (UseCreateCoach data) = useCreateCoach data"
| "mutation_of (UseUpdateCoach ident data) = useUpdateCoach ident data"
| "mutation_of (UseFreezeCoach ident) = useFreezeCoach ident"
| "mutation_of (UseUnfreezeCoach ident) = useUnfreezeCoach ident"
| "mutation_of (UseCancelCoach ident) = useCancelCoach ident"
| "mutation_of (UseInviteCoachUser ident data) = useInviteCoachUser ident data"
| "mutation_of (UseAssignCoachToClass classId data) = useAssignCoachToClass classId data"
| "mutation_of (UseUpdateClassCoachLink linkId data) = useUpdateClassCoachLink linkId data"
| "mutation_of (UseDeleteClassCoachLink linkId) = useDeleteClassCoachLink linkId"
| "mutation_of (UseReassignEntryCoach entryId coachId) = useReassignEntryCoach entryId coachId"
| "mutation_of (UseCreateLead data) = useCreateLead data"
| "mutation_of (UseUpdateLead ident data) = useUpdateLead ident data"
| "mutation_of (UseSetLeadStatus ident data) = useSetLeadStatus ident data"
| "mutation_of (UseAssignLead ident data) = useAssignLead ident data"
| "mutation_of (UseConvertLead ident data) = useConvertLead ident data"
| "mutation_of (UseAddActivity ident data) = useAddActivity ident data"
| "mutation_of (UseCreateMember data) = useCreateMember data"
| "mutation_of (UseUpdateMember ident data) = useUpdateMember ident data"
| "mutation_of (UseFreezeMember ident until) = useFreezeMember ident until"
| "mutation_of (UseUnfreezeMember ident) = useUnfreezeMember ident"
| "mutation_of (UseCancelMember ident) = useCancelMember ident"
| "mutation_of (UseRecordPayment data) = useRecordPayment data"
| "mutation_of (UseRefundPayment ident data) = useRefundPayment ident data"
| "mutation_of (UseCreatePlan data) = useCreatePlan data"
| "mutation_of (UseUpdatePlan ident data) = useUpdatePlan ident data"
| "mutation_of (UseDeactivatePlan ident) = useDeactivatePlan ident"
| "mutation_of (UseActivatePlan ident) = useActivatePlan ident"
| "mutation_of (UseCreateTemplate data) = useCreateTemplate data"
| "mutation_of (UseUpdateTemplate ident data) = useUpdateTemplate ident data"
| "mutation_of (UseDeactivateTemplate ident) = useDeactivateTemplate ident"
| "mutation_of (UseCreateAdHocSession data) = useCreateAdHocSession data"
| "mutation_of (UseUpdateSession ident data) = useUpdateSession ident data"
| "mutation_of (UseCancelSession ident data) = useCancelSession ident data"
| "mutation_of (UseBulkAction data) = useBulkAction data"
| "mutation_of (UseUpdateTenantFeatures tenantId data) = useUpdateTenantFeatures tenantId data"
| "mutation_of (UseCreateSubscription data) = useCreateSubscription data"
| "mutation_of (UseFreezeSubscription ident data) = useFreezeSubscription ident data"
| "mutation_of (UseUnfreezeSubscription ident) = useUnfreezeSubscription ident"
| "mutation_of (UseRenewSubscription ident data) = useRenewSubscription ident data"
| "mutation_of (UseChangePlan ident data) = useChangePlan ident data"
| "mutation_of (UseCancelSubscription ident data) = useCancelSubscription ident data"
| "mutation_of (UseCreateTenant data) = useCreateTenant data"
| "mutation_of (UseUpdateTenant ident data) = useUpdateTenant ident data"
| "mutation_of (UseSuspendTenant ident) = useSuspendTenant ident"
| "mutation_of (UseActivateTenant ident) = useActivateTenant ident"
| "mutation_of (UseCancelTenant ident) = useCancelTenant ident"
| "mutation_of (UseCreateUser tenantId data) = useCreateUser tenantId data"
| "mutation_of (UseUpdateUser tenantId ident data) = useUpdateUser tenantId ident data"
| "mutation_of (UseDeleteUser tenantId ident) = useDeleteUser tenantId ident"


lemmas query_defs = useAttendanceList_def useMemberAttendance_def useMemberAttendanceSummary_def useQuotaCheck_def useClasses_def useClass_def useCoaches_def useCoach_def useCoachesForClass_def useClassesForCoach_def useCoachEarnings_def useEarningsSummary_def usePlatformStats_def useLeads_def useLead_def useLeadActivities_def useLeadStats_def useLostReasons_def useMembers_def useMember_def usePayments_def usePayment_def useMemberPayments_def useRevenueSummary_def usePlans_def usePlan_def useTemplates_def useTemplate_def useSessions_def useSession_def useSubscriptions_def useSubscription_def useSubscriptionEvents_def useCurrentSubscriptionForMember_def useSubscriptionHistoryForMember_def useTenants_def useTenant_def useTenantStats_def useTenantUsers_def
lemmas mutation_defs = useRecordEntry_def useUndoEntry_def useCreateClass_def useUpdateClass_def useDeactivateClass_def useActivateClass_def useCreateCoach_def useUpdateCoach_def useFreezeCoach_def useUnfreezeCoach_def useCancelCoach_def useInviteCoachUser_def useAssignCoachToClass_def useUpdateClassCoachLink_def useDeleteClassCoachLink_def useReassignEntryCoach_def useCreateLead_def useUpdateLead_def useSetLeadStatus_def useAssignLead_def useConvertLead_def useAddActivity_def useCreateMember_def useUpdateMember_def useFreezeMember_def useUnfreezeMember_def useCancelMember_def useRecordPayment_def useRefundPayment_def useCreatePlan_def useUpdatePlan_def useDeactivatePlan_def useActivatePlan_def useCreateTemplate_def useUpdateTemplate_def useDeactivateTemplate_def useCreateAdHocSession_def useUpdateSession_def useCancelSession_def useBulkAction_def useUpdateTenantFeatures_def useCreateSubscription_def useFreezeSubscription_def useUnfreezeSubscription_def useRenewSubscription_def useChangePlan_def useCancelSubscription_def useCreateTenant_def useUpdateTenant_def useSuspendTenant_def useActivateTenant_def useCancelTenant_def useCreateUser_def useUpdateUser_def useDeleteUser_def


text \<open>The first part of a key names the collection the hook reads.\<close>

primrec head_of :: "hook \<Rightarrow> string" where
  "head_of (UseAttendanceList _) = ''attendance''"
| "head_of (UseMemberAttendance _) = ''attendance''"
| "head_of (UseMemberAttendanceSummary _) = ''attendance''"
| "head_of (UseQuotaCheck _ _ _) = ''attendance''"
| "head_of (UseClasses _) = ''classes''"
| "head_of (UseClass _) = ''classes''"
| "head_of (UseCoaches _) = ''coaches''"
| "head_of (UseCoach _) = ''coaches''"
| "head_of (UseCoachesForClass _ _) = ''class-coaches''"
| "head_of (UseClassesForCoach _ _) = ''coaches''"
| "head_of (UseCoachEarnings _ _ _) = ''coaches''"
| "head_of (UseEarningsSummary _ _) = ''coaches''"
| "head_of (UsePlatformStats) = ''admin''"
| "head_of (UseLeads _) = ''leads''"
| "head_of (UseLead _) = ''leads''"
| "head_of (UseLeadActivities _) = ''leads''"
| "head_of (UseLeadStats) = ''leads''"
| "head_of (UseLostReasons _) = ''leads''"
| "head_of (UseMembers _) = ''members''"
| "head_of (UseMember _) = ''members''"
| "head_of (UsePayments _) = ''payments''"
| "head_of (UsePayment _) = ''payments''"
| "head_of (UseMemberPayments _) = ''payments''"
| "head_of (UseRevenueSummary) = ''payments''"
| "head_of (UsePlans _) = ''plans''"
| "head_of (UsePlan _) = ''plans''"
| "head_of (UseTemplates _) = ''schedule-templates''"
| "head_of (UseTemplate _) = ''schedule-templates''"
| "head_of (UseSessions _) = ''schedule-sessions''"
| "head_of (UseSession _) = ''schedule-sessions''"
| "head_of (UseSubscriptions _) = ''subscriptions''"
| "head_of (UseSubscription _) = ''subscriptions''"
| "head_of (UseSubscriptionEvents _) = ''subscriptions''"
| "head_of (UseCurrentSubscriptionForMember _) = ''subscriptions''"
| "head_of (UseSubscriptionHistoryForMember _) = ''subscriptions''"
| "head_of (UseTenants) = ''tenants''"
| "head_of (UseTenant _) = ''tenants''"
| "head_of (UseTenantStats _) = ''tenants''"
| "head_of (UseTenantUsers _) = ''tenants''"

lemma head_cases:
  "head_of h = ''attendance'' \<Longrightarrow> (\<exists>x0. h = UseAttendanceList x0) \<or> (\<exists>x0. h = UseMemberAttendance x0) \<or> (\<exists>x0. h = UseMemberAttendanceSummary x0) \<or> (\<exists>x0 x1 x2. h = UseQuotaCheck x0 x1 x2)"
  "head_of h = ''classes'' \<Longrightarrow> (\<exists>x0. h = UseClasses x0) \<or> (\<exists>x0. h = UseClass x0)"
  "head_of h = ''coaches'' \<Longrightarrow> (\<exists>x0. h = UseCoaches x0) \<or> (\<exists>x0. h = UseCoach x0) \<or> (\<exists>x0 x1. h = UseClassesForCoach x0 x1) \<or> (\<exists>x0 x1 x2. h = UseCoachEarnings x0 x1 x2) \<or> (\<exists>x0 x1. h = UseEarningsSummary x0 x1)"
  "head_of h = ''class-coaches'' \<Longrightarrow> (\<exists>x0 x1. h = UseCoachesForClass x0 x1)"
  "head_of h = ''admin'' \<Longrightarrow> h = UsePlatformStats"
  "head_of h = ''leads'' \<Longrightarrow> (\<exists>x0. h = UseLeads x0) \<or> (\<exists>x0. h = UseLead x0) \<or> (\<exists>x0. h = UseLeadActivities x0) \<or> h = UseLeadStats \<or> (\<exists>x0. h = UseLostReasons x0)"
  "head_of h = ''members'' \<Longrightarrow> (\<exists>x0. h = UseMembers x0) \<or> (\<exists>x0. h = UseMember x0)"
  "head_of h = ''payments'' \<Longrightarrow> (\<exists>x0. h = UsePayments x0) \<or> (\<exists>x0. h = UsePayment x0) \<or> (\<exists>x0. h = UseMemberPayments x0) \<or> h = UseRevenueSummary"
  "head_of h = ''plans'' \<Longrightarrow> (\<exists>x0. h = UsePlans x0) \<or> (\<exists>x0. h = UsePlan x0)"
  "head_of h = ''schedule-templates'' \<Longrightarrow> (\<exists>x0. h = UseTemplates x0) \<or> (\<exists>x0. h = UseTemplate x0)"
  "head_of h = ''schedule-sessions'' \<Longrightarrow> (\<exists>x0. h = UseSessions x0) \<or> (\<exists>x0. h = UseSession x0)"
  "head_of h = ''subscriptions'' \<Longrightarrow> (\<exists>x0. h = UseSubscriptions x0) \<or> (\<exists>x0. h = UseSubscription x0) \<or> (\<exists>x0. h = UseSubscriptionEvents x0) \<or> (\<exists>x0. h = UseCurrentSubscriptionForMember x0) \<or> (\<exists>x0. h = UseSubscriptionHistoryForMember x0)"
  "head_of h = ''tenants'' \<Longrightarrow> h = UseTenants \<or> (\<exists>x0. h = UseTenant x0) \<or> (\<exists>x0. h = UseTenantStats x0) \<or> (\<exists>x0. h = UseTenantUsers x0)"
  by (cases h; simp)+

lemma head_of_key: "hd (q_key (query_of_hook h)) = KS (head_of h)"
  by (cases h; simp add: query_defs)

section \<open>Keys determine requests\<close>

definition orelse :: "'a option \<Rightarrow> 'a option \<Rightarrow> 'a option" where
  "orelse x y = (case x of None \<Rightarrow> y | Some v \<Rightarrow> Some v)"

lemma orelse_None [simp]: "orelse x None = x"
  by (cases x) (simp_all add: orelse_def)

lemma map_of_key_field [simp]:
  "map_of (key_field k f v @ rest) k' =
     (if k = k' then orelse (map_option f v) (map_of rest k') else map_of rest k')"
  "map_of (key_field k f v) k' = (if k = k' then map_option f v else None)"
  by (auto simp: key_field_def orelse_def split: option.splits)

lemma text_inject [simp]:
  "coach_status_text a = coach_status_text b \<longleftrightarrow> a = b"
  "lead_status_text c = lead_status_text d \<longleftrightarrow> c = d"
  "lead_source_text e = lead_source_text g \<longleftrightarrow> e = g"
  "member_status_text h = member_status_text i \<longleftrightarrow> h = i"
  "payment_method_text j = payment_method_text k \<longleftrightarrow> j = k"
  "subscription_status_text l = subscription_status_text m \<longleftrightarrow> l = m"
  by ((cases a; cases b; simp), (cases c; cases d; simp), (cases e; cases g; simp),
      (cases h; cases i; simp), (cases j; cases k; simp), (cases l; cases m; simp))

lemma JStrs_inject: "(\<And>a b. f a = f b \<longleftrightarrow> a = b) \<Longrightarrow> JStrs f xs = JStrs f ys \<longleftrightarrow> xs = ys"
  by (simp add: JStrs_def) (simp add: inj_map_eq_map inj_def)

lemma map_option_inject: "(\<And>a b. f a = f b \<longleftrightarrow> a = b) \<Longrightarrow> map_option f x = map_option f y \<longleftrightarrow> x = y"
  by (cases x; cases y) auto

lemmas key_inject = map_option_inject JStrs_inject

lemma entry_key_inject [simp]: "entry_key f = entry_key g \<longleftrightarrow> f = g"
proof
  assume "entry_key f = entry_key g"
  then have same: "map_of (entry_key f) k = map_of (entry_key g) k" for k by simp
  show "f = g"
    using same [of "''memberId''"] same [of "''classId''"] same [of "''dateFrom''"] same [of "''dateTo''"] same [of "''includeUndone''"] same [of "''undoneOnly''"] same [of "''overrideOnly''"] same [of "''limit''"] same [of "''offset''"]
    by (cases f; cases g) (simp add: entry_key_def key_inject del: map_of_append)
qed simp

lemma catalog_key_inject [simp]: "catalog_key f = catalog_key g \<longleftrightarrow> f = g"
proof
  assume "catalog_key f = catalog_key g"
  then have same: "map_of (catalog_key f) k = map_of (catalog_key g) k" for k by simp
  show "f = g"
    using same [of "''includeInactive''"] same [of "''limit''"] same [of "''offset''"]
    by (cases f; cases g) (simp add: catalog_key_def key_inject del: map_of_append)
qed simp

lemma coach_key_inject [simp]: "coach_key f = coach_key g \<longleftrightarrow> f = g"
proof
  assume "coach_key f = coach_key g"
  then have same: "map_of (coach_key f) k = map_of (coach_key g) k" for k by simp
  show "f = g"
    using same [of "''status''"] same [of "''search''"] same [of "''limit''"] same [of "''offset''"]
    by (cases f; cases g) (simp add: coach_key_def key_inject del: map_of_append)
qed simp

lemma lead_key_inject [simp]: "lead_key f = lead_key g \<longleftrightarrow> f = g"
proof
  assume "lead_key f = lead_key g"
  then have same: "map_of (lead_key f) k = map_of (lead_key g) k" for k by simp
  show "f = g"
    using same [of "''status''"] same [of "''source''"] same [of "''assignedTo''"] same [of "''search''"] same [of "''limit''"] same [of "''offset''"]
    by (cases f; cases g) (simp add: lead_key_def key_inject del: map_of_append)
qed simp

lemma lost_reason_key_inject [simp]: "lost_reason_key f = lost_reason_key g \<longleftrightarrow> f = g"
proof
  assume "lost_reason_key f = lost_reason_key g"
  then have same: "map_of (lost_reason_key f) k = map_of (lost_reason_key g) k" for k by simp
  show "f = g"
    using same [of "''days''"] same [of "''limit''"]
    by (cases f; cases g) (simp add: lost_reason_key_def key_inject del: map_of_append)
qed simp

lemma member_key_inject [simp]: "member_key f = member_key g \<longleftrightarrow> f = g"
proof
  assume "member_key f = member_key g"
  then have same: "map_of (member_key f) k = map_of (member_key g) k" for k by simp
  show "f = g"
    using same [of "''status''"] same [of "''search''"] same [of "''limit''"] same [of "''offset''"]
    by (cases f; cases g) (simp add: member_key_def key_inject del: map_of_append)
qed simp

lemma payment_key_inject [simp]: "payment_key f = payment_key g \<longleftrightarrow> f = g"
proof
  assume "payment_key f = payment_key g"
  then have same: "map_of (payment_key f) k = map_of (payment_key g) k" for k by simp
  show "f = g"
    using same [of "''memberId''"] same [of "''subscriptionId''"] same [of "''paidFrom''"] same [of "''paidTo''"] same [of "''method''"] same [of "''includeRefunds''"] same [of "''limit''"] same [of "''offset''"]
    by (cases f; cases g) (simp add: payment_key_def key_inject del: map_of_append)
qed simp

lemma template_key_inject [simp]: "template_key f = template_key g \<longleftrightarrow> f = g"
proof
  assume "template_key f = template_key g"
  then have same: "map_of (template_key f) k = map_of (template_key g) k" for k by simp
  show "f = g"
    using same [of "''class_id''"] same [of "''only_active''"]
    by (cases f; cases g) (simp add: template_key_def key_inject del: map_of_append)
qed simp

lemma subscription_key_inject [simp]: "subscription_key f = subscription_key g \<longleftrightarrow> f = g"
proof
  assume "subscription_key f = subscription_key g"
  then have same: "map_of (subscription_key f) k = map_of (subscription_key g) k" for k by simp
  show "f = g"
    using same [of "''memberId''"] same [of "''status''"] same [of "''planId''"] same [of "''expiresBefore''"] same [of "''expiresWithinDays''"] same [of "''limit''"] same [of "''offset''"]
    by (cases f; cases g) (simp add: subscription_key_def key_inject del: map_of_append)
qed simp

lemma session_key_inject [simp]: "session_key f = session_key g \<longleftrightarrow> f = g"
proof
  assume "session_key f = session_key g"
  then have same: "map_of (session_key f) k = map_of (session_key g) k" for k by simp
  show "f = g"
    using same [of "''from''"] same [of "''to''"] same [of "''class_id''"] same [of "''coach_id''"]
      same [of "''include_cancelled''"]
    by (cases f; cases g) (simp add: session_key_def key_inject del: map_of_append)
qed simp

text \<open>Keys of the two member hooks and the filter hook of subscriptions never coincide.\<close>

lemma live_key_distinct [simp]:
  "subscription_key f \<noteq> [(''memberId'', JStr m), (''live'', JBool True)]"
  "subscription_key f \<noteq> [(''memberId'', JStr m), (''history'', JBool True)]"
proof -
  have none: "map_of (subscription_key f) ''live'' = None" "map_of (subscription_key f) ''history'' = None"
    by (simp_all add: subscription_key_def del: map_of_append)
  show "subscription_key f \<noteq> [(''memberId'', JStr m), (''live'', JBool True)]"
    "subscription_key f \<noteq> [(''memberId'', JStr m), (''history'', JBool True)]"
    using none by auto
qed

lemma live_key_distinct' [simp]:
  "[(''memberId'', JStr m), (''live'', JBool True)] \<noteq> subscription_key f"
  "[(''memberId'', JStr m), (''history'', JBool True)] \<noteq> subscription_key f"
  using live_key_distinct by metis+

text \<open>C15: the cache never serves one request's answer for another: two hooks whose keys are equal
  make the same call and keep the same part of its answer. The one exception is a payment whose id
  would be the word \<open>revenue-summary\<close>.\<close>

theorem key_determines_request:
  assumes "h \<noteq> UsePayment ''revenue-summary''" "h' \<noteq> UsePayment ''revenue-summary''"
    and "q_key (query_of_hook h) = q_key (query_of_hook h')"
  shows "q_call (query_of_hook h) = q_call (query_of_hook h') \<and> q_live (query_of_hook h) = q_live (query_of_hook h')"
proof -
  from assms(3) have "head_of h' = head_of h" using head_of_key by (metis key_part.inject(1))
  note same = head_cases [of h', unfolded this]
  show ?thesis
    using assms same by (cases h; simp; elim disjE exE; simp add: query_defs getLead_def getLeadStats_def)
qed

theorem key_determines_request_witness:
  "q_call (query_of_hook (UseLead ''stats'')) = q_call (query_of_hook UseLeadStats)"
  using key_determines_request [of "UseLead ''stats''" UseLeadStats] by (simp add: useLead_def useLeadStats_def)

section \<open>Mutations refresh what they change\<close>

text \<open>The collections whose lists and records a mutation writes: the first part of their keys.\<close>

primrec collections :: "mutation_hook \<Rightarrow> string list" where
  "collections (UseRecordEntry _) = [''attendance'']"
| "collections (UseUndoEntry _ _) = [''attendance'']"
| "collections (UseCreateClass _) = [''classes'']"
| "collections (UseUpdateClass _ _) = [''classes'']"
| "collections (UseDeactivateClass _) = [''classes'']"
| "collections (UseActivateClass _) = [''classes'']"
| "collections (UseCreateCoach _) = [''coaches'']"
| "collections (UseUpdateCoach _ _) = [''coaches'']"
| "collections (UseFreezeCoach _) = [''coaches'']"
| "collections (UseUnfreezeCoach _) = [''coaches'']"
| "collections (UseCancelCoach _) = [''coaches'']"
| "collections (UseInviteCoachUser _ _) = [''coaches'']"
| "collections (UseAssignCoachToClass _ _) = [''coaches'']"
| "collections (UseUpdateClassCoachLink _ _) = [''class-coaches'', ''coaches'']"
| "collections (UseDeleteClassCoachLink _) = [''class-coaches'', ''coaches'']"
| "collections (UseReassignEntryCoach _ _) = [''attendance'']"
| "collections (UseCreateLead _) = [''leads'']"
| "collections (UseUpdateLead _ _) = [''leads'']"
| "collections (UseSetLeadStatus _ _) = [''leads'']"
| "collections (UseAssignLead _ _) = [''leads'']"
| "collections (UseConvertLead _ _) = [''leads'', ''members'', ''subscriptions'']"
| "collections (UseAddActivity _ _) = []"
| "collections (UseCreateMember _) = [''members'']"
| "collections (UseUpdateMember _ _) = [''members'']"
| "collections (UseFreezeMember _ _) = [''members'']"
| "collections (UseUnfreezeMember _) = [''members'']"
| "collections (UseCancelMember _) = [''members'']"
| "collections (UseRecordPayment _) = [''payments'']"
| "collections (UseRefundPayment _ _) = [''payments'']"
| "collections (UseCreatePlan _) = [''plans'']"
| "collections (UseUpdatePlan _ _) = [''plans'']"
| "collections (UseDeactivatePlan _) = [''plans'']"
| "collections (UseActivatePlan _) = [''plans'']"
| "collections (UseCreateTemplate _) = [''schedule-templates'', ''schedule-sessions'']"
| "collections (UseUpdateTemplate _ _) = [''schedule-templates'', ''schedule-sessions'']"
| "collections (UseDeactivateTemplate _) = [''schedule-templates'', ''schedule-sessions'']"
| "collections (UseCreateAdHocSession _) = [''schedule-sessions'']"
| "collections (UseUpdateSession _ _) = [''schedule-sessions'']"
| "collections (UseCancelSession _ _) = [''schedule-sessions'']"
| "collections (UseBulkAction _) = [''schedule-sessions'']"
| "collections (UseUpdateTenantFeatures _ _) = [''tenants'']"
| "collections (UseCreateSubscription _) = [''subscriptions'', ''members'']"
| "collections (UseFreezeSubscription _ _) = [''subscriptions'', ''members'']"
| "collections (UseUnfreezeSubscription _) = [''subscriptions'', ''members'']"
| "collections (UseRenewSubscription _ _) = [''subscriptions'', ''members'']"
| "collections (UseChangePlan _ _) = [''subscriptions'', ''members'']"
| "collections (UseCancelSubscription _ _) = [''subscriptions'', ''members'']"
| "collections (UseCreateTenant _) = [''tenants'']"
| "collections (UseUpdateTenant _ _) = [''tenants'']"
| "collections (UseSuspendTenant _) = [''tenants'']"
| "collections (UseActivateTenant _) = [''tenants'']"
| "collections (UseCancelTenant _) = [''tenants'']"
| "collections (UseCreateUser _ _) = []"
| "collections (UseUpdateUser _ _ _) = []"
| "collections (UseDeleteUser _ _) = []"

definition invalidations :: "mutation \<Rightarrow> response_ids \<Rightarrow> key_part list list" where
  "invalidations m res = concat (map (\<lambda>e. case e of Invalidate p \<Rightarrow> [p] | SetData _ \<Rightarrow> []) (mu_success m res))"

lemma collection_invalidated:
  "c \<in> set (collections m) \<Longrightarrow> [KS c] \<in> set (invalidations (mutation_of m) res)"
  by (cases m; simp add: invalidations_def mutation_defs invalidate_attendance_def invalidateAllLeadQueries_def
      invalidate_payments_def invalidate_subscriptions_def; auto)



text \<open>Two answers are left stale although the mutation changes them, if invalidating a key only
  reaches the keys it is a prefix of: a member's attendance quotas after any change of the
  subscription, and a class's coach links after a bulk action, which may create a substitute's link.\<close>

lemma stale_after_mutation:
  assumes "\<And>p k. matches p k \<Longrightarrow> prefix p k"
  shows "(\<forall>m \<in> {useCreateSubscription d, useFreezeSubscription i d, useUnfreezeSubscription i,
              useRenewSubscription i d, useChangePlan i d, useCancelSubscription i d}.
            \<forall>p \<in> set (invalidations m res). \<not> matches p (q_key (useMemberAttendanceSummary memberId)))
    \<and> (\<forall>p \<in> set (invalidations (useBulkAction d) res). \<not> matches p (q_key (useCoachesForClass c cur)))"
proof -
  have no: "\<not> matches [KS a] (KS b # ks)" if "a \<noteq> b" for a b ks
    using assms [of "[KS a]" "KS b # ks"] that by auto
  show ?thesis
    by (auto simp: invalidations_def query_defs mutation_defs invalidate_subscriptions_def no)
qed

lemma stale_after_mutation_witness:
  "invalidations (useRenewSubscription ''s1'' JNull) \<lparr>re_id = ''s1'', re_tenant = ''t''\<rparr>
     = [[KS ''subscriptions''], [KS ''members'']]
   \<and> \<not> prefix [KS ''subscriptions''] (q_key (useMemberAttendanceSummary ''m7''))
   \<and> \<not> prefix [KS ''members''] (q_key (useMemberAttendanceSummary ''m7''))"
proof -
  have inv: "invalidations (useRenewSubscription ''s1'' JNull) \<lparr>re_id = ''s1'', re_tenant = ''t''\<rparr>
     = [[KS ''subscriptions''], [KS ''members'']]"
    by (simp add: invalidations_def useRenewSubscription_def invalidate_subscriptions_def)
  have "prefix p k \<Longrightarrow> prefix p k" for p k :: "key_part list" .
  from stale_after_mutation [of prefix, OF this, where d = JNull and i = "''s1''" and memberId = "''m7''"
      and res = "\<lparr>re_id = ''s1'', re_tenant = ''t''\<rparr>"] inv
  show ?thesis by (metis list.set_intros insertCI)
qed

text \<open>What \<open>setQueryData\<close> writes is the record under the key its detail hook reads.\<close>

lemma set_data_detail_key:
  "SetData k \<in> set (mu_success (mutation_of m) res) \<Longrightarrow>
   k \<in> q_key ` {useClass (re_id res), useCoach (re_id res), useLead (re_id res), useMember (re_id res),
                 usePlan (re_id res), useTenant (re_id res)}"
  by (cases m; simp add: mutation_defs query_defs invalidate_attendance_def invalidateAllLeadQueries_def
      invalidate_payments_def invalidate_subscriptions_def split: if_splits)

end
