(* ===== verification/UiMachine.thy ===== *)
theory UiMachine
  imports ApiErrors
begin

text \<open>
  The shape the pages and dialogs share: a component keeps a state, an event of the user or of the
  network changes it, and a handler may start mutations. \<open>ui_run\<close> plays a sequence of events and
  collects what was started; the locale \<open>ui_machine\<close> says which requests can ever be started when
  every handler keeps an invariant. The state of a \<open>useMutation\<close> hook is \<open>mutation_state\<close>.
\<close>

section \<open>The state of a mutation hook\<close>

datatype mutation_state = MIdle | MPending | MFailed thrown | MSucceeded

fun isPending :: "mutation_state \<Rightarrow> bool" where
  "isPending MPending = True"
| "isPending _ = False"

fun mutation_error :: "mutation_state \<Rightarrow> thrown option" where
  "mutation_error (MFailed e) = Some e"
| "mutation_error _ = None"

text \<open>The answer of the server, as the hook sees it.\<close>

definition settled_state :: "thrown option \<Rightarrow> mutation_state" where
  "settled_state err = (case err of None \<Rightarrow> MSucceeded | Some e \<Rightarrow> MFailed e)"

lemma settled_not_pending [simp]: "\<not> isPending (settled_state err)"
  by (cases err) (simp_all add: settled_state_def)

section \<open>Playing events\<close>

fun ui_run :: "('e \<Rightarrow> 's \<Rightarrow> 's \<times> 'r list) \<Rightarrow> 'e list \<Rightarrow> 's \<Rightarrow> 's \<times> 'r list" where
  "ui_run step [] s = (s, [])"
| "ui_run step (e # es) s =
     (let (s1, r1) = step e s; (s2, r2) = ui_run step es s1 in (s2, r1 @ r2))"

lemma ui_run_append:
  "ui_run step (es @ es') s =
     (let (s1, r1) = ui_run step es s; (s2, r2) = ui_run step es' s1 in (s2, r1 @ r2))"
  by (induction es arbitrary: s) (auto simp: Let_def split: prod.splits)

text \<open>
  The contract of a component: \<open>possible\<close> events keep \<open>inv\<close>, and from a state with \<open>inv\<close> they only
  start requests that are \<open>good\<close>.
\<close>

locale ui_machine =
  fixes step :: "'e \<Rightarrow> 's \<Rightarrow> 's \<times> 'r list"
    and init :: 's
    and possible :: "'e \<Rightarrow> bool"
    and inv :: "'s \<Rightarrow> bool"
    and good :: "'r \<Rightarrow> bool"
  assumes inv_init: "inv init"
    and inv_step: "possible e \<Longrightarrow> inv s \<Longrightarrow> inv (fst (step e s))"
    and good_step: "possible e \<Longrightarrow> inv s \<Longrightarrow> r \<in> set (snd (step e s)) \<Longrightarrow> good r"
begin

lemma run_inv_from: "inv s \<Longrightarrow> list_all possible es \<Longrightarrow> inv (fst (ui_run step es s))"
proof (induction es arbitrary: s)
  case (Cons e es)
  then have "inv (fst (step e s))" by (simp add: inv_step)
  with Cons show ?case by (simp add: Let_def split_beta)
qed simp

lemma run_good_from: "inv s \<Longrightarrow> list_all possible es \<Longrightarrow> r \<in> set (snd (ui_run step es s)) \<Longrightarrow> good r"
proof (induction es arbitrary: s)
  case (Cons e es)
  then have s: "inv (fst (step e s))" by (simp add: inv_step)
  from Cons.prems have "r \<in> set (snd (step e s)) \<or> r \<in> set (snd (ui_run step es (fst (step e s))))"
    by (simp add: Let_def split_beta)
  then show ?case using Cons s good_step by auto
qed simp

lemma run_inv: "list_all possible es \<Longrightarrow> inv (fst (ui_run step es init))"
  using inv_init by (rule run_inv_from)

lemma run_good: "list_all possible es \<Longrightarrow> r \<in> set (snd (ui_run step es init)) \<Longrightarrow> good r"
  using inv_init by (rule run_good_from)

end

section \<open>One request at a time\<close>

text \<open>
  A request is under way from the event that starts it to an event that \<open>frees\<close> the hook. \<open>serial\<close> walks
  a run and asks that no request among \<open>mine\<close> starts while another one is under way; \<open>flying\<close> says whether one is
  at the beginning.
\<close>

fun serial ::
  "('e \<Rightarrow> 's \<Rightarrow> 's \<times> 'r list) \<Rightarrow> ('r \<Rightarrow> bool) \<Rightarrow> ('e \<Rightarrow> bool) \<Rightarrow> bool \<Rightarrow> 'e list \<Rightarrow> 's \<Rightarrow> bool" where
  "serial step mine frees flying [] s = True"
| "serial step mine frees flying (e # es) s =
     (let (s', rs) = step e s; started = filter mine rs
      in length started \<le> (if flying then 0 else 1)
         \<and> serial step mine frees (started \<noteq> [] \<or> flying \<and> \<not> frees e) es s')"

text \<open>The contract: a hook that is busy blocks its button, a request makes it busy, and only freeing ends that.\<close>

locale single_flight =
  fixes step :: "'e \<Rightarrow> 's \<Rightarrow> 's \<times> 'r list"
    and possible :: "'e \<Rightarrow> bool"
    and mine :: "'r \<Rightarrow> bool"
    and frees :: "'e \<Rightarrow> bool"
    and busy :: "'s \<Rightarrow> bool"
  assumes blocked: "possible e \<Longrightarrow> busy s \<Longrightarrow> filter mine (snd (step e s)) = []"
    and at_most_one: "possible e \<Longrightarrow> length (filter mine (snd (step e s))) \<le> 1"
    and marked: "possible e \<Longrightarrow> filter mine (snd (step e s)) \<noteq> [] \<Longrightarrow> busy (fst (step e s))"
    and kept: "possible e \<Longrightarrow> busy s \<Longrightarrow> \<not> frees e \<Longrightarrow> busy (fst (step e s))"
begin

lemma serial_from: "list_all possible es \<Longrightarrow> (flying \<longrightarrow> busy s) \<Longrightarrow> serial step mine frees flying es s"
proof (induction es arbitrary: flying s)
  case (Cons e es)
  let ?rs = "filter mine (snd (step e s))"
  let ?flying = "?rs \<noteq> [] \<or> flying \<and> \<not> frees e"
  from Cons.prems have e: "possible e" and es: "list_all possible es" by simp_all
  have "busy (fst (step e s))" if ?flying
    using that
  proof
    assume "flying \<and> \<not> frees e"
    then show ?thesis using Cons.prems e kept by simp
  qed (rule marked [OF e])
  then have "serial step mine frees ?flying es (fst (step e s))" by (intro Cons.IH es impI)
  moreover have "length ?rs \<le> (if flying then 0 else 1)"
    using Cons.prems blocked [OF e, of s] at_most_one [OF e, of s] by auto
  ultimately show ?case by (simp only: serial.simps split_beta Let_def)
qed simp

lemma never_two: "list_all possible es \<Longrightarrow> serial step mine frees False es s"
  by (rule serial_from) simp_all

end

end
