(* ===== verification/CheckIn.thy ===== *)
theory CheckIn
  imports UiMachine QueryHooks ServerErrors
begin

text \<open>
  The front-desk check-in: \<^verbatim>\<open>features/attendance/CheckInPage.tsx\<close> with its dialogs and its scanner,
  and the part of \<^verbatim>\<open>backend/app/services/attendance_service.py\<close> and
  \<^verbatim>\<open>domain/entities/class_entry.py\<close> it has to agree with: which entitlement a class falls under,
  when an entry is accepted, and until when it can be undone.
\<close>

section \<open>The server's rules\<close>

text \<open>
  \<open>count e\<close> is the number of effective entries in the entitlement's window, which the server reads
  from its database.
\<close>

definition find_matching_entitlement :: "plan_entitlement list \<Rightarrow> string \<Rightarrow> plan_entitlement option" where
  "find_matching_entitlement ents class_id =
     (case List.find (\<lambda>e. pe_class_id e = Some class_id) ents of
        Some e \<Rightarrow> Some e
      | None \<Rightarrow> List.find (\<lambda>e. pe_class_id e = None) ents)"

definition quota_for_entitlement :: "(plan_entitlement \<Rightarrow> int) \<Rightarrow> plan_entitlement \<Rightarrow> summary_item" where
  "quota_for_entitlement count e =
     (if pe_reset_period e = RP_unlimited then
        \<lparr>si_allowed = True, si_class_id = pe_class_id e, si_quantity = None, si_reason = None,
         si_remaining = None, si_reset_period = Some (reset_period_text (pe_reset_period e)), si_used = None\<rparr>
      else
        let n = count e; quantity = nullish (pe_quantity e) 0; allowed = n < quantity
        in \<lparr>si_allowed = allowed, si_class_id = pe_class_id e, si_quantity = Some quantity,
            si_reason = (if allowed then None else Some ''quota_exceeded''),
            si_remaining = Some (max 0 (quantity - n)),
            si_reset_period = Some (reset_period_text (pe_reset_period e)), si_used = Some n\<rparr>)"

definition not_covered :: summary_item where
  "not_covered = \<lparr>si_allowed = False, si_class_id = None, si_quantity = None,
     si_reason = Some ''not_covered'', si_remaining = None, si_reset_period = None, si_used = None\<rparr>"

definition quota_check_for_sub :: "(plan_entitlement \<Rightarrow> int) \<Rightarrow> plan_entitlement list \<Rightarrow> string \<Rightarrow> summary_item" where
  "quota_check_for_sub count ents class_id =
     (case find_matching_entitlement ents class_id of
        None \<Rightarrow> not_covered
      | Some e \<Rightarrow> quota_for_entitlement count e)"

text \<open>The live subscription's entitlements, or \<open>None\<close> when the member has no live subscription.\<close>

definition summary_for_member :: "(plan_entitlement \<Rightarrow> int) \<Rightarrow> plan_entitlement list option \<Rightarrow> summary_item list" where
  "summary_for_member count live = (case live of
     None \<Rightarrow> []
   | Some ents \<Rightarrow> map (quota_for_entitlement count) ents)"

text \<open>What an accepted entry stores: the override kind, if it is one, and its reason.\<close>

definition record_entry ::
  "(plan_entitlement \<Rightarrow> int) \<Rightarrow> plan_entitlement list option \<Rightarrow> string \<Rightarrow> string \<Rightarrow> bool \<Rightarrow> string option
     \<Rightarrow> app_error + override_kind option \<times> string option" where
  "record_entry count live member_id class_id override reason = (case live of
     None \<Rightarrow> Inl (MemberHasNoActiveSubscriptionError member_id)
   | Some ents \<Rightarrow>
      let check = quota_check_for_sub count ents class_id in
      if si_allowed check then Inr (None, None)
      else if \<not> override then
        (if si_reason check = Some ''quota_exceeded''
         then Inl (QuotaExceededError (nullish (si_used check) 0) (nullish (si_quantity check) 0))
         else Inl (ClassNotCoveredByPlanError class_id))
      else Inr (Some (if si_reason check = Some ''quota_exceeded'' then OK_quota_exceeded
                      else OK_not_covered), reason))"

text \<open>\<open>UNDO_WINDOW\<close> and \<open>can_undo\<close>; the server's clock counts microseconds.\<close>

definition UNDO_WINDOW_us :: int where
  "UNDO_WINDOW_us = 24 * 60 * 60 * 1000000"

definition can_undo :: "int option \<Rightarrow> int \<Rightarrow> int \<Rightarrow> bool" where
  "can_undo undone_at entered now = (if undone_at \<noteq> None then False else now - entered \<le> UNDO_WINDOW_us)"

section \<open>The page's lookup\<close>

definition findQuotaForClass :: "summary_item list \<Rightarrow> string \<Rightarrow> summary_item option" where
  "findQuotaForClass summary classId =
     (if summary = [] then None
      else case List.find (\<lambda>s. truthy_str (si_class_id s) \<and> si_class_id s = Some classId) summary of
             Some exact \<Rightarrow> Some exact
           | None \<Rightarrow> List.find (\<lambda>s. si_class_id s = None) summary)"

lemma quota_class [simp]: "si_class_id (quota_for_entitlement count e) = pe_class_id e"
  by (simp add: quota_for_entitlement_def Let_def)

lemma quota_reason:
  "si_reason (quota_for_entitlement count e) =
     (if si_allowed (quota_for_entitlement count e) then None else Some ''quota_exceeded'')"
  by (simp add: quota_for_entitlement_def Let_def)

text \<open>The lookup on the summary is the server's lookup on the entitlements.\<close>

lemma findQuotaForClass_refines:
  assumes "classId \<noteq> []"
  shows "findQuotaForClass (map (quota_for_entitlement count) ents) classId
       = map_option (quota_for_entitlement count) (find_matching_entitlement ents classId)"
proof -
  have truthy: "truthy_str (pe_class_id e) \<and> pe_class_id e = Some classId \<longleftrightarrow> pe_class_id e = Some classId" for e
    using assms by (auto simp: truthy_str_def)
  show ?thesis
    by (auto simp: findQuotaForClass_def truthy find_matching_entitlement_def find_map comp_def split: option.splits)
qed

text \<open>The note under the confirmation: how many entries remain after this one.\<close>

datatype quota_label = NoLabel | UnlimitedLabel | RemainAfter int "string option"

definition formatRemainingAfterCheckin :: "summary_item \<Rightarrow> quota_label" where
  "formatRemainingAfterCheckin q =
     (if si_reset_period q = Some ''unlimited'' then UnlimitedLabel
      else case si_remaining q of
             None \<Rightarrow> NoLabel
           | Some n \<Rightarrow> RemainAfter (max 0 (n - 1)) (Option.bind (si_reset_period q) or_null))"

section \<open>The workspace\<close>

datatype sender = FromConfirm | FromOverride

record workspace =
  ws_overrideFor :: "(string \<times> string) option"
  ws_confirmFor :: "(string \<times> quota_label) option"
  ws_pending :: "sender option"
  ws_error :: "thrown option"
  ws_sent :: "api_call list"

definition workspace_init :: workspace where
  "workspace_init = \<lparr>ws_overrideFor = None, ws_confirmFor = None, ws_pending = None, ws_error = None, ws_sent = []\<rparr>"

text \<open>The handlers. \<open>summary\<close> is the data of the query, \<open>None\<close> until it has loaded.\<close>

definition handleClassTap :: "summary_item list option \<Rightarrow> string \<Rightarrow> workspace \<Rightarrow> workspace" where
  "handleClassTap summary classId w = (case summary of
     None \<Rightarrow> w
   | Some s \<Rightarrow>
      (case findQuotaForClass s classId of
         None \<Rightarrow> w\<lparr>ws_overrideFor := Some (classId, ''not_covered'')\<rparr>
       | Some q \<Rightarrow>
          if \<not> si_allowed q
          then w\<lparr>ws_overrideFor := Some (classId, nullish (si_reason q) ''quota_exceeded'')\<rparr>
          else w\<lparr>ws_confirmFor := Some (classId, formatRemainingAfterCheckin q)\<rparr>))"

definition entry_body :: "string \<Rightarrow> string \<Rightarrow> bool \<Rightarrow> string option \<Rightarrow> json" where
  "entry_body memberId classId override reason = JObj
     [(''member_id'', JStr memberId), (''class_id'', JStr classId), (''override'', JBool override),
      (''override_reason'', jopt JStr reason)]"

definition mutate :: "sender \<Rightarrow> api_call \<Rightarrow> workspace \<Rightarrow> workspace" where
  "mutate from call w = w\<lparr>ws_pending := Some from, ws_error := None, ws_sent := ws_sent w @ [call]\<rparr>"

definition handleConfirmCheckin :: "string \<Rightarrow> workspace \<Rightarrow> workspace" where
  "handleConfirmCheckin memberId w = (case ws_confirmFor w of
     None \<Rightarrow> w
   | Some (classId, _) \<Rightarrow> mutate FromConfirm (recordEntry (entry_body memberId classId False None)) w)"

text \<open>The override dialog hands on its trimmed reason, or null.\<close>

definition override_submit :: "string \<Rightarrow> string option" where
  "override_submit reason = or_null (trim reason)"

definition handleConfirmOverride :: "string \<Rightarrow> string option \<Rightarrow> workspace \<Rightarrow> workspace" where
  "handleConfirmOverride memberId reason w = (case ws_overrideFor w of
     None \<Rightarrow> w
   | Some (classId, _) \<Rightarrow> mutate FromOverride (recordEntry (entry_body memberId classId True reason)) w)"

text \<open>The settling of the mutation: \<open>onSuccess\<close> closes the dialog that sent it.\<close>

definition settle :: "thrown option \<Rightarrow> workspace \<Rightarrow> workspace" where
  "settle err w = (case ws_pending w of
     None \<Rightarrow> w
   | Some from \<Rightarrow>
      (case err of
         Some e \<Rightarrow> w\<lparr>ws_pending := None, ws_error := Some e\<rparr>
       | None \<Rightarrow> (case from of
            FromConfirm \<Rightarrow> w\<lparr>ws_pending := None, ws_confirmFor := None\<rparr>
          | FromOverride \<Rightarrow> w\<lparr>ws_pending := None, ws_overrideFor := None\<rparr>)))"

text \<open>
  The controls of the page. The grid is shown when the summary is not empty; its cards and both
  submit buttons are disabled while a request is under way.
\<close>

datatype check_event = TapClass string | ConfirmCheckin | ConfirmOverride string | CancelConfirm
  | CancelOverride | Settled "thrown option"

fun check_step :: "string \<Rightarrow> summary_item list option \<Rightarrow> check_event \<Rightarrow> workspace \<Rightarrow> workspace" where
  "check_step memberId summary (TapClass c) w =
     (if ws_pending w = None \<and> summary \<noteq> None \<and> summary \<noteq> Some [] then handleClassTap summary c w else w)"
| "check_step memberId summary ConfirmCheckin w =
     (if ws_pending w = None then handleConfirmCheckin memberId w else w)"
| "check_step memberId summary (ConfirmOverride reason) w =
     (if ws_pending w = None then handleConfirmOverride memberId (override_submit reason) w else w)"
| "check_step memberId summary CancelConfirm w = w\<lparr>ws_confirmFor := None\<rparr>"
| "check_step memberId summary CancelOverride w = w\<lparr>ws_overrideFor := None\<rparr>"
| "check_step memberId summary (Settled err) w = settle err w"

definition check_run :: "string \<Rightarrow> summary_item list option \<Rightarrow> check_event list \<Rightarrow> workspace" where
  "check_run memberId summary es = fold (check_step memberId summary) es workspace_init"

text \<open>C3: the page and the server agree on a tap: for a member with a live subscription the plain
  confirmation opens exactly when the server would accept the entry as it is; otherwise the override
  dialog opens with the kind the server then stores, and the server would refuse the plain entry.\<close>

theorem tap_matches_server:
  assumes "classId \<noteq> []"
  shows "(case ws_confirmFor (handleClassTap (Some (summary_for_member count (Some ents))) classId workspace_init) of
        Some (c, label) \<Rightarrow> c = classId \<and> record_entry count (Some ents) m classId False None = Inr (None, None)
      | None \<Rightarrow> (\<exists>kind exc.
            ws_overrideFor (handleClassTap (Some (summary_for_member count (Some ents))) classId workspace_init)
              = Some (classId, override_kind_text kind)
          \<and> record_entry count (Some ents) m classId False None = Inl exc
          \<and> record_entry count (Some ents) m classId True reason = Inr (Some kind, reason)))"
proof (cases "find_matching_entitlement ents classId")
  case None
  then show ?thesis
    by (auto simp: handleClassTap_def summary_for_member_def findQuotaForClass_refines assms workspace_init_def
        record_entry_def quota_check_for_sub_def not_covered_def Let_def intro!: exI [of _ OK_not_covered])
next
  case (Some e)
  show ?thesis
  proof (cases "si_allowed (quota_for_entitlement count e)")
    case True
    with Some show ?thesis
      by (simp add: handleClassTap_def summary_for_member_def findQuotaForClass_refines assms workspace_init_def
          record_entry_def quota_check_for_sub_def Let_def)
  next
    case False
    then have "si_reason (quota_for_entitlement count e) = Some ''quota_exceeded''" by (simp add: quota_reason)
    with Some False show ?thesis
      by (auto simp: handleClassTap_def summary_for_member_def findQuotaForClass_refines assms workspace_init_def
          record_entry_def quota_check_for_sub_def Let_def nullish_def intro!: exI [of _ OK_quota_exceeded])
  qed
qed

definition sample_entitlement :: "string option \<Rightarrow> int option \<Rightarrow> reset_period \<Rightarrow> plan_entitlement" where
  "sample_entitlement c q r = \<lparr>pe_class_id = c, pe_created_at = [], pe_id = ''e1'', pe_plan_id = ''p1'',
     pe_quantity = q, pe_reset_period = r\<rparr>"

theorem tap_matches_server_witness:
  "record_entry (\<lambda>_. 3) (Some [sample_entitlement (Some ''yoga'') (Some 3) RP_weekly]) ''m1'' ''yoga'' True (Some ''birthday'')
     = Inr (Some OK_quota_exceeded, Some ''birthday'')
   \<and> ws_overrideFor (handleClassTap (Some (summary_for_member (\<lambda>_. 3)
       (Some [sample_entitlement (Some ''yoga'') (Some 3) RP_weekly]))) ''yoga'' workspace_init)
     = Some (''yoga'', ''quota_exceeded'')"
proof -
  let ?ents = "[sample_entitlement (Some ''yoga'') (Some 3) RP_weekly]"
  have none: "ws_confirmFor (handleClassTap (Some (summary_for_member (\<lambda>_. 3) (Some ?ents))) ''yoga'' workspace_init) = None"
    and over: "ws_overrideFor (handleClassTap (Some (summary_for_member (\<lambda>_. 3) (Some ?ents))) ''yoga'' workspace_init)
      = Some (''yoga'', ''quota_exceeded'')"
    by (simp_all add: handleClassTap_def summary_for_member_def findQuotaForClass_def sample_entitlement_def
        quota_for_entitlement_def Let_def nullish_def truthy_str_def workspace_init_def)
  have kind: "override_kind_text k = ''quota_exceeded'' \<Longrightarrow> k = OK_quota_exceeded" for k
    by (cases k) simp_all
  show ?thesis
    using tap_matches_server [of "''yoga''" "\<lambda>_. 3" ?ents "''m1''" "Some ''birthday''"] none over kind
    by auto
qed

section \<open>What a session of the page can send\<close>

text \<open>
  The invariant: an open confirmation is for a class the summary allows, an open override dialog for
  one it does not; and every request sent is for such a class, with the override flag accordingly.
\<close>

definition tap_allowed :: "summary_item list option \<Rightarrow> string \<Rightarrow> bool" where
  "tap_allowed summary c = (case summary of
     None \<Rightarrow> False
   | Some s \<Rightarrow> (case findQuotaForClass s c of None \<Rightarrow> False | Some q \<Rightarrow> si_allowed q))"

definition entry_call_ok :: "string \<Rightarrow> summary_item list option \<Rightarrow> api_call \<Rightarrow> bool" where
  "entry_call_ok memberId summary call \<longleftrightarrow>
     (\<exists>c override reason. call = recordEntry (entry_body memberId c override reason)
        \<and> (override \<longleftrightarrow> \<not> tap_allowed summary c) \<and> (\<not> override \<longrightarrow> reason = None)
        \<and> reason \<noteq> Some [])"

definition workspace_ok :: "string \<Rightarrow> summary_item list option \<Rightarrow> workspace \<Rightarrow> bool" where
  "workspace_ok memberId summary w \<longleftrightarrow>
     (\<forall>c l. ws_confirmFor w = Some (c, l) \<longrightarrow> tap_allowed summary c) \<and>
     (\<forall>c k. ws_overrideFor w = Some (c, k) \<longrightarrow> \<not> tap_allowed summary c) \<and>
     (\<forall>call \<in> set (ws_sent w). entry_call_ok memberId summary call)"

lemma workspace_ok_tap:
  assumes "workspace_ok m summary w" shows "workspace_ok m summary (handleClassTap summary c w)"
proof (cases summary)
  case None
  with assms show ?thesis by (simp add: handleClassTap_def)
next
  case (Some s)
  show ?thesis
  proof (cases "findQuotaForClass s c")
    case None
    with assms Some show ?thesis by (auto simp: handleClassTap_def workspace_ok_def tap_allowed_def)
  next
    case (Some q)
    with assms \<open>summary = Some s\<close> show ?thesis
      by (cases "si_allowed q") (auto simp: handleClassTap_def workspace_ok_def tap_allowed_def)
  qed
qed

lemma plain_entry_ok:
  "tap_allowed summary c \<Longrightarrow> entry_call_ok m summary (recordEntry (entry_body m c False None))"
  unfolding entry_call_ok_def by (intro exI [of _ c] exI [of _ False] exI [of _ None]) simp

lemma override_entry_ok:
  "\<not> tap_allowed summary c \<Longrightarrow> r \<noteq> Some [] \<Longrightarrow> entry_call_ok m summary (recordEntry (entry_body m c True r))"
  unfolding entry_call_ok_def by (intro exI [of _ c] exI [of _ True] exI [of _ r]) simp

lemma workspace_ok_cancel:
  "workspace_ok m summary w \<Longrightarrow> workspace_ok m summary (w\<lparr>ws_confirmFor := None\<rparr>)"
  "workspace_ok m summary w \<Longrightarrow> workspace_ok m summary (w\<lparr>ws_overrideFor := None\<rparr>)"
  by (simp_all add: workspace_ok_def)

lemma workspace_ok_confirm:
  "workspace_ok m summary w \<Longrightarrow> workspace_ok m summary (handleConfirmCheckin m w)"
  by (auto simp: handleConfirmCheckin_def mutate_def workspace_ok_def plain_entry_ok split: option.splits)

lemma override_submit_not_empty [simp]: "override_submit r \<noteq> Some []"
  by (simp add: override_submit_def)

lemma workspace_ok_override:
  "workspace_ok m summary w \<Longrightarrow> workspace_ok m summary (handleConfirmOverride m (override_submit r) w)"
  by (auto simp: handleConfirmOverride_def mutate_def workspace_ok_def override_entry_ok split: option.splits)

lemma workspace_ok_settle: "workspace_ok m summary w \<Longrightarrow> workspace_ok m summary (settle err w)"
  by (auto simp: settle_def workspace_ok_def split: option.splits sender.splits)

lemma workspace_ok_step: "workspace_ok m summary w \<Longrightarrow> workspace_ok m summary (check_step m summary e w)"
  by (cases e) (simp_all add: workspace_ok_tap workspace_ok_confirm workspace_ok_override workspace_ok_settle
      workspace_ok_cancel)

lemma workspace_ok_run: "workspace_ok m summary (check_run m summary es)"
proof -
  have "workspace_ok m summary (fold (check_step m summary) es w)" if "workspace_ok m summary w" for w
    using that
  proof (induction es arbitrary: w)
    case (Cons e es)
    then show ?case unfolding fold_simps by (blast intro: workspace_ok_step)
  qed simp
  moreover have "workspace_ok m summary workspace_init"
    by (simp add: workspace_init_def workspace_ok_def)
  ultimately show ?thesis unfolding check_run_def .
qed

text \<open>Whatever the user does on the page, every request it sends is an entry of the selected
  member, and it asks for an override exactly for the classes whose quota row does not allow an
  entry; a plain entry carries no reason, and an empty reason is sent as null.\<close>

lemma sent_entries_ok:
  "call \<in> set (ws_sent (check_run memberId summary es)) \<Longrightarrow>
   \<exists>c override reason. call = recordEntry (entry_body memberId c override reason)
     \<and> (override \<longleftrightarrow> \<not> tap_allowed summary c) \<and> (\<not> override \<longrightarrow> reason = None) \<and> reason \<noteq> Some []"
  using workspace_ok_run [of memberId summary es] unfolding workspace_ok_def entry_call_ok_def by blast

lemma sent_entries_ok_witness:
  "\<exists>c override reason. recordEntry (entry_body ''m1'' ''yoga'' True None) = recordEntry (entry_body ''m1'' c override reason)
     \<and> (override \<longleftrightarrow> \<not> tap_allowed (Some [not_covered\<lparr>si_class_id := Some ''box''\<rparr>]) c)
     \<and> (\<not> override \<longrightarrow> reason = None) \<and> reason \<noteq> Some []"
proof -
  have "recordEntry (entry_body ''m1'' ''yoga'' True None)
      \<in> set (ws_sent (check_run ''m1'' (Some [not_covered\<lparr>si_class_id := Some ''box''\<rparr>])
          [TapClass ''yoga'', ConfirmOverride '' '']))"
    by (simp add: check_run_def workspace_init_def handleClassTap_def findQuotaForClass_def not_covered_def
        truthy_str_def handleConfirmOverride_def mutate_def override_submit_def trim_def is_ws_def
        or_null_def)
  from sent_entries_ok [OF this] show ?thesis .
qed

text \<open>The workspace as a machine that yields the calls of an event.\<close>

definition check_sends :: "string \<Rightarrow> summary_item list option \<Rightarrow> check_event \<Rightarrow> workspace \<Rightarrow> workspace \<times> api_call list" where
  "check_sends memberId summary e w =
     (check_step memberId summary e w, drop (length (ws_sent w)) (ws_sent (check_step memberId summary e w)))"

lemmas check_handlers = handleClassTap_def handleConfirmCheckin_def handleConfirmOverride_def mutate_def settle_def

interpretation check_in: single_flight "check_sends memberId summary" "\<lambda>_. True" "\<lambda>_. True" "\<lambda>e. \<exists>err. e = Settled err"
  "\<lambda>w. ws_pending w \<noteq> None" for memberId summary
  by (unfold_locales, goal_cases)
    (case_tac e; auto simp: check_sends_def check_handlers split: option.splits if_splits sender.splits)+

text \<open>
  A plan without entitlements: the documents say that it opens every class, but the server finds no
  match, and the page says that there is no active subscription and shows no class at all.
\<close>

text \<open>For a live subscription on a plan without entitlements the server refuses every plain
  entry as not covered and the page, whose summary is empty, sends nothing whatever the user does;
  the summary is the same as that of a member without any subscription.\<close>

lemma empty_plan_blocks_check_in:
  "record_entry count (Some []) m classId False None = Inl (ClassNotCoveredByPlanError classId)
   \<and> summary_for_member count (Some []) = summary_for_member count None
   \<and> ws_sent (check_run m (Some (summary_for_member count (Some []))) es) = []"
proof -
  have "ws_sent (fold (check_step m (Some [])) es w) = [] \<and> ws_confirmFor (fold (check_step m (Some [])) es w) = None
      \<and> ws_overrideFor (fold (check_step m (Some [])) es w) = None"
    if "ws_sent w = [] \<and> ws_confirmFor w = None \<and> ws_overrideFor w = None" for w
    using that
  proof (induction es arbitrary: w)
    case (Cons e es)
    have "ws_sent (check_step m (Some []) e w) = [] \<and> ws_confirmFor (check_step m (Some []) e w) = None
      \<and> ws_overrideFor (check_step m (Some []) e w) = None"
      using Cons.prems
      by (cases e) (auto simp: handleConfirmCheckin_def handleConfirmOverride_def settle_def
          split: option.splits sender.splits)
    with Cons.IH show ?case by simp
  qed simp
  then show ?thesis
    by (simp add: check_run_def workspace_init_def summary_for_member_def record_entry_def not_covered_def
        quota_check_for_sub_def find_matching_entitlement_def Let_def)
qed

section \<open>The recent-entries feed\<close>

text \<open>Times in milliseconds, as \<open>Date.getTime\<close> gives them.\<close>

definition isWithinUndoWindow :: "int \<Rightarrow> int \<Rightarrow> bool" where
  "isWithinUndoWindow now entered \<longleftrightarrow> now - entered \<le> 24 * 60 * 60 * 1000"

definition undo_button :: "int \<Rightarrow> int \<Rightarrow> class_entry \<Rightarrow> bool" where
  [view_defs]: "undo_button now entered e \<longleftrightarrow> \<not> truthy_str (ce_undone_at e) \<and> isWithinUndoWindow now entered"

definition undo_click :: "class_entry \<Rightarrow> api_call" where
  "undo_click e = undoEntry (ce_id e) (JObj [(''reason'', JNull)])"

datatype time_ago = LessThanMinute | MinutesAgo int | HoursAgo int | OnDate

definition timeAgo :: "int \<Rightarrow> int \<Rightarrow> time_ago" where
  "timeAgo now t = (let seconds = max 0 (Fract (now - t) 1000) in
     if seconds < 60 then LessThanMinute
     else if seconds < 3600 then MinutesAgo (\<lfloor>seconds / 60\<rfloor>)
     else if seconds < 86400 then HoursAgo (\<lfloor>seconds / 3600\<rfloor>)
     else OnDate)"

text \<open>The undo button is offered whenever the server would still undo the entry, and when it is
  offered the server's window is over by less than a millisecond at most; the page reads the server's
  microsecond times rounded down to milliseconds.\<close>

lemma undo_window_agrees:
  "(can_undo None entered now \<longrightarrow> isWithinUndoWindow (now div 1000) (entered div 1000))
   \<and> (isWithinUndoWindow (now div 1000) (entered div 1000) \<longrightarrow> now - entered < UNDO_WINDOW_us + 1000)"
proof -
  have "now = 1000 * (now div 1000) + now mod 1000" "0 \<le> now mod 1000" "now mod 1000 < 1000"
    "entered = 1000 * (entered div 1000) + entered mod 1000" "0 \<le> entered mod 1000" "entered mod 1000 < 1000"
    by simp_all
  then show ?thesis unfolding can_undo_def isWithinUndoWindow_def UNDO_WINDOW_us_def by auto
qed

lemma undo_window_agrees_witness:
  "isWithinUndoWindow (86400000000 div 1000) (0 div 1000) \<and> \<not> can_undo None 0 86400000001"
  using undo_window_agrees [of 0 86400000000] by (simp add: can_undo_def UNDO_WINDOW_us_def)

lemma timeAgo_ranges:
  "timeAgo now t = MinutesAgo n \<Longrightarrow> 1 \<le> n \<and> n \<le> 59"
  "timeAgo now t = HoursAgo n \<Longrightarrow> 1 \<le> n \<and> n \<le> 23"
  by (auto simp: timeAgo_def Let_def le_floor_iff floor_less_iff zless_add1_eq [symmetric] split: if_splits)

end
