(* ===== verification/Scanner.thy ===== *)
theory Scanner
  imports CheckIn
begin

text \<open>
  Picking the member: the search box and the camera of \<^verbatim>\<open>features/attendance/CheckInPage.tsx\<close>, the
  payload reader of \<^verbatim>\<open>QrScannerPanel.tsx\<close> and the card of \<^verbatim>\<open>MemberQrButton.tsx\<close>.
\<close>

section \<open>Reading a payload\<close>

definition is_hex :: "char \<Rightarrow> bool" where
  "is_hex c \<longleftrightarrow> c \<in> set ''0123456789abcdefABCDEF''"

text \<open>The characters that \<open>UUID_REGEX\<close> (with the flag \<open>i\<close>) accepts at each position.\<close>

definition uuid_char :: "nat \<Rightarrow> char \<Rightarrow> bool" where
  "uuid_char i c = (if i \<in> {8, 13, 18, 23} then c = CHR ''-'' else is_hex c)"

definition uuid_shape :: "string \<Rightarrow> bool" where
  "uuid_shape s \<longleftrightarrow> length s = 36 \<and> list_all2 uuid_char [0..<36] s"

text \<open>The first match of the pattern inside a text.\<close>

fun extractMemberIdFromUrl :: "string \<Rightarrow> string option" where
  "extractMemberIdFromUrl [] = None"
| "extractMemberIdFromUrl (c # cs) =
     (if uuid_shape (take 36 (c # cs)) then Some (take 36 (c # cs)) else extractMemberIdFromUrl cs)"

definition decode_payload :: "string \<Rightarrow> string option" where
  "decode_payload payload =
     (let text = trim payload in
      if uuid_shape text then Some text else extractMemberIdFromUrl text)"

text \<open>The text a member's card encodes.\<close>

definition qr_payload :: "string \<Rightarrow> string" where
  "qr_payload memberId = memberId"

lemma uuid_shape_take: "uuid_shape s \<Longrightarrow> uuid_shape (take 36 (s @ t))"
  by (simp add: uuid_shape_def)

lemma extract_sound: "extractMemberIdFromUrl s = Some u \<Longrightarrow> uuid_shape u \<and> sublist u s"
  by (induction s rule: extractMemberIdFromUrl.induct)
     (auto split: if_splits simp: sublist_Cons_right intro: take_is_prefix)

lemma extract_complete: "uuid_shape u \<Longrightarrow> extractMemberIdFromUrl (p @ u @ q) \<noteq> None"
proof (induction p)
  case Nil
  then obtain c cs where u: "u = c # cs" by (cases u) (simp_all add: uuid_shape_def)
  have "uuid_shape (take 36 (u @ q))" using Nil by (rule uuid_shape_take)
  then show ?case by (simp add: u)
qed simp

lemma no_ws_trim: "(\<forall>c \<in> set s. \<not> is_ws c) \<Longrightarrow> trim s = s"
  by (simp add: trim_def dropWhile_eq_self_iff) (metis dropWhile_eq_self_iff hd_in_set rev_rev_ident set_rev)

lemma uuid_no_ws:
  assumes "uuid_shape u" "c \<in> set u" shows "\<not> is_ws c"
proof -
  have "uuid_char i d \<Longrightarrow> d = CHR ''-'' \<or> is_hex d" for i d by (auto simp: uuid_char_def split: if_splits)
  with assms have "c = CHR ''-'' \<or> is_hex c"
    by (auto simp: uuid_shape_def list_all2_conv_all_nth in_set_conv_nth)
  then show ?thesis by (auto simp: is_hex_def is_ws_def)
qed

lemma card_reads_back: "uuid_shape m \<Longrightarrow> decode_payload (qr_payload m) = Some m"
  using no_ws_trim uuid_no_ws by (auto simp: decode_payload_def qr_payload_def Let_def)

text \<open>The scanner hands on a well-formed id found in the payload whenever it contains one and
  nothing otherwise, and the card of a member is read back as that member, also with white space
  around it.\<close>

lemma scan_reads_member:
  "(\<forall>u. decode_payload t = Some u \<longrightarrow> uuid_shape u \<and> sublist u (trim t))
   \<and> (decode_payload t = None \<longrightarrow> \<not> (\<exists>u. uuid_shape u \<and> sublist u (trim t)))
   \<and> (uuid_shape m \<longrightarrow> decode_payload (qr_payload m) = Some m)"
proof -
  have "decode_payload t = Some u \<longrightarrow> uuid_shape u \<and> sublist u (trim t)" for u
    using extract_sound by (auto simp: decode_payload_def Let_def split: if_splits)
  moreover have "decode_payload t = None \<longrightarrow> \<not> (\<exists>u. uuid_shape u \<and> sublist u (trim t))"
    unfolding decode_payload_def Let_def sublist_def
    by (metis extract_complete option.distinct(1))
  moreover have "uuid_shape m \<longrightarrow> decode_payload (qr_payload m) = Some m" using card_reads_back by blast
  ultimately show ?thesis by blast
qed

lemma uuid_shape_code:
  "uuid_shape s \<longleftrightarrow> list_all2 uuid_char [0..<36] s"
  by (auto simp: uuid_shape_def dest: list_all2_lengthD)

lemma scan_reads_member_witness:
  "decode_payload (qr_payload ''0f3aB2c4-1111-2222-3333-444455556666'') = Some ''0f3aB2c4-1111-2222-3333-444455556666''"
proof -
  have "uuid_shape ''0f3aB2c4-1111-2222-3333-444455556666''"
    by (simp add: uuid_shape_code upt_rec uuid_char_def is_hex_def)
  then show ?thesis using scan_reads_member by blast
qed

section \<open>The camera of the scanner\<close>

text \<open>
  The effect of \<open>QrScannerPanel\<close>: every run opens the camera, a promise hands over its \<open>controls\<close> when the
  camera has started, and the clean-up stops the camera through them. \<open>handleScan\<close> of the picker is a new
  function at each rendering, so a rendering cleans the run up and starts another. The library starts the
  camera, delivers frames and settles the promise in its own time: one event each, for the run \<open>i\<close>.
\<close>

datatype camera = CamStarting | CamLive | CamOff

text \<open>\<open>sr_cleanup\<close> records whether the clean-up of the run found the controls.\<close>

record scan_run =
  sr_camera :: camera
  sr_controls :: bool
  sr_cleanup :: "bool option"

datatype camera_error = CameraDenied | CameraMissing | CameraFailed string

record scanner_panel =
  sn_open :: bool
  sn_runs :: "scan_run list"
  sn_error :: "camera_error option"

definition panel_closed :: scanner_panel where
  "panel_closed = \<lparr>sn_open = False, sn_runs = [], sn_error = None\<rparr>"

definition start_run :: scan_run where
  "start_run = \<lparr>sr_camera = CamStarting, sr_controls = False, sr_cleanup = None\<rparr>"

definition cleanup :: "scan_run \<Rightarrow> scan_run" where
  "cleanup r = r\<lparr>sr_camera := (if sr_controls r then CamOff else sr_camera r), sr_cleanup := Some (sr_controls r)\<rparr>"

definition cleanup_last :: "scan_run list \<Rightarrow> scan_run list" where
  "cleanup_last rs = (if rs = [] then [] else butlast rs @ [cleanup (last rs)])"

definition camera_error_of :: "string \<Rightarrow> string \<Rightarrow> camera_error" where
  "camera_error_of name message =
     (if name = ''NotAllowedError'' then CameraDenied
      else if name = ''NotFoundError'' then CameraMissing else CameraFailed message)"

datatype scan_event = MountPanel | RenderPanel | UnmountPanel
  | CameraStarts nat | PromiseResolves nat | PromiseRejects nat string string | FrameRead nat string

text \<open>A run changes in its place; the texts that are handed to \<open>onDecode\<close> are the second component.\<close>

definition upd_run :: "nat \<Rightarrow> (scan_run \<Rightarrow> scan_run) \<Rightarrow> scanner_panel \<Rightarrow> scanner_panel" where
  "upd_run i f s = (if i < length (sn_runs s) then s\<lparr>sn_runs := (sn_runs s)[i := f (sn_runs s ! i)]\<rparr> else s)"

definition run_camera :: "scanner_panel \<Rightarrow> nat \<Rightarrow> camera option" where
  "run_camera s i = (if i < length (sn_runs s) then Some (sr_camera (sn_runs s ! i)) else None)"

fun scan_step :: "scan_event \<Rightarrow> scanner_panel \<Rightarrow> scanner_panel \<times> string list" where
  "scan_step MountPanel s =
     (if sn_open s then s else s\<lparr>sn_open := True, sn_runs := sn_runs s @ [start_run], sn_error := None\<rparr>, [])"
| "scan_step RenderPanel s =
     (if sn_open s then s\<lparr>sn_runs := cleanup_last (sn_runs s) @ [start_run]\<rparr> else s, [])"
| "scan_step UnmountPanel s =
     (if sn_open s then s\<lparr>sn_open := False, sn_runs := cleanup_last (sn_runs s)\<rparr> else s, [])"
| "scan_step (CameraStarts i) s =
     (if run_camera s i = Some CamStarting then upd_run i (\<lambda>r. r\<lparr>sr_camera := CamLive\<rparr>) s else s, [])"
| "scan_step (PromiseResolves i) s =
     (if run_camera s i = Some CamLive then upd_run i (\<lambda>r. r\<lparr>sr_controls := True\<rparr>) s else s, [])"
| "scan_step (PromiseRejects i name message) s =
     (if run_camera s i = Some CamStarting
      then let s' = upd_run i (\<lambda>r. r\<lparr>sr_camera := CamOff\<rparr>) s
           in if sn_open s then s'\<lparr>sn_error := Some (camera_error_of name message)\<rparr> else s'
      else s, [])"
| "scan_step (FrameRead i payload) s =
     (if run_camera s i = Some CamLive
      then (case decode_payload payload of
              None \<Rightarrow> (s, [])
            | Some m \<Rightarrow> (upd_run i (\<lambda>r. if sr_controls r then r\<lparr>sr_camera := CamOff\<rparr> else r) s, [m]))
      else (s, []))"

inductive scanned :: "scanner_panel \<Rightarrow> bool" where
  closed: "scanned panel_closed"
| event: "scanned s \<Longrightarrow> scanned (fst (scan_step e s))"

text \<open>A run that was not cleaned up is the last one of an open panel, and a camera that is on although its run
  was cleaned up belongs to a run whose clean-up came before the controls.\<close>

definition runs_ok :: "scanner_panel \<Rightarrow> bool" where
  "runs_ok s \<longleftrightarrow> (\<forall>i < length (sn_runs s).
     (sr_cleanup (sn_runs s ! i) = None \<longrightarrow> sn_open s \<and> Suc i = length (sn_runs s)) \<and>
     (sr_cleanup (sn_runs s ! i) = Some True \<longrightarrow> sr_camera (sn_runs s ! i) = CamOff))
     \<and> (sn_open s \<longrightarrow> sn_runs s \<noteq> [])"

lemma nth_cleanup_last:
  "i < length rs \<Longrightarrow> cleanup_last rs ! i = (if Suc i = length rs then cleanup (rs ! i) else rs ! i)"
  by (cases rs rule: rev_cases) (auto simp: cleanup_last_def nth_append less_Suc_eq)

lemma length_cleanup_last [simp]: "length (cleanup_last rs) = length rs"
  by (cases rs) (simp_all add: cleanup_last_def)

lemma runs_ok_upd:
  assumes "runs_ok s" "\<And>r. sr_cleanup (f r) = sr_cleanup r" "\<And>r. sr_camera r = CamOff \<Longrightarrow> sr_camera (f r) = CamOff"
  shows "runs_ok (upd_run i f s)"
  using assms by (auto simp: runs_ok_def upd_run_def nth_list_update)

lemma runs_ok_error [simp]: "runs_ok (s\<lparr>sn_error := x\<rparr>) = runs_ok s"
  by (simp add: runs_ok_def)

lemma runs_ok_step: "runs_ok s \<Longrightarrow> runs_ok (fst (scan_step e s))"
proof (cases e)
  case MountPanel
  assume "runs_ok s"
  then show ?thesis unfolding MountPanel
    by (auto simp: runs_ok_def nth_append start_run_def less_Suc_eq)
next
  case RenderPanel
  assume "runs_ok s"
  then show ?thesis unfolding RenderPanel
    by (auto simp: runs_ok_def nth_append start_run_def less_Suc_eq nth_cleanup_last cleanup_def)
next
  case UnmountPanel
  assume "runs_ok s"
  then show ?thesis unfolding UnmountPanel
    by (auto simp: runs_ok_def nth_cleanup_last cleanup_def)
next
  case (CameraStarts i)
  assume a: "runs_ok s"
  show ?thesis
  proof (cases "run_camera s i = Some CamStarting")
    case True
    then have "sr_camera (sn_runs s ! i) = CamStarting" "i < length (sn_runs s)"
      by (auto simp: run_camera_def split: if_splits)
    with a show ?thesis unfolding CameraStarts
      by (auto simp: runs_ok_def upd_run_def run_camera_def nth_list_update)
  qed (use a CameraStarts in simp)
qed (auto intro!: runs_ok_upd simp: Let_def split: option.splits)

lemma scanned_ok: "scanned s \<Longrightarrow> runs_ok s"
proof (induction rule: scanned.induct)
  case closed
  show ?case by (simp add: runs_ok_def panel_closed_def)
next
  case (event s e)
  then show ?case by (simp add: runs_ok_step)
qed

text \<open>C33: the scanner turns its camera off: whatever the order of renderings, promises, frames and clean-ups, a
  camera that is on belongs to the current run of the open panel, or to a run whose clean-up came
  before the promise had handed over the controls.\<close>

theorem scanner_releases_camera:
  assumes "scanned s" "run_camera s i = Some CamLive"
  shows "sn_open s \<and> Suc i = length (sn_runs s) \<or> sr_cleanup (sn_runs s ! i) = Some False"
proof -
  have i: "i < length (sn_runs s)" "sr_camera (sn_runs s ! i) = CamLive"
    using assms(2) by (auto simp: run_camera_def split: if_splits)
  with scanned_ok [OF assms(1)] show ?thesis
    by (cases "sr_cleanup (sn_runs s ! i)") (auto simp: runs_ok_def)
qed

text \<open>The second case happens: a panel that is closed while the camera starts leaves it on, and a card held
  in front of it afterwards is still handed on as a scanned member.\<close>

lemma camera_left_on:
  assumes "uuid_shape m"
  shows "\<exists>s. scanned s \<and> \<not> sn_open s \<and> run_camera s 0 = Some CamLive
    \<and> snd (scan_step (FrameRead 0 (qr_payload m)) s) = [m]"
proof -
  let ?s = "fst (scan_step (PromiseResolves 0) (fst (scan_step (CameraStarts 0) (fst (scan_step UnmountPanel
      (fst (scan_step MountPanel panel_closed)))))))"
  have "scanned ?s" by (intro scanned.event scanned.closed)
  moreover have s: "\<not> sn_open ?s" "run_camera ?s 0 = Some CamLive"
    by (simp_all add: panel_closed_def start_run_def cleanup_last_def cleanup_def run_camera_def upd_run_def)
  moreover have "decode_payload (qr_payload m) = Some m" using assms by (rule card_reads_back)
  with s have "snd (scan_step (FrameRead 0 (qr_payload m)) ?s) = [m]" by simp
  ultimately show ?thesis by blast
qed

theorem scanner_releases_camera_witness:
  "\<exists>s. scanned s \<and> run_camera s 1 = Some CamLive \<and> run_camera s 0 = Some CamOff \<and> sn_open s \<and> Suc 1 = length (sn_runs s)"
proof -
  let ?s = "fst (scan_step (CameraStarts 1) (fst (scan_step RenderPanel (fst (scan_step (PromiseResolves 0)
      (fst (scan_step (CameraStarts 0) (fst (scan_step MountPanel panel_closed)))))))))"
  note steps = panel_closed_def start_run_def cleanup_last_def cleanup_def run_camera_def upd_run_def
  have "scanned ?s" by (intro scanned.event scanned.closed)
  moreover have live: "run_camera ?s 1 = Some CamLive" by (simp add: steps)
  moreover have "sr_cleanup (sn_runs ?s ! 1) = None" by (simp add: steps)
  ultimately have "sn_open ?s \<and> Suc 1 = length (sn_runs ?s)"
    using scanner_releases_camera [of ?s 1] by simp
  moreover have "run_camera ?s 0 = Some CamOff" by (simp add: steps)
  ultimately show ?thesis using \<open>scanned ?s\<close> live by blast
qed

section \<open>The picker\<close>

record picker =
  pk_selected :: "string option"
  pk_scanOpen :: bool

definition picker_init :: picker where
  "picker_init = \<lparr>pk_selected = None, pk_scanOpen = False\<rparr>"

datatype picker_event = OpenScan | CloseScan | Decoded string | ChooseMember "string option" | ClearMember

definition handleScan :: "string \<Rightarrow> picker \<Rightarrow> picker" where
  "handleScan memberId p = p\<lparr>pk_scanOpen := False, pk_selected := Some memberId\<rparr>"

fun picker_step :: "picker_event \<Rightarrow> picker \<Rightarrow> picker" where
  "picker_step OpenScan p = p\<lparr>pk_scanOpen := True\<rparr>"
| "picker_step CloseScan p = p\<lparr>pk_scanOpen := False\<rparr>"
| "picker_step (Decoded payload) p =
     (case decode_payload payload of None \<Rightarrow> p | Some m \<Rightarrow> handleScan m p)"
| "picker_step (ChooseMember m) p = (case m of None \<Rightarrow> p | Some i \<Rightarrow> p\<lparr>pk_selected := Some i\<rparr>)"
| "picker_step ClearMember p = p\<lparr>pk_selected := None\<rparr>"

definition loadMembers :: "string \<Rightarrow> int \<Rightarrow> int \<Rightarrow> api_call" where
  [api_defs]: "loadMembers search limit offset = listMembers \<lparr>mf_status = Some [MS_active, MS_frozen],
     mf_search = or_null search, mf_limit = Some limit, mf_offset = Some offset\<rparr>"

lemma loadMembers_query:
  "query_of (c_path (loadMembers search limit offset)) =
     [(''status'', ''active''), (''status'', ''frozen'')] @ (if search = [] then [] else [(''search'', search)])
     @ [(''limit'', string_of_int limit), (''offset'', string_of_int offset)]"
  by (simp add: loadMembers_def listMembers_def query_of_with_query when_defs or_null_def truthy_str_def nullish_def)

section \<open>The member's quota chips\<close>

datatype chip_label = ChipUnlimited | ChipUsed int int

definition chip :: "(string \<rightharpoonup> string) \<Rightarrow> summary_item \<Rightarrow> chip_label \<times> string option option" where
  [view_defs]: "chip classNameById s =
     ((if si_reset_period s = Some ''unlimited'' then ChipUnlimited
       else ChipUsed (nullish (si_used s) 0) (nullish (si_quantity s) 0)),
      (if truthy_str (si_class_id s) then Some (classNameById (the (si_class_id s))) else None))"

text \<open>The state of a card of the class grid.\<close>

datatype card_state = NotCovered | CardUnlimited | CardRemaining int | CardFull | CardBlank

definition class_card :: "summary_item list \<Rightarrow> string \<Rightarrow> card_state" where
  [view_defs]: "class_card summary c = (case findQuotaForClass summary c of
     None \<Rightarrow> NotCovered
   | Some q \<Rightarrow>
      if si_reset_period q = Some ''unlimited'' then CardUnlimited
      else case si_remaining q of
             None \<Rightarrow> CardBlank
           | Some n \<Rightarrow> if si_allowed q then CardRemaining n else CardFull)"

text \<open>On a summary computed by the server a card never is blank, and it shows a remaining count
  exactly when one more entry is allowed, in which case the count is positive.\<close>

lemma class_card_server:
  assumes "c \<noteq> []"
  shows "class_card (summary_for_member count (Some ents)) c \<noteq> CardBlank
    \<and> (\<forall>n. class_card (summary_for_member count (Some ents)) c = CardRemaining n \<longrightarrow> 0 < n)"
  by (auto simp: class_card_def summary_for_member_def findQuotaForClass_refines assms
      quota_for_entitlement_def Let_def split: option.splits if_splits)

end
