(* ===== verification/JsNumber.thy ===== *)
theory JsNumber
  imports Prelude "HOL-Library.Log_Nat"
begin

text \<open>
  JavaScript numbers where the program computes money with them: a number is the rational value of
  an IEEE 754 double, \<open>fl\<close> rounds a real result to the nearest double with ties to even (53 bits of
  significand), and \<open>Math.round\<close> is the floor of the value plus one half. Amounts are far from the
  ends of the exponent range, so infinities and subnormal numbers are left out.
\<close>

section \<open>Rounding to a double\<close>

text \<open>The binary exponent of a non-zero rational.\<close>

definition exponent :: "rat \<Rightarrow> int" where
  "exponent x =
     (let (a, b) = quotient_of \<bar>x\<bar>; e = bitlen a - bitlen b
      in if 2 powi e \<le> \<bar>x\<bar> then e else e - 1)"

definition round_even :: "rat \<Rightarrow> int" where
  "round_even y =
     (let f = \<lfloor>y\<rfloor>; d = y - of_int f
      in if d < 1/2 then f else if 1/2 < d then f + 1 else if even f then f else f + 1)"

definition fl :: "rat \<Rightarrow> rat" where
  "fl x = (if x = 0 then 0
     else let ulp = 2 powi (exponent x - 52) in of_int (round_even (x / ulp)) * ulp)"

definition js_round :: "rat \<Rightarrow> int" where
  "js_round y = \<lfloor>y + 1/2\<rfloor>"

text \<open>The operators on numbers.\<close>

definition js_mul :: "rat \<Rightarrow> rat \<Rightarrow> rat" where
  "js_mul x y = fl (x * y)"

definition js_div :: "rat \<Rightarrow> rat \<Rightarrow> rat" where
  "js_div x y = fl (x / y)"

lemma fl_zero [simp]: "fl 0 = 0"
  by (simp add: fl_def)

lemma round_even_error: "\<bar>of_int (round_even y) - y\<bar> \<le> 1/2"
proof -
  have "of_int \<lfloor>y\<rfloor> \<le> y" "y < of_int \<lfloor>y\<rfloor> + 1" by linarith+
  then show ?thesis unfolding round_even_def Let_def by (auto simp: abs_le_iff)
qed

lemma exponent_le:
  assumes "x \<noteq> 0" shows "2 powi (exponent x) \<le> \<bar>x\<bar>"
proof -
  obtain a b where q: "quotient_of \<bar>x\<bar> = (a, b)" by (metis surj_pair)
  have b: "b > 0" using q by (rule quotient_of_denom_pos)
  have x: "\<bar>x\<bar> = of_int a / of_int b" using q by (rule quotient_of_div)
  with assms b have a: "a > 0" by (metis abs_ge_zero le_less_trans less_eq_rat_def not_less of_int_0_less_iff of_int_le_0_iff zero_le_divide_iff zero_less_abs_iff zero_less_divide_iff)
  define la lb where "la = bitlen a" and "lb = bitlen b"
  have la: "1 \<le> la" "2 ^ nat (la - 1) \<le> a" using bitlen_bounds [OF a] a bitlen_eq_zero_iff [of a] bitlen_nonneg [of a]
    by (simp_all add: la_def)
  have lb: "b < 2 ^ nat lb" "0 \<le> lb" using bitlen_bounds [OF b] bitlen_nonneg [of b] by (auto simp: lb_def)
  have "2 powi (la - 1) \<le> (of_int a :: rat)"
    using la by (metis nat_0_le le_diff_eq add_0 of_int_le_iff of_int_numeral of_int_power power_int_of_nat)
  moreover have "(of_int b :: rat) \<le> 2 powi lb"
    using lb by (metis less_imp_le nat_0_le of_int_le_iff of_int_numeral of_int_power power_int_of_nat)
  moreover have "2 powi (la - lb - 1) * 2 powi lb = (2 :: rat) powi (la - 1)"
    by (simp add: power_int_add [symmetric])
  ultimately have "2 powi (la - lb - 1) * of_int b \<le> (of_int a :: rat)"
    by (metis mult_left_mono order_trans zero_le_numeral zero_le_power_int)
  then have "2 powi (la - lb - 1) \<le> \<bar>x\<bar>" using b by (simp add: x pos_le_divide_eq)
  then show ?thesis by (simp add: exponent_def q la_def lb_def Let_def)
qed

lemma fl_error: "\<bar>fl x - x\<bar> \<le> \<bar>x\<bar> / 2 ^ 53"
proof (cases "x = 0")
  case False
  define u :: rat where "u = 2 powi (exponent x - 52)"
  have u: "u > 0" by (simp add: u_def)
  have "\<bar>fl x - x\<bar> = \<bar>of_int (round_even (x / u)) - x / u\<bar> * u"
    using False u by (simp add: fl_def Let_def u_def [symmetric] abs_mult_pos left_diff_distrib)
  also have "\<dots> \<le> u / 2" using round_even_error [of "x / u"] u by simp
  also have "u = 2 powi (exponent x) / 2 ^ 52" by (simp add: u_def power_int_diff)
  finally show ?thesis using exponent_le [OF False] by (simp add: field_simps)
qed simp

section \<open>Agorot and shekels\<close>

text \<open>\<open>cents / 100\<close> and \<open>Math.round(shekels * 100)\<close>.\<close>

definition shekels :: "int \<Rightarrow> rat" where
  "shekels cents = js_div (of_int cents) 100"

definition agorot :: "rat \<Rightarrow> int" where
  "agorot x = js_round (js_mul x 100)"

lemma js_round_near: "\<bar>y - of_int n\<bar> < 1/2 \<Longrightarrow> js_round y = n"
  unfolding js_round_def by linarith

text \<open>
  A price with at most two decimals survives: the double nearest to it, times one hundred, rounds
  to its agorot. The bound is ten trillion shekels.
\<close>

lemma agorot_fl:
  assumes "\<bar>c\<bar> \<le> 10 ^ 15" shows "agorot (fl (of_int c / 100)) = c"
proof -
  let ?x = "of_int c / 100 :: rat"
  have c: "\<bar>of_int c :: rat\<bar> \<le> 10 ^ 15" using assms by (metis of_int_abs of_int_le_iff of_int_numeral of_int_power)
  have e1: "\<bar>fl ?x - ?x\<bar> \<le> 10 ^ 13 / 2 ^ 53"
    using fl_error [of ?x] c by (simp add: field_simps)
  have e2: "\<bar>fl ?x * 100 - of_int c\<bar> \<le> 1/8"
  proof -
    have "fl ?x * 100 - of_int c = (fl ?x - ?x) * 100" by (simp add: left_diff_distrib)
    then have "\<bar>fl ?x * 100 - of_int c\<bar> = \<bar>fl ?x - ?x\<bar> * 100" by (simp only: abs_mult abs_numeral)
    also have "\<dots> \<le> 10 ^ 13 / 2 ^ 53 * 100" using e1 by (rule mult_right_mono) simp
    also have "\<dots> \<le> 1/8" by simp
    finally show ?thesis .
  qed
  have "\<bar>fl ?x * 100\<bar> \<le> \<bar>fl ?x * 100 - of_int c\<bar> + \<bar>of_int c\<bar>" by linarith
  with e2 c have big: "\<bar>fl ?x * 100\<bar> \<le> 10 ^ 15 + 1" by linarith
  have e3: "\<bar>fl (fl ?x * 100) - fl ?x * 100\<bar> \<le> 1/8"
  proof -
    have "\<bar>fl (fl ?x * 100) - fl ?x * 100\<bar> \<le> \<bar>fl ?x * 100\<bar> / 2 ^ 53" by (rule fl_error)
    also have "\<dots> \<le> (10 ^ 15 + 1) / 2 ^ 53" using big by (rule divide_right_mono) simp
    also have "\<dots> \<le> 1/8" by simp
    finally show ?thesis .
  qed
  have "\<bar>fl (fl ?x * 100) - of_int c\<bar> \<le> \<bar>fl (fl ?x * 100) - fl ?x * 100\<bar> + \<bar>fl ?x * 100 - of_int c\<bar>" by linarith
  with e2 e3 have "\<bar>fl (fl ?x * 100) - of_int c\<bar> < 1/2" by linarith
  then show ?thesis by (simp add: agorot_def js_mul_def js_round_near)
qed

lemma agorot_shekels: "\<bar>c\<bar> \<le> 10 ^ 15 \<Longrightarrow> agorot (shekels c) = c"
  by (simp add: shekels_def js_div_def agorot_fl)

section \<open>Numeric inputs\<close>

text \<open>
  The text of an \<open><input type="number">\<close>: empty (also for text that is no number), a decimal the
  user typed, or a number the program printed with \<open>String\<close>, which \<open>Number\<close> reads back exactly.
\<close>

datatype num_text = EmptyText | Typed rat | Printed rat

definition js_Number :: "num_text \<Rightarrow> rat" where
  "js_Number t = (case t of EmptyText \<Rightarrow> 0 | Typed q \<Rightarrow> fl q | Printed d \<Rightarrow> d)"

definition num_truthy :: "num_text \<Rightarrow> bool" where
  "num_truthy t \<longleftrightarrow> t \<noteq> EmptyText"

text \<open>The agorot a text stands for.\<close>

definition text_agorot :: "num_text \<Rightarrow> int" where
  "text_agorot t = agorot (js_Number t)"

lemma text_agorot_typed: "\<bar>c\<bar> \<le> 10 ^ 15 \<Longrightarrow> text_agorot (Typed (of_int c / 100)) = c"
  by (simp add: text_agorot_def js_Number_def agorot_fl)

lemma text_agorot_printed: "\<bar>c\<bar> \<le> 10 ^ 15 \<Longrightarrow> text_agorot (Printed (shekels c)) = c"
  by (simp add: text_agorot_def js_Number_def agorot_shekels)

lemma text_agorot_empty [simp]: "text_agorot EmptyText = 0"
  by (simp add: text_agorot_def js_Number_def agorot_def js_mul_def js_round_def floor_divide_of_int_eq [of 1 2, simplified])

end
