(* ===== verification/Payments.thy ===== *)
theory Payments
  imports QueryHooks ServerErrors JsNumber Permissions
begin

text \<open>
  The revenue ledger: \<^verbatim>\<open>features/payments/\<close> (the record and refund dialogs, the payments page and
  the section of the member page) against \<open>record\<close> and \<open>refund\<close> of
  \<^verbatim>\<open>backend/app/services/payment_service.py\<close>.

  A date input is \<^const>\<open>None\<close> when empty and otherwise a day number, the number of midnights (UTC)
  since the epoch: that is what the dialogs compare.
\<close>

section \<open>The server's ledger\<close>

definition DEFAULT_BACKDATE_LIMIT_DAYS :: int where
  "DEFAULT_BACKDATE_LIMIT_DAYS = 30"

definition is_refund :: "payment \<Rightarrow> bool" where
  "is_refund p \<longleftrightarrow> pay_refund_of_payment_id p \<noteq> None"

definition refunds_for :: "payment list \<Rightarrow> string \<Rightarrow> payment list" where
  "refunds_for ledger i = filter (\<lambda>p. pay_refund_of_payment_id p = Some i) ledger"

definition refunded :: "payment list \<Rightarrow> string \<Rightarrow> int" where
  "refunded ledger i = sum_list (map (\<lambda>p. - pay_amount_cents p) (refunds_for ledger i))"

text \<open>The checks of \<open>record\<close> that depend on what the dialog sends.\<close>

definition server_record_check :: "int \<Rightarrow> int \<Rightarrow> int \<Rightarrow> bool \<Rightarrow> app_error option" where
  "server_record_check today amount_cents paid_at backdate =
     (if amount_cents \<le> 0 then Some (PaymentAmountInvalidError ''amount_cents must be positive'')
      else if paid_at > today then Some (PaymentAmountInvalidError ''paid_at cannot be in the future'')
      else if today - paid_at > DEFAULT_BACKDATE_LIMIT_DAYS \<and> \<not> backdate
        then Some (PaymentAmountInvalidError ''set backdate=true to allow'')
      else None)"

text \<open>\<open>refund\<close> by an owner of the same tenant; the new row has a new id.\<close>

definition server_refund :: "string \<Rightarrow> string \<Rightarrow> payment list \<Rightarrow> string \<Rightarrow> int option \<Rightarrow> app_error + payment list" where
  "server_refund new_id today ledger i amount =
     (case List.find (\<lambda>p. pay_id p = i) ledger of
        None \<Rightarrow> Inl (PaymentNotFoundError i)
      | Some original \<Rightarrow>
         if is_refund original then Inl (PaymentAmountInvalidError ''cannot refund a refund row'')
         else if pay_amount_cents original \<le> 0 then Inl (PaymentAmountInvalidError ''cannot refund a non-positive payment row'')
         else
           let remaining = pay_amount_cents original - refunded ledger i;
               requested = nullish amount remaining
           in if remaining \<le> 0 then Inl (PaymentAlreadyFullyRefundedError i)
              else if requested \<le> 0 then Inl (PaymentAmountInvalidError ''refund amount_cents must be positive'')
              else if requested > remaining then Inl (PaymentRefundExceedsOriginalError i requested remaining)
              else Inr (ledger @ [original\<lparr>pay_id := new_id, pay_amount_cents := - requested,
                     pay_paid_at := today, pay_refund_of_payment_id := Some (pay_id original)\<rparr>]))"

text \<open>What the ledger keeps: no payment is refunded beyond its amount, and refunds are negative.\<close>

definition ledger_ok :: "payment list \<Rightarrow> bool" where
  "ledger_ok ledger \<longleftrightarrow> distinct (map pay_id ledger) \<and>
     (\<forall>p \<in> set ledger. (is_refund p \<longrightarrow> pay_amount_cents p < 0) \<and>
        (\<not> is_refund p \<longrightarrow> 0 < pay_amount_cents p \<and> refunded ledger (pay_id p) \<le> pay_amount_cents p))"

lemma refunded_append [simp]: "refunded (xs @ ys) i = refunded xs i + refunded ys i"
  by (simp add: refunded_def refunds_for_def)

lemma refunded_Nil [simp]: "refunded [] i = 0"
  by (simp add: refunded_def refunds_for_def)

lemma refunded_single [simp]:
  "refunded [p] i = (if pay_refund_of_payment_id p = Some i then - pay_amount_cents p else 0)"
  by (simp add: refunded_def refunds_for_def)

lemma server_refund_ok:
  assumes "server_refund new_id today ledger i amount = Inr ledger'"
  obtains original requested where "original \<in> set ledger" "pay_id original = i" "\<not> is_refund original"
    "0 < requested" "refunded ledger i + requested \<le> pay_amount_cents original"
    "ledger' = ledger @ [original\<lparr>pay_id := new_id, pay_amount_cents := - requested,
        pay_paid_at := today, pay_refund_of_payment_id := Some i\<rparr>]"
proof -
  from assms obtain p where p: "List.find (\<lambda>p. pay_id p = i) ledger = Some p"
    by (auto simp: server_refund_def split: option.splits)
  from find_Some_mem [OF p] have mem: "p \<in> set ledger" "pay_id p = i" by auto
  show thesis
    by (rule that [of p "nullish amount (pay_amount_cents p - refunded ledger i)"])
       (use assms p mem in \<open>auto simp: server_refund_def Let_def split: if_splits\<close>)
qed

text \<open>Every accepted refund keeps the ledger's invariant.\<close>

lemma ledger_ok_refund:
  assumes ok: "ledger_ok ledger" and new_id: "new_id \<notin> pay_id ` set ledger" "refunds_for ledger new_id = []"
    and refund: "server_refund new_id today ledger i amount = Inr ledger'"
  shows "ledger_ok ledger'"
proof -
  from refund obtain original requested where o: "original \<in> set ledger" "pay_id original = i" "\<not> is_refund original"
    "0 < requested" "refunded ledger i + requested \<le> pay_amount_cents original"
    and l: "ledger' = ledger @ [original\<lparr>pay_id := new_id, pay_amount_cents := - requested,
        pay_paid_at := today, pay_refund_of_payment_id := Some i\<rparr>]"
    by (rule server_refund_ok)
  have "refunded ledger' (pay_id p) \<le> pay_amount_cents p" if "p \<in> set ledger" "\<not> is_refund p" for p
  proof (cases "pay_id p = i")
    case True
    with ok o that have "p = original" by (auto simp: ledger_ok_def distinct_map inj_on_def)
    with o l show ?thesis by simp
  next
    case False
    with ok that l show ?thesis by (auto simp: ledger_ok_def)
  qed
  with ok o l new_id show ?thesis by (auto simp: ledger_ok_def is_refund_def)
qed

section \<open>The record dialog\<close>

record active_sub =
  as_subscriptionId :: "string option"
  as_defaultAmountCents :: int
  as_defaultMethod :: payment_method

record record_dialog =
  rd_amount :: num_text
  rd_method :: payment_method
  rd_paidAt :: "int option"
  rd_showBackdate :: bool
  rd_linkSub :: bool
  rd_notes :: string
  rd_pending :: bool

definition record_dialog_init :: "int \<Rightarrow> active_sub option \<Rightarrow> record_dialog" where
  "record_dialog_init today activeSub = \<lparr>
     rd_amount = (case activeSub of Some a \<Rightarrow> Printed (shekels (as_defaultAmountCents a)) | None \<Rightarrow> EmptyText),
     rd_method = nullish (map_option as_defaultMethod activeSub) PM_cash,
     rd_paidAt = Some today, rd_showBackdate = False, rd_linkSub = (activeSub \<noteq> None), rd_notes = [],
     rd_pending = False\<rparr>"

text \<open>
  The effect on \<open>activeSub\<close>. The parent builds the object while rendering, so each of its renders
  is a change of the dependency and runs the effect.
\<close>

definition active_sub_effect :: "active_sub option \<Rightarrow> record_dialog \<Rightarrow> record_dialog" where
  "active_sub_effect activeSub d = (case activeSub of
     None \<Rightarrow> d
   | Some a \<Rightarrow> d\<lparr>rd_amount := Printed (shekels (as_defaultAmountCents a)),
                 rd_method := as_defaultMethod a, rd_linkSub := True\<rparr>)"

definition isBackdated :: "int \<Rightarrow> record_dialog \<Rightarrow> bool" where
  "isBackdated today d = (case rd_paidAt d of None \<Rightarrow> False | Some paid \<Rightarrow> today - paid > 30)"

record record_payload =
  rp_member_id :: string
  rp_amount_cents :: int
  rp_payment_method :: payment_method
  rp_paid_at :: "int option"
  rp_subscription_id :: "string option"
  rp_notes :: "string option"
  rp_backdate :: bool

definition record_submit_disabled :: "record_dialog \<Rightarrow> bool" where
  "record_submit_disabled d \<longleftrightarrow> rd_pending d \<or> \<not> num_truthy (rd_amount d) \<or> js_Number (rd_amount d) \<le> 0"

definition record_handleSubmit :: "string \<Rightarrow> int \<Rightarrow> active_sub option \<Rightarrow> record_dialog \<Rightarrow> record_payload option" where
  "record_handleSubmit memberId today activeSub d =
     (let cents = text_agorot (rd_amount d) in
      if cents \<le> 0 then None
      else Some \<lparr>rp_member_id = memberId, rp_amount_cents = cents, rp_payment_method = rd_method d,
        rp_paid_at = rd_paidAt d,
        rp_subscription_id = (case activeSub of
            Some a \<Rightarrow> if rd_linkSub d then as_subscriptionId a else None | None \<Rightarrow> None),
        rp_notes = or_null (trim (rd_notes d)), rp_backdate = isBackdated today d\<rparr>)"

datatype record_event = TypeAmount num_text | PickMethod payment_method | PickDate "int option"
  | ToggleBackdate bool | ToggleLink bool | TypeNotes string | ParentRender

fun record_step :: "active_sub option \<Rightarrow> record_event \<Rightarrow> record_dialog \<Rightarrow> record_dialog" where
  "record_step a (TypeAmount t) d = d\<lparr>rd_amount := t\<rparr>"
| "record_step a (PickMethod m) d = d\<lparr>rd_method := m\<rparr>"
| "record_step a (PickDate x) d = d\<lparr>rd_paidAt := x\<rparr>"
| "record_step a (ToggleBackdate b) d = d\<lparr>rd_showBackdate := b\<rparr>"
| "record_step a (ToggleLink b) d = (if a = None then d else d\<lparr>rd_linkSub := b\<rparr>)"
| "record_step a (TypeNotes s) d = d\<lparr>rd_notes := s\<rparr>"
| "record_step a ParentRender d = active_sub_effect a d"

text \<open>The earliest day the date input offers.\<close>

definition date_min :: "int \<Rightarrow> record_dialog \<Rightarrow> int option" where
  [view_defs]: "date_min today d = (if rd_showBackdate d then None else Some (today - 30))"

text \<open>What the dialog submits is what was typed, and the server takes it: an amount of two
  decimals is sent as exactly its agorot, and for a date that is not in the future the server's
  amount, date and backdate checks all pass, whatever the date, provided both read the same date.\<close>

lemma record_payload_accepted:
  assumes "0 < c" "c \<le> 10 ^ 15" "rd_amount d = Typed (of_int c / 100)" "rd_paidAt d = Some day" "day \<le> today"
  shows "\<exists>p. record_handleSubmit memberId today activeSub d = Some p \<and> rp_amount_cents p = c
     \<and> server_record_check today (rp_amount_cents p) day (rp_backdate p) = None"
proof -
  have "text_agorot (rd_amount d) = c" using assms by (simp add: text_agorot_typed)
  with assms show ?thesis
    by (simp add: record_handleSubmit_def Let_def server_record_check_def isBackdated_def
        DEFAULT_BACKDATE_LIMIT_DAYS_def)
qed

lemma record_payload_accepted_witness:
  "\<exists>p. record_handleSubmit ''m1'' 20000 None
         ((record_dialog_init 20000 None)\<lparr>rd_amount := Typed (of_int 24999 / 100), rd_paidAt := Some 19900\<rparr>) = Some p
     \<and> rp_amount_cents p = 24999 \<and> server_record_check 20000 (rp_amount_cents p) 19900 (rp_backdate p) = None"
  by (rule record_payload_accepted) simp_all

text \<open>A price of the active subscription comes back unchanged from the amount field, but a render
  of the parent overwrites what the user typed: after it the dialog submits the subscription's price
  and method whatever was in the fields before.\<close>

lemma parent_render_overwrites:
  assumes "0 < as_defaultAmountCents a" "as_defaultAmountCents a \<le> 10 ^ 15"
  shows "\<exists>p. record_handleSubmit memberId today (Some a) (record_step (Some a) ParentRender d) = Some p
     \<and> rp_amount_cents p = as_defaultAmountCents a \<and> rp_payment_method p = as_defaultMethod a
     \<and> rp_subscription_id p = as_subscriptionId a"
  using assms by (simp add: record_handleSubmit_def active_sub_effect_def Let_def text_agorot_printed)

lemma parent_render_overwrites_witness:
  "\<exists>p. record_handleSubmit ''m1'' 20000 (Some \<lparr>as_subscriptionId = Some ''s1'', as_defaultAmountCents = 25000, as_defaultMethod = PM_cash\<rparr>)
       (record_step (Some \<lparr>as_subscriptionId = Some ''s1'', as_defaultAmountCents = 25000, as_defaultMethod = PM_cash\<rparr>) ParentRender
         (record_step (Some \<lparr>as_subscriptionId = Some ''s1'', as_defaultAmountCents = 25000, as_defaultMethod = PM_cash\<rparr>) (TypeAmount (Typed 100))
           (record_dialog_init 20000 (Some \<lparr>as_subscriptionId = Some ''s1'', as_defaultAmountCents = 25000, as_defaultMethod = PM_cash\<rparr>)))) = Some p
     \<and> rp_amount_cents p = 25000"
  using parent_render_overwrites [of "\<lparr>as_subscriptionId = Some ''s1'', as_defaultAmountCents = 25000, as_defaultMethod = PM_cash\<rparr>"]
  by fastforce

section \<open>The refund dialog\<close>

text \<open>\<open>data\<close> is the list of the member's payments, \<open>None\<close> until the query has answered.\<close>

definition refund_filters :: "payment \<Rightarrow> payment_filters" where
  "refund_filters p = \<lparr>pf_memberId = Some (pay_member_id p), pf_subscriptionId = None, pf_paidFrom = None,
     pf_paidTo = None, pf_method = None, pf_includeRefunds = None, pf_limit = Some 500, pf_offset = None\<rparr>"

definition alreadyRefunded :: "payment list option \<Rightarrow> payment \<Rightarrow> int" where
  "alreadyRefunded data p =
     foldl (\<lambda>sum r. sum + - pay_amount_cents r) 0
       (filter (\<lambda>r. pay_refund_of_payment_id r = Some (pay_id p)) (nullish data []))"

definition remaining :: "payment list option \<Rightarrow> payment \<Rightarrow> int" where
  "remaining data p = pay_amount_cents p - alreadyRefunded data p"

record refund_dialog =
  rf_amount :: num_text
  rf_reason :: string
  rf_pending :: bool

definition refund_dialog_init :: "payment list option \<Rightarrow> payment \<Rightarrow> refund_dialog" where
  "refund_dialog_init data p =
     \<lparr>rf_amount = Printed (shekels (remaining data p)), rf_reason = [], rf_pending = False\<rparr>"

definition refund_handleSubmit :: "payment list option \<Rightarrow> payment \<Rightarrow> refund_dialog \<Rightarrow> (int \<times> string option) option" where
  "refund_handleSubmit data p d =
     (let cents = text_agorot (rf_amount d) in
      if cents \<le> 0 \<or> cents > remaining data p then None
      else Some (cents, or_null (trim (rf_reason d))))"

definition overflow :: "payment list option \<Rightarrow> payment \<Rightarrow> refund_dialog \<Rightarrow> bool" where
  "overflow data p d \<longleftrightarrow> text_agorot (rf_amount d) > remaining data p"

definition refund_submit_disabled :: "payment list option \<Rightarrow> payment \<Rightarrow> refund_dialog \<Rightarrow> bool" where
  "refund_submit_disabled data p d \<longleftrightarrow>
     rf_pending d \<or> overflow data p d \<or> \<not> num_truthy (rf_amount d) \<or> js_Number (rf_amount d) \<le> 0"

lemma foldl_add_sum: "foldl (\<lambda>sum r. sum - f r) (a::int) xs = a + sum_list (map (\<lambda>r. - f r) xs)"
  by (induction xs arbitrary: a) simp_all

lemma alreadyRefunded_eq: "alreadyRefunded (Some ps) p = refunded ps (pay_id p)"
  by (simp add: alreadyRefunded_def foldl_add_sum refunded_def refunds_for_def nullish_def)

lemma alreadyRefunded_loading [simp]: "alreadyRefunded None p = 0"
  by (simp add: alreadyRefunded_def nullish_def)


definition sample_payment :: "string \<Rightarrow> int \<Rightarrow> string option \<Rightarrow> payment" where
  "sample_payment i cents original = \<lparr>pay_amount_cents = cents, pay_created_at = [], pay_currency = ''ILS'',
     pay_external_ref = None, pay_id = i, pay_member_id = ''m1'', pay_notes = None, pay_paid_at = ''2026-01-05'',
     pay_payment_method = PM_cash, pay_recorded_by = None, pay_refund_of_payment_id = original,
     pay_subscription_id = None, pay_tenant_id = ''t1''\<rparr>"

lemma sample_payment_simps [simp]:
  "pay_amount_cents (sample_payment i c r) = c" "pay_id (sample_payment i c r) = i"
  "pay_refund_of_payment_id (sample_payment i c r) = r" "is_refund (sample_payment i c r) \<longleftrightarrow> r \<noteq> None"
  by (simp_all add: sample_payment_def is_refund_def)

definition sample_ledger :: "payment list" where
  "sample_ledger = [sample_payment ''p1'' 10000 None, sample_payment ''r1'' (- 4000) (Some ''p1'')]"

lemma sample_ledger_ok: "ledger_ok sample_ledger"
  by (simp add: ledger_ok_def sample_ledger_def refunded_def refunds_for_def)


text \<open>The amount the dialog starts with is computed from the list as it is when the dialog opens:
  while the list is still loading that is the full amount, and once the earlier refunds have arrived
  the field is above what remains and nothing can be submitted until the user changes it.\<close>

lemma refund_default_ignores_loading_refunds:
  assumes "0 < pay_amount_cents p" "pay_amount_cents p \<le> 10 ^ 15" "0 < refunded data (pay_id p)"
  shows "text_agorot (rf_amount (refund_dialog_init None p)) = pay_amount_cents p
    \<and> refund_submit_disabled (Some data) p (refund_dialog_init None p)
    \<and> refund_handleSubmit (Some data) p (refund_dialog_init None p) = None"
proof -
  have "text_agorot (rf_amount (refund_dialog_init None p)) = pay_amount_cents p"
    using assms by (simp add: refund_dialog_init_def remaining_def text_agorot_printed)
  with assms show ?thesis
    by (simp add: refund_submit_disabled_def overflow_def refund_handleSubmit_def Let_def remaining_def alreadyRefunded_eq)
qed

lemma refund_default_ignores_loading_refunds_witness:
  "refund_handleSubmit (Some sample_ledger) (sample_payment ''p1'' 10000 None)
     (refund_dialog_init None (sample_payment ''p1'' 10000 None)) = None"
proof -
  have "0 < refunded sample_ledger ''p1''" by (simp add: sample_ledger_def refunded_def refunds_for_def)
  then show ?thesis
    using refund_default_ignores_loading_refunds [of "sample_payment ''p1'' 10000 None" sample_ledger] by simp
qed

section \<open>The payments page\<close>

record payments_page =
  pp_methodFilter :: "payment_method option"
  pp_includeRefunds :: bool
  pp_pendingRefund :: "payment option"

definition payments_page_init :: payments_page where
  "payments_page_init = \<lparr>pp_methodFilter = None, pp_includeRefunds = True, pp_pendingRefund = None\<rparr>"

definition canRefund :: "user option \<Rightarrow> bool" where
  "canRefund usr = (case usr of None \<Rightarrow> False | Some u \<Rightarrow> u_role u = R_owner \<or> u_role u = R_super_admin)"

definition page_filters :: "payments_page \<Rightarrow> payment_filters" where
  "page_filters s = \<lparr>pf_memberId = None, pf_subscriptionId = None, pf_paidFrom = None, pf_paidTo = None,
     pf_method = pp_methodFilter s, pf_includeRefunds = Some (pp_includeRefunds s), pf_limit = Some 200, pf_offset = None\<rparr>"

definition add_refund :: "payment \<Rightarrow> (string \<rightharpoonup> int) \<Rightarrow> (string \<rightharpoonup> int)" where
  "add_refund p m =
     (if truthy_str (pay_refund_of_payment_id p)
      then let k = the (pay_refund_of_payment_id p); prev = nullish (m k) 0
           in m(k \<mapsto> prev + - pay_amount_cents p)
      else m)"

definition refundsByOriginal :: "payment list option \<Rightarrow> string \<rightharpoonup> int" where
  "refundsByOriginal payments = fold add_refund (nullish payments []) Map.empty"

definition isFullyRefunded :: "payment list option \<Rightarrow> payment \<Rightarrow> bool" where
  "isFullyRefunded payments p =
     (if truthy_str (pay_refund_of_payment_id p) then False
      else if pay_amount_cents p \<le> 0 then False
      else nullish (refundsByOriginal payments (pay_id p)) 0 \<ge> pay_amount_cents p)"

definition refund_button :: "user option \<Rightarrow> payment list \<Rightarrow> payment \<Rightarrow> bool" where
  [view_defs]: "refund_button usr payments p \<longleftrightarrow>
     canRefund usr \<and> \<not> pay_refund_of_payment_id p \<noteq> None \<and> \<not> isFullyRefunded (Some payments) p"

lemma fold_add_refund:
  "k \<noteq> [] \<Longrightarrow> nullish (fold add_refund ps m k) 0 = nullish (m k) 0 + refunded ps k"
proof (induction ps arbitrary: m)
  case (Cons p ps)
  have split: "refunded (p # ps) k = refunded [p] k + refunded ps k"
    using refunded_append [of "[p]" ps k] by simp
  have "nullish (add_refund p m k) 0 = nullish (m k) 0 + refunded [p] k"
    using Cons.prems by (auto simp: add_refund_def truthy_str_def nullish_def Let_def split: option.splits)
  with Cons split show ?case by simp
qed simp

lemma refundsByOriginal_eq: "k \<noteq> [] \<Longrightarrow> nullish (refundsByOriginal (Some ps) k) 0 = refunded ps k"
  using fold_add_refund [of k ps Map.empty] by (simp add: refundsByOriginal_def nullish_def)

text \<open>With the whole ledger on the page, the refund button of a row is there exactly when an owner
  asks for it and the server would take a full refund of the row; with the refund rows filtered out
  it is there for every original payment, also for one that has been refunded in full.\<close>

lemma refund_button_matches_server:
  assumes "ledger_ok ledger" "p \<in> set ledger" "pay_id p \<noteq> []"
  shows "(refund_button usr ledger p \<longleftrightarrow>
            canRefund usr \<and> (\<exists>ledger'. server_refund new_id today ledger (pay_id p) None = Inr ledger'))
    \<and> (refund_button usr (filter (\<lambda>q. \<not> is_refund q) ledger) p \<longleftrightarrow> canRefund usr \<and> \<not> is_refund p)"
proof -
  have dist: "distinct (map pay_id ledger)" using assms(1) by (simp add: ledger_ok_def)
  have found: "List.find (\<lambda>q. pay_id q = pay_id p) ledger = Some p"
    using assms(2) dist by (induction ledger) (auto simp: rev_image_eqI)
  have full: "isFullyRefunded (Some ps) p \<longleftrightarrow> refunded ps (pay_id p) \<ge> pay_amount_cents p"
    if "\<not> is_refund p" for ps
    using that assms by (auto simp: isFullyRefunded_def refundsByOriginal_eq truthy_str_def is_refund_def ledger_ok_def)
  have "refunds_for (filter (\<lambda>q. \<not> is_refund q) ledger) (pay_id p) = []"
    by (auto simp: refunds_for_def is_refund_def filter_empty_conv)
  then have none: "refunded (filter (\<lambda>q. \<not> is_refund q) ledger) (pay_id p) = 0"
    by (simp add: refunded_def)
  show ?thesis
  proof (cases "is_refund p")
    case True
    then show ?thesis using found by (simp add: refund_button_def is_refund_def server_refund_def)
  next
    case False
    then have "0 < pay_amount_cents p" using assms by (auto simp: ledger_ok_def)
    then show ?thesis using False found full none
      by (auto simp: refund_button_def is_refund_def server_refund_def Let_def nullish_def)
  qed
qed

lemma refund_button_matches_server_witness:
  "refund_button (Some (sample_user R_owner)) sample_ledger (sample_payment ''p1'' 10000 None)
   \<and> \<not> refund_button (Some (sample_user R_sales)) sample_ledger (sample_payment ''p1'' 10000 None)"
proof -
  have mem: "sample_payment ''p1'' 10000 None \<in> set sample_ledger" by (simp add: sample_ledger_def)
  have acc: "\<exists>ledger'. server_refund ''r2'' ''2026-01-06'' sample_ledger ''p1'' None = Inr ledger'"
    by (simp add: server_refund_def sample_ledger_def refunded_def refunds_for_def Let_def nullish_def)
  show ?thesis
    using refund_button_matches_server [OF sample_ledger_ok mem, where new_id = "''r2''" and today = "''2026-01-06''"] acc
    by (simp add: canRefund_def)
qed

section \<open>The section of the member page\<close>

definition canWrite :: "user option \<Rightarrow> bool" where
  "canWrite usr = (case usr of None \<Rightarrow> False
     | Some u \<Rightarrow> u_role u = R_owner \<or> u_role u = R_sales \<or> u_role u = R_staff \<or> u_role u = R_super_admin)"

record totals =
  gross :: int
  refunds :: int

definition add_total :: "totals \<Rightarrow> payment \<Rightarrow> totals" where
  "add_total acc p =
     (if pay_amount_cents p > 0 then acc\<lparr>gross := gross acc + pay_amount_cents p\<rparr>
      else acc\<lparr>refunds := refunds acc + - pay_amount_cents p\<rparr>)"

definition section_totals :: "payment list option \<Rightarrow> totals" where
  "section_totals payments = foldl add_total \<lparr>gross = 0, refunds = 0\<rparr> (nullish payments [])"

definition section_net :: "payment list option \<Rightarrow> int" where
  "section_net payments = gross (section_totals payments) - refunds (section_totals payments)"

definition section_currency :: "payment list option \<Rightarrow> subscription option \<Rightarrow> string" where
  "section_currency payments liveSub =
     nullish (case payments of Some (p # _) \<Rightarrow> Some (pay_currency p) | _ \<Rightarrow> map_option s_currency liveSub) ''ILS''"

definition section_active_sub :: "subscription option \<Rightarrow> active_sub option" where
  "section_active_sub liveSub = map_option (\<lambda>s. \<lparr>as_subscriptionId = Some (s_id s),
     as_defaultAmountCents = s_price_cents s, as_defaultMethod = s_payment_method s\<rparr>) liveSub"

lemma totals_fold:
  "gross (foldl add_total t ps) - refunds (foldl add_total t ps)
     = gross t - refunds t + sum_list (map pay_amount_cents ps)
   \<and> gross t \<le> gross (foldl add_total t ps) \<and> refunds t \<le> refunds (foldl add_total t ps)"
proof (induction ps arbitrary: t)
  case (Cons p ps)
  have "gross (add_total t p) - refunds (add_total t p) = gross t - refunds t + pay_amount_cents p"
    "gross t \<le> gross (add_total t p)" "refunds t \<le> refunds (add_total t p)"
    by (simp_all add: add_total_def)
  with Cons.IH [of "add_total t p"] show ?case by simp
qed simp

lemma section_net_is_sum: "section_net (Some ps) = sum_list (map pay_amount_cents ps)"
  using totals_fold [of "\<lparr>gross = 0, refunds = 0\<rparr>" ps]
  by (simp add: section_net_def section_totals_def nullish_def)

text \<open>On a sound ledger what a member has paid in total is never below what was refunded.\<close>

lemma refunded_le_amount:
  "ledger_ok ledger \<Longrightarrow> p \<in> set ledger \<Longrightarrow> \<not> is_refund p \<Longrightarrow> 0 \<le> pay_amount_cents p - refunded ledger (pay_id p)"
  by (auto simp: ledger_ok_def)

end
