(* ===== verification/Leads.thy ===== *)
theory Leads
  imports QueryHooks ServerErrors ErrorContract JsNumber Permissions UiMachine "HOL-Library.Multiset"
begin

text \<open>
  The sales pipeline: \<^verbatim>\<open>features/leads/\<close> (board, list page, detail page, dialogs, forms, timeline)
  against the transition matrix of \<^verbatim>\<open>backend/app/domain/entities/lead.py\<close> and \<open>set_status\<close> and
  \<open>convert\<close> of \<^verbatim>\<open>backend/app/services/lead_service.py\<close>.
\<close>

section \<open>The server's state machine\<close>

fun ALLOWED_TRANSITIONS :: "lead_status \<Rightarrow> lead_status list" where
  "ALLOWED_TRANSITIONS LD_new = [LD_contacted, LD_trial, LD_lost]"
| "ALLOWED_TRANSITIONS LD_contacted = [LD_trial, LD_lost]"
| "ALLOWED_TRANSITIONS LD_trial = [LD_contacted, LD_lost]"
| "ALLOWED_TRANSITIONS LD_converted = []"
| "ALLOWED_TRANSITIONS LD_lost = [LD_contacted]"

definition can_transition_to :: "lead_status \<Rightarrow> lead_status \<Rightarrow> bool" where
  "can_transition_to status new_status =
     (if new_status = LD_converted then False
      else if new_status = status then False
      else new_status \<in> set (ALLOWED_TRANSITIONS status))"

definition server_set_status :: "lead \<Rightarrow> lead_status \<Rightarrow> string option \<Rightarrow> app_error + lead" where
  "server_set_status l new_status lost_reason =
     (if new_status = LD_converted \<or> \<not> can_transition_to (l_status l) new_status
      then Inl (InvalidLeadStatusTransitionError (l_id l) (lead_status_text (l_status l)) (lead_status_text new_status))
      else Inr (l\<lparr>l_status := new_status,
        l_lost_reason := (if new_status = LD_lost then or_null (trim (nullish lost_reason [])) else None)\<rparr>))"

text \<open>
  The checks of \<open>convert\<close> and the lead it leaves: \<open>phones\<close> are those of the gym's members, \<open>plans\<close>
  the plans the server knows, \<open>member_id\<close> the id of the new member.
\<close>

definition server_convert :: "string list \<Rightarrow> membership_plan list \<Rightarrow> string \<Rightarrow> lead \<Rightarrow> string \<Rightarrow> app_error + lead" where
  "server_convert phones plans member_id l plan_id =
     (if l_status l = LD_converted then Inl (LeadAlreadyConvertedError (l_id l))
      else if l_phone l \<in> set phones then Inl (MemberAlreadyExistsError (l_phone l))
      else (case List.find (\<lambda>p. p_id p = plan_id) plans of
          None \<Rightarrow> Inl (MembershipPlanNotFoundError plan_id)
        | Some plan \<Rightarrow>
           if p_tenant_id plan \<noteq> l_tenant_id l then Inl SubscriptionPlanMismatchError
           else if \<not> p_is_active plan then Inl (InvalidSubscriptionStateTransitionError ''inactive'' ''subscribe to'')
           else Inr (l\<lparr>l_status := LD_converted, l_converted_member_id := Some member_id, l_lost_reason := None\<rparr>)))"

text \<open>\<open>set_status\<close> alone never reaches the terminal state nor leaves it, and a reason is only kept on
  lost leads.\<close>

definition lead_ok :: "lead \<Rightarrow> bool" where
  "lead_ok l \<longleftrightarrow> (l_lost_reason l \<noteq> None \<longrightarrow> l_status l = LD_lost)
     \<and> (l_status l = LD_converted \<longleftrightarrow> l_converted_member_id l \<noteq> None)"

lemma lead_ok_set_status: "lead_ok l \<Longrightarrow> server_set_status l s r = Inr l' \<Longrightarrow> lead_ok l'"
  by (cases "l_status l"; cases s)
    (auto simp: server_set_status_def can_transition_to_def lead_ok_def nullish_def split: if_splits)

lemma lead_ok_convert: "server_convert phones plans i l p = Inr l' \<Longrightarrow> lead_ok l'"
  by (auto simp: server_convert_def lead_ok_def split: if_splits option.splits)

section \<open>The request bodies\<close>

definition status_body :: "lead_status \<Rightarrow> string option \<Rightarrow> json" where
  "status_body s r = JObj [(''new_status'', JStr (lead_status_text s)), (''lost_reason'', jopt JStr r)]"

lemma lead_status_text_inject [simp]: "lead_status_text s = lead_status_text t \<longleftrightarrow> s = t"
  by (cases s; cases t) simp_all

lemma status_body_inject [simp]: "status_body s r = status_body s' r' \<longleftrightarrow> s = s' \<and> r = r'"
  by (auto simp: status_body_def jopt_def split: option.splits)

section \<open>The board\<close>

definition COLUMNS :: "lead_status list" where
  "COLUMNS = [LD_new, LD_contacted, LD_trial, LD_converted, LD_lost]"

text \<open>\<open>for (const lead of leads) map[lead.status].push(lead)\<close>.\<close>

definition bucket_push :: "lead \<Rightarrow> (lead_status \<Rightarrow> lead list) \<Rightarrow> lead_status \<Rightarrow> lead list" where
  "bucket_push l m = m(l_status l := m (l_status l) @ [l])"

definition buckets :: "lead list \<Rightarrow> lead_status \<Rightarrow> lead list" where
  "buckets leads = fold bucket_push leads (\<lambda>_. [])"

record board =
  bd_dragLead :: "lead option"
  bd_hoverColumn :: "lead_status option"
  bd_pendingLost :: "lead option"
  bd_setStatus :: mutation_state
  bd_lostCall :: bool

definition board_init :: board where
  "board_init = \<lparr>bd_dragLead = None, bd_hoverColumn = None, bd_pendingLost = None, bd_setStatus = MIdle,
     bd_lostCall = False\<rparr>"

definition dropDisabled :: "bool \<Rightarrow> lead_status \<Rightarrow> bool" where
  [view_defs]: "dropDisabled canMutate col \<longleftrightarrow> \<not> canMutate \<or> col = LD_converted"

definition handleDrop :: "bool \<Rightarrow> lead_status \<Rightarrow> board \<Rightarrow> board \<times> mutation_hook list" where
  "handleDrop canMutate target b =
     (let b = b\<lparr>bd_hoverColumn := None\<rparr> in
      case bd_dragLead b of
        None \<Rightarrow> (b, [])
      | Some l \<Rightarrow>
         if \<not> canMutate then (b, [])
         else if l_status l = target then (b, [])
         else if target = LD_converted then (b, [])
         else if target = LD_lost then (b\<lparr>bd_pendingLost := Some l\<rparr>, [])
         else (b\<lparr>bd_setStatus := MPending, bd_lostCall := False\<rparr>,
               [UseSetLeadStatus (l_id l) (status_body target None)]))"

definition confirmLost :: "string \<Rightarrow> board \<Rightarrow> board \<times> mutation_hook list" where
  "confirmLost reason b = (case bd_pendingLost b of
     None \<Rightarrow> (b, [])
   | Some l \<Rightarrow> (b\<lparr>bd_setStatus := MPending, bd_lostCall := True\<rparr>,
                 [UseSetLeadStatus (l_id l) (status_body LD_lost (or_null reason))]))"

text \<open>
  The board's events. A card can be picked up only when it is draggable; the dialog's confirm button
  hands the trimmed text over and is disabled while the mutation is under way; \<open>bd_lostCall\<close> says
  whether the call under way carries the dialog's \<open>onSettled\<close>.
\<close>

datatype board_event = DragStart lead | DragEnd | DragOver lead_status | DragLeave lead_status
  | DropOn lead_status | ConfirmReason string | CancelReason | StatusSettled "thrown option"

fun board_step :: "bool \<Rightarrow> board_event \<Rightarrow> board \<Rightarrow> board \<times> mutation_hook list" where
  "board_step canMutate (DragStart l) b = (if canMutate then b\<lparr>bd_dragLead := Some l\<rparr> else b, [])"
| "board_step canMutate DragEnd b = (b\<lparr>bd_dragLead := None, bd_hoverColumn := None\<rparr>, [])"
| "board_step canMutate (DragOver col) b =
     (if dropDisabled canMutate col then b else b\<lparr>bd_hoverColumn := Some col\<rparr>, [])"
| "board_step canMutate (DragLeave col) b =
     (if bd_hoverColumn b = Some col then b\<lparr>bd_hoverColumn := None\<rparr> else b, [])"
| "board_step canMutate (DropOn col) b = handleDrop canMutate col b"
| "board_step canMutate (ConfirmReason reason) b =
     (if isPending (bd_setStatus b) then (b, []) else confirmLost (trim reason) b)"
| "board_step canMutate CancelReason b = (b\<lparr>bd_pendingLost := None\<rparr>, [])"
| "board_step canMutate (StatusSettled err) b =
     (if isPending (bd_setStatus b)
      then (b\<lparr>bd_setStatus := settled_state err,
              bd_pendingLost := (if bd_lostCall b then None else bd_pendingLost b)\<rparr>, [])
      else (b, []))"

text \<open>The lost-reason dialog.\<close>

record lost_dialog =
  lg_reason :: string
  lg_showSuggestions :: bool

definition lost_dialog_init :: lost_dialog where
  "lost_dialog_init = \<lparr>lg_reason = [], lg_showSuggestions = False\<rparr>"

definition lost_filters :: lost_reason_filters where
  "lost_filters = \<lparr>lrf_days = Some 90, lrf_limit = Some 10\<rparr>"

definition filtered :: "lost_reason_row list option \<Rightarrow> lost_dialog \<Rightarrow> lost_reason_row list" where
  "filtered suggestions d =
     filter (\<lambda>row. str_includes (toLowerCase (lr_reason row)) (toLowerCase (lg_reason d))) (nullish suggestions [])"

datatype lost_event = TypeReason string | FocusReason | BlurTimeout | PickSuggestion lost_reason_row

fun lost_step :: "lost_event \<Rightarrow> lost_dialog \<Rightarrow> lost_dialog" where
  "lost_step (TypeReason s) d = d\<lparr>lg_reason := s, lg_showSuggestions := True\<rparr>"
| "lost_step FocusReason d = d\<lparr>lg_showSuggestions := True\<rparr>"
| "lost_step BlurTimeout d = d\<lparr>lg_showSuggestions := False\<rparr>"
| "lost_step (PickSuggestion row) d = d\<lparr>lg_reason := lr_reason row, lg_showSuggestions := False\<rparr>"

definition suggestion_list :: "lost_reason_row list option \<Rightarrow> lost_dialog \<Rightarrow> lost_reason_row list" where
  [view_defs]: "suggestion_list suggestions d =
     (if lg_showSuggestions d \<and> filtered suggestions d \<noteq> [] then filtered suggestions d else [])"

lemma str_includes_Nil [simp]: "str_includes s []"
  by (cases s) simp_all

lemma filtered_all: "lg_reason d = [] \<Longrightarrow> filtered suggestions d = nullish suggestions []"
  by (simp add: filtered_def)

text \<open>A picked suggestion is still among the filtered ones.\<close>

lemma str_includes_self: "str_includes s s"
  by (cases s) simp_all

lemma picked_still_listed:
  "row \<in> set (filtered suggestions d) \<Longrightarrow> row \<in> set (filtered suggestions (lost_step (PickSuggestion row) d))"
  by (simp add: filtered_def str_includes_self)

subsection \<open>Every lead is on exactly one column\<close>

lemma fold_bucket: "fold bucket_push leads m s = m s @ filter (\<lambda>l. l_status l = s) leads"
  by (induction leads arbitrary: m) (auto simp: bucket_push_def)

lemma buckets_eq: "buckets leads s = filter (\<lambda>l. l_status l = s) leads"
  by (simp add: buckets_def fold_bucket)

lemma all_columns: "s \<in> set COLUMNS" "distinct COLUMNS"
  by (cases s) (simp_all add: COLUMNS_def)

text \<open>The board shows every lead of the list on exactly one column, the one of its status, and
  keeps the list's order within a column.\<close>

lemma board_partition:
  "mset (concat (map (buckets leads) COLUMNS)) = mset leads
   \<and> subseq (buckets leads s) leads \<and> (\<forall>l. l \<in> set (buckets leads s) \<longleftrightarrow> l \<in> set leads \<and> l_status l = s)"
proof (intro conjI)
  show "mset (concat (map (buckets leads) COLUMNS)) = mset leads"
  proof (induction leads)
    case (Cons l leads)
    then show ?case by (cases "l_status l") (simp_all add: buckets_eq COLUMNS_def)
  qed (simp add: buckets_eq COLUMNS_def)
qed (auto simp: buckets_eq)

subsection \<open>What the board may send\<close>

definition board_request :: "bool \<Rightarrow> lead list \<Rightarrow> board_event list \<Rightarrow> mutation_hook \<Rightarrow> bool" where
  "board_request canMutate leads es r \<longleftrightarrow> canMutate \<and> (\<exists>l \<in> set leads. \<exists>s reason.
     r = UseSetLeadStatus (l_id l) (status_body s reason) \<and> s \<noteq> LD_converted \<and> s \<noteq> l_status l
     \<and> (if s = LD_lost then \<exists>typed. ConfirmReason typed \<in> set es \<and> reason = or_null (trim typed) else reason = None))"

definition board_possible :: "lead list \<Rightarrow> board_event list \<Rightarrow> board_event \<Rightarrow> bool" where
  "board_possible leads es e \<longleftrightarrow> e \<in> set es \<and> (case e of DragStart l \<Rightarrow> l \<in> set leads | _ \<Rightarrow> True)"

definition board_inv :: "bool \<Rightarrow> lead list \<Rightarrow> board \<Rightarrow> bool" where
  "board_inv canMutate leads b \<longleftrightarrow>
     (\<forall>l. bd_dragLead b = Some l \<longrightarrow> canMutate \<and> l \<in> set leads)
     \<and> (\<forall>l. bd_pendingLost b = Some l \<longrightarrow> canMutate \<and> l \<in> set leads \<and> l_status l \<noteq> LD_lost)"

lemma board_inv_drop: "board_inv c leads b \<Longrightarrow> board_inv c leads (fst (handleDrop c col b))"
  by (cases "bd_dragLead b") (auto simp: handleDrop_def board_inv_def Let_def)

lemma board_inv_step: "board_possible leads es e \<Longrightarrow> board_inv c leads b \<Longrightarrow> board_inv c leads (fst (board_step c e b))"
  by (cases e) (simp_all add: board_inv_drop, auto simp: board_inv_def board_possible_def confirmLost_def
      split: option.splits)

lemma board_good_drop:
  "board_inv c leads b \<Longrightarrow> r \<in> set (snd (handleDrop c col b)) \<Longrightarrow> board_request c leads es r"
  by (cases "bd_dragLead b")
    (auto simp: handleDrop_def board_inv_def Let_def board_request_def split: if_splits)

lemma board_good_step:
  "board_possible leads es e \<Longrightarrow> board_inv c leads b \<Longrightarrow> r \<in> set (snd (board_step c e b)) \<Longrightarrow> board_request c leads es r"
proof (cases e)
  case (ConfirmReason reason)
  assume "board_possible leads es e" "board_inv c leads b" "r \<in> set (snd (board_step c e b))"
  with ConfirmReason show ?thesis
    by (fastforce simp: confirmLost_def board_inv_def board_request_def board_possible_def
        split: option.splits if_splits)
qed (auto simp: board_good_drop split: if_splits)

interpretation board: ui_machine "board_step canMutate" board_init "board_possible leads es"
    "board_inv canMutate leads" "board_request canMutate leads es"
  for canMutate leads es
proof
  show "board_inv canMutate leads board_init" by (simp add: board_inv_def board_init_def)
qed (simp_all add: board_inv_step board_good_step)


text \<open>A drop does not look whether the change before it has been answered.\<close>

lemma board_drops_overlap:
  assumes "l_status l \<notin> {t, u}" "t \<notin> {LD_converted, LD_lost}" "u \<notin> {LD_converted, LD_lost}"
  shows "\<not> serial (board_step True) (\<lambda>_. True) (\<lambda>e. \<exists>err. e = StatusSettled err) False
    [DragStart l, DropOn t, DragEnd, DragStart l, DropOn u, DragEnd] board_init"
  using assms by (simp add: handleDrop_def board_init_def)

definition sample_lead :: "lead_status \<Rightarrow> lead" where
  "sample_lead s = \<lparr>l_assigned_to = None, l_converted_member_id = None, l_created_at = [], l_custom_fields = [],
     l_email = None, l_first_name = ''Dana'', l_id = ''l1'', l_last_name = ''Levi'', l_lost_reason = None,
     l_notes = None, l_phone = ''050'', l_source = LO_walk_in, l_status = s, l_tenant_id = ''t1'', l_updated_at = []\<rparr>"


subsection \<open>Drops and the server's matrix\<close>

text \<open>The moves between columns the board sends and the server never makes.\<close>

definition illegal_drops :: "(lead_status \<times> lead_status) list" where
  "illegal_drops = [(LD_contacted, LD_new), (LD_trial, LD_new), (LD_lost, LD_new), (LD_lost, LD_trial),
     (LD_converted, LD_new), (LD_converted, LD_contacted), (LD_converted, LD_trial)]"

lemma no_underscore:
  "CHR 0x5F \<notin> set ident \<Longrightarrow> CHR 0x5F \<in> set p \<Longrightarrow>
   \<not> str_includes (app_message (InvalidLeadStatusTransitionError ident (lead_status_text s) (lead_status_text t))) p"
  by (rule not_includes_char [where c = "CHR 0x5F"]) (cases s; cases t; simp)+

lemma transition_shown:
  assumes "CHR 0x5F \<notin> set ident"
  shows "shown humanizeLeadError (InvalidLeadStatusTransitionError ident (lead_status_text s) (lead_status_text t))
    = Some ItemExists"
  using no_underscore [OF assms, of "''LEAD_ALREADY_CONVERTED''" s t]
    no_underscore [OF assms, of "''INVALID_LEAD_STATUS_TRANSITION''" s t]
    no_underscore [OF assms, of "''MEMBER_ALREADY_EXISTS''" s t]
  by (simp add: shown_eq humanizeLeadError_def genericMessage_def del: app_message.simps)

text \<open>C32: every move the server allows can be made by a drop; a drop on \<open>lost\<close> asks for a reason
  first; but the board also sends the moves of \<open>illegal_drops\<close>, which the server rejects whatever
  happens, and the user then reads that such an item already exists.\<close>

theorem board_drops_vs_server:
  assumes "bd_dragLead b = Some l" "CHR 0x5F \<notin> set (l_id l)"
  shows "(can_transition_to (l_status l) t \<and> t \<noteq> LD_lost \<longrightarrow>
        snd (handleDrop True t b) = [UseSetLeadStatus (l_id l) (status_body t None)])
    \<and> (bd_pendingLost (fst (handleDrop True LD_lost (b\<lparr>bd_pendingLost := None\<rparr>))) = (if l_status l = LD_lost then None else Some l))
    \<and> (snd (handleDrop True t b) \<noteq> [] \<longrightarrow>
        (case server_set_status l t None of
           Inr l' \<Rightarrow> l_status l' = t \<and> l_lost_reason l' = None \<and> (l_status l, t) \<notin> set illegal_drops
         | Inl exc \<Rightarrow> (l_status l, t) \<in> set illegal_drops \<and> shown humanizeLeadError exc = Some ItemExists))"
proof (intro conjI)
  show "can_transition_to (l_status l) t \<and> t \<noteq> LD_lost \<longrightarrow>
        snd (handleDrop True t b) = [UseSetLeadStatus (l_id l) (status_body t None)]"
    using assms by (auto simp: handleDrop_def can_transition_to_def Let_def)
  show "bd_pendingLost (fst (handleDrop True LD_lost (b\<lparr>bd_pendingLost := None\<rparr>))) = (if l_status l = LD_lost then None else Some l)"
    using assms by (simp add: handleDrop_def Let_def)
  have sent: "l_status l \<noteq> t \<and> t \<noteq> LD_converted \<and> t \<noteq> LD_lost" if "snd (handleDrop True t b) \<noteq> []"
    using that assms by (auto simp: handleDrop_def Let_def split: if_splits)
  show "snd (handleDrop True t b) \<noteq> [] \<longrightarrow>
        (case server_set_status l t None of
           Inr l' \<Rightarrow> l_status l' = t \<and> l_lost_reason l' = None \<and> (l_status l, t) \<notin> set illegal_drops
         | Inl exc \<Rightarrow> (l_status l, t) \<in> set illegal_drops \<and> shown humanizeLeadError exc = Some ItemExists)"
  proof
    assume "snd (handleDrop True t b) \<noteq> []"
    from sent [OF this] show "case server_set_status l t None of
           Inr l' \<Rightarrow> l_status l' = t \<and> l_lost_reason l' = None \<and> (l_status l, t) \<notin> set illegal_drops
         | Inl exc \<Rightarrow> (l_status l, t) \<in> set illegal_drops \<and> shown humanizeLeadError exc = Some ItemExists"
      by (cases "l_status l"; cases t)
        (simp_all add: server_set_status_def can_transition_to_def illegal_drops_def
          transition_shown [OF assms(2)] del: lead_status_text.simps)
  qed
qed

theorem board_drops_vs_server_witness:
  "snd (handleDrop True LD_new (board_init\<lparr>bd_dragLead := Some (sample_lead LD_contacted)\<rparr>))
     = [UseSetLeadStatus ''l1'' (status_body LD_new None)]
   \<and> (\<exists>exc. server_set_status (sample_lead LD_contacted) LD_new None = Inl exc
        \<and> shown humanizeLeadError exc = Some ItemExists)"
proof -
  let ?b = "board_init\<lparr>bd_dragLead := Some (sample_lead LD_contacted)\<rparr>"
  have sent: "snd (handleDrop True LD_new ?b) = [UseSetLeadStatus ''l1'' (status_body LD_new None)]"
    by (simp add: handleDrop_def sample_lead_def)
  have rejected: "\<exists>exc. server_set_status (sample_lead LD_contacted) LD_new None = Inl exc"
    by (simp add: server_set_status_def can_transition_to_def sample_lead_def)
  have b: "bd_dragLead ?b = Some (sample_lead LD_contacted)" "CHR 0x5F \<notin> set (l_id (sample_lead LD_contacted))"
    by (simp_all add: sample_lead_def)
  from sent rejected board_drops_vs_server [OF b, of LD_new] show ?thesis by (auto split: sum.splits)
qed

end
