(* ===== verification/LeadPages.thy ===== *)
theory LeadPages
  imports Leads
begin

text \<open>
  The rest of \<^verbatim>\<open>features/leads/\<close>: the list page, the detail page with its dialogs, the lead and
  activity forms, the card's age and the timeline.
\<close>

section \<open>Who may change a lead\<close>

definition lead_canMutate :: "user option \<Rightarrow> bool" where
  "lead_canMutate user = (case user of None \<Rightarrow> False
     | Some u \<Rightarrow> u_role u = R_owner \<or> u_role u = R_sales \<or> u_role u = R_super_admin)"

section \<open>The lead form\<close>

record lead_form =
  lfm_firstName :: string
  lfm_lastName :: string
  lfm_phone :: string
  lfm_email :: string
  lfm_source :: lead_source
  lfm_notes :: string

definition lead_form_init :: "lead option \<Rightarrow> lead_form" where
  "lead_form_init initial = (case initial of
     None \<Rightarrow> \<lparr>lfm_firstName = [], lfm_lastName = [], lfm_phone = [], lfm_email = [], lfm_source = LO_walk_in, lfm_notes = []\<rparr>
   | Some l \<Rightarrow> \<lparr>lfm_firstName = l_first_name l, lfm_lastName = l_last_name l, lfm_phone = l_phone l,
        lfm_email = nullish (l_email l) [], lfm_source = l_source l, lfm_notes = nullish (l_notes l) []\<rparr>)"

text \<open>The values handed to \<open>onSubmit\<close>.\<close>

definition lead_values :: "lead_form \<Rightarrow> json" where
  "lead_values f = JObj [(''first_name'', JStr (trim (lfm_firstName f))), (''last_name'', JStr (trim (lfm_lastName f))),
     (''phone'', JStr (trim (lfm_phone f))), (''email'', jopt JStr (or_null (trim (lfm_email f)))),
     (''source'', JStr (lead_source_text (lfm_source f))), (''notes'', jopt JStr (or_null (trim (lfm_notes f))))]"

text \<open>Editing without a change sends the lead back as it is, when its texts carry no outer spaces and
  its optional texts are not empty.\<close>

definition tidy :: "lead \<Rightarrow> bool" where
  "tidy l \<longleftrightarrow> trim (l_first_name l) = l_first_name l \<and> trim (l_last_name l) = l_last_name l
     \<and> trim (l_phone l) = l_phone l
     \<and> (case l_email l of None \<Rightarrow> True | Some s \<Rightarrow> s \<noteq> [] \<and> trim s = s)
     \<and> (case l_notes l of None \<Rightarrow> True | Some s \<Rightarrow> s \<noteq> [] \<and> trim s = s)"

lemma lead_form_roundtrip:
  "tidy l \<Longrightarrow> lead_values (lead_form_init (Some l)) =
     JObj [(''first_name'', JStr (l_first_name l)), (''last_name'', JStr (l_last_name l)), (''phone'', JStr (l_phone l)),
       (''email'', jopt JStr (l_email l)), (''source'', JStr (lead_source_text (l_source l))), (''notes'', jopt JStr (l_notes l))]"
  by (cases "l_email l"; cases "l_notes l") (simp_all add: tidy_def lead_values_def lead_form_init_def nullish_def or_null_def)

section \<open>The list page\<close>

definition ALL_STATUSES :: "lead_status list" where
  "ALL_STATUSES = [LD_new, LD_contacted, LD_trial, LD_converted, LD_lost]"

record leads_page =
  lp_showCreate :: bool
  lp_search :: string
  lp_sourceFilter :: "lead_source option"
  lp_create :: mutation_state

definition leads_page_init :: leads_page where
  "leads_page_init = \<lparr>lp_showCreate = False, lp_search = [], lp_sourceFilter = None, lp_create = MIdle\<rparr>"

definition leads_filters :: "leads_page \<Rightarrow> lead_filters" where
  "leads_filters p = \<lparr>lf_status = Some ALL_STATUSES, lf_source = map_option (\<lambda>s. [s]) (lp_sourceFilter p),
     lf_assignedTo = None, lf_search = or_null (lp_search p), lf_limit = Some 200, lf_offset = None\<rparr>"

text \<open>\<open>stats\<close> is \<open>None\<close> until the statistics are loaded.\<close>

definition lead_counts :: "lead_stats option \<Rightarrow> lead_status \<Rightarrow> int" where
  "lead_counts stats s = (case stats of
     None \<Rightarrow> 0
   | Some st \<Rightarrow> if s \<in> set ALL_STATUSES then nullish (map_of (ls_counts st) (lead_status_text s)) 0 else 0)"

text \<open>The percentage of the conversion banner.\<close>

definition conversion_banner :: "lead_stats option \<Rightarrow> int option" where
  "conversion_banner stats = (case stats of
     None \<Rightarrow> None
   | Some st \<Rightarrow> map_option (\<lambda>rate. js_round (js_mul rate 100)) (ls_conversion_rate_30d st))"

datatype leads_event = OpenCreate | CloseCreate | TypeSearch string | PickSource "lead_source option"
  | SubmitCreate lead_form | CreateSettled "thrown option"

fun leads_step :: "user option \<Rightarrow> leads_event \<Rightarrow> leads_page \<Rightarrow> leads_page \<times> mutation_hook list" where
  "leads_step user OpenCreate p = (if lead_canMutate user then p\<lparr>lp_showCreate := True\<rparr> else p, [])"
| "leads_step user CloseCreate p = (p\<lparr>lp_showCreate := False, lp_create := MIdle\<rparr>, [])"
| "leads_step user (TypeSearch s) p = (p\<lparr>lp_search := s\<rparr>, [])"
| "leads_step user (PickSource s) p = (p\<lparr>lp_sourceFilter := s\<rparr>, [])"
| "leads_step user (SubmitCreate f) p =
     (if lp_showCreate p \<and> \<not> isPending (lp_create p)
      then (p\<lparr>lp_create := MPending\<rparr>, [UseCreateLead (lead_values f)]) else (p, []))"
| "leads_step user (CreateSettled err) p =
     (if isPending (lp_create p)
      then (case err of None \<Rightarrow> p\<lparr>lp_showCreate := False, lp_create := MIdle\<rparr>
                      | Some e \<Rightarrow> p\<lparr>lp_create := MFailed e\<rparr>, [])
      else (p, []))"

interpretation lead_create: single_flight "leads_step user" "\<lambda>_. True" "\<lambda>_. True"
  "\<lambda>e. e = CloseCreate \<or> (\<exists>err. e = CreateSettled err)" "\<lambda>p. isPending (lp_create p)" for user
  by (unfold_locales, goal_cases) (case_tac e; auto split: option.splits if_splits)+

text \<open>What the page asks the server for: every status, with the filters that are set.\<close>

lemma leads_page_query:
  "query_of (c_path (q_call (useLeads (leads_filters p)))) =
     map (\<lambda>s. (''status'', lead_status_text s)) ALL_STATUSES
     @ (case lp_sourceFilter p of None \<Rightarrow> [] | Some s \<Rightarrow> [(''source'', lead_source_text s)])
     @ (if lp_search p = [] then [] else [(''search'', lp_search p)]) @ [(''limit'', ''200'')]"
  by (cases "lp_sourceFilter p") (simp_all add: useLeads_def leads_filters_def list_defs query_of_with_query set_if_defined_def set_if_truthy_def
      truthy_str_def each_param_def ALL_STATUSES_def nullish_def or_null_def string_of_int_def string_of_nat.simps digit_char_def)

section \<open>The convert dialog\<close>

record convert_dialog =
  cd_planId :: string
  cd_startDate :: string
  cd_paymentMethod :: payment_method
  cd_copyNotes :: bool
  cd_convert :: mutation_state

definition convert_init :: "string \<Rightarrow> convert_dialog" where
  "convert_init today = \<lparr>cd_planId = [], cd_startDate = today, cd_paymentMethod = PM_cash, cd_copyNotes = True,
     cd_convert = MIdle\<rparr>"

definition activePlans :: "membership_plan list option \<Rightarrow> membership_plan list" where
  [view_defs]: "activePlans plans = filter p_is_active (nullish plans [])"

definition convert_body :: "convert_dialog \<Rightarrow> json" where
  "convert_body d = JObj [(''plan_id'', JStr (cd_planId d)), (''payment_method'', JStr (payment_method_text (cd_paymentMethod d))),
     (''start_date'', JStr (cd_startDate d)), (''copy_notes_to_member'', JBool (cd_copyNotes d))]"

definition convert_handleSubmit :: "lead \<Rightarrow> convert_dialog \<Rightarrow> convert_dialog \<times> mutation_hook list" where
  "convert_handleSubmit l d =
     (if cd_planId d = [] then (d, [])
      else (d\<lparr>cd_convert := MPending\<rparr>, [UseConvertLead (l_id l) (convert_body d)]))"

definition convert_disabled :: "convert_dialog \<Rightarrow> bool" where
  [view_defs]: "convert_disabled d \<longleftrightarrow> isPending (cd_convert d) \<or> cd_planId d = []"

text \<open>The plan select offers the empty choice and the active plans.\<close>

datatype convert_event = PickPlan "membership_plan option" | PickStart string | PickMethod payment_method
  | ToggleCopy bool | SubmitConvert | ConvertSettled "thrown option"

fun convert_step :: "lead \<Rightarrow> convert_event \<Rightarrow> convert_dialog \<Rightarrow> convert_dialog \<times> mutation_hook list" where
  "convert_step l (PickPlan p) d = (d\<lparr>cd_planId := (case p of None \<Rightarrow> [] | Some p \<Rightarrow> p_id p)\<rparr>, [])"
| "convert_step l (PickStart s) d = (d\<lparr>cd_startDate := s\<rparr>, [])"
| "convert_step l (PickMethod m) d = (d\<lparr>cd_paymentMethod := m\<rparr>, [])"
| "convert_step l (ToggleCopy b) d = (d\<lparr>cd_copyNotes := b\<rparr>, [])"
| "convert_step l SubmitConvert d = (if convert_disabled d then (d, []) else convert_handleSubmit l d)"
| "convert_step l (ConvertSettled err) d = (d\<lparr>cd_convert := settled_state err\<rparr>, [])"

section \<open>The detail page\<close>

text \<open>The convert dialog is mounted anew each time it is shown; \<open>dp_statusFor\<close> is the target of the
  status call under way, whose \<open>onSettled\<close> closes the dialog it came from.\<close>

record detail_page =
  dp_editing :: bool
  dp_convert :: "convert_dialog option"
  dp_pendingLost :: bool
  dp_confirmReopen :: bool
  dp_update :: mutation_state
  dp_setStatus :: mutation_state
  dp_statusFor :: lead_status

definition detail_init :: detail_page where
  "detail_init = \<lparr>dp_editing = False, dp_convert = None, dp_pendingLost = False, dp_confirmReopen = False,
     dp_update = MIdle, dp_setStatus = MIdle, dp_statusFor = LD_contacted\<rparr>"

definition isOpen :: "lead \<Rightarrow> bool" where
  "isOpen l \<longleftrightarrow> l_status l \<noteq> LD_converted \<and> l_status l \<noteq> LD_lost"

definition handleEdit :: "lead \<Rightarrow> lead_form \<Rightarrow> detail_page \<Rightarrow> detail_page \<times> mutation_hook list" where
  "handleEdit l values p = (p\<lparr>dp_update := MPending\<rparr>, [UseUpdateLead (l_id l) (lead_values values)])"

definition handleLost :: "lead \<Rightarrow> string \<Rightarrow> detail_page \<Rightarrow> detail_page \<times> mutation_hook list" where
  "handleLost l reason p = (p\<lparr>dp_setStatus := MPending, dp_statusFor := LD_lost\<rparr>,
     [UseSetLeadStatus (l_id l) (status_body LD_lost (or_null reason))])"

definition handleReopen :: "lead \<Rightarrow> detail_page \<Rightarrow> detail_page \<times> mutation_hook list" where
  "handleReopen l p = (p\<lparr>dp_setStatus := MPending, dp_statusFor := LD_contacted\<rparr>,
     [UseSetLeadStatus (l_id l) (status_body LD_contacted None)])"

text \<open>Which buttons are there.\<close>

definition edit_button :: "user option \<Rightarrow> lead \<Rightarrow> detail_page \<Rightarrow> bool" where
  [view_defs]: "edit_button user l p \<longleftrightarrow> lead_canMutate user \<and> \<not> dp_editing p \<and> l_status l \<noteq> LD_converted"

definition open_buttons :: "user option \<Rightarrow> lead \<Rightarrow> bool" where
  [view_defs]: "open_buttons user l \<longleftrightarrow> lead_canMutate user \<and> isOpen l"

definition reopen_button :: "user option \<Rightarrow> lead \<Rightarrow> bool" where
  [view_defs]: "reopen_button user l \<longleftrightarrow> lead_canMutate user \<and> l_status l = LD_lost"

definition activity_form_shown :: "user option \<Rightarrow> lead \<Rightarrow> bool" where
  [view_defs]: "activity_form_shown user l \<longleftrightarrow> lead_canMutate user \<and> l_status l \<noteq> LD_converted"

datatype detail_event = ClickEdit | CancelEdit | SubmitEdit lead_form | UpdateSettled "thrown option"
  | ClickConvert string | InConvert convert_event | CancelConvert
  | ClickLost | DetailConfirmLost string | DetailCancelLost
  | ClickReopen | ConfirmReopen | CancelReopen | DetailStatusSettled "thrown option"

fun detail_step :: "user option \<Rightarrow> lead \<Rightarrow> detail_event \<Rightarrow> detail_page \<Rightarrow> detail_page \<times> mutation_hook list" where
  "detail_step user l ClickEdit p = (if edit_button user l p then p\<lparr>dp_editing := True\<rparr> else p, [])"
| "detail_step user l CancelEdit p = (p\<lparr>dp_editing := False, dp_update := MIdle\<rparr>, [])"
| "detail_step user l (SubmitEdit f) p =
     (if dp_editing p \<and> \<not> isPending (dp_update p) then handleEdit l f p else (p, []))"
| "detail_step user l (UpdateSettled err) p =
     (if isPending (dp_update p)
      then (case err of None \<Rightarrow> p\<lparr>dp_editing := False, dp_update := MIdle\<rparr> | Some e \<Rightarrow> p\<lparr>dp_update := MFailed e\<rparr>, [])
      else (p, []))"
| "detail_step user l (ClickConvert today) p =
     (if open_buttons user l \<and> dp_convert p = None then p\<lparr>dp_convert := Some (convert_init today)\<rparr> else p, [])"
| "detail_step user l (InConvert e) p =
     (case dp_convert p of None \<Rightarrow> (p, [])
      | Some d \<Rightarrow> (p\<lparr>dp_convert := (if e = ConvertSettled None then None else Some (fst (convert_step l e d)))\<rparr>,
                   snd (convert_step l e d)))"
| "detail_step user l CancelConvert p = (p\<lparr>dp_convert := None\<rparr>, [])"
| "detail_step user l ClickLost p = (if open_buttons user l then p\<lparr>dp_pendingLost := True\<rparr> else p, [])"
| "detail_step user l (DetailConfirmLost reason) p =
     (if dp_pendingLost p \<and> \<not> isPending (dp_setStatus p) then handleLost l (trim reason) p else (p, []))"
| "detail_step user l DetailCancelLost p = (p\<lparr>dp_pendingLost := False\<rparr>, [])"
| "detail_step user l ClickReopen p = (if reopen_button user l then p\<lparr>dp_confirmReopen := True\<rparr> else p, [])"
| "detail_step user l ConfirmReopen p =
     (if dp_confirmReopen p \<and> \<not> isPending (dp_setStatus p) then handleReopen l p else (p, []))"
| "detail_step user l CancelReopen p = (p\<lparr>dp_confirmReopen := False\<rparr>, [])"
| "detail_step user l (DetailStatusSettled err) p =
     (if isPending (dp_setStatus p)
      then (p\<lparr>dp_setStatus := settled_state err,
              dp_pendingLost := (if dp_statusFor p = LD_lost then False else dp_pendingLost p),
              dp_confirmReopen := (if dp_statusFor p = LD_contacted then False else dp_confirmReopen p)\<rparr>, [])
      else (p, []))"

text \<open>
  The three mutations of the page, each with its own hook. Cancelling the edit form resets its hook, and
  the dialog of the conversion is thrown away with its hook when it is closed.
\<close>

lemma convert_starts [simp]:
  "filter (\<lambda>r. \<exists>i v. r = UseUpdateLead i v) (snd (convert_step l e d)) = []"
  "filter (\<lambda>r. \<exists>i v. r = UseSetLeadStatus i v) (snd (convert_step l e d)) = []"
  by (cases e; simp add: convert_handleSubmit_def)+

lemmas detail_flight = handleEdit_def handleLost_def handleReopen_def

interpretation lead_edit: single_flight "detail_step user l" "\<lambda>_. True" "\<lambda>r. \<exists>i v. r = UseUpdateLead i v"
  "\<lambda>e. e = CancelEdit \<or> (\<exists>err. e = UpdateSettled err)" "\<lambda>p. isPending (dp_update p)" for user l
  by (unfold_locales, goal_cases)
    (case_tac e; auto simp: detail_flight split: option.splits if_splits)+

definition settles_conversion :: "convert_event \<Rightarrow> bool" where
  "settles_conversion e \<longleftrightarrow> (\<exists>err. e = ConvertSettled err)"

lemma convert_blocked: "isPending (cd_convert d) \<Longrightarrow> snd (convert_step l e d) = []"
  by (cases e) (simp_all add: convert_handleSubmit_def convert_disabled_def)

lemma convert_one: "length (filter P (snd (convert_step l e d))) \<le> 1"
  by (rule order_trans [OF length_filter_le], cases e) (simp_all add: convert_handleSubmit_def)

lemma convert_marks:
  "r \<in> set (snd (convert_step l e d)) \<Longrightarrow> \<not> settles_conversion e \<and> isPending (cd_convert (fst (convert_step l e d)))"
  by (cases e) (simp_all add: convert_handleSubmit_def settles_conversion_def split: if_splits)

lemma convert_kept:
  "isPending (cd_convert d) \<Longrightarrow> \<not> settles_conversion e \<Longrightarrow> isPending (cd_convert (fst (convert_step l e d)))"
  by (cases e) (simp_all add: convert_handleSubmit_def settles_conversion_def)

definition is_conversion :: "mutation_hook \<Rightarrow> bool" where
  "is_conversion r \<longleftrightarrow> (\<exists>i v. r = UseConvertLead i v)"

definition converting :: "detail_page \<Rightarrow> bool" where
  "converting p \<longleftrightarrow> (case dp_convert p of None \<Rightarrow> False | Some d \<Rightarrow> isPending (cd_convert d))"

definition conversion_freed :: "detail_event \<Rightarrow> bool" where
  "conversion_freed e = (case e of CancelConvert \<Rightarrow> True | InConvert x \<Rightarrow> settles_conversion x | _ \<Rightarrow> False)"

interpretation lead_conversion: single_flight "detail_step user l" "\<lambda>_. True" is_conversion conversion_freed converting
  for user l
proof (unfold_locales, goal_cases)
  case (1 e p) then show ?case
    by (cases e) (auto simp: detail_flight is_conversion_def converting_def convert_blocked split: option.splits)
next
  case (2 e p) then show ?case
    by (cases e) (auto simp: detail_flight is_conversion_def convert_one [simplified] split: option.splits)
next
  case (3 e p)
  then obtain r where r: "r \<in> set (snd (detail_step user l e p))" "is_conversion r"
    by (auto simp: filter_empty_conv)
  show ?case
  proof (cases e)
    case (InConvert x)
    with r obtain d where d: "dp_convert p = Some d" "r \<in> set (snd (convert_step l x d))"
      by (auto split: option.splits)
    from convert_marks [OF d(2)] d(1) InConvert show ?thesis
      by (auto simp: converting_def settles_conversion_def)
  qed (use r in \<open>auto simp: detail_flight is_conversion_def split: if_splits\<close>)
next
  case (4 e p) then show ?case
    by (cases e) (auto simp: detail_flight converting_def conversion_freed_def convert_kept settles_conversion_def
        split: option.splits if_splits)
qed

interpretation lead_status: single_flight "detail_step user l" "\<lambda>_. True" "\<lambda>r. \<exists>i v. r = UseSetLeadStatus i v"
  "\<lambda>e. \<exists>err. e = DetailStatusSettled err" "\<lambda>p. isPending (dp_setStatus p)" for user l
  by (unfold_locales, goal_cases)
    (case_tac e; auto simp: detail_flight split: option.splits if_splits)+

subsection \<open>The page only asks for what the server does\<close>

text \<open>What the server makes of a request, \<open>phones\<close> and \<open>plans\<close> being the gym's.\<close>

definition detail_accepted :: "string list \<Rightarrow> membership_plan list \<Rightarrow> lead \<Rightarrow> mutation_hook \<Rightarrow> bool" where
  "detail_accepted phones plans l r \<longleftrightarrow>
     (\<exists>values. r = UseUpdateLead (l_id l) (lead_values values))
   \<or> (\<exists>s reason. r = UseSetLeadStatus (l_id l) (status_body s reason) \<and> (\<exists>l'. server_set_status l s reason = Inr l'))
   \<or> (\<exists>d. r = UseConvertLead (l_id l) (convert_body d) \<and>
        (if l_phone l \<in> set phones then server_convert phones plans [] l (cd_planId d) = Inl (MemberAlreadyExistsError (l_phone l))
         else \<exists>l'. server_convert phones plans [] l (cd_planId d) = Inr l'))"

definition plan_picked :: "membership_plan list \<Rightarrow> convert_dialog \<Rightarrow> bool" where
  "plan_picked plans d \<longleftrightarrow> cd_planId d = [] \<or> (\<exists>p \<in> set plans. p_is_active p \<and> p_id p = cd_planId d)"

definition detail_inv :: "user option \<Rightarrow> membership_plan list \<Rightarrow> lead \<Rightarrow> detail_page \<Rightarrow> bool" where
  "detail_inv user plans l p \<longleftrightarrow> (dp_pendingLost p \<longrightarrow> isOpen l) \<and> (dp_confirmReopen p \<longrightarrow> l_status l = LD_lost)
     \<and> (\<forall>d. dp_convert p = Some d \<longrightarrow> isOpen l \<and> plan_picked plans d)"

definition detail_possible :: "membership_plan list \<Rightarrow> detail_event \<Rightarrow> bool" where
  "detail_possible plans e \<longleftrightarrow> (case e of InConvert (PickPlan (Some p)) \<Rightarrow> p \<in> set (activePlans (Some plans)) | _ \<Rightarrow> True)"

lemma convert_step_picked:
  "detail_possible plans (InConvert e) \<Longrightarrow> plan_picked plans d \<Longrightarrow> plan_picked plans (fst (convert_step l e d))"
  by (cases e) (auto simp: plan_picked_def detail_possible_def convert_handleSubmit_def activePlans_def nullish_def
      split: option.splits)

lemma plan_picked_init [simp]: "plan_picked plans (convert_init today)"
  by (simp add: plan_picked_def convert_init_def)

lemma detail_inv_step:
  assumes "detail_possible plans e" "detail_inv user plans l p"
  shows "detail_inv user plans l (fst (detail_step user l e p))"
proof (cases e)
  case (InConvert c)
  with assms convert_step_picked show ?thesis
    by (cases "dp_convert p") (auto simp: detail_inv_def)
next
  case (UpdateSettled err)
  with assms show ?thesis by (cases err) (auto simp: detail_inv_def)
qed (use assms in \<open>auto simp: detail_inv_def open_buttons_def reopen_button_def handleEdit_def handleLost_def
    handleReopen_def\<close>)

definition plans_of_gym :: "membership_plan list \<Rightarrow> lead \<Rightarrow> bool" where
  "plans_of_gym plans l \<longleftrightarrow> distinct (map p_id plans) \<and> (\<forall>p \<in> set plans. p_tenant_id p = l_tenant_id l)"

lemma convert_accepted:
  assumes "plans_of_gym plans l" "isOpen l" "plan_picked plans d" "cd_planId d \<noteq> []"
  shows "if l_phone l \<in> set phones then server_convert phones plans m l (cd_planId d) = Inl (MemberAlreadyExistsError (l_phone l))
         else \<exists>l'. server_convert phones plans m l (cd_planId d) = Inr l'"
proof -
  from assms obtain p where p: "p \<in> set plans" "p_is_active p" "p_id p = cd_planId d"
    by (auto simp: plan_picked_def)
  with assms find_by_key [of p_id plans p] show ?thesis
    by (auto simp: server_convert_def plans_of_gym_def isOpen_def)
qed

lemma detail_good_step:
  assumes "plans_of_gym plans l" "detail_possible plans e" "detail_inv user plans l p"
    "r \<in> set (snd (detail_step user l e p))"
  shows "detail_accepted phones plans l r"
proof (cases e)
  case (InConvert c)
  with assms obtain d where d: "dp_convert p = Some d" "r \<in> set (snd (convert_step l c d))"
    by (auto split: option.splits)
  with assms have "isOpen l" "plan_picked plans d" by (auto simp: detail_inv_def)
  with d convert_accepted [OF assms(1)] show ?thesis
    unfolding detail_accepted_def
    by (cases c) (auto simp: convert_handleSubmit_def convert_disabled_def split: if_splits)
next
  case (DetailConfirmLost reason)
  with assms have "isOpen l" "r = UseSetLeadStatus (l_id l) (status_body LD_lost (or_null (trim reason)))"
    by (auto simp: detail_inv_def handleLost_def split: if_splits)
  then show ?thesis
    by (cases "l_status l") (auto simp: detail_accepted_def isOpen_def server_set_status_def can_transition_to_def)
next
  case ConfirmReopen
  with assms have "l_status l = LD_lost" "r = UseSetLeadStatus (l_id l) (status_body LD_contacted None)"
    by (auto simp: detail_inv_def handleReopen_def split: if_splits)
  then show ?thesis
    by (auto simp: detail_accepted_def server_set_status_def can_transition_to_def)
qed (use assms in \<open>auto simp: detail_accepted_def handleEdit_def split: if_splits option.splits\<close>)

interpretation detail: ui_machine "detail_step user l" detail_init
    "\<lambda>e. plans_of_gym plans l \<and> detail_possible plans e" "detail_inv user plans l" "detail_accepted phones plans l"
  for user l plans phones
proof
  show "detail_inv user plans l detail_init" by (simp add: detail_inv_def detail_init_def)
qed (use detail_inv_step detail_good_step in blast)+


definition sample_plan :: "string \<Rightarrow> bool \<Rightarrow> membership_plan" where
  "sample_plan i active = \<lparr>p_billing_period = BP_monthly, p_created_at = [], p_currency = ''ILS'', p_custom_attrs = [],
     p_description = None, p_duration_days = None, p_entitlements = [], p_id = i, p_is_active = active, p_name = i,
     p_price_cents = 25000, p_tenant_id = ''t1'', p_type = PT_recurring, p_updated_at = []\<rparr>"


section \<open>The activity form\<close>

text \<open>The user's choices; \<open>status_change\<close> is not one of them.\<close>

definition activity_types :: "lead_activity_type list" where
  "activity_types = [LA_call, LA_email, LA_meeting, LA_note]"

record activity_form =
  af_type :: lead_activity_type
  af_note :: string
  af_add :: mutation_state

definition activity_init :: activity_form where
  "activity_init = \<lparr>af_type = LA_call, af_note = [], af_add = MIdle\<rparr>"

definition activity_body :: "lead_activity_type \<Rightarrow> string \<Rightarrow> json" where
  "activity_body t note = JObj [(''type'', JStr (lead_activity_type_text t)), (''note'', JStr note)]"

definition activity_disabled :: "activity_form \<Rightarrow> bool" where
  [view_defs]: "activity_disabled f \<longleftrightarrow> isPending (af_add f) \<or> trim (af_note f) = []"

definition activity_handleSubmit :: "string \<Rightarrow> activity_form \<Rightarrow> activity_form \<times> mutation_hook list" where
  "activity_handleSubmit leadId f =
     (if trim (af_note f) = [] then (f, [])
      else (f\<lparr>af_add := MPending\<rparr>, [UseAddActivity leadId (activity_body (af_type f) (trim (af_note f)))]))"

datatype activity_event = PickType lead_activity_type | TypeNote string | SubmitActivity
  | ActivitySettled "thrown option"

fun activity_step :: "string \<Rightarrow> activity_event \<Rightarrow> activity_form \<Rightarrow> activity_form \<times> mutation_hook list" where
  "activity_step leadId (PickType t) f = (if t \<in> set activity_types then f\<lparr>af_type := t\<rparr> else f, [])"
| "activity_step leadId (TypeNote s) f = (f\<lparr>af_note := s\<rparr>, [])"
| "activity_step leadId SubmitActivity f =
     (if activity_disabled f then (f, []) else activity_handleSubmit leadId f)"
| "activity_step leadId (ActivitySettled err) f =
     (if isPending (af_add f)
      then (case err of None \<Rightarrow> f\<lparr>af_note := [], af_add := MIdle\<rparr> | Some e \<Rightarrow> f\<lparr>af_add := MFailed e\<rparr>, [])
      else (f, []))"

definition activity_good :: "string \<Rightarrow> mutation_hook \<Rightarrow> bool" where
  "activity_good leadId r \<longleftrightarrow> (\<exists>t note. r = UseAddActivity leadId (activity_body t note)
     \<and> t \<noteq> LA_status_change \<and> note \<noteq> [] \<and> trim note = note)"

lemma activity_goodI:
  "t \<noteq> LA_status_change \<Longrightarrow> note \<noteq> [] \<Longrightarrow> trim note = note \<Longrightarrow>
   activity_good leadId (UseAddActivity leadId (activity_body t note))"
  unfolding activity_good_def by blast

interpretation activity_add: single_flight "activity_step leadId" "\<lambda>_. True" "\<lambda>_. True"
  "\<lambda>e. \<exists>err. e = ActivitySettled err" "\<lambda>f. isPending (af_add f)" for leadId
  by (unfold_locales, goal_cases)
    (case_tac e; auto simp: activity_disabled_def activity_handleSubmit_def split: option.splits if_splits)+

interpretation activity: ui_machine "activity_step leadId" activity_init "\<lambda>_. True"
    "\<lambda>f. af_type f \<in> set activity_types" "activity_good leadId"
  for leadId
proof
  show "af_type activity_init \<in> set activity_types" by (simp add: activity_init_def activity_types_def)
  show "af_type (fst (activity_step leadId e f)) \<in> set activity_types" if "af_type f \<in> set activity_types" for e f
    using that by (cases e) (auto simp: activity_handleSubmit_def split: option.splits)
  show "activity_good leadId r"
    if "af_type f \<in> set activity_types" "r \<in> set (snd (activity_step leadId e f))" for e f r
    using that by (cases e) (auto simp: activity_handleSubmit_def activity_types_def
        intro!: activity_goodI split: option.splits if_splits)
qed

text \<open>The form never sends what the server's schema refuses: a blank note or a system activity.\<close>

lemma activity_requests:
  "r \<in> set (snd (ui_run (activity_step leadId) es activity_init)) \<Longrightarrow> activity_good leadId r"
  by (rule activity.run_good) (simp_all add: list_all_iff)

section \<open>Ages\<close>

text \<open>Times in milliseconds. A card takes \<open>now\<close> once; the timeline reads the clock for each quotient.\<close>

definition days_between :: "int \<Rightarrow> int \<Rightarrow> int" where
  "days_between now t = (now - t) div (1000 * 60 * 60 * 24)"

datatype age_label = AgeToday | AgeYesterday | AgeDays int

definition ageLabel :: "int \<Rightarrow> int \<Rightarrow> age_label" where
  "ageLabel now created =
     (let daysAgo = days_between now created
      in if daysAgo = 0 then AgeToday else if daysAgo = 1 then AgeYesterday else AgeDays daysAgo)"

datatype activity_time = TimeNow | TimeHours int | TimeYesterday | TimeDays int | TimeOnDate

definition formatTime :: "int \<Rightarrow> int \<Rightarrow> int \<Rightarrow> activity_time" where
  "formatTime now now' t =
     (let days = days_between now t in
      if days = 0 then
        (let hrs = (now' - t) div (1000 * 60 * 60) in if hrs = 0 then TimeNow else TimeHours hrs)
      else if days = 1 then TimeYesterday
      else if days < 7 then TimeDays days
      else TimeOnDate)"

lemma formatTime_ranges:
  assumes "t \<le> now"
  shows "formatTime now now t = TimeHours n \<Longrightarrow> 1 \<le> n \<and> n \<le> 23"
    and "formatTime now now t = TimeDays n \<Longrightarrow> 2 \<le> n \<and> n \<le> 6"
proof -
  have nonneg: "0 \<le> days_between now t" "0 \<le> (now - t) div 3600000"
    using assms by (simp_all add: days_between_def pos_imp_zdiv_nonneg_iff)
  have day: "days_between now t = (now - t) div 3600000 div 24"
    by (simp add: days_between_def div_mult2_eq [symmetric] zdiv_zmult2_eq [symmetric])
  show "formatTime now now t = TimeHours n \<Longrightarrow> 1 \<le> n \<and> n \<le> 23"
    using nonneg day by (auto simp: formatTime_def Let_def split: if_splits)
  show "formatTime now now t = TimeDays n \<Longrightarrow> 2 \<le> n \<and> n \<le> 6"
    using nonneg by (auto simp: formatTime_def Let_def split: if_splits)
qed

text \<open>What the timeline shows.\<close>

datatype timeline = TimelineLoading | TimelineEmpty | TimelineRows "lead_activity list"

definition timeline_view :: "bool \<Rightarrow> lead_activity list option \<Rightarrow> timeline" where
  [view_defs]: "timeline_view isLoading activities =
     (if isLoading then TimelineLoading
      else case activities of None \<Rightarrow> TimelineEmpty | Some xs \<Rightarrow> if xs = [] then TimelineEmpty else TimelineRows xs)"

end
