(* ===== verification/Subscriptions.thy ===== *)
theory Subscriptions
  imports QueryHooks ServerErrors JsNumber Permissions UiMachine
begin

text \<open>
  Subscriptions: \<^verbatim>\<open>features/subscriptions/\<close> (the section of the member page, its five dialogs, the
  timeline and the payment labels) against the guards of \<^verbatim>\<open>backend/app/domain/entities/subscription.py\<close>
  and the operations of \<^verbatim>\<open>backend/app/services/subscription_service.py\<close>.
\<close>

section \<open>The server's guards\<close>

definition can_freeze :: "subscription_status \<Rightarrow> bool" where
  "can_freeze s \<longleftrightarrow> s = SS_active"

definition can_unfreeze :: "subscription_status \<Rightarrow> bool" where
  "can_unfreeze s \<longleftrightarrow> s = SS_frozen"

definition can_renew :: "subscription_status \<Rightarrow> bool" where
  "can_renew s \<longleftrightarrow> s \<in> {SS_active, SS_expired}"

definition can_change_plan :: "subscription_status \<Rightarrow> bool" where
  "can_change_plan s \<longleftrightarrow> s \<in> {SS_active, SS_frozen}"

definition can_cancel :: "subscription_status \<Rightarrow> bool" where
  "can_cancel s \<longleftrightarrow> s \<in> {SS_active, SS_frozen, SS_expired}"

definition is_live :: "subscription_status \<Rightarrow> bool" where
  "is_live s \<longleftrightarrow> s \<in> {SS_active, SS_frozen}"

lemmas guard_defs = can_freeze_def can_unfreeze_def can_renew_def can_change_plan_def can_cancel_def is_live_def

text \<open>
  What an operation of the service answers, for a caller of staff rank in the subscription's gym: the
  error it raises, or the status the row is left in. \<open>plans\<close> are the plans the server knows.
\<close>

datatype sub_op = OpFreeze | OpUnfreeze | OpRenew | OpChangePlan string | OpCancel

definition guarded :: "bool \<Rightarrow> subscription_status \<Rightarrow> string \<Rightarrow> subscription_status \<Rightarrow> app_error + subscription_status" where
  "guarded ok current action new_status =
     (if ok then Inr new_status
      else Inl (InvalidSubscriptionStateTransitionError (subscription_status_text current) action))"

fun server_sub_op :: "membership_plan list \<Rightarrow> subscription \<Rightarrow> sub_op \<Rightarrow> app_error + subscription_status" where
  "server_sub_op plans s OpFreeze = guarded (can_freeze (s_status s)) (s_status s) ''freeze'' SS_frozen"
| "server_sub_op plans s OpUnfreeze = guarded (can_unfreeze (s_status s)) (s_status s) ''unfreeze'' SS_active"
| "server_sub_op plans s OpRenew =
     (if \<not> can_renew (s_status s) then guarded False (s_status s) ''renew'' SS_active
      else if List.find (\<lambda>p. p_id p = s_plan_id s) plans = None then Inl (MembershipPlanNotFoundError (s_plan_id s))
      else Inr SS_active)"
| "server_sub_op plans s (OpChangePlan new_plan_id) =
     (if \<not> can_change_plan (s_status s) then guarded False (s_status s) ''change plan'' SS_replaced
      else if s_plan_id s = new_plan_id then Inl SamePlanChangeError
      else (case List.find (\<lambda>p. p_id p = new_plan_id) plans of
          None \<Rightarrow> Inl (MembershipPlanNotFoundError new_plan_id)
        | Some plan \<Rightarrow>
           if p_tenant_id plan \<noteq> s_tenant_id s then Inl SubscriptionPlanMismatchError
           else if \<not> p_is_active plan then Inl (InvalidSubscriptionStateTransitionError ''inactive'' ''subscribe to'')
           else Inr SS_replaced))"
| "server_sub_op plans s OpCancel = guarded (can_cancel (s_status s)) (s_status s) ''cancel'' SS_cancelled"

text \<open>Enrolment of a member of the gym \<open>tenant\<close>, whose subscriptions are \<open>subs\<close>.\<close>

definition server_enroll ::
  "string \<Rightarrow> membership_plan list \<Rightarrow> subscription list \<Rightarrow> string \<Rightarrow> string \<Rightarrow> app_error + subscription_status" where
  "server_enroll tenant plans subs member_id plan_id =
     (case List.find (\<lambda>p. p_id p = plan_id) plans of
        None \<Rightarrow> Inl (MembershipPlanNotFoundError plan_id)
      | Some plan \<Rightarrow>
         if p_tenant_id plan \<noteq> tenant then Inl SubscriptionPlanMismatchError
         else if \<not> p_is_active plan then Inl (InvalidSubscriptionStateTransitionError ''inactive'' ''subscribe to'')
         else if list_ex (\<lambda>s. is_live (s_status s)) subs then Inl (MemberAlreadyHasActiveSubscriptionError member_id)
         else Inr SS_active)"

section \<open>The dialogs\<close>

record enroll_form =
  en_planId :: string
  en_startedAt :: string
  en_expiresAt :: string
  en_paymentMethod :: payment_method
  en_paymentDetail :: string

record renew_form =
  rn_newExpiresAt :: string
  rn_newPaymentMethod :: "payment_method option"
  rn_newPaymentDetail :: string

text \<open>The dialog that is open, with the state it keeps; each is mounted anew when it opens.\<close>

datatype sub_dialog = EnrollDialog enroll_form | FreezeDialog string | RenewDialog renew_form
  | ChangePlanDialog string string | CancelDialog string string

definition enroll_init :: sub_dialog where
  "enroll_init = EnrollDialog \<lparr>en_planId = [], en_startedAt = [], en_expiresAt = [], en_paymentMethod = PM_cash,
     en_paymentDetail = []\<rparr>"

definition renew_init :: sub_dialog where
  "renew_init = RenewDialog \<lparr>rn_newExpiresAt = [], rn_newPaymentMethod = None, rn_newPaymentDetail = []\<rparr>"

definition enroll_body :: "string \<Rightarrow> enroll_form \<Rightarrow> json" where
  "enroll_body memberId f = JObj [(''member_id'', JStr memberId), (''plan_id'', JStr (en_planId f)),
     (''started_at'', jopt JStr (or_null (en_startedAt f))),
     (''expires_at'', if en_paymentMethod f = PM_standing_order then JNull else jopt JStr (or_null (en_expiresAt f))),
     (''payment_method'', JStr (payment_method_text (en_paymentMethod f))),
     (''payment_method_detail'', jopt JStr (or_null (trim (en_paymentDetail f))))]"

definition freeze_body :: "string \<Rightarrow> json" where
  "freeze_body frozenUntil = JObj [(''frozen_until'', jopt JStr (or_null frozenUntil))]"

definition methodChanged :: "payment_method \<Rightarrow> renew_form \<Rightarrow> bool" where
  [view_defs]: "methodChanged currentPaymentMethod f \<longleftrightarrow>
     rn_newPaymentMethod f \<noteq> None \<and> rn_newPaymentMethod f \<noteq> Some currentPaymentMethod"

definition renew_body :: "payment_method \<Rightarrow> renew_form \<Rightarrow> json" where
  "renew_body currentPaymentMethod f = JObj [(''new_expires_at'', jopt JStr (or_null (rn_newExpiresAt f))),
     (''new_payment_method'', if methodChanged currentPaymentMethod f
        then jopt (\<lambda>m. JStr (payment_method_text m)) (rn_newPaymentMethod f) else JNull),
     (''new_payment_method_detail'', if methodChanged currentPaymentMethod f
        then jopt JStr (or_null (trim (rn_newPaymentDetail f))) else JNull)]"

definition candidatePlans :: "membership_plan list option \<Rightarrow> string \<Rightarrow> membership_plan list" where
  [view_defs]: "candidatePlans plans currentPlanId = filter (\<lambda>p. p_id p \<noteq> currentPlanId) (nullish plans [])"

definition change_body :: "string \<Rightarrow> string \<Rightarrow> json" where
  "change_body newPlanId effectiveDate =
     JObj [(''new_plan_id'', JStr newPlanId), (''effective_date'', jopt JStr (or_null effectiveDate))]"

definition REASON_OPTIONS :: "string list" where
  "REASON_OPTIONS = [''moved_away'', ''too_expensive'', ''not_using'', ''injury'', ''other'']"

definition cancel_body :: "string \<Rightarrow> string \<Rightarrow> json" where
  "cancel_body reason detail = JObj [(''reason'', jopt JStr (or_null reason)), (''detail'', jopt JStr (or_null detail))]"

text \<open>Which fields are on the form: the free text only for two of the methods.\<close>

definition detail_field_shown :: "enroll_form \<Rightarrow> bool" where
  [view_defs]: "detail_field_shown f \<longleftrightarrow> en_paymentMethod f = PM_other \<or> en_paymentMethod f = PM_credit_card"

text \<open>
  The browser submits a form only when its required fields are filled: the plan, and the detail when
  the method is \<open>other\<close>. The handlers of the two plan pickers also return early without a plan.
\<close>

fun submits :: "sub_dialog \<Rightarrow> bool" where
  "submits (EnrollDialog f) \<longleftrightarrow> en_planId f \<noteq> [] \<and> (en_paymentMethod f = PM_other \<longrightarrow> en_paymentDetail f \<noteq> [])"
| "submits (ChangePlanDialog newPlanId _) \<longleftrightarrow> newPlanId \<noteq> []"
| "submits _ \<longleftrightarrow> True"

text \<open>The five \<open>handleSubmit\<close> functions; all but the enrolment act on the current subscription.\<close>

fun dialog_request :: "string \<Rightarrow> subscription option \<Rightarrow> sub_dialog \<Rightarrow> mutation_hook option" where
  "dialog_request memberId current (EnrollDialog f) =
     (if en_planId f = [] then None else Some (UseCreateSubscription (enroll_body memberId f)))"
| "dialog_request memberId None d = None"
| "dialog_request memberId (Some s) (FreezeDialog u) = Some (UseFreezeSubscription (s_id s) (freeze_body u))"
| "dialog_request memberId (Some s) (RenewDialog f) =
     Some (UseRenewSubscription (s_id s) (renew_body (s_payment_method s) f))"
| "dialog_request memberId (Some s) (ChangePlanDialog p e) =
     (if p = [] then None else Some (UseChangePlan (s_id s) (change_body p e)))"
| "dialog_request memberId (Some s) (CancelDialog r d) = Some (UseCancelSubscription (s_id s) (cancel_body r d))"

text \<open>Editing a field; the pickers of the dialogs only offer what the options list.\<close>

datatype sub_field = SetPlan string | SetStartedAt string | SetExpiresAt string | SetMethod payment_method
  | SetDetail string | SetFrozenUntil string | SetNewExpiresAt string | SetNewMethod "payment_method option"
  | SetNewDetail string | SetNewPlan string | SetEffective string | SetReason string | SetCancelDetail string

fun set_field :: "sub_field \<Rightarrow> sub_dialog \<Rightarrow> sub_dialog" where
  "set_field (SetPlan x) (EnrollDialog f) = EnrollDialog (f\<lparr>en_planId := x\<rparr>)"
| "set_field (SetStartedAt x) (EnrollDialog f) = EnrollDialog (f\<lparr>en_startedAt := x\<rparr>)"
| "set_field (SetExpiresAt x) (EnrollDialog f) =
     EnrollDialog (if en_paymentMethod f = PM_standing_order then f else f\<lparr>en_expiresAt := x\<rparr>)"
| "set_field (SetMethod x) (EnrollDialog f) = EnrollDialog (f\<lparr>en_paymentMethod := x\<rparr>)"
| "set_field (SetDetail x) (EnrollDialog f) =
     EnrollDialog (if detail_field_shown f then f\<lparr>en_paymentDetail := x\<rparr> else f)"
| "set_field (SetFrozenUntil x) (FreezeDialog _) = FreezeDialog x"
| "set_field (SetNewExpiresAt x) (RenewDialog f) = RenewDialog (f\<lparr>rn_newExpiresAt := x\<rparr>)"
| "set_field (SetNewMethod x) (RenewDialog f) = RenewDialog (f\<lparr>rn_newPaymentMethod := x\<rparr>)"
| "set_field (SetNewDetail x) (RenewDialog f) = RenewDialog (f\<lparr>rn_newPaymentDetail := x\<rparr>)"
| "set_field (SetNewPlan x) (ChangePlanDialog _ e) = ChangePlanDialog x e"
| "set_field (SetEffective x) (ChangePlanDialog p _) = ChangePlanDialog p x"
| "set_field (SetReason x) (CancelDialog _ d) = CancelDialog x d"
| "set_field (SetCancelDetail x) (CancelDialog r _) = CancelDialog r x"
| "set_field _ d = d"

section \<open>The section of the member page\<close>

record sub_section =
  ss_dialog :: "sub_dialog option"
  ss_mutation :: mutation_state
  ss_unfreeze :: mutation_state

definition sub_section_init :: sub_section where
  "sub_section_init = \<lparr>ss_dialog = None, ss_mutation = MIdle, ss_unfreeze = MIdle\<rparr>"

definition sub_canMutate :: "user option \<Rightarrow> bool" where
  "sub_canMutate user = (case user of None \<Rightarrow> False
     | Some u \<Rightarrow> u_role u = R_staff \<or> u_role u = R_owner \<or> u_role u = R_super_admin)"

definition focusSub :: "subscription option \<Rightarrow> subscription list option \<Rightarrow> subscription option" where
  [view_defs]: "focusSub current history = (case current of Some s \<Rightarrow> Some s
     | None \<Rightarrow> (case history of Some (s # _) \<Rightarrow> Some s | _ \<Rightarrow> None))"

definition pastSubs :: "subscription option \<Rightarrow> subscription list option \<Rightarrow> subscription list" where
  [view_defs]: "pastSubs current history = filter (\<lambda>s. Some (s_id s) \<noteq> map_option s_id current) (nullish history [])"

text \<open>The buttons of the current-subscription card, and the enrolment button in its place.\<close>

datatype sub_action = ActEnroll | ActFreeze | ActUnfreeze | ActRenew | ActChangePlan | ActCancel

definition card_actions :: "subscription_status \<Rightarrow> sub_action list" where
  "card_actions status =
     (if status = SS_active then [ActFreeze] else [])
     @ (if status = SS_frozen then [ActUnfreeze] else [])
     @ (if status = SS_active \<or> status = SS_expired then [ActRenew] else [])
     @ (if status = SS_active \<or> status = SS_frozen then [ActChangePlan] else [])
     @ (if status \<noteq> SS_cancelled \<and> status \<noteq> SS_replaced then [ActCancel] else [])"

definition section_actions :: "bool \<Rightarrow> subscription option \<Rightarrow> sub_action list" where
  "section_actions canMutate current =
     (if \<not> canMutate then []
      else case current of None \<Rightarrow> [ActEnroll] | Some s \<Rightarrow> card_actions (s_status s))"

fun action_dialog :: "sub_action \<Rightarrow> sub_dialog option" where
  "action_dialog ActEnroll = Some enroll_init"
| "action_dialog ActFreeze = Some (FreezeDialog [])"
| "action_dialog ActUnfreeze = None"
| "action_dialog ActRenew = Some renew_init"
| "action_dialog ActChangePlan = Some (ChangePlanDialog [] [])"
| "action_dialog ActCancel = Some (CancelDialog [] [])"

datatype sub_event = ClickAction sub_action | EditField sub_field | SubmitDialog | CloseDialog
  | DialogSettled "thrown option" | UnfreezeSettled "thrown option"

fun sub_step ::
  "user option \<Rightarrow> string \<Rightarrow> subscription option \<Rightarrow> sub_event \<Rightarrow> sub_section \<Rightarrow> sub_section \<times> mutation_hook list" where
  "sub_step user memberId current (ClickAction a) st =
     (if a \<notin> set (section_actions (sub_canMutate user) current) then (st, [])
      else if a = ActUnfreeze then
        (case current of
           Some s \<Rightarrow> if isPending (ss_unfreeze st) then (st, [])
                     else (st\<lparr>ss_unfreeze := MPending\<rparr>, [UseUnfreezeSubscription (s_id s)])
         | None \<Rightarrow> (st, []))
      else (st\<lparr>ss_dialog := action_dialog a, ss_mutation := MIdle\<rparr>, []))"
| "sub_step user memberId current (EditField x) st = (st\<lparr>ss_dialog := map_option (set_field x) (ss_dialog st)\<rparr>, [])"
| "sub_step user memberId current SubmitDialog st =
     (case ss_dialog st of
        None \<Rightarrow> (st, [])
      | Some d \<Rightarrow>
         if isPending (ss_mutation st) \<or> \<not> submits d then (st, [])
         else (case dialog_request memberId current d of
             None \<Rightarrow> (st, [])
           | Some r \<Rightarrow> (st\<lparr>ss_mutation := MPending\<rparr>, [r])))"
| "sub_step user memberId current CloseDialog st = (st\<lparr>ss_dialog := None, ss_mutation := MIdle\<rparr>, [])"
| "sub_step user memberId current (DialogSettled err) st =
     (if isPending (ss_mutation st)
      then (case err of None \<Rightarrow> st\<lparr>ss_dialog := None, ss_mutation := MIdle\<rparr> | Some e \<Rightarrow> st\<lparr>ss_mutation := MFailed e\<rparr>, [])
      else (st, []))"
| "sub_step user memberId current (UnfreezeSettled err) st = (st\<lparr>ss_unfreeze := settled_state err\<rparr>, [])"

lemma current_live: "live_of subs = Some s \<Longrightarrow> is_live (s_status s) \<and> s \<in> set subs"
  by (auto simp: live_of_def is_live_def dest!: find_Some_mem)

lemma no_current: "live_of subs = None \<longleftrightarrow> \<not> list_ex (\<lambda>s. is_live (s_status s)) subs"
  by (auto simp: live_of_def is_live_def find_None_iff list_ex_iff)

text \<open>On its own, the card's buttons are exactly the server's guards.\<close>

lemma card_matches_guards:
  "ActFreeze \<in> set (card_actions s) \<longleftrightarrow> can_freeze s"
  "ActUnfreeze \<in> set (card_actions s) \<longleftrightarrow> can_unfreeze s"
  "ActRenew \<in> set (card_actions s) \<longleftrightarrow> can_renew s"
  "ActChangePlan \<in> set (card_actions s) \<longleftrightarrow> can_change_plan s"
  "ActCancel \<in> set (card_actions s) \<longleftrightarrow> can_cancel s"
  "ActEnroll \<notin> set (card_actions s)"
  by (cases s; simp add: card_actions_def guard_defs)+

section \<open>What the section may ask for\<close>

text \<open>
  The setting of the page: \<open>plans\<close> are the gym's plans, of which the pickers offer the active ones;
  \<open>subs\<close> are the member's subscriptions, each on a plan of the gym.
\<close>

definition gym_ok :: "string \<Rightarrow> membership_plan list \<Rightarrow> subscription list \<Rightarrow> bool" where
  "gym_ok tenant plans subs \<longleftrightarrow> distinct (map p_id plans) \<and> list_all (\<lambda>p. p_tenant_id p = tenant) plans
     \<and> list_all (\<lambda>s. s_tenant_id s = tenant \<and> s_plan_id s \<in> p_id ` set plans) subs"

definition offered :: "membership_plan list \<Rightarrow> string list" where
  "offered plans = map p_id (filter p_is_active plans)"

definition sub_possible :: "membership_plan list \<Rightarrow> subscription list \<Rightarrow> sub_event \<Rightarrow> bool" where
  "sub_possible plans subs e \<longleftrightarrow> (case e of
     EditField (SetPlan x) \<Rightarrow> x = [] \<or> x \<in> set (offered plans)
   | EditField (SetNewPlan x) \<Rightarrow> x = [] \<or> (case live_of subs of None \<Rightarrow> False
       | Some s \<Rightarrow> x \<in> p_id ` set (candidatePlans (Some (filter p_is_active plans)) (s_plan_id s)))
   | _ \<Rightarrow> True)"

text \<open>A dialog that is open belongs to a button the card offers, and its plan to its picker.\<close>

fun dialog_inv :: "membership_plan list \<Rightarrow> subscription option \<Rightarrow> sub_dialog \<Rightarrow> bool" where
  "dialog_inv plans None (EnrollDialog f) \<longleftrightarrow> en_planId f = [] \<or> en_planId f \<in> set (offered plans)"
| "dialog_inv plans None _ \<longleftrightarrow> False"
| "dialog_inv plans (Some s) (EnrollDialog f) \<longleftrightarrow> False"
| "dialog_inv plans (Some s) (FreezeDialog _) \<longleftrightarrow> can_freeze (s_status s)"
| "dialog_inv plans (Some s) (RenewDialog _) \<longleftrightarrow> can_renew (s_status s)"
| "dialog_inv plans (Some s) (ChangePlanDialog p _) \<longleftrightarrow> can_change_plan (s_status s)
     \<and> (p = [] \<or> p \<in> set (offered plans) \<and> p \<noteq> s_plan_id s)"
| "dialog_inv plans (Some s) (CancelDialog _ _) \<longleftrightarrow> can_cancel (s_status s)"

definition section_inv :: "membership_plan list \<Rightarrow> subscription list \<Rightarrow> sub_section \<Rightarrow> bool" where
  "section_inv plans subs st \<longleftrightarrow> (\<forall>d. ss_dialog st = Some d \<longrightarrow> dialog_inv plans (live_of subs) d)"

text \<open>A request the server grants: one rule per operation.\<close>

inductive sub_accepted ::
  "string \<Rightarrow> membership_plan list \<Rightarrow> subscription list \<Rightarrow> string \<Rightarrow> mutation_hook \<Rightarrow> bool"
  for tenant plans subs memberId where
  enroll: "server_enroll tenant plans subs memberId (en_planId f) = Inr SS_active \<Longrightarrow>
    sub_accepted tenant plans subs memberId (UseCreateSubscription (enroll_body memberId f))"
| freeze: "live_of subs = Some s \<Longrightarrow> server_sub_op plans s OpFreeze = Inr SS_frozen \<Longrightarrow>
    sub_accepted tenant plans subs memberId (UseFreezeSubscription (s_id s) (freeze_body u))"
| unfreeze: "live_of subs = Some s \<Longrightarrow> server_sub_op plans s OpUnfreeze = Inr SS_active \<Longrightarrow>
    sub_accepted tenant plans subs memberId (UseUnfreezeSubscription (s_id s))"
| renew: "live_of subs = Some s \<Longrightarrow> server_sub_op plans s OpRenew = Inr SS_active \<Longrightarrow>
    sub_accepted tenant plans subs memberId (UseRenewSubscription (s_id s) (renew_body (s_payment_method s) g))"
| change: "live_of subs = Some s \<Longrightarrow> server_sub_op plans s (OpChangePlan p) = Inr SS_replaced \<Longrightarrow>
    sub_accepted tenant plans subs memberId (UseChangePlan (s_id s) (change_body p e))"
| cancel: "live_of subs = Some s \<Longrightarrow> server_sub_op plans s OpCancel = Inr SS_cancelled \<Longrightarrow>
    sub_accepted tenant plans subs memberId (UseCancelSubscription (s_id s) (cancel_body x d))"

text \<open>Lookups by id succeed for what the pickers offer.\<close>

lemma plan_offered:
  assumes "gym_ok tenant plans subs" "x \<in> set (offered plans)"
  obtains p where "List.find (\<lambda>p. p_id p = x) plans = Some p" "p_is_active p" "p_tenant_id p = tenant"
proof -
  from assms(2) obtain p where p: "p \<in> set plans" "p_is_active p" "p_id p = x" by (auto simp: offered_def)
  with assms(1) have "List.find (\<lambda>q. p_id q = x) plans = Some p" "p_tenant_id p = tenant"
    using find_by_key [of p_id plans p] by (auto simp: gym_ok_def list_all_iff)
  with p that show thesis by blast
qed

lemma plan_of_sub:
  assumes "gym_ok tenant plans subs" "s \<in> set subs"
  shows "List.find (\<lambda>p. p_id p = s_plan_id s) plans \<noteq> None"
proof -
  from assms have "s_plan_id s \<in> p_id ` set plans" by (simp add: gym_ok_def list_all_iff)
  then show ?thesis by (auto simp: find_None_iff)
qed

lemma dialog_inv_field:
  "sub_possible plans subs (EditField x) \<Longrightarrow> dialog_inv plans (live_of subs) d \<Longrightarrow>
   dialog_inv plans (live_of subs) (set_field x d)"
  by (cases d; cases x; cases "live_of subs")
    (auto simp: sub_possible_def offered_def candidatePlans_def nullish_def)

lemma dialog_inv_action:
  "a \<in> set (section_actions canMutate current) \<Longrightarrow> action_dialog a = Some d \<Longrightarrow> dialog_inv plans current d"
  by (cases a; cases current)
    (auto simp: section_actions_def card_matches_guards enroll_init_def renew_init_def split: if_splits)

lemma section_inv_step:
  assumes "sub_possible plans subs e" "section_inv plans subs st"
  shows "section_inv plans subs (fst (sub_step user memberId (live_of subs) e st))"
proof (cases e)
  case (ClickAction a)
  with assms dialog_inv_action [of a "sub_canMutate user" "live_of subs"] show ?thesis
    by (cases "live_of subs") (auto simp: section_inv_def)
next
  case (EditField x)
  with assms dialog_inv_field show ?thesis by (auto simp: section_inv_def)
next
  case SubmitDialog
  with assms show ?thesis by (auto simp: section_inv_def split: option.splits)
next
  case (DialogSettled err)
  with assms show ?thesis by (auto simp: section_inv_def split: option.splits)
qed (use assms in \<open>auto simp: section_inv_def\<close>)

lemma enroll_accepted:
  assumes "gym_ok tenant plans subs" "live_of subs = None" "en_planId f \<in> set (offered plans)"
  shows "server_enroll tenant plans subs m (en_planId f) = Inr SS_active"
proof -
  obtain p where "List.find (\<lambda>p. p_id p = en_planId f) plans = Some p" "p_is_active p" "p_tenant_id p = tenant"
    using plan_offered [OF assms(1,3)] by blast
  with assms(2) show ?thesis by (simp add: server_enroll_def no_current)
qed

lemma change_accepted:
  assumes "gym_ok tenant plans subs" "s \<in> set subs" "can_change_plan (s_status s)" "x \<in> set (offered plans)"
    "x \<noteq> s_plan_id s"
  shows "server_sub_op plans s (OpChangePlan x) = Inr SS_replaced"
proof -
  from assms(1,2) have "s_tenant_id s = tenant" by (simp add: gym_ok_def list_all_iff)
  moreover obtain p where "List.find (\<lambda>p. p_id p = x) plans = Some p" "p_is_active p" "p_tenant_id p = tenant"
    using plan_offered [OF assms(1,4)] by blast
  ultimately show ?thesis using assms(3,5) by simp
qed

lemma dialog_accepted:
  assumes gym: "gym_ok tenant plans subs" and d: "dialog_inv plans (live_of subs) d"
    and r: "dialog_request memberId (live_of subs) d = Some r"
  shows "sub_accepted tenant plans subs memberId r"
proof (cases "live_of subs")
  case None
  with d r obtain f where "en_planId f \<in> set (offered plans)" "r = UseCreateSubscription (enroll_body memberId f)"
    by (cases d) (auto split: if_splits)
  with enroll_accepted [OF gym None] show ?thesis by (blast intro: sub_accepted.enroll)
next
  case (Some s)
  then have s: "s \<in> set subs" by (simp add: current_live)
  note plan = plan_of_sub [OF gym s]
  show ?thesis
  proof (cases d)
    case (ChangePlanDialog p e)
    with d r Some have "can_change_plan (s_status s)" "p \<in> set (offered plans)" "p \<noteq> s_plan_id s"
      and req: "r = UseChangePlan (s_id s) (change_body p e)" by (simp_all split: if_splits)
    from change_accepted [OF gym s this(1-3)] show ?thesis unfolding req by (rule sub_accepted.change [OF Some])
  next
    case (FreezeDialog u)
    with d r Some show ?thesis by (auto simp: guarded_def intro: sub_accepted.freeze)
  next
    case (RenewDialog f)
    with d r Some plan show ?thesis by (auto intro: sub_accepted.renew)
  next
    case (CancelDialog x y)
    with d r Some show ?thesis by (auto simp: guarded_def intro: sub_accepted.cancel)
  qed (use d Some in simp)
qed

lemma sub_good_step:
  assumes "gym_ok tenant plans subs" "section_inv plans subs st"
    "r \<in> set (snd (sub_step user memberId (live_of subs) e st))"
  shows "sub_accepted tenant plans subs memberId r"
proof (cases e)
  case (ClickAction a)
  with assms(3) obtain s where "live_of subs = Some s" "ActUnfreeze \<in> set (card_actions (s_status s))"
    and req: "r = UseUnfreezeSubscription (s_id s)"
    by (auto simp: section_actions_def split: if_splits option.splits)
  then show ?thesis unfolding req by (intro sub_accepted.unfreeze) (simp_all add: card_matches_guards guarded_def)
next
  case SubmitDialog
  with assms(3) obtain d where "ss_dialog st = Some d" "dialog_request memberId (live_of subs) d = Some r"
    by (auto split: option.splits if_splits)
  with assms(2) dialog_accepted [OF assms(1)] show ?thesis unfolding section_inv_def by blast
qed (use assms(3) in \<open>auto split: if_splits option.splits\<close>)

text \<open>A dialog that is closed takes its hook along; the hook of the button that ends a freeze stays.\<close>

definition is_unfreeze :: "mutation_hook \<Rightarrow> bool" where
  "is_unfreeze r \<longleftrightarrow> (\<exists>i. r = UseUnfreezeSubscription i)"

lemma dialog_not_unfreeze: "dialog_request memberId current d = Some r \<Longrightarrow> \<not> is_unfreeze r"
  by (cases d; cases current) (auto simp: is_unfreeze_def split: if_splits)

interpretation sub_dialog: single_flight "sub_step user memberId current" "\<lambda>_. True" "\<lambda>r. \<not> is_unfreeze r"
  "\<lambda>e. e = CloseDialog \<or> (\<exists>a. e = ClickAction a) \<or> (\<exists>err. e = DialogSettled err)"
  "\<lambda>st. isPending (ss_mutation st)" for user memberId current
  by (unfold_locales, goal_cases) (case_tac e; auto simp: is_unfreeze_def split: option.splits if_splits)+

interpretation sub_unfreeze: single_flight "sub_step user memberId current" "\<lambda>_. True" is_unfreeze
  "\<lambda>e. \<exists>err. e = UnfreezeSettled err" "\<lambda>st. isPending (ss_unfreeze st)" for user memberId current
  by (unfold_locales, goal_cases)
    (case_tac e; auto simp: dialog_not_unfreeze is_unfreeze_def split: option.splits if_splits dest: dialog_not_unfreeze)+

interpretation sub_section: ui_machine "sub_step user memberId (live_of subs)" sub_section_init
    "\<lambda>e. gym_ok tenant plans subs \<and> sub_possible plans subs e" "section_inv plans subs"
    "sub_accepted tenant plans subs memberId"
  for user memberId subs tenant plans
proof
  show "section_inv plans subs sub_section_init" by (simp add: section_inv_def sub_section_init_def)
qed (use section_inv_step sub_good_step in blast)+

text \<open>C4: whatever is clicked, typed and submitted in the section, every request it starts passes the checks
  of the service: freeze, unfreeze, renewal, plan change and cancellation only in the statuses the
  guards allow, an enrolment only for a member without a live subscription, and plans only from the
  gym's active ones, never the current one. What the constraints of the table then refuse is the
  subject of \<^verbatim>\<open>Lifecycle\<close>.\<close>

theorem sub_requests_accepted:
  assumes "gym_ok tenant plans subs" "list_all (sub_possible plans subs) es"
    and "r \<in> set (snd (ui_run (sub_step user memberId (live_of subs)) es sub_section_init))"
  shows "sub_accepted tenant plans subs memberId r"
proof (rule sub_section.run_good)
  show "list_all (\<lambda>e. gym_ok tenant plans subs \<and> sub_possible plans subs e) es"
    using assms(1,2) by (simp add: list_all_iff)
qed (rule assms(3))

definition sample_sub :: "subscription_status \<Rightarrow> subscription" where
  "sample_sub st = \<lparr>s_cancellation_reason = None, s_cancelled_at = None, s_created_at = [], s_currency = ''ILS'',
     s_expired_at = None, s_expires_at = None, s_frozen_at = None, s_frozen_until = None, s_id = ''s1'', s_member_id = ''m1'',
     s_payment_method = PM_cash, s_payment_method_detail = None, s_plan_id = ''p1'', s_price_cents = 25000,
     s_replaced_at = None, s_replaced_by_id = None, s_started_at = ''2026-01-01'', s_status = st, s_tenant_id = ''t1'',
     s_updated_at = []\<rparr>"

definition gym_plan :: "string \<Rightarrow> membership_plan" where
  "gym_plan i = \<lparr>p_billing_period = BP_monthly, p_created_at = [], p_currency = ''ILS'', p_custom_attrs = [],
     p_description = None, p_duration_days = None, p_entitlements = [], p_id = i, p_is_active = True, p_name = i,
     p_price_cents = 25000, p_tenant_id = ''t1'', p_type = PT_recurring, p_updated_at = []\<rparr>"

theorem sub_requests_accepted_witness:
  "UseChangePlan ''s1'' (change_body ''p2'' []) \<in> set (snd (ui_run (sub_step (Some (sample_user R_staff)) ''m1''
       (live_of [sample_sub SS_frozen]))
     [ClickAction ActChangePlan, EditField (SetNewPlan ''p2''), SubmitDialog] sub_section_init))
   \<and> sub_accepted ''t1'' [gym_plan ''p1'', gym_plan ''p2''] [sample_sub SS_frozen] ''m1''
       (UseChangePlan ''s1'' (change_body ''p2'' []))"
proof (rule context_conjI)
  show "UseChangePlan ''s1'' (change_body ''p2'' []) \<in> set (snd (ui_run (sub_step (Some (sample_user R_staff)) ''m1''
       (live_of [sample_sub SS_frozen]))
     [ClickAction ActChangePlan, EditField (SetNewPlan ''p2''), SubmitDialog] sub_section_init))"
    by (simp add: Let_def live_of_def sample_sub_def section_actions_def card_actions_def sub_canMutate_def
        sample_user_def sub_section_init_def)
  then show "sub_accepted ''t1'' [gym_plan ''p1'', gym_plan ''p2''] [sample_sub SS_frozen] ''m1''
       (UseChangePlan ''s1'' (change_body ''p2'' []))"
    by (rule sub_requests_accepted [rotated 2])
      (simp_all add: gym_ok_def gym_plan_def sample_sub_def sub_possible_def live_of_def candidatePlans_def nullish_def)
qed

text \<open>The renewal of a lapsed subscription that the card and the server both allow cannot be
  reached: the section only shows live subscriptions, so for a member whose subscriptions have all
  ended every request it can start is a new enrolment.\<close>

lemma lapsed_cannot_renew:
  assumes "gym_ok tenant plans subs" "live_of subs = None" "s \<in> set subs" "s_status s = SS_expired"
  shows "ActRenew \<in> set (card_actions (s_status s)) \<and> server_sub_op plans s OpRenew = Inr SS_active
    \<and> list_all (\<lambda>r. \<exists>f. r = UseCreateSubscription (enroll_body memberId f))
        (snd (ui_run (sub_step user memberId (live_of subs)) es st))"
proof (intro conjI)
  show "ActRenew \<in> set (card_actions (s_status s))" using assms(4) by (simp add: card_actions_def)
  show "server_sub_op plans s OpRenew = Inr SS_active"
    using plan_of_sub [OF assms(1,3)] assms(4) by (simp add: can_renew_def)
  have request: "\<exists>f. r = UseCreateSubscription (enroll_body memberId f)"
    if "dialog_request memberId None d = Some r" for d r
    using that by (cases d) (auto split: if_splits)
  have "list_all (\<lambda>r. \<exists>f. r = UseCreateSubscription (enroll_body memberId f)) (snd (sub_step user memberId None e st))" for e st
    using request by (cases e) (auto split: option.splits)
  then show "list_all (\<lambda>r. \<exists>f. r = UseCreateSubscription (enroll_body memberId f))
        (snd (ui_run (sub_step user memberId (live_of subs)) es st))"
    unfolding assms(2) by (induction es arbitrary: st) (simp_all add: Let_def split_beta)
qed

lemma lapsed_cannot_renew_witness:
  "server_sub_op [gym_plan ''p1''] (sample_sub SS_expired) OpRenew = Inr SS_active
   \<and> list_all (\<lambda>r. \<exists>f. r = UseCreateSubscription (enroll_body ''m1'' f))
        (snd (ui_run (sub_step (Some (sample_user R_owner)) ''m1'' (live_of [sample_sub SS_expired]))
          [ClickAction ActRenew, SubmitDialog] sub_section_init))"
proof -
  have "gym_ok ''t1'' [gym_plan ''p1''] [sample_sub SS_expired]" "live_of [sample_sub SS_expired] = None"
    "s_status (sample_sub SS_expired) = SS_expired"
    by (simp_all add: gym_ok_def gym_plan_def sample_sub_def live_of_def)
  from lapsed_cannot_renew [OF this(1,2) _ this(3)] show ?thesis by (simp only: list.set_intros)
qed

text \<open>The enrolment sends no expiry date with a standing order, and a free text typed for one
  payment method stays in the form when the method is changed and is sent with the other one, although
  its field is no longer shown.\<close>

lemma enroll_hidden_detail:
  assumes "en_planId f \<noteq> []" "detail_field_shown f" "trim t \<noteq> []"
  shows "dialog_request memberId current (set_field (SetMethod m) (set_field (SetDetail t) (EnrollDialog f))) =
    Some (UseCreateSubscription (JObj [(''member_id'', JStr memberId), (''plan_id'', JStr (en_planId f)),
      (''started_at'', jopt JStr (or_null (en_startedAt f))),
      (''expires_at'', if m = PM_standing_order then JNull else jopt JStr (or_null (en_expiresAt f))),
      (''payment_method'', JStr (payment_method_text m)),
      (''payment_method_detail'', JStr (trim t))]))"
  using assms by (simp add: enroll_body_def jopt_def or_null_def)

lemma enroll_hidden_detail_witness:
  "dialog_request ''m1'' None (set_field (SetMethod PM_cash) (set_field (SetDetail ''Visa 1234'')
     (set_field (SetMethod PM_credit_card) (set_field (SetPlan ''p1'') enroll_init)))) =
   Some (UseCreateSubscription (JObj [(''member_id'', JStr ''m1''), (''plan_id'', JStr ''p1''), (''started_at'', JNull),
     (''expires_at'', JNull), (''payment_method'', JStr ''cash''), (''payment_method_detail'', JStr ''Visa 1234'')]))"
proof -
  let ?f = "\<lparr>en_planId = ''p1'', en_startedAt = [], en_expiresAt = [], en_paymentMethod = PM_credit_card, en_paymentDetail = []\<rparr>"
  have t: "trim ''Visa 1234'' = ''Visa 1234''" by (simp add: trim_def is_ws_def)
  have f: "set_field (SetMethod PM_credit_card) (set_field (SetPlan ''p1'') enroll_init) = EnrollDialog ?f"
    by (simp add: enroll_init_def)
  show ?thesis
    using enroll_hidden_detail [of ?f "''Visa 1234''" "''m1''" None PM_cash]
    by (simp add: f t detail_field_shown_def jopt_def or_null_def del: set_field.simps)
qed

section \<open>Labels\<close>

text \<open>The card's payment line: the method's label, with the detail unless it is blank.\<close>

definition formatPaymentMethod :: "payment_method \<Rightarrow> string option \<Rightarrow> payment_method \<times> string option" where
  "formatPaymentMethod method detail = (case detail of
     None \<Rightarrow> (method, None)
   | Some d \<Rightarrow> if d \<noteq> [] \<and> length (trim d) > 0 then (method, Some d) else (method, None))"

definition PAYMENT_METHOD_OPTIONS :: "payment_method list" where
  "PAYMENT_METHOD_OPTIONS = [PM_cash, PM_credit_card, PM_standing_order, PM_other]"

lemma all_methods: "m \<in> set PAYMENT_METHOD_OPTIONS"
  by (cases m) (simp_all add: PAYMENT_METHOD_OPTIONS_def)

text \<open>The pills of a timeline entry. A number of the event data may be any JSON value.\<close>

datatype pill = DaysLate int | ReasonLabel string | AutomaticLabel

definition cancellationReasonLabel :: "string \<Rightarrow> string option" where
  "cancellationReasonLabel key = (if key \<in> set REASON_OPTIONS then Some key else None)"

definition late_pill :: "subscription_event \<Rightarrow> pill list" where
  "late_pill ev = (if se_event_type ev = SE_renewed then
      (case map_of (se_event_data ev) ''days_late'' of Some (JNum n) \<Rightarrow> if n > 0 then [DaysLate n] else [] | _ \<Rightarrow> [])
    else [])"

definition reason_pill :: "subscription_event \<Rightarrow> pill list" where
  "reason_pill ev = (if se_event_type ev = SE_cancelled then
      (case map_of (se_event_data ev) ''reason'' of
         Some (JStr key) \<Rightarrow> (case cancellationReasonLabel key of Some l \<Rightarrow> [ReasonLabel l] | None \<Rightarrow> [])
       | _ \<Rightarrow> [])
    else [])"

definition pills :: "subscription_event \<Rightarrow> pill list" where
  "pills ev = late_pill ev @ reason_pill ev @ (if se_created_by ev = None then [AutomaticLabel] else [])"

lemma at_most_two_pills: "length (pills ev) \<le> 2"
  by (cases "se_event_type ev") (auto simp: pills_def late_pill_def reason_pill_def split: option.splits json.splits)

end
