(* ===== verification/PlanForms.thy ===== *)
theory PlanForms
  imports QueryHooks ServerErrors JsNumber UiMachine
begin

text \<open>
  The plan editor, \<^verbatim>\<open>features/plans/PlanForm.tsx\<close>, against the shape rules of the server:
  \<open>CreatePlanRequest\<close> of \<^verbatim>\<open>backend/app/api/v1/plans/schemas.py\<close> and \<open>_validate_plan_shape\<close> and
  \<open>_validate_entitlements\<close> of \<^verbatim>\<open>backend/app/services/membership_plan_service.py\<close>.
\<close>

section \<open>The form\<close>

record ent_input =
  ei_class_id :: "string option"
  ei_quantity :: "int option"
  ei_reset_period :: reset_period

text \<open>The state of the form: the values of \<open>form\<close> and the price text.\<close>

record plan_form =
  pn_name :: string
  pn_description :: string
  pn_type :: plan_type
  pn_currency :: string
  pn_billing_period :: billing_period
  pn_duration_days :: "int option"
  pn_custom_attrs :: "(string \<times> json) list"
  pn_entitlements :: "ent_input list"
  pn_priceShekels :: num_text

definition ent_of :: "plan_entitlement \<Rightarrow> ent_input" where
  "ent_of e = \<lparr>ei_class_id = pe_class_id e, ei_quantity = pe_quantity e, ei_reset_period = pe_reset_period e\<rparr>"

definition plan_form_init :: "membership_plan option \<Rightarrow> plan_form" where
  "plan_form_init initial = (case initial of
     None \<Rightarrow> \<lparr>pn_name = [], pn_description = [], pn_type = PT_recurring, pn_currency = ''ILS'',
        pn_billing_period = BP_monthly, pn_duration_days = None, pn_custom_attrs = [], pn_entitlements = [],
        pn_priceShekels = EmptyText\<rparr>
   | Some p \<Rightarrow> \<lparr>pn_name = p_name p, pn_description = nullish (p_description p) [], pn_type = p_type p,
        pn_currency = p_currency p, pn_billing_period = p_billing_period p, pn_duration_days = p_duration_days p,
        pn_custom_attrs = p_custom_attrs p, pn_entitlements = map ent_of (p_entitlements p),
        pn_priceShekels = Printed (shekels (p_price_cents p))\<rparr>)"

definition setType :: "plan_type \<Rightarrow> plan_form \<Rightarrow> plan_form" where
  "setType newType f = f\<lparr>pn_type := newType,
     pn_billing_period := (if newType = PT_one_time then BP_one_time else BP_monthly),
     pn_duration_days := (if newType = PT_one_time then Some (nullish (pn_duration_days f) 30) else None)\<rparr>"

text \<open>The builder of the entitlement rows.\<close>

definition updateRow :: "nat \<Rightarrow> (ent_input \<Rightarrow> ent_input) \<Rightarrow> ent_input list \<Rightarrow> ent_input list" where
  "updateRow idx patch rows = map (\<lambda>(i, row). if i = idx then patch row else row) (zip [0..<length rows] rows)"

definition addRow :: "ent_input list \<Rightarrow> ent_input list" where
  "addRow rows = rows @ [\<lparr>ei_class_id = None, ei_quantity = Some 1, ei_reset_period = RP_weekly\<rparr>]"

definition removeRow :: "nat \<Rightarrow> ent_input list \<Rightarrow> ent_input list" where
  "removeRow idx rows = map snd (filter (\<lambda>(i, row). i \<noteq> idx) (zip [0..<length rows] rows))"

definition setReset :: "reset_period \<Rightarrow> ent_input \<Rightarrow> ent_input" where
  "setReset reset row =
     (if reset = RP_unlimited then row\<lparr>ei_reset_period := reset, ei_quantity := None\<rparr>
      else row\<lparr>ei_reset_period := reset, ei_quantity := Some (nullish (ei_quantity row) 1)\<rparr>)"

definition class_options :: "gym_class list \<Rightarrow> ent_input \<Rightarrow> gym_class list" where
  [view_defs]: "class_options classes row = filter (\<lambda>c. gc_is_active c \<or> Some (gc_id c) = ei_class_id row) classes"

text \<open>
  The events of the form. The billing select is there for recurring plans only, the duration input for
  one-time plans only, and the quantity input for metered rows only; \<open>None\<close> is an emptied input.
\<close>

datatype plan_event = SetName string | SetDescription string | SetCurrency string | SetType plan_type
  | SetPrice num_text | SetBilling billing_period | SetDuration "int option"
  | AddRow | RemoveRow nat | RowClass nat "string option" | RowQuantity nat "int option" | RowReset nat reset_period

definition set_quantity :: "int option \<Rightarrow> ent_input \<Rightarrow> ent_input" where
  "set_quantity q row = (if ei_reset_period row = RP_unlimited then row else row\<lparr>ei_quantity := q\<rparr>)"

fun plan_step :: "plan_event \<Rightarrow> plan_form \<Rightarrow> plan_form" where
  "plan_step (SetName s) f = f\<lparr>pn_name := s\<rparr>"
| "plan_step (SetDescription s) f = f\<lparr>pn_description := s\<rparr>"
| "plan_step (SetCurrency s) f = f\<lparr>pn_currency := s\<rparr>"
| "plan_step (SetType t) f = setType t f"
| "plan_step (SetPrice t) f = f\<lparr>pn_priceShekels := t\<rparr>"
| "plan_step (SetBilling b) f =
     (if pn_type f = PT_recurring \<and> b \<noteq> BP_one_time then f\<lparr>pn_billing_period := b\<rparr> else f)"
| "plan_step (SetDuration d) f = (if pn_type f = PT_one_time then f\<lparr>pn_duration_days := d\<rparr> else f)"
| "plan_step AddRow f = f\<lparr>pn_entitlements := addRow (pn_entitlements f)\<rparr>"
| "plan_step (RemoveRow i) f = f\<lparr>pn_entitlements := removeRow i (pn_entitlements f)\<rparr>"
| "plan_step (RowClass i c) f =
     f\<lparr>pn_entitlements := updateRow i (\<lambda>row. row\<lparr>ei_class_id := c\<rparr>) (pn_entitlements f)\<rparr>"
| "plan_step (RowQuantity i q) f = f\<lparr>pn_entitlements := updateRow i (set_quantity q) (pn_entitlements f)\<rparr>"
| "plan_step (RowReset i r) f = f\<lparr>pn_entitlements := updateRow i (setReset r) (pn_entitlements f)\<rparr>"

text \<open>What \<open>handleSubmit\<close> hands to the page.\<close>

record plan_values =
  pv_name :: string
  pv_description :: "string option"
  pv_type :: plan_type
  pv_price_cents :: int
  pv_currency :: string
  pv_billing_period :: billing_period
  pv_duration_days :: "int option"
  pv_custom_attrs :: "(string \<times> json) list"
  pv_entitlements :: "ent_input list"

definition plan_handleSubmit :: "plan_form \<Rightarrow> plan_values" where
  "plan_handleSubmit f = \<lparr>pv_name = trim (pn_name f), pv_description = or_null (trim (pn_description f)),
     pv_type = pn_type f, pv_price_cents = text_agorot (pn_priceShekels f),
     pv_currency = (if pn_currency f = [] then ''ILS'' else pn_currency f),
     pv_billing_period = pn_billing_period f,
     pv_duration_days = (if pn_type f = PT_one_time then pn_duration_days f else None),
     pv_custom_attrs = pn_custom_attrs f, pv_entitlements = pn_entitlements f\<rparr>"

text \<open>
  What the browser checks before it submits: the required inputs, a price that is not negative, a
  duration and quantities of at least one, at most a hundred characters of name.
\<close>

definition row_valid :: "ent_input \<Rightarrow> bool" where
  "row_valid row \<longleftrightarrow> ei_reset_period row = RP_unlimited \<or>
     (case ei_quantity row of None \<Rightarrow> False | Some q \<Rightarrow> 1 \<le> q)"

definition plan_form_valid :: "plan_form \<Rightarrow> bool" where
  "plan_form_valid f \<longleftrightarrow> pn_name f \<noteq> [] \<and> length (pn_name f) \<le> 100
     \<and> pn_priceShekels f \<noteq> EmptyText \<and> 0 \<le> js_Number (pn_priceShekels f)
     \<and> (pn_type f = PT_one_time \<longrightarrow> (case pn_duration_days f of None \<Rightarrow> False | Some d \<Rightarrow> 1 \<le> d))
     \<and> list_all row_valid (pn_entitlements f)"

section \<open>The server's rules\<close>

definition schema_ok :: "plan_values \<Rightarrow> bool" where
  "schema_ok v \<longleftrightarrow> 1 \<le> length (pv_name v) \<and> length (pv_name v) \<le> 100 \<and> 0 \<le> pv_price_cents v
     \<and> length (pv_currency v) \<le> 10 \<and> (case pv_duration_days v of None \<Rightarrow> True | Some d \<Rightarrow> 0 < d)"

definition validate_plan_shape :: "plan_type \<Rightarrow> billing_period \<Rightarrow> int option \<Rightarrow> app_error option" where
  "validate_plan_shape type billing_period duration_days =
     (if type = PT_recurring then
        if duration_days \<noteq> None then Some (InvalidPlanShapeError ''recurring plans must not set duration_days'')
        else if billing_period = BP_one_time then Some (InvalidPlanShapeError ''recurring plans need a recurring billing_period'')
        else None
      else
        if duration_days = None then Some (InvalidPlanShapeError ''one_time plans require duration_days'')
        else if billing_period \<noteq> BP_one_time then Some (InvalidPlanShapeError ''one_time plans must use billing_period='')
        else None)"

definition validate_entitlement :: "string \<Rightarrow> gym_class list \<Rightarrow> ent_input \<Rightarrow> app_error option" where
  "validate_entitlement tenant classes e =
     (if ei_reset_period e = RP_unlimited \<and> ei_quantity e \<noteq> None
        then Some (InvalidPlanShapeError ''unlimited entitlements must not set quantity'')
      else if ei_reset_period e \<noteq> RP_unlimited \<and> ei_quantity e = None
        then Some (InvalidPlanShapeError ''metered entitlements require quantity'')
      else if (case ei_quantity e of None \<Rightarrow> False | Some q \<Rightarrow> q \<le> 0)
        then Some (InvalidPlanShapeError ''entitlement quantity must be > 0'')
      else (case ei_class_id e of None \<Rightarrow> None
        | Some i \<Rightarrow> (case List.find (\<lambda>c. gc_id c = i) classes of
             Some c \<Rightarrow> if gc_tenant_id c = tenant then None else Some (InvalidPlanShapeError i)
           | None \<Rightarrow> Some (InvalidPlanShapeError i))))"

fun validate_entitlements :: "string \<Rightarrow> gym_class list \<Rightarrow> ent_input list \<Rightarrow> app_error option" where
  "validate_entitlements tenant classes [] = None"
| "validate_entitlements tenant classes (e # es) =
     (case validate_entitlement tenant classes e of
        Some err \<Rightarrow> Some err
      | None \<Rightarrow> validate_entitlements tenant classes es)"

text \<open>Creation and full replacement apply the same three checks.\<close>

definition server_plan_check :: "string \<Rightarrow> gym_class list \<Rightarrow> plan_values \<Rightarrow> app_error option" where
  "server_plan_check tenant classes v =
     (case validate_plan_shape (pv_type v) (pv_billing_period v) (pv_duration_days v) of
        Some err \<Rightarrow> Some err
      | None \<Rightarrow> validate_entitlements tenant classes (pv_entitlements v))"

lemma validate_entitlements_None:
  "validate_entitlements tenant classes es = None \<longleftrightarrow> list_all (\<lambda>e. validate_entitlement tenant classes e = None) es"
  by (induction es) (auto split: option.splits)

section \<open>The rows, by index\<close>

text \<open>\<open>updateRow\<close> and \<open>removeRow\<close> are the update and the removal at an index; outside the list they
  do nothing.\<close>

lemma zip_upt_nth: "zip [0..<length xs] xs = map (\<lambda>i. (i, xs ! i)) [0..<length xs]"
  by (rule nth_equalityI) simp_all

lemma updateRow_eq: "updateRow i g rows = (if i < length rows then rows[i := g (rows ! i)] else rows)"
  by (rule nth_equalityI) (auto simp: updateRow_def zip_upt_nth nth_list_update)

lemma length_updateRow [simp]: "length (updateRow i g rows) = length rows"
  by (simp add: updateRow_def)

lemma removeRow_Cons:
  "removeRow 0 (row # rows) = rows"
  "removeRow (Suc i) (row # rows) = row # removeRow i rows"
proof -
  have zip: "zip [0..<length (row # rows)] (row # rows) = (0, row) # map (\<lambda>(i, r). (Suc i, r)) (zip [0..<length rows] rows)"
    by (simp add: upt_conv_Cons map_Suc_upt [symmetric] zip_map1 del: upt_Suc)
  show "removeRow 0 (row # rows) = rows"
    by (simp add: removeRow_def zip filter_map o_def split_beta del: upt_Suc list.size)
  show "removeRow (Suc i) (row # rows) = row # removeRow i rows"
    by (simp add: removeRow_def zip filter_map o_def case_prod_unfold del: upt_Suc list.size)
qed

lemma removeRow_eq: "removeRow i rows = take i rows @ drop (Suc i) rows"
proof (induction rows arbitrary: i)
  case (Cons row rows)
  then show ?case by (cases i) (simp_all add: removeRow_Cons)
qed (simp add: removeRow_def)

lemma set_rows:
  "set (updateRow i g rows) \<subseteq> set rows \<union> g ` set rows"
  "set (removeRow i rows) \<subseteq> set rows"
  "set (addRow rows) = insert \<lparr>ei_class_id = None, ei_quantity = Some 1, ei_reset_period = RP_weekly\<rparr> (set rows)"
  by (auto simp: updateRow_eq removeRow_eq addRow_def dest!: set_update_subset_insert [THEN subsetD] in_set_takeD in_set_dropD)

lemma all_rows:
  "list_all P rows \<Longrightarrow> (\<And>row. P row \<Longrightarrow> P (g row)) \<Longrightarrow> list_all P (updateRow i g rows)"
  "list_all P rows \<Longrightarrow> list_all P (removeRow i rows)"
  "list_all P rows \<Longrightarrow> P \<lparr>ei_class_id = None, ei_quantity = Some 1, ei_reset_period = RP_weekly\<rparr> \<Longrightarrow> list_all P (addRow rows)"
  using set_rows(1) [of i g rows] set_rows(2) [of i rows] set_rows(3) [of rows] by (auto simp: list_all_iff)

section \<open>The shape is kept\<close>

definition row_shape :: "ent_input \<Rightarrow> bool" where
  "row_shape row \<longleftrightarrow> (ei_reset_period row = RP_unlimited \<longrightarrow> ei_quantity row = None)"

definition plan_shape :: "plan_form \<Rightarrow> bool" where
  "plan_shape f \<longleftrightarrow> (if pn_type f = PT_recurring then pn_duration_days f = None \<and> pn_billing_period f \<noteq> BP_one_time
     else pn_billing_period f = BP_one_time) \<and> list_all row_shape (pn_entitlements f)"

lemma row_shape_ops:
  "row_shape (setReset r row)" "row_shape row \<Longrightarrow> row_shape (set_quantity q row)"
  "row_shape row \<Longrightarrow> row_shape (row\<lparr>ei_class_id := c\<rparr>)"
  "row_shape \<lparr>ei_class_id = None, ei_quantity = Some 1, ei_reset_period = RP_weekly\<rparr>"
  by (simp_all add: row_shape_def setReset_def set_quantity_def)

lemma not_one_time [simp]: "t \<noteq> PT_one_time \<longleftrightarrow> t = PT_recurring"
  by (cases t) simp_all

lemma plan_shape_step: "plan_shape f \<Longrightarrow> plan_shape (plan_step e f)"
  by (cases e; cases "pn_type f")
    (auto simp: plan_shape_def setType_def intro!: all_rows row_shape_ops)

text \<open>What the server holds on a stored plan.\<close>

definition stored_plan :: "string \<Rightarrow> gym_class list \<Rightarrow> membership_plan \<Rightarrow> bool" where
  "stored_plan tenant classes p \<longleftrightarrow>
     validate_plan_shape (p_type p) (p_billing_period p) (p_duration_days p) = None
     \<and> list_all (\<lambda>e. validate_entitlement tenant classes (ent_of e) = None) (p_entitlements p)
     \<and> length (p_currency p) \<le> 10"

definition initial_ok :: "string \<Rightarrow> gym_class list \<Rightarrow> membership_plan option \<Rightarrow> bool" where
  "initial_ok tenant classes initial \<longleftrightarrow> (case initial of None \<Rightarrow> True | Some p \<Rightarrow> stored_plan tenant classes p)"

lemma stored_row_shape: "validate_entitlement tenant classes e = None \<Longrightarrow> row_shape e"
  by (auto simp: validate_entitlement_def row_shape_def split: if_splits)

lemma plan_shape_init: "initial_ok tenant classes initial \<Longrightarrow> plan_shape (plan_form_init initial)"
proof (cases initial)
  case (Some p)
  assume "initial_ok tenant classes initial"
  with Some have "stored_plan tenant classes p" by (simp add: initial_ok_def)
  then show ?thesis using Some stored_row_shape
    by (cases "p_type p") (auto simp: stored_plan_def plan_form_init_def plan_shape_def validate_plan_shape_def
        list_all_iff split: if_splits)
qed (simp add: plan_form_init_def plan_shape_def)

text \<open>The form keeps its values well shaped, whatever is edited in whatever order: a recurring
  plan never carries a duration nor the one-time billing period, a one-time plan always has the
  one-time billing period, and an unlimited entitlement never carries a quantity.\<close>

lemma plan_form_well_shaped:
  assumes "initial_ok tenant classes initial"
  shows "(let v = plan_handleSubmit (fold plan_step es (plan_form_init initial)) in
     (pv_type v = PT_recurring \<longrightarrow> pv_duration_days v = None \<and> pv_billing_period v \<noteq> BP_one_time)
   \<and> (pv_type v = PT_one_time \<longrightarrow> pv_billing_period v = BP_one_time)
   \<and> list_all (\<lambda>e. ei_reset_period e = RP_unlimited \<longrightarrow> ei_quantity e = None) (pv_entitlements v))"
proof -
  have "plan_shape (fold plan_step es (plan_form_init initial))"
    by (rule fold_invariant [where Q = "\<lambda>_. True"]) (simp_all add: plan_shape_step plan_shape_init [OF assms])
  then show ?thesis
    by (auto simp: plan_shape_def plan_handleSubmit_def row_shape_def list_all_iff Let_def split: if_splits)
qed

lemma plan_form_well_shaped_witness:
  "let v = plan_handleSubmit (fold plan_step [SetType PT_one_time, AddRow, RowReset 0 RP_unlimited, SetType PT_recurring]
       (plan_form_init None))
   in pv_duration_days v = None \<and> map ei_quantity (pv_entitlements v) = [None]
      \<and> pv_billing_period v = BP_monthly"
proof -
  let ?es = "[SetType PT_one_time, AddRow, RowReset 0 RP_unlimited, SetType PT_recurring]"
  let ?v = "plan_handleSubmit (fold plan_step ?es (plan_form_init None))"
  have init: "initial_ok ''t1'' [] None" by (simp add: initial_ok_def)
  have "pv_type ?v = PT_recurring" "map ei_reset_period (pv_entitlements ?v) = [RP_unlimited]" "pv_billing_period ?v = BP_monthly"
    by (simp_all add: plan_form_init_def setType_def addRow_def updateRow_def setReset_def plan_handleSubmit_def)
  moreover from this obtain e where "pv_entitlements ?v = [e]" "ei_reset_period e = RP_unlimited" by auto
  ultimately show ?thesis using plan_form_well_shaped [OF init, of ?es] unfolding Let_def by simp
qed

section \<open>What a valid form sends is a plan the server takes\<close>

text \<open>The class pickers only offer classes of the gym, the currency select three currencies.\<close>

definition class_known :: "string \<Rightarrow> gym_class list \<Rightarrow> ent_input \<Rightarrow> bool" where
  "class_known tenant classes row \<longleftrightarrow> (case ei_class_id row of None \<Rightarrow> True
     | Some i \<Rightarrow> (case List.find (\<lambda>c. gc_id c = i) classes of Some c \<Rightarrow> gc_tenant_id c = tenant | None \<Rightarrow> False))"

definition plan_possible :: "string \<Rightarrow> gym_class list \<Rightarrow> plan_event \<Rightarrow> bool" where
  "plan_possible tenant classes e \<longleftrightarrow> (case e of
     SetCurrency c \<Rightarrow> c \<in> {''ILS'', ''USD'', ''EUR''}
   | RowClass _ (Some i) \<Rightarrow> (case List.find (\<lambda>c. gc_id c = i) classes of Some c \<Rightarrow> gc_tenant_id c = tenant | None \<Rightarrow> False)
   | _ \<Rightarrow> True)"

definition plan_refs :: "string \<Rightarrow> gym_class list \<Rightarrow> plan_form \<Rightarrow> bool" where
  "plan_refs tenant classes f \<longleftrightarrow> length (pn_currency f) \<le> 10 \<and> list_all (class_known tenant classes) (pn_entitlements f)"

lemma class_known_ops:
  "class_known t cs row \<Longrightarrow> class_known t cs (setReset r row)"
  "class_known t cs row \<Longrightarrow> class_known t cs (set_quantity q row)"
  "class_known t cs \<lparr>ei_class_id = None, ei_quantity = Some 1, ei_reset_period = RP_weekly\<rparr>"
  by (simp_all add: class_known_def setReset_def set_quantity_def)

lemma plan_refs_step: "plan_possible t cs e \<Longrightarrow> plan_refs t cs f \<Longrightarrow> plan_refs t cs (plan_step e f)"
proof (cases e)
  case (RowClass i c)
  assume "plan_possible t cs e" "plan_refs t cs f"
  with RowClass have "class_known t cs (row\<lparr>ei_class_id := c\<rparr>)" for row
    by (cases c) (auto simp: plan_possible_def class_known_def)
  with \<open>plan_refs t cs f\<close> RowClass show ?thesis by (auto simp: plan_refs_def intro!: all_rows(1))
qed (auto simp: plan_refs_def plan_possible_def setType_def intro!: all_rows class_known_ops)

lemma stored_class_known: "validate_entitlement t cs e = None \<Longrightarrow> class_known t cs e"
  by (auto simp: validate_entitlement_def class_known_def split: if_splits option.splits)

lemma plan_refs_init: "initial_ok t cs initial \<Longrightarrow> plan_refs t cs (plan_form_init initial)"
  by (cases initial) (auto simp: initial_ok_def stored_plan_def plan_refs_def plan_form_init_def list_all_iff stored_class_known)

lemma row_accepted:
  "row_shape e \<Longrightarrow> row_valid e \<Longrightarrow> class_known t cs e \<Longrightarrow> validate_entitlement t cs e = None"
  by (auto simp: row_shape_def row_valid_def class_known_def validate_entitlement_def split: option.splits)

lemma text_agorot_nonneg: assumes "0 \<le> js_Number t" shows "0 \<le> text_agorot t"
proof -
  let ?y = "js_Number t * 100"
  have "\<bar>fl ?y - ?y\<bar> \<le> \<bar>?y\<bar> / 2 ^ 53" by (rule fl_error)
  also have "\<dots> \<le> ?y" using assms by simp
  finally have "0 \<le> fl ?y" by linarith
  then show ?thesis by (simp add: text_agorot_def agorot_def js_mul_def js_round_def)
qed

lemma trim_length: "length (trim s) \<le> length s"
proof -
  have "length (dropWhile is_ws (rev (dropWhile is_ws s))) \<le> length (dropWhile is_ws s)"
    by (metis length_dropWhile_le length_rev)
  also have "\<dots> \<le> length s" by (rule length_dropWhile_le)
  finally show ?thesis by (simp add: trim_def)
qed

text \<open>C25: whatever a user makes of a new plan or of a stored one, the plan that a form accepted by the
  browser submits passes the server's schema and shape rules, provided the name is not blank; and a
  price of two decimals is sent as exactly its agorot.\<close>

theorem plan_values_accepted:
  assumes "initial_ok tenant classes initial" "list_all (plan_possible tenant classes) es"
    and "f = fold plan_step es (plan_form_init initial)"
    and "plan_form_valid f" "trim (pn_name f) \<noteq> []"
  shows "schema_ok (plan_handleSubmit f) \<and> server_plan_check tenant classes (plan_handleSubmit f) = None
    \<and> (\<forall>c. pn_priceShekels f = Typed (of_int c / 100) \<and> \<bar>c\<bar> \<le> 10 ^ 15 \<longrightarrow> pv_price_cents (plan_handleSubmit f) = c)"
proof (intro conjI)
  have shape: "plan_shape f" unfolding assms(3)
    by (rule fold_invariant [where Q = "\<lambda>_. True"]) (simp_all add: plan_shape_step plan_shape_init [OF assms(1)])
  have refs: "plan_refs tenant classes f" unfolding assms(3)
    by (rule fold_invariant [where Q = "plan_possible tenant classes"])
      (use assms(2) in \<open>simp_all add: list_all_iff plan_refs_step plan_refs_init [OF assms(1)]\<close>)
  have price: "0 \<le> text_agorot (pn_priceShekels f)"
    using assms(4) by (intro text_agorot_nonneg) (simp add: plan_form_valid_def)
  show "schema_ok (plan_handleSubmit f)"
    using assms(4,5) refs price trim_length [of "pn_name f"]
    by (auto simp: schema_ok_def plan_handleSubmit_def plan_form_valid_def plan_refs_def Suc_le_eq split: option.splits)
  have rows: "list_all (\<lambda>e. validate_entitlement tenant classes e = None) (pn_entitlements f)"
    using shape refs assms(4) by (auto simp: plan_shape_def plan_refs_def plan_form_valid_def list_all_iff row_accepted)
  show "server_plan_check tenant classes (plan_handleSubmit f) = None"
    using shape assms(4) rows by (auto simp: server_plan_check_def plan_handleSubmit_def validate_plan_shape_def
        plan_shape_def plan_form_valid_def validate_entitlements_None split: option.splits)
  show "\<forall>c. pn_priceShekels f = Typed (of_int c / 100) \<and> \<bar>c\<bar> \<le> 10 ^ 15 \<longrightarrow> pv_price_cents (plan_handleSubmit f) = c"
    by (simp add: plan_handleSubmit_def text_agorot_typed)
qed

theorem plan_values_accepted_witness:
  "let f = fold plan_step [SetName ''Pass '', SetType PT_one_time, SetPrice (Typed (4500 / 100)), AddRow] (plan_form_init None)
   in schema_ok (plan_handleSubmit f) \<and> server_plan_check ''t1'' [] (plan_handleSubmit f) = None"
proof -
  let ?es = "[SetName ''Pass '', SetType PT_one_time, SetPrice (Typed (of_int 4500 / 100)), AddRow]"
  let ?f = "fold plan_step ?es (plan_form_init None)"
  have init: "initial_ok ''t1'' [] None" by (simp add: initial_ok_def)
  have es: "list_all (plan_possible ''t1'' []) ?es" by (simp add: plan_possible_def)
  have "0 \<le> fl 45"
  proof -
    have "\<bar>fl 45 - 45\<bar> \<le> \<bar>45\<bar> / 2 ^ 53" by (rule fl_error)
    also have "\<dots> \<le> 1" by simp
    finally show ?thesis by linarith
  qed
  then have valid: "plan_form_valid ?f"
    by (simp add: plan_form_valid_def plan_form_init_def setType_def addRow_def nullish_def js_Number_def row_valid_def)
  have name: "trim (pn_name ?f) \<noteq> []"
    by (simp add: plan_form_init_def setType_def addRow_def trim_def is_ws_def)
  from plan_values_accepted [OF init es refl valid name] show ?thesis unfolding Let_def by simp
qed

text \<open>An unchanged edit sends the stored plan back.\<close>

lemma plan_form_roundtrip:
  assumes "trim (p_name p) = p_name p" "p_description p = None \<or> (\<exists>d. p_description p = Some d \<and> d \<noteq> [] \<and> trim d = d)"
    "p_currency p \<noteq> []" "\<bar>p_price_cents p\<bar> \<le> 10 ^ 15" "p_type p = PT_recurring \<longrightarrow> p_duration_days p = None"
  shows "plan_handleSubmit (plan_form_init (Some p)) = \<lparr>pv_name = p_name p, pv_description = p_description p,
     pv_type = p_type p, pv_price_cents = p_price_cents p, pv_currency = p_currency p,
     pv_billing_period = p_billing_period p, pv_duration_days = p_duration_days p,
     pv_custom_attrs = p_custom_attrs p, pv_entitlements = map ent_of (p_entitlements p)\<rparr>"
  using assms by (cases "p_type p") (auto simp: plan_handleSubmit_def plan_form_init_def nullish_def or_null_def text_agorot_printed)

text \<open>The class query of the form only loads active classes, so the option for a row's own inactive
  class is never there: the select shows another option than the value it keeps.\<close>

lemma inactive_class_not_offered:
  "list_all gc_is_active classes \<Longrightarrow> c \<in> set (class_options classes row) \<Longrightarrow> gc_is_active c"
  by (auto simp: class_options_def list_all_iff)

end
