(* ===== verification/DataTable.thy ===== *)
theory DataTable
  imports Prelude
begin

text \<open>
  \<^verbatim>\<open>components/ui/data-table.tsx\<close>: which of its states the table shows, the columns of a mobile card
  and the actions of a row. A cell renderer is a function of the row.
\<close>

record ('row, 'cell) column =
  col_header :: string
  col_cell :: "'row \<Rightarrow> 'cell"
  col_primaryMobile :: bool
  col_hideOnMobile :: bool

record ('row, 'act) row_action =
  ra_label :: string
  ra_onClick :: "'row \<Rightarrow> 'act"
  ra_destructive :: bool
  ra_hidden :: "'row \<Rightarrow> bool"

section \<open>Mobile cards\<close>

text \<open>\<open>findIndex\<close> gives \<open>-1\<close> when no column is marked; then the first column is the title.\<close>

fun findIndex :: "('a \<Rightarrow> bool) \<Rightarrow> 'a list \<Rightarrow> int" where
  "findIndex p [] = -1"
| "findIndex p (x # xs) = (if p x then 0 else let i = findIndex p xs in if i = -1 then -1 else i + 1)"

definition primaryIdx :: "('row, 'cell) column list \<Rightarrow> nat" where
  "primaryIdx columns = (let i = findIndex col_primaryMobile columns in if i = -1 then 0 else nat i)"

definition rest_columns :: "('row, 'cell) column list \<Rightarrow> ('row, 'cell) column list" where
  "rest_columns columns =
     map snd (filter (\<lambda>(i, c). i \<noteq> primaryIdx columns \<and> \<not> col_hideOnMobile c) (zip [0..<length columns] columns))"

definition visible_actions :: "('row, 'act) row_action list \<Rightarrow> 'row \<Rightarrow> ('row, 'act) row_action list" where
  "visible_actions actions row = filter (\<lambda>a. \<not> ra_hidden a row) actions"

text \<open>A table without \<open>rowActions\<close> has no actions at all; one with none visible says so.\<close>

datatype 'act row_menu = NoMenu | ViewOnly | Menu "(string \<times> 'act) list"

definition row_menu :: "('row, 'act) row_action list option \<Rightarrow> 'row \<Rightarrow> 'act row_menu" where
  "row_menu rowActions row = (case rowActions of
     None \<Rightarrow> NoMenu
   | Some actions \<Rightarrow> (case visible_actions actions row of
        [] \<Rightarrow> ViewOnly
      | as \<Rightarrow> Menu (map (\<lambda>a. (ra_label a, ra_onClick a row)) as)))"

datatype ('cell, 'act) table_view = TableLoading | TableError | TableEmpty
  | Cards "('cell \<times> (string \<times> 'cell) list \<times> 'act row_menu) list"
  | Grid "(string list) \<times> ('cell list \<times> 'act row_menu) list"

definition mobile_card ::
  "('row, 'cell) column list \<Rightarrow> ('row, 'act) row_action list option \<Rightarrow> 'row \<Rightarrow> 'cell \<times> (string \<times> 'cell) list \<times> 'act row_menu" where
  "mobile_card columns rowActions row =
     (col_cell (columns ! primaryIdx columns) row,
      map (\<lambda>c. (col_header c, col_cell c row)) (rest_columns columns), row_menu rowActions row)"

definition table_row ::
  "('row, 'cell) column list \<Rightarrow> ('row, 'act) row_action list option \<Rightarrow> 'row \<Rightarrow> 'cell list \<times> 'act row_menu" where
  "table_row columns rowActions row = (map (\<lambda>c. col_cell c row) columns, row_menu rowActions row)"

definition dataTable ::
  "bool \<Rightarrow> bool \<Rightarrow> bool \<Rightarrow> ('row, 'cell) column list \<Rightarrow> ('row, 'act) row_action list option \<Rightarrow> 'row list option
    \<Rightarrow> ('cell, 'act) table_view" where
  "dataTable isMobile isLoading error columns rowActions data =
     (if isLoading then TableLoading
      else if error then TableError
      else (case data of
          None \<Rightarrow> TableEmpty
        | Some rows \<Rightarrow>
           if rows = [] then TableEmpty
           else if isMobile then Cards (map (mobile_card columns rowActions) rows)
           else Grid (map col_header columns, map (table_row columns rowActions) rows)))"

section \<open>Both layouts show the same data\<close>

lemma findIndex_bounds: "findIndex p xs = -1 \<or> 0 \<le> findIndex p xs \<and> findIndex p xs < int (length xs)"
  by (induction xs) (auto simp: Let_def)

lemma findIndex_found: "findIndex p xs = -1 \<longleftrightarrow> \<not> list_ex p xs"
proof (induction xs)
  case (Cons x xs)
  then show ?case using findIndex_bounds [of p xs] by (auto simp: Let_def)
qed simp

lemma primaryIdx_less: "columns \<noteq> [] \<Longrightarrow> primaryIdx columns < length columns"
  using findIndex_bounds [of col_primaryMobile columns] by (auto simp: primaryIdx_def Let_def)

lemma rest_columns_set:
  assumes "columns \<noteq> []"
  shows "set (rest_columns columns) =
    {columns ! i | i. i < length columns \<and> i \<noteq> primaryIdx columns \<and> \<not> col_hideOnMobile (columns ! i)}"
proof -
  have "zip [0..<length columns] columns = map (\<lambda>i. (i, columns ! i)) [0..<length columns]"
    by (rule nth_equalityI) simp_all
  then show ?thesis by (auto simp: rest_columns_def filter_map)
qed

text \<open>Every cell that is not hidden on purpose is on the card.\<close>

lemma card_complete:
  assumes "columns \<noteq> []" "c \<in> set columns" "\<not> col_hideOnMobile c"
  shows "c = columns ! primaryIdx columns \<or> c \<in> set (rest_columns columns)"
  using assms rest_columns_set [OF assms(1)] by (auto simp: in_set_conv_nth)

lemma menu_visible:
  "row_menu (Some actions) row = Menu as \<Longrightarrow> (l, x) \<in> set as \<Longrightarrow>
   \<exists>a \<in> set actions. \<not> ra_hidden a row \<and> l = ra_label a \<and> x = ra_onClick a row"
  by (auto simp: row_menu_def visible_actions_def filter_eq_Cons_iff split: list.splits)

definition menu_of :: "('cell, 'act) table_view \<Rightarrow> 'act row_menu list" where
  "menu_of v = (case v of Cards cs \<Rightarrow> map (snd \<circ> snd) cs | Grid g \<Rightarrow> map snd (snd g) | _ \<Rightarrow> [])"

lemma same_menus:
  "menu_of (dataTable True l e columns rowActions data) = menu_of (dataTable False l e columns rowActions data)"
  by (auto simp: dataTable_def menu_of_def mobile_card_def table_row_def split: option.splits)

end
