(* ===== verification/ListPages.thy ===== *)
theory ListPages
  imports DataTable QueryHooks ServerErrors UiMachine Permissions
begin

text \<open>
  The list pages of members, coaches, classes, plans and gyms: the state they share, their filters,
  and the actions of their rows against the guards of the server (\<open>can_freeze\<close>, \<open>can_unfreeze\<close> and
  \<open>can_cancel\<close> of \<^verbatim>\<open>backend/app/domain/entities/\<close>, and the role checks of the services).
\<close>

section \<open>The server's guards\<close>

definition require_owner :: "role \<Rightarrow> app_error option" where
  "require_owner r = (if r = R_owner \<or> r = R_super_admin then None else Some InsufficientPermissionsError)"

definition require_super_admin :: "role \<Rightarrow> app_error option" where
  "require_super_admin r = (if r = R_super_admin then None else Some InsufficientPermissionsError)"

text \<open>The first check that fails.\<close>

definition first_error :: "app_error option list \<Rightarrow> app_error option" where
  "first_error es = (case List.find (\<lambda>e. e \<noteq> None) es of Some e \<Rightarrow> e | None \<Rightarrow> None)"

definition check_that :: "bool \<Rightarrow> app_error \<Rightarrow> app_error option" where
  "check_that ok err = (if ok then None else Some err)"

definition member_freeze_error :: "member \<Rightarrow> app_error option" where
  "member_freeze_error m = check_that (m_status m = MS_active)
     (InvalidMemberStatusTransitionError (member_status_text (m_status m)) ''freeze'')"

definition member_unfreeze_error :: "member \<Rightarrow> app_error option" where
  "member_unfreeze_error m = check_that (m_status m = MS_frozen)
     (InvalidMemberStatusTransitionError (member_status_text (m_status m)) ''unfreeze'')"

definition member_cancel_error :: "role \<Rightarrow> member \<Rightarrow> app_error option" where
  "member_cancel_error r m = first_error [require_owner r, check_that (m_status m \<noteq> MS_cancelled)
     (InvalidMemberStatusTransitionError (member_status_text (m_status m)) ''cancel'')]"

definition coach_freeze_error :: "role \<Rightarrow> coach \<Rightarrow> app_error option" where
  "coach_freeze_error r c = first_error [require_owner r, check_that (co_status c = CS_active)
     (CoachStatusTransitionError (co_id c) (coach_status_text (co_status c)) ''freeze'')]"

definition coach_unfreeze_error :: "role \<Rightarrow> coach \<Rightarrow> app_error option" where
  "coach_unfreeze_error r c = first_error [require_owner r, check_that (co_status c = CS_frozen)
     (CoachStatusTransitionError (co_id c) (coach_status_text (co_status c)) ''unfreeze'')]"

definition coach_cancel_error :: "role \<Rightarrow> coach \<Rightarrow> app_error option" where
  "coach_cancel_error r c = first_error [require_owner r, check_that (co_status c \<noteq> CS_cancelled)
     (CoachStatusTransitionError (co_id c) (coach_status_text (co_status c)) ''cancel'')]"

lemma first_error_simps [simp]:
  "first_error [] = None" "first_error (None # es) = first_error es" "first_error (Some e # es) = Some e"
  by (simp_all add: first_error_def)

lemma check_that_None [simp]: "check_that ok err = None \<longleftrightarrow> ok"
  by (simp add: check_that_def)

lemma first_error_None: "first_error es = None \<longleftrightarrow> list_all (\<lambda>e. e = None) es"
proof (induction es)
  case (Cons e es)
  then show ?case by (cases e) simp_all
qed simp

section \<open>The state of a list page\<close>

text \<open>What a row action does: open the detail page, start a mutation, or ask for confirmation.\<close>

datatype 'row list_action = OpenDetail string | RunNow mutation_hook | AskCancel 'row

record ('st, 'row) list_page =
  gl_showCreate :: bool
  gl_search :: string
  gl_statusFilter :: "'st option"
  gl_showInactive :: bool
  gl_confirmCancel :: "'row option"
  gl_create :: mutation_state
  gl_cancel :: mutation_state

definition list_page_init :: "('st, 'row) list_page" where
  "list_page_init = \<lparr>gl_showCreate = False, gl_search = [], gl_statusFilter = None, gl_showInactive = False,
     gl_confirmCancel = None, gl_create = MIdle, gl_cancel = MIdle\<rparr>"

text \<open>The controls a page has besides the create form.\<close>

datatype list_control = CtlSearch | CtlStatus | CtlInactive | CtlCancel

datatype ('st, 'row) list_event = OpenCreateForm | CloseCreateForm | SubmitCreateForm json
  | CreateFormSettled "thrown option" | TypeSearchText string | PickStatusFilter "'st option" | ToggleInactive bool
  | ClickRow "'row list_action" | ConfirmRowCancel | DismissRowCancel | RowCancelSettled "thrown option"

text \<open>
  The handlers, for a page with the controls \<open>ctls\<close>; \<open>canCreate\<close> is whether the create button is
  there, \<open>createHook\<close> and \<open>cancelHook\<close> are the mutations of the page.
\<close>

fun list_step ::
  "list_control list \<Rightarrow> bool \<Rightarrow> (json \<Rightarrow> mutation_hook) \<Rightarrow> ('row \<Rightarrow> mutation_hook) \<Rightarrow> ('st, 'row) list_event
     \<Rightarrow> ('st, 'row) list_page \<Rightarrow> ('st, 'row) list_page \<times> mutation_hook list" where
  "list_step ctls canCreate createHook cancelHook OpenCreateForm p =
     (if canCreate then p\<lparr>gl_showCreate := True\<rparr> else p, [])"
| "list_step ctls canCreate createHook cancelHook CloseCreateForm p =
     (p\<lparr>gl_showCreate := False, gl_create := MIdle\<rparr>, [])"
| "list_step ctls canCreate createHook cancelHook (SubmitCreateForm values) p =
     (if gl_showCreate p \<and> \<not> isPending (gl_create p)
      then (p\<lparr>gl_create := MPending\<rparr>, [createHook values]) else (p, []))"
| "list_step ctls canCreate createHook cancelHook (CreateFormSettled err) p =
     (if isPending (gl_create p)
      then (case err of None \<Rightarrow> p\<lparr>gl_showCreate := False, gl_create := MIdle\<rparr>
                      | Some e \<Rightarrow> p\<lparr>gl_create := MFailed e\<rparr>, [])
      else (p, []))"
| "list_step ctls canCreate createHook cancelHook (TypeSearchText s) p =
     (if CtlSearch \<in> set ctls then p\<lparr>gl_search := s\<rparr> else p, [])"
| "list_step ctls canCreate createHook cancelHook (PickStatusFilter s) p =
     (if CtlStatus \<in> set ctls then p\<lparr>gl_statusFilter := s\<rparr> else p, [])"
| "list_step ctls canCreate createHook cancelHook (ToggleInactive b) p =
     (if CtlInactive \<in> set ctls then p\<lparr>gl_showInactive := b\<rparr> else p, [])"
| "list_step ctls canCreate createHook cancelHook (ClickRow a) p =
     (case a of OpenDetail _ \<Rightarrow> (p, [])
      | RunNow h \<Rightarrow> (p, [h])
      | AskCancel row \<Rightarrow> (p\<lparr>gl_confirmCancel := Some row\<rparr>, []))"
| "list_step ctls canCreate createHook cancelHook ConfirmRowCancel p =
     (case gl_confirmCancel p of
        None \<Rightarrow> (p, [])
      | Some row \<Rightarrow> if isPending (gl_cancel p) then (p, []) else (p\<lparr>gl_cancel := MPending\<rparr>, [cancelHook row]))"
| "list_step ctls canCreate createHook cancelHook DismissRowCancel p = (p\<lparr>gl_confirmCancel := None\<rparr>, [])"
| "list_step ctls canCreate createHook cancelHook (RowCancelSettled err) p =
     (if isPending (gl_cancel p)
      then (case err of None \<Rightarrow> p\<lparr>gl_cancel := MSucceeded, gl_confirmCancel := None\<rparr>
                      | Some e \<Rightarrow> p\<lparr>gl_cancel := MFailed e\<rparr>, [])
      else (p, []))"

text \<open>When the page shows its empty state instead of the table, and which message.\<close>

datatype empty_message = NoFilterMatch | NothingYet | NoneActive

definition shows_empty_state :: "bool \<Rightarrow> bool \<Rightarrow> 'row list option \<Rightarrow> bool" where
  [view_defs]: "shows_empty_state isLoading error data \<longleftrightarrow> \<not> isLoading \<and> \<not> error \<and> (data = None \<or> data = Some [])"

definition filtered_empty_message :: "('st, 'row) list_page \<Rightarrow> empty_message" where
  [view_defs]: "filtered_empty_message p =
     (if gl_search p \<noteq> [] \<or> gl_statusFilter p \<noteq> None then NoFilterMatch else NothingYet)"

definition inactive_empty_message :: "('st, 'row) list_page \<Rightarrow> empty_message" where
  [view_defs]: "inactive_empty_message p = (if gl_showInactive p then NothingYet else NoneActive)"

text \<open>When the empty state is not shown, the table shows its rows, its loading state or the error.\<close>

lemma table_after_empty_state:
  "\<not> shows_empty_state l e data \<Longrightarrow> dataTable mobile l e columns actions data \<noteq> TableEmpty"
  by (auto simp: shows_empty_state_def dataTable_def split: option.splits)

section \<open>The five pages\<close>

definition owner_or_admin :: "user option \<Rightarrow> bool" where
  "owner_or_admin user = (case user of None \<Rightarrow> False | Some u \<Rightarrow> u_role u = R_owner \<or> u_role u = R_super_admin)"

definition row_act :: "string \<Rightarrow> ('row \<Rightarrow> 'row list_action) \<Rightarrow> ('row \<Rightarrow> bool) \<Rightarrow> ('row, 'row list_action) row_action" where
  "row_act label click hidden = \<lparr>ra_label = label, ra_onClick = click, ra_destructive = False, ra_hidden = hidden\<rparr>"

definition destructive_act :: "string \<Rightarrow> ('row \<Rightarrow> 'row list_action) \<Rightarrow> ('row \<Rightarrow> bool) \<Rightarrow> ('row, 'row list_action) row_action" where
  "destructive_act label click hidden = (row_act label click hidden)\<lparr>ra_destructive := True\<rparr>"

definition member_actions :: "bool \<Rightarrow> (member, member list_action) row_action list" where
  "member_actions canCancel =
     [row_act ''edit'' (\<lambda>m. OpenDetail (''/members/'' @ m_id m)) (\<lambda>m. False),
      row_act ''freeze'' (\<lambda>m. RunNow (UseFreezeMember (m_id m) None)) (\<lambda>m. m_status m \<noteq> MS_active),
      row_act ''unfreeze'' (\<lambda>m. RunNow (UseUnfreezeMember (m_id m))) (\<lambda>m. m_status m \<noteq> MS_frozen),
      destructive_act ''cancel'' AskCancel (\<lambda>m. \<not> canCancel \<or> m_status m = MS_cancelled)]"

definition member_filters_of :: "(member_status, member) list_page \<Rightarrow> member_filters" where
  "member_filters_of p = \<lparr>mf_status = map_option (\<lambda>s. [s]) (gl_statusFilter p), mf_search = or_null (gl_search p),
     mf_limit = None, mf_offset = None\<rparr>"

definition member_page_step ::
  "(member_status, member) list_event \<Rightarrow> (member_status, member) list_page \<Rightarrow> (member_status, member) list_page \<times> mutation_hook list" where
  "member_page_step = list_step [CtlSearch, CtlStatus, CtlCancel] True UseCreateMember (\<lambda>m. UseCancelMember (m_id m))"

definition coach_actions :: "bool \<Rightarrow> (coach, coach list_action) row_action list" where
  "coach_actions canMutate = (if canMutate then
     [row_act ''details'' (\<lambda>c. OpenDetail (''/coaches/'' @ co_id c)) (\<lambda>c. False),
      row_act ''freeze'' (\<lambda>c. RunNow (UseFreezeCoach (co_id c))) (\<lambda>c. co_status c \<noteq> CS_active),
      row_act ''unfreeze'' (\<lambda>c. RunNow (UseUnfreezeCoach (co_id c))) (\<lambda>c. co_status c \<noteq> CS_frozen),
      destructive_act ''cancel'' AskCancel (\<lambda>c. co_status c = CS_cancelled)]
     else [])"

definition coach_filters_of :: "(coach_status, coach) list_page \<Rightarrow> coach_filters" where
  "coach_filters_of p = \<lparr>chf_status = map_option (\<lambda>s. [s]) (gl_statusFilter p), chf_search = or_null (gl_search p),
     chf_limit = None, chf_offset = None\<rparr>"

definition coach_page_step ::
  "user option \<Rightarrow> (coach_status, coach) list_event \<Rightarrow> (coach_status, coach) list_page \<Rightarrow> (coach_status, coach) list_page \<times> mutation_hook list" where
  "coach_page_step user = list_step [CtlSearch, CtlStatus, CtlCancel] (owner_or_admin user) UseCreateCoach (\<lambda>c. UseCancelCoach (co_id c))"

definition class_actions :: "bool \<Rightarrow> (gym_class, gym_class list_action) row_action list" where
  "class_actions canMutate = (if canMutate then
     [row_act ''edit'' (\<lambda>c. OpenDetail (''/classes/'' @ gc_id c)) (\<lambda>c. False),
      row_act ''deactivate'' (\<lambda>c. RunNow (UseDeactivateClass (gc_id c))) (\<lambda>c. \<not> gc_is_active c),
      row_act ''activate'' (\<lambda>c. RunNow (UseActivateClass (gc_id c))) gc_is_active]
     else [])"

definition catalog_filters_of :: "('st, 'row) list_page \<Rightarrow> catalog_filters" where
  "catalog_filters_of p = \<lparr>cf_includeInactive = Some (gl_showInactive p), cf_limit = None, cf_offset = None\<rparr>"

text \<open>The catalog pages hide the create button while the form is shown, and have no cancel dialog.\<close>

definition class_page_step ::
  "user option \<Rightarrow> (unit, gym_class) list_event \<Rightarrow> (unit, gym_class) list_page \<Rightarrow> (unit, gym_class) list_page \<times> mutation_hook list" where
  "class_page_step user e p =
     list_step [CtlInactive] (owner_or_admin user \<and> \<not> gl_showCreate p) UseCreateClass (\<lambda>c. UseDeactivateClass (gc_id c)) e p"

definition plan_actions :: "bool \<Rightarrow> (membership_plan, membership_plan list_action) row_action list" where
  "plan_actions canMutate = (if canMutate then
     [row_act ''edit'' (\<lambda>p. OpenDetail (''/plans/'' @ p_id p)) (\<lambda>p. False),
      row_act ''deactivate'' (\<lambda>p. RunNow (UseDeactivatePlan (p_id p))) (\<lambda>p. \<not> p_is_active p),
      row_act ''activate'' (\<lambda>p. RunNow (UseActivatePlan (p_id p))) p_is_active]
     else [])"

definition plan_page_step ::
  "user option \<Rightarrow> (unit, membership_plan) list_event \<Rightarrow> (unit, membership_plan) list_page
     \<Rightarrow> (unit, membership_plan) list_page \<times> mutation_hook list" where
  "plan_page_step user e p =
     list_step [CtlInactive] (owner_or_admin user \<and> \<not> gl_showCreate p) UseCreatePlan (\<lambda>p. UseDeactivatePlan (p_id p)) e p"

definition tenant_actions :: "(tenant, tenant list_action) row_action list" where
  "tenant_actions =
     [row_act ''edit'' (\<lambda>t. OpenDetail (''/tenants/'' @ t_id t)) (\<lambda>t. False),
      row_act ''activate'' (\<lambda>t. RunNow (UseActivateTenant (t_id t))) (\<lambda>t. t_status t = TS_active),
      row_act ''suspend'' (\<lambda>t. RunNow (UseSuspendTenant (t_id t))) (\<lambda>t. t_status t \<noteq> TS_active \<and> t_status t \<noteq> TS_trial),
      destructive_act ''cancel'' AskCancel (\<lambda>t. t_status t = TS_cancelled)]"

definition tenant_page_step ::
  "(unit, tenant) list_event \<Rightarrow> (unit, tenant) list_page \<Rightarrow> (unit, tenant) list_page \<times> mutation_hook list" where
  "tenant_page_step = list_step [CtlCancel] True UseCreateTenant (\<lambda>t. UseCancelTenant (t_id t))"

section \<open>One creation and one cancellation at a time\<close>

text \<open>A click on a row is a click on an entry of its menu. Closing the form resets its mutation; closing the dialog does not.\<close>

fun row_event :: "('row, 'row list_action) row_action list \<Rightarrow> ('st, 'row) list_event \<Rightarrow> bool" where
  "row_event actions (ClickRow a) = (\<exists>entry \<in> set actions. \<exists>row. a = ra_onClick entry row)"
| "row_event actions _ = True"

definition create_freed :: "('st, 'row) list_event \<Rightarrow> bool" where
  "create_freed e \<longleftrightarrow> e = CloseCreateForm \<or> (\<exists>err. e = CreateFormSettled err)"

definition cancel_freed :: "('st, 'row) list_event \<Rightarrow> bool" where
  "cancel_freed e \<longleftrightarrow> (\<exists>err. e = RowCancelSettled err)"

lemmas flight_defs = create_freed_def cancel_freed_def row_act_def destructive_act_def

lemma create_flight:
  assumes "\<And>v. mine (createHook v)" "\<And>row. \<not> mine (cancelHook row)"
    and "\<And>h. possible (ClickRow (RunNow h)) \<Longrightarrow> \<not> mine h"
  shows "single_flight (\<lambda>e p. list_step ctls (can p) createHook cancelHook e p) possible mine create_freed
    (\<lambda>p. isPending (gl_create p))"
proof (unfold_locales, goal_cases)
  case (1 e s) then show ?case using assms by (cases e) (auto split: option.splits list_action.splits)
next
  case (2 e s) then show ?case by (cases e) (auto split: option.splits list_action.splits)
next
  case (3 e s) then show ?case using assms by (cases e) (auto split: option.splits list_action.splits if_splits)
next
  case (4 e s) then show ?case
    by (cases e) (auto simp: create_freed_def split: option.splits list_action.splits if_splits)
qed

lemma cancel_flight:
  assumes "\<And>v. \<not> mine (createHook v)" "\<And>row. mine (cancelHook row)"
    and "\<And>h. possible (ClickRow (RunNow h)) \<Longrightarrow> \<not> mine h"
  shows "single_flight (\<lambda>e p. list_step ctls (can p) createHook cancelHook e p) possible mine cancel_freed
    (\<lambda>p. isPending (gl_cancel p))"
proof (unfold_locales, goal_cases)
  case (1 e s) then show ?case using assms by (cases e) (auto split: option.splits list_action.splits)
next
  case (2 e s) then show ?case by (cases e) (auto split: option.splits list_action.splits)
next
  case (3 e s) then show ?case using assms by (cases e) (auto split: option.splits list_action.splits if_splits)
next
  case (4 e s) then show ?case
    by (cases e) (auto simp: cancel_freed_def split: option.splits list_action.splits if_splits)
qed

interpretation member_create: single_flight member_page_step "row_event (member_actions can)"
  "\<lambda>r. \<exists>v. r = UseCreateMember v" create_freed "\<lambda>p. isPending (gl_create p)" for can
  unfolding member_page_step_def by (rule create_flight) (auto simp: member_actions_def flight_defs)

interpretation member_cancel: single_flight member_page_step "row_event (member_actions can)"
  "\<lambda>r. \<exists>i. r = UseCancelMember i" cancel_freed "\<lambda>p. isPending (gl_cancel p)" for can
  unfolding member_page_step_def by (rule cancel_flight) (auto simp: member_actions_def flight_defs)

interpretation coach_create: single_flight "coach_page_step user" "row_event (coach_actions can)"
  "\<lambda>r. \<exists>v. r = UseCreateCoach v" create_freed "\<lambda>p. isPending (gl_create p)" for user can
  unfolding coach_page_step_def by (rule create_flight) (auto simp: coach_actions_def flight_defs)

interpretation coach_cancel: single_flight "coach_page_step user" "row_event (coach_actions can)"
  "\<lambda>r. \<exists>i. r = UseCancelCoach i" cancel_freed "\<lambda>p. isPending (gl_cancel p)" for user can
  unfolding coach_page_step_def by (rule cancel_flight) (auto simp: coach_actions_def flight_defs)

interpretation class_create: single_flight "class_page_step user" "row_event (class_actions can)"
  "\<lambda>r. \<exists>v. r = UseCreateClass v" create_freed "\<lambda>p. isPending (gl_create p)" for user can
  unfolding class_page_step_def by (rule create_flight) (auto simp: class_actions_def flight_defs)

interpretation plan_create: single_flight "plan_page_step user" "row_event (plan_actions can)"
  "\<lambda>r. \<exists>v. r = UseCreatePlan v" create_freed "\<lambda>p. isPending (gl_create p)" for user can
  unfolding plan_page_step_def by (rule create_flight) (auto simp: plan_actions_def flight_defs)

interpretation tenant_create: single_flight tenant_page_step "row_event tenant_actions"
  "\<lambda>r. \<exists>v. r = UseCreateTenant v" create_freed "\<lambda>p. isPending (gl_create p)"
  unfolding tenant_page_step_def by (rule create_flight) (auto simp: tenant_actions_def flight_defs)

interpretation tenant_cancel: single_flight tenant_page_step "row_event tenant_actions"
  "\<lambda>r. \<exists>i. r = UseCancelTenant i" cancel_freed "\<lambda>p. isPending (gl_cancel p)"
  unfolding tenant_page_step_def by (rule cancel_flight) (auto simp: tenant_actions_def flight_defs)

section \<open>The contract of a row menu\<close>

definition menu_entries :: "'act row_menu \<Rightarrow> 'act list" where
  "menu_entries m = (case m of Menu as \<Rightarrow> map snd as | _ \<Rightarrow> [])"

lemma menu_entries_eq:
  "menu_entries (row_menu (Some actions) row) = map (\<lambda>a. ra_onClick a row) (filter (\<lambda>a. \<not> ra_hidden a row) actions)"
  by (simp add: menu_entries_def row_menu_def visible_actions_def split: list.splits)

locale row_contract =
  fixes actions :: "('row, 'act) row_action list"
    and granted :: "'row \<Rightarrow> 'act \<Rightarrow> bool"
  assumes sound: "a \<in> set actions \<Longrightarrow> \<not> ra_hidden a row \<Longrightarrow> granted row (ra_onClick a row)"
begin

lemma menu_sound: "x \<in> set (menu_entries (row_menu (Some actions) row)) \<Longrightarrow> granted row x"
  by (auto simp: menu_entries_eq sound)

end

locale exact_row_contract = row_contract +
  assumes complete: "granted row x \<Longrightarrow> \<exists>a \<in> set actions. \<not> ra_hidden a row \<and> ra_onClick a row = x"
begin

lemma menu_iff: "x \<in> set (menu_entries (row_menu (Some actions) row)) \<longleftrightarrow> granted row x"
  using menu_sound complete by (fastforce simp: menu_entries_eq)

end

inductive member_granted :: "role \<Rightarrow> member \<Rightarrow> member list_action \<Rightarrow> bool" for r m where
  "member_granted r m (OpenDetail (''/members/'' @ m_id m))"
| "member_freeze_error m = None \<Longrightarrow> member_granted r m (RunNow (UseFreezeMember (m_id m) None))"
| "member_unfreeze_error m = None \<Longrightarrow> member_granted r m (RunNow (UseUnfreezeMember (m_id m)))"
| "member_cancel_error r m = None \<Longrightarrow> member_granted r m (AskCancel m)"

inductive coach_granted :: "role \<Rightarrow> coach \<Rightarrow> coach list_action \<Rightarrow> bool" for r c where
  "require_owner r = None \<Longrightarrow> coach_granted r c (OpenDetail (''/coaches/'' @ co_id c))"
| "coach_freeze_error r c = None \<Longrightarrow> coach_granted r c (RunNow (UseFreezeCoach (co_id c)))"
| "coach_unfreeze_error r c = None \<Longrightarrow> coach_granted r c (RunNow (UseUnfreezeCoach (co_id c)))"
| "coach_cancel_error r c = None \<Longrightarrow> coach_granted r c (AskCancel c)"

lemmas guard_error_defs = member_freeze_error_def member_unfreeze_error_def member_cancel_error_def
  coach_freeze_error_def coach_unfreeze_error_def coach_cancel_error_def first_error_None

lemma owner_or_admin_iff: "owner_or_admin (Some u) \<longleftrightarrow> require_owner (u_role u) = None"
  by (simp add: owner_or_admin_def require_owner_def)

interpretation members: exact_row_contract "member_actions (owner_or_admin (Some u))" "member_granted (u_role u)" for u
proof
  fix a row assume "a \<in> set (member_actions (owner_or_admin (Some u)))" "\<not> ra_hidden a row"
  then show "member_granted (u_role u) row (ra_onClick a row)"
    by (auto simp: member_actions_def row_act_def destructive_act_def guard_error_defs owner_or_admin_iff
        member_granted.simps)
next
  fix row x assume "member_granted (u_role u) row x"
  then show "\<exists>a \<in> set (member_actions (owner_or_admin (Some u))). \<not> ra_hidden a row \<and> ra_onClick a row = x"
    by cases (simp_all add: member_actions_def row_act_def destructive_act_def guard_error_defs owner_or_admin_iff)
qed

interpretation coaches: exact_row_contract "coach_actions (owner_or_admin (Some u))" "coach_granted (u_role u)" for u
proof
  fix a row assume "a \<in> set (coach_actions (owner_or_admin (Some u)))" "\<not> ra_hidden a row"
  then show "coach_granted (u_role u) row (ra_onClick a row)"
    by (auto simp: coach_actions_def row_act_def destructive_act_def guard_error_defs owner_or_admin_iff
        coach_granted.simps split: if_splits)
next
  fix row x assume "coach_granted (u_role u) row x"
  then show "\<exists>a \<in> set (coach_actions (owner_or_admin (Some u))). \<not> ra_hidden a row \<and> ra_onClick a row = x"
    by cases (simp_all add: coach_actions_def row_act_def destructive_act_def guard_error_defs owner_or_admin_iff)
qed

definition owner_granted :: "role \<Rightarrow> 'row \<Rightarrow> 'row list_action \<Rightarrow> bool" where
  "owner_granted r row x \<longleftrightarrow> require_owner r = None"

interpretation classes: row_contract "class_actions (owner_or_admin (Some u))" "owner_granted (u_role u)" for u
  by unfold_locales (auto simp: class_actions_def owner_granted_def owner_or_admin_iff split: if_splits)

interpretation plans: row_contract "plan_actions (owner_or_admin (Some u))" "owner_granted (u_role u)" for u
  by unfold_locales (auto simp: plan_actions_def owner_granted_def owner_or_admin_iff split: if_splits)


inductive_simps member_granted_simps:
  "member_granted r m (OpenDetail pth)" "member_granted r m (RunNow h)" "member_granted r m (AskCancel m')"

inductive_simps coach_granted_simps:
  "coach_granted r c (OpenDetail pth)" "coach_granted r c (RunNow h)" "coach_granted r c (AskCancel c')"

text \<open>So nobody but an owner or a platform administrator is ever asked to confirm a cancellation.\<close>

lemma cancel_needs_owner:
  "AskCancel m \<in> set (menu_entries (row_menu (Some (member_actions (owner_or_admin (Some u)))) m)) \<Longrightarrow> require_owner (u_role u) = None"
  by (simp add: members.menu_iff member_granted_simps member_cancel_error_def first_error_None)

end
