(* ===== verification/ListColumns.thy ===== *)
theory ListColumns
  imports ListPages Navigation
begin

text \<open>
  The columns of the five list pages and the formatters of the plan list
  (\<^verbatim>\<open>features/plans/PlanListPage.tsx\<close>). A cell is what it shows: a Hebrew literal is a constructor or
  an English key, a date or an amount is the value handed to the formatter of the browser.
\<close>

section \<open>Cells\<close>

text \<open>The palette of \<^verbatim>\<open>components/ui/status-badge.tsx\<close>.\<close>

datatype status_variant = SV_success | SV_warning | SV_danger | SV_neutral | SV_info | SV_primary

datatype summary_line = QuotaLine "int option" "string option option" reset_period
  | UnlimitedLine "string option option"

datatype summary_view = AllClasses | CompactLines "summary_line list" nat | AllLines "summary_line list"

datatype cell = Person string string "string option" | Titled string "string option" | Plain string | NoValue
  | StatusCell string status_variant | DateOf string | Swatch string | YesNo bool
  | PriceOf string int | BillingOf billing_period plan_type "int option" | SummaryOf summary_view
  | GymCell "string option" string string string

definition col :: "string \<Rightarrow> ('row \<Rightarrow> cell) \<Rightarrow> ('row, cell) column" where
  "col header f = \<lparr>col_header = header, col_cell = f, col_primaryMobile = False, col_hideOnMobile = False\<rparr>"

definition title_col :: "string \<Rightarrow> ('row \<Rightarrow> cell) \<Rightarrow> ('row, cell) column" where
  "title_col header f = (col header f)\<lparr>col_primaryMobile := True\<rparr>"

definition wide_col :: "string \<Rightarrow> ('row \<Rightarrow> cell) \<Rightarrow> ('row, cell) column" where
  "wide_col header f = (col header f)\<lparr>col_hideOnMobile := True\<rparr>"

definition or_dash :: "string option \<Rightarrow> cell" where
  [view_defs]: "or_dash s = (if truthy_str s then Plain (nullish s []) else NoValue)"

definition active_badge :: "bool \<Rightarrow> cell" where
  [view_defs]: "active_badge active = (if active then StatusCell ''active'' SV_success else StatusCell ''inactive'' SV_neutral)"

definition two_initials :: "string \<Rightarrow> string \<Rightarrow> string" where
  [view_defs]: "two_initials a b = toUpperCase (charAt0 a @ charAt0 b)"

definition truthy_opt :: "string option \<Rightarrow> string option" where
  [view_defs]: "truthy_opt s = (if truthy_str s then s else None)"

section \<open>Members, coaches, classes and gyms\<close>

fun member_badge :: "member_status \<Rightarrow> cell" where
  "member_badge MS_active = StatusCell ''active'' SV_success"
| "member_badge MS_frozen = StatusCell ''frozen'' SV_warning"
| "member_badge MS_expired = StatusCell ''expired'' SV_neutral"
| "member_badge MS_cancelled = StatusCell ''cancelled'' SV_danger"

definition MEMBER_STATUS_ORDER :: "member_status list" where
  "MEMBER_STATUS_ORDER = [MS_active, MS_frozen, MS_expired, MS_cancelled]"

definition member_columns :: "(member, cell) column list" where
  "member_columns =
     [title_col ''name'' (\<lambda>m. Person (two_initials (m_first_name m) (m_last_name m))
        (m_first_name m @ '' '' @ m_last_name m) (truthy_opt (m_email m))),
      col ''phone'' (\<lambda>m. Plain (m_phone m)),
      col ''status'' (\<lambda>m. member_badge (m_status m)),
      wide_col ''joined'' (\<lambda>m. DateOf (m_join_date m))]"

fun coach_badge :: "coach_status \<Rightarrow> cell" where
  "coach_badge CS_active = StatusCell ''active'' SV_success"
| "coach_badge CS_frozen = StatusCell ''frozen'' SV_warning"
| "coach_badge CS_cancelled = StatusCell ''cancelled'' SV_danger"

definition COACH_STATUS_ORDER :: "coach_status list" where
  "COACH_STATUS_ORDER = [CS_active, CS_frozen, CS_cancelled]"

definition coach_columns :: "(coach, cell) column list" where
  "coach_columns =
     [title_col ''name'' (\<lambda>c. Person (two_initials (co_first_name c) (co_last_name c))
        (co_first_name c @ '' '' @ co_last_name c) (truthy_opt (co_email c))),
      col ''phone'' (\<lambda>c. or_dash (co_phone c)),
      col ''status'' (\<lambda>c. coach_badge (co_status c)),
      wide_col ''hired'' (\<lambda>c. DateOf (co_hired_at c)),
      wide_col ''login'' (\<lambda>c. YesNo (truthy_str (co_user_id c)))]"

definition color_swatch :: "string option \<Rightarrow> cell" where
  [view_defs]: "color_swatch color = (if truthy_str color then Swatch (nullish color []) else NoValue)"

definition class_columns :: "(gym_class, cell) column list" where
  "class_columns =
     [title_col ''name'' (\<lambda>c. Plain (gc_name c)),
      col ''color'' (\<lambda>c. color_swatch (gc_color c)),
      col ''status'' (\<lambda>c. active_badge (gc_is_active c)),
      wide_col ''description'' (\<lambda>c. or_dash (gc_description c))]"

fun tenant_badge :: "tenant_status \<Rightarrow> cell" where
  "tenant_badge TS_active = StatusCell ''active'' SV_success"
| "tenant_badge TS_trial = StatusCell ''trial'' SV_primary"
| "tenant_badge TS_suspended = StatusCell ''suspended'' SV_danger"
| "tenant_badge TS_cancelled = StatusCell ''cancelled'' SV_neutral"

definition tenant_columns :: "(tenant, cell) column list" where
  "tenant_columns =
     [title_col ''gym'' (\<lambda>t. GymCell (truthy_opt (t_logo_presigned_url t)) (toUpperCase (charAt0 (t_name t))) (t_name t) (t_slug t)),
      col ''status'' (\<lambda>t. tenant_badge (t_status t)),
      col ''phone'' (\<lambda>t. or_dash (t_phone t)),
      wide_col ''city'' (\<lambda>t. or_dash (t_address_city t)),
      wide_col ''currency'' (\<lambda>t. Plain (t_currency t)),
      wide_col ''joined'' (\<lambda>t. DateOf (t_created_at t))]"

section \<open>Plans\<close>

definition price_symbol :: "string \<Rightarrow> string" where
  [view_defs]: "price_symbol currency =
     (if currency = ''ILS'' then ''NIS'' else if currency = ''USD'' then ''$''
      else if currency = ''EUR'' then ''EUR'' else currency)"

text \<open>
  \<open>summarizeEntitlement\<close>: \<open>None\<close> stands for every class, \<open>Some None\<close> for a class that is not in the list
  any more.
\<close>

definition summarizeEntitlement :: "gym_class list option \<Rightarrow> plan_entitlement \<Rightarrow> summary_line" where
  "summarizeEntitlement classes e =
     (let name = (if truthy_str (pe_class_id e)
                  then Some (map_option gc_name (List.find (\<lambda>c. Some (gc_id c) = pe_class_id e) (rev (nullish classes []))))
                  else None)
      in if pe_reset_period e = RP_unlimited then UnlimitedLine name
         else QuotaLine (pe_quantity e) name (pe_reset_period e))"

definition entitlementsSummary :: "bool \<Rightarrow> gym_class list option \<Rightarrow> plan_entitlement list \<Rightarrow> summary_view" where
  "entitlementsSummary brief classes entitlements =
     (if length entitlements = 0 then AllClasses
      else let lines = map (summarizeEntitlement classes) entitlements
           in if brief \<and> 2 < length lines then CompactLines (take 2 lines) (length lines - 2) else AllLines lines)"

text \<open>\<open>formatBillingPeriod\<close>, with the days of a one-time plan behind it.\<close>

definition billing_cell :: "membership_plan \<Rightarrow> cell" where
  [view_defs]: "billing_cell p = BillingOf (if p_type p = PT_one_time then BP_one_time else p_billing_period p) (p_type p)
     (if p_type p = PT_one_time then p_duration_days p else None)"

definition plan_columns :: "gym_class list option \<Rightarrow> (membership_plan, cell) column list" where
  "plan_columns classes =
     [title_col ''name'' (\<lambda>p. Titled (p_name p) (truthy_opt (p_description p))),
      col ''type'' (\<lambda>p. Plain (plan_type_text (p_type p))),
      col ''price'' (\<lambda>p. PriceOf (price_symbol (p_currency p)) (p_price_cents p)),
      col ''billing'' billing_cell,
      col ''entitlements'' (\<lambda>p. SummaryOf (entitlementsSummary True classes (p_entitlements p))),
      col ''status'' (\<lambda>p. active_badge (p_is_active p))]"

text \<open>An empty entitlement list reads as every class, and the compact form keeps the count.\<close>

lemma summary_counts:
  "(case entitlementsSummary brief classes es of
      AllClasses \<Rightarrow> es = []
    | CompactLines shown_lines n \<Rightarrow> brief \<and> length shown_lines = 2 \<and> length es = 2 + n \<and> 0 < n
    | AllLines ls \<Rightarrow> length ls = length es \<and> es \<noteq> [] \<and> (brief \<longrightarrow> length es \<le> 2))"
  by (auto simp: entitlementsSummary_def Let_def)

text \<open>A quota of a plan is always printed with its number.\<close>

lemma quota_printed:
  "pe_reset_period e \<noteq> RP_unlimited \<Longrightarrow> pe_quantity e = Some q \<Longrightarrow>
   \<exists>name. summarizeEntitlement classes e = QuotaLine (Some q) name (pe_reset_period e)"
  by (simp add: summarizeEntitlement_def Let_def)

section \<open>On a phone\<close>

lemmas columns_defs = member_columns_def coach_columns_def class_columns_def tenant_columns_def plan_columns_def
  col_def title_col_def wide_col_def

text \<open>Every page marks its first column as the title of the card, and no title is hidden.\<close>

lemma first_column_is_title:
  "primaryIdx member_columns = 0" "primaryIdx coach_columns = 0" "primaryIdx class_columns = 0"
  "primaryIdx tenant_columns = 0" "primaryIdx (plan_columns classes) = 0"
  by (simp_all add: primaryIdx_def columns_defs Let_def)

text \<open>The columns a card leaves out.\<close>

lemma card_columns:
  "map col_header (rest_columns member_columns) = [''phone'', ''status'']"
  "map col_header (rest_columns coach_columns) = [''phone'', ''status'']"
  "map col_header (rest_columns class_columns) = [''color'', ''status'']"
  "map col_header (rest_columns tenant_columns) = [''status'', ''phone'']"
  "map col_header (rest_columns (plan_columns classes)) = [''type'', ''price'', ''billing'', ''entitlements'', ''status'']"
  by (simp_all add: rest_columns_def first_column_is_title) (simp_all add: columns_defs upt_rec)

text \<open>The status chips of the two pages list every status once.\<close>

lemma status_orders:
  "distinct MEMBER_STATUS_ORDER" "s \<in> set MEMBER_STATUS_ORDER" "distinct COACH_STATUS_ORDER" "t \<in> set COACH_STATUS_ORDER"
  by (cases s; cases t; simp add: MEMBER_STATUS_ORDER_def COACH_STATUS_ORDER_def)+

end
