(* ===== verification/TenantForms.thy ===== *)
theory TenantForms
  imports QueryHooks UiMachine Permissions
begin

text \<open>
  Gyms and their users: \<^verbatim>\<open>features/tenants/TenantForm.tsx\<close> against the slug validator of
  \<^verbatim>\<open>backend/app/api/v1/tenants/schemas.py\<close>; \<^verbatim>\<open>features/users/\<close> (the create form and the edit
  dialog) against \<open>update_user\<close> of \<^verbatim>\<open>backend/app/services/user_service.py\<close>; the users and statistics
  sections of the gym page.
\<close>

section \<open>The generated slug\<close>

definition is_slug_char :: "char \<Rightarrow> bool" where
  "is_slug_char c \<longleftrightarrow> c \<in> set ''abcdefghijklmnopqrstuvwxyz0123456789''"

text \<open>\<open>replace(/[^a-z0-9\s-]/g, "")\<close> and \<open>replace(/\s+/g, "-")\<close>.\<close>

definition strip_others :: "string \<Rightarrow> string" where
  "strip_others s = filter (\<lambda>c. is_slug_char c \<or> is_ws c \<or> c = CHR ''-'') s"

function collapse_ws :: "string \<Rightarrow> string" where
  "collapse_ws [] = []"
| "collapse_ws (c # cs) =
     (if is_ws c then CHR ''-'' # collapse_ws (dropWhile is_ws cs) else c # collapse_ws cs)"
  by pat_completeness auto
termination
  by (relation "measure length") (auto simp: le_imp_less_Suc length_dropWhile_le)

definition auto_slug :: "string \<Rightarrow> string" where
  "auto_slug v = collapse_ws (trim (strip_others (toLowerCase v)))"

text \<open>
  The server's pattern: groups of letters and digits, separated by single hyphens. Python's
  \<open>$\<close> also matches before a final line feed.
\<close>

fun slug_scan :: "bool \<Rightarrow> string \<Rightarrow> bool" where
  "slug_scan after_char [] = after_char"
| "slug_scan after_char (c # cs) =
     (if is_slug_char c then slug_scan True cs
      else if c = CHR ''-'' \<and> after_char then slug_scan False cs
      else False)"

definition SLUG_PATTERN_match :: "string \<Rightarrow> bool" where
  "SLUG_PATTERN_match s \<longleftrightarrow> slug_scan False s \<or> (s \<noteq> [] \<and> last s = CHR 0x0A \<and> slug_scan False (butlast s))"

definition slug_accepted :: "string \<Rightarrow> bool" where
  "slug_accepted s \<longleftrightarrow> 2 \<le> length s \<and> length s \<le> 64 \<and> SLUG_PATTERN_match s"

lemma slug_ws_disjoint: "is_slug_char c \<Longrightarrow> \<not> is_ws c"
  by (auto simp: is_slug_char_def is_ws_def)

lemma dropWhile_ws:
  assumes "cs \<noteq> []" "\<not> is_ws (last cs)"
  shows "dropWhile is_ws cs \<noteq> [] \<and> \<not> is_ws (last (dropWhile is_ws cs)) \<and> \<not> is_ws (hd (dropWhile is_ws cs))"
proof -
  have ne: "dropWhile is_ws cs \<noteq> []" using assms by (auto simp: dropWhile_eq_Nil_conv)
  moreover have "last (dropWhile is_ws cs) = last cs"
    using ne by (induction cs) auto
  ultimately show ?thesis using assms hd_dropWhile [of is_ws cs] by auto
qed

lemma slug_scan_collapse:
  assumes "\<forall>c \<in> set t. is_slug_char c \<or> is_ws c" "t \<noteq> [] \<longrightarrow> \<not> is_ws (last t)"
  shows "slug_scan True (collapse_ws t)" and "t \<noteq> [] \<Longrightarrow> \<not> is_ws (hd t) \<Longrightarrow> slug_scan False (collapse_ws t)"
proof -
  have "slug_scan True (collapse_ws t) \<and> (t \<noteq> [] \<and> \<not> is_ws (hd t) \<longrightarrow> slug_scan False (collapse_ws t))"
    using assms
  proof (induction t rule: collapse_ws.induct)
    case (2 c cs)
    show ?case
    proof (cases "is_ws c")
      case True
      let ?d = "dropWhile is_ws cs"
      have cs: "cs \<noteq> []" "\<not> is_ws (last cs)" using "2.prems"(2) True by (cases cs; simp)+
      from dropWhile_ws [OF cs] have d: "?d \<noteq> []" "\<not> is_ws (last ?d)" "\<not> is_ws (hd ?d)" by auto
      have "\<forall>c \<in> set ?d. is_slug_char c \<or> is_ws c" using "2.prems" by (auto dest: set_dropWhileD)
      with "2.IH"(1) [OF True] d have "slug_scan False (collapse_ws ?d)" by auto
      with True slug_ws_disjoint [of c] show ?thesis by (auto simp: is_slug_char_def)
    next
      case False
      with "2.prems" have c: "is_slug_char c" by auto
      have "slug_scan True (collapse_ws cs)"
        using "2.IH"(2) [OF False] "2.prems" by (auto split: if_splits)
      with c False show ?thesis by simp
    qed
  qed simp
  then show "slug_scan True (collapse_ws t)" "t \<noteq> [] \<Longrightarrow> \<not> is_ws (hd t) \<Longrightarrow> slug_scan False (collapse_ws t)" by auto
qed

lemma lower_char_hyphen [simp]: "lower_char c = CHR ''-'' \<longleftrightarrow> c = CHR ''-''"
  by (auto simp: lower_char_def split: if_splits)

lemma trim_ends:
  assumes "trim s \<noteq> []"
  shows "\<not> is_ws (hd (trim s))" and "\<not> is_ws (last (trim s))"
proof -
  have "dropWhile is_ws (trim s) = trim s"
    unfolding trim_def by (rule dropWhile_rev_stable) simp
  with assms show "\<not> is_ws (hd (trim s))" by (metis hd_dropWhile)
  show "\<not> is_ws (last (trim s))"
    using assms hd_dropWhile [of is_ws "rev (dropWhile is_ws s)"] by (auto simp: trim_def last_rev)
qed

lemma set_trim: "set (trim s) \<subseteq> set s"
  by (auto simp: trim_def dest!: set_dropWhileD)

lemma collapse_ws_clean: "\<forall>c \<in> set t. is_slug_char c \<or> is_ws c \<Longrightarrow> \<forall>c \<in> set (collapse_ws t). is_slug_char c \<or> c = CHR ''-''"
proof (induction t rule: collapse_ws.induct)
  case (2 c cs)
  then show ?case by (cases "is_ws c") (auto dest: set_dropWhileD)
qed simp

text \<open>For a name without hyphens the generated slug is accepted exactly when its length is in the
  server's bounds; whatever else the name holds is dropped.\<close>

lemma auto_slug_accepted:
  assumes "CHR ''-'' \<notin> set v"
  shows "slug_accepted (auto_slug v) \<longleftrightarrow> 2 \<le> length (auto_slug v) \<and> length (auto_slug v) \<le> 64"
proof -
  let ?t = "trim (strip_others (toLowerCase v))"
  have "CHR ''-'' \<notin> set (toLowerCase v)" using assms by (auto simp: toLowerCase_def dest: sym)
  then have chars: "\<forall>c \<in> set ?t. is_slug_char c \<or> is_ws c"
    using set_trim [of "strip_others (toLowerCase v)"] by (auto simp: strip_others_def)
  have "slug_scan False (auto_slug v)" if "auto_slug v \<noteq> []"
  proof -
    have "?t \<noteq> []" using that by (auto simp: auto_slug_def)
    with slug_scan_collapse(2) [OF chars] trim_ends show ?thesis by (auto simp: auto_slug_def)
  qed
  then show ?thesis by (cases "auto_slug v = []") (simp_all add: slug_accepted_def SLUG_PATTERN_match_def)
qed

lemma auto_slug_accepted_witness:
  "slug_accepted (auto_slug ''IronFit (TLV)  2'') \<and> auto_slug ''IronFit (TLV)  2'' = ''ironfit-tlv-2''"
proof -
  have n: "CHR ''-'' \<notin> set ''IronFit (TLV)  2''" by simp
  have e: "auto_slug ''IronFit (TLV)  2'' = ''ironfit-tlv-2''" by code_simp
  from auto_slug_accepted [OF n] show ?thesis by (simp only: e) simp
qed

text \<open>A hyphen between spaces is kept, and the server refuses the three hyphens this makes.\<close>

lemma auto_slug_hyphens:
  "auto_slug ''Iron - Fit'' = ''iron---fit''" "\<not> slug_accepted ''iron---fit''"
  by code_simp+

section \<open>The gym form\<close>

record tenant_form =
  tf_slug :: string
  tf_name :: string
  tf_logo_url :: "string option"
  tf_logo_presigned_url :: "string option"
  tf_phone :: string
  tf_email :: string
  tf_website :: string
  tf_address_street :: string
  tf_address_city :: string
  tf_address_country :: string
  tf_address_postal_code :: string
  tf_legal_name :: string
  tf_tax_id :: string
  tf_timezone :: string
  tf_currency :: string
  tf_locale :: string

definition tenant_form_init :: "tenant option \<Rightarrow> tenant_form" where
  "tenant_form_init initial =
     (let str = (\<lambda>field. nullish (Option.bind initial field) []);
          req = (\<lambda>field d. nullish (map_option field initial) d)
      in \<lparr>tf_slug = req t_slug [], tf_name = req t_name [],
          tf_logo_url = Option.bind initial t_logo_url,
          tf_logo_presigned_url = Option.bind initial t_logo_presigned_url,
          tf_phone = str t_phone, tf_email = str t_email, tf_website = str t_website,
          tf_address_street = str t_address_street, tf_address_city = str t_address_city,
          tf_address_country = nullish (Option.bind initial t_address_country) ''IL'',
          tf_address_postal_code = str t_address_postal_code, tf_legal_name = str t_legal_name,
          tf_tax_id = str t_tax_id, tf_timezone = req t_timezone ''Asia/Jerusalem'',
          tf_currency = req t_currency ''ILS'', tf_locale = req t_locale ''he-IL''\<rparr>)"

datatype tenant_field = TF_slug | TF_phone | TF_email | TF_website | TF_street | TF_city | TF_postal
  | TF_country | TF_legal_name | TF_tax_id | TF_timezone | TF_currency

fun tenant_setField :: "tenant_field \<Rightarrow> string \<Rightarrow> tenant_form \<Rightarrow> tenant_form" where
  "tenant_setField TF_slug v f = f\<lparr>tf_slug := v\<rparr>"
| "tenant_setField TF_phone v f = f\<lparr>tf_phone := v\<rparr>"
| "tenant_setField TF_email v f = f\<lparr>tf_email := v\<rparr>"
| "tenant_setField TF_website v f = f\<lparr>tf_website := v\<rparr>"
| "tenant_setField TF_street v f = f\<lparr>tf_address_street := v\<rparr>"
| "tenant_setField TF_city v f = f\<lparr>tf_address_city := v\<rparr>"
| "tenant_setField TF_postal v f = f\<lparr>tf_address_postal_code := v\<rparr>"
| "tenant_setField TF_country v f = f\<lparr>tf_address_country := v\<rparr>"
| "tenant_setField TF_legal_name v f = f\<lparr>tf_legal_name := v\<rparr>"
| "tenant_setField TF_tax_id v f = f\<lparr>tf_tax_id := v\<rparr>"
| "tenant_setField TF_timezone v f = f\<lparr>tf_timezone := v\<rparr>"
| "tenant_setField TF_currency v f = f\<lparr>tf_currency := v\<rparr>"

text \<open>The slug follows the name only while a gym is being created: \<open>initial?.id\<close> is falsy.\<close>

definition handleNameChange :: "tenant option \<Rightarrow> string \<Rightarrow> tenant_form \<Rightarrow> tenant_form" where
  "handleNameChange initial v f =
     (if truthy_str (map_option t_id initial) then f\<lparr>tf_name := v\<rparr>
      else f\<lparr>tf_name := v, tf_slug := auto_slug v\<rparr>)"

text \<open>
  \<open>handleLogoChange\<close>: no file, an upload that failed (its error is shown next to the button), or an
  answer with the storage key and a link for the preview.
\<close>

definition handleLogoChange :: "(thrown + string \<times> string) option \<Rightarrow> tenant_form \<Rightarrow> tenant_form" where
  "handleLogoChange upload f = (case upload of
     None \<Rightarrow> f
   | Some (Inl _) \<Rightarrow> f
   | Some (Inr (key, presigned_url)) \<Rightarrow>
       f\<lparr>tf_logo_url := Some key, tf_logo_presigned_url := Some presigned_url\<rparr>)"

datatype tenant_event = NameInput string | FieldInput tenant_field string
  | LogoInput "(thrown + string \<times> string) option"

fun tenant_form_step :: "tenant option \<Rightarrow> tenant_event \<Rightarrow> tenant_form \<Rightarrow> tenant_form" where
  "tenant_form_step initial (NameInput v) f = handleNameChange initial v f"
| "tenant_form_step initial (FieldInput k v) f = tenant_setField k v f"
| "tenant_form_step initial (LogoInput up) f = handleLogoChange up f"

text \<open>What is submitted: everything but the preview link.\<close>

record tenant_values =
  tv_slug :: string
  tv_name :: string
  tv_logo_url :: "string option"
  tv_phone :: string
  tv_email :: string
  tv_website :: string
  tv_address_street :: string
  tv_address_city :: string
  tv_address_country :: string
  tv_address_postal_code :: string
  tv_legal_name :: string
  tv_tax_id :: string
  tv_timezone :: string
  tv_currency :: string
  tv_locale :: string

definition tenant_handleSubmit :: "tenant_form \<Rightarrow> tenant_values" where
  "tenant_handleSubmit f = \<lparr>tv_slug = tf_slug f, tv_name = tf_name f, tv_logo_url = tf_logo_url f,
     tv_phone = tf_phone f, tv_email = tf_email f, tv_website = tf_website f,
     tv_address_street = tf_address_street f, tv_address_city = tf_address_city f,
     tv_address_country = tf_address_country f, tv_address_postal_code = tf_address_postal_code f,
     tv_legal_name = tf_legal_name f, tv_tax_id = tf_tax_id f, tv_timezone = tf_timezone f,
     tv_currency = tf_currency f, tv_locale = tf_locale f\<rparr>"

definition tenant_submit_disabled :: "bool \<Rightarrow> mutation_state \<Rightarrow> bool" where
  [view_defs]: "tenant_submit_disabled submitting upload \<longleftrightarrow> submitting \<or> isPending upload"

text \<open>
  The partial update of the server. \<open>UpdateTenantRequest\<close> has no slug, so the value the form sends is
  ignored; \<open>presign\<close> stands for the signing of a storage key.
\<close>

definition server_update_tenant :: "(string \<Rightarrow> string option) \<Rightarrow> tenant_values \<Rightarrow> tenant \<Rightarrow> tenant" where
  "server_update_tenant presign v t = t\<lparr>t_name := tv_name v, t_phone := Some (tv_phone v),
     t_logo_url := tv_logo_url v, t_logo_presigned_url := Option.bind (tv_logo_url v) presign,
     t_email := Some (tv_email v), t_website := Some (tv_website v),
     t_address_street := Some (tv_address_street v), t_address_city := Some (tv_address_city v),
     t_address_country := Some (tv_address_country v),
     t_address_postal_code := Some (tv_address_postal_code v),
     t_legal_name := Some (tv_legal_name v), t_tax_id := Some (tv_tax_id v),
     t_timezone := tv_timezone v, t_currency := tv_currency v, t_locale := tv_locale v\<rparr>"

lemma tenant_edit_saved:
  "tenant_form_init (Some (server_update_tenant presign (tenant_handleSubmit f) t))
     = f\<lparr>tf_slug := t_slug t, tf_logo_presigned_url := Option.bind (tf_logo_url f) presign\<rparr>"
  by (simp add: tenant_form_init_def server_update_tenant_def tenant_handleSubmit_def nullish_def)

text \<open>Saving an untouched form leaves the gym as it was, up to fields that were null and are now empty.\<close>

lemma tenant_untouched_saved:
  "t_logo_presigned_url t = Option.bind (t_logo_url t) presign \<Longrightarrow>
   tenant_form_init (Some (server_update_tenant presign (tenant_handleSubmit (tenant_form_init (Some t))) t))
     = tenant_form_init (Some t)"
  by (simp add: tenant_edit_saved) (simp add: tenant_form_init_def nullish_def)

text \<open>While a gym is created, the slug after a name change is the generated one.\<close>

lemma slug_follows_name:
  "tf_slug (handleNameChange None v f) = auto_slug v"
  "t_id t \<noteq> [] \<Longrightarrow> tf_slug (handleNameChange (Some t) v f) = tf_slug f"
  by (simp_all add: handleNameChange_def truthy_str_def)

end
