(* ===== verification/UserForms.thy ===== *)
theory UserForms
  imports Navigation UiMachine
begin

text \<open>
  The users of a gym: \<^verbatim>\<open>features/users/CreateUserForm.tsx\<close> and
  \<^verbatim>\<open>features/users/EditUserDialog.tsx\<close> against \<open>create_user\<close> and \<open>update_user\<close> of
  \<^verbatim>\<open>backend/app/services/user_service.py\<close>, and the two read-only sections of the gym page,
  \<^verbatim>\<open>features/tenants/TenantUsersSection.tsx\<close> and \<^verbatim>\<open>features/tenants/TenantStatsSection.tsx\<close>.
\<close>

section \<open>Adding a user\<close>

record user_form =
  uf_first_name :: string
  uf_last_name :: string
  uf_email :: string
  uf_phone :: string
  uf_password :: string
  uf_role :: role

definition user_form_init :: user_form where
  "user_form_init = \<lparr>uf_first_name = [], uf_last_name = [], uf_email = [], uf_phone = [],
     uf_password = [], uf_role = R_staff\<rparr>"

record create_user_body =
  cu_email :: string
  cu_password :: "string option"
  cu_role :: role
  cu_tenant_id :: string
  cu_first_name :: "string option"
  cu_last_name :: "string option"
  cu_phone :: "string option"

definition create_user_handleSubmit :: "string \<Rightarrow> user_form \<Rightarrow> create_user_body" where
  "create_user_handleSubmit tenantId f = \<lparr>cu_email = uf_email f, cu_password = or_null (uf_password f),
     cu_role = uf_role f, cu_tenant_id = tenantId, cu_first_name = or_null (uf_first_name f),
     cu_last_name = or_null (uf_last_name f), cu_phone = or_null (uf_phone f)\<rparr>"

text \<open>The inputs the browser requires: an address, and a password of eight characters or more.\<close>

definition user_form_valid :: "user_form \<Rightarrow> bool" where
  "user_form_valid f \<longleftrightarrow> uf_email f \<noteq> [] \<and> 8 \<le> length (uf_password f)"

text \<open>The schema's bound on the password, and the service's demand for a password or an OAuth account.\<close>

definition create_user_credentials_ok :: "create_user_body \<Rightarrow> bool" where
  "create_user_credentials_ok b \<longleftrightarrow>
     (case cu_password b of None \<Rightarrow> False | Some p \<Rightarrow> 8 \<le> length p)"

lemma created_user_has_password:
  "user_form_valid f \<Longrightarrow> create_user_credentials_ok (create_user_handleSubmit tenantId f)"
  by (auto simp: user_form_valid_def create_user_credentials_ok_def create_user_handleSubmit_def or_null_def)

section \<open>Editing a user\<close>

record edit_user =
  eu_first_name :: string
  eu_last_name :: string
  eu_email :: string
  eu_phone :: string
  eu_role :: role
  eu_is_active :: bool
  eu_password :: string

definition edit_user_init :: "user \<Rightarrow> edit_user" where
  "edit_user_init u = \<lparr>eu_first_name = nullish (u_first_name u) [], eu_last_name = nullish (u_last_name u) [],
     eu_email = u_email u, eu_phone = nullish (u_phone u) [], eu_role = u_role u,
     eu_is_active = u_is_active u, eu_password = []\<rparr>"

text \<open>\<open>UpdateUserRequest\<close>: \<open>None\<close> is a key that is not there, \<open>Some None\<close> an explicit null.\<close>

record user_patch =
  up_first_name :: "string option option"
  up_last_name :: "string option option"
  up_email :: "string option"
  up_phone :: "string option option"
  up_role :: "role option"
  up_is_active :: "bool option"
  up_password :: "string option"

definition changed :: "'a \<Rightarrow> 'a \<Rightarrow> 'b \<Rightarrow> 'b option" where
  "changed new old v = (if new \<noteq> old then Some v else None)"

definition edit_user_patch :: "user \<Rightarrow> edit_user \<Rightarrow> user_patch" where
  "edit_user_patch u f =
     \<lparr>up_first_name = changed (eu_first_name f) (nullish (u_first_name u) []) (or_null (eu_first_name f)),
      up_last_name = changed (eu_last_name f) (nullish (u_last_name u) []) (or_null (eu_last_name f)),
      up_email = changed (eu_email f) (u_email u) (eu_email f),
      up_phone = changed (eu_phone f) (nullish (u_phone u) []) (or_null (eu_phone f)),
      up_role = changed (eu_role f) (u_role u) (eu_role f),
      up_is_active = changed (eu_is_active f) (u_is_active u) (eu_is_active f),
      up_password = (if 0 < length (eu_password f) then Some (eu_password f) else None)\<rparr>"

definition patch_keys :: "user_patch \<Rightarrow> string list" where
  "patch_keys p =
     concat [if up_first_name p \<noteq> None then [''first_name''] else [],
             if up_last_name p \<noteq> None then [''last_name''] else [],
             if up_email p \<noteq> None then [''email''] else [],
             if up_phone p \<noteq> None then [''phone''] else [],
             if up_role p \<noteq> None then [''role''] else [],
             if up_is_active p \<noteq> None then [''is_active''] else [],
             if up_password p \<noteq> None then [''password''] else []]"

datatype edit_outcome = CloseOnly | UpdateUser string user_patch

definition edit_user_handleSubmit :: "user \<Rightarrow> edit_user \<Rightarrow> edit_outcome" where
  "edit_user_handleSubmit u f =
     (let patch = edit_user_patch u f
      in if length (patch_keys patch) = 0 then CloseOnly else UpdateUser (u_id u) patch)"

text \<open>
  The server: the keys that are there overwrite the row, and a password is stored through \<open>hash\<close>.
\<close>

definition server_update_user :: "(string \<Rightarrow> string) \<Rightarrow> user_patch \<Rightarrow> user \<times> string \<Rightarrow> user \<times> string" where
  "server_update_user hash p row =
     (let (u, password_hash) = row
      in (u\<lparr>u_first_name := nullish (up_first_name p) (u_first_name u),
            u_last_name := nullish (up_last_name p) (u_last_name u),
            u_email := nullish (up_email p) (u_email u),
            u_phone := nullish (up_phone p) (u_phone u),
            u_role := nullish (up_role p) (u_role u),
            u_is_active := nullish (up_is_active p) (u_is_active u)\<rparr>,
          nullish (map_option hash (up_password p)) password_hash))"

definition submit_edit :: "(string \<Rightarrow> string) \<Rightarrow> edit_user \<Rightarrow> user \<times> string \<Rightarrow> user \<times> string" where
  "submit_edit hash f row =
     (case edit_user_handleSubmit (fst row) f of
        CloseOnly \<Rightarrow> row
      | UpdateUser _ patch \<Rightarrow> server_update_user hash patch row)"

lemma nullish_changed [simp]: "nullish (changed new old v) w = (if new = old then w else v)"
  by (simp add: changed_def nullish_def)

lemma changed_None [simp]: "changed new old v = None \<longleftrightarrow> new = old"
  by (simp add: changed_def)

lemma nullish_or_null [simp]: "nullish (or_null s) [] = s"
  by (simp add: nullish_def or_null_def)

lemma nullish_if_same [simp]:
  "nullish (if s = nullish x [] then x else or_null s) [] = s"
  by auto

lemma no_keys: "patch_keys (edit_user_patch u f) = [] \<longleftrightarrow> f = edit_user_init u"
  by (cases f) (auto simp: patch_keys_def edit_user_patch_def edit_user_init_def)

lemma patch_applied:
  "edit_user_init (fst (server_update_user hash (edit_user_patch u f) (u, h))) = f\<lparr>eu_password := []\<rparr>"
  by (cases f) (simp add: server_update_user_def edit_user_patch_def edit_user_init_def)

lemma patch_password:
  "snd (server_update_user hash (edit_user_patch u f) (u, h)) = (if eu_password f = [] then h else hash (eu_password f))"
  by (simp add: server_update_user_def edit_user_patch_def nullish_def)

text \<open>The dialog saves what it shows: opened again after the submission it has the submitted values and
  an empty password; the stored password changes only when one was typed; and a request is sent
  exactly when a value differs from the user's.\<close>

lemma edit_user_saves_form:
  "edit_user_init (fst (submit_edit hash f (u, h))) = f\<lparr>eu_password := []\<rparr>
   \<and> snd (submit_edit hash f (u, h)) = (if eu_password f = [] then h else hash (eu_password f))
   \<and> (edit_user_handleSubmit u f = CloseOnly \<longleftrightarrow> f = edit_user_init u)"
proof (cases "f = edit_user_init u")
  case True
  then have "edit_user_handleSubmit u f = CloseOnly" by (simp add: edit_user_handleSubmit_def no_keys)
  with True show ?thesis by (simp add: submit_edit_def) (simp add: edit_user_init_def)
next
  case False
  then have "edit_user_handleSubmit u f = UpdateUser (u_id u) (edit_user_patch u f)"
    by (simp add: edit_user_handleSubmit_def no_keys)
  with False show ?thesis by (simp add: submit_edit_def patch_applied patch_password)
qed

text \<open>A field the dialog does not name keeps its value, and so does one that was not touched.\<close>

lemma edit_user_keeps_rest:
  "u_id (fst (submit_edit hash f (u, h))) = u_id u"
  "u_tenant_id (fst (submit_edit hash f (u, h))) = u_tenant_id u"
  "eu_phone f = nullish (u_phone u) [] \<Longrightarrow> u_phone (fst (submit_edit hash f (u, h))) = u_phone u"
  by (auto simp: submit_edit_def edit_user_handleSubmit_def server_update_user_def edit_user_patch_def Let_def
      split: if_splits)

section \<open>The sections of the gym page\<close>

definition row_displayName :: "user \<Rightarrow> string" where
  [view_defs]: "row_displayName u =
     nullish (or_null (join_with '' '' (filter (\<lambda>s. s \<noteq> [])
       (map (\<lambda>s. nullish s []) [u_first_name u, u_last_name u])))) (local_part (u_email u))"

definition initialOf :: "user \<Rightarrow> string" where
  "initialOf u =
     (let first = nullish (map_option charAt0 (u_first_name u)) [];
          last = nullish (map_option charAt0 (u_last_name u)) []
      in if first \<noteq> [] \<or> last \<noteq> [] then nullish (or_null (toUpperCase (first @ last))) ''?''
         else toUpperCase (nullish (or_null (charAt0 (u_email u))) ''?''))"

text \<open>The row's name is the one of the top bar, and its avatar agrees whenever a name is there.\<close>

lemma row_displayName_eq: "row_displayName u = getDisplayName u"
  by (cases "u_first_name u"; cases "u_last_name u")
     (auto simp: row_displayName_def getDisplayName_def truthy_str_def nullish_def or_null_def)

lemma initialOf_named:
  "truthy_str (u_first_name u) \<or> truthy_str (u_last_name u) \<Longrightarrow> initialOf u = getInitials u"
  by (cases "u_first_name u"; cases "u_last_name u")
     (auto simp: initialOf_def getInitials_def truthy_str_def nullish_def Let_def)

text \<open>The state of the users section.\<close>

record users_section =
  us_creating :: bool
  us_editing :: "user option"

definition users_section_init :: users_section where
  "users_section_init = \<lparr>us_creating = False, us_editing = None\<rparr>"

datatype users_event = AddUser | CreatedOrCancelled | EditRow user | CloseEdit

fun users_section_step :: "users_event \<Rightarrow> users_section \<Rightarrow> users_section" where
  "users_section_step AddUser s = s\<lparr>us_creating := True\<rparr>"
| "users_section_step CreatedOrCancelled s = s\<lparr>us_creating := False\<rparr>"
| "users_section_step (EditRow u) s = s\<lparr>us_editing := Some u\<rparr>"
| "users_section_step CloseEdit s = s\<lparr>us_editing := None\<rparr>"

text \<open>\<open>fmt\<close> of the statistics cards.\<close>

datatype stat_value = Ellipsis | Dash | Shown int

definition stat_fmt :: "int option \<Rightarrow> bool \<Rightarrow> thrown option \<Rightarrow> stat_value" where
  "stat_fmt value isLoading error =
     (if isLoading then Ellipsis else if error \<noteq> None then Dash else Shown (nullish value 0))"

end
