(* ===== verification/Combobox.thy ===== *)
theory Combobox
  imports Types
begin

text \<open>
  The picker all dialogs share, \<^verbatim>\<open>components/ui/async-combobox.tsx\<close>, and the two loaders it is used
  with (\<open>loadClasses\<close> and \<open>loadCoaches\<close> of the dialogs under \<^verbatim>\<open>features/schedule/\<close> and
  \<^verbatim>\<open>features/coaches/ClassCoachesSection.tsx\<close>). The fetching effect has three stages: the debounce
  timer runs, the first page is awaited, or nothing is outstanding; a change of \<open>open\<close> or \<open>search\<close>
  cancels it and starts it anew. Pages asked for by \<open>loadMore\<close> are never cancelled; each remembers the
  search text and the page number of the render it was clicked in.
\<close>

section \<open>State and events\<close>

datatype fetch_stage = NoFetch | TimerRunning | FirstAwaited

record 'a combobox =
  cb_open :: bool
  cb_search :: string
  cb_items :: "'a list"
  cb_page :: nat
  cb_loading :: bool
  cb_hasMore :: bool
  cb_stage :: fetch_stage
  cb_more :: "(string \<times> nat) list"

definition combobox_init :: "'a combobox" where
  "combobox_init = \<lparr>cb_open = False, cb_search = [], cb_items = [], cb_page = 0, cb_loading = False,
     cb_hasMore = False, cb_stage = NoFetch, cb_more = []\<rparr>"

datatype 'a cb_request = LoadItems string nat nat | OnChange 'a

text \<open>An answer \<open>None\<close> is a call that failed: only \<open>loading\<close> is taken back.\<close>

datatype 'a cb_event = SetOpen bool | TypeSearch string | TimerFires | FirstPage "'a list option"
  | ClickMore | MorePage nat "'a list option" | Pick 'a

definition restart_fetch :: "'a combobox \<Rightarrow> 'a combobox" where
  "restart_fetch s = s\<lparr>cb_stage := (if cb_open s then TimerRunning else NoFetch)\<rparr>"

definition setOpen :: "bool \<Rightarrow> 'a combobox \<Rightarrow> 'a combobox" where
  "setOpen b s = (if cb_open s = b then s else restart_fetch (s\<lparr>cb_open := b\<rparr>))"

definition more_shown :: "'a combobox \<Rightarrow> bool" where
  [view_defs]: "more_shown s \<longleftrightarrow> cb_open s \<and> cb_items s \<noteq> [] \<and> cb_hasMore s"

definition first_page :: "nat \<Rightarrow> 'a list option \<Rightarrow> 'a combobox \<Rightarrow> 'a combobox" where
  "first_page pageSize answer s = (case answer of
     None \<Rightarrow> s\<lparr>cb_loading := False, cb_stage := NoFetch\<rparr>
   | Some data \<Rightarrow> s\<lparr>cb_items := data, cb_page := 0, cb_hasMore := (length data = pageSize),
                    cb_loading := False, cb_stage := NoFetch\<rparr>)"

definition more_page :: "nat \<Rightarrow> nat \<Rightarrow> 'a list option \<Rightarrow> 'a combobox \<Rightarrow> 'a combobox" where
  "more_page pageSize i answer s =
     (if i < length (cb_more s) then
        let s' = s\<lparr>cb_more := take i (cb_more s) @ drop (i + 1) (cb_more s), cb_loading := False\<rparr>
        in (case answer of
              None \<Rightarrow> s'
            | Some data \<Rightarrow> s'\<lparr>cb_items := cb_items s @ data, cb_page := snd (cb_more s ! i),
                              cb_hasMore := (length data = pageSize)\<rparr>)
      else s)"

fun cb_step :: "nat \<Rightarrow> 'a cb_event \<Rightarrow> 'a combobox \<Rightarrow> 'a combobox \<times> 'a cb_request list" where
  "cb_step pageSize (SetOpen b) s = (setOpen b s, [])"
| "cb_step pageSize (TypeSearch t) s =
     (if \<not> cb_open s \<or> t = cb_search s then s else restart_fetch (s\<lparr>cb_search := t\<rparr>), [])"
| "cb_step pageSize TimerFires s =
     (if cb_stage s = TimerRunning
      then (s\<lparr>cb_loading := True, cb_stage := FirstAwaited\<rparr>, [LoadItems (cb_search s) pageSize 0])
      else (s, []))"
| "cb_step pageSize (FirstPage answer) s =
     (if cb_stage s = FirstAwaited then first_page pageSize answer s else s, [])"
| "cb_step pageSize ClickMore s =
     (if more_shown s \<and> \<not> cb_loading s
      then let next_page = cb_page s + 1
           in (s\<lparr>cb_loading := True, cb_more := cb_more s @ [(cb_search s, next_page)]\<rparr>,
               [LoadItems (cb_search s) pageSize (next_page * pageSize)])
      else (s, []))"
| "cb_step pageSize (MorePage i answer) s = (more_page pageSize i answer s, [])"
| "cb_step pageSize (Pick x) s =
     (if cb_open s \<and> x \<in> set (cb_items s) then (setOpen False s, [OnChange x]) else (s, []))"

definition cb_next :: "nat \<Rightarrow> 'a cb_event \<Rightarrow> 'a combobox \<Rightarrow> 'a combobox" where
  "cb_next pageSize e s = fst (cb_step pageSize e s)"

section \<open>Orderly runs\<close>

text \<open>
  A source answers with the pages of a list that depends on the search text only. A run is orderly when
  the answers are the source's (a further page may fail to load), a further page is asked for only once
  the first one is there, and the search text and the popover are left alone while one is outstanding.
\<close>

definition page_of :: "('a list) \<Rightarrow> nat \<Rightarrow> nat \<Rightarrow> 'a list" where
  "page_of xs limit offset = take limit (drop offset xs)"

inductive cb_orderly :: "nat \<Rightarrow> (string \<Rightarrow> 'a list) \<Rightarrow> 'a combobox \<Rightarrow> bool"
  for pageSize :: nat and results :: "string \<Rightarrow> 'a list" where
  start: "cb_orderly pageSize results combobox_init"
| opened: "cb_orderly pageSize results s \<Longrightarrow> cb_more s = [] \<Longrightarrow>
    cb_orderly pageSize results (cb_next pageSize (SetOpen b) s)"
| typed: "cb_orderly pageSize results s \<Longrightarrow> cb_more s = [] \<Longrightarrow>
    cb_orderly pageSize results (cb_next pageSize (TypeSearch t) s)"
| picked: "cb_orderly pageSize results s \<Longrightarrow> cb_more s = [] \<Longrightarrow>
    cb_orderly pageSize results (cb_next pageSize (Pick x) s)"
| timer: "cb_orderly pageSize results s \<Longrightarrow> cb_orderly pageSize results (cb_next pageSize TimerFires s)"
| first: "cb_orderly pageSize results s \<Longrightarrow>
    cb_orderly pageSize results
      (cb_next pageSize (FirstPage (Some (page_of (results (cb_search s)) pageSize 0))) s)"
| more: "cb_orderly pageSize results s \<Longrightarrow> cb_stage s = NoFetch \<Longrightarrow>
    cb_orderly pageSize results (cb_next pageSize ClickMore s)"
| answered: "cb_orderly pageSize results s \<Longrightarrow> cb_more s = [(t, n)] \<Longrightarrow>
    cb_orderly pageSize results
      (cb_next pageSize (MorePage 0 (Some (page_of (results t) pageSize (n * pageSize)))) s)"
| failed: "cb_orderly pageSize results s \<Longrightarrow> cb_more s = [(t, n)] \<Longrightarrow>
    cb_orderly pageSize results (cb_next pageSize (MorePage 0 None) s)"

text \<open>What an orderly state satisfies.\<close>

definition pages_shown :: "nat \<Rightarrow> 'a list \<Rightarrow> 'a combobox \<Rightarrow> bool" where
  "pages_shown pageSize xs s \<longleftrightarrow> cb_items s = take ((cb_page s + 1) * pageSize) xs
     \<and> cb_hasMore s = ((cb_page s + 1) * pageSize \<le> length xs)"

definition cb_inv :: "nat \<Rightarrow> (string \<Rightarrow> 'a list) \<Rightarrow> 'a combobox \<Rightarrow> bool" where
  "cb_inv pageSize results s \<longleftrightarrow>
     (cb_open s \<and> cb_stage s = NoFetch \<longrightarrow> pages_shown pageSize (results (cb_search s)) s
        \<and> (cb_more s = [] \<longrightarrow> \<not> cb_loading s))
     \<and> (cb_more s = [] \<or> cb_open s \<and> cb_stage s = NoFetch \<and> cb_hasMore s \<and> cb_loading s
          \<and> cb_more s = [(cb_search s, cb_page s + 1)])
     \<and> (cb_stage s \<noteq> NoFetch \<longrightarrow> cb_open s)"

lemma length_page_of: "length (page_of xs l o') = min l (length xs - o')"
  by (simp add: page_of_def)

lemma pages_shown_first:
  "0 < pageSize \<Longrightarrow> pages_shown pageSize xs (first_page pageSize (Some (page_of xs pageSize 0)) s)"
  by (auto simp: pages_shown_def first_page_def length_page_of) (simp add: page_of_def)

lemma pages_shown_more:
  assumes "pages_shown pageSize xs s" "cb_more s = [(t, cb_page s + 1)]" "0 < pageSize" "cb_hasMore s"
  shows "pages_shown pageSize xs
           (more_page pageSize 0 (Some (page_of xs pageSize ((cb_page s + 1) * pageSize))) s)"
proof -
  let ?n = "(cb_page s + 1) * pageSize"
  have "take ?n xs @ take pageSize (drop ?n xs) = take (?n + pageSize) xs" by (simp add: take_add)
  with assms show ?thesis
    by (auto simp: pages_shown_def more_page_def length_page_of page_of_def min_def algebra_simps
        split: if_splits)
qed

lemma orderly_inv: "cb_orderly pageSize results s \<Longrightarrow> 0 < pageSize \<Longrightarrow> cb_inv pageSize results s"
proof (induction rule: cb_orderly.induct)
  case start
  then show ?case by (simp add: cb_inv_def combobox_init_def)
next
  case (opened s b)
  then show ?case by (auto simp: cb_inv_def cb_next_def setOpen_def restart_fetch_def pages_shown_def)
next
  case (typed s t)
  then show ?case by (auto simp: cb_inv_def cb_next_def restart_fetch_def pages_shown_def)
next
  case (picked s x)
  then show ?case by (auto simp: cb_inv_def cb_next_def setOpen_def restart_fetch_def pages_shown_def)
next
  case (timer s)
  then show ?case by (auto simp: cb_inv_def cb_next_def pages_shown_def)
next
  case (first s)
  then show ?case
    using pages_shown_first [of pageSize "results (cb_search s)" s]
    by (auto simp: cb_inv_def cb_next_def first_page_def)
next
  case (more s)
  then show ?case by (auto simp: cb_inv_def cb_next_def pages_shown_def more_shown_def Let_def)
next
  case (answered s t n)
  then have i: "pages_shown pageSize (results t) s" "t = cb_search s" "n = cb_page s + 1" "cb_hasMore s"
    by (auto simp: cb_inv_def)
  from pages_shown_more [of pageSize "results t" s t] i answered
  have "pages_shown pageSize (results t) (cb_next pageSize (MorePage 0 (Some (page_of (results t) pageSize (n * pageSize)))) s)"
    by (simp add: cb_next_def)
  with i answered show ?case by (auto simp: cb_inv_def cb_next_def more_page_def Let_def)
next
  case (failed s t n)
  then show ?case by (auto simp: cb_inv_def cb_next_def more_page_def pages_shown_def)
qed

definition demo_results :: "string \<Rightarrow> string list" where
  "demo_results t = filter (\<lambda>x. str_includes x t) [''a'', ''b'', ''c'']"

definition demo_first :: "string combobox" where
  "demo_first = \<lparr>cb_open = True, cb_search = [], cb_items = [''a'', ''b''], cb_page = 0, cb_loading = False,
     cb_hasMore = True, cb_stage = NoFetch, cb_more = []\<rparr>"

lemma demo_results_all [simp]: "demo_results [] = [''a'', ''b'', ''c'']"
  by (simp add: demo_results_def)

lemma demo_first_reached:
  "cb_next 2 (FirstPage (Some (page_of (demo_results []) 2 0)))
     (cb_next 2 TimerFires (cb_next 2 (SetOpen True) combobox_init)) = demo_first"
  by (simp add: demo_first_def page_of_def combobox_init_def cb_next_def setOpen_def restart_fetch_def first_page_def)

lemma demo_first_orderly: "cb_orderly 2 demo_results demo_first"
proof -
  have "cb_orderly 2 demo_results (cb_next 2 TimerFires (cb_next 2 (SetOpen True) combobox_init))"
    by (intro cb_orderly.timer cb_orderly.opened cb_orderly.start) (simp add: combobox_init_def)
  from cb_orderly.first [OF this] show ?thesis
    by (simp add: demo_first_reached [symmetric]) (simp add: cb_next_def combobox_init_def setOpen_def restart_fetch_def)
qed



section \<open>Loading everything\<close>

definition load_more_round :: "nat \<Rightarrow> (string \<Rightarrow> 'a list) \<Rightarrow> 'a combobox \<Rightarrow> 'a combobox" where
  "load_more_round pageSize results s =
     cb_next pageSize (MorePage 0 (Some (page_of (results (cb_search s)) pageSize ((cb_page s + 1) * pageSize))))
       (cb_next pageSize ClickMore s)"

definition settled :: "'a combobox \<Rightarrow> bool" where
  "settled s \<longleftrightarrow> cb_open s \<and> cb_stage s = NoFetch \<and> cb_more s = [] \<and> \<not> cb_loading s"

lemma load_more_round_shown:
  assumes "settled s" "pages_shown pageSize (results (cb_search s)) s" "0 < pageSize"
  defines "s' \<equiv> load_more_round pageSize results s"
  shows "settled s'" "pages_shown pageSize (results (cb_search s')) s'" "cb_search s' = cb_search s"
    "cb_hasMore s \<Longrightarrow> cb_page s' = cb_page s + 1" "\<not> cb_hasMore s \<Longrightarrow> s' = s"
proof -
  let ?c = "s\<lparr>cb_loading := True, cb_more := [(cb_search s, cb_page s + 1)]\<rparr>"
  have ne: "cb_items s \<noteq> []" if "cb_hasMore s" using that assms by (auto simp: pages_shown_def)
  have click: "cb_next pageSize ClickMore s = (if cb_hasMore s then ?c else s)"
    using assms ne by (auto simp: cb_next_def settled_def more_shown_def Let_def)
  have idle: "s' = s" if "\<not> cb_hasMore s"
    using that assms(1) by (simp add: s'_def load_more_round_def click) (simp add: cb_next_def more_page_def settled_def)
  show "\<not> cb_hasMore s \<Longrightarrow> s' = s" by (rule idle)
  have shown: "pages_shown pageSize (results (cb_search s)) s'" if "cb_hasMore s"
  proof -
    have "pages_shown pageSize (results (cb_search s)) ?c" using assms(2) by (simp add: pages_shown_def)
    from pages_shown_more [OF this, of "cb_search s"] assms(3) that
    show ?thesis by (simp add: s'_def load_more_round_def click) (simp add: cb_next_def)
  qed
  show 1: "cb_search s' = cb_search s" "settled s'"
    using assms(1) idle by (cases "cb_hasMore s";
      simp add: s'_def load_more_round_def click; simp add: cb_next_def more_page_def Let_def settled_def)+
  show "pages_shown pageSize (results (cb_search s')) s'"
    using shown idle assms(2) 1 by (cases "cb_hasMore s") auto
  show "cb_hasMore s \<Longrightarrow> cb_page s' = cb_page s + 1"
    by (simp add: s'_def load_more_round_def click) (simp add: cb_next_def more_page_def Let_def)
qed

lemma load_more_rounds:
  assumes "settled s" "pages_shown pageSize (results (cb_search s)) s" "0 < pageSize"
  shows "settled ((load_more_round pageSize results ^^ k) s)
    \<and> pages_shown pageSize (results (cb_search s)) ((load_more_round pageSize results ^^ k) s)
    \<and> cb_search ((load_more_round pageSize results ^^ k) s) = cb_search s
    \<and> (cb_hasMore ((load_more_round pageSize results ^^ k) s)
         \<longrightarrow> cb_page ((load_more_round pageSize results ^^ k) s) = cb_page s + k)"
proof (induction k)
  case (Suc k)
  define t where "t = (load_more_round pageSize results ^^ k) s"
  have t: "(load_more_round pageSize results ^^ Suc k) s = load_more_round pageSize results t" by (simp add: t_def)
  from Suc have ih: "settled t" "pages_shown pageSize (results (cb_search t)) t" "cb_search t = cb_search s"
    "cb_hasMore t \<longrightarrow> cb_page t = cb_page s + k" by (simp_all add: t_def)
  note r = load_more_round_shown [of t pageSize results, OF ih(1,2) assms(3)]
  show ?case
  proof (cases "cb_hasMore t")
    case True
    with r ih show ?thesis unfolding t by simp
  next
    case False
    with r(5) ih show ?thesis unfolding t by simp
  qed
qed (use assms in simp)



section \<open>What may go wrong otherwise\<close>

text \<open>
  A page that was asked for before the search text changed is appended to the results of the new text.
\<close>

definition stale_page_events :: "string cb_event list" where
  "stale_page_events = [SetOpen True, TimerFires, FirstPage (Some [''aa'', ''ab'']), ClickMore,
     TypeSearch ''b'', TimerFires, FirstPage (Some [''bb'']), MorePage 0 (Some [''ac''])]"

lemma stale_page_appended:
  "cb_items (fold (cb_next 2) stale_page_events combobox_init) = [''bb'', ''ac'']"
  "cb_search (fold (cb_next 2) stale_page_events combobox_init) = ''b''"
  by (simp_all add: stale_page_events_def combobox_init_def cb_next_def setOpen_def restart_fetch_def
      first_page_def more_page_def more_shown_def Let_def)

section \<open>The loaders\<close>

text \<open>
  \<open>loadClasses\<close>: a page of two hundred active classes is fetched, starting at the offset, and is then
  searched and cut here; \<open>classes\<close> is the server's list. \<open>loadCoaches\<close> leaves both to the server.
\<close>

definition load_classes :: "gym_class list \<Rightarrow> string \<Rightarrow> nat \<Rightarrow> nat \<Rightarrow> gym_class list" where
  "load_classes classes search limit offset =
     (let all = page_of (filter gc_is_active classes) 200 offset
      in if search = [] then take limit all
         else take limit (filter (\<lambda>c. str_includes (toLowerCase (gc_name c)) (toLowerCase search)) all))"

lemma load_classes_pages: "limit \<le> 200 \<Longrightarrow> load_classes classes [] limit offset = page_of (filter gc_is_active classes) limit offset"
  by (simp add: load_classes_def page_of_def min_def)

text \<open>With a search text the offset counts classes, not matches: the second page can repeat the first one.\<close>

definition demo_class :: "string \<Rightarrow> gym_class" where
  "demo_class n = \<lparr>gc_color = None, gc_created_at = [], gc_description = None, gc_id = n, gc_is_active = True,
     gc_name = n, gc_tenant_id = [], gc_updated_at = []\<rparr>"

lemma load_classes_repeats:
  "load_classes (map demo_class [''Box'', ''Spin'', ''Yoga'', ''Yin Yoga'']) ''yoga'' 2 0 = map demo_class [''Yoga'', ''Yin Yoga'']"
  "load_classes (map demo_class [''Box'', ''Spin'', ''Yoga'', ''Yin Yoga'']) ''yoga'' 2 2 = map demo_class [''Yoga'', ''Yin Yoga'']"
  by (simp_all add: load_classes_def page_of_def demo_class_def)

end
