(* ===== verification/Coaches.thy ===== *)
theory Coaches
  imports Combobox JsNumber ListPages
begin

text \<open>
  The coach screens of \<^verbatim>\<open>features/coaches/\<close>: the weekday strip (\<^verbatim>\<open>WeekdaysPicker.tsx\<close>), the coaches of
  a class with the form that assigns one (\<^verbatim>\<open>ClassCoachesSection.tsx\<close>), and the coach page
  (\<^verbatim>\<open>CoachDetailPage.tsx\<close>) with the month of its earnings card and the invitation. The server's side is
  \<open>AssignCoachRequest\<close> of \<^verbatim>\<open>backend/app/api/v1/coaches/schemas.py\<close>.
\<close>

section \<open>The weekday strip\<close>

definition WEEKDAYS :: "string list" where
  "WEEKDAYS = [''sun'', ''mon'', ''tue'', ''wed'', ''thu'', ''fri'', ''sat'']"

definition toggle_day :: "bool \<Rightarrow> string \<Rightarrow> string list \<Rightarrow> string list" where
  "toggle_day disabled code days =
     (if disabled then days
      else if code \<in> set days then filter (\<lambda>w. w \<noteq> code) days
      else days @ [code])"

text \<open>The validator of the server: known codes, none twice.\<close>

definition valid_weekdays :: "string list \<Rightarrow> bool" where
  "valid_weekdays v \<longleftrightarrow> list_all (\<lambda>w. w \<in> set WEEKDAYS) v \<and> card (set v) = length v"

lemma valid_weekdays_distinct: "valid_weekdays v \<longleftrightarrow> set v \<subseteq> set WEEKDAYS \<and> distinct v"
  by (auto simp: valid_weekdays_def list_all_iff card_distinct distinct_card)

lemma toggle_valid [simp]:
  "code \<in> set WEEKDAYS \<Longrightarrow> valid_weekdays days \<Longrightarrow> valid_weekdays (toggle_day disabled code days)"
  by (auto simp: valid_weekdays_distinct toggle_day_def)

lemma toggle_member:
  "code \<in> set (toggle_day False code days) \<longleftrightarrow> code \<notin> set days"
  "c \<noteq> code \<Longrightarrow> c \<in> set (toggle_day False code days) \<longleftrightarrow> c \<in> set days"
  by (auto simp: toggle_day_def)

text \<open>Two clicks on a day leave the selection as it was, up to the order.\<close>

lemma toggle_twice: "set (toggle_day False code (toggle_day False code days)) = set days"
  by (auto simp: toggle_day_def)

text \<open>No selection stands for every day, as in the server's attribution rule.\<close>

definition teaches_on :: "string list \<Rightarrow> string \<Rightarrow> bool" where
  "teaches_on days code \<longleftrightarrow> days = [] \<or> code \<in> set days"

section \<open>Assigning a coach\<close>

text \<open>\<open>HEAD_ROLE\<close> stands for the Hebrew word the role input starts with.\<close>

definition HEAD_ROLE :: string where
  "HEAD_ROLE = ''rashi''"

record assign_form =
  as_coach :: "coach option"
  as_role :: string
  as_isPrimary :: bool
  as_payModel :: pay_model
  as_amount :: rat
  as_weekdays :: "string list"
  as_mutation :: mutation_state
  as_done :: bool

definition assign_init :: assign_form where
  "assign_init = \<lparr>as_coach = None, as_role = HEAD_ROLE, as_isPrimary = True, as_payModel = PY_per_attendance,
     as_amount = 30, as_weekdays = [], as_mutation = MIdle, as_done = False\<rparr>"

record assign_body =
  ab_coach_id :: string
  ab_role :: string
  ab_is_primary :: bool
  ab_pay_model :: pay_model
  ab_pay_amount_cents :: int
  ab_weekdays :: "string list"

definition assign_handleSubmit :: "assign_form \<Rightarrow> assign_body option" where
  "assign_handleSubmit f = (case as_coach f of
     None \<Rightarrow> None
   | Some c \<Rightarrow> Some \<lparr>ab_coach_id = co_id c,
       ab_role = (if trim (as_role f) = [] then HEAD_ROLE else trim (as_role f)),
       ab_is_primary = as_isPrimary f, ab_pay_model = as_payModel f,
       ab_pay_amount_cents = max 0 (agorot (as_amount f)), ab_weekdays = as_weekdays f\<rparr>)"

definition assign_disabled :: "assign_form \<Rightarrow> bool" where
  [view_defs]: "assign_disabled f \<longleftrightarrow> as_coach f = None \<or> isPending (as_mutation f)"

datatype assign_event = AsPick coach | AsRole string | AsPrimary bool | AsPayModel pay_model
  | AsAmount num_text | AsDay string | AsSubmit | AsAnswer "thrown option"

fun assign_step :: "assign_event \<Rightarrow> assign_form \<Rightarrow> assign_form \<times> assign_body list" where
  "assign_step (AsPick c) f = (f\<lparr>as_coach := Some c\<rparr>, [])"
| "assign_step (AsRole r) f = (f\<lparr>as_role := r\<rparr>, [])"
| "assign_step (AsPrimary b) f = (f\<lparr>as_isPrimary := b\<rparr>, [])"
| "assign_step (AsPayModel m) f = (f\<lparr>as_payModel := m\<rparr>, [])"
| "assign_step (AsAmount t) f = (f\<lparr>as_amount := js_Number t\<rparr>, [])"
| "assign_step (AsDay d) f = (f\<lparr>as_weekdays := toggle_day False d (as_weekdays f)\<rparr>, [])"
| "assign_step AsSubmit f =
     (if as_done f \<or> assign_disabled f then (f, [])
      else case assign_handleSubmit f of
             None \<Rightarrow> (f, [])
           | Some body \<Rightarrow> (f\<lparr>as_mutation := MPending\<rparr>, [body]))"
| "assign_step (AsAnswer err) f =
     (if isPending (as_mutation f)
      then (f\<lparr>as_mutation := settled_state err, as_done := (err = None)\<rparr>, []) else (f, []))"

text \<open>The schema of the request; the service then looks the coach and the class up.\<close>

definition assign_schema_ok :: "assign_body \<Rightarrow> bool" where
  "assign_schema_ok b \<longleftrightarrow> 1 \<le> length (ab_role b) \<and> length (ab_role b) \<le> 40
     \<and> 0 \<le> ab_pay_amount_cents b \<and> valid_weekdays (ab_weekdays b)"

text \<open>
  The events of the page: the picker offers \<open>coaches\<close>, the strip its seven days; the role input has no
  limit, so the model says where it stays below the server's.
\<close>

definition assign_possible :: "coach list \<Rightarrow> assign_event \<Rightarrow> bool" where
  "assign_possible coaches e = (case e of
     AsPick c \<Rightarrow> c \<in> set coaches | AsDay d \<Rightarrow> d \<in> set WEEKDAYS | AsRole r \<Rightarrow> length (trim r) \<le> 40 | _ \<Rightarrow> True)"

definition assign_inv :: "coach list \<Rightarrow> assign_form \<Rightarrow> bool" where
  "assign_inv coaches f \<longleftrightarrow> valid_weekdays (as_weekdays f) \<and> length (trim (as_role f)) \<le> 40
     \<and> (case as_coach f of None \<Rightarrow> True | Some c \<Rightarrow> c \<in> set coaches)"

definition assign_good :: "coach list \<Rightarrow> assign_body \<Rightarrow> bool" where
  "assign_good coaches b \<longleftrightarrow> assign_schema_ok b \<and> ab_coach_id b \<in> co_id ` set coaches"

lemma head_role_length: "length HEAD_ROLE = 5" "trim HEAD_ROLE = HEAD_ROLE" "HEAD_ROLE \<noteq> []"
  by (simp_all add: HEAD_ROLE_def trim_def is_ws_def)

lemma assign_submit_good:
  "assign_inv coaches f \<Longrightarrow> assign_handleSubmit f = Some b \<Longrightarrow> assign_good coaches b"
  by (auto simp: assign_inv_def assign_handleSubmit_def assign_good_def assign_schema_ok_def head_role_length
      Suc_le_eq split: option.splits if_splits)

interpretation assign_submit: single_flight assign_step "\<lambda>_. True" "\<lambda>_. True" "\<lambda>e. \<exists>err. e = AsAnswer err"
  "\<lambda>f. isPending (as_mutation f)"
  by (unfold_locales, goal_cases) (case_tac e; auto simp: assign_disabled_def split: option.splits if_splits)+

interpretation assign: ui_machine assign_step assign_init "assign_possible coaches" "assign_inv coaches"
  "assign_good coaches" for coaches
proof (unfold_locales, goal_cases)
  case 1
  show ?case by (simp add: assign_inv_def assign_init_def valid_weekdays_def head_role_length)
next
  case (2 e s)
  then show ?case
    by (cases e) (auto simp: assign_possible_def assign_inv_def split: option.splits)
next
  case (3 e s r)
  then show ?case
    by (cases e) (auto split: if_splits option.splits intro: assign_submit_good)
qed

text \<open>C28: whatever is entered, the form only sends assignments of an offered coach with a role, an amount
  that is not negative and weekdays without repetition, which the server's schema accepts.\<close>

theorem assign_requests_accepted:
  assumes "list_all (assign_possible coaches) es" "b \<in> set (snd (ui_run assign_step es assign_init))"
  shows "assign_schema_ok b \<and> ab_coach_id b \<in> co_id ` set coaches"
  using assign.run_good [OF assms] by (simp add: assign_good_def)

definition sample_coach :: coach where
  "sample_coach = \<lparr>co_cancelled_at = None, co_created_at = [], co_custom_attrs = [], co_email = None,
     co_first_name = ''Noa'', co_frozen_at = None, co_hired_at = ''2026-01-01'', co_id = ''c1'', co_last_name = ''Levi'',
     co_phone = None, co_status = CS_active, co_tenant_id = ''t1'', co_updated_at = [], co_user_id = None\<rparr>"

theorem assign_requests_accepted_witness:
  "\<exists>b \<in> set (snd (ui_run assign_step [AsPick sample_coach, AsRole '' '', AsDay ''sun'', AsDay ''mon'', AsDay ''sun'',
      AsAmount (Typed (- 5)), AsSubmit] assign_init)).
     assign_schema_ok b \<and> ab_weekdays b = [''mon''] \<and> ab_role b = HEAD_ROLE"
proof -
  let ?es = "[AsPick sample_coach, AsRole '' '', AsDay ''sun'', AsDay ''mon'', AsDay ''sun'',
      AsAmount (Typed (- 5)), AsSubmit]"
  let ?b = "\<lparr>ab_coach_id = ''c1'', ab_role = HEAD_ROLE, ab_is_primary = True, ab_pay_model = PY_per_attendance,
     ab_pay_amount_cents = max 0 (agorot (js_Number (Typed (- 5)))), ab_weekdays = [''mon'']\<rparr>"
  have p: "list_all (assign_possible [sample_coach]) ?es"
    by (simp add: assign_possible_def WEEKDAYS_def trim_def)
  have b: "?b \<in> set (snd (ui_run assign_step ?es assign_init))"
    by (simp add: assign_init_def assign_disabled_def assign_handleSubmit_def sample_coach_def toggle_day_def
        trim_def is_ws_def)
  from assign_requests_accepted [OF p b] have "assign_schema_ok ?b" by blast
  with b show ?thesis by (intro bexI [of _ ?b]) simp_all
qed

section \<open>The coaches of a class\<close>

record coaches_section =
  sc_adding :: bool
  sc_confirm :: "class_coach option"
  sc_del :: mutation_state

definition coaches_section_init :: coaches_section where
  "coaches_section_init = \<lparr>sc_adding = False, sc_confirm = None, sc_del = MIdle\<rparr>"

datatype section_event = ScAdd | ScFormClosed | ScRemove class_coach | ScConfirm | ScAnswer "thrown option" | ScCancel

fun section_step :: "user option \<Rightarrow> section_event \<Rightarrow> coaches_section \<Rightarrow> coaches_section \<times> mutation_hook list" where
  "section_step user ScAdd s = (if owner_or_admin user \<and> \<not> sc_adding s then s\<lparr>sc_adding := True\<rparr> else s, [])"
| "section_step user ScFormClosed s = (s\<lparr>sc_adding := False\<rparr>, [])"
| "section_step user (ScRemove link) s = (if owner_or_admin user then s\<lparr>sc_confirm := Some link\<rparr> else s, [])"
| "section_step user ScConfirm s =
     (case sc_confirm s of
        None \<Rightarrow> (s, [])
      | Some link \<Rightarrow> if isPending (sc_del s) then (s, [])
          else (s\<lparr>sc_del := MPending\<rparr>, [UseDeleteClassCoachLink (cc_id link)]))"
| "section_step user (ScAnswer err) s =
     (if isPending (sc_del s)
      then (s\<lparr>sc_del := settled_state err, sc_confirm := (if err = None then None else sc_confirm s)\<rparr>, []) else (s, []))"
| "section_step user ScCancel s = (s\<lparr>sc_confirm := None\<rparr>, [])"

text \<open>A link is only removed by an owner, and only one of the listed links.\<close>

definition section_possible :: "class_coach list \<Rightarrow> section_event \<Rightarrow> bool" where
  "section_possible links e = (case e of ScRemove l \<Rightarrow> l \<in> set links | _ \<Rightarrow> True)"

interpretation link_removal: single_flight "section_step user" "\<lambda>_. True" "\<lambda>_. True" "\<lambda>e. \<exists>err. e = ScAnswer err"
  "\<lambda>s. isPending (sc_del s)" for user
  by (unfold_locales, goal_cases) (case_tac e; auto split: option.splits if_splits)+

interpretation class_links: ui_machine "section_step user" coaches_section_init "section_possible links"
  "\<lambda>s. case sc_confirm s of None \<Rightarrow> True | Some l \<Rightarrow> l \<in> set links \<and> owner_or_admin user"
  "\<lambda>r. owner_or_admin user \<and> r \<in> (UseDeleteClassCoachLink \<circ> cc_id) ` set links" for user links
proof (unfold_locales, goal_cases)
  case 1
  show ?case by (simp add: coaches_section_init_def)
next
  case (2 e s)
  then show ?case by (cases e) (auto simp: section_possible_def split: option.splits)
next
  case (3 e s r)
  then show ?case by (cases e) (auto split: option.splits if_splits)
qed

lemma link_removed_by_owner:
  "list_all (section_possible links) es \<Longrightarrow> r \<in> set (snd (ui_run (section_step user) es coaches_section_init)) \<Longrightarrow>
   owner_or_admin user \<and> r \<in> (UseDeleteClassCoachLink \<circ> cc_id) ` set links"
  by (rule class_links.run_good)

section \<open>The month of the earnings card\<close>

text \<open>
  Days are counted from 1 January 1970, as in the time value of a \<open>Date\<close>; \<open>month_start y m\<close> is the first
  day of the month with the index \<open>m\<close> (January is 0, and an index past 11 runs into the next year). An ISO
  date is its day. \<open>utc_of\<close> turns local milliseconds into an instant, as the constructor of \<open>Date\<close> does
  with the time zone of the browser.
\<close>

definition DAY_ms :: int where
  "DAY_ms = 86400000"

definition month_start :: "int \<Rightarrow> int \<Rightarrow> int" where
  "month_start year month =
     (let y = year + month div 12; m = month mod 12 + 1;
          y' = (if m \<le> 2 then y - 1 else y); era = y' div 400; yoe = y' - era * 400;
          doy = (153 * (if m > 2 then m - 3 else m + 9) + 2) div 5;
          doe = yoe * 365 + yoe div 4 - yoe div 100 + doy
      in era * 146097 + doe - 719468)"

lemma month_start_examples:
  "month_start 1970 0 = 0" "month_start 2024 2 - month_start 2024 1 = 29" "month_start 2026 12 = month_start 2027 0"
  by (simp_all add: month_start_def)

definition iso_day :: "int \<Rightarrow> int" where
  "iso_day instant = instant div DAY_ms"

definition currentMonthRange :: "(int \<Rightarrow> int) \<Rightarrow> int \<Rightarrow> int \<Rightarrow> int \<times> int" where
  "currentMonthRange utc_of year month =
     (let first = utc_of (month_start year month * DAY_ms);
          last = utc_of ((month_start year (month + 1) - 1) * DAY_ms)
      in (iso_day first, iso_day last))"

lemma iso_day_midnight:
  assumes "0 < off" "off < DAY_ms"
  shows "iso_day (d * DAY_ms - off) = d - 1"
proof -
  have e: "d * DAY_ms - off = (DAY_ms - off) + DAY_ms * (d - 1)" by (simp add: algebra_simps)
  have "(DAY_ms - off) div DAY_ms = 0" "DAY_ms \<noteq> 0" using assms by simp_all
  then show ?thesis unfolding iso_day_def e by (subst div_mult_self2) simp_all
qed

lemma iso_day_west:
  assumes "0 \<le> west" "west < DAY_ms"
  shows "iso_day (d * DAY_ms + west) = d"
  using assms by (simp add: iso_day_def)

text \<open>East of Greenwich the card asks for the month shifted by one day: from the last day of the
  previous month to the last but one of this month; west of it, or on it, for the month itself.\<close>

lemma month_range_shifted:
  assumes "\<And>t. \<bar>t - utc_of t\<bar> < DAY_ms"
  shows "((\<forall>t. utc_of t < t) \<longrightarrow>
            currentMonthRange utc_of year month = (month_start year month - 1, month_start year (month + 1) - 2))
       \<and> ((\<forall>t. t \<le> utc_of t) \<longrightarrow>
            currentMonthRange utc_of year month = (month_start year month, month_start year (month + 1) - 1))"
proof (intro conjI impI)
  have off: "utc_of t = t - (t - utc_of t)" "t - utc_of t < DAY_ms" "utc_of t - t < DAY_ms" for t
    using assms [of t] by auto
  {
    assume "\<forall>t. utc_of t < t"
    then have "iso_day (utc_of (d * DAY_ms)) = d - 1" for d
      using iso_day_midnight [of "d * DAY_ms - utc_of (d * DAY_ms)" d] off(2) [of "d * DAY_ms"] by simp
    then show "currentMonthRange utc_of year month = (month_start year month - 1, month_start year (month + 1) - 2)"
      by (simp add: currentMonthRange_def)
  next
    assume "\<forall>t. t \<le> utc_of t"
    then have "iso_day (utc_of (d * DAY_ms)) = d" for d
      using iso_day_west [of "utc_of (d * DAY_ms) - d * DAY_ms" d] off(3) [of "d * DAY_ms"] by simp
    then show "currentMonthRange utc_of year month = (month_start year month, month_start year (month + 1) - 1)"
      by (simp add: currentMonthRange_def)
  }
qed

lemma month_range_shifted_witness:
  "currentMonthRange (\<lambda>t. t - 10800000) 2026 5 = (month_start 2026 5 - 1, month_start 2026 6 - 2)
   \<and> month_start 2026 5 = 20605"
proof -
  have "\<bar>t - (t - 10800000)\<bar> < DAY_ms" for t :: int by (simp add: DAY_ms_def)
  from month_range_shifted [of "\<lambda>t. t - 10800000" 2026 5, OF this] show ?thesis
    by (simp add: month_start_def)
qed

section \<open>The coach page\<close>

record coach_page =
  cp_editing :: bool
  cp_update :: mutation_state
  cp_email :: string
  cp_password :: string
  cp_invite :: mutation_state

definition coach_page_init :: coach_page where
  "coach_page_init = \<lparr>cp_editing = False, cp_update = MIdle, cp_email = [], cp_password = [], cp_invite = MIdle\<rparr>"

definition edit_card_shown :: "user option \<Rightarrow> coach_page \<Rightarrow> bool" where
  [view_defs]: "edit_card_shown user s \<longleftrightarrow> cp_editing s \<and> owner_or_admin user"

definition invite_shown :: "user option \<Rightarrow> coach \<Rightarrow> bool" where
  [view_defs]: "invite_shown user c \<longleftrightarrow> owner_or_admin user \<and> \<not> truthy_str (co_user_id c)"

datatype coach_request = UpdateCoach string json | InviteCoach string string string

datatype coach_page_event = CpEdit | CpSave json | CpSaved "thrown option" | CpCancel
  | CpEmail string | CpPassword string | CpInvite | CpInvited "thrown option"

fun coach_detail_step :: "user option \<Rightarrow> coach \<Rightarrow> coach_page_event \<Rightarrow> coach_page \<Rightarrow> coach_page \<times> coach_request list" where
  "coach_detail_step user c CpEdit s = (if owner_or_admin user \<and> \<not> cp_editing s then s\<lparr>cp_editing := True\<rparr> else s, [])"
| "coach_detail_step user c (CpSave values) s =
     (if edit_card_shown user s \<and> \<not> isPending (cp_update s)
      then (s\<lparr>cp_update := MPending\<rparr>, [UpdateCoach (co_id c) values]) else (s, []))"
| "coach_detail_step user c (CpSaved err) s =
     (if isPending (cp_update s)
      then (s\<lparr>cp_update := settled_state err, cp_editing := (cp_editing s \<and> err \<noteq> None)\<rparr>, []) else (s, []))"
| "coach_detail_step user c CpCancel s = (s\<lparr>cp_editing := False\<rparr>, [])"
| "coach_detail_step user c (CpEmail e) s = (if invite_shown user c then s\<lparr>cp_email := e\<rparr> else s, [])"
| "coach_detail_step user c (CpPassword p) s = (if invite_shown user c then s\<lparr>cp_password := p\<rparr> else s, [])"
| "coach_detail_step user c CpInvite s =
     (if invite_shown user c \<and> \<not> isPending (cp_invite s) \<and> cp_email s \<noteq> [] \<and> 8 \<le> length (cp_password s)
      then (s\<lparr>cp_invite := MPending\<rparr>, [InviteCoach (co_id c) (cp_email s) (cp_password s)]) else (s, []))"
| "coach_detail_step user c (CpInvited err) s =
     (if isPending (cp_invite s)
      then (if err = None then s\<lparr>cp_invite := MSucceeded, cp_email := [], cp_password := []\<rparr>
            else s\<lparr>cp_invite := settled_state err\<rparr>, []) else (s, []))"

interpretation coach_save: single_flight "coach_detail_step user c" "\<lambda>_. True" "\<lambda>r. \<exists>i v. r = UpdateCoach i v"
  "\<lambda>e. \<exists>err. e = CpSaved err" "\<lambda>s. isPending (cp_update s)" for user c
  by (unfold_locales, goal_cases) (case_tac e; auto split: option.splits if_splits)+

interpretation coach_invitation: single_flight "coach_detail_step user c" "\<lambda>_. True"
  "\<lambda>r. \<exists>i e p. r = InviteCoach i e p" "\<lambda>e. \<exists>err. e = CpInvited err" "\<lambda>s. isPending (cp_invite s)" for user c
  by (unfold_locales, goal_cases) (case_tac e; auto split: option.splits if_splits)+

text \<open>An invitation is only sent for a coach without a login, by somebody the server lets invite.\<close>

lemma invite_only_unlinked:
  "InviteCoach i e p \<in> set (snd (coach_detail_step user c ev s)) \<Longrightarrow>
   i = co_id c \<and> 8 \<le> length p \<and> owner_or_admin user \<and> (co_user_id c = None \<or> co_user_id c = Some [])"
  by (cases ev) (auto simp: invite_shown_def truthy_str_def split: if_splits option.splits)

text \<open>\<open>classNameById\<close> and the days of a row; \<open>None\<close> is the Hebrew default text.\<close>

definition class_name_of :: "gym_class list option \<Rightarrow> string \<Rightarrow> string option" where
  [view_defs]: "class_name_of classes ident =
     map_option gc_name (List.find (\<lambda>c. gc_id c = ident) (rev (nullish classes [])))"

definition days_text :: "string list \<Rightarrow> string option" where
  [view_defs]: "days_text days = (if days = [] then None else Some (join_with '', '' days))"

text \<open>The earnings card: the sum on top and one line per link.\<close>

record earnings_line =
  el_class :: "string option"
  el_role :: string
  el_model :: pay_model
  el_units :: int
  el_amount :: rat

definition earnings_lines :: "earnings \<Rightarrow> earnings_line list" where
  [view_defs]: "earnings_lines d = map (\<lambda>r. \<lparr>el_class = er_class_name r, el_role = er_role r,
     el_model = er_pay_model r, el_units = er_unit_count r, el_amount = shekels (er_cents r)\<rparr>) (ea_by_link d)"

definition range_line :: "earnings \<Rightarrow> (string \<times> string) option" where
  [view_defs]: "range_line d =
     (if truthy_str (ea_effective_from d) \<and> truthy_str (ea_effective_to d)
      then Some (nullish (ea_effective_from d) [], nullish (ea_effective_to d) []) else None)"

end
