(* ===== verification/Schedule.thy ===== *)
theory Schedule
  imports Coaches "HOL-Library.Multiset"
begin

text \<open>
  The calendar of \<^verbatim>\<open>features/schedule/\<close>: the week grid (\<^verbatim>\<open>WeekGrid.tsx\<close>), a cell of it
  (\<^verbatim>\<open>SessionCard.tsx\<close>), the list of recurring rules (\<^verbatim>\<open>TemplatesList.tsx\<close>) and the page that holds them
  (\<^verbatim>\<open>SchedulePage.tsx\<close>). An instant is its time value in milliseconds; \<open>tof\<close> reads the ISO text of a
  timestamp and \<open>local\<close> gives the local milliseconds of an instant, which is what the accessors of a
  \<open>Date\<close> take apart.
\<close>

section \<open>Local dates\<close>

definition local_day :: "(int \<Rightarrow> int) \<Rightarrow> int \<Rightarrow> int" where
  "local_day local t = local t div DAY_ms"

text \<open>\<open>getDay\<close> (1 January 1970 was a Thursday) and \<open>getHours\<close>.\<close>

definition getDay :: "(int \<Rightarrow> int) \<Rightarrow> int \<Rightarrow> int" where
  "getDay local t = (local_day local t + 4) mod 7"

definition getHours :: "(int \<Rightarrow> int) \<Rightarrow> int \<Rightarrow> int" where
  "getHours local t = local t mod DAY_ms div 3600000"

text \<open>\<open>sundayOfThisWeek\<close>, as the local day it falls on.\<close>

definition sundayOfThisWeek :: "(int \<Rightarrow> int) \<Rightarrow> int \<Rightarrow> int" where
  "sundayOfThisWeek local now = local_day local now - getDay local now"

lemma sunday_of_week:
  "(sundayOfThisWeek local now + 4) mod 7 = 0"
  "sundayOfThisWeek local now \<le> local_day local now" "local_day local now < sundayOfThisWeek local now + 7"
  by (simp_all add: sundayOfThisWeek_def getDay_def) presburger+

section \<open>The week grid\<close>

definition FIRST_HOUR :: int where
  "FIRST_HOUR = 6"

definition LAST_HOUR :: int where
  "LAST_HOUR = 22"

definition HOURS :: "int list" where
  "HOURS = map (\<lambda>i. FIRST_HOUR + int i) [0..<nat (LAST_HOUR - FIRST_HOUR + 1)]"

definition DAY_INDICES :: "int list" where
  "DAY_INDICES = [0, 1, 2, 3, 4, 5, 6]"

definition session_start :: "(string \<Rightarrow> int) \<Rightarrow> class_session \<Rightarrow> int" where
  "session_start tof s = tof (cs_starts_at s)"

definition bucket_key :: "(string \<Rightarrow> int) \<Rightarrow> (int \<Rightarrow> int) \<Rightarrow> class_session \<Rightarrow> int \<times> int" where
  "bucket_key tof local s = (getDay local (session_start tof s), getHours local (session_start tof s))"

definition bucket_add ::
  "(string \<Rightarrow> int) \<Rightarrow> (int \<Rightarrow> int) \<Rightarrow> class_session \<Rightarrow> (int \<times> int \<rightharpoonup> class_session list) \<Rightarrow> (int \<times> int \<rightharpoonup> class_session list)" where
  "bucket_add tof local s m =
     (let hour = getHours local (session_start tof s); key = bucket_key tof local s
      in if hour < FIRST_HOUR \<or> LAST_HOUR < hour then m
         else case m key of Some arr \<Rightarrow> m(key \<mapsto> arr @ [s]) | None \<Rightarrow> m(key \<mapsto> [s]))"

definition grid_buckets ::
  "(string \<Rightarrow> int) \<Rightarrow> (int \<Rightarrow> int) \<Rightarrow> class_session list \<Rightarrow> (int \<times> int \<rightharpoonup> class_session list)" where
  "grid_buckets tof local sessions =
     map_option (sort_key (session_start tof)) \<circ> fold (bucket_add tof local) sessions Map.empty"

definition grid_cell ::
  "(string \<Rightarrow> int) \<Rightarrow> (int \<Rightarrow> int) \<Rightarrow> class_session list \<Rightarrow> int \<Rightarrow> int \<Rightarrow> class_session list" where
  "grid_cell tof local sessions dayIdx hour = nullish (grid_buckets tof local sessions (dayIdx, hour)) []"

text \<open>The rows of the table, and the dates of its head.\<close>

definition grid_rows ::
  "(string \<Rightarrow> int) \<Rightarrow> (int \<Rightarrow> int) \<Rightarrow> class_session list \<Rightarrow> class_session list list list" where
  "grid_rows tof local sessions = map (\<lambda>hour. map (\<lambda>d. grid_cell tof local sessions d hour) DAY_INDICES) HOURS"

definition column_dates :: "int \<Rightarrow> int list" where
  "column_dates weekStart = map (\<lambda>i. weekStart + i) DAY_INDICES"

definition in_hours :: "(string \<Rightarrow> int) \<Rightarrow> (int \<Rightarrow> int) \<Rightarrow> class_session \<Rightarrow> bool" where
  "in_hours tof local s \<longleftrightarrow>
     FIRST_HOUR \<le> getHours local (session_start tof s) \<and> getHours local (session_start tof s) \<le> LAST_HOUR"

lemma HOURS_eq: "HOURS = [6, 7, 8, 9, 10, 11, 12, 13, 14, 15, 16, 17, 18, 19, 20, 21, 22]"
  by (simp add: HOURS_def FIRST_HOUR_def LAST_HOUR_def upt_rec)

lemma set_HOURS: "set HOURS = {FIRST_HOUR..LAST_HOUR}"
proof (intro set_eqI iffI)
  fix h assume h: "h \<in> {FIRST_HOUR..LAST_HOUR}"
  show "h \<in> set HOURS" unfolding HOURS_def set_map
    by (rule image_eqI [where x = "nat (h - FIRST_HOUR)"]) (use h in auto)
qed (auto simp: HOURS_def FIRST_HOUR_def LAST_HOUR_def)

lemma distinct_HOURS: "distinct HOURS"
  by (simp add: HOURS_eq)

lemma set_DAYS: "set DAY_INDICES = {0..<7}"
  by (auto simp: DAY_INDICES_def)

lemma getDay_range: "getDay local t \<in> set DAY_INDICES"
  unfolding set_DAYS by (simp add: getDay_def)

lemma bucket_add_eq:
  "bucket_add tof local s m =
     (if in_hours tof local s then m(bucket_key tof local s \<mapsto> nullish (m (bucket_key tof local s)) [] @ [s]) else m)"
  by (simp add: bucket_add_def in_hours_def nullish_def Let_def split: option.split)

lemma bucket_fold:
  "fold (bucket_add tof local) sessions m key =
     (let new = filter (\<lambda>s. in_hours tof local s \<and> bucket_key tof local s = key) sessions
      in if new = [] then m key else Some (nullish (m key) [] @ new))"
  by (induction sessions arbitrary: m) (simp_all add: Let_def bucket_add_eq nullish_def)

lemma sort_key_Nil_iff: "sort_key f xs = [] \<longleftrightarrow> xs = []"
  by (metis length_0_conv length_sort)

lemma grid_cell_eq:
  "grid_cell tof local sessions d h =
     sort_key (session_start tof) (filter (\<lambda>s. in_hours tof local s \<and> bucket_key tof local s = (d, h)) sessions)"
  by (auto simp: grid_cell_def grid_buckets_def bucket_fold nullish_def Let_def)

text \<open>A list dealt out by distinct keys.\<close>

lemma mset_by_keys:
  "distinct ks \<Longrightarrow> mset (concat (map (\<lambda>k. filter (\<lambda>x. f x = k) xs) ks)) = mset (filter (\<lambda>x. f x \<in> set ks) xs)"
proof (induction ks)
  case (Cons k ks)
  have "filter_mset (\<lambda>x. f x = k) (mset xs) + filter_mset (\<lambda>x. f x \<in> set ks) (mset xs)
      = filter_mset (\<lambda>x. f x \<in> set (k # ks)) (mset xs)"
    using Cons.prems by (intro multiset_eqI) auto
  with Cons show ?case by (simp del: set_simps filter_mset_eq_conv)
qed simp

lemma mset_concat_sorted: "mset (concat (map (\<lambda>k. sort_key f (g k)) ks)) = mset (concat (map g ks))"
  by (induction ks) (simp_all add: mset_sort)

definition grid_keys :: "(int \<times> int) list" where
  "grid_keys = concat (map (\<lambda>h. map (\<lambda>d. (d, h)) DAY_INDICES) HOURS)"

lemma grid_keys_table: "distinct grid_keys" "set grid_keys = set DAY_INDICES \<times> set HOURS"
  by (simp_all add: grid_keys_def HOURS_eq DAY_INDICES_def) auto

lemma concat_rows: "concat (concat (grid_rows tof local sessions)) = concat (map (\<lambda>(d, h). grid_cell tof local sessions d h) grid_keys)"
  by (simp add: grid_rows_def grid_keys_def HOURS_eq DAY_INDICES_def)

text \<open>C29: the cells hold every session that starts between six and eleven at night, once each, and nothing
  else; each cell is in order of time, and stands under the date the session falls on.\<close>

theorem week_grid_complete:
  assumes "(weekStart + 4) mod 7 = 0"
    and "\<And>s. s \<in> set sessions \<Longrightarrow> weekStart \<le> local_day local (session_start tof s)
            \<and> local_day local (session_start tof s) < weekStart + 7"
  shows "mset (concat (concat (grid_rows tof local sessions))) = mset (filter (in_hours tof local) sessions)
    \<and> sorted (map (session_start tof) (grid_cell tof local sessions d h))
    \<and> (\<forall>i < 7. \<forall>s \<in> set (grid_cell tof local sessions (int i) h).
          column_dates weekStart ! i = local_day local (session_start tof s))"
proof (intro conjI allI impI ballI)
  let ?hs = "filter (in_hours tof local) sessions"
  have cell: "grid_cell tof local sessions d h = sort_key (session_start tof) (filter (\<lambda>s. bucket_key tof local s = (d, h)) ?hs)" for d h
    by (simp add: grid_cell_eq conj_commute)
  have "mset (concat (concat (grid_rows tof local sessions)))
      = mset (concat (map (\<lambda>k. filter (\<lambda>s. bucket_key tof local s = k) ?hs) grid_keys))"
    by (simp add: concat_rows cell split_def mset_concat_sorted)
  also have "\<dots> = mset (filter (\<lambda>s. bucket_key tof local s \<in> set grid_keys) ?hs)"
    using grid_keys_table(1) by (rule mset_by_keys)
  also have "filter (\<lambda>s. bucket_key tof local s \<in> set grid_keys) ?hs = ?hs"
    by (auto simp: filter_id_conv grid_keys_table(2) bucket_key_def getDay_range set_HOURS in_hours_def
        intro!: filter_cong)
  finally show "mset (concat (concat (grid_rows tof local sessions))) = mset ?hs" .
  show "sorted (map (session_start tof) (grid_cell tof local sessions d h))" by (simp add: cell)
  fix i s assume i: "i < (7::nat)" and "s \<in> set (grid_cell tof local sessions (int i) h)"
  then have s: "s \<in> set sessions" and d: "(local_day local (session_start tof s) + 4) mod 7 = int i"
    by (auto simp: grid_cell_eq bucket_key_def getDay_def)
  from d assms(1) assms(2) [OF s] i have "local_day local (session_start tof s) = weekStart + int i" by presburger
  moreover have "column_dates weekStart ! i = weekStart + int i"
    using i by (auto simp: column_dates_def DAY_INDICES_def nth_Cons split: nat.splits)
  ultimately show "column_dates weekStart ! i = local_day local (session_start tof s)" by simp
qed

definition sample_session :: "string \<Rightarrow> string \<Rightarrow> class_session" where
  "sample_session ident start = \<lparr>cs_assistant_coach_id = None, cs_cancellation_reason = None, cs_cancelled_at = None,
     cs_cancelled_by = None, cs_class_id = ''k1'', cs_created_at = [], cs_ends_at = [], cs_head_coach_id = Some ''c1'',
     cs_id = ident, cs_is_customized = False, cs_notes = None, cs_starts_at = start, cs_status = SN_scheduled,
     cs_template_id = None, cs_tenant_id = ''t1'', cs_updated_at = []\<rparr>"

definition sample_at :: "string \<Rightarrow> int" where
  "sample_at s = (if s = ''sun 18:30'' then 20611 * DAY_ms + 66600000 else if s = ''sun 18:00'' then 20611 * DAY_ms + 64800000
     else 20612 * DAY_ms + 18000000)"

definition sample_week :: "class_session list" where
  "sample_week = [sample_session ''a'' ''sun 18:30'', sample_session ''b'' ''sun 18:00'', sample_session ''c'' ''mon 05:00'']"

theorem week_grid_complete_witness:
  "mset (concat (concat (grid_rows sample_at id sample_week))) = mset (take 2 sample_week)
   \<and> column_dates 20611 ! 1 = 20612"
proof -
  have w: "(20611 + 4 :: int) mod 7 = 0" by simp
  have s: "20611 \<le> local_day id (session_start sample_at s) \<and> local_day id (session_start sample_at s) < 20611 + 7"
    if "s \<in> set sample_week" for s
    using that by (auto simp: sample_week_def sample_session_def session_start_def sample_at_def local_day_def DAY_ms_def)
  have f: "filter (in_hours sample_at id) sample_week = take 2 sample_week"
    by (simp add: sample_week_def sample_session_def session_start_def sample_at_def in_hours_def getHours_def
        DAY_ms_def FIRST_HOUR_def LAST_HOUR_def)
  from week_grid_complete [of 20611 sample_week id sample_at 0 18, OF w s] show ?thesis
    by (simp only: f) (simp add: column_dates_def DAY_INDICES_def)
qed

text \<open>A session before six in the morning or from eleven at night on is in no cell.\<close>

lemma off_hours_hidden:
  "\<not> in_hours tof local s \<Longrightarrow> s \<notin> set (grid_cell tof local sessions d h)"
  by (simp add: grid_cell_eq)

section \<open>A cell of the grid\<close>

record session_card =
  sk_class :: "string option"
  sk_tint :: "string option"
  sk_coach :: "(string \<times> string) option"
  sk_cancelled :: bool
  sk_adhoc :: bool

text \<open>\<open>new Map(xs.map(x => [x.id, x]))\<close>: the last entry of an id counts.\<close>

definition map_by_id :: "('a \<Rightarrow> string) \<Rightarrow> 'a list \<Rightarrow> string \<Rightarrow> 'a option" where
  "map_by_id key xs ident = List.find (\<lambda>x. key x = ident) (rev xs)"

definition coach_of :: "coach list \<Rightarrow> string option \<Rightarrow> coach option" where
  "coach_of coaches ident = (case ident of None \<Rightarrow> None | Some i \<Rightarrow> if i = [] then None else map_by_id co_id coaches i)"

definition sessionCard :: "gym_class list \<Rightarrow> coach list \<Rightarrow> class_session \<Rightarrow> session_card" where
  "sessionCard classes coaches s =
     (let cls = map_by_id gc_id classes (cs_class_id s)
      in \<lparr>sk_class = map_option gc_name cls, sk_tint = Option.bind cls gc_color,
          sk_coach = map_option (\<lambda>c. (co_first_name c, co_last_name c)) (coach_of coaches (cs_head_coach_id s)),
          sk_cancelled = (cs_status s = SN_cancelled), sk_adhoc = (cs_template_id s = None)\<rparr>)"

lemma map_by_id_Some: "map_by_id key xs ident = Some x \<Longrightarrow> x \<in> set xs \<and> key x = ident"
  by (auto simp: map_by_id_def dest: find_Some_mem)

lemma map_by_id_distinct: "distinct (map key xs) \<Longrightarrow> x \<in> set xs \<Longrightarrow> map_by_id key xs (key x) = Some x"
  unfolding map_by_id_def by (rule find_by_key) (simp_all add: rev_map [symmetric])

end
