(* ===== verification/ScheduleDialogs.thy ===== *)
theory ScheduleDialogs
  imports Schedule ErrorContract
begin

text \<open>
  The pages and dialogs around the calendar: \<^verbatim>\<open>SchedulePage.tsx\<close>, \<^verbatim>\<open>TemplateForm.tsx\<close>,
  \<^verbatim>\<open>TemplatesList.tsx\<close>, \<^verbatim>\<open>AdHocSessionDialog.tsx\<close>, \<^verbatim>\<open>SessionDetailPanel.tsx\<close>,
  \<^verbatim>\<open>BulkActionDialog.tsx\<close> and \<^verbatim>\<open>TenantFeaturesSection.tsx\<close> of \<^verbatim>\<open>features/schedule/\<close>, with what
  \<^verbatim>\<open>backend/app/services/schedule_service.py\<close> does with their requests.
\<close>

section \<open>The page\<close>

record schedule_page =
  sg_weekStart :: int
  sg_templateForm :: bool
  sg_adHoc :: bool
  sg_bulk :: bool
  sg_active :: "class_session option"

definition schedule_init :: "(int \<Rightarrow> int) \<Rightarrow> int \<Rightarrow> schedule_page" where
  "schedule_init local now = \<lparr>sg_weekStart = sundayOfThisWeek local now, sg_templateForm = False,
     sg_adHoc = False, sg_bulk = False, sg_active = None\<rparr>"

datatype schedule_event = SgTemplate bool | SgAdHoc bool | SgBulk bool | SgPrevious | SgThisWeek int | SgNext
  | SgOpen class_session | SgClose

fun schedule_step :: "user option \<Rightarrow> (int \<Rightarrow> int) \<Rightarrow> schedule_event \<Rightarrow> schedule_page \<Rightarrow> schedule_page" where
  "schedule_step user local (SgTemplate b) p = (if b \<and> \<not> owner_or_admin user then p else p\<lparr>sg_templateForm := b\<rparr>)"
| "schedule_step user local (SgAdHoc b) p = (if b \<and> \<not> owner_or_admin user then p else p\<lparr>sg_adHoc := b\<rparr>)"
| "schedule_step user local (SgBulk b) p = (if b \<and> \<not> owner_or_admin user then p else p\<lparr>sg_bulk := b\<rparr>)"
| "schedule_step user local SgPrevious p = p\<lparr>sg_weekStart := sg_weekStart p - 7\<rparr>"
| "schedule_step user local (SgThisWeek now) p = p\<lparr>sg_weekStart := sundayOfThisWeek local now\<rparr>"
| "schedule_step user local SgNext p = p\<lparr>sg_weekStart := sg_weekStart p + 7\<rparr>"
| "schedule_step user local (SgOpen s) p = p\<lparr>sg_active := Some s\<rparr>"
| "schedule_step user local SgClose p = p\<lparr>sg_active := None\<rparr>"

text \<open>The week that is fetched, from the midnight before the first day to the one after the last.\<close>

definition fetched_range :: "(int \<Rightarrow> int) \<Rightarrow> schedule_page \<Rightarrow> int \<times> int" where
  "fetched_range utc_of p = (utc_of (sg_weekStart p * DAY_ms), utc_of ((sg_weekStart p + 7) * DAY_ms))"

definition range_days :: "schedule_page \<Rightarrow> int \<times> int" where
  [view_defs]: "range_days p = (sg_weekStart p, sg_weekStart p + 7 - 1)"

record active_meta =
  am_className :: "string option"
  am_head :: "coach option"
  am_assistant :: "coach option"

definition activeMeta :: "gym_class list option \<Rightarrow> coach list option \<Rightarrow> schedule_page \<Rightarrow> active_meta option" where
  "activeMeta classes coaches p = map_option (\<lambda>s.
     \<lparr>am_className = map_option gc_name (map_by_id gc_id (nullish classes []) (cs_class_id s)),
      am_head = coach_of (nullish coaches []) (cs_head_coach_id s),
      am_assistant = coach_of (nullish coaches []) (cs_assistant_coach_id s)\<rparr>) (sg_active p)"

lemma week_starts_on_sunday:
  "(sg_weekStart (fold (schedule_step user local) es (schedule_init local now)) + 4) mod 7 = 0"
proof (rule fold_invariant [where Q = "\<lambda>_. True"])
  fix e :: schedule_event and p :: schedule_page
  assume p: "(sg_weekStart p + 4) mod 7 = 0"
  from p have "(sg_weekStart p - 7 + 4) mod 7 = 0" "(sg_weekStart p + 7 + 4) mod 7 = 0" by presburger+
  with p sunday_of_week(1) [of local] show "(sg_weekStart (schedule_step user local e p) + 4) mod 7 = 0"
    by (cases e) auto
qed (simp_all add: schedule_init_def sunday_of_week)

lemma dialogs_for_owners:
  "\<not> owner_or_admin user \<Longrightarrow> \<not> sg_templateForm (fold (schedule_step user local) es (schedule_init local now))
     \<and> \<not> sg_adHoc (fold (schedule_step user local) es (schedule_init local now))
     \<and> \<not> sg_bulk (fold (schedule_step user local) es (schedule_init local now))"
proof (rule fold_invariant [where Q = "\<lambda>_. True"])
  fix e :: schedule_event and p :: schedule_page
  assume "\<not> owner_or_admin user" "\<not> sg_templateForm p \<and> \<not> sg_adHoc p \<and> \<not> sg_bulk p"
  then show "\<not> sg_templateForm (schedule_step user local e p) \<and> \<not> sg_adHoc (schedule_step user local e p)
     \<and> \<not> sg_bulk (schedule_step user local e p)" by (cases e) auto
qed (simp_all add: schedule_init_def)

section \<open>Recurring rules\<close>

record template_form =
  te_cls :: "gym_class option"
  te_head :: "coach option"
  te_assistant :: "coach option"
  te_weekdays :: "string list"
  te_start :: string
  te_end :: string
  te_mutation :: mutation_state
  te_closed :: bool

definition template_init :: template_form where
  "template_init = \<lparr>te_cls = None, te_head = None, te_assistant = None, te_weekdays = [''sun''],
     te_start = ''18:00'', te_end = ''19:00'', te_mutation = MIdle, te_closed = False\<rparr>"

record template_body =
  tb_class_id :: string
  tb_weekdays :: "string list"
  tb_start_time :: string
  tb_end_time :: string
  tb_head_coach_id :: string
  tb_assistant_coach_id :: "string option"

definition template_handleSubmit :: "template_form \<Rightarrow> template_body option" where
  "template_handleSubmit f = (case (te_cls f, te_head f) of
     (Some cls, Some head) \<Rightarrow>
       if te_weekdays f = [] then None
       else Some \<lparr>tb_class_id = gc_id cls, tb_weekdays = te_weekdays f, tb_start_time = te_start f @ '':00'',
              tb_end_time = te_end f @ '':00'', tb_head_coach_id = co_id head,
              tb_assistant_coach_id = map_option co_id (te_assistant f)\<rparr>
   | _ \<Rightarrow> None)"

definition template_disabled :: "template_form \<Rightarrow> bool" where
  [view_defs]: "template_disabled f \<longleftrightarrow>
     te_cls f = None \<or> te_head f = None \<or> te_weekdays f = [] \<or> isPending (te_mutation f)"

datatype template_event = TeClass gym_class | TeHead coach | TeAssistant coach | TeDay string
  | TeStart string | TeEnd string | TeSubmit | TeAnswer "thrown option"

fun template_step :: "template_event \<Rightarrow> template_form \<Rightarrow> template_form \<times> template_body list" where
  "template_step (TeClass c) f = (f\<lparr>te_cls := Some c\<rparr>, [])"
| "template_step (TeHead c) f = (f\<lparr>te_head := Some c\<rparr>, [])"
| "template_step (TeAssistant c) f = (f\<lparr>te_assistant := Some c\<rparr>, [])"
| "template_step (TeDay d) f = (f\<lparr>te_weekdays := toggle_day False d (te_weekdays f)\<rparr>, [])"
| "template_step (TeStart t) f = (f\<lparr>te_start := t\<rparr>, [])"
| "template_step (TeEnd t) f = (f\<lparr>te_end := t\<rparr>, [])"
| "template_step TeSubmit f =
     (if te_closed f \<or> template_disabled f then (f, [])
      else case template_handleSubmit f of
             None \<Rightarrow> (f, [])
           | Some body \<Rightarrow> (f\<lparr>te_mutation := MPending\<rparr>, [body]))"
| "template_step (TeAnswer err) f =
     (if isPending (te_mutation f)
      then (f\<lparr>te_mutation := settled_state err, te_closed := (err = None)\<rparr>, []) else (f, []))"

text \<open>The schema, and the condition of the table on the two times.\<close>

definition template_schema_ok :: "template_body \<Rightarrow> bool" where
  "template_schema_ok b \<longleftrightarrow> 1 \<le> length (tb_weekdays b) \<and> valid_weekdays (tb_weekdays b)"

definition template_times_ok :: "template_body \<Rightarrow> bool" where
  "template_times_ok b \<longleftrightarrow> tb_start_time b < tb_end_time b"

definition template_possible :: "gym_class list \<Rightarrow> coach list \<Rightarrow> template_event \<Rightarrow> bool" where
  "template_possible classes coaches e = (case e of
     TeClass c \<Rightarrow> c \<in> set classes | TeHead c \<Rightarrow> c \<in> set coaches | TeAssistant c \<Rightarrow> c \<in> set coaches
   | TeDay d \<Rightarrow> d \<in> set WEEKDAYS | _ \<Rightarrow> True)"

definition template_inv :: "gym_class list \<Rightarrow> coach list \<Rightarrow> template_form \<Rightarrow> bool" where
  "template_inv classes coaches f \<longleftrightarrow> valid_weekdays (te_weekdays f) \<and> set_option (te_cls f) \<subseteq> set classes
     \<and> set_option (te_head f) \<subseteq> set coaches \<and> set_option (te_assistant f) \<subseteq> set coaches"

definition template_good :: "gym_class list \<Rightarrow> coach list \<Rightarrow> template_body \<Rightarrow> bool" where
  "template_good classes coaches b \<longleftrightarrow> template_schema_ok b \<and> tb_class_id b \<in> gc_id ` set classes
     \<and> tb_head_coach_id b \<in> co_id ` set coaches \<and> set_option (tb_assistant_coach_id b) \<subseteq> co_id ` set coaches"

lemma template_submit_good:
  "template_inv classes coaches f \<Longrightarrow> template_handleSubmit f = Some b \<Longrightarrow> template_good classes coaches b"
  by (auto simp: template_inv_def template_handleSubmit_def template_good_def template_schema_ok_def Suc_le_eq
      elem_set split: option.splits if_splits)

interpretation template_submit: single_flight template_step "\<lambda>_. True" "\<lambda>_. True" "\<lambda>e. \<exists>err. e = TeAnswer err"
  "\<lambda>f. isPending (te_mutation f)"
  by (unfold_locales, goal_cases) (case_tac e; auto simp: template_disabled_def split: option.splits if_splits)+

interpretation template: ui_machine template_step template_init "template_possible classes coaches"
  "template_inv classes coaches" "template_good classes coaches" for classes coaches
proof (unfold_locales, goal_cases)
  case 1
  show ?case by (simp add: template_inv_def template_init_def valid_weekdays_def WEEKDAYS_def)
next
  case (2 e s)
  then show ?case by (cases e) (auto simp: template_possible_def template_inv_def split: option.splits)
next
  case (3 e s r)
  then show ?case by (cases e) (auto split: if_splits option.splits intro: template_submit_good)
qed

lemma template_requests_accepted:
  "list_all (template_possible classes coaches) es \<Longrightarrow> b \<in> set (snd (ui_run template_step es template_init)) \<Longrightarrow>
   template_schema_ok b \<and> tb_class_id b \<in> gc_id ` set classes \<and> tb_head_coach_id b \<in> co_id ` set coaches"
  using template.run_good [of classes coaches es b] by (simp add: template_good_def)

text \<open>The order of the two times is not checked before the request is sent.\<close>

lemma template_times_unchecked:
  "te_cls f = Some c \<Longrightarrow> te_head f = Some h \<Longrightarrow> te_weekdays f \<noteq> [] \<Longrightarrow> te_start f = ''19:00'' \<Longrightarrow> te_end f = ''18:00'' \<Longrightarrow>
   \<exists>b. template_handleSubmit f = Some b \<and> \<not> template_times_ok b"
  by (simp add: template_handleSubmit_def template_times_ok_def)

text \<open>The list of the active rules.\<close>

record templates_list =
  tl_open :: bool
  tl_confirm :: "schedule_template option"
  tl_deactivate :: mutation_state

definition templates_init :: templates_list where
  "templates_init = \<lparr>tl_open = False, tl_confirm = None, tl_deactivate = MIdle\<rparr>"

record template_row =
  tr_class :: "string option"
  tr_days :: "string list"
  tr_from :: string
  tr_to :: string
  tr_coach :: "(string \<times> string) option"

definition template_rows :: "gym_class list \<Rightarrow> coach list \<Rightarrow> schedule_template list \<Rightarrow> template_row list" where
  [view_defs]: "template_rows classes coaches templates = map (\<lambda>t.
     \<lparr>tr_class = map_option gc_name (map_by_id gc_id classes (st_class_id t)), tr_days = st_weekdays t,
      tr_from = take 5 (st_start_time t), tr_to = take 5 (st_end_time t),
      tr_coach = map_option (\<lambda>c. (co_first_name c, co_last_name c)) (map_by_id co_id coaches (st_head_coach_id t))\<rparr>) templates"

datatype templates_event = TlToggle | TlRemove schedule_template | TlConfirm | TlAnswer "thrown option" | TlCancel

fun templates_step :: "templates_event \<Rightarrow> templates_list \<Rightarrow> templates_list \<times> mutation_hook list" where
  "templates_step TlToggle s = (s\<lparr>tl_open := \<not> tl_open s\<rparr>, [])"
| "templates_step (TlRemove t) s = (if tl_open s then s\<lparr>tl_confirm := Some t\<rparr> else s, [])"
| "templates_step TlConfirm s =
     (case tl_confirm s of
        None \<Rightarrow> (s, [])
      | Some t \<Rightarrow> if isPending (tl_deactivate s) then (s, [])
          else (s\<lparr>tl_deactivate := MPending\<rparr>, [UseDeactivateTemplate (st_id t)]))"
| "templates_step (TlAnswer err) s =
     (if isPending (tl_deactivate s)
      then (s\<lparr>tl_deactivate := settled_state err, tl_confirm := (if err = None then None else tl_confirm s)\<rparr>, [])
      else (s, []))"
| "templates_step TlCancel s = (s\<lparr>tl_confirm := None\<rparr>, [])"

interpretation templates_confirm: single_flight templates_step "\<lambda>_. True" "\<lambda>_. True" "\<lambda>e. \<exists>err. e = TlAnswer err"
  "\<lambda>s. isPending (tl_deactivate s)"
  by (unfold_locales, goal_cases) (case_tac e; auto split: option.splits if_splits)+

interpretation templates: ui_machine templates_step templates_init
  "\<lambda>e. case e of TlRemove t \<Rightarrow> t \<in> set ts | _ \<Rightarrow> True" "\<lambda>s. set_option (tl_confirm s) \<subseteq> set ts"
  "\<lambda>r. r \<in> (UseDeactivateTemplate \<circ> st_id) ` set ts" for ts
proof (unfold_locales, goal_cases)
  case 1
  show ?case by (simp add: templates_init_def)
next
  case (2 e s)
  then show ?case by (cases e) (auto split: option.splits)
next
  case (3 e s r)
  then show ?case by (cases e) (auto split: option.splits if_splits)
qed

section \<open>One-off sessions\<close>

text \<open>A date input holds a day, a time input the minute of the day.\<close>

record adhoc_form =
  ah_cls :: "gym_class option"
  ah_coach :: "coach option"
  ah_date :: int
  ah_start :: int
  ah_end :: int
  ah_notes :: string

definition adhoc_init :: "(int \<Rightarrow> int) \<Rightarrow> int \<Rightarrow> adhoc_form" where
  "adhoc_init local now = \<lparr>ah_cls = None, ah_coach = None, ah_date = local_day local now,
     ah_start = 18 * 60, ah_end = 19 * 60, ah_notes = []\<rparr>"

record adhoc_body =
  ad_class_id :: string
  ad_starts_at :: int
  ad_ends_at :: int
  ad_head_coach_id :: "string option"
  ad_assistant_coach_id :: "string option"
  ad_notes :: "string option"

definition local_instant :: "(int \<Rightarrow> int) \<Rightarrow> int \<Rightarrow> int \<Rightarrow> int" where
  "local_instant utc_of day minute = utc_of (day * DAY_ms + minute * 60000)"

definition adhoc_handleSubmit :: "(int \<Rightarrow> int) \<Rightarrow> adhoc_form \<Rightarrow> adhoc_body option" where
  "adhoc_handleSubmit utc_of f = (case ah_cls f of
     None \<Rightarrow> None
   | Some cls \<Rightarrow> Some \<lparr>ad_class_id = gc_id cls, ad_starts_at = local_instant utc_of (ah_date f) (ah_start f),
       ad_ends_at = local_instant utc_of (ah_date f) (ah_end f), ad_head_coach_id = map_option co_id (ah_coach f),
       ad_assistant_coach_id = None, ad_notes = or_null (ah_notes f)\<rparr>)"

definition adhoc_disabled :: "adhoc_form \<Rightarrow> mutation_state \<Rightarrow> bool" where
  [view_defs]: "adhoc_disabled f m \<longleftrightarrow> ah_cls f = None \<or> isPending m"

text \<open>
  The session lands in the cell of the grid that was asked for: the day of the week of the date and the
  hour of the start, where the clock of that day shows the time typed.
\<close>

lemma adhoc_lands_in_cell:
  assumes "adhoc_handleSubmit utc_of f = Some b" "\<And>t. local (utc_of t) = t" "0 \<le> ah_start f" "ah_start f < 24 * 60"
  shows "getDay local (ad_starts_at b) = (ah_date f + 4) mod 7 \<and> getHours local (ad_starts_at b) = ah_start f div 60"
proof -
  let ?m = "ah_start f * 60000"
  have b: "ad_starts_at b = utc_of (ah_date f * DAY_ms + ?m)"
    using assms(1) by (auto simp: adhoc_handleSubmit_def local_instant_def split: option.splits)
  have m: "0 \<le> ?m" "?m < DAY_ms" using assms(3,4) by (simp_all add: DAY_ms_def)
  then have "(ah_date f * DAY_ms + ?m) div DAY_ms = ah_date f" "(ah_date f * DAY_ms + ?m) mod DAY_ms = ?m"
    by (simp_all add: DAY_ms_def)
  moreover have "?m div 3600000 = ah_start f div 60" by linarith
  ultimately show ?thesis using assms(2) by (simp add: b getDay_def getHours_def local_day_def)
qed

section \<open>The panel of a session\<close>

record session_panel =
  dp_session :: class_session
  dp_confirm :: bool
  dp_reason :: string
  dp_pendingHead :: "coach option"
  dp_update :: mutation_state
  dp_cancel :: mutation_state

definition panel_init :: "class_session \<Rightarrow> session_panel" where
  "panel_init s = \<lparr>dp_session = s, dp_confirm = False, dp_reason = [], dp_pendingHead = None,
     dp_update = MIdle, dp_cancel = MIdle\<rparr>"

definition panel_editable :: "user option \<Rightarrow> session_panel \<Rightarrow> bool" where
  [view_defs]: "panel_editable user p \<longleftrightarrow> owner_or_admin user \<and> cs_status (dp_session p) \<noteq> SN_cancelled"

definition panel_error :: "session_panel \<Rightarrow> thrown option" where
  [view_defs]: "panel_error p =
     (case mutation_error (dp_update p) of Some e \<Rightarrow> Some e | None \<Rightarrow> mutation_error (dp_cancel p))"

datatype panel_request = SwapHead string string | CancelSession string "string option"

datatype panel_event = DpPick coach | DpSwap | DpSwapped "thrown option" | DpAskCancel | DpReason string
  | DpConfirm | DpCancelled "thrown option" | DpAbort

fun panel_step :: "user option \<Rightarrow> panel_event \<Rightarrow> session_panel \<Rightarrow> session_panel \<times> panel_request list" where
  "panel_step user (DpPick c) p = (if panel_editable user p then p\<lparr>dp_pendingHead := Some c\<rparr> else p, [])"
| "panel_step user DpSwap p =
     (case dp_pendingHead p of
        None \<Rightarrow> (p, [])
      | Some c \<Rightarrow> if \<not> panel_editable user p \<or> isPending (dp_update p) then (p, [])
          else (p\<lparr>dp_update := MPending\<rparr>, [SwapHead (cs_id (dp_session p)) (co_id c)]))"
| "panel_step user (DpSwapped err) p =
     (if isPending (dp_update p)
      then (p\<lparr>dp_update := settled_state err, dp_pendingHead := (if err = None then None else dp_pendingHead p)\<rparr>, [])
      else (p, []))"
| "panel_step user DpAskCancel p = (if panel_editable user p then p\<lparr>dp_confirm := True\<rparr> else p, [])"
| "panel_step user (DpReason r) p = (if dp_confirm p then p\<lparr>dp_reason := r\<rparr> else p, [])"
| "panel_step user DpConfirm p =
     (if dp_confirm p \<and> \<not> isPending (dp_cancel p)
      then (p\<lparr>dp_cancel := MPending\<rparr>, [CancelSession (cs_id (dp_session p)) (or_null (dp_reason p))]) else (p, []))"
| "panel_step user (DpCancelled err) p =
     (if isPending (dp_cancel p)
      then (p\<lparr>dp_cancel := settled_state err, dp_confirm := (dp_confirm p \<and> err \<noteq> None)\<rparr>, []) else (p, []))"
| "panel_step user DpAbort p = (p\<lparr>dp_confirm := False\<rparr>, [])"

text \<open>A swap and a cancellation each wait for their own answer.\<close>

interpretation panel_swap: single_flight "panel_step user" "\<lambda>_. True" "\<lambda>r. \<exists>i c. r = SwapHead i c"
  "\<lambda>e. \<exists>err. e = DpSwapped err" "\<lambda>p. isPending (dp_update p)" for user
  by (unfold_locales, goal_cases) (case_tac e; auto split: option.splits if_splits)+

interpretation panel_cancel: single_flight "panel_step user" "\<lambda>_. True" "\<lambda>r. \<exists>i x. r = CancelSession i x"
  "\<lambda>e. \<exists>err. e = DpCancelled err" "\<lambda>p. isPending (dp_cancel p)" for user
  by (unfold_locales, goal_cases) (case_tac e; auto split: option.splits if_splits)+

text \<open>The server's two handlers on the row of the session; the ids name themselves.\<close>

definition server_cancel_session ::
  "string \<Rightarrow> string option \<Rightarrow> string option \<Rightarrow> class_session \<Rightarrow> app_error + class_session" where
  "server_cancel_session now caller reason s =
     (if cs_status s = SN_scheduled
      then Inr (s\<lparr>cs_status := SN_cancelled, cs_cancelled_at := Some now, cs_cancelled_by := caller,
                  cs_cancellation_reason := reason, cs_is_customized := True\<rparr>)
      else Inl (SessionStatusTransitionError (cs_id s) (session_status_text (cs_status s)) ''cancel''))"

definition server_swap_head :: "string \<Rightarrow> class_session \<Rightarrow> app_error + class_session" where
  "server_swap_head coach s =
     (if cs_status s = SN_scheduled then Inr (s\<lparr>cs_head_coach_id := Some coach, cs_is_customized := True\<rparr>)
      else Inl (SessionStatusTransitionError (cs_id s) (session_status_text (cs_status s)) ''edit''))"

fun server_session :: "string \<Rightarrow> string option \<Rightarrow> panel_request \<Rightarrow> class_session \<Rightarrow> app_error + class_session" where
  "server_session now caller (SwapHead _ coach) s = server_swap_head coach s"
| "server_session now caller (CancelSession _ reason) s = server_cancel_session now caller reason s"

text \<open>
  The panel works on the session it was opened with: its requests name that session and come from an owner,
  who opened it while the session was scheduled.
\<close>

interpretation panel: ui_machine "panel_step user" "panel_init s" "\<lambda>_. True"
  "\<lambda>p. dp_session p = s \<and> (dp_confirm p \<longrightarrow> owner_or_admin user \<and> cs_status s = SN_scheduled)"
  "\<lambda>r. owner_or_admin user \<and> cs_status s = SN_scheduled \<and>
     (case r of SwapHead i _ \<Rightarrow> i = cs_id s | CancelSession i _ \<Rightarrow> i = cs_id s)" for user s
proof (unfold_locales, goal_cases)
  case 1
  show ?case by (simp add: panel_init_def)
next
  case (2 e p)
  have "cs_status s = SN_scheduled \<or> cs_status s = SN_cancelled" by (cases "cs_status s") auto
  with 2 show ?case by (cases e) (auto simp: panel_editable_def split: option.splits)
next
  case (3 e p r)
  have "cs_status s = SN_scheduled \<or> cs_status s = SN_cancelled" by (cases "cs_status s") auto
  with 3 show ?case by (cases e) (auto simp: panel_editable_def split: option.splits if_splits)
qed

lemma panel_accepted_on_fresh_row:
  "r \<in> set (snd (ui_run (panel_step user) es (panel_init s))) \<Longrightarrow> \<exists>s'. server_session now caller r s = Inr s'"
  using panel.run_good [of es r user s]
  by (cases r) (auto simp: list_all_iff server_swap_head_def server_cancel_session_def)

definition cancel_events :: "panel_event list" where
  "cancel_events = [DpAskCancel, DpConfirm, DpCancelled None]"

text \<open>The panel keeps the session it was opened with. After a cancellation that the server made, it offers the
  cancellation again; confirmed again, the request is refused and shown as an action that is not possible.\<close>

lemma cancelled_session_offered_again:
  assumes "owner_or_admin user" "cs_status s = SN_scheduled" "id_text (cs_id s)"
  shows "\<exists>s'. server_cancel_session now caller None s = Inr s'
    \<and> panel_editable user (fst (ui_run (panel_step user) cancel_events (panel_init s)))
    \<and> snd (ui_run (panel_step user) (cancel_events @ [DpAskCancel, DpConfirm]) (panel_init s))
        = [CancelSession (cs_id s) None, CancelSession (cs_id s) None]
    \<and> (\<exists>err. server_cancel_session now caller None s' = Inl err \<and> shown humanizeScheduleError err = Some ActionNotPossible)"
proof (intro exI conjI)
  let ?s = "s\<lparr>cs_status := SN_cancelled, cs_cancelled_at := Some now, cs_cancelled_by := caller, cs_cancellation_reason := None, cs_is_customized := True\<rparr>"
  let ?err = "SessionStatusTransitionError (cs_id s) ''cancelled'' ''cancel''"
  show "server_cancel_session now caller None s = Inr ?s" using assms by (simp add: server_cancel_session_def)
  show "panel_editable user (fst (ui_run (panel_step user) cancel_events (panel_init s)))"
    "snd (ui_run (panel_step user) (cancel_events @ [DpAskCancel, DpConfirm]) (panel_init s))
        = [CancelSession (cs_id s) None, CancelSession (cs_id s) None]"
    using assms by (simp_all add: cancel_events_def panel_init_def panel_editable_def settled_state_def or_null_def)
  show "server_cancel_session now caller None ?s = Inl ?err" by (simp add: server_cancel_session_def)
  have "\<not> str_includes (app_message ?err) ''SESSION_TRANSITION''"
  proof (rule not_includes_char)
    show "CHR ''N'' \<in> set ''SESSION_TRANSITION''" by simp
    show "CHR ''N'' \<notin> set (app_message ?err)"
      using assms(3) unfolding id_text_def by auto
  qed
  then show "shown humanizeScheduleError ?err = Some ActionNotPossible"
    by (simp add: shown_eq humanizeScheduleError_def)
qed

lemma cancelled_session_offered_again_witness:
  "\<exists>s'. server_cancel_session ''2026-05-01T10:00:00Z'' None None (sample_session ''5e'' []) = Inr s'
     \<and> (\<exists>err. server_cancel_session ''2026-05-01T10:00:00Z'' None None s' = Inl err \<and> shown humanizeScheduleError err = Some ActionNotPossible)"
proof -
  have o: "owner_or_admin (Some (sample_user R_owner))" by (simp add: owner_or_admin_def)
  have s: "cs_status (sample_session ''5e'' []) = SN_scheduled" "id_text (cs_id (sample_session ''5e'' []))"
    by (simp_all add: sample_session_def id_text_def)
  from cancelled_session_offered_again [OF o s] show ?thesis by blast
qed

end
