(* ===== verification/BulkActions.thy ===== *)
theory BulkActions
  imports ScheduleDialogs "HOL-Library.AList"
begin

text \<open>
  The action on a range of dates, \<^verbatim>\<open>features/schedule/BulkActionDialog.tsx\<close>, against \<open>bulk_action\<close> of
  \<^verbatim>\<open>backend/app/services/schedule_service.py\<close>, and the switches of the gym page,
  \<^verbatim>\<open>features/schedule/TenantFeaturesSection.tsx\<close>. Dates are ISO texts, whose order is the order of the
  texts.
\<close>

section \<open>The dialog\<close>

datatype bulk_action = BK_cancel | BK_swap_coach

record bulk_form =
  bf_cls :: "gym_class option"
  bf_from :: string
  bf_to :: string
  bf_action :: bulk_action
  bf_coach :: "coach option"
  bf_reason :: string
  bf_subPayModel :: pay_model
  bf_subPayAmount :: rat

definition bulk_init :: bulk_form where
  "bulk_init = \<lparr>bf_cls = None, bf_from = [], bf_to = [], bf_action = BK_cancel, bf_coach = None, bf_reason = [],
     bf_subPayModel = PY_per_session, bf_subPayAmount = 30\<rparr>"

text \<open>\<open>classCoachLinks\<close> are the links of the picked class, \<open>None\<close> until they are loaded.\<close>

definition link_in_range :: "string \<Rightarrow> string \<Rightarrow> class_coach \<Rightarrow> bool" where
  "link_in_range frm til l \<longleftrightarrow> cc_starts_on l \<le> til \<and> (case cc_ends_on l of None \<Rightarrow> True | Some e \<Rightarrow> frm \<le> e)"

definition subHasRateForRange :: "class_coach list option \<Rightarrow> bulk_form \<Rightarrow> bool" where
  "subHasRateForRange classCoachLinks f = (case (bf_cls f, bf_coach f) of
     (Some cls, Some coach) \<Rightarrow>
       if bf_action f \<noteq> BK_swap_coach then True
       else (case classCoachLinks of
               None \<Rightarrow> True
             | Some links \<Rightarrow>
                 if bf_from f = [] \<or> bf_to f = [] then True
                 else list_ex (\<lambda>l. cc_coach_id l = co_id coach \<and> link_in_range (bf_from f) (bf_to f) l) links)
   | _ \<Rightarrow> True)"

definition needsSubPay :: "class_coach list option \<Rightarrow> bulk_form \<Rightarrow> bool" where
  "needsSubPay links f \<longleftrightarrow> bf_action f = BK_swap_coach \<and> bf_coach f \<noteq> None \<and> \<not> subHasRateForRange links f"

record bulk_body =
  bb_class_id :: string
  bb_from :: string
  bb_to :: string
  bb_action :: bulk_action
  bb_new_coach_id :: "string option"
  bb_reason :: "string option"
  bb_substitute_pay_model :: "pay_model option"
  bb_substitute_pay_amount_cents :: "int option"

definition bulk_handleSubmit :: "class_coach list option \<Rightarrow> bulk_form \<Rightarrow> bulk_body option" where
  "bulk_handleSubmit links f = (case bf_cls f of
     None \<Rightarrow> None
   | Some cls \<Rightarrow>
       if bf_from f = [] \<or> bf_to f = [] then None
       else if bf_action f = BK_swap_coach \<and> bf_coach f = None then None
       else Some \<lparr>bb_class_id = gc_id cls, bb_from = bf_from f, bb_to = bf_to f, bb_action = bf_action f,
              bb_new_coach_id = (if bf_action f = BK_swap_coach then map_option co_id (bf_coach f) else None),
              bb_reason = or_null (bf_reason f),
              bb_substitute_pay_model = (if needsSubPay links f then Some (bf_subPayModel f) else None),
              bb_substitute_pay_amount_cents =
                (if needsSubPay links f then Some (max 0 (agorot (bf_subPayAmount f))) else None)\<rparr>)"

definition bulk_disabled :: "mutation_state \<Rightarrow> bulk_form \<Rightarrow> bool" where
  [view_defs]: "bulk_disabled m f \<longleftrightarrow> isPending m \<or> bf_cls f = None \<or> bf_from f = [] \<or> bf_to f = []
     \<or> (bf_action f = BK_swap_coach \<and> bf_coach f = None)"

text \<open>The pay inputs and the reason are only there when they are asked for; nothing is reset.\<close>

datatype bulk_event = BkClass gym_class | BkFrom string | BkTo string | BkAction bulk_action | BkCoach coach
  | BkReason string | BkPayModel pay_model | BkAmount num_text

fun bulk_step :: "class_coach list option \<Rightarrow> bulk_event \<Rightarrow> bulk_form \<Rightarrow> bulk_form" where
  "bulk_step links (BkClass c) f = f\<lparr>bf_cls := Some c\<rparr>"
| "bulk_step links (BkFrom d) f = f\<lparr>bf_from := d\<rparr>"
| "bulk_step links (BkTo d) f = f\<lparr>bf_to := d\<rparr>"
| "bulk_step links (BkAction a) f = f\<lparr>bf_action := a\<rparr>"
| "bulk_step links (BkCoach c) f = (if bf_action f = BK_swap_coach then f\<lparr>bf_coach := Some c\<rparr> else f)"
| "bulk_step links (BkReason r) f = (if bf_action f = BK_cancel then f\<lparr>bf_reason := r\<rparr> else f)"
| "bulk_step links (BkPayModel m) f = (if needsSubPay links f then f\<lparr>bf_subPayModel := m\<rparr> else f)"
| "bulk_step links (BkAmount t) f = (if needsSubPay links f then f\<lparr>bf_subPayAmount := js_Number t\<rparr> else f)"

section \<open>The server's checks\<close>

text \<open>
  \<open>today\<close> is the server's date, \<open>days_apart\<close> the difference of two dates in days, \<open>links\<close> all links of the gym.
  The class and the coach of the request belong to the gym.
\<close>

definition has_rate :: "string \<Rightarrow> class_coach list \<Rightarrow> bulk_body \<Rightarrow> bool" where
  "has_rate today links b \<longleftrightarrow> list_ex (\<lambda>l. cc_class_id l = bb_class_id b \<and> link_in_range (bb_from b) (bb_to b) l)
     (filter (\<lambda>l. Some (cc_coach_id l) = bb_new_coach_id b
                \<and> (case cc_ends_on l of None \<Rightarrow> True | Some e \<Rightarrow> today \<le> e)) links)"

definition SUBSTITUTE_PAY_REQUIRED :: app_error where
  "SUBSTITUTE_PAY_REQUIRED = InvalidBulkRangeError (''SUBSTITUTE_PAY_REQUIRED: the new coach has no ''
     @ ''pay rate for this class. Provide substitute_pay_model ''
     @ ''+ substitute_pay_amount_cents to create a temporary '' @ ''rate for this period.'')"

definition server_bulk_error ::
  "(string \<Rightarrow> string \<Rightarrow> int) \<Rightarrow> string \<Rightarrow> class_coach list \<Rightarrow> bulk_body \<Rightarrow> app_error option" where
  "server_bulk_error days_apart today links b =
     (if bb_to b < bb_from b
      then Some (InvalidBulkRangeError (''to_date ('' @ bb_to b @ '') must be >= from_date ('' @ bb_from b @ '')''))
      else if 366 < days_apart (bb_from b) (bb_to b) then Some (InvalidBulkRangeError ''bulk range > 1 year is not allowed'')
      else if bb_action b = BK_swap_coach then
        (if bb_new_coach_id b = None then Some (InvalidBulkRangeError ''swap_coach requires new_coach_id'')
         else if \<not> has_rate today links b
                \<and> (bb_substitute_pay_model b = None \<or> bb_substitute_pay_amount_cents b = None)
         then Some SUBSTITUTE_PAY_REQUIRED else None)
      else None)"

text \<open>With the links of the class loaded, the dialog looks for a rate as the server does, but for its date.\<close>

lemma rate_of_swap:
  assumes "bulk_handleSubmit (Some (filter (\<lambda>l. cc_class_id l = gc_id cls) links)) f = Some b"
    "bf_cls f = Some cls" "bb_action b = BK_swap_coach"
  obtains coach :: coach where "bb_new_coach_id b = Some (co_id coach)"
    "bb_substitute_pay_model b = None \<longleftrightarrow>
       (\<exists>l \<in> set links. cc_class_id l = bb_class_id b \<and> cc_coach_id l = co_id coach \<and> link_in_range (bb_from b) (bb_to b) l)"
    "bb_substitute_pay_amount_cents b = None \<longleftrightarrow> bb_substitute_pay_model b = None"
proof -
  from assms obtain coach :: coach where c: "bf_coach f = Some coach" "bf_from f \<noteq> []" "bf_to f \<noteq> []" "bf_action f = BK_swap_coach"
    by (auto simp: bulk_handleSubmit_def split: option.splits if_splits)
  from assms(1,2) c have b: "bb_class_id b = gc_id cls" "bb_from b = bf_from f" "bb_to b = bf_to f"
    "bb_new_coach_id b = Some (co_id coach)"
    "bb_substitute_pay_model b = None \<longleftrightarrow> \<not> needsSubPay (Some (filter (\<lambda>l. cc_class_id l = gc_id cls) links)) f"
    "bb_substitute_pay_amount_cents b = None \<longleftrightarrow> bb_substitute_pay_model b = None"
    by (auto simp: bulk_handleSubmit_def)
  show thesis
    by (rule that [of coach])
      (use b c assms(2) in \<open>auto simp: needsSubPay_def subHasRateForRange_def list_ex_iff\<close>)
qed


definition sample_gym_class :: gym_class where
  "sample_gym_class = \<lparr>gc_color = None, gc_created_at = [], gc_description = None, gc_id = ''k1'', gc_is_active = True,
     gc_name = ''Boxing'', gc_tenant_id = ''t1'', gc_updated_at = []\<rparr>"

definition ended_link :: class_coach where
  "ended_link = \<lparr>cc_class_id = ''k1'', cc_coach_id = ''c1'', cc_created_at = [], cc_ends_on = Some ''2026-03-05'',
     cc_id = ''n1'', cc_is_primary = True, cc_pay_amount_cents = 5000, cc_pay_model = PY_per_session, cc_role = ''head'',
     cc_starts_on = ''2026-01-01'', cc_tenant_id = ''t1'', cc_updated_at = [], cc_weekdays = []\<rparr>"

definition swap_form :: bulk_form where
  "swap_form = bulk_init\<lparr>bf_cls := Some sample_gym_class, bf_coach := Some sample_coach, bf_action := BK_swap_coach,
     bf_from := ''2026-03-01'', bf_to := ''2026-03-14''\<rparr>"


text \<open>The refusal is shown with the general message for invalid details: the dialog does not ask for the rate.\<close>

lemma substitute_pay_shown: "shown humanizeScheduleError SUBSTITUTE_PAY_REQUIRED = Some InvalidDetails"
proof -
  have "\<not> str_includes (app_message SUBSTITUTE_PAY_REQUIRED) ''INVALID_BULK_RANGE''"
    by (rule not_includes_char [of "CHR ''V''"]) (simp_all add: SUBSTITUTE_PAY_REQUIRED_def)
  then show ?thesis by (simp add: shown_eq SUBSTITUTE_PAY_REQUIRED_def humanizeScheduleError_def)
qed

text \<open>A reason typed for a cancellation is still sent after the action was changed to a swap.\<close>

lemma reason_survives_action:
  "bf_reason (fold (bulk_step links) [BkAction BK_cancel, BkReason ''holiday'', BkAction BK_swap_coach] f) = ''holiday''"
  by simp

section \<open>The feature switches of a gym\<close>

text \<open>A record of flags is the list of its entries; writing a key replaces the entry or appends it.\<close>

type_synonym flags = "(string \<times> bool) list"

record features_section =
  fs_pending :: flags

definition effective_flags :: "flags \<Rightarrow> features_section \<Rightarrow> flags" where
  "effective_flags features s = AList.merge features (fs_pending s)"

definition switch_on :: "flags \<Rightarrow> features_section \<Rightarrow> string \<Rightarrow> bool" where
  [view_defs]: "switch_on features s key = nullish (map_of (effective_flags features s) key) False"

definition toggle_flag :: "flags \<Rightarrow> string \<Rightarrow> features_section \<Rightarrow> features_section" where
  "toggle_flag features key s = s\<lparr>fs_pending := AList.update key (\<not> switch_on features s key) (fs_pending s)\<rparr>"

definition flags_dirty :: "features_section \<Rightarrow> bool" where
  [view_defs]: "flags_dirty s \<longleftrightarrow> 0 < length (map fst (fs_pending s))"

text \<open>The update that is sent; the schema keeps its gated keys, and the row is merged with them.\<close>

definition features_handleSave :: "features_section \<Rightarrow> flags option" where
  "features_handleSave s = (if flags_dirty s then Some (fs_pending s) else None)"

definition server_merge_features :: "flags \<Rightarrow> flags \<Rightarrow> flags" where
  "server_merge_features updates stored =
     AList.merge stored (filter (\<lambda>(k, _). k \<in> set (map feature_text GATED_FEATURES)) updates)"

definition features_refetched :: "features_section \<Rightarrow> features_section" where
  "features_refetched s = s\<lparr>fs_pending := []\<rparr>"

lemma gated_texts: "set (map feature_text GATED_FEATURES) = {''coaches'', ''schedule'', ''leads''}"
  by (simp add: GATED_FEATURES_def)

text \<open>A switch flips and leaves the others alone.\<close>

lemma toggle_flag_switch:
  "switch_on features (toggle_flag features key s) k = (if k = key then \<not> switch_on features s key else switch_on features s k)"
  by (simp add: switch_on_def toggle_flag_def effective_flags_def nullish_def merge_conv' update_conv' map_add_def)

text \<open>What was shown is what is stored, and what is shown after the answer.\<close>

lemma features_saved:
  assumes "fst ` set (fs_pending s) \<subseteq> set (map feature_text GATED_FEATURES)" "features_handleSave s = Some updates"
  shows "switch_on (server_merge_features updates features) (features_refetched s) k = switch_on features s k"
proof -
  have "filter (\<lambda>(k, _). k \<in> set (map feature_text GATED_FEATURES)) (fs_pending s) = fs_pending s"
    using assms(1) by (auto simp: filter_id_conv simp del: set_map)
  with assms(2) show ?thesis
    by (simp add: features_handleSave_def server_merge_features_def switch_on_def effective_flags_def features_refetched_def
        merge_conv' split: if_splits)
qed

end
