(* ===== verification/EntityForms.thy ===== *)
theory EntityForms
  imports QueryHooks UiMachine
begin

text \<open>
  The forms of members, classes and coaches (\<^verbatim>\<open>features/members/MemberForm.tsx\<close>,
  \<^verbatim>\<open>features/classes/ClassForm.tsx\<close> with its colour picker, \<^verbatim>\<open>features/coaches/CoachForm.tsx\<close>) against the
  partial updates of the server, and the pages that hold an edit form (\<^verbatim>\<open>MemberDetailPage.tsx\<close>,
  \<^verbatim>\<open>ClassDetailPage.tsx\<close>, \<^verbatim>\<open>PlanDetailPage.tsx\<close>, \<^verbatim>\<open>TenantDetailPage.tsx\<close>).
\<close>

section \<open>Members\<close>

record member_form =
  mm_first_name :: string
  mm_last_name :: string
  mm_phone :: string
  mm_email :: "string option"
  mm_date_of_birth :: "string option"
  mm_gender :: "string option"
  mm_join_date :: "string option"
  mm_notes :: "string option"
  mm_custom_fields :: "(string \<times> json) list"

definition member_form_init :: "member option \<Rightarrow> member_form" where
  "member_form_init initial =
     \<lparr>mm_first_name = nullish (map_option m_first_name initial) [],
      mm_last_name = nullish (map_option m_last_name initial) [],
      mm_phone = nullish (map_option m_phone initial) [],
      mm_email = Some (nullish (Option.bind initial m_email) []),
      mm_date_of_birth = Option.bind initial m_date_of_birth,
      mm_gender = Some (nullish (Option.bind initial m_gender) []),
      mm_join_date = map_option m_join_date initial,
      mm_notes = Some (nullish (Option.bind initial m_notes) []),
      mm_custom_fields = nullish (map_option m_custom_fields initial) []\<rparr>"

text \<open>The three required inputs keep their text; an emptied optional input becomes null.\<close>

datatype member_input = MI_first_name | MI_last_name | MI_phone | MI_email | MI_date_of_birth | MI_gender
  | MI_join_date | MI_notes

fun member_setField :: "member_input \<Rightarrow> string \<Rightarrow> member_form \<Rightarrow> member_form" where
  "member_setField MI_first_name v f = f\<lparr>mm_first_name := v\<rparr>"
| "member_setField MI_last_name v f = f\<lparr>mm_last_name := v\<rparr>"
| "member_setField MI_phone v f = f\<lparr>mm_phone := v\<rparr>"
| "member_setField MI_email v f = f\<lparr>mm_email := or_null v\<rparr>"
| "member_setField MI_date_of_birth v f = f\<lparr>mm_date_of_birth := or_null v\<rparr>"
| "member_setField MI_gender v f = f\<lparr>mm_gender := or_null v\<rparr>"
| "member_setField MI_join_date v f = f\<lparr>mm_join_date := or_null v\<rparr>"
| "member_setField MI_notes v f = f\<lparr>mm_notes := or_null v\<rparr>"

text \<open>
  The form hands its whole state on. The update schema of the server has no join date, so that key is
  dropped; every other key overwrites the row.
\<close>

definition member_handleSubmit :: "member_form \<Rightarrow> member_form" where
  "member_handleSubmit f = f"

definition server_update_member :: "member_form \<Rightarrow> member \<Rightarrow> member" where
  "server_update_member v m = m\<lparr>m_first_name := mm_first_name v, m_last_name := mm_last_name v,
     m_phone := mm_phone v, m_email := mm_email v, m_date_of_birth := mm_date_of_birth v,
     m_gender := mm_gender v, m_notes := mm_notes v, m_custom_fields := mm_custom_fields v\<rparr>"

text \<open>What the inputs show; null and the empty text look alike.\<close>

definition member_shown :: "member_form \<Rightarrow> member_input \<Rightarrow> string" where
  [view_defs]: "member_shown f i = (case i of
     MI_first_name \<Rightarrow> mm_first_name f | MI_last_name \<Rightarrow> mm_last_name f | MI_phone \<Rightarrow> mm_phone f
   | MI_email \<Rightarrow> nullish (mm_email f) [] | MI_date_of_birth \<Rightarrow> nullish (mm_date_of_birth f) []
   | MI_gender \<Rightarrow> nullish (mm_gender f) [] | MI_join_date \<Rightarrow> nullish (mm_join_date f) []
   | MI_notes \<Rightarrow> nullish (mm_notes f) [])"

lemma member_shown_set:
  "member_shown (member_setField i v f) j = (if j = i then v else member_shown f j)"
  by (cases i; cases j) (simp_all add: member_shown_def nullish_def or_null_def)

lemma member_setField_custom: "mm_custom_fields (member_setField i v f) = mm_custom_fields f"
  by (cases i) simp_all

text \<open>What an edit form shows when it is saved is what the stored member shows when it is opened again,
  with one exception: a change of the join date is lost.\<close>

lemma member_edit_roundtrip:
  "member_shown (member_form_init (Some (server_update_member (member_handleSubmit f) m))) i
     = (if i = MI_join_date then m_join_date m else member_shown f i)"
  by (cases i) (simp_all add: member_shown_def member_form_init_def server_update_member_def
      member_handleSubmit_def nullish_def split: option.splits)

lemma member_custom_fields_kept:
  "m_custom_fields (server_update_member (member_handleSubmit (fold (\<lambda>(i, v). member_setField i v) es (member_form_init (Some m)))) m)
     = m_custom_fields m"
proof -
  have "mm_custom_fields (fold (\<lambda>(i, v). member_setField i v) es f) = mm_custom_fields f" for f
    by (induction es arbitrary: f) (auto simp: member_setField_custom)
  then show ?thesis by (simp add: server_update_member_def member_handleSubmit_def member_form_init_def nullish_def)
qed

section \<open>Classes\<close>

record class_form =
  cf_name :: string
  cf_description :: string
  cf_color :: string

definition class_form_init :: "gym_class option \<Rightarrow> class_form" where
  "class_form_init initial = \<lparr>cf_name = nullish (map_option gc_name initial) [],
     cf_description = nullish (Option.bind initial gc_description) [],
     cf_color = nullish (Option.bind initial gc_color) []\<rparr>"

record class_values =
  cv_name :: string
  cv_description :: "string option"
  cv_color :: "string option"

definition class_handleSubmit :: "class_form \<Rightarrow> class_values" where
  "class_handleSubmit f = \<lparr>cv_name = cf_name f, cv_description = or_null (cf_description f),
     cv_color = or_null (cf_color f)\<rparr>"

definition server_update_class :: "class_values \<Rightarrow> gym_class \<Rightarrow> gym_class" where
  "server_update_class v c = c\<lparr>gc_name := cv_name v, gc_description := cv_description v, gc_color := cv_color v\<rparr>"

lemma class_edit_saved: "class_form_init (Some (server_update_class (class_handleSubmit f) c)) = f"
  by (cases f) (simp add: class_form_init_def server_update_class_def class_handleSubmit_def nullish_def or_null_def)

text \<open>The colour picker: presets, and a free colour that the browser's input holds as six hex digits.\<close>

definition PRESET_COLORS :: "string list" where
  "PRESET_COLORS = [''#3B82F6'', ''#10B981'', ''#EF4444'', ''#F97316'', ''#F59E0B'', ''#8B5CF6'', ''#EC4899'',
     ''#06B6D4'', ''#6366F1'', ''#84CC16'', ''#6B7280'']"

definition isCustomColor :: "string \<Rightarrow> bool" where
  [view_defs]: "isCustomColor color \<longleftrightarrow> color \<noteq> [] \<and> \<not> list_ex (\<lambda>hex. hex = color) PRESET_COLORS"

definition is_hex_color :: "string \<Rightarrow> bool" where
  "is_hex_color s \<longleftrightarrow> length s = 7 \<and> take 1 s = ''#'' \<and> list_all (\<lambda>c. c \<in> set ''0123456789ABCDEFabcdef'') (drop 1 s)"

definition color_input_value :: "string \<Rightarrow> string" where
  [view_defs]: "color_input_value color = (if is_hex_color color then color else ''#3B82F6'')"

datatype color_event = ClickPreset nat | FreeColor string | ClearColor

fun color_step :: "color_event \<Rightarrow> string \<Rightarrow> string" where
  "color_step (ClickPreset i) color = (if i < length PRESET_COLORS then PRESET_COLORS ! i else color)"
| "color_step (FreeColor c) color = c"
| "color_step ClearColor color = (if color = [] then color else [])"

lemma presets_hex: "list_all is_hex_color PRESET_COLORS"
  by (simp add: PRESET_COLORS_def is_hex_color_def)

text \<open>The picker only produces colours of the server's length, and at most one swatch is marked.\<close>

lemma picked_color_ok:
  assumes "list_all (\<lambda>e. case e of FreeColor c \<Rightarrow> is_hex_color c | _ \<Rightarrow> True) es"
  shows "(let c = fold color_step es [] in c = [] \<or> is_hex_color c \<and> length c \<le> 20)"
proof -
  have "fold color_step es [] = [] \<or> is_hex_color (fold color_step es [])"
  proof (rule fold_invariant [where Q = "\<lambda>e. case e of FreeColor c \<Rightarrow> is_hex_color c | _ \<Rightarrow> True"])
    show "\<And>e. e \<in> set es \<Longrightarrow> case e of FreeColor c \<Rightarrow> is_hex_color c | _ \<Rightarrow> True"
      using assms by (simp add: list_all_iff)
    fix e c assume "case e of FreeColor c \<Rightarrow> is_hex_color c | _ \<Rightarrow> True" "c = [] \<or> is_hex_color c"
    then show "color_step e c = [] \<or> is_hex_color (color_step e c)"
      using presets_hex by (cases e) (auto simp: list_all_length)
  qed simp
  then show ?thesis by (auto simp: Let_def is_hex_color_def)
qed

lemma one_swatch_marked:
  "c \<noteq> [] \<Longrightarrow> isCustomColor c \<longleftrightarrow> c \<notin> set PRESET_COLORS" "distinct PRESET_COLORS"
  by (auto simp: isCustomColor_def list_ex_iff) (simp add: PRESET_COLORS_def)

section \<open>Coaches\<close>

record coach_form =
  fc_first_name :: string
  fc_last_name :: string
  fc_phone :: string
  fc_email :: string

definition coach_form_init :: "coach option \<Rightarrow> coach_form" where
  "coach_form_init initial = \<lparr>fc_first_name = nullish (map_option co_first_name initial) [],
     fc_last_name = nullish (map_option co_last_name initial) [],
     fc_phone = nullish (Option.bind initial co_phone) [], fc_email = nullish (Option.bind initial co_email) []\<rparr>"

record coach_values =
  vc_first_name :: string
  vc_last_name :: string
  vc_phone :: "string option"
  vc_email :: "string option"

definition coach_handleSubmit :: "coach_form \<Rightarrow> coach_values" where
  "coach_handleSubmit f = \<lparr>vc_first_name = trim (fc_first_name f), vc_last_name = trim (fc_last_name f),
     vc_phone = or_null (trim (fc_phone f)), vc_email = or_null (trim (fc_email f))\<rparr>"

definition server_update_coach :: "coach_values \<Rightarrow> coach \<Rightarrow> coach" where
  "server_update_coach v c = c\<lparr>co_first_name := vc_first_name v, co_last_name := vc_last_name v,
     co_phone := vc_phone v, co_email := vc_email v\<rparr>"

lemma coach_edit_saved:
  "coach_form_init (Some (server_update_coach (coach_handleSubmit f) c))
     = \<lparr>fc_first_name = trim (fc_first_name f), fc_last_name = trim (fc_last_name f),
        fc_phone = trim (fc_phone f), fc_email = trim (fc_email f)\<rparr>"
  by (simp add: coach_form_init_def server_update_coach_def coach_handleSubmit_def nullish_def or_null_def)

text \<open>Saving twice is saving once.\<close>

lemma coach_submit_idem:
  "coach_handleSubmit (coach_form_init (Some (server_update_coach (coach_handleSubmit f) c))) = coach_handleSubmit f"
  by (simp add: coach_edit_saved) (simp add: coach_handleSubmit_def)

section \<open>The pages that edit one entity\<close>

text \<open>
  \<open>ident\<close> is the id of the route; the class, plan and gym pages go back to their list after a save,
  the member page stays.
\<close>

datatype 'v page_effect = StartUpdate string 'v | NavigateTo string

datatype 'v page_event = PageSubmit 'v | PageAnswer "thrown option" | PageCancel | PageBack

record entity_page =
  ep_update :: mutation_state

definition entity_page_init :: entity_page where
  "entity_page_init = \<lparr>ep_update = MIdle\<rparr>"

fun entity_step ::
  "string option \<Rightarrow> string \<Rightarrow> bool \<Rightarrow> 'v page_event \<Rightarrow> entity_page \<Rightarrow> entity_page \<times> 'v page_effect list" where
  "entity_step ident list_path leaves (PageSubmit v) p =
     (case ident of
        None \<Rightarrow> (p, [])
      | Some i \<Rightarrow> if i = [] \<or> isPending (ep_update p) then (p, [])
          else (p\<lparr>ep_update := MPending\<rparr>, [StartUpdate i v]))"
| "entity_step ident list_path leaves (PageAnswer err) p =
     (if isPending (ep_update p)
      then (case err of
              None \<Rightarrow> (p\<lparr>ep_update := MIdle\<rparr>, if leaves then [NavigateTo list_path] else [])
            | Some e \<Rightarrow> (p\<lparr>ep_update := MFailed e\<rparr>, []))
      else (p, []))"
| "entity_step ident list_path leaves PageCancel p = (p\<lparr>ep_update := MIdle\<rparr>, [NavigateTo list_path])"
| "entity_step ident list_path leaves PageBack p = (p, [NavigateTo list_path])"

definition member_detail_step :: "string option \<Rightarrow> member_form page_event \<Rightarrow> entity_page \<Rightarrow> entity_page \<times> member_form page_effect list" where
  "member_detail_step ident = entity_step ident ''/members'' False"

definition class_detail_step :: "string option \<Rightarrow> class_values page_event \<Rightarrow> entity_page \<Rightarrow> entity_page \<times> class_values page_effect list" where
  "class_detail_step ident = entity_step ident ''/classes'' True"

definition plan_detail_step :: "string option \<Rightarrow> 'v page_event \<Rightarrow> entity_page \<Rightarrow> entity_page \<times> 'v page_effect list" where
  "plan_detail_step ident = entity_step ident ''/plans'' True"

definition tenant_detail_step :: "string option \<Rightarrow> 'v page_event \<Rightarrow> entity_page \<Rightarrow> entity_page \<times> 'v page_effect list" where
  "tenant_detail_step ident = entity_step ident ''/tenants'' True"

text \<open>Which of the three views a detail page renders.\<close>

datatype 'a entity_render = ViewLoading | ViewMissing | ViewForm 'a

definition entity_view :: "bool \<Rightarrow> thrown option \<Rightarrow> 'a option \<Rightarrow> 'a entity_render" where
  [view_defs]: "entity_view isLoading error data =
     (if isLoading then ViewLoading
      else case (error, data) of (None, Some x) \<Rightarrow> ViewForm x | _ \<Rightarrow> ViewMissing)"

text \<open>A page only updates the entity of its route, and never two at a time; going back to the list forgets the
  update that is under way.\<close>

interpretation entity_save: single_flight "entity_step ident list_path leaves" "\<lambda>_. True" "\<lambda>r. \<exists>i v. r = StartUpdate i v"
  "\<lambda>e. e = PageCancel \<or> (\<exists>err. e = PageAnswer err)" "\<lambda>p. isPending (ep_update p)" for ident list_path leaves
  by (unfold_locales, goal_cases) (case_tac e; auto split: option.splits if_splits)+

interpretation entity: ui_machine "entity_step ident list_path leaves" entity_page_init "\<lambda>_. True" "\<lambda>_. True"
  "\<lambda>r. case r of StartUpdate i _ \<Rightarrow> ident = Some i \<and> i \<noteq> [] | NavigateTo path \<Rightarrow> path = list_path"
  for ident list_path leaves
proof (unfold_locales, goal_cases)
  case (3 e s r)
  then show ?case by (cases e) (auto split: option.splits if_splits)
qed simp_all

lemma no_second_update:
  "isPending (ep_update p) \<Longrightarrow> snd (entity_step ident list_path leaves (PageSubmit v) p) = []"
  by (simp split: option.split)

end
