(* ===== verification/TsTypes.thy ===== *)
theory TsTypes
  imports Prelude
begin

text \<open>
  The TypeScript types the API description is written in, and when a JSON value has such a type. An
  object type lists its members; a value may have further members, as in TypeScript and as the
  server's schemas allow. An optional member may be missing.
\<close>

named_theorems schema_defs
named_theorems op_defs
named_theorems path_defs
named_theorems sig_defs

datatype (plugins only: size) ts_type =
    TString
  | TNumber
  | TBoolean
  | TNull
  | TUnknown
  | TNever
  | TLit string
  | TArray ts_type
  | TUnion "ts_type list"
  | TDict ts_type
  | TObj "ts_member list"
and ts_member = Member (member_name: string) (member_optional: bool) (member_type: ts_type)

abbreviation required :: "string \<Rightarrow> ts_type \<Rightarrow> ts_member" where
  "required k t \<equiv> Member k False t"

abbreviation optional :: "string \<Rightarrow> ts_type \<Rightarrow> ts_member" where
  "optional k t \<equiv> Member k True t"

abbreviation nullable :: "ts_type \<Rightarrow> ts_type" where
  "nullable t \<equiv> TUnion [t, TNull]"

fun conforms :: "ts_type \<Rightarrow> json \<Rightarrow> bool"
  and has_member :: "ts_member \<Rightarrow> (string \<times> json) list \<Rightarrow> bool" where
  "conforms TString j = (case j of JStr _ \<Rightarrow> True | _ \<Rightarrow> False)"
| "conforms TNumber j = (case j of JNum _ \<Rightarrow> True | _ \<Rightarrow> False)"
| "conforms TBoolean j = (case j of JBool _ \<Rightarrow> True | _ \<Rightarrow> False)"
| "conforms TNull j = (j = JNull)"
| "conforms TUnknown j = True"
| "conforms TNever j = False"
| "conforms (TLit s) j = (j = JStr s)"
| "conforms (TArray t) j = (case j of JArr js \<Rightarrow> list_all (conforms t) js | _ \<Rightarrow> False)"
| "conforms (TUnion ts) j = list_ex (\<lambda>t. conforms t j) ts"
| "conforms (TDict t) j = (case j of JObj kvs \<Rightarrow> list_all (\<lambda>kv. conforms t (snd kv)) kvs | _ \<Rightarrow> False)"
| "conforms (TObj ms) j = (case j of JObj kvs \<Rightarrow> list_all (\<lambda>m. has_member m kvs) ms | _ \<Rightarrow> False)"
| "has_member (Member k opt t) kvs = (case map_of kvs k of None \<Rightarrow> opt | Some v \<Rightarrow> conforms t v)"

text \<open>A value of an object type keeps it when members of other names are added.\<close>

lemma has_member_extend:
  "has_member m kvs \<Longrightarrow> member_name m \<notin> fst ` set extra \<Longrightarrow> has_member m (extra @ kvs)"
proof (cases m)
  case (Member k opt t)
  assume "has_member m kvs" "member_name m \<notin> fst ` set extra"
  moreover from this Member have "map_of extra k = None" by (simp add: map_of_eq_None_iff)
  ultimately show ?thesis using Member by (simp add: map_add_def)
qed

lemma conforms_extend:
  assumes "conforms (TObj ms) (JObj kvs)" and "fst ` set extra \<inter> member_name ` set ms = {}"
  shows "conforms (TObj ms) (JObj (extra @ kvs))"
proof -
  have "has_member m (extra @ kvs)" if "m \<in> set ms" for m
    using assms that by (intro has_member_extend) (auto simp: list_all_iff)
  then show ?thesis by (simp add: list_all_iff)
qed

text \<open>Every value of an object type is a JavaScript object, which is sent as a body.\<close>

lemma conforms_obj_truthy: "conforms (TObj ms) j \<Longrightarrow> truthy j"
  by (cases j) auto

section \<open>Texts of parameters\<close>

text \<open>A query parameter is text; a number or a boolean is sent as its text, an array as one
  parameter per element.\<close>

definition is_int_text :: "string \<Rightarrow> bool" where
  "is_int_text s = (let d = (case s of c # cs \<Rightarrow> if c = CHR ''-'' then cs else s | [] \<Rightarrow> [])
     in d \<noteq> [] \<and> list_all (\<lambda>c. c \<in> set ''0123456789'') d)"

fun param_ok :: "ts_type \<Rightarrow> string \<Rightarrow> bool" where
  "param_ok TString v = True"
| "param_ok TNumber v = is_int_text v"
| "param_ok TBoolean v = (v = ''true'' \<or> v = ''false'')"
| "param_ok (TLit s) v = (v = s)"
| "param_ok (TArray t) v = param_ok t v"
| "param_ok (TUnion ts) v = list_ex (\<lambda>t. param_ok t v) ts"
| "param_ok _ v = False"

fun is_array :: "ts_type \<Rightarrow> bool" where
  "is_array (TArray _) = True"
| "is_array (TUnion ts) = list_ex is_array ts"
| "is_array _ = False"

end
