(* ===== verification/ApiSchema.thy ===== *)
theory ApiSchema
  imports TsTypes
begin

text \<open>
  The \<^verbatim>\<open>components.schemas\<close> of \<^verbatim>\<open>frontend/src/lib/api-schema.ts\<close>: every request and response
  type the server declares, one definition per schema under its own name (a schema comes before the
  ones that refer to it, otherwise in file order), and the friendly names \<^verbatim>\<open>lib/api-types.ts\<close> gives
  them.
\<close>

definition LeadActivityType :: ts_type where
  [schema_defs]: "LeadActivityType = TUnion (map TLit [''call'', ''email'', ''note'', ''meeting'',
     ''status_change''])"

definition AddActivityRequest :: ts_type where
  [schema_defs]: "AddActivityRequest = TObj [required ''note'' TString, required ''type'' LeadActivityType]"

definition PayModel :: ts_type where
  [schema_defs]: "PayModel = TUnion (map TLit [''fixed'', ''per_session'', ''per_attendance''])"

definition AssignCoachRequest :: ts_type where
  [schema_defs]: "AssignCoachRequest = TObj [required ''coach_id'' TString,
     optional ''ends_on'' (nullable TString), required ''is_primary'' TBoolean,
     required ''pay_amount_cents'' TNumber, required ''pay_model'' PayModel,
     required ''role'' TString, optional ''starts_on'' (nullable TString),
     optional ''weekdays'' (TArray TString)]"

definition AssignLeadRequest :: ts_type where
  [schema_defs]: "AssignLeadRequest = TObj [optional ''user_id'' (nullable TString)]"

definition BillingPeriod :: ts_type where
  [schema_defs]: "BillingPeriod = TUnion (map TLit [''monthly'', ''quarterly'', ''yearly'', ''one_time''])"

definition Body_upload_logo_api_v1_uploads_logo_post :: ts_type where
  [schema_defs]: "Body_upload_logo_api_v1_uploads_logo_post = TObj [required ''file'' TString]"

definition BulkActionRequest :: ts_type where
  [schema_defs]: "BulkActionRequest = TObj [required ''action'' (TUnion (map TLit [''cancel'', ''swap_coach''])),
     required ''class_id'' TString, required ''from'' TString,
     optional ''new_coach_id'' (nullable TString), optional ''reason'' (nullable TString),
     optional ''substitute_pay_amount_cents'' (nullable TNumber),
     optional ''substitute_pay_model'' (nullable PayModel), required ''to'' TString]"

definition BulkActionResponse :: ts_type where
  [schema_defs]: "BulkActionResponse = TObj [required ''action'' TString,
     required ''affected_ids'' (TArray TString), required ''cancelled_count'' TNumber,
     optional ''substitute_link_id'' (nullable TString), required ''swapped_count'' TNumber]"

definition CancelSessionRequest :: ts_type where
  [schema_defs]: "CancelSessionRequest = TObj [optional ''reason'' (nullable TString)]"

definition CancelSubscriptionRequest :: ts_type where
  [schema_defs]: "CancelSubscriptionRequest = TObj [optional ''detail'' (nullable TString),
     optional ''reason'' (nullable TString)]"

definition ChangePlanRequest :: ts_type where
  [schema_defs]: "ChangePlanRequest = TObj [optional ''effective_date'' (nullable TString),
     required ''new_plan_id'' TString]"

definition ClassCoachResponse :: ts_type where
  [schema_defs]: "ClassCoachResponse = TObj [required ''class_id'' TString, required ''coach_id'' TString,
     required ''created_at'' TString, required ''ends_on'' (nullable TString),
     required ''id'' TString, required ''is_primary'' TBoolean,
     required ''pay_amount_cents'' TNumber, required ''pay_model'' PayModel,
     required ''role'' TString, required ''starts_on'' TString, required ''tenant_id'' TString,
     required ''updated_at'' TString, required ''weekdays'' (TArray TString)]"

definition CoachStatus :: ts_type where
  [schema_defs]: "CoachStatus = TUnion (map TLit [''active'', ''frozen'', ''cancelled''])"

definition CoachResponse :: ts_type where
  [schema_defs]: "CoachResponse = TObj [required ''cancelled_at'' (nullable TString),
     required ''created_at'' TString, required ''custom_attrs'' (TDict TUnknown),
     required ''email'' (nullable TString), required ''first_name'' TString,
     required ''frozen_at'' (nullable TString), required ''hired_at'' TString,
     required ''id'' TString, required ''last_name'' TString,
     required ''phone'' (nullable TString), required ''status'' CoachStatus,
     required ''tenant_id'' TString, required ''updated_at'' TString,
     required ''user_id'' (nullable TString)]"

definition PaymentMethod :: ts_type where
  [schema_defs]: "PaymentMethod = TUnion (map TLit [''cash'', ''credit_card'', ''standing_order'', ''other''])"

definition ConvertLeadRequest :: ts_type where
  [schema_defs]: "ConvertLeadRequest = TObj [required ''copy_notes_to_member'' TBoolean,
     required ''payment_method'' PaymentMethod, required ''plan_id'' TString,
     optional ''start_date'' (nullable TString)]"

definition MemberStatus :: ts_type where
  [schema_defs]: "MemberStatus = TUnion (map TLit [''active'', ''frozen'', ''cancelled'', ''expired''])"

definition ConvertedMemberSummary :: ts_type where
  [schema_defs]: "ConvertedMemberSummary = TObj [required ''email'' (nullable TString),
     required ''first_name'' TString, required ''id'' TString, required ''join_date'' TString,
     required ''last_name'' TString, required ''notes'' (nullable TString),
     required ''phone'' TString, required ''status'' MemberStatus,
     required ''tenant_id'' TString]"

definition SubscriptionStatus :: ts_type where
  [schema_defs]: "SubscriptionStatus = TUnion (map TLit [''active'', ''frozen'', ''expired'', ''cancelled'',
     ''replaced''])"

definition ConvertedSubscriptionSummary :: ts_type where
  [schema_defs]: "ConvertedSubscriptionSummary = TObj [required ''currency'' TString,
     required ''expires_at'' (nullable TString), required ''id'' TString,
     required ''member_id'' TString, required ''plan_id'' TString,
     required ''price_cents'' TNumber, required ''started_at'' TString,
     required ''status'' SubscriptionStatus, required ''tenant_id'' TString]"

definition LeadSource :: ts_type where
  [schema_defs]: "LeadSource = TUnion (map TLit [''walk_in'', ''website'', ''referral'', ''social_media'', ''ad'',
     ''other''])"

definition LeadStatus :: ts_type where
  [schema_defs]: "LeadStatus = TUnion (map TLit [''new'', ''contacted'', ''trial'', ''converted'', ''lost''])"

definition LeadResponse :: ts_type where
  [schema_defs]: "LeadResponse = TObj [required ''assigned_to'' (nullable TString),
     required ''converted_member_id'' (nullable TString), required ''created_at'' TString,
     required ''custom_fields'' (TDict TUnknown), required ''email'' (nullable TString),
     required ''first_name'' TString, required ''id'' TString, required ''last_name'' TString,
     required ''lost_reason'' (nullable TString), required ''notes'' (nullable TString),
     required ''phone'' TString, required ''source'' LeadSource, required ''status'' LeadStatus,
     required ''tenant_id'' TString, required ''updated_at'' TString]"

definition ConvertLeadResponse :: ts_type where
  [schema_defs]: "ConvertLeadResponse = TObj [required ''lead'' LeadResponse,
     required ''member'' ConvertedMemberSummary,
     required ''subscription'' ConvertedSubscriptionSummary]"

definition CreateAdHocSessionRequest :: ts_type where
  [schema_defs]: "CreateAdHocSessionRequest = TObj [optional ''assistant_coach_id'' (nullable TString),
     required ''class_id'' TString, required ''ends_at'' TString,
     optional ''head_coach_id'' (nullable TString), optional ''notes'' (nullable TString),
     required ''starts_at'' TString]"

definition CreateCoachRequest :: ts_type where
  [schema_defs]: "CreateCoachRequest = TObj [optional ''custom_attrs'' (nullable (TDict TUnknown)),
     optional ''email'' (nullable TString), required ''first_name'' TString,
     optional ''hired_at'' (nullable TString), required ''last_name'' TString,
     optional ''phone'' (nullable TString), optional ''user_id'' (nullable TString)]"

definition CreateGymClassRequest :: ts_type where
  [schema_defs]: "CreateGymClassRequest = TObj [optional ''color'' (nullable TString),
     optional ''description'' (nullable TString), required ''name'' TString]"

definition CreateLeadRequest :: ts_type where
  [schema_defs]: "CreateLeadRequest = TObj [optional ''assigned_to'' (nullable TString),
     optional ''custom_fields'' (nullable (TDict TUnknown)),
     optional ''email'' (nullable TString), required ''first_name'' TString,
     required ''last_name'' TString, optional ''notes'' (nullable TString),
     required ''phone'' TString, required ''source'' LeadSource]"

definition CreateMemberRequest :: ts_type where
  [schema_defs]: "CreateMemberRequest = TObj [optional ''custom_fields'' (TDict TUnknown),
     optional ''date_of_birth'' (nullable TString), optional ''email'' (nullable TString),
     required ''first_name'' TString, optional ''gender'' (nullable TString),
     optional ''join_date'' (nullable TString), required ''last_name'' TString,
     optional ''notes'' (nullable TString), required ''phone'' TString]"

definition ResetPeriod :: ts_type where
  [schema_defs]: "ResetPeriod = TUnion (map TLit [''weekly'', ''monthly'', ''billing_period'', ''never'',
     ''unlimited''])"

definition EntitlementInputSchema :: ts_type where
  [schema_defs]: "EntitlementInputSchema = TObj [optional ''class_id'' (nullable TString),
     optional ''quantity'' (nullable TNumber), required ''reset_period'' ResetPeriod]"

definition PlanType :: ts_type where
  [schema_defs]: "PlanType = TUnion (map TLit [''recurring'', ''one_time''])"

definition CreatePlanRequest :: ts_type where
  [schema_defs]: "CreatePlanRequest = TObj [required ''billing_period'' BillingPeriod,
     required ''currency'' TString, optional ''custom_attrs'' (TDict TUnknown),
     optional ''description'' (nullable TString), optional ''duration_days'' (nullable TNumber),
     optional ''entitlements'' (TArray EntitlementInputSchema), required ''name'' TString,
     required ''price_cents'' TNumber, required ''type'' PlanType]"

definition CreateSubscriptionRequest :: ts_type where
  [schema_defs]: "CreateSubscriptionRequest = TObj [optional ''expires_at'' (nullable TString),
     required ''member_id'' TString, required ''payment_method'' PaymentMethod,
     optional ''payment_method_detail'' (nullable TString), required ''plan_id'' TString,
     optional ''started_at'' (nullable TString)]"

definition CreateTemplateRequest :: ts_type where
  [schema_defs]: "CreateTemplateRequest = TObj [optional ''assistant_coach_id'' (nullable TString),
     required ''class_id'' TString, required ''end_time'' TString,
     optional ''ends_on'' (nullable TString), required ''head_coach_id'' TString,
     required ''start_time'' TString, optional ''starts_on'' (nullable TString),
     required ''weekdays'' (TArray TString)]"

definition CreateTenantRequest :: ts_type where
  [schema_defs]: "CreateTenantRequest = TObj [optional ''address_city'' (nullable TString),
     required ''address_country'' (nullable TString),
     optional ''address_postal_code'' (nullable TString),
     optional ''address_street'' (nullable TString), required ''currency'' TString,
     optional ''email'' (nullable TString), optional ''legal_name'' (nullable TString),
     required ''locale'' TString, optional ''logo_url'' (nullable TString),
     required ''name'' TString, optional ''phone'' (nullable TString), required ''slug'' TString,
     optional ''tax_id'' (nullable TString), required ''timezone'' TString,
     optional ''website'' (nullable TString)]"

definition Role :: ts_type where
  [schema_defs]: "Role = TUnion (map TLit [''super_admin'', ''owner'', ''staff'', ''sales'', ''coach''])"

definition CreateUserRequest :: ts_type where
  [schema_defs]: "CreateUserRequest = TObj [required ''email'' TString, optional ''first_name'' (nullable TString),
     optional ''last_name'' (nullable TString), optional ''oauth_id'' (nullable TString),
     optional ''oauth_provider'' (nullable TString), optional ''password'' (nullable TString),
     optional ''phone'' (nullable TString), required ''role'' Role,
     optional ''tenant_id'' (nullable TString)]"

definition EarningsLinkRowResponse :: ts_type where
  [schema_defs]: "EarningsLinkRowResponse = TObj [required ''cents'' TNumber, required ''class_id'' TString,
     required ''class_name'' (nullable TString), required ''pay_amount_cents'' TNumber,
     required ''pay_model'' PayModel, required ''role'' TString, required ''unit_count'' TNumber]"

definition EarningsBreakdownResponse :: ts_type where
  [schema_defs]: "EarningsBreakdownResponse = TObj [required ''by_class_cents'' (TDict TNumber),
     required ''by_link'' (TArray EarningsLinkRowResponse),
     required ''by_pay_model_cents'' (TDict TNumber), required ''coach_id'' TString,
     required ''currency'' TString, required ''effective_from'' (nullable TString),
     required ''effective_to'' (nullable TString), required ''from'' TString,
     required ''to'' TString, required ''total_cents'' TNumber]"

definition EntitlementResponseSchema :: ts_type where
  [schema_defs]: "EntitlementResponseSchema = TObj [required ''class_id'' (nullable TString),
     required ''created_at'' TString, required ''id'' TString, required ''plan_id'' TString,
     required ''quantity'' (nullable TNumber), required ''reset_period'' ResetPeriod]"

definition OverrideKind :: ts_type where
  [schema_defs]: "OverrideKind = TUnion (map TLit [''quota_exceeded'', ''not_covered''])"

definition EntryResponse :: ts_type where
  [schema_defs]: "EntryResponse = TObj [required ''class_id'' TString, optional ''coach_id'' (nullable TString),
     required ''entered_at'' TString, required ''entered_by'' (nullable TString),
     required ''id'' TString, required ''member_id'' TString, required ''override'' TBoolean,
     required ''override_kind'' (nullable OverrideKind),
     required ''override_reason'' (nullable TString), optional ''session_id'' (nullable TString),
     required ''subscription_id'' TString, required ''tenant_id'' TString,
     required ''undone_at'' (nullable TString), required ''undone_by'' (nullable TString),
     required ''undone_reason'' (nullable TString)]"

definition FreezeMemberRequest :: ts_type where
  [schema_defs]: "FreezeMemberRequest = TObj [optional ''until'' (nullable TString)]"

definition FreezeSubscriptionRequest :: ts_type where
  [schema_defs]: "FreezeSubscriptionRequest = TObj [optional ''frozen_until'' (nullable TString)]"

definition GymClassResponse :: ts_type where
  [schema_defs]: "GymClassResponse = TObj [required ''color'' (nullable TString), required ''created_at'' TString,
     required ''description'' (nullable TString), required ''id'' TString,
     required ''is_active'' TBoolean, required ''name'' TString, required ''tenant_id'' TString,
     required ''updated_at'' TString]"

definition ValidationError :: ts_type where
  [schema_defs]: "ValidationError = TObj [optional ''ctx'' (TDict TNever), optional ''input'' TUnknown,
     required ''loc'' (TArray (TUnion [TString, TNumber])), required ''msg'' TString,
     required ''type'' TString]"

definition HTTPValidationError :: ts_type where
  [schema_defs]: "HTTPValidationError = TObj [optional ''detail'' (TArray ValidationError)]"

definition InviteCoachUserRequest :: ts_type where
  [schema_defs]: "InviteCoachUserRequest = TObj [required ''email'' TString, required ''password'' TString]"

definition LeadActivityResponse :: ts_type where
  [schema_defs]: "LeadActivityResponse = TObj [required ''created_at'' TString,
     required ''created_by'' (nullable TString), required ''id'' TString,
     required ''lead_id'' TString, required ''note'' TString, required ''tenant_id'' TString,
     required ''type'' LeadActivityType]"

definition LeadStatsResponse :: ts_type where
  [schema_defs]: "LeadStatsResponse = TObj [required ''conversion_rate_30d'' (nullable TNumber),
     required ''counts'' (TDict TNumber)]"

definition LoginRequest :: ts_type where
  [schema_defs]: "LoginRequest = TObj [required ''email'' TString, required ''password'' TString]"

definition LostReasonRowResponse :: ts_type where
  [schema_defs]: "LostReasonRowResponse = TObj [required ''count'' TNumber, required ''reason'' TString]"

definition MemberResponse :: ts_type where
  [schema_defs]: "MemberResponse = TObj [required ''cancelled_at'' (nullable TString),
     required ''created_at'' TString, required ''custom_fields'' (TDict TUnknown),
     required ''date_of_birth'' (nullable TString), required ''email'' (nullable TString),
     required ''first_name'' TString, required ''frozen_at'' (nullable TString),
     required ''frozen_until'' (nullable TString), required ''gender'' (nullable TString),
     required ''id'' TString, required ''join_date'' TString, required ''last_name'' TString,
     required ''notes'' (nullable TString), required ''phone'' TString,
     required ''status'' MemberStatus, required ''tenant_id'' TString,
     required ''updated_at'' TString]"

definition PaymentResponse :: ts_type where
  [schema_defs]: "PaymentResponse = TObj [required ''amount_cents'' TNumber, required ''created_at'' TString,
     required ''currency'' TString, required ''external_ref'' (nullable TString),
     required ''id'' TString, required ''member_id'' TString,
     required ''notes'' (nullable TString), required ''paid_at'' TString,
     required ''payment_method'' PaymentMethod, required ''recorded_by'' (nullable TString),
     required ''refund_of_payment_id'' (nullable TString),
     required ''subscription_id'' (nullable TString), required ''tenant_id'' TString]"

definition PlanResponse :: ts_type where
  [schema_defs]: "PlanResponse = TObj [required ''billing_period'' BillingPeriod, required ''created_at'' TString,
     required ''currency'' TString, required ''custom_attrs'' (TDict TUnknown),
     required ''description'' (nullable TString), required ''duration_days'' (nullable TNumber),
     required ''entitlements'' (TArray EntitlementResponseSchema), required ''id'' TString,
     required ''is_active'' TBoolean, required ''name'' TString, required ''price_cents'' TNumber,
     required ''tenant_id'' TString, required ''type'' PlanType, required ''updated_at'' TString]"

definition PlanRevenueRowResponse :: ts_type where
  [schema_defs]: "PlanRevenueRowResponse = TObj [required ''cents'' TNumber, required ''plan_id'' TString]"

definition PlatformStatsResponse :: ts_type where
  [schema_defs]: "PlatformStatsResponse = TObj [required ''active_tenants'' TNumber,
     required ''new_tenants_this_month'' TNumber, required ''total_members'' TNumber,
     required ''total_tenants'' TNumber, required ''total_users'' TNumber]"

definition QuotaCheckResponse :: ts_type where
  [schema_defs]: "QuotaCheckResponse = TObj [required ''allowed'' TBoolean,
     optional ''class_id'' (nullable TString), optional ''quantity'' (nullable TNumber),
     optional ''reason'' (nullable TString), optional ''remaining'' (nullable TNumber),
     optional ''reset_period'' (nullable TString), optional ''used'' (nullable TNumber)]"

definition RangeRevenueResponse :: ts_type where
  [schema_defs]: "RangeRevenueResponse = TObj [required ''cents'' TNumber, required ''paid_from'' TString,
     required ''paid_to'' TString]"

definition ReassignCoachRequest :: ts_type where
  [schema_defs]: "ReassignCoachRequest = TObj [required ''coach_id'' (nullable TString)]"

definition RecordEntryRequest :: ts_type where
  [schema_defs]: "RecordEntryRequest = TObj [required ''class_id'' TString, required ''member_id'' TString,
     required ''override'' TBoolean, optional ''override_reason'' (nullable TString)]"

definition RecordPaymentRequest :: ts_type where
  [schema_defs]: "RecordPaymentRequest = TObj [required ''amount_cents'' TNumber, required ''backdate'' TBoolean,
     optional ''external_ref'' (nullable TString), required ''member_id'' TString,
     optional ''notes'' (nullable TString), optional ''paid_at'' (nullable TString),
     required ''payment_method'' PaymentMethod, optional ''subscription_id'' (nullable TString)]"

definition RefundPaymentRequest :: ts_type where
  [schema_defs]: "RefundPaymentRequest = TObj [optional ''amount_cents'' (nullable TNumber),
     optional ''reason'' (nullable TString)]"

definition RenewSubscriptionRequest :: ts_type where
  [schema_defs]: "RenewSubscriptionRequest = TObj [optional ''new_expires_at'' (nullable TString),
     optional ''new_payment_method'' (nullable PaymentMethod),
     optional ''new_payment_method_detail'' (nullable TString)]"

definition RevenueSummaryResponse :: ts_type where
  [schema_defs]: "RevenueSummaryResponse = TObj [required ''arpm_cents'' TNumber,
     required ''by_method'' (TDict TNumber), required ''by_plan'' (TArray PlanRevenueRowResponse),
     required ''currency'' TString, required ''last_month'' RangeRevenueResponse,
     required ''mom_pct'' (nullable TNumber), required ''this_month'' RangeRevenueResponse]"

definition SessionStatus :: ts_type where
  [schema_defs]: "SessionStatus = TUnion (map TLit [''scheduled'', ''cancelled''])"

definition SessionResponse :: ts_type where
  [schema_defs]: "SessionResponse = TObj [required ''assistant_coach_id'' (nullable TString),
     required ''cancellation_reason'' (nullable TString),
     required ''cancelled_at'' (nullable TString), required ''cancelled_by'' (nullable TString),
     required ''class_id'' TString, required ''created_at'' TString, required ''ends_at'' TString,
     required ''head_coach_id'' (nullable TString), required ''id'' TString,
     required ''is_customized'' TBoolean, required ''notes'' (nullable TString),
     required ''starts_at'' TString, required ''status'' SessionStatus,
     required ''template_id'' (nullable TString), required ''tenant_id'' TString,
     required ''updated_at'' TString]"

definition SetStatusRequest :: ts_type where
  [schema_defs]: "SetStatusRequest = TObj [optional ''lost_reason'' (nullable TString),
     required ''new_status'' LeadStatus]"

definition SubscriptionEventType :: ts_type where
  [schema_defs]: "SubscriptionEventType = TUnion (map TLit [''created'', ''frozen'', ''unfrozen'', ''expired'',
     ''renewed'', ''replaced'', ''changed_plan'', ''cancelled''])"

definition SubscriptionEventResponse :: ts_type where
  [schema_defs]: "SubscriptionEventResponse = TObj [required ''created_by'' (nullable TString),
     required ''event_data'' (TDict TUnknown), required ''event_type'' SubscriptionEventType,
     required ''id'' TString, required ''occurred_at'' TString,
     required ''subscription_id'' TString, required ''tenant_id'' TString]"

definition SubscriptionResponse :: ts_type where
  [schema_defs]: "SubscriptionResponse = TObj [required ''cancellation_reason'' (nullable TString),
     required ''cancelled_at'' (nullable TString), required ''created_at'' TString,
     required ''currency'' TString, required ''expired_at'' (nullable TString),
     required ''expires_at'' (nullable TString), required ''frozen_at'' (nullable TString),
     required ''frozen_until'' (nullable TString), required ''id'' TString,
     required ''member_id'' TString, required ''payment_method'' PaymentMethod,
     required ''payment_method_detail'' (nullable TString), required ''plan_id'' TString,
     required ''price_cents'' TNumber, required ''replaced_at'' (nullable TString),
     required ''replaced_by_id'' (nullable TString), required ''started_at'' TString,
     required ''status'' SubscriptionStatus, required ''tenant_id'' TString,
     required ''updated_at'' TString]"

definition SummaryItem :: ts_type where
  [schema_defs]: "SummaryItem = TObj [required ''allowed'' TBoolean, optional ''class_id'' (nullable TString),
     required ''quantity'' (nullable TNumber), required ''reason'' (nullable TString),
     required ''remaining'' (nullable TNumber), required ''reset_period'' (nullable TString),
     required ''used'' (nullable TNumber)]"

definition TemplateResponse :: ts_type where
  [schema_defs]: "TemplateResponse = TObj [required ''assistant_coach_id'' (nullable TString),
     required ''class_id'' TString, required ''created_at'' TString,
     required ''end_time'' TString, required ''ends_on'' (nullable TString),
     required ''head_coach_id'' TString, required ''id'' TString, required ''is_active'' TBoolean,
     required ''start_time'' TString, required ''starts_on'' TString,
     required ''tenant_id'' TString, required ''updated_at'' TString,
     required ''weekdays'' (TArray TString)]"

definition TenantStatus :: ts_type where
  [schema_defs]: "TenantStatus = TUnion (map TLit [''trial'', ''active'', ''suspended'', ''cancelled''])"

definition TenantResponse :: ts_type where
  [schema_defs]: "TenantResponse = TObj [required ''address_city'' (nullable TString),
     required ''address_country'' (nullable TString),
     required ''address_postal_code'' (nullable TString),
     required ''address_street'' (nullable TString), required ''created_at'' TString,
     required ''currency'' TString, required ''email'' (nullable TString),
     optional ''features_enabled'' (TDict TBoolean), required ''id'' TString,
     required ''legal_name'' (nullable TString), required ''locale'' TString,
     optional ''logo_presigned_url'' (nullable TString), required ''logo_url'' (nullable TString),
     required ''name'' TString, required ''phone'' (nullable TString),
     required ''saas_plan_id'' TString, required ''slug'' TString,
     required ''status'' TenantStatus, required ''tax_id'' (nullable TString),
     required ''timezone'' TString, required ''trial_ends_at'' (nullable TString),
     required ''updated_at'' TString, required ''website'' (nullable TString)]"

definition TenantStatsResponse :: ts_type where
  [schema_defs]: "TenantStatsResponse = TObj [required ''active_members'' TNumber,
     required ''total_members'' TNumber, required ''total_users'' TNumber]"

definition TokenResponse :: ts_type where
  [schema_defs]: "TokenResponse = TObj [required ''access_token'' TString, required ''expires_in'' TNumber,
     required ''token_type'' TString]"

definition UndoEntryRequest :: ts_type where
  [schema_defs]: "UndoEntryRequest = TObj [optional ''reason'' (nullable TString)]"

definition UpdateClassCoachRequest :: ts_type where
  [schema_defs]: "UpdateClassCoachRequest = TObj [optional ''ends_on'' (nullable TString),
     optional ''is_primary'' (nullable TBoolean),
     optional ''pay_amount_cents'' (nullable TNumber), optional ''pay_model'' (nullable PayModel),
     optional ''role'' (nullable TString), optional ''starts_on'' (nullable TString),
     optional ''weekdays'' (nullable (TArray TString))]"

definition UpdateCoachRequest :: ts_type where
  [schema_defs]: "UpdateCoachRequest = TObj [optional ''custom_attrs'' (nullable (TDict TUnknown)),
     optional ''email'' (nullable TString), optional ''first_name'' (nullable TString),
     optional ''last_name'' (nullable TString), optional ''phone'' (nullable TString)]"

definition UpdateGymClassRequest :: ts_type where
  [schema_defs]: "UpdateGymClassRequest = TObj [optional ''color'' (nullable TString),
     optional ''description'' (nullable TString), optional ''name'' (nullable TString)]"

definition UpdateLeadRequest :: ts_type where
  [schema_defs]: "UpdateLeadRequest = TObj [optional ''assigned_to'' (nullable TString),
     optional ''custom_fields'' (nullable (TDict TUnknown)),
     optional ''email'' (nullable TString), optional ''first_name'' (nullable TString),
     optional ''last_name'' (nullable TString), optional ''notes'' (nullable TString),
     optional ''phone'' (nullable TString), optional ''source'' (nullable LeadSource)]"

definition UpdateMemberRequest :: ts_type where
  [schema_defs]: "UpdateMemberRequest = TObj [optional ''custom_fields'' (nullable (TDict TUnknown)),
     optional ''date_of_birth'' (nullable TString), optional ''email'' (nullable TString),
     optional ''first_name'' (nullable TString), optional ''gender'' (nullable TString),
     optional ''last_name'' (nullable TString), optional ''notes'' (nullable TString),
     optional ''phone'' (nullable TString)]"

definition UpdatePlanRequest :: ts_type where
  [schema_defs]: "UpdatePlanRequest = TObj [optional ''billing_period'' (nullable BillingPeriod),
     optional ''currency'' (nullable TString),
     optional ''custom_attrs'' (nullable (TDict TUnknown)),
     optional ''description'' (nullable TString), optional ''duration_days'' (nullable TNumber),
     optional ''entitlements'' (nullable (TArray EntitlementInputSchema)),
     optional ''name'' (nullable TString), optional ''price_cents'' (nullable TNumber),
     optional ''type'' (nullable PlanType)]"

definition UpdateSessionRequest :: ts_type where
  [schema_defs]: "UpdateSessionRequest = TObj [optional ''assistant_coach_id'' (nullable TString),
     optional ''ends_at'' (nullable TString), optional ''head_coach_id'' (nullable TString),
     optional ''notes'' (nullable TString), optional ''starts_at'' (nullable TString)]"

definition UpdateTemplateRequest :: ts_type where
  [schema_defs]: "UpdateTemplateRequest = TObj [optional ''assistant_coach_id'' (nullable TString),
     optional ''end_time'' (nullable TString), optional ''ends_on'' (nullable TString),
     optional ''head_coach_id'' (nullable TString), optional ''is_active'' (nullable TBoolean),
     optional ''start_time'' (nullable TString), optional ''starts_on'' (nullable TString),
     optional ''weekdays'' (nullable (TArray TString))]"

definition UpdateTenantFeaturesRequest :: ts_type where
  [schema_defs]: "UpdateTenantFeaturesRequest = TObj [optional ''coaches'' (nullable TBoolean),
     optional ''leads'' (nullable TBoolean), optional ''schedule'' (nullable TBoolean)]"

definition UpdateTenantRequest :: ts_type where
  [schema_defs]: "UpdateTenantRequest = TObj [optional ''address_city'' (nullable TString),
     optional ''address_country'' (nullable TString),
     optional ''address_postal_code'' (nullable TString),
     optional ''address_street'' (nullable TString), optional ''currency'' (nullable TString),
     optional ''email'' (nullable TString), optional ''legal_name'' (nullable TString),
     optional ''locale'' (nullable TString), optional ''logo_url'' (nullable TString),
     optional ''name'' (nullable TString), optional ''phone'' (nullable TString),
     optional ''tax_id'' (nullable TString), optional ''timezone'' (nullable TString),
     optional ''website'' (nullable TString)]"

definition UpdateUserRequest :: ts_type where
  [schema_defs]: "UpdateUserRequest = TObj [optional ''email'' (nullable TString),
     optional ''first_name'' (nullable TString), optional ''is_active'' (nullable TBoolean),
     optional ''last_name'' (nullable TString), optional ''password'' (nullable TString),
     optional ''phone'' (nullable TString), optional ''role'' (nullable Role)]"

definition UploadResponse :: ts_type where
  [schema_defs]: "UploadResponse = TObj [required ''key'' TString, required ''presigned_url'' TString]"

definition UserResponse :: ts_type where
  [schema_defs]: "UserResponse = TObj [required ''created_at'' TString, required ''email'' TString,
     optional ''first_name'' (nullable TString), required ''id'' TString,
     required ''is_active'' TBoolean, optional ''last_name'' (nullable TString),
     required ''oauth_provider'' (nullable TString), optional ''phone'' (nullable TString),
     required ''role'' Role, required ''tenant_features_enabled'' (TDict TBoolean),
     required ''tenant_id'' (nullable TString), required ''updated_at'' TString]"

section \<open>The friendly names\<close>

definition api_types :: "(string \<times> ts_type) list" where
  "api_types = [
     (''Role'', Role),
     (''LoginRequest'', LoginRequest),
     (''TokenResponse'', TokenResponse),
     (''User'', UserResponse),
     (''TenantStatus'', TenantStatus),
     (''Tenant'', TenantResponse),
     (''CreateTenantRequest'', CreateTenantRequest),
     (''UpdateTenantRequest'', UpdateTenantRequest),
     (''MemberStatus'', MemberStatus),
     (''Member'', MemberResponse),
     (''CreateMemberRequest'', CreateMemberRequest),
     (''UpdateMemberRequest'', UpdateMemberRequest),
     (''FreezeMemberRequest'', FreezeMemberRequest),
     (''GymClass'', GymClassResponse),
     (''CreateGymClassRequest'', CreateGymClassRequest),
     (''UpdateGymClassRequest'', UpdateGymClassRequest),
     (''PlanType'', PlanType),
     (''BillingPeriod'', BillingPeriod),
     (''ResetPeriod'', ResetPeriod),
     (''MembershipPlan'', PlanResponse),
     (''CreatePlanRequest'', CreatePlanRequest),
     (''UpdatePlanRequest'', UpdatePlanRequest),
     (''PlanEntitlement'', EntitlementResponseSchema),
     (''PlanEntitlementInput'', EntitlementInputSchema),
     (''SubscriptionStatus'', SubscriptionStatus),
     (''SubscriptionEventType'', SubscriptionEventType),
     (''PaymentMethod'', PaymentMethod),
     (''ClassEntry'', EntryResponse),
     (''QuotaCheckResult'', QuotaCheckResponse),
     (''AttendanceSummaryItem'', SummaryItem),
     (''RecordEntryRequest'', RecordEntryRequest),
     (''UndoEntryRequest'', UndoEntryRequest),
     (''OverrideKind'', OverrideKind),
     (''Subscription'', SubscriptionResponse),
     (''SubscriptionEvent'', SubscriptionEventResponse),
     (''CreateSubscriptionRequest'', CreateSubscriptionRequest),
     (''FreezeSubscriptionRequest'', FreezeSubscriptionRequest),
     (''RenewSubscriptionRequest'', RenewSubscriptionRequest),
     (''ChangePlanRequest'', ChangePlanRequest),
     (''CancelSubscriptionRequest'', CancelSubscriptionRequest),
     (''CreateUserRequest'', CreateUserRequest),
     (''UpdateUserRequest'', UpdateUserRequest),
     (''ScheduleTemplate'', TemplateResponse),
     (''CreateTemplateRequest'', CreateTemplateRequest),
     (''UpdateTemplateRequest'', UpdateTemplateRequest),
     (''ClassSession'', SessionResponse),
     (''SessionStatus'', SessionStatus),
     (''CreateAdHocSessionRequest'', CreateAdHocSessionRequest),
     (''UpdateSessionRequest'', UpdateSessionRequest),
     (''CancelSessionRequest'', CancelSessionRequest),
     (''BulkActionRequest'', BulkActionRequest),
     (''BulkActionResponse'', BulkActionResponse),
     (''UpdateTenantFeaturesRequest'', UpdateTenantFeaturesRequest),
     (''Coach'', CoachResponse),
     (''CoachStatus'', CoachStatus),
     (''CreateCoachRequest'', CreateCoachRequest),
     (''UpdateCoachRequest'', UpdateCoachRequest),
     (''InviteCoachUserRequest'', InviteCoachUserRequest),
     (''PayModel'', PayModel),
     (''ClassCoach'', ClassCoachResponse),
     (''AssignCoachRequest'', AssignCoachRequest),
     (''UpdateClassCoachRequest'', UpdateClassCoachRequest),
     (''EarningsBreakdown'', EarningsBreakdownResponse),
     (''EarningsLinkRow'', EarningsLinkRowResponse),
     (''ReassignCoachRequest'', ReassignCoachRequest),
     (''Lead'', LeadResponse),
     (''LeadStatus'', LeadStatus),
     (''LeadSource'', LeadSource),
     (''LeadActivity'', LeadActivityResponse),
     (''LeadActivityType'', LeadActivityType),
     (''CreateLeadRequest'', CreateLeadRequest),
     (''UpdateLeadRequest'', UpdateLeadRequest),
     (''SetLeadStatusRequest'', SetStatusRequest),
     (''AssignLeadRequest'', AssignLeadRequest),
     (''ConvertLeadRequest'', ConvertLeadRequest),
     (''ConvertLeadResponse'', ConvertLeadResponse),
     (''AddActivityRequest'', AddActivityRequest),
     (''LeadStats'', LeadStatsResponse),
     (''LostReasonRow'', LostReasonRowResponse),
     (''Payment'', PaymentResponse),
     (''RecordPaymentRequest'', RecordPaymentRequest),
     (''RefundPaymentRequest'', RefundPaymentRequest),
     (''RevenueSummary'', RevenueSummaryResponse),
     (''RangeRevenue'', RangeRevenueResponse),
     (''PlanRevenueRow'', PlanRevenueRowResponse),
     (''UploadResponse'', UploadResponse),
     (''ValidationError'', HTTPValidationError)]"

end
