(* ===== verification/ApiOperations.thy ===== *)
theory ApiOperations
  imports ApiSchema ApiClient
begin

text \<open>
  The \<^verbatim>\<open>operations\<close> and \<^verbatim>\<open>paths\<close> of \<^verbatim>\<open>frontend/src/lib/api-schema.ts\<close>: what every endpoint of the
  server takes and answers, and the table of path templates. No operation declares headers or
  cookies, so these two members (always \<open>never\<close>) are not represented; a method of a path that is
  \<open>never\<close> is absent from its list.
\<close>

record operation =
  op_query :: "ts_member list"
  op_params :: "ts_member list"
  op_body :: "(bool \<times> string \<times> ts_type) option"
  op_responses :: "(int \<times> ts_type option) list"

record path_item =
  pi_template :: string
  pi_methods :: "(http_method \<times> operation) list"

section \<open>The operations\<close>

definition get_platform_stats_api_v1_admin_stats_get :: operation where
  [op_defs]: "get_platform_stats_api_v1_admin_stats_get =
     \<lparr>op_query = [],
      op_params = [],
      op_body = None,
      op_responses = [(200, Some PlatformStatsResponse)]\<rparr>"

definition list_entries_api_v1_attendance_get :: operation where
  [op_defs]: "list_entries_api_v1_attendance_get =
     \<lparr>op_query = [optional ''member_id'' (nullable TString),
        optional ''class_id'' (nullable TString), optional ''date_from'' (nullable TString),
        optional ''date_to'' (nullable TString), optional ''include_undone'' TBoolean,
        optional ''undone_only'' TBoolean, optional ''override_only'' TBoolean,
        optional ''limit'' TNumber, optional ''offset'' TNumber],
      op_params = [],
      op_body = None,
      op_responses = [(200, Some (TArray EntryResponse)), (422, Some HTTPValidationError)]\<rparr>"

definition record_entry_api_v1_attendance_post :: operation where
  [op_defs]: "record_entry_api_v1_attendance_post =
     \<lparr>op_query = [],
      op_params = [],
      op_body = Some (True, ''application/json'', RecordEntryRequest),
      op_responses = [(201, Some EntryResponse), (422, Some HTTPValidationError)]\<rparr>"

definition list_member_entries_api_v1_attendance_members__member_id__get :: operation where
  [op_defs]: "list_member_entries_api_v1_attendance_members__member_id__get =
     \<lparr>op_query = [optional ''limit'' TNumber],
      op_params = [required ''member_id'' TString],
      op_body = None,
      op_responses = [(200, Some (TArray EntryResponse)), (422, Some HTTPValidationError)]\<rparr>"

definition member_summary_api_v1_attendance_members__member_id__summary_get :: operation where
  [op_defs]: "member_summary_api_v1_attendance_members__member_id__summary_get =
     \<lparr>op_query = [],
      op_params = [required ''member_id'' TString],
      op_body = None,
      op_responses = [(200, Some (TArray SummaryItem)), (422, Some HTTPValidationError)]\<rparr>"

definition quota_check_api_v1_attendance_quota_check_get :: operation where
  [op_defs]: "quota_check_api_v1_attendance_quota_check_get =
     \<lparr>op_query = [required ''member_id'' TString, required ''class_id'' TString],
      op_params = [],
      op_body = None,
      op_responses = [(200, Some QuotaCheckResponse), (422, Some HTTPValidationError)]\<rparr>"

definition reassign_coach_api_v1_attendance__entry_id__reassign_coach_post :: operation where
  [op_defs]: "reassign_coach_api_v1_attendance__entry_id__reassign_coach_post =
     \<lparr>op_query = [],
      op_params = [required ''entry_id'' TString],
      op_body = Some (True, ''application/json'', ReassignCoachRequest),
      op_responses = [(200, Some EntryResponse), (422, Some HTTPValidationError)]\<rparr>"

definition undo_entry_api_v1_attendance__entry_id__undo_post :: operation where
  [op_defs]: "undo_entry_api_v1_attendance__entry_id__undo_post =
     \<lparr>op_query = [],
      op_params = [required ''entry_id'' TString],
      op_body = Some (True, ''application/json'', UndoEntryRequest),
      op_responses = [(200, Some EntryResponse), (422, Some HTTPValidationError)]\<rparr>"

definition login_api_v1_auth_login_post :: operation where
  [op_defs]: "login_api_v1_auth_login_post =
     \<lparr>op_query = [],
      op_params = [],
      op_body = Some (True, ''application/json'', LoginRequest),
      op_responses = [(200, Some TokenResponse), (422, Some HTTPValidationError)]\<rparr>"

definition logout_api_v1_auth_logout_post :: operation where
  [op_defs]: "logout_api_v1_auth_logout_post =
     \<lparr>op_query = [],
      op_params = [],
      op_body = None,
      op_responses = [(204, None)]\<rparr>"

definition me_api_v1_auth_me_get :: operation where
  [op_defs]: "me_api_v1_auth_me_get =
     \<lparr>op_query = [],
      op_params = [],
      op_body = None,
      op_responses = [(200, Some UserResponse)]\<rparr>"

definition delete_link_api_v1_class_coaches__link_id__delete :: operation where
  [op_defs]: "delete_link_api_v1_class_coaches__link_id__delete =
     \<lparr>op_query = [],
      op_params = [required ''link_id'' TString],
      op_body = None,
      op_responses = [(204, None), (422, Some HTTPValidationError)]\<rparr>"

definition update_link_api_v1_class_coaches__link_id__patch :: operation where
  [op_defs]: "update_link_api_v1_class_coaches__link_id__patch =
     \<lparr>op_query = [],
      op_params = [required ''link_id'' TString],
      op_body = Some (True, ''application/json'', UpdateClassCoachRequest),
      op_responses = [(200, Some ClassCoachResponse), (422, Some HTTPValidationError)]\<rparr>"

definition list_classes_api_v1_classes_get :: operation where
  [op_defs]: "list_classes_api_v1_classes_get =
     \<lparr>op_query = [optional ''include_inactive'' TBoolean, optional ''limit'' TNumber,
        optional ''offset'' TNumber],
      op_params = [],
      op_body = None,
      op_responses = [(200, Some (TArray GymClassResponse)), (422, Some HTTPValidationError)]\<rparr>"

definition create_class_api_v1_classes_post :: operation where
  [op_defs]: "create_class_api_v1_classes_post =
     \<lparr>op_query = [],
      op_params = [],
      op_body = Some (True, ''application/json'', CreateGymClassRequest),
      op_responses = [(201, Some GymClassResponse), (422, Some HTTPValidationError)]\<rparr>"

definition get_class_api_v1_classes__class_id__get :: operation where
  [op_defs]: "get_class_api_v1_classes__class_id__get =
     \<lparr>op_query = [],
      op_params = [required ''class_id'' TString],
      op_body = None,
      op_responses = [(200, Some GymClassResponse), (422, Some HTTPValidationError)]\<rparr>"

definition update_class_api_v1_classes__class_id__patch :: operation where
  [op_defs]: "update_class_api_v1_classes__class_id__patch =
     \<lparr>op_query = [],
      op_params = [required ''class_id'' TString],
      op_body = Some (True, ''application/json'', UpdateGymClassRequest),
      op_responses = [(200, Some GymClassResponse), (422, Some HTTPValidationError)]\<rparr>"

definition activate_class_api_v1_classes__class_id__activate_post :: operation where
  [op_defs]: "activate_class_api_v1_classes__class_id__activate_post =
     \<lparr>op_query = [],
      op_params = [required ''class_id'' TString],
      op_body = None,
      op_responses = [(200, Some GymClassResponse), (422, Some HTTPValidationError)]\<rparr>"

definition list_class_coaches_api_v1_classes__class_id__coaches_get :: operation where
  [op_defs]: "list_class_coaches_api_v1_classes__class_id__coaches_get =
     \<lparr>op_query = [optional ''only_current'' TBoolean],
      op_params = [required ''class_id'' TString],
      op_body = None,
      op_responses = [(200, Some (TArray ClassCoachResponse)), (422, Some HTTPValidationError)]\<rparr>"

definition assign_coach_api_v1_classes__class_id__coaches_post :: operation where
  [op_defs]: "assign_coach_api_v1_classes__class_id__coaches_post =
     \<lparr>op_query = [],
      op_params = [required ''class_id'' TString],
      op_body = Some (True, ''application/json'', AssignCoachRequest),
      op_responses = [(201, Some ClassCoachResponse), (422, Some HTTPValidationError)]\<rparr>"

definition deactivate_class_api_v1_classes__class_id__deactivate_post :: operation where
  [op_defs]: "deactivate_class_api_v1_classes__class_id__deactivate_post =
     \<lparr>op_query = [],
      op_params = [required ''class_id'' TString],
      op_body = None,
      op_responses = [(200, Some GymClassResponse), (422, Some HTTPValidationError)]\<rparr>"

definition list_coaches_api_v1_coaches_get :: operation where
  [op_defs]: "list_coaches_api_v1_coaches_get =
     \<lparr>op_query = [optional ''status'' (nullable (TArray CoachStatus)),
        optional ''search'' (nullable TString), optional ''limit'' TNumber,
        optional ''offset'' TNumber],
      op_params = [],
      op_body = None,
      op_responses = [(200, Some (TArray CoachResponse)), (422, Some HTTPValidationError)]\<rparr>"

definition create_coach_api_v1_coaches_post :: operation where
  [op_defs]: "create_coach_api_v1_coaches_post =
     \<lparr>op_query = [],
      op_params = [],
      op_body = Some (True, ''application/json'', CreateCoachRequest),
      op_responses = [(201, Some CoachResponse), (422, Some HTTPValidationError)]\<rparr>"

definition earnings_summary_api_v1_coaches_earnings_summary_get :: operation where
  [op_defs]: "earnings_summary_api_v1_coaches_earnings_summary_get =
     \<lparr>op_query = [required ''from'' TString, required ''to'' TString],
      op_params = [],
      op_body = None,
      op_responses = [(200, Some (TArray EarningsBreakdownResponse)), (422, Some HTTPValidationError)]\<rparr>"

definition get_coach_api_v1_coaches__coach_id__get :: operation where
  [op_defs]: "get_coach_api_v1_coaches__coach_id__get =
     \<lparr>op_query = [],
      op_params = [required ''coach_id'' TString],
      op_body = None,
      op_responses = [(200, Some CoachResponse), (422, Some HTTPValidationError)]\<rparr>"

definition update_coach_api_v1_coaches__coach_id__patch :: operation where
  [op_defs]: "update_coach_api_v1_coaches__coach_id__patch =
     \<lparr>op_query = [],
      op_params = [required ''coach_id'' TString],
      op_body = Some (True, ''application/json'', UpdateCoachRequest),
      op_responses = [(200, Some CoachResponse), (422, Some HTTPValidationError)]\<rparr>"

definition cancel_coach_api_v1_coaches__coach_id__cancel_post :: operation where
  [op_defs]: "cancel_coach_api_v1_coaches__coach_id__cancel_post =
     \<lparr>op_query = [],
      op_params = [required ''coach_id'' TString],
      op_body = None,
      op_responses = [(200, Some CoachResponse), (422, Some HTTPValidationError)]\<rparr>"

definition list_classes_for_coach_api_v1_coaches__coach_id__classes_get :: operation where
  [op_defs]: "list_classes_for_coach_api_v1_coaches__coach_id__classes_get =
     \<lparr>op_query = [optional ''only_current'' TBoolean],
      op_params = [required ''coach_id'' TString],
      op_body = None,
      op_responses = [(200, Some (TArray ClassCoachResponse)), (422, Some HTTPValidationError)]\<rparr>"

definition coach_earnings_api_v1_coaches__coach_id__earnings_get :: operation where
  [op_defs]: "coach_earnings_api_v1_coaches__coach_id__earnings_get =
     \<lparr>op_query = [required ''from'' TString, required ''to'' TString],
      op_params = [required ''coach_id'' TString],
      op_body = None,
      op_responses = [(200, Some EarningsBreakdownResponse), (422, Some HTTPValidationError)]\<rparr>"

definition freeze_coach_api_v1_coaches__coach_id__freeze_post :: operation where
  [op_defs]: "freeze_coach_api_v1_coaches__coach_id__freeze_post =
     \<lparr>op_query = [],
      op_params = [required ''coach_id'' TString],
      op_body = None,
      op_responses = [(200, Some CoachResponse), (422, Some HTTPValidationError)]\<rparr>"

definition invite_user_api_v1_coaches__coach_id__invite_user_post :: operation where
  [op_defs]: "invite_user_api_v1_coaches__coach_id__invite_user_post =
     \<lparr>op_query = [],
      op_params = [required ''coach_id'' TString],
      op_body = Some (True, ''application/json'', InviteCoachUserRequest),
      op_responses = [(200, Some CoachResponse), (422, Some HTTPValidationError)]\<rparr>"

definition unfreeze_coach_api_v1_coaches__coach_id__unfreeze_post :: operation where
  [op_defs]: "unfreeze_coach_api_v1_coaches__coach_id__unfreeze_post =
     \<lparr>op_query = [],
      op_params = [required ''coach_id'' TString],
      op_body = None,
      op_responses = [(200, Some CoachResponse), (422, Some HTTPValidationError)]\<rparr>"

definition revenue_summary_api_v1_dashboard_revenue_get :: operation where
  [op_defs]: "revenue_summary_api_v1_dashboard_revenue_get =
     \<lparr>op_query = [],
      op_params = [],
      op_body = None,
      op_responses = [(200, Some RevenueSummaryResponse)]\<rparr>"

definition list_leads_api_v1_leads_get :: operation where
  [op_defs]: "list_leads_api_v1_leads_get =
     \<lparr>op_query = [optional ''status'' (nullable (TArray LeadStatus)),
        optional ''source'' (nullable (TArray LeadSource)),
        optional ''assigned_to'' (nullable TString), optional ''search'' (nullable TString),
        optional ''limit'' TNumber, optional ''offset'' TNumber],
      op_params = [],
      op_body = None,
      op_responses = [(200, Some (TArray LeadResponse)), (422, Some HTTPValidationError)]\<rparr>"

definition create_lead_api_v1_leads_post :: operation where
  [op_defs]: "create_lead_api_v1_leads_post =
     \<lparr>op_query = [],
      op_params = [],
      op_body = Some (True, ''application/json'', CreateLeadRequest),
      op_responses = [(201, Some LeadResponse), (422, Some HTTPValidationError)]\<rparr>"

definition list_lost_reasons_api_v1_leads_lost_reasons_get :: operation where
  [op_defs]: "list_lost_reasons_api_v1_leads_lost_reasons_get =
     \<lparr>op_query = [optional ''days'' TNumber, optional ''limit'' TNumber],
      op_params = [],
      op_body = None,
      op_responses = [(200, Some (TArray LostReasonRowResponse)), (422, Some HTTPValidationError)]\<rparr>"

definition get_stats_api_v1_leads_stats_get :: operation where
  [op_defs]: "get_stats_api_v1_leads_stats_get =
     \<lparr>op_query = [],
      op_params = [],
      op_body = None,
      op_responses = [(200, Some LeadStatsResponse)]\<rparr>"

definition get_lead_api_v1_leads__lead_id__get :: operation where
  [op_defs]: "get_lead_api_v1_leads__lead_id__get =
     \<lparr>op_query = [],
      op_params = [required ''lead_id'' TString],
      op_body = None,
      op_responses = [(200, Some LeadResponse), (422, Some HTTPValidationError)]\<rparr>"

definition update_lead_api_v1_leads__lead_id__patch :: operation where
  [op_defs]: "update_lead_api_v1_leads__lead_id__patch =
     \<lparr>op_query = [],
      op_params = [required ''lead_id'' TString],
      op_body = Some (True, ''application/json'', UpdateLeadRequest),
      op_responses = [(200, Some LeadResponse), (422, Some HTTPValidationError)]\<rparr>"

definition list_activities_api_v1_leads__lead_id__activities_get :: operation where
  [op_defs]: "list_activities_api_v1_leads__lead_id__activities_get =
     \<lparr>op_query = [optional ''limit'' TNumber, optional ''offset'' TNumber],
      op_params = [required ''lead_id'' TString],
      op_body = None,
      op_responses = [(200, Some (TArray LeadActivityResponse)), (422, Some HTTPValidationError)]\<rparr>"

definition add_activity_api_v1_leads__lead_id__activities_post :: operation where
  [op_defs]: "add_activity_api_v1_leads__lead_id__activities_post =
     \<lparr>op_query = [],
      op_params = [required ''lead_id'' TString],
      op_body = Some (True, ''application/json'', AddActivityRequest),
      op_responses = [(201, Some LeadActivityResponse), (422, Some HTTPValidationError)]\<rparr>"

definition assign_lead_api_v1_leads__lead_id__assign_post :: operation where
  [op_defs]: "assign_lead_api_v1_leads__lead_id__assign_post =
     \<lparr>op_query = [],
      op_params = [required ''lead_id'' TString],
      op_body = Some (True, ''application/json'', AssignLeadRequest),
      op_responses = [(200, Some LeadResponse), (422, Some HTTPValidationError)]\<rparr>"

definition convert_lead_api_v1_leads__lead_id__convert_post :: operation where
  [op_defs]: "convert_lead_api_v1_leads__lead_id__convert_post =
     \<lparr>op_query = [],
      op_params = [required ''lead_id'' TString],
      op_body = Some (True, ''application/json'', ConvertLeadRequest),
      op_responses = [(200, Some ConvertLeadResponse), (422, Some HTTPValidationError)]\<rparr>"

definition set_status_api_v1_leads__lead_id__status_post :: operation where
  [op_defs]: "set_status_api_v1_leads__lead_id__status_post =
     \<lparr>op_query = [],
      op_params = [required ''lead_id'' TString],
      op_body = Some (True, ''application/json'', SetStatusRequest),
      op_responses = [(200, Some LeadResponse), (422, Some HTTPValidationError)]\<rparr>"

definition list_members_api_v1_members_get :: operation where
  [op_defs]: "list_members_api_v1_members_get =
     \<lparr>op_query = [optional ''status'' (nullable (TArray MemberStatus)),
        optional ''search'' (nullable TString), optional ''limit'' TNumber,
        optional ''offset'' TNumber],
      op_params = [],
      op_body = None,
      op_responses = [(200, Some (TArray MemberResponse)), (422, Some HTTPValidationError)]\<rparr>"

definition create_member_api_v1_members_post :: operation where
  [op_defs]: "create_member_api_v1_members_post =
     \<lparr>op_query = [],
      op_params = [],
      op_body = Some (True, ''application/json'', CreateMemberRequest),
      op_responses = [(201, Some MemberResponse), (422, Some HTTPValidationError)]\<rparr>"

definition get_member_api_v1_members__member_id__get :: operation where
  [op_defs]: "get_member_api_v1_members__member_id__get =
     \<lparr>op_query = [],
      op_params = [required ''member_id'' TString],
      op_body = None,
      op_responses = [(200, Some MemberResponse), (422, Some HTTPValidationError)]\<rparr>"

definition update_member_api_v1_members__member_id__patch :: operation where
  [op_defs]: "update_member_api_v1_members__member_id__patch =
     \<lparr>op_query = [],
      op_params = [required ''member_id'' TString],
      op_body = Some (True, ''application/json'', UpdateMemberRequest),
      op_responses = [(200, Some MemberResponse), (422, Some HTTPValidationError)]\<rparr>"

definition cancel_member_api_v1_members__member_id__cancel_post :: operation where
  [op_defs]: "cancel_member_api_v1_members__member_id__cancel_post =
     \<lparr>op_query = [],
      op_params = [required ''member_id'' TString],
      op_body = None,
      op_responses = [(200, Some MemberResponse), (422, Some HTTPValidationError)]\<rparr>"

definition freeze_member_api_v1_members__member_id__freeze_post :: operation where
  [op_defs]: "freeze_member_api_v1_members__member_id__freeze_post =
     \<lparr>op_query = [],
      op_params = [required ''member_id'' TString],
      op_body = Some (False, ''application/json'', nullable FreezeMemberRequest),
      op_responses = [(200, Some MemberResponse), (422, Some HTTPValidationError)]\<rparr>"

definition list_member_payments_api_v1_members__member_id__payments_get :: operation where
  [op_defs]: "list_member_payments_api_v1_members__member_id__payments_get =
     \<lparr>op_query = [],
      op_params = [required ''member_id'' TString],
      op_body = None,
      op_responses = [(200, Some (TArray PaymentResponse)), (422, Some HTTPValidationError)]\<rparr>"

definition unfreeze_member_api_v1_members__member_id__unfreeze_post :: operation where
  [op_defs]: "unfreeze_member_api_v1_members__member_id__unfreeze_post =
     \<lparr>op_query = [],
      op_params = [required ''member_id'' TString],
      op_body = None,
      op_responses = [(200, Some MemberResponse), (422, Some HTTPValidationError)]\<rparr>"

definition list_payments_api_v1_payments_get :: operation where
  [op_defs]: "list_payments_api_v1_payments_get =
     \<lparr>op_query = [optional ''member_id'' (nullable TString),
        optional ''subscription_id'' (nullable TString),
        optional ''paid_from'' (nullable TString), optional ''paid_to'' (nullable TString),
        optional ''method'' (nullable PaymentMethod), optional ''include_refunds'' TBoolean,
        optional ''limit'' TNumber, optional ''offset'' TNumber],
      op_params = [],
      op_body = None,
      op_responses = [(200, Some (TArray PaymentResponse)), (422, Some HTTPValidationError)]\<rparr>"

definition record_payment_api_v1_payments_post :: operation where
  [op_defs]: "record_payment_api_v1_payments_post =
     \<lparr>op_query = [],
      op_params = [],
      op_body = Some (True, ''application/json'', RecordPaymentRequest),
      op_responses = [(201, Some PaymentResponse), (422, Some HTTPValidationError)]\<rparr>"

definition get_payment_api_v1_payments__payment_id__get :: operation where
  [op_defs]: "get_payment_api_v1_payments__payment_id__get =
     \<lparr>op_query = [],
      op_params = [required ''payment_id'' TString],
      op_body = None,
      op_responses = [(200, Some PaymentResponse), (422, Some HTTPValidationError)]\<rparr>"

definition refund_payment_api_v1_payments__payment_id__refund_post :: operation where
  [op_defs]: "refund_payment_api_v1_payments__payment_id__refund_post =
     \<lparr>op_query = [],
      op_params = [required ''payment_id'' TString],
      op_body = Some (True, ''application/json'', RefundPaymentRequest),
      op_responses = [(200, Some PaymentResponse), (422, Some HTTPValidationError)]\<rparr>"

definition list_plans_api_v1_plans_get :: operation where
  [op_defs]: "list_plans_api_v1_plans_get =
     \<lparr>op_query = [optional ''include_inactive'' TBoolean, optional ''limit'' TNumber,
        optional ''offset'' TNumber],
      op_params = [],
      op_body = None,
      op_responses = [(200, Some (TArray PlanResponse)), (422, Some HTTPValidationError)]\<rparr>"

definition create_plan_api_v1_plans_post :: operation where
  [op_defs]: "create_plan_api_v1_plans_post =
     \<lparr>op_query = [],
      op_params = [],
      op_body = Some (True, ''application/json'', CreatePlanRequest),
      op_responses = [(201, Some PlanResponse), (422, Some HTTPValidationError)]\<rparr>"

definition get_plan_api_v1_plans__plan_id__get :: operation where
  [op_defs]: "get_plan_api_v1_plans__plan_id__get =
     \<lparr>op_query = [],
      op_params = [required ''plan_id'' TString],
      op_body = None,
      op_responses = [(200, Some PlanResponse), (422, Some HTTPValidationError)]\<rparr>"

definition update_plan_api_v1_plans__plan_id__patch :: operation where
  [op_defs]: "update_plan_api_v1_plans__plan_id__patch =
     \<lparr>op_query = [],
      op_params = [required ''plan_id'' TString],
      op_body = Some (True, ''application/json'', UpdatePlanRequest),
      op_responses = [(200, Some PlanResponse), (422, Some HTTPValidationError)]\<rparr>"

definition activate_plan_api_v1_plans__plan_id__activate_post :: operation where
  [op_defs]: "activate_plan_api_v1_plans__plan_id__activate_post =
     \<lparr>op_query = [],
      op_params = [required ''plan_id'' TString],
      op_body = None,
      op_responses = [(200, Some PlanResponse), (422, Some HTTPValidationError)]\<rparr>"

definition deactivate_plan_api_v1_plans__plan_id__deactivate_post :: operation where
  [op_defs]: "deactivate_plan_api_v1_plans__plan_id__deactivate_post =
     \<lparr>op_query = [],
      op_params = [required ''plan_id'' TString],
      op_body = None,
      op_responses = [(200, Some PlanResponse), (422, Some HTTPValidationError)]\<rparr>"

definition bulk_action_api_v1_schedule_bulk_action_post :: operation where
  [op_defs]: "bulk_action_api_v1_schedule_bulk_action_post =
     \<lparr>op_query = [],
      op_params = [],
      op_body = Some (True, ''application/json'', BulkActionRequest),
      op_responses = [(200, Some BulkActionResponse), (422, Some HTTPValidationError)]\<rparr>"

definition list_sessions_api_v1_schedule_sessions_get :: operation where
  [op_defs]: "list_sessions_api_v1_schedule_sessions_get =
     \<lparr>op_query = [required ''from'' TString, required ''to'' TString,
        optional ''class_id'' (nullable TString), optional ''coach_id'' (nullable TString),
        optional ''include_cancelled'' TBoolean],
      op_params = [],
      op_body = None,
      op_responses = [(200, Some (TArray SessionResponse)), (422, Some HTTPValidationError)]\<rparr>"

definition create_session_api_v1_schedule_sessions_post :: operation where
  [op_defs]: "create_session_api_v1_schedule_sessions_post =
     \<lparr>op_query = [],
      op_params = [],
      op_body = Some (True, ''application/json'', CreateAdHocSessionRequest),
      op_responses = [(201, Some SessionResponse), (422, Some HTTPValidationError)]\<rparr>"

definition get_session_endpoint_api_v1_schedule_sessions__session_id__get :: operation where
  [op_defs]: "get_session_endpoint_api_v1_schedule_sessions__session_id__get =
     \<lparr>op_query = [],
      op_params = [required ''session_id'' TString],
      op_body = None,
      op_responses = [(200, Some SessionResponse), (422, Some HTTPValidationError)]\<rparr>"

definition update_session_api_v1_schedule_sessions__session_id__patch :: operation where
  [op_defs]: "update_session_api_v1_schedule_sessions__session_id__patch =
     \<lparr>op_query = [],
      op_params = [required ''session_id'' TString],
      op_body = Some (True, ''application/json'', UpdateSessionRequest),
      op_responses = [(200, Some SessionResponse), (422, Some HTTPValidationError)]\<rparr>"

definition cancel_session_api_v1_schedule_sessions__session_id__cancel_post :: operation where
  [op_defs]: "cancel_session_api_v1_schedule_sessions__session_id__cancel_post =
     \<lparr>op_query = [],
      op_params = [required ''session_id'' TString],
      op_body = Some (True, ''application/json'', CancelSessionRequest),
      op_responses = [(200, Some SessionResponse), (422, Some HTTPValidationError)]\<rparr>"

definition list_templates_api_v1_schedule_templates_get :: operation where
  [op_defs]: "list_templates_api_v1_schedule_templates_get =
     \<lparr>op_query = [optional ''class_id'' (nullable TString), optional ''only_active'' TBoolean],
      op_params = [],
      op_body = None,
      op_responses = [(200, Some (TArray TemplateResponse)), (422, Some HTTPValidationError)]\<rparr>"

definition create_template_api_v1_schedule_templates_post :: operation where
  [op_defs]: "create_template_api_v1_schedule_templates_post =
     \<lparr>op_query = [],
      op_params = [],
      op_body = Some (True, ''application/json'', CreateTemplateRequest),
      op_responses = [(201, Some TemplateResponse), (422, Some HTTPValidationError)]\<rparr>"

definition get_template_api_v1_schedule_templates__template_id__get :: operation where
  [op_defs]: "get_template_api_v1_schedule_templates__template_id__get =
     \<lparr>op_query = [],
      op_params = [required ''template_id'' TString],
      op_body = None,
      op_responses = [(200, Some TemplateResponse), (422, Some HTTPValidationError)]\<rparr>"

definition deactivate_template_api_v1_schedule_templates__template_id__delete :: operation where
  [op_defs]: "deactivate_template_api_v1_schedule_templates__template_id__delete =
     \<lparr>op_query = [],
      op_params = [required ''template_id'' TString],
      op_body = None,
      op_responses = [(200, Some TemplateResponse), (422, Some HTTPValidationError)]\<rparr>"

definition update_template_api_v1_schedule_templates__template_id__patch :: operation where
  [op_defs]: "update_template_api_v1_schedule_templates__template_id__patch =
     \<lparr>op_query = [],
      op_params = [required ''template_id'' TString],
      op_body = Some (True, ''application/json'', UpdateTemplateRequest),
      op_responses = [(200, Some TemplateResponse), (422, Some HTTPValidationError)]\<rparr>"

definition list_subscriptions_api_v1_subscriptions_get :: operation where
  [op_defs]: "list_subscriptions_api_v1_subscriptions_get =
     \<lparr>op_query = [optional ''member_id'' (nullable TString),
        optional ''status'' (nullable SubscriptionStatus),
        optional ''plan_id'' (nullable TString), optional ''expires_before'' (nullable TString),
        optional ''expires_within_days'' (nullable TNumber), optional ''limit'' TNumber,
        optional ''offset'' TNumber],
      op_params = [],
      op_body = None,
      op_responses = [(200, Some (TArray SubscriptionResponse)), (422, Some HTTPValidationError)]\<rparr>"

definition create_subscription_api_v1_subscriptions_post :: operation where
  [op_defs]: "create_subscription_api_v1_subscriptions_post =
     \<lparr>op_query = [],
      op_params = [],
      op_body = Some (True, ''application/json'', CreateSubscriptionRequest),
      op_responses = [(201, Some SubscriptionResponse), (422, Some HTTPValidationError)]\<rparr>"

definition get_subscription_api_v1_subscriptions__sub_id__get :: operation where
  [op_defs]: "get_subscription_api_v1_subscriptions__sub_id__get =
     \<lparr>op_query = [],
      op_params = [required ''sub_id'' TString],
      op_body = None,
      op_responses = [(200, Some SubscriptionResponse), (422, Some HTTPValidationError)]\<rparr>"

definition cancel_subscription_api_v1_subscriptions__sub_id__cancel_post :: operation where
  [op_defs]: "cancel_subscription_api_v1_subscriptions__sub_id__cancel_post =
     \<lparr>op_query = [],
      op_params = [required ''sub_id'' TString],
      op_body = Some (True, ''application/json'', CancelSubscriptionRequest),
      op_responses = [(200, Some SubscriptionResponse), (422, Some HTTPValidationError)]\<rparr>"

definition change_plan_api_v1_subscriptions__sub_id__change_plan_post :: operation where
  [op_defs]: "change_plan_api_v1_subscriptions__sub_id__change_plan_post =
     \<lparr>op_query = [],
      op_params = [required ''sub_id'' TString],
      op_body = Some (True, ''application/json'', ChangePlanRequest),
      op_responses = [(200, Some SubscriptionResponse), (422, Some HTTPValidationError)]\<rparr>"

definition list_subscription_events_api_v1_subscriptions__sub_id__events_get :: operation where
  [op_defs]: "list_subscription_events_api_v1_subscriptions__sub_id__events_get =
     \<lparr>op_query = [],
      op_params = [required ''sub_id'' TString],
      op_body = None,
      op_responses = [(200, Some (TArray SubscriptionEventResponse)), (422, Some HTTPValidationError)]\<rparr>"

definition freeze_subscription_api_v1_subscriptions__sub_id__freeze_post :: operation where
  [op_defs]: "freeze_subscription_api_v1_subscriptions__sub_id__freeze_post =
     \<lparr>op_query = [],
      op_params = [required ''sub_id'' TString],
      op_body = Some (True, ''application/json'', FreezeSubscriptionRequest),
      op_responses = [(200, Some SubscriptionResponse), (422, Some HTTPValidationError)]\<rparr>"

definition renew_subscription_api_v1_subscriptions__sub_id__renew_post :: operation where
  [op_defs]: "renew_subscription_api_v1_subscriptions__sub_id__renew_post =
     \<lparr>op_query = [],
      op_params = [required ''sub_id'' TString],
      op_body = Some (True, ''application/json'', RenewSubscriptionRequest),
      op_responses = [(200, Some SubscriptionResponse), (422, Some HTTPValidationError)]\<rparr>"

definition unfreeze_subscription_api_v1_subscriptions__sub_id__unfreeze_post :: operation where
  [op_defs]: "unfreeze_subscription_api_v1_subscriptions__sub_id__unfreeze_post =
     \<lparr>op_query = [],
      op_params = [required ''sub_id'' TString],
      op_body = None,
      op_responses = [(200, Some SubscriptionResponse), (422, Some HTTPValidationError)]\<rparr>"

definition list_tenants_api_v1_tenants_get :: operation where
  [op_defs]: "list_tenants_api_v1_tenants_get =
     \<lparr>op_query = [optional ''limit'' TNumber, optional ''offset'' TNumber],
      op_params = [],
      op_body = None,
      op_responses = [(200, Some (TArray TenantResponse)), (422, Some HTTPValidationError)]\<rparr>"

definition create_tenant_api_v1_tenants_post :: operation where
  [op_defs]: "create_tenant_api_v1_tenants_post =
     \<lparr>op_query = [],
      op_params = [],
      op_body = Some (True, ''application/json'', CreateTenantRequest),
      op_responses = [(201, Some TenantResponse), (422, Some HTTPValidationError)]\<rparr>"

definition get_tenant_api_v1_tenants__tenant_id__get :: operation where
  [op_defs]: "get_tenant_api_v1_tenants__tenant_id__get =
     \<lparr>op_query = [],
      op_params = [required ''tenant_id'' TString],
      op_body = None,
      op_responses = [(200, Some TenantResponse), (422, Some HTTPValidationError)]\<rparr>"

definition update_tenant_api_v1_tenants__tenant_id__patch :: operation where
  [op_defs]: "update_tenant_api_v1_tenants__tenant_id__patch =
     \<lparr>op_query = [],
      op_params = [required ''tenant_id'' TString],
      op_body = Some (True, ''application/json'', UpdateTenantRequest),
      op_responses = [(200, Some TenantResponse), (422, Some HTTPValidationError)]\<rparr>"

definition activate_tenant_api_v1_tenants__tenant_id__activate_post :: operation where
  [op_defs]: "activate_tenant_api_v1_tenants__tenant_id__activate_post =
     \<lparr>op_query = [],
      op_params = [required ''tenant_id'' TString],
      op_body = None,
      op_responses = [(200, Some TenantResponse), (422, Some HTTPValidationError)]\<rparr>"

definition cancel_tenant_api_v1_tenants__tenant_id__cancel_post :: operation where
  [op_defs]: "cancel_tenant_api_v1_tenants__tenant_id__cancel_post =
     \<lparr>op_query = [],
      op_params = [required ''tenant_id'' TString],
      op_body = None,
      op_responses = [(200, Some TenantResponse), (422, Some HTTPValidationError)]\<rparr>"

definition update_tenant_features_api_v1_tenants__tenant_id__features_patch :: operation where
  [op_defs]: "update_tenant_features_api_v1_tenants__tenant_id__features_patch =
     \<lparr>op_query = [],
      op_params = [required ''tenant_id'' TString],
      op_body = Some (True, ''application/json'', UpdateTenantFeaturesRequest),
      op_responses = [(200, Some TenantResponse), (422, Some HTTPValidationError)]\<rparr>"

definition get_tenant_stats_api_v1_tenants__tenant_id__stats_get :: operation where
  [op_defs]: "get_tenant_stats_api_v1_tenants__tenant_id__stats_get =
     \<lparr>op_query = [],
      op_params = [required ''tenant_id'' TString],
      op_body = None,
      op_responses = [(200, Some TenantStatsResponse), (422, Some HTTPValidationError)]\<rparr>"

definition suspend_tenant_api_v1_tenants__tenant_id__suspend_post :: operation where
  [op_defs]: "suspend_tenant_api_v1_tenants__tenant_id__suspend_post =
     \<lparr>op_query = [],
      op_params = [required ''tenant_id'' TString],
      op_body = None,
      op_responses = [(200, Some TenantResponse), (422, Some HTTPValidationError)]\<rparr>"

definition list_tenant_users_api_v1_tenants__tenant_id__users_get :: operation where
  [op_defs]: "list_tenant_users_api_v1_tenants__tenant_id__users_get =
     \<lparr>op_query = [optional ''limit'' TNumber, optional ''offset'' TNumber],
      op_params = [required ''tenant_id'' TString],
      op_body = None,
      op_responses = [(200, Some (TArray UserResponse)), (422, Some HTTPValidationError)]\<rparr>"

definition upload_logo_api_v1_uploads_logo_post :: operation where
  [op_defs]: "upload_logo_api_v1_uploads_logo_post =
     \<lparr>op_query = [],
      op_params = [],
      op_body = Some (True, ''multipart/form-data'', Body_upload_logo_api_v1_uploads_logo_post),
      op_responses = [(201, Some UploadResponse), (422, Some HTTPValidationError)]\<rparr>"

definition list_users_api_v1_users_get :: operation where
  [op_defs]: "list_users_api_v1_users_get =
     \<lparr>op_query = [optional ''limit'' TNumber, optional ''offset'' TNumber],
      op_params = [],
      op_body = None,
      op_responses = [(200, Some (TArray UserResponse)), (422, Some HTTPValidationError)]\<rparr>"

definition create_user_api_v1_users_post :: operation where
  [op_defs]: "create_user_api_v1_users_post =
     \<lparr>op_query = [],
      op_params = [],
      op_body = Some (True, ''application/json'', CreateUserRequest),
      op_responses = [(201, Some UserResponse), (422, Some HTTPValidationError)]\<rparr>"

definition get_user_api_v1_users__user_id__get :: operation where
  [op_defs]: "get_user_api_v1_users__user_id__get =
     \<lparr>op_query = [],
      op_params = [required ''user_id'' TString],
      op_body = None,
      op_responses = [(200, Some UserResponse), (422, Some HTTPValidationError)]\<rparr>"

definition delete_user_api_v1_users__user_id__delete :: operation where
  [op_defs]: "delete_user_api_v1_users__user_id__delete =
     \<lparr>op_query = [],
      op_params = [required ''user_id'' TString],
      op_body = None,
      op_responses = [(204, None), (422, Some HTTPValidationError)]\<rparr>"

definition update_user_api_v1_users__user_id__patch :: operation where
  [op_defs]: "update_user_api_v1_users__user_id__patch =
     \<lparr>op_query = [],
      op_params = [required ''user_id'' TString],
      op_body = Some (True, ''application/json'', UpdateUserRequest),
      op_responses = [(200, Some UserResponse), (422, Some HTTPValidationError)]\<rparr>"

definition health_health_get :: operation where
  [op_defs]: "health_health_get =
     \<lparr>op_query = [],
      op_params = [],
      op_body = None,
      op_responses = [(200, Some (TDict TString))]\<rparr>"

section \<open>The paths\<close>

definition path_admin_stats :: path_item where
  [path_defs]: "path_admin_stats = \<lparr>pi_template = ''/api/v1/admin/stats'',
     pi_methods = [(GET, get_platform_stats_api_v1_admin_stats_get)]\<rparr>"

definition path_attendance :: path_item where
  [path_defs]: "path_attendance = \<lparr>pi_template = ''/api/v1/attendance'',
     pi_methods = [(GET, list_entries_api_v1_attendance_get),
       (POST, record_entry_api_v1_attendance_post)]\<rparr>"

definition path_attendance_members_member_id :: path_item where
  [path_defs]: "path_attendance_members_member_id = \<lparr>pi_template = ''/api/v1/attendance/members/{member_id}'',
     pi_methods = [(GET, list_member_entries_api_v1_attendance_members__member_id__get)]\<rparr>"

definition path_attendance_members_member_id_summary :: path_item where
  [path_defs]: "path_attendance_members_member_id_summary = \<lparr>pi_template = ''/api/v1/attendance/members/{member_id}/summary'',
     pi_methods = [(GET, member_summary_api_v1_attendance_members__member_id__summary_get)]\<rparr>"

definition path_attendance_quota_check :: path_item where
  [path_defs]: "path_attendance_quota_check = \<lparr>pi_template = ''/api/v1/attendance/quota-check'',
     pi_methods = [(GET, quota_check_api_v1_attendance_quota_check_get)]\<rparr>"

definition path_attendance_entry_id_reassign_coach :: path_item where
  [path_defs]: "path_attendance_entry_id_reassign_coach = \<lparr>pi_template = ''/api/v1/attendance/{entry_id}/reassign-coach'',
     pi_methods = [(POST, reassign_coach_api_v1_attendance__entry_id__reassign_coach_post)]\<rparr>"

definition path_attendance_entry_id_undo :: path_item where
  [path_defs]: "path_attendance_entry_id_undo = \<lparr>pi_template = ''/api/v1/attendance/{entry_id}/undo'',
     pi_methods = [(POST, undo_entry_api_v1_attendance__entry_id__undo_post)]\<rparr>"

definition path_auth_login :: path_item where
  [path_defs]: "path_auth_login = \<lparr>pi_template = ''/api/v1/auth/login'',
     pi_methods = [(POST, login_api_v1_auth_login_post)]\<rparr>"

definition path_auth_logout :: path_item where
  [path_defs]: "path_auth_logout = \<lparr>pi_template = ''/api/v1/auth/logout'',
     pi_methods = [(POST, logout_api_v1_auth_logout_post)]\<rparr>"

definition path_auth_me :: path_item where
  [path_defs]: "path_auth_me = \<lparr>pi_template = ''/api/v1/auth/me'',
     pi_methods = [(GET, me_api_v1_auth_me_get)]\<rparr>"

definition path_class_coaches_link_id :: path_item where
  [path_defs]: "path_class_coaches_link_id = \<lparr>pi_template = ''/api/v1/class-coaches/{link_id}'',
     pi_methods = [(DELETE, delete_link_api_v1_class_coaches__link_id__delete),
       (PATCH, update_link_api_v1_class_coaches__link_id__patch)]\<rparr>"

definition path_classes :: path_item where
  [path_defs]: "path_classes = \<lparr>pi_template = ''/api/v1/classes'',
     pi_methods = [(GET, list_classes_api_v1_classes_get),
       (POST, create_class_api_v1_classes_post)]\<rparr>"

definition path_classes_class_id :: path_item where
  [path_defs]: "path_classes_class_id = \<lparr>pi_template = ''/api/v1/classes/{class_id}'',
     pi_methods = [(GET, get_class_api_v1_classes__class_id__get),
       (PATCH, update_class_api_v1_classes__class_id__patch)]\<rparr>"

definition path_classes_class_id_activate :: path_item where
  [path_defs]: "path_classes_class_id_activate = \<lparr>pi_template = ''/api/v1/classes/{class_id}/activate'',
     pi_methods = [(POST, activate_class_api_v1_classes__class_id__activate_post)]\<rparr>"

definition path_classes_class_id_coaches :: path_item where
  [path_defs]: "path_classes_class_id_coaches = \<lparr>pi_template = ''/api/v1/classes/{class_id}/coaches'',
     pi_methods = [(GET, list_class_coaches_api_v1_classes__class_id__coaches_get),
       (POST, assign_coach_api_v1_classes__class_id__coaches_post)]\<rparr>"

definition path_classes_class_id_deactivate :: path_item where
  [path_defs]: "path_classes_class_id_deactivate = \<lparr>pi_template = ''/api/v1/classes/{class_id}/deactivate'',
     pi_methods = [(POST, deactivate_class_api_v1_classes__class_id__deactivate_post)]\<rparr>"

definition path_coaches :: path_item where
  [path_defs]: "path_coaches = \<lparr>pi_template = ''/api/v1/coaches'',
     pi_methods = [(GET, list_coaches_api_v1_coaches_get),
       (POST, create_coach_api_v1_coaches_post)]\<rparr>"

definition path_coaches_earnings_summary :: path_item where
  [path_defs]: "path_coaches_earnings_summary = \<lparr>pi_template = ''/api/v1/coaches/earnings/summary'',
     pi_methods = [(GET, earnings_summary_api_v1_coaches_earnings_summary_get)]\<rparr>"

definition path_coaches_coach_id :: path_item where
  [path_defs]: "path_coaches_coach_id = \<lparr>pi_template = ''/api/v1/coaches/{coach_id}'',
     pi_methods = [(GET, get_coach_api_v1_coaches__coach_id__get),
       (PATCH, update_coach_api_v1_coaches__coach_id__patch)]\<rparr>"

definition path_coaches_coach_id_cancel :: path_item where
  [path_defs]: "path_coaches_coach_id_cancel = \<lparr>pi_template = ''/api/v1/coaches/{coach_id}/cancel'',
     pi_methods = [(POST, cancel_coach_api_v1_coaches__coach_id__cancel_post)]\<rparr>"

definition path_coaches_coach_id_classes :: path_item where
  [path_defs]: "path_coaches_coach_id_classes = \<lparr>pi_template = ''/api/v1/coaches/{coach_id}/classes'',
     pi_methods = [(GET, list_classes_for_coach_api_v1_coaches__coach_id__classes_get)]\<rparr>"

definition path_coaches_coach_id_earnings :: path_item where
  [path_defs]: "path_coaches_coach_id_earnings = \<lparr>pi_template = ''/api/v1/coaches/{coach_id}/earnings'',
     pi_methods = [(GET, coach_earnings_api_v1_coaches__coach_id__earnings_get)]\<rparr>"

definition path_coaches_coach_id_freeze :: path_item where
  [path_defs]: "path_coaches_coach_id_freeze = \<lparr>pi_template = ''/api/v1/coaches/{coach_id}/freeze'',
     pi_methods = [(POST, freeze_coach_api_v1_coaches__coach_id__freeze_post)]\<rparr>"

definition path_coaches_coach_id_invite_user :: path_item where
  [path_defs]: "path_coaches_coach_id_invite_user = \<lparr>pi_template = ''/api/v1/coaches/{coach_id}/invite-user'',
     pi_methods = [(POST, invite_user_api_v1_coaches__coach_id__invite_user_post)]\<rparr>"

definition path_coaches_coach_id_unfreeze :: path_item where
  [path_defs]: "path_coaches_coach_id_unfreeze = \<lparr>pi_template = ''/api/v1/coaches/{coach_id}/unfreeze'',
     pi_methods = [(POST, unfreeze_coach_api_v1_coaches__coach_id__unfreeze_post)]\<rparr>"

definition path_dashboard_revenue :: path_item where
  [path_defs]: "path_dashboard_revenue = \<lparr>pi_template = ''/api/v1/dashboard/revenue'',
     pi_methods = [(GET, revenue_summary_api_v1_dashboard_revenue_get)]\<rparr>"

definition path_leads :: path_item where
  [path_defs]: "path_leads = \<lparr>pi_template = ''/api/v1/leads'',
     pi_methods = [(GET, list_leads_api_v1_leads_get),
       (POST, create_lead_api_v1_leads_post)]\<rparr>"

definition path_leads_lost_reasons :: path_item where
  [path_defs]: "path_leads_lost_reasons = \<lparr>pi_template = ''/api/v1/leads/lost-reasons'',
     pi_methods = [(GET, list_lost_reasons_api_v1_leads_lost_reasons_get)]\<rparr>"

definition path_leads_stats :: path_item where
  [path_defs]: "path_leads_stats = \<lparr>pi_template = ''/api/v1/leads/stats'',
     pi_methods = [(GET, get_stats_api_v1_leads_stats_get)]\<rparr>"

definition path_leads_lead_id :: path_item where
  [path_defs]: "path_leads_lead_id = \<lparr>pi_template = ''/api/v1/leads/{lead_id}'',
     pi_methods = [(GET, get_lead_api_v1_leads__lead_id__get),
       (PATCH, update_lead_api_v1_leads__lead_id__patch)]\<rparr>"

definition path_leads_lead_id_activities :: path_item where
  [path_defs]: "path_leads_lead_id_activities = \<lparr>pi_template = ''/api/v1/leads/{lead_id}/activities'',
     pi_methods = [(GET, list_activities_api_v1_leads__lead_id__activities_get),
       (POST, add_activity_api_v1_leads__lead_id__activities_post)]\<rparr>"

definition path_leads_lead_id_assign :: path_item where
  [path_defs]: "path_leads_lead_id_assign = \<lparr>pi_template = ''/api/v1/leads/{lead_id}/assign'',
     pi_methods = [(POST, assign_lead_api_v1_leads__lead_id__assign_post)]\<rparr>"

definition path_leads_lead_id_convert :: path_item where
  [path_defs]: "path_leads_lead_id_convert = \<lparr>pi_template = ''/api/v1/leads/{lead_id}/convert'',
     pi_methods = [(POST, convert_lead_api_v1_leads__lead_id__convert_post)]\<rparr>"

definition path_leads_lead_id_status :: path_item where
  [path_defs]: "path_leads_lead_id_status = \<lparr>pi_template = ''/api/v1/leads/{lead_id}/status'',
     pi_methods = [(POST, set_status_api_v1_leads__lead_id__status_post)]\<rparr>"

definition path_members :: path_item where
  [path_defs]: "path_members = \<lparr>pi_template = ''/api/v1/members'',
     pi_methods = [(GET, list_members_api_v1_members_get),
       (POST, create_member_api_v1_members_post)]\<rparr>"

definition path_members_member_id :: path_item where
  [path_defs]: "path_members_member_id = \<lparr>pi_template = ''/api/v1/members/{member_id}'',
     pi_methods = [(GET, get_member_api_v1_members__member_id__get),
       (PATCH, update_member_api_v1_members__member_id__patch)]\<rparr>"

definition path_members_member_id_cancel :: path_item where
  [path_defs]: "path_members_member_id_cancel = \<lparr>pi_template = ''/api/v1/members/{member_id}/cancel'',
     pi_methods = [(POST, cancel_member_api_v1_members__member_id__cancel_post)]\<rparr>"

definition path_members_member_id_freeze :: path_item where
  [path_defs]: "path_members_member_id_freeze = \<lparr>pi_template = ''/api/v1/members/{member_id}/freeze'',
     pi_methods = [(POST, freeze_member_api_v1_members__member_id__freeze_post)]\<rparr>"

definition path_members_member_id_payments :: path_item where
  [path_defs]: "path_members_member_id_payments = \<lparr>pi_template = ''/api/v1/members/{member_id}/payments'',
     pi_methods = [(GET, list_member_payments_api_v1_members__member_id__payments_get)]\<rparr>"

definition path_members_member_id_unfreeze :: path_item where
  [path_defs]: "path_members_member_id_unfreeze = \<lparr>pi_template = ''/api/v1/members/{member_id}/unfreeze'',
     pi_methods = [(POST, unfreeze_member_api_v1_members__member_id__unfreeze_post)]\<rparr>"

definition path_payments :: path_item where
  [path_defs]: "path_payments = \<lparr>pi_template = ''/api/v1/payments'',
     pi_methods = [(GET, list_payments_api_v1_payments_get),
       (POST, record_payment_api_v1_payments_post)]\<rparr>"

definition path_payments_payment_id :: path_item where
  [path_defs]: "path_payments_payment_id = \<lparr>pi_template = ''/api/v1/payments/{payment_id}'',
     pi_methods = [(GET, get_payment_api_v1_payments__payment_id__get)]\<rparr>"

definition path_payments_payment_id_refund :: path_item where
  [path_defs]: "path_payments_payment_id_refund = \<lparr>pi_template = ''/api/v1/payments/{payment_id}/refund'',
     pi_methods = [(POST, refund_payment_api_v1_payments__payment_id__refund_post)]\<rparr>"

definition path_plans :: path_item where
  [path_defs]: "path_plans = \<lparr>pi_template = ''/api/v1/plans'',
     pi_methods = [(GET, list_plans_api_v1_plans_get),
       (POST, create_plan_api_v1_plans_post)]\<rparr>"

definition path_plans_plan_id :: path_item where
  [path_defs]: "path_plans_plan_id = \<lparr>pi_template = ''/api/v1/plans/{plan_id}'',
     pi_methods = [(GET, get_plan_api_v1_plans__plan_id__get),
       (PATCH, update_plan_api_v1_plans__plan_id__patch)]\<rparr>"

definition path_plans_plan_id_activate :: path_item where
  [path_defs]: "path_plans_plan_id_activate = \<lparr>pi_template = ''/api/v1/plans/{plan_id}/activate'',
     pi_methods = [(POST, activate_plan_api_v1_plans__plan_id__activate_post)]\<rparr>"

definition path_plans_plan_id_deactivate :: path_item where
  [path_defs]: "path_plans_plan_id_deactivate = \<lparr>pi_template = ''/api/v1/plans/{plan_id}/deactivate'',
     pi_methods = [(POST, deactivate_plan_api_v1_plans__plan_id__deactivate_post)]\<rparr>"

definition path_schedule_bulk_action :: path_item where
  [path_defs]: "path_schedule_bulk_action = \<lparr>pi_template = ''/api/v1/schedule/bulk-action'',
     pi_methods = [(POST, bulk_action_api_v1_schedule_bulk_action_post)]\<rparr>"

definition path_schedule_sessions :: path_item where
  [path_defs]: "path_schedule_sessions = \<lparr>pi_template = ''/api/v1/schedule/sessions'',
     pi_methods = [(GET, list_sessions_api_v1_schedule_sessions_get),
       (POST, create_session_api_v1_schedule_sessions_post)]\<rparr>"

definition path_schedule_sessions_session_id :: path_item where
  [path_defs]: "path_schedule_sessions_session_id = \<lparr>pi_template = ''/api/v1/schedule/sessions/{session_id}'',
     pi_methods = [(GET, get_session_endpoint_api_v1_schedule_sessions__session_id__get),
       (PATCH, update_session_api_v1_schedule_sessions__session_id__patch)]\<rparr>"

definition path_schedule_sessions_session_id_cancel :: path_item where
  [path_defs]: "path_schedule_sessions_session_id_cancel = \<lparr>pi_template = ''/api/v1/schedule/sessions/{session_id}/cancel'',
     pi_methods = [(POST, cancel_session_api_v1_schedule_sessions__session_id__cancel_post)]\<rparr>"

definition path_schedule_templates :: path_item where
  [path_defs]: "path_schedule_templates = \<lparr>pi_template = ''/api/v1/schedule/templates'',
     pi_methods = [(GET, list_templates_api_v1_schedule_templates_get),
       (POST, create_template_api_v1_schedule_templates_post)]\<rparr>"

definition path_schedule_templates_template_id :: path_item where
  [path_defs]: "path_schedule_templates_template_id = \<lparr>pi_template = ''/api/v1/schedule/templates/{template_id}'',
     pi_methods = [(GET, get_template_api_v1_schedule_templates__template_id__get),
       (DELETE, deactivate_template_api_v1_schedule_templates__template_id__delete),
       (PATCH, update_template_api_v1_schedule_templates__template_id__patch)]\<rparr>"

definition path_subscriptions :: path_item where
  [path_defs]: "path_subscriptions = \<lparr>pi_template = ''/api/v1/subscriptions'',
     pi_methods = [(GET, list_subscriptions_api_v1_subscriptions_get),
       (POST, create_subscription_api_v1_subscriptions_post)]\<rparr>"

definition path_subscriptions_sub_id :: path_item where
  [path_defs]: "path_subscriptions_sub_id = \<lparr>pi_template = ''/api/v1/subscriptions/{sub_id}'',
     pi_methods = [(GET, get_subscription_api_v1_subscriptions__sub_id__get)]\<rparr>"

definition path_subscriptions_sub_id_cancel :: path_item where
  [path_defs]: "path_subscriptions_sub_id_cancel = \<lparr>pi_template = ''/api/v1/subscriptions/{sub_id}/cancel'',
     pi_methods = [(POST, cancel_subscription_api_v1_subscriptions__sub_id__cancel_post)]\<rparr>"

definition path_subscriptions_sub_id_change_plan :: path_item where
  [path_defs]: "path_subscriptions_sub_id_change_plan = \<lparr>pi_template = ''/api/v1/subscriptions/{sub_id}/change-plan'',
     pi_methods = [(POST, change_plan_api_v1_subscriptions__sub_id__change_plan_post)]\<rparr>"

definition path_subscriptions_sub_id_events :: path_item where
  [path_defs]: "path_subscriptions_sub_id_events = \<lparr>pi_template = ''/api/v1/subscriptions/{sub_id}/events'',
     pi_methods = [(GET, list_subscription_events_api_v1_subscriptions__sub_id__events_get)]\<rparr>"

definition path_subscriptions_sub_id_freeze :: path_item where
  [path_defs]: "path_subscriptions_sub_id_freeze = \<lparr>pi_template = ''/api/v1/subscriptions/{sub_id}/freeze'',
     pi_methods = [(POST, freeze_subscription_api_v1_subscriptions__sub_id__freeze_post)]\<rparr>"

definition path_subscriptions_sub_id_renew :: path_item where
  [path_defs]: "path_subscriptions_sub_id_renew = \<lparr>pi_template = ''/api/v1/subscriptions/{sub_id}/renew'',
     pi_methods = [(POST, renew_subscription_api_v1_subscriptions__sub_id__renew_post)]\<rparr>"

definition path_subscriptions_sub_id_unfreeze :: path_item where
  [path_defs]: "path_subscriptions_sub_id_unfreeze = \<lparr>pi_template = ''/api/v1/subscriptions/{sub_id}/unfreeze'',
     pi_methods = [(POST, unfreeze_subscription_api_v1_subscriptions__sub_id__unfreeze_post)]\<rparr>"

definition path_tenants :: path_item where
  [path_defs]: "path_tenants = \<lparr>pi_template = ''/api/v1/tenants'',
     pi_methods = [(GET, list_tenants_api_v1_tenants_get),
       (POST, create_tenant_api_v1_tenants_post)]\<rparr>"

definition path_tenants_tenant_id :: path_item where
  [path_defs]: "path_tenants_tenant_id = \<lparr>pi_template = ''/api/v1/tenants/{tenant_id}'',
     pi_methods = [(GET, get_tenant_api_v1_tenants__tenant_id__get),
       (PATCH, update_tenant_api_v1_tenants__tenant_id__patch)]\<rparr>"

definition path_tenants_tenant_id_activate :: path_item where
  [path_defs]: "path_tenants_tenant_id_activate = \<lparr>pi_template = ''/api/v1/tenants/{tenant_id}/activate'',
     pi_methods = [(POST, activate_tenant_api_v1_tenants__tenant_id__activate_post)]\<rparr>"

definition path_tenants_tenant_id_cancel :: path_item where
  [path_defs]: "path_tenants_tenant_id_cancel = \<lparr>pi_template = ''/api/v1/tenants/{tenant_id}/cancel'',
     pi_methods = [(POST, cancel_tenant_api_v1_tenants__tenant_id__cancel_post)]\<rparr>"

definition path_tenants_tenant_id_features :: path_item where
  [path_defs]: "path_tenants_tenant_id_features = \<lparr>pi_template = ''/api/v1/tenants/{tenant_id}/features'',
     pi_methods = [(PATCH, update_tenant_features_api_v1_tenants__tenant_id__features_patch)]\<rparr>"

definition path_tenants_tenant_id_stats :: path_item where
  [path_defs]: "path_tenants_tenant_id_stats = \<lparr>pi_template = ''/api/v1/tenants/{tenant_id}/stats'',
     pi_methods = [(GET, get_tenant_stats_api_v1_tenants__tenant_id__stats_get)]\<rparr>"

definition path_tenants_tenant_id_suspend :: path_item where
  [path_defs]: "path_tenants_tenant_id_suspend = \<lparr>pi_template = ''/api/v1/tenants/{tenant_id}/suspend'',
     pi_methods = [(POST, suspend_tenant_api_v1_tenants__tenant_id__suspend_post)]\<rparr>"

definition path_tenants_tenant_id_users :: path_item where
  [path_defs]: "path_tenants_tenant_id_users = \<lparr>pi_template = ''/api/v1/tenants/{tenant_id}/users'',
     pi_methods = [(GET, list_tenant_users_api_v1_tenants__tenant_id__users_get)]\<rparr>"

definition path_uploads_logo :: path_item where
  [path_defs]: "path_uploads_logo = \<lparr>pi_template = ''/api/v1/uploads/logo'',
     pi_methods = [(POST, upload_logo_api_v1_uploads_logo_post)]\<rparr>"

definition path_users :: path_item where
  [path_defs]: "path_users = \<lparr>pi_template = ''/api/v1/users'',
     pi_methods = [(GET, list_users_api_v1_users_get),
       (POST, create_user_api_v1_users_post)]\<rparr>"

definition path_users_user_id :: path_item where
  [path_defs]: "path_users_user_id = \<lparr>pi_template = ''/api/v1/users/{user_id}'',
     pi_methods = [(GET, get_user_api_v1_users__user_id__get),
       (DELETE, delete_user_api_v1_users__user_id__delete),
       (PATCH, update_user_api_v1_users__user_id__patch)]\<rparr>"

definition path_health :: path_item where
  [path_defs]: "path_health = \<lparr>pi_template = ''/health'',
     pi_methods = [(GET, health_health_get)]\<rparr>"

definition paths :: "path_item list" where
  "paths = [path_admin_stats, path_attendance, path_attendance_members_member_id,
     path_attendance_members_member_id_summary, path_attendance_quota_check,
     path_attendance_entry_id_reassign_coach, path_attendance_entry_id_undo, path_auth_login,
     path_auth_logout, path_auth_me, path_class_coaches_link_id, path_classes,
     path_classes_class_id, path_classes_class_id_activate, path_classes_class_id_coaches,
     path_classes_class_id_deactivate, path_coaches, path_coaches_earnings_summary,
     path_coaches_coach_id, path_coaches_coach_id_cancel, path_coaches_coach_id_classes,
     path_coaches_coach_id_earnings, path_coaches_coach_id_freeze,
     path_coaches_coach_id_invite_user, path_coaches_coach_id_unfreeze, path_dashboard_revenue,
     path_leads, path_leads_lost_reasons, path_leads_stats, path_leads_lead_id,
     path_leads_lead_id_activities, path_leads_lead_id_assign, path_leads_lead_id_convert,
     path_leads_lead_id_status, path_members, path_members_member_id,
     path_members_member_id_cancel, path_members_member_id_freeze,
     path_members_member_id_payments, path_members_member_id_unfreeze, path_payments,
     path_payments_payment_id, path_payments_payment_id_refund, path_plans, path_plans_plan_id,
     path_plans_plan_id_activate, path_plans_plan_id_deactivate, path_schedule_bulk_action,
     path_schedule_sessions, path_schedule_sessions_session_id,
     path_schedule_sessions_session_id_cancel, path_schedule_templates,
     path_schedule_templates_template_id, path_subscriptions, path_subscriptions_sub_id,
     path_subscriptions_sub_id_cancel, path_subscriptions_sub_id_change_plan,
     path_subscriptions_sub_id_events, path_subscriptions_sub_id_freeze,
     path_subscriptions_sub_id_renew, path_subscriptions_sub_id_unfreeze, path_tenants,
     path_tenants_tenant_id, path_tenants_tenant_id_activate, path_tenants_tenant_id_cancel,
     path_tenants_tenant_id_features, path_tenants_tenant_id_stats,
     path_tenants_tenant_id_suspend, path_tenants_tenant_id_users, path_uploads_logo, path_users,
     path_users_user_id, path_health]"

end
