(* ===== verification/ApiSignatures.thy ===== *)
theory ApiSignatures
  imports ApiSchema
begin

text \<open>
  The declared types of the API functions, the \<^verbatim>\<open>features/*/api.ts\<close> files in order: the type of the
  \<open>data\<close> argument, where the function has one, and the type its promise yields, \<open>None\<close> for \<open>void\<close>.
  The client casts the answer to that type without looking at it.
\<close>

record signature =
  sig_data :: "ts_type option"
  sig_result :: "ts_type option"

section \<open>Attendance\<close>

definition quotaCheck_sig :: signature where
  [sig_defs]: "quotaCheck_sig = \<lparr>sig_data = None, sig_result = Some QuotaCheckResponse\<rparr>"

definition recordEntry_sig :: signature where
  [sig_defs]: "recordEntry_sig = \<lparr>sig_data = Some RecordEntryRequest, sig_result = Some EntryResponse\<rparr>"

definition undoEntry_sig :: signature where
  [sig_defs]: "undoEntry_sig = \<lparr>sig_data = Some UndoEntryRequest, sig_result = Some EntryResponse\<rparr>"

definition listEntries_sig :: signature where
  [sig_defs]: "listEntries_sig = \<lparr>sig_data = None, sig_result = Some (TArray EntryResponse)\<rparr>"

definition listMemberEntries_sig :: signature where
  [sig_defs]: "listMemberEntries_sig = \<lparr>sig_data = None, sig_result = Some (TArray EntryResponse)\<rparr>"

definition memberSummary_sig :: signature where
  [sig_defs]: "memberSummary_sig = \<lparr>sig_data = None, sig_result = Some (TArray SummaryItem)\<rparr>"

section \<open>Auth\<close>

definition login_sig :: signature where
  [sig_defs]: "login_sig = \<lparr>sig_data = Some LoginRequest, sig_result = Some TokenResponse\<rparr>"

definition getMe_sig :: signature where
  [sig_defs]: "getMe_sig = \<lparr>sig_data = None, sig_result = Some UserResponse\<rparr>"

definition logout_sig :: signature where
  [sig_defs]: "logout_sig = \<lparr>sig_data = None, sig_result = None\<rparr>"

section \<open>Classes\<close>

definition listClasses_sig :: signature where
  [sig_defs]: "listClasses_sig = \<lparr>sig_data = None, sig_result = Some (TArray GymClassResponse)\<rparr>"

definition getClass_sig :: signature where
  [sig_defs]: "getClass_sig = \<lparr>sig_data = None, sig_result = Some GymClassResponse\<rparr>"

definition createClass_sig :: signature where
  [sig_defs]: "createClass_sig = \<lparr>sig_data = Some CreateGymClassRequest, sig_result = Some GymClassResponse\<rparr>"

definition updateClass_sig :: signature where
  [sig_defs]: "updateClass_sig = \<lparr>sig_data = Some UpdateGymClassRequest, sig_result = Some GymClassResponse\<rparr>"

definition deactivateClass_sig :: signature where
  [sig_defs]: "deactivateClass_sig = \<lparr>sig_data = None, sig_result = Some GymClassResponse\<rparr>"

definition activateClass_sig :: signature where
  [sig_defs]: "activateClass_sig = \<lparr>sig_data = None, sig_result = Some GymClassResponse\<rparr>"

section \<open>Coaches\<close>

definition listCoaches_sig :: signature where
  [sig_defs]: "listCoaches_sig = \<lparr>sig_data = None, sig_result = Some (TArray CoachResponse)\<rparr>"

definition getCoach_sig :: signature where
  [sig_defs]: "getCoach_sig = \<lparr>sig_data = None, sig_result = Some CoachResponse\<rparr>"

definition createCoach_sig :: signature where
  [sig_defs]: "createCoach_sig = \<lparr>sig_data = Some CreateCoachRequest, sig_result = Some CoachResponse\<rparr>"

definition updateCoach_sig :: signature where
  [sig_defs]: "updateCoach_sig = \<lparr>sig_data = Some UpdateCoachRequest, sig_result = Some CoachResponse\<rparr>"

definition freezeCoach_sig :: signature where
  [sig_defs]: "freezeCoach_sig = \<lparr>sig_data = None, sig_result = Some CoachResponse\<rparr>"

definition unfreezeCoach_sig :: signature where
  [sig_defs]: "unfreezeCoach_sig = \<lparr>sig_data = None, sig_result = Some CoachResponse\<rparr>"

definition cancelCoach_sig :: signature where
  [sig_defs]: "cancelCoach_sig = \<lparr>sig_data = None, sig_result = Some CoachResponse\<rparr>"

definition inviteCoachUser_sig :: signature where
  [sig_defs]: "inviteCoachUser_sig = \<lparr>sig_data = Some InviteCoachUserRequest, sig_result = Some CoachResponse\<rparr>"

definition listCoachesForClass_sig :: signature where
  [sig_defs]: "listCoachesForClass_sig = \<lparr>sig_data = None, sig_result = Some (TArray ClassCoachResponse)\<rparr>"

definition listClassesForCoach_sig :: signature where
  [sig_defs]: "listClassesForCoach_sig = \<lparr>sig_data = None, sig_result = Some (TArray ClassCoachResponse)\<rparr>"

definition assignCoachToClass_sig :: signature where
  [sig_defs]: "assignCoachToClass_sig = \<lparr>sig_data = Some AssignCoachRequest, sig_result = Some ClassCoachResponse\<rparr>"

definition updateClassCoachLink_sig :: signature where
  [sig_defs]: "updateClassCoachLink_sig = \<lparr>sig_data = Some UpdateClassCoachRequest, sig_result = Some ClassCoachResponse\<rparr>"

definition deleteClassCoachLink_sig :: signature where
  [sig_defs]: "deleteClassCoachLink_sig = \<lparr>sig_data = None, sig_result = None\<rparr>"

definition getCoachEarnings_sig :: signature where
  [sig_defs]: "getCoachEarnings_sig = \<lparr>sig_data = None, sig_result = Some EarningsBreakdownResponse\<rparr>"

definition getEarningsSummary_sig :: signature where
  [sig_defs]: "getEarningsSummary_sig = \<lparr>sig_data = None, sig_result = Some (TArray EarningsBreakdownResponse)\<rparr>"

definition reassignEntryCoach_sig :: signature where
  [sig_defs]: "reassignEntryCoach_sig = \<lparr>sig_data = None, sig_result = Some TUnknown\<rparr>"

section \<open>Dashboard\<close>

definition getPlatformStats_sig :: signature where
  [sig_defs]: "getPlatformStats_sig = \<lparr>sig_data = None, sig_result = Some PlatformStatsResponse\<rparr>"

section \<open>Leads\<close>

definition listLeads_sig :: signature where
  [sig_defs]: "listLeads_sig = \<lparr>sig_data = None, sig_result = Some (TArray LeadResponse)\<rparr>"

definition getLead_sig :: signature where
  [sig_defs]: "getLead_sig = \<lparr>sig_data = None, sig_result = Some LeadResponse\<rparr>"

definition createLead_sig :: signature where
  [sig_defs]: "createLead_sig = \<lparr>sig_data = Some CreateLeadRequest, sig_result = Some LeadResponse\<rparr>"

definition updateLead_sig :: signature where
  [sig_defs]: "updateLead_sig = \<lparr>sig_data = Some UpdateLeadRequest, sig_result = Some LeadResponse\<rparr>"

definition setLeadStatus_sig :: signature where
  [sig_defs]: "setLeadStatus_sig = \<lparr>sig_data = Some SetStatusRequest, sig_result = Some LeadResponse\<rparr>"

definition assignLead_sig :: signature where
  [sig_defs]: "assignLead_sig = \<lparr>sig_data = Some AssignLeadRequest, sig_result = Some LeadResponse\<rparr>"

definition convertLead_sig :: signature where
  [sig_defs]: "convertLead_sig = \<lparr>sig_data = Some ConvertLeadRequest, sig_result = Some ConvertLeadResponse\<rparr>"

definition listActivities_sig :: signature where
  [sig_defs]: "listActivities_sig = \<lparr>sig_data = None, sig_result = Some (TArray LeadActivityResponse)\<rparr>"

definition addActivity_sig :: signature where
  [sig_defs]: "addActivity_sig = \<lparr>sig_data = Some AddActivityRequest, sig_result = Some LeadActivityResponse\<rparr>"

definition getLeadStats_sig :: signature where
  [sig_defs]: "getLeadStats_sig = \<lparr>sig_data = None, sig_result = Some LeadStatsResponse\<rparr>"

definition listLostReasons_sig :: signature where
  [sig_defs]: "listLostReasons_sig = \<lparr>sig_data = None, sig_result = Some (TArray LostReasonRowResponse)\<rparr>"

section \<open>Members\<close>

definition listMembers_sig :: signature where
  [sig_defs]: "listMembers_sig = \<lparr>sig_data = None, sig_result = Some (TArray MemberResponse)\<rparr>"

definition getMember_sig :: signature where
  [sig_defs]: "getMember_sig = \<lparr>sig_data = None, sig_result = Some MemberResponse\<rparr>"

definition createMember_sig :: signature where
  [sig_defs]: "createMember_sig = \<lparr>sig_data = Some CreateMemberRequest, sig_result = Some MemberResponse\<rparr>"

definition updateMember_sig :: signature where
  [sig_defs]: "updateMember_sig = \<lparr>sig_data = Some UpdateMemberRequest, sig_result = Some MemberResponse\<rparr>"

definition freezeMember_sig :: signature where
  [sig_defs]: "freezeMember_sig = \<lparr>sig_data = None, sig_result = Some MemberResponse\<rparr>"

definition unfreezeMember_sig :: signature where
  [sig_defs]: "unfreezeMember_sig = \<lparr>sig_data = None, sig_result = Some MemberResponse\<rparr>"

definition cancelMember_sig :: signature where
  [sig_defs]: "cancelMember_sig = \<lparr>sig_data = None, sig_result = Some MemberResponse\<rparr>"

section \<open>Payments\<close>

definition listPayments_sig :: signature where
  [sig_defs]: "listPayments_sig = \<lparr>sig_data = None, sig_result = Some (TArray PaymentResponse)\<rparr>"

definition getPayment_sig :: signature where
  [sig_defs]: "getPayment_sig = \<lparr>sig_data = None, sig_result = Some PaymentResponse\<rparr>"

definition recordPayment_sig :: signature where
  [sig_defs]: "recordPayment_sig = \<lparr>sig_data = Some RecordPaymentRequest, sig_result = Some PaymentResponse\<rparr>"

definition refundPayment_sig :: signature where
  [sig_defs]: "refundPayment_sig = \<lparr>sig_data = Some RefundPaymentRequest, sig_result = Some PaymentResponse\<rparr>"

definition listMemberPayments_sig :: signature where
  [sig_defs]: "listMemberPayments_sig = \<lparr>sig_data = None, sig_result = Some (TArray PaymentResponse)\<rparr>"

definition getRevenueSummary_sig :: signature where
  [sig_defs]: "getRevenueSummary_sig = \<lparr>sig_data = None, sig_result = Some RevenueSummaryResponse\<rparr>"

section \<open>Plans\<close>

definition listPlans_sig :: signature where
  [sig_defs]: "listPlans_sig = \<lparr>sig_data = None, sig_result = Some (TArray PlanResponse)\<rparr>"

definition getPlan_sig :: signature where
  [sig_defs]: "getPlan_sig = \<lparr>sig_data = None, sig_result = Some PlanResponse\<rparr>"

definition createPlan_sig :: signature where
  [sig_defs]: "createPlan_sig = \<lparr>sig_data = Some CreatePlanRequest, sig_result = Some PlanResponse\<rparr>"

definition updatePlan_sig :: signature where
  [sig_defs]: "updatePlan_sig = \<lparr>sig_data = Some UpdatePlanRequest, sig_result = Some PlanResponse\<rparr>"

definition deactivatePlan_sig :: signature where
  [sig_defs]: "deactivatePlan_sig = \<lparr>sig_data = None, sig_result = Some PlanResponse\<rparr>"

definition activatePlan_sig :: signature where
  [sig_defs]: "activatePlan_sig = \<lparr>sig_data = None, sig_result = Some PlanResponse\<rparr>"

section \<open>Schedule\<close>

definition listTemplates_sig :: signature where
  [sig_defs]: "listTemplates_sig = \<lparr>sig_data = None, sig_result = Some (TArray TemplateResponse)\<rparr>"

definition getTemplate_sig :: signature where
  [sig_defs]: "getTemplate_sig = \<lparr>sig_data = None, sig_result = Some TemplateResponse\<rparr>"

definition createTemplate_sig :: signature where
  [sig_defs]: "createTemplate_sig = \<lparr>sig_data = Some CreateTemplateRequest, sig_result = Some TemplateResponse\<rparr>"

definition updateTemplate_sig :: signature where
  [sig_defs]: "updateTemplate_sig = \<lparr>sig_data = Some UpdateTemplateRequest, sig_result = Some TemplateResponse\<rparr>"

definition deactivateTemplate_sig :: signature where
  [sig_defs]: "deactivateTemplate_sig = \<lparr>sig_data = None, sig_result = Some TemplateResponse\<rparr>"

definition listSessions_sig :: signature where
  [sig_defs]: "listSessions_sig = \<lparr>sig_data = None, sig_result = Some (TArray SessionResponse)\<rparr>"

definition getSession_sig :: signature where
  [sig_defs]: "getSession_sig = \<lparr>sig_data = None, sig_result = Some SessionResponse\<rparr>"

definition createAdHocSession_sig :: signature where
  [sig_defs]: "createAdHocSession_sig = \<lparr>sig_data = Some CreateAdHocSessionRequest, sig_result = Some SessionResponse\<rparr>"

definition updateSession_sig :: signature where
  [sig_defs]: "updateSession_sig = \<lparr>sig_data = Some UpdateSessionRequest, sig_result = Some SessionResponse\<rparr>"

definition cancelSession_sig :: signature where
  [sig_defs]: "cancelSession_sig = \<lparr>sig_data = Some CancelSessionRequest, sig_result = Some SessionResponse\<rparr>"

definition bulkAction_sig :: signature where
  [sig_defs]: "bulkAction_sig = \<lparr>sig_data = Some BulkActionRequest, sig_result = Some BulkActionResponse\<rparr>"

definition updateTenantFeatures_sig :: signature where
  [sig_defs]: "updateTenantFeatures_sig = \<lparr>sig_data = Some UpdateTenantFeaturesRequest, sig_result = Some TenantResponse\<rparr>"

section \<open>Subscriptions\<close>

definition listSubscriptions_sig :: signature where
  [sig_defs]: "listSubscriptions_sig = \<lparr>sig_data = None, sig_result = Some (TArray SubscriptionResponse)\<rparr>"

definition getSubscription_sig :: signature where
  [sig_defs]: "getSubscription_sig = \<lparr>sig_data = None, sig_result = Some SubscriptionResponse\<rparr>"

definition listSubscriptionEvents_sig :: signature where
  [sig_defs]: "listSubscriptionEvents_sig = \<lparr>sig_data = None, sig_result = Some (TArray SubscriptionEventResponse)\<rparr>"

definition createSubscription_sig :: signature where
  [sig_defs]: "createSubscription_sig = \<lparr>sig_data = Some CreateSubscriptionRequest, sig_result = Some SubscriptionResponse\<rparr>"

definition freezeSubscription_sig :: signature where
  [sig_defs]: "freezeSubscription_sig = \<lparr>sig_data = Some FreezeSubscriptionRequest, sig_result = Some SubscriptionResponse\<rparr>"

definition unfreezeSubscription_sig :: signature where
  [sig_defs]: "unfreezeSubscription_sig = \<lparr>sig_data = None, sig_result = Some SubscriptionResponse\<rparr>"

definition renewSubscription_sig :: signature where
  [sig_defs]: "renewSubscription_sig = \<lparr>sig_data = Some RenewSubscriptionRequest, sig_result = Some SubscriptionResponse\<rparr>"

definition changePlan_sig :: signature where
  [sig_defs]: "changePlan_sig = \<lparr>sig_data = Some ChangePlanRequest, sig_result = Some SubscriptionResponse\<rparr>"

definition cancelSubscription_sig :: signature where
  [sig_defs]: "cancelSubscription_sig = \<lparr>sig_data = Some CancelSubscriptionRequest, sig_result = Some SubscriptionResponse\<rparr>"

section \<open>Tenants\<close>

definition listTenants_sig :: signature where
  [sig_defs]: "listTenants_sig = \<lparr>sig_data = None, sig_result = Some (TArray TenantResponse)\<rparr>"

definition getTenant_sig :: signature where
  [sig_defs]: "getTenant_sig = \<lparr>sig_data = None, sig_result = Some TenantResponse\<rparr>"

definition createTenant_sig :: signature where
  [sig_defs]: "createTenant_sig = \<lparr>sig_data = Some CreateTenantRequest, sig_result = Some TenantResponse\<rparr>"

definition updateTenant_sig :: signature where
  [sig_defs]: "updateTenant_sig = \<lparr>sig_data = Some UpdateTenantRequest, sig_result = Some TenantResponse\<rparr>"

definition suspendTenant_sig :: signature where
  [sig_defs]: "suspendTenant_sig = \<lparr>sig_data = None, sig_result = Some TenantResponse\<rparr>"

definition activateTenant_sig :: signature where
  [sig_defs]: "activateTenant_sig = \<lparr>sig_data = None, sig_result = Some TenantResponse\<rparr>"

definition cancelTenant_sig :: signature where
  [sig_defs]: "cancelTenant_sig = \<lparr>sig_data = None, sig_result = Some TenantResponse\<rparr>"

definition getTenantStats_sig :: signature where
  [sig_defs]: "getTenantStats_sig = \<lparr>sig_data = None, sig_result = Some TenantStatsResponse\<rparr>"

definition uploadLogo_sig :: signature where
  [sig_defs]: "uploadLogo_sig = \<lparr>sig_data = None, sig_result = Some UploadResponse\<rparr>"

section \<open>Users\<close>

definition createUser_sig :: signature where
  [sig_defs]: "createUser_sig = \<lparr>sig_data = Some CreateUserRequest, sig_result = Some UserResponse\<rparr>"

definition listUsersForTenant_sig :: signature where
  [sig_defs]: "listUsersForTenant_sig = \<lparr>sig_data = None, sig_result = Some (TArray UserResponse)\<rparr>"

definition updateUser_sig :: signature where
  [sig_defs]: "updateUser_sig = \<lparr>sig_data = Some UpdateUserRequest, sig_result = Some UserResponse\<rparr>"

definition deleteUser_sig :: signature where
  [sig_defs]: "deleteUser_sig = \<lparr>sig_data = None, sig_result = None\<rparr>"

lemma sig_data_simps:
  "sig_data quotaCheck_sig = None"
  "sig_data recordEntry_sig = Some RecordEntryRequest"
  "sig_data undoEntry_sig = Some UndoEntryRequest"
  "sig_data listEntries_sig = None"
  "sig_data listMemberEntries_sig = None"
  "sig_data memberSummary_sig = None"
  "sig_data login_sig = Some LoginRequest"
  "sig_data getMe_sig = None"
  "sig_data logout_sig = None"
  "sig_data listClasses_sig = None"
  "sig_data getClass_sig = None"
  "sig_data createClass_sig = Some CreateGymClassRequest"
  "sig_data updateClass_sig = Some UpdateGymClassRequest"
  "sig_data deactivateClass_sig = None"
  "sig_data activateClass_sig = None"
  "sig_data listCoaches_sig = None"
  "sig_data getCoach_sig = None"
  "sig_data createCoach_sig = Some CreateCoachRequest"
  "sig_data updateCoach_sig = Some UpdateCoachRequest"
  "sig_data freezeCoach_sig = None"
  "sig_data unfreezeCoach_sig = None"
  "sig_data cancelCoach_sig = None"
  "sig_data inviteCoachUser_sig = Some InviteCoachUserRequest"
  "sig_data listCoachesForClass_sig = None"
  "sig_data listClassesForCoach_sig = None"
  "sig_data assignCoachToClass_sig = Some AssignCoachRequest"
  "sig_data updateClassCoachLink_sig = Some UpdateClassCoachRequest"
  "sig_data deleteClassCoachLink_sig = None"
  "sig_data getCoachEarnings_sig = None"
  "sig_data getEarningsSummary_sig = None"
  "sig_data reassignEntryCoach_sig = None"
  "sig_data getPlatformStats_sig = None"
  "sig_data listLeads_sig = None"
  "sig_data getLead_sig = None"
  "sig_data createLead_sig = Some CreateLeadRequest"
  "sig_data updateLead_sig = Some UpdateLeadRequest"
  "sig_data setLeadStatus_sig = Some SetStatusRequest"
  "sig_data assignLead_sig = Some AssignLeadRequest"
  "sig_data convertLead_sig = Some ConvertLeadRequest"
  "sig_data listActivities_sig = None"
  "sig_data addActivity_sig = Some AddActivityRequest"
  "sig_data getLeadStats_sig = None"
  "sig_data listLostReasons_sig = None"
  "sig_data listMembers_sig = None"
  "sig_data getMember_sig = None"
  "sig_data createMember_sig = Some CreateMemberRequest"
  "sig_data updateMember_sig = Some UpdateMemberRequest"
  "sig_data freezeMember_sig = None"
  "sig_data unfreezeMember_sig = None"
  "sig_data cancelMember_sig = None"
  "sig_data listPayments_sig = None"
  "sig_data getPayment_sig = None"
  "sig_data recordPayment_sig = Some RecordPaymentRequest"
  "sig_data refundPayment_sig = Some RefundPaymentRequest"
  "sig_data listMemberPayments_sig = None"
  "sig_data getRevenueSummary_sig = None"
  "sig_data listPlans_sig = None"
  "sig_data getPlan_sig = None"
  "sig_data createPlan_sig = Some CreatePlanRequest"
  "sig_data updatePlan_sig = Some UpdatePlanRequest"
  "sig_data deactivatePlan_sig = None"
  "sig_data activatePlan_sig = None"
  "sig_data listTemplates_sig = None"
  "sig_data getTemplate_sig = None"
  "sig_data createTemplate_sig = Some CreateTemplateRequest"
  "sig_data updateTemplate_sig = Some UpdateTemplateRequest"
  "sig_data deactivateTemplate_sig = None"
  "sig_data listSessions_sig = None"
  "sig_data getSession_sig = None"
  "sig_data createAdHocSession_sig = Some CreateAdHocSessionRequest"
  "sig_data updateSession_sig = Some UpdateSessionRequest"
  "sig_data cancelSession_sig = Some CancelSessionRequest"
  "sig_data bulkAction_sig = Some BulkActionRequest"
  "sig_data updateTenantFeatures_sig = Some UpdateTenantFeaturesRequest"
  "sig_data listSubscriptions_sig = None"
  "sig_data getSubscription_sig = None"
  "sig_data listSubscriptionEvents_sig = None"
  "sig_data createSubscription_sig = Some CreateSubscriptionRequest"
  "sig_data freezeSubscription_sig = Some FreezeSubscriptionRequest"
  "sig_data unfreezeSubscription_sig = None"
  "sig_data renewSubscription_sig = Some RenewSubscriptionRequest"
  "sig_data changePlan_sig = Some ChangePlanRequest"
  "sig_data cancelSubscription_sig = Some CancelSubscriptionRequest"
  "sig_data listTenants_sig = None"
  "sig_data getTenant_sig = None"
  "sig_data createTenant_sig = Some CreateTenantRequest"
  "sig_data updateTenant_sig = Some UpdateTenantRequest"
  "sig_data suspendTenant_sig = None"
  "sig_data activateTenant_sig = None"
  "sig_data cancelTenant_sig = None"
  "sig_data getTenantStats_sig = None"
  "sig_data uploadLogo_sig = None"
  "sig_data createUser_sig = Some CreateUserRequest"
  "sig_data listUsersForTenant_sig = None"
  "sig_data updateUser_sig = Some UpdateUserRequest"
  "sig_data deleteUser_sig = None"
  by (simp_all add: sig_defs)

end
