(* ===== verification/Conformance.thy ===== *)
theory Conformance
  imports ApiOperations ApiSignatures QueryHooks
begin

text \<open>
  Whether the client and the server's description (\<^verbatim>\<open>lib/api-schema.ts\<close>) agree: which operation a
  call reaches, whether the operation takes the query and the body of the call, and whether the type
  the function promises is the one the operation answers with.
\<close>

named_theorems typed_calls

section \<open>Which operation a call reaches\<close>

text \<open>A segment in braces stands for any text that is not empty; the other segments stand for
  themselves. Concrete paths come before templated ones in the table, so the first match is the most
  concrete one.\<close>

definition seg_matches :: "string \<Rightarrow> string \<Rightarrow> bool" where
  "seg_matches t s = (if t \<noteq> [] \<and> hd t = CHR 0x7B then s \<noteq> [] else s = t)"

fun segs_match :: "string list \<Rightarrow> string list \<Rightarrow> bool" where
  "segs_match [] [] = True"
| "segs_match (t # ts) (s # ss) = (seg_matches t s \<and> segs_match ts ss)"
| "segs_match _ _ = False"

fun lookup_in :: "(string list \<times> 'm) list \<Rightarrow> string list \<Rightarrow> 'm option" where
  "lookup_in [] ss = None"
| "lookup_in ((ts, m) # rows) ss = (if segs_match ts ss then Some m else lookup_in rows ss)"

definition routes :: "(string list \<times> (http_method \<times> operation) list) list" where
  "routes = map (\<lambda>it. (split_on (CHR ''/'') (pi_template it), pi_methods it)) paths"

definition route :: "api_call \<Rightarrow> operation option" where
  "route c = (case lookup_in routes (split_on (CHR ''/'') (API_BASE @ path_of (c_path c))) of
     None \<Rightarrow> None
   | Some methods \<Rightarrow> map_of methods (c_method c))"

section \<open>Whether the operation takes the call\<close>

definition names_param :: "operation \<Rightarrow> string \<times> string \<Rightarrow> bool" where
  "names_param op kv = list_ex (\<lambda>m. member_name m = fst kv \<and> param_ok (member_type m) (snd kv)) (op_query op)"

definition query_ok :: "operation \<Rightarrow> params \<Rightarrow> bool" where
  "query_ok op ps = (list_all (names_param op) ps
     \<and> list_all (\<lambda>m. (member_optional m \<or> member_name m \<in> fst ` set ps)
         \<and> (is_array (member_type m) \<or> length (filter (\<lambda>kv. fst kv = member_name m) ps) \<le> 1)) (op_query op))"

definition body_ok :: "operation \<Rightarrow> json option \<Rightarrow> bool" where
  "body_ok op body = (case body of
     None \<Rightarrow> (case op_body op of None \<Rightarrow> True | Some (needed, _, _) \<Rightarrow> \<not> needed)
   | Some j \<Rightarrow> (case op_body op of
       None \<Rightarrow> False
     | Some (_, media, t) \<Rightarrow> media = ''application/json'' \<and> conforms t j))"

definition success_type :: "operation \<Rightarrow> ts_type option" where
  "success_type op = (case find (\<lambda>r. fst r < 300) (op_responses op) of None \<Rightarrow> None | Some r \<Rightarrow> snd r)"

definition result_ok :: "operation \<Rightarrow> signature \<Rightarrow> bool" where
  "result_ok op s = (case sig_result s of None \<Rightarrow> success_type op = None
     | Some t \<Rightarrow> t = TUnknown \<or> success_type op = Some t)"

definition typed_call :: "signature \<Rightarrow> api_call \<Rightarrow> bool" where
  "typed_call s c = (case route c of
     None \<Rightarrow> False
   | Some op \<Rightarrow> query_ok op (query_of (c_path c)) \<and> body_ok op (c_body c) \<and> result_ok op s)"

text \<open>The identifiers of the server are UUIDs in their usual form.\<close>

definition is_uuid :: "string \<Rightarrow> bool" where
  "is_uuid s = (length s = 36 \<and> list_all (\<lambda>c. c \<in> set ''0123456789abcdef-'') s)"

section \<open>The routing table\<close>

lemma routes_table: "routes = [
     ([[], ''api'', ''v1'', ''admin'', ''stats''],
       [(GET, get_platform_stats_api_v1_admin_stats_get)]),
     ([[], ''api'', ''v1'', ''attendance''],
       [(GET, list_entries_api_v1_attendance_get), (POST, record_entry_api_v1_attendance_post)]),
     ([[], ''api'', ''v1'', ''attendance'', ''members'', ''{member_id}''],
       [(GET, list_member_entries_api_v1_attendance_members__member_id__get)]),
     ([[], ''api'', ''v1'', ''attendance'', ''members'', ''{member_id}'', ''summary''],
       [(GET, member_summary_api_v1_attendance_members__member_id__summary_get)]),
     ([[], ''api'', ''v1'', ''attendance'', ''quota-check''],
       [(GET, quota_check_api_v1_attendance_quota_check_get)]),
     ([[], ''api'', ''v1'', ''attendance'', ''{entry_id}'', ''reassign-coach''],
       [(POST, reassign_coach_api_v1_attendance__entry_id__reassign_coach_post)]),
     ([[], ''api'', ''v1'', ''attendance'', ''{entry_id}'', ''undo''],
       [(POST, undo_entry_api_v1_attendance__entry_id__undo_post)]),
     ([[], ''api'', ''v1'', ''auth'', ''login''],
       [(POST, login_api_v1_auth_login_post)]),
     ([[], ''api'', ''v1'', ''auth'', ''logout''],
       [(POST, logout_api_v1_auth_logout_post)]),
     ([[], ''api'', ''v1'', ''auth'', ''me''],
       [(GET, me_api_v1_auth_me_get)]),
     ([[], ''api'', ''v1'', ''class-coaches'', ''{link_id}''],
       [(DELETE, delete_link_api_v1_class_coaches__link_id__delete), (PATCH, update_link_api_v1_class_coaches__link_id__patch)]),
     ([[], ''api'', ''v1'', ''classes''],
       [(GET, list_classes_api_v1_classes_get), (POST, create_class_api_v1_classes_post)]),
     ([[], ''api'', ''v1'', ''classes'', ''{class_id}''],
       [(GET, get_class_api_v1_classes__class_id__get), (PATCH, update_class_api_v1_classes__class_id__patch)]),
     ([[], ''api'', ''v1'', ''classes'', ''{class_id}'', ''activate''],
       [(POST, activate_class_api_v1_classes__class_id__activate_post)]),
     ([[], ''api'', ''v1'', ''classes'', ''{class_id}'', ''coaches''],
       [(GET, list_class_coaches_api_v1_classes__class_id__coaches_get), (POST, assign_coach_api_v1_classes__class_id__coaches_post)]),
     ([[], ''api'', ''v1'', ''classes'', ''{class_id}'', ''deactivate''],
       [(POST, deactivate_class_api_v1_classes__class_id__deactivate_post)]),
     ([[], ''api'', ''v1'', ''coaches''],
       [(GET, list_coaches_api_v1_coaches_get), (POST, create_coach_api_v1_coaches_post)]),
     ([[], ''api'', ''v1'', ''coaches'', ''earnings'', ''summary''],
       [(GET, earnings_summary_api_v1_coaches_earnings_summary_get)]),
     ([[], ''api'', ''v1'', ''coaches'', ''{coach_id}''],
       [(GET, get_coach_api_v1_coaches__coach_id__get), (PATCH, update_coach_api_v1_coaches__coach_id__patch)]),
     ([[], ''api'', ''v1'', ''coaches'', ''{coach_id}'', ''cancel''],
       [(POST, cancel_coach_api_v1_coaches__coach_id__cancel_post)]),
     ([[], ''api'', ''v1'', ''coaches'', ''{coach_id}'', ''classes''],
       [(GET, list_classes_for_coach_api_v1_coaches__coach_id__classes_get)]),
     ([[], ''api'', ''v1'', ''coaches'', ''{coach_id}'', ''earnings''],
       [(GET, coach_earnings_api_v1_coaches__coach_id__earnings_get)]),
     ([[], ''api'', ''v1'', ''coaches'', ''{coach_id}'', ''freeze''],
       [(POST, freeze_coach_api_v1_coaches__coach_id__freeze_post)]),
     ([[], ''api'', ''v1'', ''coaches'', ''{coach_id}'', ''invite-user''],
       [(POST, invite_user_api_v1_coaches__coach_id__invite_user_post)]),
     ([[], ''api'', ''v1'', ''coaches'', ''{coach_id}'', ''unfreeze''],
       [(POST, unfreeze_coach_api_v1_coaches__coach_id__unfreeze_post)]),
     ([[], ''api'', ''v1'', ''dashboard'', ''revenue''],
       [(GET, revenue_summary_api_v1_dashboard_revenue_get)]),
     ([[], ''api'', ''v1'', ''leads''],
       [(GET, list_leads_api_v1_leads_get), (POST, create_lead_api_v1_leads_post)]),
     ([[], ''api'', ''v1'', ''leads'', ''lost-reasons''],
       [(GET, list_lost_reasons_api_v1_leads_lost_reasons_get)]),
     ([[], ''api'', ''v1'', ''leads'', ''stats''],
       [(GET, get_stats_api_v1_leads_stats_get)]),
     ([[], ''api'', ''v1'', ''leads'', ''{lead_id}''],
       [(GET, get_lead_api_v1_leads__lead_id__get), (PATCH, update_lead_api_v1_leads__lead_id__patch)]),
     ([[], ''api'', ''v1'', ''leads'', ''{lead_id}'', ''activities''],
       [(GET, list_activities_api_v1_leads__lead_id__activities_get), (POST, add_activity_api_v1_leads__lead_id__activities_post)]),
     ([[], ''api'', ''v1'', ''leads'', ''{lead_id}'', ''assign''],
       [(POST, assign_lead_api_v1_leads__lead_id__assign_post)]),
     ([[], ''api'', ''v1'', ''leads'', ''{lead_id}'', ''convert''],
       [(POST, convert_lead_api_v1_leads__lead_id__convert_post)]),
     ([[], ''api'', ''v1'', ''leads'', ''{lead_id}'', ''status''],
       [(POST, set_status_api_v1_leads__lead_id__status_post)]),
     ([[], ''api'', ''v1'', ''members''],
       [(GET, list_members_api_v1_members_get), (POST, create_member_api_v1_members_post)]),
     ([[], ''api'', ''v1'', ''members'', ''{member_id}''],
       [(GET, get_member_api_v1_members__member_id__get), (PATCH, update_member_api_v1_members__member_id__patch)]),
     ([[], ''api'', ''v1'', ''members'', ''{member_id}'', ''cancel''],
       [(POST, cancel_member_api_v1_members__member_id__cancel_post)]),
     ([[], ''api'', ''v1'', ''members'', ''{member_id}'', ''freeze''],
       [(POST, freeze_member_api_v1_members__member_id__freeze_post)]),
     ([[], ''api'', ''v1'', ''members'', ''{member_id}'', ''payments''],
       [(GET, list_member_payments_api_v1_members__member_id__payments_get)]),
     ([[], ''api'', ''v1'', ''members'', ''{member_id}'', ''unfreeze''],
       [(POST, unfreeze_member_api_v1_members__member_id__unfreeze_post)]),
     ([[], ''api'', ''v1'', ''payments''],
       [(GET, list_payments_api_v1_payments_get), (POST, record_payment_api_v1_payments_post)]),
     ([[], ''api'', ''v1'', ''payments'', ''{payment_id}''],
       [(GET, get_payment_api_v1_payments__payment_id__get)]),
     ([[], ''api'', ''v1'', ''payments'', ''{payment_id}'', ''refund''],
       [(POST, refund_payment_api_v1_payments__payment_id__refund_post)]),
     ([[], ''api'', ''v1'', ''plans''],
       [(GET, list_plans_api_v1_plans_get), (POST, create_plan_api_v1_plans_post)]),
     ([[], ''api'', ''v1'', ''plans'', ''{plan_id}''],
       [(GET, get_plan_api_v1_plans__plan_id__get), (PATCH, update_plan_api_v1_plans__plan_id__patch)]),
     ([[], ''api'', ''v1'', ''plans'', ''{plan_id}'', ''activate''],
       [(POST, activate_plan_api_v1_plans__plan_id__activate_post)]),
     ([[], ''api'', ''v1'', ''plans'', ''{plan_id}'', ''deactivate''],
       [(POST, deactivate_plan_api_v1_plans__plan_id__deactivate_post)]),
     ([[], ''api'', ''v1'', ''schedule'', ''bulk-action''],
       [(POST, bulk_action_api_v1_schedule_bulk_action_post)]),
     ([[], ''api'', ''v1'', ''schedule'', ''sessions''],
       [(GET, list_sessions_api_v1_schedule_sessions_get), (POST, create_session_api_v1_schedule_sessions_post)]),
     ([[], ''api'', ''v1'', ''schedule'', ''sessions'', ''{session_id}''],
       [(GET, get_session_endpoint_api_v1_schedule_sessions__session_id__get), (PATCH, update_session_api_v1_schedule_sessions__session_id__patch)]),
     ([[], ''api'', ''v1'', ''schedule'', ''sessions'', ''{session_id}'', ''cancel''],
       [(POST, cancel_session_api_v1_schedule_sessions__session_id__cancel_post)]),
     ([[], ''api'', ''v1'', ''schedule'', ''templates''],
       [(GET, list_templates_api_v1_schedule_templates_get), (POST, create_template_api_v1_schedule_templates_post)]),
     ([[], ''api'', ''v1'', ''schedule'', ''templates'', ''{template_id}''],
       [(GET, get_template_api_v1_schedule_templates__template_id__get), (DELETE, deactivate_template_api_v1_schedule_templates__template_id__delete), (PATCH, update_template_api_v1_schedule_templates__template_id__patch)]),
     ([[], ''api'', ''v1'', ''subscriptions''],
       [(GET, list_subscriptions_api_v1_subscriptions_get), (POST, create_subscription_api_v1_subscriptions_post)]),
     ([[], ''api'', ''v1'', ''subscriptions'', ''{sub_id}''],
       [(GET, get_subscription_api_v1_subscriptions__sub_id__get)]),
     ([[], ''api'', ''v1'', ''subscriptions'', ''{sub_id}'', ''cancel''],
       [(POST, cancel_subscription_api_v1_subscriptions__sub_id__cancel_post)]),
     ([[], ''api'', ''v1'', ''subscriptions'', ''{sub_id}'', ''change-plan''],
       [(POST, change_plan_api_v1_subscriptions__sub_id__change_plan_post)]),
     ([[], ''api'', ''v1'', ''subscriptions'', ''{sub_id}'', ''events''],
       [(GET, list_subscription_events_api_v1_subscriptions__sub_id__events_get)]),
     ([[], ''api'', ''v1'', ''subscriptions'', ''{sub_id}'', ''freeze''],
       [(POST, freeze_subscription_api_v1_subscriptions__sub_id__freeze_post)]),
     ([[], ''api'', ''v1'', ''subscriptions'', ''{sub_id}'', ''renew''],
       [(POST, renew_subscription_api_v1_subscriptions__sub_id__renew_post)]),
     ([[], ''api'', ''v1'', ''subscriptions'', ''{sub_id}'', ''unfreeze''],
       [(POST, unfreeze_subscription_api_v1_subscriptions__sub_id__unfreeze_post)]),
     ([[], ''api'', ''v1'', ''tenants''],
       [(GET, list_tenants_api_v1_tenants_get), (POST, create_tenant_api_v1_tenants_post)]),
     ([[], ''api'', ''v1'', ''tenants'', ''{tenant_id}''],
       [(GET, get_tenant_api_v1_tenants__tenant_id__get), (PATCH, update_tenant_api_v1_tenants__tenant_id__patch)]),
     ([[], ''api'', ''v1'', ''tenants'', ''{tenant_id}'', ''activate''],
       [(POST, activate_tenant_api_v1_tenants__tenant_id__activate_post)]),
     ([[], ''api'', ''v1'', ''tenants'', ''{tenant_id}'', ''cancel''],
       [(POST, cancel_tenant_api_v1_tenants__tenant_id__cancel_post)]),
     ([[], ''api'', ''v1'', ''tenants'', ''{tenant_id}'', ''features''],
       [(PATCH, update_tenant_features_api_v1_tenants__tenant_id__features_patch)]),
     ([[], ''api'', ''v1'', ''tenants'', ''{tenant_id}'', ''stats''],
       [(GET, get_tenant_stats_api_v1_tenants__tenant_id__stats_get)]),
     ([[], ''api'', ''v1'', ''tenants'', ''{tenant_id}'', ''suspend''],
       [(POST, suspend_tenant_api_v1_tenants__tenant_id__suspend_post)]),
     ([[], ''api'', ''v1'', ''tenants'', ''{tenant_id}'', ''users''],
       [(GET, list_tenant_users_api_v1_tenants__tenant_id__users_get)]),
     ([[], ''api'', ''v1'', ''uploads'', ''logo''],
       [(POST, upload_logo_api_v1_uploads_logo_post)]),
     ([[], ''api'', ''v1'', ''users''],
       [(GET, list_users_api_v1_users_get), (POST, create_user_api_v1_users_post)]),
     ([[], ''api'', ''v1'', ''users'', ''{user_id}''],
       [(GET, get_user_api_v1_users__user_id__get), (DELETE, delete_user_api_v1_users__user_id__delete), (PATCH, update_user_api_v1_users__user_id__patch)]),
     ([[], ''health''],
       [(GET, health_health_get)])]"
  by (simp add: routes_def paths_def path_defs)


text \<open>Identifiers in a path.\<close>

lemma uuid_chars: "is_uuid s \<Longrightarrow> c \<notin> set ''0123456789abcdef-'' \<Longrightarrow> c \<notin> set s"
  unfolding is_uuid_def list_all_iff by blast

lemma uuid_path:
  assumes "is_uuid s"
  shows "CHR ''/'' \<notin> set s" and "CHR 0x3F \<notin> set s" and "s \<noteq> []"
proof -
  show "CHR ''/'' \<notin> set s" by (rule uuid_chars [OF assms]) simp
  show "CHR 0x3F \<notin> set s" by (rule uuid_chars [OF assms]) simp
  from assms have "length s = 36" by (simp add: is_uuid_def)
  then show "s \<noteq> []" by force
qed

lemma uuid_segment:
  assumes "is_uuid s"
  shows "split_on (CHR ''/'') s = [s]"
    and "split_on (CHR ''/'') (s @ CHR ''/'' # t) = s # split_on (CHR ''/'') t"
  using uuid_path(1) [OF assms] by (simp_all add: split_on_none split_on_sep)

lemma seg_matches_uuid:
  assumes "is_uuid s" "length t \<noteq> 36"
  shows "seg_matches t s = (t \<noteq> [] \<and> hd t = CHR 0x7B)"
proof -
  from assms have "length s = 36" by (simp add: is_uuid_def)
  with assms(2) have "s \<noteq> t" "s \<noteq> []" by auto
  then show ?thesis by (simp add: seg_matches_def)
qed

lemma seg_matches_text:
  "seg_matches t (c # cs) = ((t \<noteq> [] \<and> hd t = CHR 0x7B) \<or> t = c # cs)"
  "seg_matches t [] = (t = [])"
  by (auto simp: seg_matches_def)

lemma path_plain:
  assumes "CHR 0x3F \<notin> set p" shows "path_of p = p" "query_of p = []"
  using path_of_with_query [OF assms, of "[]"] query_of_with_query [OF assms, of "[]"]
  by (simp_all add: with_query_def to_query_def)

text \<open>The rows of each resource.\<close>

lemma rows_admin:
  "lookup_in routes ([] # ''api'' # ''v1'' # ''admin'' # ss) = lookup_in [
     ([''stats''], [(GET, get_platform_stats_api_v1_admin_stats_get)])] ss"
  by (simp add: routes_table seg_matches_text)

lemma rows_attendance:
  "lookup_in routes ([] # ''api'' # ''v1'' # ''attendance'' # ss) = lookup_in [
     ([], [(GET, list_entries_api_v1_attendance_get),
       (POST, record_entry_api_v1_attendance_post)]),
     ([''members'', ''{member_id}''], [(GET, list_member_entries_api_v1_attendance_members__member_id__get)]),
     ([''members'', ''{member_id}'', ''summary''], [(GET, member_summary_api_v1_attendance_members__member_id__summary_get)]),
     ([''quota-check''], [(GET, quota_check_api_v1_attendance_quota_check_get)]),
     ([''{entry_id}'', ''reassign-coach''], [(POST, reassign_coach_api_v1_attendance__entry_id__reassign_coach_post)]),
     ([''{entry_id}'', ''undo''], [(POST, undo_entry_api_v1_attendance__entry_id__undo_post)])] ss"
  by (simp add: routes_table seg_matches_text)

lemma rows_auth:
  "lookup_in routes ([] # ''api'' # ''v1'' # ''auth'' # ss) = lookup_in [
     ([''login''], [(POST, login_api_v1_auth_login_post)]),
     ([''logout''], [(POST, logout_api_v1_auth_logout_post)]),
     ([''me''], [(GET, me_api_v1_auth_me_get)])] ss"
  by (simp add: routes_table seg_matches_text)

lemma rows_class_coaches:
  "lookup_in routes ([] # ''api'' # ''v1'' # ''class-coaches'' # ss) = lookup_in [
     ([''{link_id}''], [(DELETE, delete_link_api_v1_class_coaches__link_id__delete),
       (PATCH, update_link_api_v1_class_coaches__link_id__patch)])] ss"
  by (simp add: routes_table seg_matches_text)

lemma rows_classes:
  "lookup_in routes ([] # ''api'' # ''v1'' # ''classes'' # ss) = lookup_in [
     ([], [(GET, list_classes_api_v1_classes_get),
       (POST, create_class_api_v1_classes_post)]),
     ([''{class_id}''], [(GET, get_class_api_v1_classes__class_id__get),
       (PATCH, update_class_api_v1_classes__class_id__patch)]),
     ([''{class_id}'', ''activate''], [(POST, activate_class_api_v1_classes__class_id__activate_post)]),
     ([''{class_id}'', ''coaches''], [(GET, list_class_coaches_api_v1_classes__class_id__coaches_get),
       (POST, assign_coach_api_v1_classes__class_id__coaches_post)]),
     ([''{class_id}'', ''deactivate''], [(POST, deactivate_class_api_v1_classes__class_id__deactivate_post)])] ss"
  by (simp add: routes_table seg_matches_text)

lemma rows_coaches:
  "lookup_in routes ([] # ''api'' # ''v1'' # ''coaches'' # ss) = lookup_in [
     ([], [(GET, list_coaches_api_v1_coaches_get),
       (POST, create_coach_api_v1_coaches_post)]),
     ([''earnings'', ''summary''], [(GET, earnings_summary_api_v1_coaches_earnings_summary_get)]),
     ([''{coach_id}''], [(GET, get_coach_api_v1_coaches__coach_id__get),
       (PATCH, update_coach_api_v1_coaches__coach_id__patch)]),
     ([''{coach_id}'', ''cancel''], [(POST, cancel_coach_api_v1_coaches__coach_id__cancel_post)]),
     ([''{coach_id}'', ''classes''], [(GET, list_classes_for_coach_api_v1_coaches__coach_id__classes_get)]),
     ([''{coach_id}'', ''earnings''], [(GET, coach_earnings_api_v1_coaches__coach_id__earnings_get)]),
     ([''{coach_id}'', ''freeze''], [(POST, freeze_coach_api_v1_coaches__coach_id__freeze_post)]),
     ([''{coach_id}'', ''invite-user''], [(POST, invite_user_api_v1_coaches__coach_id__invite_user_post)]),
     ([''{coach_id}'', ''unfreeze''], [(POST, unfreeze_coach_api_v1_coaches__coach_id__unfreeze_post)])] ss"
  by (simp add: routes_table seg_matches_text)

lemma rows_dashboard:
  "lookup_in routes ([] # ''api'' # ''v1'' # ''dashboard'' # ss) = lookup_in [
     ([''revenue''], [(GET, revenue_summary_api_v1_dashboard_revenue_get)])] ss"
  by (simp add: routes_table seg_matches_text)

lemma rows_leads:
  "lookup_in routes ([] # ''api'' # ''v1'' # ''leads'' # ss) = lookup_in [
     ([], [(GET, list_leads_api_v1_leads_get),
       (POST, create_lead_api_v1_leads_post)]),
     ([''lost-reasons''], [(GET, list_lost_reasons_api_v1_leads_lost_reasons_get)]),
     ([''stats''], [(GET, get_stats_api_v1_leads_stats_get)]),
     ([''{lead_id}''], [(GET, get_lead_api_v1_leads__lead_id__get),
       (PATCH, update_lead_api_v1_leads__lead_id__patch)]),
     ([''{lead_id}'', ''activities''], [(GET, list_activities_api_v1_leads__lead_id__activities_get),
       (POST, add_activity_api_v1_leads__lead_id__activities_post)]),
     ([''{lead_id}'', ''assign''], [(POST, assign_lead_api_v1_leads__lead_id__assign_post)]),
     ([''{lead_id}'', ''convert''], [(POST, convert_lead_api_v1_leads__lead_id__convert_post)]),
     ([''{lead_id}'', ''status''], [(POST, set_status_api_v1_leads__lead_id__status_post)])] ss"
  by (simp add: routes_table seg_matches_text)

lemma rows_members:
  "lookup_in routes ([] # ''api'' # ''v1'' # ''members'' # ss) = lookup_in [
     ([], [(GET, list_members_api_v1_members_get),
       (POST, create_member_api_v1_members_post)]),
     ([''{member_id}''], [(GET, get_member_api_v1_members__member_id__get),
       (PATCH, update_member_api_v1_members__member_id__patch)]),
     ([''{member_id}'', ''cancel''], [(POST, cancel_member_api_v1_members__member_id__cancel_post)]),
     ([''{member_id}'', ''freeze''], [(POST, freeze_member_api_v1_members__member_id__freeze_post)]),
     ([''{member_id}'', ''payments''], [(GET, list_member_payments_api_v1_members__member_id__payments_get)]),
     ([''{member_id}'', ''unfreeze''], [(POST, unfreeze_member_api_v1_members__member_id__unfreeze_post)])] ss"
  by (simp add: routes_table seg_matches_text)

lemma rows_payments:
  "lookup_in routes ([] # ''api'' # ''v1'' # ''payments'' # ss) = lookup_in [
     ([], [(GET, list_payments_api_v1_payments_get),
       (POST, record_payment_api_v1_payments_post)]),
     ([''{payment_id}''], [(GET, get_payment_api_v1_payments__payment_id__get)]),
     ([''{payment_id}'', ''refund''], [(POST, refund_payment_api_v1_payments__payment_id__refund_post)])] ss"
  by (simp add: routes_table seg_matches_text)

lemma rows_plans:
  "lookup_in routes ([] # ''api'' # ''v1'' # ''plans'' # ss) = lookup_in [
     ([], [(GET, list_plans_api_v1_plans_get),
       (POST, create_plan_api_v1_plans_post)]),
     ([''{plan_id}''], [(GET, get_plan_api_v1_plans__plan_id__get),
       (PATCH, update_plan_api_v1_plans__plan_id__patch)]),
     ([''{plan_id}'', ''activate''], [(POST, activate_plan_api_v1_plans__plan_id__activate_post)]),
     ([''{plan_id}'', ''deactivate''], [(POST, deactivate_plan_api_v1_plans__plan_id__deactivate_post)])] ss"
  by (simp add: routes_table seg_matches_text)

lemma rows_schedule:
  "lookup_in routes ([] # ''api'' # ''v1'' # ''schedule'' # ss) = lookup_in [
     ([''bulk-action''], [(POST, bulk_action_api_v1_schedule_bulk_action_post)]),
     ([''sessions''], [(GET, list_sessions_api_v1_schedule_sessions_get),
       (POST, create_session_api_v1_schedule_sessions_post)]),
     ([''sessions'', ''{session_id}''], [(GET, get_session_endpoint_api_v1_schedule_sessions__session_id__get),
       (PATCH, update_session_api_v1_schedule_sessions__session_id__patch)]),
     ([''sessions'', ''{session_id}'', ''cancel''], [(POST, cancel_session_api_v1_schedule_sessions__session_id__cancel_post)]),
     ([''templates''], [(GET, list_templates_api_v1_schedule_templates_get),
       (POST, create_template_api_v1_schedule_templates_post)]),
     ([''templates'', ''{template_id}''], [(GET, get_template_api_v1_schedule_templates__template_id__get),
       (DELETE, deactivate_template_api_v1_schedule_templates__template_id__delete),
       (PATCH, update_template_api_v1_schedule_templates__template_id__patch)])] ss"
  by (simp add: routes_table seg_matches_text)

lemma rows_subscriptions:
  "lookup_in routes ([] # ''api'' # ''v1'' # ''subscriptions'' # ss) = lookup_in [
     ([], [(GET, list_subscriptions_api_v1_subscriptions_get),
       (POST, create_subscription_api_v1_subscriptions_post)]),
     ([''{sub_id}''], [(GET, get_subscription_api_v1_subscriptions__sub_id__get)]),
     ([''{sub_id}'', ''cancel''], [(POST, cancel_subscription_api_v1_subscriptions__sub_id__cancel_post)]),
     ([''{sub_id}'', ''change-plan''], [(POST, change_plan_api_v1_subscriptions__sub_id__change_plan_post)]),
     ([''{sub_id}'', ''events''], [(GET, list_subscription_events_api_v1_subscriptions__sub_id__events_get)]),
     ([''{sub_id}'', ''freeze''], [(POST, freeze_subscription_api_v1_subscriptions__sub_id__freeze_post)]),
     ([''{sub_id}'', ''renew''], [(POST, renew_subscription_api_v1_subscriptions__sub_id__renew_post)]),
     ([''{sub_id}'', ''unfreeze''], [(POST, unfreeze_subscription_api_v1_subscriptions__sub_id__unfreeze_post)])] ss"
  by (simp add: routes_table seg_matches_text)

lemma rows_tenants:
  "lookup_in routes ([] # ''api'' # ''v1'' # ''tenants'' # ss) = lookup_in [
     ([], [(GET, list_tenants_api_v1_tenants_get),
       (POST, create_tenant_api_v1_tenants_post)]),
     ([''{tenant_id}''], [(GET, get_tenant_api_v1_tenants__tenant_id__get),
       (PATCH, update_tenant_api_v1_tenants__tenant_id__patch)]),
     ([''{tenant_id}'', ''activate''], [(POST, activate_tenant_api_v1_tenants__tenant_id__activate_post)]),
     ([''{tenant_id}'', ''cancel''], [(POST, cancel_tenant_api_v1_tenants__tenant_id__cancel_post)]),
     ([''{tenant_id}'', ''features''], [(PATCH, update_tenant_features_api_v1_tenants__tenant_id__features_patch)]),
     ([''{tenant_id}'', ''stats''], [(GET, get_tenant_stats_api_v1_tenants__tenant_id__stats_get)]),
     ([''{tenant_id}'', ''suspend''], [(POST, suspend_tenant_api_v1_tenants__tenant_id__suspend_post)]),
     ([''{tenant_id}'', ''users''], [(GET, list_tenant_users_api_v1_tenants__tenant_id__users_get)])] ss"
  by (simp add: routes_table seg_matches_text)

lemma rows_uploads:
  "lookup_in routes ([] # ''api'' # ''v1'' # ''uploads'' # ss) = lookup_in [
     ([''logo''], [(POST, upload_logo_api_v1_uploads_logo_post)])] ss"
  by (simp add: routes_table seg_matches_text)

lemma rows_users:
  "lookup_in routes ([] # ''api'' # ''v1'' # ''users'' # ss) = lookup_in [
     ([], [(GET, list_users_api_v1_users_get),
       (POST, create_user_api_v1_users_post)]),
     ([''{user_id}''], [(GET, get_user_api_v1_users__user_id__get),
       (DELETE, delete_user_api_v1_users__user_id__delete),
       (PATCH, update_user_api_v1_users__user_id__patch)])] ss"
  by (simp add: routes_table seg_matches_text)

lemmas resource_rows = rows_admin rows_attendance rows_auth rows_class_coaches rows_classes rows_coaches rows_dashboard rows_leads rows_members rows_payments rows_plans rows_schedule rows_subscriptions rows_tenants rows_uploads rows_users

lemmas routing = route_def resource_rows API_BASE_def path_plain uuid_path uuid_segment seg_matches_uuid seg_matches_text
  path_of_with_query query_of_with_query

text \<open>Queries written out in a path.\<close>

lemma enc_unreserved: "list_all (\<lambda>c. c \<in> set unreserved) s \<Longrightarrow> enc s = s"
  by (induction s) (auto simp: enc_def enc_char_def)

lemma query_text:
  assumes "list_all (\<lambda>c. c \<in> set unreserved) (k @ s)"
  shows "base @ CHR 0x3F # k @ CHR ''='' # s = with_query base [(k, s)]"
  using assms by (simp add: with_query_def to_query_def enc_pair_def Let_def enc_unreserved)

lemma query_written: "ps \<noteq> [] \<Longrightarrow> base @ CHR 0x3F # to_query ps = with_query base ps"
  by (simp add: with_query_def to_query_Nil Let_def)

section \<open>What the filters send\<close>

lemma digit_char_text: "d < 10 \<Longrightarrow> digit_char d \<in> set ''0123456789''"
proof -
  assume "d < 10"
  then have "d \<in> set [0..<10]" by simp
  also have "[0..<10] = [0, 1, 2, 3, 4, 5, 6, 7, 8, 9::nat]" by (simp add: upt_rec)
  finally show ?thesis by (auto simp: digit_char_def)
qed

lemma nat_text: "list_all (\<lambda>c. c \<in> set ''0123456789'') (string_of_nat n)"
proof (induction n rule: string_of_nat.induct)
  case (1 n)
  then show ?case
    by (cases "n < 10") (simp_all only: string_of_nat.simps [of n] list_all_append list.pred_inject
        digit_char_text if_True if_False simp_thms mod_less_divisor zero_less_numeral)
qed

lemma int_text: "is_int_text (string_of_int i)"
proof (cases "string_of_nat (nat i)")
  case Nil
  then show ?thesis by (simp add: string_of_nat_nonempty)
next
  case (Cons c cs)
  moreover have "CHR ''-'' \<noteq> c"
    using nat_text [of "nat i"] Cons by auto
  ultimately show ?thesis
    using nat_text [of "nat i"] nat_text [of "nat (- i)"]
    by (simp add: is_int_text_def string_of_int_def)
qed

lemma int_text_unreserved: "list_all (\<lambda>c. c \<in> set unreserved) (string_of_int i)"
proof -
  have digit: "c \<in> set unreserved" if "c \<in> set ''0123456789''" for c
    using that by (auto simp: unreserved_def)
  have "list_all (\<lambda>c. c \<in> set unreserved) (string_of_nat n)" for n
    using nat_text [of n] digit by (simp only: list_all_iff) blast
  then show ?thesis by (simp add: string_of_int_def unreserved_def)
qed

lemma params_when:
  "list_all P (when_truthy k v) = (truthy_str v \<longrightarrow> P (k, the v))"
  "list_all P (when_defined k n) = (n \<noteq> None \<longrightarrow> P (k, string_of_int (the n)))"
  "list_all P (when_flag k b) = (b = Some True \<longrightarrow> P (k, ''true''))"
  "list_all P (when_false k b) = (b = Some False \<longrightarrow> P (k, ''false''))"
  "list_all P (each_param k vs) = list_all (\<lambda>v. P (k, v)) (nullish vs [])"
  by (auto simp: when_defs list_all_iff split: option.splits)

lemma each_text: "(\<And>x. P (f x)) \<Longrightarrow> list_all P (nullish (map_option (map f) v) [])"
  by (cases v) (simp_all add: nullish_def list_all_iff)

lemma each_option: "(\<And>x. P (f x)) \<Longrightarrow> truthy_str (map_option f v) \<longrightarrow> P (the (map_option f v))"
  by (cases v) (simp_all add: truthy_str_def)

lemma count_when:
  "filter (\<lambda>kv. fst kv = k) (when_truthy k' v) = (if k' = k then when_truthy k' v else [])"
  "filter (\<lambda>kv. fst kv = k) (when_defined k' n) = (if k' = k then when_defined k' n else [])"
  "filter (\<lambda>kv. fst kv = k) (when_flag k' b) = (if k' = k then when_flag k' b else [])"
  "filter (\<lambda>kv. fst kv = k) (when_false k' b) = (if k' = k then when_false k' b else [])"
  "filter (\<lambda>kv. fst kv = k) (each_param k' vs) = (if k' = k then each_param k' vs else [])"
  by (auto simp: when_defs split: option.splits)

lemma at_most_one:
  "length (when_truthy k v) \<le> Suc 0" "length (when_defined k n) \<le> Suc 0"
  "length (when_flag k b) \<le> Suc 0" "length (when_false k b) \<le> Suc 0"
  by (simp_all add: when_defs split: option.splits)

lemma status_params:
  "param_ok CoachStatus (coach_status_text cs)" "param_ok MemberStatus (member_status_text ms)"
  "param_ok LeadStatus (lead_status_text ls)" "param_ok LeadSource (lead_source_text src)"
  "param_ok SubscriptionStatus (subscription_status_text ss)"
  "param_ok PaymentMethod (payment_method_text pm)"
  by (cases cs, auto simp: CoachStatus_def) (cases ms, auto simp: MemberStatus_def,
      cases ls, auto simp: LeadStatus_def, cases src, auto simp: LeadSource_def,
      cases ss, auto simp: SubscriptionStatus_def, cases pm, auto simp: PaymentMethod_def)

section \<open>Every API function\<close>

lemmas typing = typed_call_def routing query_of_with_query query_ok_def params_when each_text each_option
  names_param_def count_when at_most_one status_params int_text body_ok_def result_ok_def
  success_type_def sig_defs op_defs api_get_def api_post_def api_patch_def api_delete_def

text \<open>Every API function makes a call the server's description declares, with a declared query and a
  body of the declared type, and promises the type the description gives the answer.\<close>

text \<open>The calls whose query is written out in the path.\<close>

lemma written_calls:
  "quotaCheck memberId classId = api_get (with_query ''/attendance/quota-check''
     [(''member_id'', memberId), (''class_id'', classId)])"
  "listMemberEntries memberId mx = api_get (with_query (''/attendance/members/'' @ memberId)
     [(''limit'', string_of_int (nullish mx 50))])"
  "listCoachesForClass classId onlyCurrent = api_get (with_query (''/classes/'' @ classId @ ''/coaches'')
     (if onlyCurrent then [(''only_current'', ''true'')] else []))"
  "listClassesForCoach coachId onlyCurrent = api_get (with_query (''/coaches/'' @ coachId @ ''/classes'')
     (if onlyCurrent then [(''only_current'', ''true'')] else []))"
  "getCoachEarnings coachId frm to = api_get (with_query (''/coaches/'' @ coachId @ ''/earnings'')
     [(''from'', frm), (''to'', to)])"
  "getEarningsSummary frm to = api_get (with_query ''/coaches/earnings/summary'' [(''from'', frm), (''to'', to)])"
  "listSessions sf = api_get (with_query ''/schedule/sessions''
     ([(''from'', sf_from sf), (''to'', sf_to sf)] @ when_truthy ''class_id'' (sf_class_id sf)
      @ when_truthy ''coach_id'' (sf_coach_id sf) @ when_false ''include_cancelled'' (sf_include_cancelled sf)))"
proof -
  show "quotaCheck memberId classId = api_get (with_query ''/attendance/quota-check''
     [(''member_id'', memberId), (''class_id'', classId)])"
    by (simp add: quotaCheck_def with_query_def to_query_Nil)
  show "getCoachEarnings coachId frm to = api_get (with_query (''/coaches/'' @ coachId @ ''/earnings'')
     [(''from'', frm), (''to'', to)])"
    by (simp add: getCoachEarnings_def with_query_def to_query_Nil)
  show "getEarningsSummary frm to = api_get (with_query ''/coaches/earnings/summary'' [(''from'', frm), (''to'', to)])"
    by (simp add: getEarningsSummary_def with_query_def to_query_Nil)
  show "listSessions sf = api_get (with_query ''/schedule/sessions''
     ([(''from'', sf_from sf), (''to'', sf_to sf)] @ when_truthy ''class_id'' (sf_class_id sf)
      @ when_truthy ''coach_id'' (sf_coach_id sf) @ when_false ''include_cancelled'' (sf_include_cancelled sf)))"
    by (simp add: listSessions_def with_query_def Let_def to_query_Nil)
  have only: "to_query [(''only_current'', ''true'')] = ''only_current=true''"
    by (simp add: to_query_def enc_pair_def enc_unreserved unreserved_def)
  show "listCoachesForClass classId onlyCurrent = api_get (with_query (''/classes/'' @ classId @ ''/coaches'')
     (if onlyCurrent then [(''only_current'', ''true'')] else []))"
    by (simp add: listCoachesForClass_def with_query_def only) (simp add: to_query_def)
  show "listClassesForCoach coachId onlyCurrent = api_get (with_query (''/coaches/'' @ coachId @ ''/classes'')
     (if onlyCurrent then [(''only_current'', ''true'')] else []))"
    by (simp add: listClassesForCoach_def with_query_def only) (simp add: to_query_def)
  have "to_query [(''limit'', string_of_int i)] = ''limit='' @ string_of_int i" for i
    using int_text_unreserved [of i] by (simp add: to_query_def enc_pair_def enc_unreserved unreserved_def)
  then show "listMemberEntries memberId mx = api_get (with_query (''/attendance/members/'' @ memberId)
     [(''limit'', string_of_int (nullish mx 50))])"
    by (simp add: listMemberEntries_def with_query_def)
qed

lemma sent_ids:
  "conforms FreezeMemberRequest (JObj [(''until'', jopt JStr v)])"
  "conforms ReassignCoachRequest (JObj [(''coach_id'', jopt JStr v)])"
  by (simp_all add: FreezeMemberRequest_def ReassignCoachRequest_def jopt_def split: option.split)

lemma typed_quotaCheck [typed_calls]:
  "typed_call quotaCheck_sig (quotaCheck memberId classId)"
  by (simp add: written_calls typing)

lemma typed_recordEntry [typed_calls]:
  "conforms RecordEntryRequest data \<Longrightarrow> typed_call recordEntry_sig (recordEntry data)"
  by (simp add: recordEntry_def typing)

lemma typed_undoEntry [typed_calls]:
  "is_uuid ident \<Longrightarrow> conforms UndoEntryRequest data \<Longrightarrow> typed_call undoEntry_sig (undoEntry ident data)"
  by (simp add: undoEntry_def typing)

lemma typed_listEntries [typed_calls]:
  "typed_call listEntries_sig (listEntries filters)"
  by (simp add: listEntries_def typing)

lemma typed_listMemberEntries [typed_calls]:
  "is_uuid memberId \<Longrightarrow> typed_call listMemberEntries_sig (listMemberEntries memberId limit)"
  by (simp add: written_calls typing)

lemma typed_memberSummary [typed_calls]:
  "is_uuid memberId \<Longrightarrow> typed_call memberSummary_sig (memberSummary memberId)"
  by (simp add: memberSummary_def typing)

lemma typed_listClasses [typed_calls]:
  "typed_call listClasses_sig (listClasses filters)"
  by (simp add: listClasses_def typing)

lemma typed_getClass [typed_calls]:
  "is_uuid ident \<Longrightarrow> typed_call getClass_sig (getClass ident)"
  by (simp add: getClass_def typing)

lemma typed_createClass [typed_calls]:
  "conforms CreateGymClassRequest data \<Longrightarrow> typed_call createClass_sig (createClass data)"
  by (simp add: createClass_def typing)

lemma typed_updateClass [typed_calls]:
  "is_uuid ident \<Longrightarrow> conforms UpdateGymClassRequest data \<Longrightarrow> typed_call updateClass_sig (updateClass ident data)"
  by (simp add: updateClass_def typing)

lemma typed_deactivateClass [typed_calls]:
  "is_uuid ident \<Longrightarrow> typed_call deactivateClass_sig (deactivateClass ident)"
  by (simp add: deactivateClass_def typing)

lemma typed_activateClass [typed_calls]:
  "is_uuid ident \<Longrightarrow> typed_call activateClass_sig (activateClass ident)"
  by (simp add: activateClass_def typing)

lemma typed_listCoaches [typed_calls]:
  "typed_call listCoaches_sig (listCoaches filters)"
  by (simp add: listCoaches_def typing)

lemma typed_getCoach [typed_calls]:
  "is_uuid ident \<Longrightarrow> typed_call getCoach_sig (getCoach ident)"
  by (simp add: getCoach_def typing)

lemma typed_createCoach [typed_calls]:
  "conforms CreateCoachRequest data \<Longrightarrow> typed_call createCoach_sig (createCoach data)"
  by (simp add: createCoach_def typing)

lemma typed_updateCoach [typed_calls]:
  "is_uuid ident \<Longrightarrow> conforms UpdateCoachRequest data \<Longrightarrow> typed_call updateCoach_sig (updateCoach ident data)"
  by (simp add: updateCoach_def typing)

lemma typed_freezeCoach [typed_calls]:
  "is_uuid ident \<Longrightarrow> typed_call freezeCoach_sig (freezeCoach ident)"
  by (simp add: freezeCoach_def typing)

lemma typed_unfreezeCoach [typed_calls]:
  "is_uuid ident \<Longrightarrow> typed_call unfreezeCoach_sig (unfreezeCoach ident)"
  by (simp add: unfreezeCoach_def typing)

lemma typed_cancelCoach [typed_calls]:
  "is_uuid ident \<Longrightarrow> typed_call cancelCoach_sig (cancelCoach ident)"
  by (simp add: cancelCoach_def typing)

lemma typed_inviteCoachUser [typed_calls]:
  "is_uuid ident \<Longrightarrow> conforms InviteCoachUserRequest data \<Longrightarrow> typed_call inviteCoachUser_sig (inviteCoachUser ident data)"
  by (simp add: inviteCoachUser_def typing)

lemma typed_listCoachesForClass [typed_calls]:
  "is_uuid classId \<Longrightarrow> typed_call listCoachesForClass_sig (listCoachesForClass classId onlyCurrent)"
  by (simp add: written_calls typing)

lemma typed_listClassesForCoach [typed_calls]:
  "is_uuid coachId \<Longrightarrow> typed_call listClassesForCoach_sig (listClassesForCoach coachId onlyCurrent)"
  by (simp add: written_calls typing)

lemma typed_assignCoachToClass [typed_calls]:
  "is_uuid classId \<Longrightarrow> conforms AssignCoachRequest data \<Longrightarrow> typed_call assignCoachToClass_sig (assignCoachToClass classId data)"
  by (simp add: assignCoachToClass_def typing)

lemma typed_updateClassCoachLink [typed_calls]:
  "is_uuid linkId \<Longrightarrow> conforms UpdateClassCoachRequest data \<Longrightarrow> typed_call updateClassCoachLink_sig (updateClassCoachLink linkId data)"
  by (simp add: updateClassCoachLink_def typing)

lemma typed_deleteClassCoachLink [typed_calls]:
  "is_uuid linkId \<Longrightarrow> typed_call deleteClassCoachLink_sig (deleteClassCoachLink linkId)"
  by (simp add: deleteClassCoachLink_def typing)

lemma typed_getCoachEarnings [typed_calls]:
  "is_uuid coachId \<Longrightarrow> typed_call getCoachEarnings_sig (getCoachEarnings coachId frm to)"
  by (simp add: written_calls typing)

lemma typed_getEarningsSummary [typed_calls]:
  "typed_call getEarningsSummary_sig (getEarningsSummary frm to)"
  by (simp add: written_calls typing)

lemma typed_reassignEntryCoach [typed_calls]:
  "is_uuid entryId \<Longrightarrow> typed_call reassignEntryCoach_sig (reassignEntryCoach entryId coachId)"
  by (simp add: reassignEntryCoach_def sent_ids typing)

lemma typed_getPlatformStats [typed_calls]:
  "typed_call getPlatformStats_sig (getPlatformStats)"
  by (simp add: getPlatformStats_def typing)

lemma typed_listLeads [typed_calls]:
  "typed_call listLeads_sig (listLeads filters)"
  by (simp add: listLeads_def typing)

lemma typed_getLead [typed_calls]:
  "is_uuid ident \<Longrightarrow> typed_call getLead_sig (getLead ident)"
  by (simp add: getLead_def typing)

lemma typed_createLead [typed_calls]:
  "conforms CreateLeadRequest data \<Longrightarrow> typed_call createLead_sig (createLead data)"
  by (simp add: createLead_def typing)

lemma typed_updateLead [typed_calls]:
  "is_uuid ident \<Longrightarrow> conforms UpdateLeadRequest data \<Longrightarrow> typed_call updateLead_sig (updateLead ident data)"
  by (simp add: updateLead_def typing)

lemma typed_setLeadStatus [typed_calls]:
  "is_uuid ident \<Longrightarrow> conforms SetStatusRequest data \<Longrightarrow> typed_call setLeadStatus_sig (setLeadStatus ident data)"
  by (simp add: setLeadStatus_def typing)

lemma typed_assignLead [typed_calls]:
  "is_uuid ident \<Longrightarrow> conforms AssignLeadRequest data \<Longrightarrow> typed_call assignLead_sig (assignLead ident data)"
  by (simp add: assignLead_def typing)

lemma typed_convertLead [typed_calls]:
  "is_uuid ident \<Longrightarrow> conforms ConvertLeadRequest data \<Longrightarrow> typed_call convertLead_sig (convertLead ident data)"
  by (simp add: convertLead_def typing)

lemma typed_listActivities [typed_calls]:
  "is_uuid leadId \<Longrightarrow> typed_call listActivities_sig (listActivities leadId filters)"
  by (simp add: listActivities_def typing)

lemma typed_addActivity [typed_calls]:
  "is_uuid leadId \<Longrightarrow> conforms AddActivityRequest data \<Longrightarrow> typed_call addActivity_sig (addActivity leadId data)"
  by (simp add: addActivity_def typing)

lemma typed_getLeadStats [typed_calls]:
  "typed_call getLeadStats_sig (getLeadStats)"
  by (simp add: getLeadStats_def typing)

lemma typed_listLostReasons [typed_calls]:
  "typed_call listLostReasons_sig (listLostReasons filters)"
  by (simp add: listLostReasons_def typing)

lemma typed_listMembers [typed_calls]:
  "typed_call listMembers_sig (listMembers filters)"
  by (simp add: listMembers_def typing)

lemma typed_getMember [typed_calls]:
  "is_uuid ident \<Longrightarrow> typed_call getMember_sig (getMember ident)"
  by (simp add: getMember_def typing)

lemma typed_createMember [typed_calls]:
  "conforms CreateMemberRequest data \<Longrightarrow> typed_call createMember_sig (createMember data)"
  by (simp add: createMember_def typing)

lemma typed_updateMember [typed_calls]:
  "is_uuid ident \<Longrightarrow> conforms UpdateMemberRequest data \<Longrightarrow> typed_call updateMember_sig (updateMember ident data)"
  by (simp add: updateMember_def typing)

lemma typed_freezeMember [typed_calls]:
  "is_uuid ident \<Longrightarrow> typed_call freezeMember_sig (freezeMember ident until)"
  by (simp add: freezeMember_def sent_ids typing)

lemma typed_unfreezeMember [typed_calls]:
  "is_uuid ident \<Longrightarrow> typed_call unfreezeMember_sig (unfreezeMember ident)"
  by (simp add: unfreezeMember_def typing)

lemma typed_cancelMember [typed_calls]:
  "is_uuid ident \<Longrightarrow> typed_call cancelMember_sig (cancelMember ident)"
  by (simp add: cancelMember_def typing)

lemma typed_listPayments [typed_calls]:
  "typed_call listPayments_sig (listPayments filters)"
  by (simp add: listPayments_def typing)

lemma typed_getPayment [typed_calls]:
  "is_uuid ident \<Longrightarrow> typed_call getPayment_sig (getPayment ident)"
  by (simp add: getPayment_def typing)

lemma typed_recordPayment [typed_calls]:
  "conforms RecordPaymentRequest data \<Longrightarrow> typed_call recordPayment_sig (recordPayment data)"
  by (simp add: recordPayment_def typing)

lemma typed_refundPayment [typed_calls]:
  "is_uuid ident \<Longrightarrow> conforms RefundPaymentRequest data \<Longrightarrow> typed_call refundPayment_sig (refundPayment ident data)"
  by (simp add: refundPayment_def typing)

lemma typed_listMemberPayments [typed_calls]:
  "is_uuid memberId \<Longrightarrow> typed_call listMemberPayments_sig (listMemberPayments memberId)"
  by (simp add: listMemberPayments_def typing)

lemma typed_getRevenueSummary [typed_calls]:
  "typed_call getRevenueSummary_sig (getRevenueSummary)"
  by (simp add: getRevenueSummary_def typing)

lemma typed_listPlans [typed_calls]:
  "typed_call listPlans_sig (listPlans filters)"
  by (simp add: listPlans_def typing)

lemma typed_getPlan [typed_calls]:
  "is_uuid ident \<Longrightarrow> typed_call getPlan_sig (getPlan ident)"
  by (simp add: getPlan_def typing)

lemma typed_createPlan [typed_calls]:
  "conforms CreatePlanRequest data \<Longrightarrow> typed_call createPlan_sig (createPlan data)"
  by (simp add: createPlan_def typing)

lemma typed_updatePlan [typed_calls]:
  "is_uuid ident \<Longrightarrow> conforms UpdatePlanRequest data \<Longrightarrow> typed_call updatePlan_sig (updatePlan ident data)"
  by (simp add: updatePlan_def typing)

lemma typed_deactivatePlan [typed_calls]:
  "is_uuid ident \<Longrightarrow> typed_call deactivatePlan_sig (deactivatePlan ident)"
  by (simp add: deactivatePlan_def typing)

lemma typed_activatePlan [typed_calls]:
  "is_uuid ident \<Longrightarrow> typed_call activatePlan_sig (activatePlan ident)"
  by (simp add: activatePlan_def typing)

lemma typed_listTemplates [typed_calls]:
  "typed_call listTemplates_sig (listTemplates filters)"
  by (simp add: listTemplates_def typing)

lemma typed_getTemplate [typed_calls]:
  "is_uuid ident \<Longrightarrow> typed_call getTemplate_sig (getTemplate ident)"
  by (simp add: getTemplate_def typing)

lemma typed_createTemplate [typed_calls]:
  "conforms CreateTemplateRequest data \<Longrightarrow> typed_call createTemplate_sig (createTemplate data)"
  by (simp add: createTemplate_def typing)

lemma typed_updateTemplate [typed_calls]:
  "is_uuid ident \<Longrightarrow> conforms UpdateTemplateRequest data \<Longrightarrow> typed_call updateTemplate_sig (updateTemplate ident data)"
  by (simp add: updateTemplate_def typing)

lemma typed_deactivateTemplate [typed_calls]:
  "is_uuid ident \<Longrightarrow> typed_call deactivateTemplate_sig (deactivateTemplate ident)"
  by (simp add: deactivateTemplate_def typing)

lemma typed_listSessions [typed_calls]:
  "typed_call listSessions_sig (listSessions filters)"
  by (simp add: written_calls typing)

lemma typed_getSession [typed_calls]:
  "is_uuid ident \<Longrightarrow> typed_call getSession_sig (getSession ident)"
  by (simp add: getSession_def typing)

lemma typed_createAdHocSession [typed_calls]:
  "conforms CreateAdHocSessionRequest data \<Longrightarrow> typed_call createAdHocSession_sig (createAdHocSession data)"
  by (simp add: createAdHocSession_def typing)

lemma typed_updateSession [typed_calls]:
  "is_uuid ident \<Longrightarrow> conforms UpdateSessionRequest data \<Longrightarrow> typed_call updateSession_sig (updateSession ident data)"
  by (simp add: updateSession_def typing)

lemma typed_cancelSession [typed_calls]:
  "is_uuid ident \<Longrightarrow> conforms CancelSessionRequest data \<Longrightarrow> typed_call cancelSession_sig (cancelSession ident data)"
  by (simp add: cancelSession_def typing)

lemma typed_bulkAction [typed_calls]:
  "conforms BulkActionRequest data \<Longrightarrow> typed_call bulkAction_sig (bulkAction data)"
  by (simp add: bulkAction_def typing)

lemma typed_updateTenantFeatures [typed_calls]:
  "is_uuid tenantId \<Longrightarrow> conforms UpdateTenantFeaturesRequest data \<Longrightarrow> typed_call updateTenantFeatures_sig (updateTenantFeatures tenantId data)"
  by (simp add: updateTenantFeatures_def typing)

lemma typed_listSubscriptions [typed_calls]:
  "typed_call listSubscriptions_sig (listSubscriptions filters)"
  by (simp add: listSubscriptions_def typing)

lemma typed_getSubscription [typed_calls]:
  "is_uuid ident \<Longrightarrow> typed_call getSubscription_sig (getSubscription ident)"
  by (simp add: getSubscription_def typing)

lemma typed_listSubscriptionEvents [typed_calls]:
  "is_uuid ident \<Longrightarrow> typed_call listSubscriptionEvents_sig (listSubscriptionEvents ident)"
  by (simp add: listSubscriptionEvents_def typing)

lemma typed_createSubscription [typed_calls]:
  "conforms CreateSubscriptionRequest data \<Longrightarrow> typed_call createSubscription_sig (createSubscription data)"
  by (simp add: createSubscription_def typing)

lemma typed_freezeSubscription [typed_calls]:
  "is_uuid ident \<Longrightarrow> conforms FreezeSubscriptionRequest data \<Longrightarrow> typed_call freezeSubscription_sig (freezeSubscription ident data)"
  by (simp add: freezeSubscription_def typing)

lemma typed_unfreezeSubscription [typed_calls]:
  "is_uuid ident \<Longrightarrow> typed_call unfreezeSubscription_sig (unfreezeSubscription ident)"
  by (simp add: unfreezeSubscription_def typing)

lemma typed_renewSubscription [typed_calls]:
  "is_uuid ident \<Longrightarrow> conforms RenewSubscriptionRequest data \<Longrightarrow> typed_call renewSubscription_sig (renewSubscription ident data)"
  by (simp add: renewSubscription_def typing)

lemma typed_changePlan [typed_calls]:
  "is_uuid ident \<Longrightarrow> conforms ChangePlanRequest data \<Longrightarrow> typed_call changePlan_sig (changePlan ident data)"
  by (simp add: changePlan_def typing)

lemma typed_cancelSubscription [typed_calls]:
  "is_uuid ident \<Longrightarrow> conforms CancelSubscriptionRequest data \<Longrightarrow> typed_call cancelSubscription_sig (cancelSubscription ident data)"
  by (simp add: cancelSubscription_def typing)

lemma typed_listTenants [typed_calls]:
  "typed_call listTenants_sig (listTenants)"
  by (simp add: listTenants_def typing)

lemma typed_getTenant [typed_calls]:
  "is_uuid ident \<Longrightarrow> typed_call getTenant_sig (getTenant ident)"
  by (simp add: getTenant_def typing)

lemma typed_createTenant [typed_calls]:
  "conforms CreateTenantRequest data \<Longrightarrow> typed_call createTenant_sig (createTenant data)"
  by (simp add: createTenant_def typing)

lemma typed_updateTenant [typed_calls]:
  "is_uuid ident \<Longrightarrow> conforms UpdateTenantRequest data \<Longrightarrow> typed_call updateTenant_sig (updateTenant ident data)"
  by (simp add: updateTenant_def typing)

lemma typed_suspendTenant [typed_calls]:
  "is_uuid ident \<Longrightarrow> typed_call suspendTenant_sig (suspendTenant ident)"
  by (simp add: suspendTenant_def typing)

lemma typed_activateTenant [typed_calls]:
  "is_uuid ident \<Longrightarrow> typed_call activateTenant_sig (activateTenant ident)"
  by (simp add: activateTenant_def typing)

lemma typed_cancelTenant [typed_calls]:
  "is_uuid ident \<Longrightarrow> typed_call cancelTenant_sig (cancelTenant ident)"
  by (simp add: cancelTenant_def typing)

lemma typed_getTenantStats [typed_calls]:
  "is_uuid ident \<Longrightarrow> typed_call getTenantStats_sig (getTenantStats ident)"
  by (simp add: getTenantStats_def typing)

lemma typed_createUser [typed_calls]:
  "conforms CreateUserRequest data \<Longrightarrow> typed_call createUser_sig (createUser data)"
  by (simp add: createUser_def typing)

lemma typed_listUsersForTenant [typed_calls]:
  "is_uuid tenantId \<Longrightarrow> typed_call listUsersForTenant_sig (listUsersForTenant tenantId)"
  by (simp add: listUsersForTenant_def typing)

lemma typed_updateUser [typed_calls]:
  "is_uuid ident \<Longrightarrow> conforms UpdateUserRequest data \<Longrightarrow> typed_call updateUser_sig (updateUser ident data)"
  by (simp add: updateUser_def typing)

lemma typed_deleteUser [typed_calls]:
  "is_uuid ident \<Longrightarrow> typed_call deleteUser_sig (deleteUser ident)"
  by (simp add: deleteUser_def typing)

end
