(* ===== verification/CallTypes.thy ===== *)
theory CallTypes
  imports Conformance
begin

text \<open>
  The typing of every query and mutation hook: the API function it calls, the call it makes and the
  value it yields, when the server answers as its description says.
\<close>

section \<open>Every hook\<close>

text \<open>The function a hook calls, the identifiers it puts in the path and the data it sends.\<close>

primrec hook_sig :: "hook \<Rightarrow> signature" where
  "hook_sig (UseAttendanceList _) = listEntries_sig"
| "hook_sig (UseMemberAttendance _) = listMemberEntries_sig"
| "hook_sig (UseMemberAttendanceSummary _) = memberSummary_sig"
| "hook_sig (UseQuotaCheck _ _ _) = quotaCheck_sig"
| "hook_sig (UseClasses _) = listClasses_sig"
| "hook_sig (UseClass _) = getClass_sig"
| "hook_sig (UseCoaches _) = listCoaches_sig"
| "hook_sig (UseCoach _) = getCoach_sig"
| "hook_sig (UseCoachesForClass _ _) = listCoachesForClass_sig"
| "hook_sig (UseClassesForCoach _ _) = listClassesForCoach_sig"
| "hook_sig (UseCoachEarnings _ _ _) = getCoachEarnings_sig"
| "hook_sig (UseEarningsSummary _ _) = getEarningsSummary_sig"
| "hook_sig UsePlatformStats = getPlatformStats_sig"
| "hook_sig (UseLeads _) = listLeads_sig"
| "hook_sig (UseLead _) = getLead_sig"
| "hook_sig (UseLeadActivities _) = listActivities_sig"
| "hook_sig UseLeadStats = getLeadStats_sig"
| "hook_sig (UseLostReasons _) = listLostReasons_sig"
| "hook_sig (UseMembers _) = listMembers_sig"
| "hook_sig (UseMember _) = getMember_sig"
| "hook_sig (UsePayments _) = listPayments_sig"
| "hook_sig (UsePayment _) = getPayment_sig"
| "hook_sig (UseMemberPayments _) = listMemberPayments_sig"
| "hook_sig UseRevenueSummary = getRevenueSummary_sig"
| "hook_sig (UsePlans _) = listPlans_sig"
| "hook_sig (UsePlan _) = getPlan_sig"
| "hook_sig (UseTemplates _) = listTemplates_sig"
| "hook_sig (UseTemplate _) = getTemplate_sig"
| "hook_sig (UseSessions _) = listSessions_sig"
| "hook_sig (UseSession _) = getSession_sig"
| "hook_sig (UseSubscriptions _) = listSubscriptions_sig"
| "hook_sig (UseSubscription _) = getSubscription_sig"
| "hook_sig (UseSubscriptionEvents _) = listSubscriptionEvents_sig"
| "hook_sig (UseCurrentSubscriptionForMember _) = listSubscriptions_sig"
| "hook_sig (UseSubscriptionHistoryForMember _) = listSubscriptions_sig"
| "hook_sig UseTenants = listTenants_sig"
| "hook_sig (UseTenant _) = getTenant_sig"
| "hook_sig (UseTenantStats _) = getTenantStats_sig"
| "hook_sig (UseTenantUsers _) = listUsersForTenant_sig"

primrec hook_ids :: "hook \<Rightarrow> string list" where
  "hook_ids (UseAttendanceList _) = []"
| "hook_ids (UseMemberAttendance memberId) = [memberId]"
| "hook_ids (UseMemberAttendanceSummary memberId) = [memberId]"
| "hook_ids (UseQuotaCheck _ _ _) = []"
| "hook_ids (UseClasses _) = []"
| "hook_ids (UseClass ident) = [ident]"
| "hook_ids (UseCoaches _) = []"
| "hook_ids (UseCoach ident) = [ident]"
| "hook_ids (UseCoachesForClass classId _) = [classId]"
| "hook_ids (UseClassesForCoach coachId _) = [coachId]"
| "hook_ids (UseCoachEarnings coachId _ _) = [coachId]"
| "hook_ids (UseEarningsSummary _ _) = []"
| "hook_ids UsePlatformStats = []"
| "hook_ids (UseLeads _) = []"
| "hook_ids (UseLead ident) = [ident]"
| "hook_ids (UseLeadActivities leadId) = [leadId]"
| "hook_ids UseLeadStats = []"
| "hook_ids (UseLostReasons _) = []"
| "hook_ids (UseMembers _) = []"
| "hook_ids (UseMember ident) = [ident]"
| "hook_ids (UsePayments _) = []"
| "hook_ids (UsePayment ident) = [ident]"
| "hook_ids (UseMemberPayments memberId) = [memberId]"
| "hook_ids UseRevenueSummary = []"
| "hook_ids (UsePlans _) = []"
| "hook_ids (UsePlan ident) = [ident]"
| "hook_ids (UseTemplates _) = []"
| "hook_ids (UseTemplate ident) = [ident]"
| "hook_ids (UseSessions _) = []"
| "hook_ids (UseSession ident) = [ident]"
| "hook_ids (UseSubscriptions _) = []"
| "hook_ids (UseSubscription ident) = [ident]"
| "hook_ids (UseSubscriptionEvents ident) = [ident]"
| "hook_ids (UseCurrentSubscriptionForMember _) = []"
| "hook_ids (UseSubscriptionHistoryForMember _) = []"
| "hook_ids UseTenants = []"
| "hook_ids (UseTenant ident) = [ident]"
| "hook_ids (UseTenantStats ident) = [ident]"
| "hook_ids (UseTenantUsers tenantId) = [tenantId]"

primrec mutation_sig :: "mutation_hook \<Rightarrow> signature" where
  "mutation_sig (UseRecordEntry _) = recordEntry_sig"
| "mutation_sig (UseUndoEntry _ _) = undoEntry_sig"
| "mutation_sig (UseCreateClass _) = createClass_sig"
| "mutation_sig (UseUpdateClass _ _) = updateClass_sig"
| "mutation_sig (UseDeactivateClass _) = deactivateClass_sig"
| "mutation_sig (UseActivateClass _) = activateClass_sig"
| "mutation_sig (UseCreateCoach _) = createCoach_sig"
| "mutation_sig (UseUpdateCoach _ _) = updateCoach_sig"
| "mutation_sig (UseFreezeCoach _) = freezeCoach_sig"
| "mutation_sig (UseUnfreezeCoach _) = unfreezeCoach_sig"
| "mutation_sig (UseCancelCoach _) = cancelCoach_sig"
| "mutation_sig (UseInviteCoachUser _ _) = inviteCoachUser_sig"
| "mutation_sig (UseAssignCoachToClass _ _) = assignCoachToClass_sig"
| "mutation_sig (UseUpdateClassCoachLink _ _) = updateClassCoachLink_sig"
| "mutation_sig (UseDeleteClassCoachLink _) = deleteClassCoachLink_sig"
| "mutation_sig (UseReassignEntryCoach _ _) = reassignEntryCoach_sig"
| "mutation_sig (UseCreateLead _) = createLead_sig"
| "mutation_sig (UseUpdateLead _ _) = updateLead_sig"
| "mutation_sig (UseSetLeadStatus _ _) = setLeadStatus_sig"
| "mutation_sig (UseAssignLead _ _) = assignLead_sig"
| "mutation_sig (UseConvertLead _ _) = convertLead_sig"
| "mutation_sig (UseAddActivity _ _) = addActivity_sig"
| "mutation_sig (UseCreateMember _) = createMember_sig"
| "mutation_sig (UseUpdateMember _ _) = updateMember_sig"
| "mutation_sig (UseFreezeMember _ _) = freezeMember_sig"
| "mutation_sig (UseUnfreezeMember _) = unfreezeMember_sig"
| "mutation_sig (UseCancelMember _) = cancelMember_sig"
| "mutation_sig (UseRecordPayment _) = recordPayment_sig"
| "mutation_sig (UseRefundPayment _ _) = refundPayment_sig"
| "mutation_sig (UseCreatePlan _) = createPlan_sig"
| "mutation_sig (UseUpdatePlan _ _) = updatePlan_sig"
| "mutation_sig (UseDeactivatePlan _) = deactivatePlan_sig"
| "mutation_sig (UseActivatePlan _) = activatePlan_sig"
| "mutation_sig (UseCreateTemplate _) = createTemplate_sig"
| "mutation_sig (UseUpdateTemplate _ _) = updateTemplate_sig"
| "mutation_sig (UseDeactivateTemplate _) = deactivateTemplate_sig"
| "mutation_sig (UseCreateAdHocSession _) = createAdHocSession_sig"
| "mutation_sig (UseUpdateSession _ _) = updateSession_sig"
| "mutation_sig (UseCancelSession _ _) = cancelSession_sig"
| "mutation_sig (UseBulkAction _) = bulkAction_sig"
| "mutation_sig (UseUpdateTenantFeatures _ _) = updateTenantFeatures_sig"
| "mutation_sig (UseCreateSubscription _) = createSubscription_sig"
| "mutation_sig (UseFreezeSubscription _ _) = freezeSubscription_sig"
| "mutation_sig (UseUnfreezeSubscription _) = unfreezeSubscription_sig"
| "mutation_sig (UseRenewSubscription _ _) = renewSubscription_sig"
| "mutation_sig (UseChangePlan _ _) = changePlan_sig"
| "mutation_sig (UseCancelSubscription _ _) = cancelSubscription_sig"
| "mutation_sig (UseCreateTenant _) = createTenant_sig"
| "mutation_sig (UseUpdateTenant _ _) = updateTenant_sig"
| "mutation_sig (UseSuspendTenant _) = suspendTenant_sig"
| "mutation_sig (UseActivateTenant _) = activateTenant_sig"
| "mutation_sig (UseCancelTenant _) = cancelTenant_sig"
| "mutation_sig (UseCreateUser _ _) = createUser_sig"
| "mutation_sig (UseUpdateUser _ _ _) = updateUser_sig"
| "mutation_sig (UseDeleteUser _ _) = deleteUser_sig"

primrec mutation_ids :: "mutation_hook \<Rightarrow> string list" where
  "mutation_ids (UseRecordEntry _) = []"
| "mutation_ids (UseUndoEntry ident _) = [ident]"
| "mutation_ids (UseCreateClass _) = []"
| "mutation_ids (UseUpdateClass ident _) = [ident]"
| "mutation_ids (UseDeactivateClass ident) = [ident]"
| "mutation_ids (UseActivateClass ident) = [ident]"
| "mutation_ids (UseCreateCoach _) = []"
| "mutation_ids (UseUpdateCoach ident _) = [ident]"
| "mutation_ids (UseFreezeCoach ident) = [ident]"
| "mutation_ids (UseUnfreezeCoach ident) = [ident]"
| "mutation_ids (UseCancelCoach ident) = [ident]"
| "mutation_ids (UseInviteCoachUser ident _) = [ident]"
| "mutation_ids (UseAssignCoachToClass classId _) = [classId]"
| "mutation_ids (UseUpdateClassCoachLink linkId _) = [linkId]"
| "mutation_ids (UseDeleteClassCoachLink linkId) = [linkId]"
| "mutation_ids (UseReassignEntryCoach entryId _) = [entryId]"
| "mutation_ids (UseCreateLead _) = []"
| "mutation_ids (UseUpdateLead ident _) = [ident]"
| "mutation_ids (UseSetLeadStatus ident _) = [ident]"
| "mutation_ids (UseAssignLead ident _) = [ident]"
| "mutation_ids (UseConvertLead ident _) = [ident]"
| "mutation_ids (UseAddActivity ident _) = [ident]"
| "mutation_ids (UseCreateMember _) = []"
| "mutation_ids (UseUpdateMember ident _) = [ident]"
| "mutation_ids (UseFreezeMember ident _) = [ident]"
| "mutation_ids (UseUnfreezeMember ident) = [ident]"
| "mutation_ids (UseCancelMember ident) = [ident]"
| "mutation_ids (UseRecordPayment _) = []"
| "mutation_ids (UseRefundPayment ident _) = [ident]"
| "mutation_ids (UseCreatePlan _) = []"
| "mutation_ids (UseUpdatePlan ident _) = [ident]"
| "mutation_ids (UseDeactivatePlan ident) = [ident]"
| "mutation_ids (UseActivatePlan ident) = [ident]"
| "mutation_ids (UseCreateTemplate _) = []"
| "mutation_ids (UseUpdateTemplate ident _) = [ident]"
| "mutation_ids (UseDeactivateTemplate ident) = [ident]"
| "mutation_ids (UseCreateAdHocSession _) = []"
| "mutation_ids (UseUpdateSession ident _) = [ident]"
| "mutation_ids (UseCancelSession ident _) = [ident]"
| "mutation_ids (UseBulkAction _) = []"
| "mutation_ids (UseUpdateTenantFeatures tenantId _) = [tenantId]"
| "mutation_ids (UseCreateSubscription _) = []"
| "mutation_ids (UseFreezeSubscription ident _) = [ident]"
| "mutation_ids (UseUnfreezeSubscription ident) = [ident]"
| "mutation_ids (UseRenewSubscription ident _) = [ident]"
| "mutation_ids (UseChangePlan ident _) = [ident]"
| "mutation_ids (UseCancelSubscription ident _) = [ident]"
| "mutation_ids (UseCreateTenant _) = []"
| "mutation_ids (UseUpdateTenant ident _) = [ident]"
| "mutation_ids (UseSuspendTenant ident) = [ident]"
| "mutation_ids (UseActivateTenant ident) = [ident]"
| "mutation_ids (UseCancelTenant ident) = [ident]"
| "mutation_ids (UseCreateUser _ _) = []"
| "mutation_ids (UseUpdateUser _ ident _) = [ident]"
| "mutation_ids (UseDeleteUser _ ident) = [ident]"

primrec mutation_data :: "mutation_hook \<Rightarrow> json option" where
  "mutation_data (UseRecordEntry data) = Some data"
| "mutation_data (UseUndoEntry _ data) = Some data"
| "mutation_data (UseCreateClass data) = Some data"
| "mutation_data (UseUpdateClass _ data) = Some data"
| "mutation_data (UseDeactivateClass _) = None"
| "mutation_data (UseActivateClass _) = None"
| "mutation_data (UseCreateCoach data) = Some data"
| "mutation_data (UseUpdateCoach _ data) = Some data"
| "mutation_data (UseFreezeCoach _) = None"
| "mutation_data (UseUnfreezeCoach _) = None"
| "mutation_data (UseCancelCoach _) = None"
| "mutation_data (UseInviteCoachUser _ data) = Some data"
| "mutation_data (UseAssignCoachToClass _ data) = Some data"
| "mutation_data (UseUpdateClassCoachLink _ data) = Some data"
| "mutation_data (UseDeleteClassCoachLink _) = None"
| "mutation_data (UseReassignEntryCoach _ _) = None"
| "mutation_data (UseCreateLead data) = Some data"
| "mutation_data (UseUpdateLead _ data) = Some data"
| "mutation_data (UseSetLeadStatus _ data) = Some data"
| "mutation_data (UseAssignLead _ data) = Some data"
| "mutation_data (UseConvertLead _ data) = Some data"
| "mutation_data (UseAddActivity _ data) = Some data"
| "mutation_data (UseCreateMember data) = Some data"
| "mutation_data (UseUpdateMember _ data) = Some data"
| "mutation_data (UseFreezeMember _ _) = None"
| "mutation_data (UseUnfreezeMember _) = None"
| "mutation_data (UseCancelMember _) = None"
| "mutation_data (UseRecordPayment data) = Some data"
| "mutation_data (UseRefundPayment _ data) = Some data"
| "mutation_data (UseCreatePlan data) = Some data"
| "mutation_data (UseUpdatePlan _ data) = Some data"
| "mutation_data (UseDeactivatePlan _) = None"
| "mutation_data (UseActivatePlan _) = None"
| "mutation_data (UseCreateTemplate data) = Some data"
| "mutation_data (UseUpdateTemplate _ data) = Some data"
| "mutation_data (UseDeactivateTemplate _) = None"
| "mutation_data (UseCreateAdHocSession data) = Some data"
| "mutation_data (UseUpdateSession _ data) = Some data"
| "mutation_data (UseCancelSession _ data) = Some data"
| "mutation_data (UseBulkAction data) = Some data"
| "mutation_data (UseUpdateTenantFeatures _ data) = Some data"
| "mutation_data (UseCreateSubscription data) = Some data"
| "mutation_data (UseFreezeSubscription _ data) = Some data"
| "mutation_data (UseUnfreezeSubscription _) = None"
| "mutation_data (UseRenewSubscription _ data) = Some data"
| "mutation_data (UseChangePlan _ data) = Some data"
| "mutation_data (UseCancelSubscription _ data) = Some data"
| "mutation_data (UseCreateTenant data) = Some data"
| "mutation_data (UseUpdateTenant _ data) = Some data"
| "mutation_data (UseSuspendTenant _) = None"
| "mutation_data (UseActivateTenant _) = None"
| "mutation_data (UseCancelTenant _) = None"
| "mutation_data (UseCreateUser _ data) = Some data"
| "mutation_data (UseUpdateUser _ _ data) = Some data"
| "mutation_data (UseDeleteUser _ _) = None"

definition data_ok :: "mutation_hook \<Rightarrow> bool" where
  "data_ok m = (case (mutation_data m, sig_data (mutation_sig m)) of
     (Some j, Some t) \<Rightarrow> conforms t j
   | (None, None) \<Rightarrow> True
   | _ \<Rightarrow> False)"

lemma hook_typed:
  "list_all is_uuid (hook_ids h) \<Longrightarrow> typed_call (hook_sig h) (q_call (query_of_hook h))"
  by (cases h) (simp_all add: query_defs typed_calls)

lemma mutation_typed:
  "list_all is_uuid (mutation_ids m) \<Longrightarrow> data_ok m \<Longrightarrow> typed_call (mutation_sig m) (mu_call (mutation_of m))"
  by (cases m) (simp_all add: data_ok_def mutation_defs sig_data_simps typed_calls)

section \<open>The answers\<close>

text \<open>The server answers a declared operation as its description says: a success carries the declared
  type, or no content where none is declared.\<close>

definition answer_ok :: "operation \<Rightarrow> http_response \<Rightarrow> bool" where
  "answer_ok op res = (res_ok res \<longrightarrow> (case success_type op of
     None \<Rightarrow> res_status res = 204
   | Some t \<Rightarrow> res_status res \<noteq> 204 \<and> (case res_body res of None \<Rightarrow> True | Some j \<Rightarrow> conforms t j)))"

definition server_conforms :: "network \<Rightarrow> bool" where
  "server_conforms fetch = (\<forall>c op res. route c = Some op \<longrightarrow>
     fetch (build_request (c_method c) (c_path c) (c_body c)) = Some res \<longrightarrow> answer_ok op res)"

definition yields :: "signature \<Rightarrow> json option \<Rightarrow> bool" where
  "yields s v = (case sig_result s of None \<Rightarrow> v = None
     | Some t \<Rightarrow> (case v of None \<Rightarrow> t = TUnknown | Some j \<Rightarrow> conforms t j))"

lemma handle_response_Inr:
  assumes "handle_response res = Inr v"
  shows "(res_status res = 204 \<and> v = None) \<or> (res_ok res \<and> res_status res \<noteq> 204 \<and> res_body res = v \<and> v \<noteq> None)"
proof (cases "res_body res")
  case None
  with assms show ?thesis
    by (auto simp: handle_response_def split: if_splits option.splits sum.splits)
next
  case (Some j)
  from assms show ?thesis
    by (auto simp: handle_response_def Some split: if_splits option.splits sum.splits)
qed

lemma typed_answer:
  assumes "server_conforms fetch" "typed_call s c" "run_call fetch c = Inr v"
  shows "yields s v"
proof -
  obtain op where op: "route c = Some op" "result_ok op s"
    using assms(2) by (auto simp: typed_call_def split: option.splits)
  obtain res where res: "fetch (build_request (c_method c) (c_path c) (c_body c)) = Some res"
      "handle_response res = Inr v"
    using assms(3) by (auto simp: run_call_def request_def split: option.splits)
  have "answer_ok op res" using assms(1) op(1) res(1) by (auto simp: server_conforms_def)
  with handle_response_Inr [OF res(2)] op(2) show ?thesis
    by (auto simp: answer_ok_def result_ok_def yields_def res_ok_def split: option.splits)
qed

text \<open>C13: every query and mutation hook makes a call that the server's description declares: a path of
  the table with the method it is called with, only declared query parameters with values of their
  types, all the required ones, none twice unless it is a list, and a body of the declared type
  exactly where one is expected; and the type the function promises is the declared one, so that
  whenever the server answers as described, what the hook yields has that type. The identifiers in
  the path are UUIDs, and the data handed to a mutation has the type its function asks for.\<close>

theorem hooks_follow_description:
  assumes "list_all is_uuid (hook_ids h)" "list_all is_uuid (mutation_ids m)" "data_ok m"
  shows "typed_call (hook_sig h) (q_call (query_of_hook h))
    \<and> typed_call (mutation_sig m) (mu_call (mutation_of m))
    \<and> (\<forall>fetch v. server_conforms fetch \<longrightarrow>
          (run_call fetch (q_call (query_of_hook h)) = Inr v \<longrightarrow> yields (hook_sig h) v)
          \<and> (run_call fetch (mu_call (mutation_of m)) = Inr v \<longrightarrow> yields (mutation_sig m) v))"
  using hook_typed [OF assms(1)] mutation_typed [OF assms(2, 3)] typed_answer by blast

text \<open>A server with one coach, asked for it.\<close>

definition sample_id :: string where
  "sample_id = ''0b3c1a52-7f0e-4c7d-9a51-2f6f0c1d2e3a''"

definition sample_stats :: json where
  "sample_stats = JObj [(''active_tenants'', JNum 2), (''new_tenants_this_month'', JNum 1),
     (''total_members'', JNum 40), (''total_tenants'', JNum 3), (''total_users'', JNum 9)]"

definition sample_server :: network where
  "sample_server rq = (if rq = build_request GET ''/admin/stats'' None
     then Some \<lparr>res_status = 200, res_statusText = ''OK'', res_body = Some sample_stats\<rparr> else None)"

lemma sample_server_conforms: "server_conforms sample_server"
proof -
  have "answer_ok op res" if "route c = Some op" "sample_server (build_request (c_method c) (c_path c) (c_body c)) = Some res" for c op res
  proof -
    have c: "c_method c = GET" "c_path c = ''/admin/stats''"
      and res: "res = \<lparr>res_status = 200, res_statusText = ''OK'', res_body = Some sample_stats\<rparr>"
      using that(2) by (auto simp: sample_server_def build_request_def split: if_splits)
    from that(1) have "op = get_platform_stats_api_v1_admin_stats_get"
      by (simp add: routing c)
    then show ?thesis
      by (simp add: answer_ok_def res res_ok_def success_type_def get_platform_stats_api_v1_admin_stats_get_def
          PlatformStatsResponse_def sample_stats_def)
  qed
  then show ?thesis by (auto simp: server_conforms_def)
qed

theorem hooks_follow_description_witness:
  "typed_call cancelCoach_sig (cancelCoach sample_id)
   \<and> run_call sample_server getPlatformStats = Inr (Some sample_stats)
   \<and> yields getPlatformStats_sig (Some sample_stats)"
proof -
  have ids: "list_all is_uuid (hook_ids UsePlatformStats)"
    "list_all is_uuid (mutation_ids (UseCancelCoach sample_id))"
    by (simp_all add: is_uuid_def sample_id_def)
  have data: "data_ok (UseCancelCoach sample_id)" by (simp add: data_ok_def sig_data_simps)
  have call: "run_call sample_server getPlatformStats = Inr (Some sample_stats)"
    by (simp add: run_call_def request_def getPlatformStats_def api_get_def sample_server_def
        handle_response_def res_ok_def)
  from hooks_follow_description [OF ids data] sample_server_conforms call show ?thesis
    by (simp add: query_defs mutation_defs)
qed

end
