(* ===== verification/Bodies.thy ===== *)
theory Bodies
  imports CallTypes CheckIn Payments LeadPages Subscriptions PlanForms TenantForms UserForms EntityForms
    ScheduleDialogs BulkActions
begin

text \<open>
  The JSON text of what the forms submit, and that it has the type the API function asks for. The
  object a form builds becomes JSON through \<open>JSON.stringify\<close>, which leaves a member out when its value
  is \<open>undefined\<close>. Dates and instants are printed by the browser: \<open>printed\<close> stands for that.
\<close>

definition json_object :: "(string \<times> json option) list \<Rightarrow> json" where
  "json_object ms = JObj (map (\<lambda>(k, v). (k, the v)) (filter (\<lambda>(k, v). v \<noteq> None) ms))"

abbreviation text_or_null :: "string option \<Rightarrow> json" where
  "text_or_null v \<equiv> jopt JStr v"

section \<open>The objects of the forms\<close>

definition ent_json :: "ent_input \<Rightarrow> json" where
  "ent_json e = JObj [(''class_id'', text_or_null (ei_class_id e)), (''quantity'', jopt JNum (ei_quantity e)),
     (''reset_period'', JStr (reset_period_text (ei_reset_period e)))]"

definition plan_json :: "plan_values \<Rightarrow> json" where
  "plan_json v = JObj [(''name'', JStr (pv_name v)), (''description'', text_or_null (pv_description v)),
     (''type'', JStr (plan_type_text (pv_type v))), (''price_cents'', JNum (pv_price_cents v)),
     (''currency'', JStr (pv_currency v)), (''billing_period'', JStr (billing_period_text (pv_billing_period v))),
     (''duration_days'', jopt JNum (pv_duration_days v)), (''custom_attrs'', JObj (pv_custom_attrs v)),
     (''entitlements'', JArr (map ent_json (pv_entitlements v)))]"

definition tenant_json :: "tenant_values \<Rightarrow> json" where
  "tenant_json v = JObj [(''slug'', JStr (tv_slug v)), (''name'', JStr (tv_name v)),
     (''logo_url'', text_or_null (tv_logo_url v)), (''phone'', JStr (tv_phone v)), (''email'', JStr (tv_email v)),
     (''website'', JStr (tv_website v)), (''address_street'', JStr (tv_address_street v)),
     (''address_city'', JStr (tv_address_city v)), (''address_country'', JStr (tv_address_country v)),
     (''address_postal_code'', JStr (tv_address_postal_code v)), (''legal_name'', JStr (tv_legal_name v)),
     (''tax_id'', JStr (tv_tax_id v)), (''timezone'', JStr (tv_timezone v)), (''currency'', JStr (tv_currency v)),
     (''locale'', JStr (tv_locale v))]"

definition create_user_json :: "create_user_body \<Rightarrow> json" where
  "create_user_json b = JObj [(''email'', JStr (cu_email b)), (''password'', text_or_null (cu_password b)),
     (''role'', JStr (role_text (cu_role b))), (''tenant_id'', JStr (cu_tenant_id b)),
     (''first_name'', text_or_null (cu_first_name b)), (''last_name'', text_or_null (cu_last_name b)),
     (''phone'', text_or_null (cu_phone b))]"

definition user_patch_json :: "user_patch \<Rightarrow> json" where
  "user_patch_json p = json_object [(''first_name'', map_option text_or_null (up_first_name p)),
     (''last_name'', map_option text_or_null (up_last_name p)), (''email'', map_option JStr (up_email p)),
     (''phone'', map_option text_or_null (up_phone p)), (''role'', map_option (\<lambda>r. JStr (role_text r)) (up_role p)),
     (''is_active'', map_option JBool (up_is_active p)), (''password'', map_option JStr (up_password p))]"

definition member_json :: "member_form \<Rightarrow> json" where
  "member_json v = JObj [(''first_name'', JStr (mm_first_name v)), (''last_name'', JStr (mm_last_name v)),
     (''phone'', JStr (mm_phone v)), (''email'', text_or_null (mm_email v)),
     (''date_of_birth'', text_or_null (mm_date_of_birth v)), (''gender'', text_or_null (mm_gender v)),
     (''join_date'', text_or_null (mm_join_date v)), (''notes'', text_or_null (mm_notes v)),
     (''custom_fields'', JObj (mm_custom_fields v))]"

definition class_json :: "class_values \<Rightarrow> json" where
  "class_json v = JObj [(''name'', JStr (cv_name v)), (''description'', text_or_null (cv_description v)),
     (''color'', text_or_null (cv_color v))]"

definition coach_json :: "coach_values \<Rightarrow> json" where
  "coach_json v = JObj [(''first_name'', JStr (vc_first_name v)), (''last_name'', JStr (vc_last_name v)),
     (''phone'', text_or_null (vc_phone v)), (''email'', text_or_null (vc_email v))]"

definition invite_json :: "string \<Rightarrow> string \<Rightarrow> json" where
  "invite_json email password = JObj [(''email'', JStr email), (''password'', JStr password)]"

definition assign_json :: "assign_body \<Rightarrow> json" where
  "assign_json b = JObj [(''coach_id'', JStr (ab_coach_id b)), (''role'', JStr (ab_role b)),
     (''is_primary'', JBool (ab_is_primary b)), (''pay_model'', JStr (pay_model_text (ab_pay_model b))),
     (''pay_amount_cents'', JNum (ab_pay_amount_cents b)), (''weekdays'', JArr (map JStr (ab_weekdays b)))]"

definition template_json :: "template_body \<Rightarrow> json" where
  "template_json b = JObj [(''class_id'', JStr (tb_class_id b)), (''weekdays'', JArr (map JStr (tb_weekdays b))),
     (''start_time'', JStr (tb_start_time b)), (''end_time'', JStr (tb_end_time b)),
     (''head_coach_id'', JStr (tb_head_coach_id b)), (''assistant_coach_id'', text_or_null (tb_assistant_coach_id b))]"

definition adhoc_json :: "(int \<Rightarrow> string) \<Rightarrow> adhoc_body \<Rightarrow> json" where
  "adhoc_json printed b = JObj [(''class_id'', JStr (ad_class_id b)), (''starts_at'', JStr (printed (ad_starts_at b))),
     (''ends_at'', JStr (printed (ad_ends_at b))), (''head_coach_id'', text_or_null (ad_head_coach_id b)),
     (''assistant_coach_id'', text_or_null (ad_assistant_coach_id b)), (''notes'', text_or_null (ad_notes b))]"

fun bulk_action_text :: "bulk_action \<Rightarrow> string" where
  "bulk_action_text BK_cancel = ''cancel''"
| "bulk_action_text BK_swap_coach = ''swap_coach''"

definition bulk_json :: "bulk_body \<Rightarrow> json" where
  "bulk_json b = JObj [(''class_id'', JStr (bb_class_id b)), (''from'', JStr (bb_from b)), (''to'', JStr (bb_to b)),
     (''action'', JStr (bulk_action_text (bb_action b))), (''new_coach_id'', text_or_null (bb_new_coach_id b)),
     (''reason'', text_or_null (bb_reason b)),
     (''substitute_pay_model'', jopt (\<lambda>m. JStr (pay_model_text m)) (bb_substitute_pay_model b)),
     (''substitute_pay_amount_cents'', jopt JNum (bb_substitute_pay_amount_cents b))]"

fun panel_hook :: "panel_request \<Rightarrow> mutation_hook" where
  "panel_hook (SwapHead sessionId coachId) = UseUpdateSession sessionId (JObj [(''head_coach_id'', JStr coachId)])"
| "panel_hook (CancelSession sessionId reason) = UseCancelSession sessionId (JObj [(''reason'', text_or_null reason)])"

definition features_json :: "flags \<Rightarrow> json" where
  "features_json flags = JObj (map (\<lambda>(k, b). (k, JBool b)) flags)"

definition record_json :: "(int \<Rightarrow> string) \<Rightarrow> record_payload \<Rightarrow> json" where
  "record_json printed p = JObj [(''member_id'', JStr (rp_member_id p)), (''amount_cents'', JNum (rp_amount_cents p)),
     (''payment_method'', JStr (payment_method_text (rp_payment_method p))),
     (''paid_at'', JStr (case rp_paid_at p of None \<Rightarrow> [] | Some d \<Rightarrow> printed d)),
     (''subscription_id'', text_or_null (rp_subscription_id p)), (''notes'', text_or_null (rp_notes p)),
     (''backdate'', JBool (rp_backdate p))]"

definition refund_json :: "int \<times> string option \<Rightarrow> json" where
  "refund_json r = JObj [(''amount_cents'', JNum (fst r)), (''reason'', text_or_null (snd r))]"

section \<open>Their types\<close>

lemma conforms_nullable: "(\<And>x. conforms t (f x)) \<Longrightarrow> conforms (nullable t) (jopt f v)"
  by (cases v) (simp_all add: jopt_def)

lemma text_types:
  "conforms PlanType (JStr (plan_type_text pt))" "conforms BillingPeriod (JStr (billing_period_text bp))"
  "conforms ResetPeriod (JStr (reset_period_text rp))" "conforms Role (JStr (role_text r))"
  "conforms PayModel (JStr (pay_model_text pm))" "conforms PaymentMethod (JStr (payment_method_text pay))"
  "conforms LeadStatus (JStr (lead_status_text ls))" "conforms LeadSource (JStr (lead_source_text src))"
  "conforms LeadActivityType (JStr (lead_activity_type_text la))"
  "bulk_action_text ba = ''cancel'' \<or> bulk_action_text ba = ''swap_coach''"
  by (cases pt, auto simp: PlanType_def) (cases bp, auto simp: BillingPeriod_def,
      cases rp, auto simp: ResetPeriod_def, cases r, auto simp: Role_def, cases pm, auto simp: PayModel_def,
      cases pay, auto simp: PaymentMethod_def, cases ls, auto simp: LeadStatus_def,
      cases src, auto simp: LeadSource_def, cases la, auto simp: LeadActivityType_def, cases ba, auto)

lemma bodies_conform:
  "conforms LoginRequest (login_body lp)"
  "conforms RecordEntryRequest (entry_body memberId classId override reason)"
  "conforms UndoEntryRequest (JObj [(''reason'', JNull)])"
  "conforms SetStatusRequest (status_body st lost)"
  "conforms CreateLeadRequest (lead_values lf)" "conforms UpdateLeadRequest (lead_values lf)"
  "conforms ConvertLeadRequest (convert_body cd)"
  "conforms AddActivityRequest (activity_body ty note)"
  "conforms CreateSubscriptionRequest (enroll_body memberId en)"
  "conforms FreezeSubscriptionRequest (freeze_body til)"
  "conforms RenewSubscriptionRequest (renew_body pay rn)"
  "conforms ChangePlanRequest (change_body plan day)"
  "conforms CancelSubscriptionRequest (cancel_body why detail)"
  by (simp_all add: LoginRequest_def login_body_def RecordEntryRequest_def entry_body_def UndoEntryRequest_def
      SetStatusRequest_def status_body_def CreateLeadRequest_def UpdateLeadRequest_def lead_values_def
      ConvertLeadRequest_def convert_body_def AddActivityRequest_def activity_body_def
      CreateSubscriptionRequest_def enroll_body_def FreezeSubscriptionRequest_def freeze_body_def
      RenewSubscriptionRequest_def renew_body_def ChangePlanRequest_def change_body_def
      CancelSubscriptionRequest_def cancel_body_def text_types jopt_def split: option.split)

lemma objects_conform:
  "conforms CreatePlanRequest (plan_json pv)" "conforms UpdatePlanRequest (plan_json pv)"
  "conforms CreateTenantRequest (tenant_json tv)" "conforms UpdateTenantRequest (tenant_json tv)"
  "conforms CreateUserRequest (create_user_json cu)"
  "conforms CreateMemberRequest (member_json mv)" "conforms UpdateMemberRequest (member_json mv)"
  "conforms CreateGymClassRequest (class_json cv)" "conforms UpdateGymClassRequest (class_json cv)"
  "conforms CreateCoachRequest (coach_json vc)" "conforms UpdateCoachRequest (coach_json vc)"
  "conforms InviteCoachUserRequest (invite_json email password)"
  "conforms AssignCoachRequest (assign_json ab)"
  "conforms CreateTemplateRequest (template_json tb)"
  "conforms CreateAdHocSessionRequest (adhoc_json printed ad)"
  "conforms BulkActionRequest (bulk_json bb)"
  "conforms RecordPaymentRequest (record_json printed rp)"
  "conforms RefundPaymentRequest (refund_json rf)"
  by (simp_all add: CreatePlanRequest_def UpdatePlanRequest_def plan_json_def EntitlementInputSchema_def ent_json_def
      CreateTenantRequest_def UpdateTenantRequest_def tenant_json_def CreateUserRequest_def create_user_json_def
      CreateMemberRequest_def UpdateMemberRequest_def member_json_def CreateGymClassRequest_def
      UpdateGymClassRequest_def class_json_def CreateCoachRequest_def UpdateCoachRequest_def coach_json_def
      InviteCoachUserRequest_def invite_json_def AssignCoachRequest_def assign_json_def CreateTemplateRequest_def
      template_json_def CreateAdHocSessionRequest_def adhoc_json_def BulkActionRequest_def bulk_json_def
      RecordPaymentRequest_def record_json_def RefundPaymentRequest_def refund_json_def
      text_types jopt_def list_all_iff split: option.split)

lemma map_of_json_object:
  assumes "distinct (map fst ms)"
  shows "map_of (map (\<lambda>(k, v). (k, the v)) (filter (\<lambda>(k, v). v \<noteq> None) ms)) k = Option.bind (map_of ms k) id"
  using assms
proof (induction ms)
  case (Cons m ms)
  then have "fst m \<notin> fst ` set ms" by simp
  then have "map_of ms (fst m) = None" by (simp add: map_of_eq_None_iff)
  with Cons show ?case by (cases m) auto
qed simp

lemma user_patch_conforms: "conforms UpdateUserRequest (user_patch_json p)"
proof -
  have keys: "distinct (map fst [(''first_name'', map_option text_or_null (up_first_name p)),
     (''last_name'', map_option text_or_null (up_last_name p)), (''email'', map_option JStr (up_email p)),
     (''phone'', map_option text_or_null (up_phone p)), (''role'', map_option (\<lambda>r. JStr (role_text r)) (up_role p)),
     (''is_active'', map_option JBool (up_is_active p)), (''password'', map_option JStr (up_password p))])"
    by simp
  show ?thesis
    unfolding user_patch_json_def json_object_def UpdateUserRequest_def conforms.simps json.case list.pred_inject
      has_member.simps map_of_json_object [OF keys]
    by (simp add: jopt_def text_types split: option.split)
qed

section \<open>No undeclared members\<close>

text \<open>The members of a body that its type does not declare: the server drops them.\<close>

definition member_names :: "ts_type \<Rightarrow> string list" where
  "member_names t = (case t of TObj ms \<Rightarrow> map member_name ms | _ \<Rightarrow> [])"

definition undeclared :: "mutation_hook \<Rightarrow> string list" where
  "undeclared m = (case (mutation_data m, sig_data (mutation_sig m)) of
     (Some (JObj kvs), Some t) \<Rightarrow> filter (\<lambda>k. k \<notin> set (member_names t)) (map fst kvs)
   | _ \<Rightarrow> [])"

definition exact :: "mutation_hook \<Rightarrow> bool" where
  "exact m \<longleftrightarrow> data_ok m \<and> undeclared m = []"

lemmas request_defs = LoginRequest_def RecordEntryRequest_def UndoEntryRequest_def SetStatusRequest_def
  CreateLeadRequest_def UpdateLeadRequest_def ConvertLeadRequest_def AddActivityRequest_def
  CreateSubscriptionRequest_def FreezeSubscriptionRequest_def RenewSubscriptionRequest_def ChangePlanRequest_def
  CancelSubscriptionRequest_def CreatePlanRequest_def UpdatePlanRequest_def CreateTenantRequest_def
  UpdateTenantRequest_def CreateUserRequest_def UpdateUserRequest_def CreateMemberRequest_def
  UpdateMemberRequest_def CreateGymClassRequest_def UpdateGymClassRequest_def CreateCoachRequest_def
  UpdateCoachRequest_def InviteCoachUserRequest_def AssignCoachRequest_def CreateTemplateRequest_def
  CreateAdHocSessionRequest_def BulkActionRequest_def RecordPaymentRequest_def RefundPaymentRequest_def
  UpdateSessionRequest_def CancelSessionRequest_def UpdateTenantFeaturesRequest_def

lemmas body_defs = entry_body_def status_body_def lead_values_def convert_body_def activity_body_def enroll_body_def
  freeze_body_def renew_body_def change_body_def cancel_body_def plan_json_def tenant_json_def create_user_json_def
  member_json_def class_json_def coach_json_def invite_json_def assign_json_def template_json_def adhoc_json_def
  bulk_json_def record_json_def refund_json_def

text \<open>Every body, on the hook its page hands it to. Two updates carry a member that their type does not
  declare, \<open>slug\<close> and \<open>join_date\<close>.\<close>

lemma sent_data_ok:
  "data_ok (UseRecordEntry (entry_body memberId classId override reason))"
  "data_ok (UseUndoEntry i (JObj [(''reason'', JNull)]))"
  "data_ok (UseSetLeadStatus i (status_body st lost))"
  "data_ok (UseCreateLead (lead_values lf))"
  "data_ok (UseUpdateLead i (lead_values lf))"
  "data_ok (UseConvertLead i (convert_body cd))"
  "data_ok (UseAddActivity i (activity_body ty note))"
  "data_ok (UseCreateSubscription (enroll_body memberId en))"
  "data_ok (UseFreezeSubscription i (freeze_body til))"
  "data_ok (UseRenewSubscription i (renew_body pay rn))"
  "data_ok (UseChangePlan i (change_body plan day))"
  "data_ok (UseCancelSubscription i (cancel_body why detail))"
  "data_ok (UseCreatePlan (plan_json pv))"
  "data_ok (UseUpdatePlan i (plan_json pv))"
  "data_ok (UseCreateTenant (tenant_json tv))"
  "data_ok (UseCreateUser t (create_user_json cu))"
  "data_ok (UseUpdateUser t i (user_patch_json up))"
  "data_ok (UseCreateMember (member_json mv))"
  "data_ok (UseCreateClass (class_json cv))"
  "data_ok (UseUpdateClass i (class_json cv))"
  "data_ok (UseCreateCoach (coach_json vc))"
  "data_ok (UseUpdateCoach i (coach_json vc))"
  "data_ok (UseInviteCoachUser i (invite_json email password))"
  "data_ok (UseAssignCoachToClass i (assign_json ab))"
  "data_ok (UseCreateTemplate (template_json tb))"
  "data_ok (UseCreateAdHocSession (adhoc_json printed ad))"
  "data_ok (UseBulkAction (bulk_json bb))"
  "data_ok (UseRecordPayment (record_json printed rp))"
  "data_ok (UseRefundPayment i (refund_json rf))"
  "data_ok (UseUpdateTenant i (tenant_json tv))"
  "data_ok (UseUpdateMember i (member_json mv))"
  by (simp_all add: data_ok_def sig_data_simps bodies_conform objects_conform user_patch_conforms)

lemma patch_undeclared: "undeclared (UseUpdateUser t i (user_patch_json up)) = []"
  by (auto simp: undeclared_def sig_data_simps member_names_def UpdateUserRequest_def filter_empty_conv
      user_patch_json_def json_object_def)

text \<open>The session panel and the feature switches.\<close>

lemma panel_exact: "exact (panel_hook r)"
  by (cases r) (simp_all add: exact_def data_ok_def undeclared_def sig_data_simps member_names_def
      UpdateSessionRequest_def CancelSessionRequest_def jopt_def split: option.split)

lemma pending_keys:
  "fst ` set (fs_pending (fold (toggle_flag features) ks s)) = set ks \<union> fst ` set (fs_pending s)"
proof (induction ks arbitrary: s)
  case (Cons k ks)
  have "fst ` set (AList.update k v al) = insert k (fst ` set al)" for v and al :: flags
    using dom_map_of_conv_image_fst [of "AList.update k v al"] dom_map_of_conv_image_fst [of al]
    by (simp add: update_conv')
  with Cons show ?case by (simp add: toggle_flag_def)
qed simp

lemma features_exact:
  assumes "fst ` set flags \<subseteq> set (map feature_text GATED_FEATURES)"
  shows "exact (UseUpdateTenantFeatures i (features_json flags))"
proof -
  have "map_of (map (\<lambda>(k, b). (k, JBool b)) flags) k = map_option JBool (map_of flags k)" for k
    by (induction flags) auto
  moreover have "filter (\<lambda>k. k \<notin> {''coaches'', ''schedule'', ''leads''}) (map fst (map (\<lambda>(k, b). (k, JBool b)) flags)) = []"
  proof -
    have "set (map fst (map (\<lambda>(k, b). (k, JBool b)) flags)) = fst ` set flags" by force
    with assms [unfolded gated_texts] show ?thesis unfolding filter_empty_conv by blast
  qed
  ultimately show ?thesis
    by (simp add: exact_def data_ok_def undeclared_def sig_data_simps member_names_def features_json_def
        UpdateTenantFeaturesRequest_def insert_commute split: option.split)
qed

lemma sent_undeclared:
  "undeclared (UseRecordEntry (entry_body memberId classId override reason)) = []"
  "undeclared (UseUndoEntry i (JObj [(''reason'', JNull)])) = []"
  "undeclared (UseSetLeadStatus i (status_body st lost)) = []"
  "undeclared (UseCreateLead (lead_values lf)) = []"
  "undeclared (UseUpdateLead i (lead_values lf)) = []"
  "undeclared (UseConvertLead i (convert_body cd)) = []"
  "undeclared (UseAddActivity i (activity_body ty note)) = []"
  "undeclared (UseCreateSubscription (enroll_body memberId en)) = []"
  "undeclared (UseFreezeSubscription i (freeze_body til)) = []"
  "undeclared (UseRenewSubscription i (renew_body pay rn)) = []"
  "undeclared (UseChangePlan i (change_body plan day)) = []"
  "undeclared (UseCancelSubscription i (cancel_body why detail)) = []"
  "undeclared (UseCreatePlan (plan_json pv)) = []"
  "undeclared (UseUpdatePlan i (plan_json pv)) = []"
  "undeclared (UseCreateTenant (tenant_json tv)) = []"
  "undeclared (UseCreateUser t (create_user_json cu)) = []"
  "undeclared (UseCreateMember (member_json mv)) = []"
  "undeclared (UseCreateClass (class_json cv)) = []"
  "undeclared (UseUpdateClass i (class_json cv)) = []"
  "undeclared (UseCreateCoach (coach_json vc)) = []"
  "undeclared (UseUpdateCoach i (coach_json vc)) = []"
  "undeclared (UseInviteCoachUser i (invite_json email password)) = []"
  "undeclared (UseAssignCoachToClass i (assign_json ab)) = []"
  "undeclared (UseCreateTemplate (template_json tb)) = []"
  "undeclared (UseCreateAdHocSession (adhoc_json printed ad)) = []"
  "undeclared (UseBulkAction (bulk_json bb)) = []"
  "undeclared (UseRecordPayment (record_json printed rp)) = []"
  "undeclared (UseRefundPayment i (refund_json rf)) = []"
  "undeclared (UseUpdateTenant i (tenant_json tv)) = [''slug'']"
  "undeclared (UseUpdateMember i (member_json mv)) = [''join_date'']"
  by (simp_all add: undeclared_def sig_data_simps member_names_def body_defs request_defs)

text \<open>C24: whatever a form holds, the JSON it sends has the type of the operation it is sent to and no
  member that type does not declare, so the whole request is one the description declares (the
  identifier in its path being a UUID). The two exceptions are exact: the edit form of a gym also
  sends its slug and the edit form of a member its join date, which the server drops; both requests
  are still typed.\<close>

theorem forms_send_typed_data:
  assumes "is_uuid i" and "set keys \<subseteq> set (map feature_text GATED_FEATURES)"
  shows "list_all (\<lambda>m. typed_call (mutation_sig m) (mu_call (mutation_of m)) \<and> undeclared m = [])
     [UseRecordEntry (entry_body memberId classId override reason),
      UseUndoEntry i (JObj [(''reason'', JNull)]),
      UseSetLeadStatus i (status_body st lost),
      UseCreateLead (lead_values lf),
      UseUpdateLead i (lead_values lf),
      UseConvertLead i (convert_body cd),
      UseAddActivity i (activity_body ty note),
      UseCreateSubscription (enroll_body memberId en),
      UseFreezeSubscription i (freeze_body til),
      UseRenewSubscription i (renew_body pay rn),
      UseChangePlan i (change_body plan day),
      UseCancelSubscription i (cancel_body why detail),
      UseCreatePlan (plan_json pv),
      UseUpdatePlan i (plan_json pv),
      UseCreateTenant (tenant_json tv),
      UseCreateUser t (create_user_json cu),
      UseCreateMember (member_json mv),
      UseCreateClass (class_json cv),
      UseUpdateClass i (class_json cv),
      UseCreateCoach (coach_json vc),
      UseUpdateCoach i (coach_json vc),
      UseInviteCoachUser i (invite_json email password),
      UseAssignCoachToClass i (assign_json ab),
      UseCreateTemplate (template_json tb),
      UseCreateAdHocSession (adhoc_json printed ad),
      UseBulkAction (bulk_json bb),
      UseRecordPayment (record_json printed rp),
      UseRefundPayment i (refund_json rf),
      UseUpdateUser t i (user_patch_json up),
      UseUpdateTenantFeatures i (features_json (fs_pending (fold (toggle_flag features) keys \<lparr>fs_pending = []\<rparr>)))]
   \<and> list_all (\<lambda>r. typed_call (mutation_sig (panel_hook r)) (mu_call (mutation_of (panel_hook r)))
        \<and> undeclared (panel_hook r) = [])
      [SwapHead i coachId, CancelSession i lost]
   \<and> list_all (\<lambda>m. typed_call (mutation_sig m) (mu_call (mutation_of m)))
      [UseUpdateTenant i (tenant_json tv), UseUpdateMember i (member_json mv)]
   \<and> undeclared (UseUpdateTenant i (tenant_json tv)) = [''slug'']
   \<and> undeclared (UseUpdateMember i (member_json mv)) = [''join_date'']"
proof -
  have "fst ` set (fs_pending (fold (toggle_flag features) keys \<lparr>fs_pending = []\<rparr>)) \<subseteq> set (map feature_text GATED_FEATURES)"
    using assms(2) by (simp add: pending_keys)
  note exact = features_exact [OF this, of i] panel_exact [of "SwapHead i coachId"] panel_exact [of "CancelSession i lost"]
  have typed: "typed_call (mutation_sig m) (mu_call (mutation_of m))"
    if "data_ok m" "list_all is_uuid (mutation_ids m)" for m
    using mutation_typed [OF that(2, 1)] .
  show ?thesis
    unfolding list.pred_inject
    using exact assms(1) by (simp add: exact_def typed sent_data_ok sent_undeclared patch_undeclared
        del: mutation_of.simps mutation_sig.simps)
qed

theorem forms_send_typed_data_witness:
  "typed_call cancelSubscription_sig (cancelSubscription sample_id (cancel_body ''injury'' []))
   \<and> typed_call updateTenantFeatures_sig (updateTenantFeatures sample_id (JObj [(''leads'', JBool True)]))
   \<and> undeclared (UseCancelSubscription sample_id (cancel_body ''injury'' [])) = []"
proof -
  have keys: "set [''leads''] \<subseteq> set (map feature_text GATED_FEATURES)"
    unfolding gated_texts by simp
  have pending: "fs_pending (fold (toggle_flag []) [''leads''] \<lparr>fs_pending = []\<rparr>) = [(''leads'', True)]"
    by (simp add: toggle_flag_def switch_on_def effective_flags_def nullish_def)
  have ident: "is_uuid sample_id" by (simp add: is_uuid_def sample_id_def)
  from forms_send_typed_data [OF ident keys, where features = "[]" and why = "''injury''" and detail = "[]"]
  show ?thesis
    unfolding list.pred_inject pending by (simp add: mutation_defs features_json_def)
qed

end
