(* ===== verification/FormInputs.thy ===== *)
theory FormInputs
  imports Bodies
begin

text \<open>
  What the browser checks in the inputs of the forms against what the server's schemas demand of the
  same values (the \<open>Field\<close> bounds of \<^verbatim>\<open>backend/app/api/v1/*/schemas.py\<close>). An input is what its element
  declares and the text it holds; number inputs are treated where their numbers are
  (\<^verbatim>\<open>PlanForms\<close>, \<^verbatim>\<open>Payments\<close>). A \<open>char\<close> is one character of a text here.
\<close>

section \<open>Inputs\<close>

datatype input_kind = TextBox | EmailBox | TelBox | UrlBox | PasswordBox | DateBox | TimeBox | ColorBox
  | TextArea | SelectBox "string list"

record input =
  in_kind :: input_kind
  in_required :: bool
  in_minLength :: "nat option"
  in_maxLength :: "nat option"
  in_value :: string

definition plain_input :: "input_kind \<Rightarrow> bool \<Rightarrow> string \<Rightarrow> input" where
  "plain_input k req v = \<lparr>in_kind = k, in_required = req, in_minLength = None, in_maxLength = None, in_value = v\<rparr>"

text \<open>The grammar of an address in the HTML standard: one \<open>@\<close>, labels of at most 63 letters, digits and
  inner hyphens, separated by dots; a single label will do.\<close>

definition is_alnum :: "char \<Rightarrow> bool" where
  "is_alnum c \<longleftrightarrow> c \<in> set ''abcdefghijklmnopqrstuvwxyzABCDEFGHIJKLMNOPQRSTUVWXYZ0123456789''"

definition label_ok :: "string \<Rightarrow> bool" where
  "label_ok s \<longleftrightarrow> s \<noteq> [] \<and> length s \<le> 63 \<and> is_alnum (hd s) \<and> is_alnum (last s)
     \<and> list_all (\<lambda>c. is_alnum c \<or> c = CHR ''-'') s"

definition html_email :: "string \<Rightarrow> bool" where
  "html_email s \<longleftrightarrow> (let user = takeWhile (\<lambda>c. c \<noteq> CHR ''@'') s; host = drop (length user) s in
     user \<noteq> [] \<and> list_all (\<lambda>c. is_alnum c \<or> c \<in> set (CHR 0x60 # ''.!#$%&*+/=?^_{|}~-'') \<or> c = CHR 0x27) user
     \<and> host \<noteq> [] \<and> list_all label_ok (split_on (CHR ''.'') (tl host)))"

definition iso_date :: "string \<Rightarrow> bool" where
  "iso_date s \<longleftrightarrow> length s = 10 \<and> list_all (\<lambda>c. c \<in> set ''0123456789-'') s"

definition clock_text :: "string \<Rightarrow> bool" where
  "clock_text s \<longleftrightarrow> length s = 5 \<and> list_all (\<lambda>c. c \<in> set ''0123456789:'') s"

text \<open>
  The browser submits when every input is valid. A \<open>maxLength\<close> stops the typing, a date input holds
  a date or nothing, a select one of its options. Which texts are addresses of pages is the
  browser's: \<open>url\<close>.
\<close>

definition kind_ok :: "(string \<Rightarrow> bool) \<Rightarrow> input_kind \<Rightarrow> string \<Rightarrow> bool" where
  "kind_ok url k v \<longleftrightarrow> (case k of
     EmailBox \<Rightarrow> v = [] \<or> html_email v
   | UrlBox \<Rightarrow> v = [] \<or> url v
   | DateBox \<Rightarrow> v = [] \<or> iso_date v
   | TimeBox \<Rightarrow> v = [] \<or> clock_text v
   | ColorBox \<Rightarrow> v = [] \<or> is_hex_color v
   | SelectBox opts \<Rightarrow> v \<in> set opts
   | _ \<Rightarrow> True)"

definition input_valid :: "(string \<Rightarrow> bool) \<Rightarrow> input \<Rightarrow> bool" where
  "input_valid url i \<longleftrightarrow> (in_required i \<longrightarrow> in_value i \<noteq> []) \<and> kind_ok url (in_kind i) (in_value i)
     \<and> (case in_minLength i of None \<Rightarrow> True | Some n \<Rightarrow> in_value i = [] \<or> n \<le> length (in_value i))
     \<and> (case in_maxLength i of None \<Rightarrow> True | Some n \<Rightarrow> length (in_value i) \<le> n)"

section \<open>The inputs of each form\<close>

definition member_inputs :: "member_form \<Rightarrow> input list" where
  [view_defs]: "member_inputs f =
     [plain_input TextBox True (mm_first_name f),
      plain_input TextBox True (mm_last_name f),
      plain_input (SelectBox [[], ''female'', ''male'', ''other'']) False (nullish (mm_gender f) []),
      plain_input DateBox False (nullish (mm_date_of_birth f) []),
      plain_input TelBox True (mm_phone f),
      plain_input EmailBox False (nullish (mm_email f) []),
      plain_input DateBox False (nullish (mm_join_date f) []),
      plain_input TextArea False (nullish (mm_notes f) [])]"

definition class_inputs :: "class_form \<Rightarrow> input list" where
  [view_defs]: "class_inputs f =
     [(plain_input TextBox True (cf_name f))\<lparr>in_maxLength := Some 100\<rparr>,
      plain_input TextArea False (cf_description f),
      plain_input ColorBox False (color_input_value (cf_color f))]"

definition coach_inputs :: "coach_form \<Rightarrow> input list" where
  [view_defs]: "coach_inputs f =
     [plain_input TextBox True (fc_first_name f),
      plain_input TextBox True (fc_last_name f),
      plain_input TelBox False (fc_phone f),
      plain_input EmailBox False (fc_email f)]"

definition invite_inputs :: "coach_page \<Rightarrow> input list" where
  [view_defs]: "invite_inputs p =
     [plain_input EmailBox True (cp_email p),
      (plain_input PasswordBox True (cp_password p))\<lparr>in_minLength := Some 8\<rparr>]"

definition lead_inputs :: "lead_form \<Rightarrow> input list" where
  [view_defs]: "lead_inputs f =
     [plain_input TextBox True (lfm_firstName f),
      plain_input TextBox True (lfm_lastName f),
      plain_input TelBox True (lfm_phone f),
      plain_input EmailBox False (lfm_email f),
      plain_input (SelectBox (map lead_source_text [LO_walk_in, LO_website, LO_referral, LO_social_media, LO_ad, LO_other]))
        False (lead_source_text (lfm_source f)),
      plain_input TextArea False (lfm_notes f)]"

definition convert_inputs :: "membership_plan list option \<Rightarrow> convert_dialog \<Rightarrow> input list" where
  [view_defs]: "convert_inputs plans d =
     [plain_input (SelectBox ([] # map p_id (activePlans plans))) True (cd_planId d),
      plain_input DateBox False (cd_startDate d),
      plain_input (SelectBox (map payment_method_text [PM_cash, PM_credit_card, PM_standing_order, PM_other]))
        False (payment_method_text (cd_paymentMethod d))]"

definition ALL_GYM_ROLES :: "role list" where
  "ALL_GYM_ROLES = [R_owner, R_staff, R_sales, R_coach]"

definition create_user_inputs :: "user_form \<Rightarrow> input list" where
  [view_defs]: "create_user_inputs f =
     [plain_input TextBox False (uf_first_name f),
      plain_input TextBox False (uf_last_name f),
      plain_input EmailBox True (uf_email f),
      plain_input TelBox False (uf_phone f),
      (plain_input PasswordBox True (uf_password f))\<lparr>in_minLength := Some 8\<rparr>,
      plain_input (SelectBox (map role_text ALL_GYM_ROLES)) False (role_text (uf_role f))]"

definition edit_user_inputs :: "edit_user \<Rightarrow> input list" where
  [view_defs]: "edit_user_inputs f =
     [plain_input TextBox False (eu_first_name f),
      plain_input TextBox False (eu_last_name f),
      plain_input EmailBox True (eu_email f),
      plain_input TelBox False (eu_phone f),
      plain_input (SelectBox (map role_text ALL_GYM_ROLES)) False (role_text (eu_role f)),
      plain_input (SelectBox [''active'', ''disabled'']) False (if eu_is_active f then ''active'' else ''disabled''),
      (plain_input PasswordBox False (eu_password f))
        \<lparr>in_minLength := if 0 < length (eu_password f) then Some 8 else None\<rparr>]"

definition login_inputs :: "login_page \<Rightarrow> input list" where
  [view_defs]: "login_inputs p =
     [plain_input EmailBox True (Auth.lp_email p),
      plain_input PasswordBox True (Auth.lp_password p)]"

definition tenant_inputs :: "tenant_form \<Rightarrow> input list" where
  [view_defs]: "tenant_inputs f =
     [plain_input TextBox True (tf_name f),
      plain_input TextBox True (tf_slug f),
      plain_input TelBox False (tf_phone f),
      plain_input EmailBox False (tf_email f),
      plain_input UrlBox False (tf_website f),
      plain_input TextBox False (tf_address_street f),
      plain_input TextBox False (tf_address_city f),
      plain_input TextBox False (tf_address_postal_code f),
      plain_input (SelectBox [''IL'', ''US'', ''GB'']) False (tf_address_country f),
      plain_input TextBox False (tf_legal_name f),
      plain_input TextBox False (tf_tax_id f),
      plain_input (SelectBox [''Asia/Jerusalem'', ''America/New_York'', ''Europe/London'']) False (tf_timezone f),
      plain_input (SelectBox [''ILS'', ''USD'', ''EUR'']) False (tf_currency f)]"

text \<open>The subscription dialogs. The detail of a payment is asked for with two of the methods, and is
  demanded with one.\<close>

definition enroll_inputs :: "membership_plan list option \<Rightarrow> enroll_form \<Rightarrow> input list" where
  [view_defs]: "enroll_inputs plans f =
     [plain_input (SelectBox ([] # map p_id (nullish plans []))) True (en_planId f),
      plain_input DateBox False (en_startedAt f),
      plain_input (SelectBox (map payment_method_text PAYMENT_METHOD_OPTIONS)) True
        (payment_method_text (en_paymentMethod f))]
     @ (if en_paymentMethod f = PM_other
        then [(plain_input TextBox True (en_paymentDetail f))\<lparr>in_maxLength := Some 200\<rparr>] else [])
     @ (if en_paymentMethod f = PM_credit_card
        then [(plain_input TextBox False (en_paymentDetail f))\<lparr>in_maxLength := Some 200\<rparr>] else [])
     @ (if en_paymentMethod f = PM_standing_order then [] else [plain_input DateBox False (en_expiresAt f)])"

definition freeze_inputs :: "string \<Rightarrow> input list" where
  [view_defs]: "freeze_inputs frozenUntil = [plain_input DateBox False frozenUntil]"

definition renew_inputs :: "payment_method \<Rightarrow> renew_form \<Rightarrow> input list" where
  [view_defs]: "renew_inputs current f =
     [plain_input DateBox False (rn_newExpiresAt f),
      plain_input (SelectBox ([] # map payment_method_text PAYMENT_METHOD_OPTIONS)) False
        (case rn_newPaymentMethod f of None \<Rightarrow> [] | Some m \<Rightarrow> payment_method_text m)]
     @ (if methodChanged current f
        then [(plain_input TextBox False (rn_newPaymentDetail f))\<lparr>in_maxLength := Some 200\<rparr>] else [])"

definition change_inputs :: "membership_plan list option \<Rightarrow> string \<Rightarrow> string \<Rightarrow> string \<Rightarrow> input list" where
  [view_defs]: "change_inputs plans currentPlanId newPlanId effectiveDate =
     [plain_input (SelectBox ([] # map p_id (candidatePlans plans currentPlanId))) True newPlanId,
      plain_input DateBox False effectiveDate]"

definition cancel_inputs :: "string \<Rightarrow> string \<Rightarrow> input list" where
  [view_defs]: "cancel_inputs reason detail =
     [plain_input (SelectBox ([] # REASON_OPTIONS)) False reason,
      (plain_input TextArea False detail)\<lparr>in_maxLength := Some 500\<rparr>]"

text \<open>The short dialogs: one text each.\<close>

definition override_inputs :: "string \<Rightarrow> input list" where
  [view_defs]: "override_inputs reason = [(plain_input TextBox False reason)\<lparr>in_maxLength := Some 500\<rparr>]"

definition lost_inputs :: "lost_dialog \<Rightarrow> input list" where
  [view_defs]: "lost_inputs d = [plain_input TextBox False (lg_reason d)]"

definition activity_inputs :: "activity_form \<Rightarrow> input list" where
  [view_defs]: "activity_inputs f = [plain_input TextArea False (af_note f)]"

definition record_text_inputs :: "record_dialog \<Rightarrow> input list" where
  [view_defs]: "record_text_inputs d =
     [plain_input (SelectBox (map payment_method_text [PM_cash, PM_credit_card, PM_standing_order, PM_other])) False
        (payment_method_text (rd_method d)),
      plain_input TextArea False (rd_notes d)]"

definition refund_text_inputs :: "refund_dialog \<Rightarrow> input list" where
  [view_defs]: "refund_text_inputs d = [plain_input TextBox False (rf_reason d)]"

definition panel_inputs :: "session_panel \<Rightarrow> input list" where
  [view_defs]: "panel_inputs p = (if dp_confirm p then [plain_input TextBox False (dp_reason p)] else [])"

definition adhoc_text_inputs :: "adhoc_form \<Rightarrow> input list" where
  [view_defs]: "adhoc_text_inputs f = [plain_input TextArea False (ah_notes f)]"

definition template_text_inputs :: "template_form \<Rightarrow> input list" where
  [view_defs]: "template_text_inputs f =
     [plain_input TimeBox True (te_start f),
      plain_input TimeBox True (te_end f)]"

definition bulk_text_inputs :: "class_coach list option \<Rightarrow> bulk_form \<Rightarrow> input list" where
  [view_defs]: "bulk_text_inputs links f =
     [plain_input DateBox True (bf_from f),
      plain_input DateBox True (bf_to f),
      plain_input (SelectBox [''cancel'', ''swap_coach'']) False (bulk_action_text (bf_action f))]
     @ (if needsSubPay links f
        then [plain_input (SelectBox [''fixed'', ''per_session'', ''per_attendance'']) False (pay_model_text (bf_subPayModel f))]
        else [])
     @ (if bf_action f = BK_cancel then [plain_input TextBox False (bf_reason f)] else [])"

definition assign_text_inputs :: "assign_form \<Rightarrow> input list" where
  [view_defs]: "assign_text_inputs f =
     [plain_input TextBox False (as_role f),
      plain_input (SelectBox [''fixed'', ''per_session'', ''per_attendance'']) False (pay_model_text (as_payModel f))]"

section \<open>The bounds of the server's schemas\<close>

text \<open>A bound of a member; null passes where the type allows null, a missing member always. Which texts
  the server takes for an e-mail address is decided by the \<open>email-validator\<close> package: \<open>email_str\<close>.\<close>

datatype bound = TextLen nat "nat option" | EmailStr | DateText | TimeText | AtLeast int | SlugText

fun bound_ok :: "(string \<Rightarrow> bool) \<Rightarrow> bound \<Rightarrow> json \<Rightarrow> bool" where
  "bound_ok email_str (TextLen lo hi) (JStr s) \<longleftrightarrow> lo \<le> length s \<and> (case hi of None \<Rightarrow> True | Some n \<Rightarrow> length s \<le> n)"
| "bound_ok email_str EmailStr (JStr s) \<longleftrightarrow> email_str s"
| "bound_ok email_str DateText (JStr s) \<longleftrightarrow> iso_date s"
| "bound_ok email_str TimeText (JStr s) \<longleftrightarrow> clock_text (take 5 s) \<and> drop 5 s = '':00''"
| "bound_ok email_str (AtLeast n) (JNum k) \<longleftrightarrow> n \<le> k"
| "bound_ok email_str SlugText (JStr s) \<longleftrightarrow> slug_accepted s"
| "bound_ok email_str b JNull \<longleftrightarrow> True"
| "bound_ok email_str b j \<longleftrightarrow> False"

type_synonym bounds = "(string \<times> bound) list"

definition violated :: "(string \<Rightarrow> bool) \<Rightarrow> bounds \<Rightarrow> json \<Rightarrow> string set" where
  "violated email_str bs j = (case j of
     JObj kvs \<Rightarrow> set (map fst (filter (\<lambda>(k, b). case map_of kvs k of None \<Rightarrow> False | Some v \<Rightarrow> \<not> bound_ok email_str b v) bs))
   | _ \<Rightarrow> set (map fst bs))"

definition member_bounds :: bounds where
  [schema_defs]: "member_bounds = [(''first_name'', TextLen 1 (Some 100)), (''last_name'', TextLen 1 (Some 100)),
     (''phone'', TextLen 3 (Some 30)), (''email'', TextLen 0 (Some 200)), (''date_of_birth'', DateText),
     (''gender'', TextLen 0 (Some 50)), (''join_date'', DateText)]"

definition class_bounds :: bounds where
  [schema_defs]: "class_bounds = [(''name'', TextLen 1 (Some 100)), (''color'', TextLen 0 (Some 20))]"

definition coach_bounds :: bounds where
  [schema_defs]: "coach_bounds = [(''first_name'', TextLen 1 (Some 80)), (''last_name'', TextLen 1 (Some 80)),
     (''phone'', TextLen 0 (Some 30)), (''email'', EmailStr)]"

definition invite_bounds :: bounds where
  [schema_defs]: "invite_bounds = [(''email'', EmailStr), (''password'', TextLen 8 None)]"

definition lead_bounds :: bounds where
  [schema_defs]: "lead_bounds = [(''first_name'', TextLen 1 (Some 80)), (''last_name'', TextLen 1 (Some 80)),
     (''phone'', TextLen 1 (Some 30)), (''email'', EmailStr)]"

definition status_bounds :: bounds where
  [schema_defs]: "status_bounds = [(''lost_reason'', TextLen 0 (Some 500))]"

definition convert_bounds :: bounds where
  [schema_defs]: "convert_bounds = [(''start_date'', DateText)]"

definition activity_bounds :: bounds where
  [schema_defs]: "activity_bounds = [(''note'', TextLen 1 (Some 2000))]"

definition create_user_bounds :: bounds where
  [schema_defs]: "create_user_bounds = [(''email'', EmailStr), (''password'', TextLen 8 None)]"

definition update_user_bounds :: bounds where
  [schema_defs]: "update_user_bounds = [(''email'', EmailStr), (''password'', TextLen 8 None)]"

definition login_bounds :: bounds where
  [schema_defs]: "login_bounds = [(''email'', EmailStr)]"

definition tenant_bounds :: bounds where
  [schema_defs]: "tenant_bounds = [(''slug'', SlugText), (''name'', TextLen 1 (Some 200))]"

definition enroll_bounds :: bounds where
  [schema_defs]: "enroll_bounds = [(''started_at'', DateText), (''expires_at'', DateText),
     (''payment_method_detail'', TextLen 0 (Some 200))]"

definition freeze_bounds :: bounds where
  [schema_defs]: "freeze_bounds = [(''frozen_until'', DateText)]"

definition renew_bounds :: bounds where
  [schema_defs]: "renew_bounds = [(''new_expires_at'', DateText), (''new_payment_method_detail'', TextLen 0 (Some 200))]"

definition change_bounds :: bounds where
  [schema_defs]: "change_bounds = [(''effective_date'', DateText)]"

definition cancel_bounds :: bounds where
  [schema_defs]: "cancel_bounds = [(''reason'', TextLen 0 (Some 64)), (''detail'', TextLen 0 (Some 500))]"

definition entry_bounds :: bounds where
  [schema_defs]: "entry_bounds = [(''override_reason'', TextLen 0 (Some 500))]"

definition record_bounds :: bounds where
  [schema_defs]: "record_bounds = [(''amount_cents'', AtLeast 1), (''paid_at'', DateText), (''notes'', TextLen 0 (Some 2000))]"

definition refund_bounds :: bounds where
  [schema_defs]: "refund_bounds = [(''amount_cents'', AtLeast 1), (''reason'', TextLen 0 (Some 500))]"

definition assign_bounds :: bounds where
  [schema_defs]: "assign_bounds = [(''role'', TextLen 1 (Some 40)), (''pay_amount_cents'', AtLeast 0)]"

definition template_bounds :: bounds where
  [schema_defs]: "template_bounds = [(''start_time'', TimeText), (''end_time'', TimeText)]"

definition adhoc_bounds :: bounds where
  [schema_defs]: "adhoc_bounds = [(''notes'', TextLen 0 (Some 500))]"

definition cancel_session_bounds :: bounds where
  [schema_defs]: "cancel_session_bounds = [(''reason'', TextLen 0 (Some 500))]"

definition bulk_bounds :: bounds where
  [schema_defs]: "bulk_bounds = [(''from'', DateText), (''to'', DateText), (''reason'', TextLen 0 (Some 500)),
     (''substitute_pay_amount_cents'', AtLeast 0)]"

section \<open>What can still be refused\<close>

text \<open>The members that some form violates which is in a state the inputs can bring about and which the
  browser lets through.\<close>

definition refusable :: "(string \<Rightarrow> bool) \<Rightarrow> (string \<Rightarrow> bool) \<Rightarrow> ('f \<Rightarrow> bool) \<Rightarrow> ('f \<Rightarrow> input list) \<Rightarrow> bounds \<Rightarrow> ('f \<Rightarrow> json)
    \<Rightarrow> string set" where
  "refusable url email_str reached inputs bs body =
     (\<Union>f \<in> {f. reached f \<and> list_all (input_valid url) (inputs f)}. violated email_str bs (body f))"

text \<open>A member outside \<open>G\<close> keeps its bound in every form that is let through.\<close>

definition keeps :: "(string \<Rightarrow> bool) \<Rightarrow> bounds \<Rightarrow> string set \<Rightarrow> json \<Rightarrow> bool" where
  "keeps email_str bs G j = (case j of
     JObj kvs \<Rightarrow> list_all (\<lambda>(k, b). k \<in> G \<or> (case map_of kvs k of None \<Rightarrow> True | Some v \<Rightarrow> bound_ok email_str b v)) bs
   | _ \<Rightarrow> False)"

lemma keeps_violated: "keeps email_str bs G j \<Longrightarrow> violated email_str bs j \<subseteq> G"
  by (auto simp: keeps_def violated_def list_all_iff split: json.splits option.splits)

lemma refusable_eqI:
  assumes "\<And>f. reached f \<Longrightarrow> list_all (input_valid url) (inputs f) \<Longrightarrow> keeps email_str bs G (body f)"
    and "reached g" "list_all (input_valid url) (inputs g)" "violated email_str bs (body g) = G"
  shows "refusable url email_str reached inputs bs body = G"
proof -
  have "violated email_str bs (body f) \<subseteq> G" if "reached f" "list_all (input_valid url) (inputs f)" for f
    using assms(1) [OF that] by (rule keeps_violated)
  with assms(2-4) show ?thesis unfolding refusable_def by blast
qed

lemma refusable_emptyI:
  assumes "\<And>f. reached f \<Longrightarrow> list_all (input_valid url) (inputs f) \<Longrightarrow> keeps email_str bs {} (body f)"
  shows "refusable url email_str reached inputs bs body = {}"
proof -
  have "violated email_str bs (body f) \<subseteq> {}" if "reached f" "list_all (input_valid url) (inputs f)" for f
    using assms [OF that] by (rule keeps_violated)
  then show ?thesis unfolding refusable_def by blast
qed

lemma bound_ok_jopt: "bound_ok email_str b (jopt JStr v) = (case v of None \<Rightarrow> True | Some s \<Rightarrow> bound_ok email_str b (JStr s))"
  by (cases b; cases v) (simp_all add: jopt_def)

lemmas input_defs = input_valid_def plain_input_def kind_ok_def

lemma violated_obj:
  "violated email_str [] (JObj kvs) = {}"
  "violated email_str ((k, b) # bs) (JObj kvs) =
     (case map_of kvs k of None \<Rightarrow> {} | Some v \<Rightarrow> if bound_ok email_str b v then {} else {k})
     \<union> violated email_str bs (JObj kvs)"
  by (auto simp: violated_def split: option.splits)

text \<open>A colour is picked, or comes from a class that was stored under the same bound.\<close>

lemma class_refusable:
  "refusable url email_str (\<lambda>f. length (cf_color f) \<le> 20) class_inputs class_bounds
    (\<lambda>f. class_json (class_handleSubmit f)) = {}"
proof (rule refusable_emptyI)
  fix f assume "length (cf_color f) \<le> 20" "list_all (input_valid url) (class_inputs f)"
  then show "keeps email_str class_bounds {} (class_json (class_handleSubmit f))"
    by (auto simp: class_inputs_def input_defs class_bounds_def keeps_def class_json_def class_handleSubmit_def
        bound_ok_jopt or_null_def Suc_le_eq split: option.split)
qed

text \<open>An address of a single label, as long as one likes.\<close>

lemma html_email_local:
  assumes "0 < n" shows "html_email (replicate n (CHR ''a'') @ ''@b'')"
proof -
  have alnum: "is_alnum (CHR ''a'')" "is_alnum (CHR ''b'')" by (simp_all add: is_alnum_def)
  have "takeWhile (\<lambda>c. c \<noteq> CHR ''@'') (replicate n (CHR ''a'') @ ''@b'') = replicate n (CHR ''a'')"
    by (subst takeWhile_append2) simp_all
  then show ?thesis
    using assms by (simp add: html_email_def list_all_iff alnum label_ok_def)
qed

text \<open>The form of a new member, filled in.\<close>

definition member_filled :: "member_form \<Rightarrow> bool" where
  "member_filled f \<longleftrightarrow> (\<exists>es. f = fold (\<lambda>(i, v). member_setField i v) es (member_form_init None))"

lemma member_filled_dates:
  assumes "member_filled f"
  shows "mm_date_of_birth f \<noteq> Some [] \<and> mm_join_date f \<noteq> Some []"
proof -
  have "mm_date_of_birth (fold (\<lambda>(i, v). member_setField i v) es f0) \<noteq> Some []
      \<and> mm_join_date (fold (\<lambda>(i, v). member_setField i v) es f0) \<noteq> Some []"
    if "mm_date_of_birth f0 \<noteq> Some [] \<and> mm_join_date f0 \<noteq> Some []" for es f0
    using that
  proof (induction es arbitrary: f0)
    case (Cons e es)
    have "mm_date_of_birth (member_setField i v f0) \<noteq> Some [] \<and> mm_join_date (member_setField i v f0) \<noteq> Some []" for i v
      using Cons.prems by (cases i) simp_all
    with Cons.IH show ?case by (cases e) simp
  qed simp
  moreover have "mm_date_of_birth (member_form_init None) \<noteq> Some [] \<and> mm_join_date (member_form_init None) \<noteq> Some []"
    by (simp add: member_form_init_def)
  ultimately show ?thesis using assms by (auto simp: member_filled_def)
qed

lemma member_refusable:
  "refusable url email_str member_filled member_inputs member_bounds (\<lambda>f. member_json (member_handleSubmit f))
     = {''first_name'', ''last_name'', ''phone'', ''email''}"
proof (rule refusable_eqI)
  let ?long = "replicate 101 (CHR ''a'')" and ?mail = "replicate 200 (CHR ''a'') @ ''@b''"
  let ?g = "fold (\<lambda>(i, v). member_setField i v) [(MI_first_name, ?long), (MI_last_name, ?long), (MI_phone, ''1''),
    (MI_email, ?mail)] (member_form_init None)"
  show "member_filled ?g" unfolding member_filled_def by blast
  show "list_all (input_valid url) (member_inputs ?g)"
    by (simp add: member_inputs_def input_defs nullish_def or_null_def member_form_init_def html_email_local)
  show "violated email_str member_bounds (member_json (member_handleSubmit ?g)) = {''first_name'', ''last_name'', ''phone'', ''email''}"
    by (simp add: member_bounds_def member_json_def member_handleSubmit_def violated_obj jopt_def member_form_init_def
        or_null_def nullish_def) blast
next
  fix f assume "member_filled f" "list_all (input_valid url) (member_inputs f)"
  then show "keeps email_str member_bounds {''first_name'', ''last_name'', ''phone'', ''email''} (member_json (member_handleSubmit f))"
    using member_filled_dates [of f]
    by (cases "mm_date_of_birth f"; cases "mm_join_date f"; cases "mm_gender f")
      (auto simp: member_inputs_def input_defs member_bounds_def member_json_def member_handleSubmit_def keeps_def
        bound_ok_jopt nullish_def)
qed

section \<open>Form by form\<close>

lemma bound_ok_or_null: "bound_ok email_str b (jopt JStr (or_null s)) \<longleftrightarrow> s = [] \<or> bound_ok email_str b (JStr s)"
  by (cases b) (simp_all add: bound_ok_jopt or_null_def)

lemma not_ws_a: "\<not> is_ws (CHR ''a'')"
  by (simp add: is_ws_def)

lemma trim_replicate: assumes "\<not> is_ws c" shows "trim (replicate n c) = replicate n c"
proof -
  have "dropWhile is_ws (replicate n c) = replicate n c" using assms by (cases n) simp_all
  then show ?thesis by (simp add: trim_def)
qed

lemma trim_samples: "trim ''a@b'' = ''a@b''" "trim '' '' = []" "trim ''a'' = ''a''"
  by (simp_all add: trim_def is_ws_def)

lemma html_email_ab: "html_email ''a@b''"
  using html_email_local [of 1] by simp

lemmas refusable_simps = violated_obj bound_ok_or_null or_null_def trim_samples html_email_ab trim_replicate not_ws_a

lemma coach_refusable:
  assumes "\<not> email_str ''a@b''"
  shows "refusable url email_str (\<lambda>f. True) coach_inputs coach_bounds (\<lambda>f. coach_json (coach_handleSubmit f))
    = {''first_name'', ''last_name'', ''phone'', ''email''}"
proof (rule refusable_eqI)
  let ?g = "\<lparr>fc_first_name = '' '', fc_last_name = '' '', fc_phone = replicate 31 (CHR ''a''), fc_email = ''a@b''\<rparr>"
  show "list_all (input_valid url) (coach_inputs ?g)"
    by (simp add: coach_inputs_def input_defs html_email_ab)
  show "violated email_str coach_bounds (coach_json (coach_handleSubmit ?g)) = {''first_name'', ''last_name'', ''phone'', ''email''}"
    using assms by (simp add: coach_bounds_def coach_json_def coach_handleSubmit_def refusable_simps jopt_def) blast
qed (simp_all add: keeps_def coach_json_def coach_bounds_def)

lemma invite_refusable:
  assumes "\<not> email_str ''a@b''"
  shows "refusable url email_str (\<lambda>p. True) invite_inputs invite_bounds (\<lambda>p. invite_json (cp_email p) (cp_password p))
    = {''email''}"
proof (rule refusable_eqI)
  let ?g = "coach_page_init\<lparr>cp_email := ''a@b'', cp_password := replicate 8 (CHR ''a'')\<rparr>"
  show "list_all (input_valid url) (invite_inputs ?g)"
    by (simp add: invite_inputs_def input_defs html_email_ab)
  show "violated email_str invite_bounds (invite_json (cp_email ?g) (cp_password ?g)) = {''email''}"
    using assms by (simp add: invite_bounds_def invite_json_def refusable_simps)
qed (auto simp: keeps_def invite_json_def invite_bounds_def invite_inputs_def input_defs)

lemma lead_refusable:
  assumes "\<not> email_str ''a@b''"
  shows "refusable url email_str (\<lambda>f. True) lead_inputs lead_bounds lead_values
    = {''first_name'', ''last_name'', ''phone'', ''email''}"
proof (rule refusable_eqI)
  let ?g = "\<lparr>lfm_firstName = '' '', lfm_lastName = '' '', lfm_phone = '' '', lfm_email = ''a@b'', lfm_source = LO_ad, lfm_notes = []\<rparr>"
  show "list_all (input_valid url) (lead_inputs ?g)"
    by (simp add: lead_inputs_def input_defs html_email_ab)
  show "violated email_str lead_bounds (lead_values ?g) = {''first_name'', ''last_name'', ''phone'', ''email''}"
    using assms by (simp add: lead_bounds_def lead_values_def refusable_simps jopt_def) blast
qed (simp_all add: keeps_def lead_values_def lead_bounds_def)

text \<open>The start date of a conversion is sent as it stands, also when it was cleared.\<close>

lemma convert_refusable:
  assumes "q \<in> set (activePlans plans)" "p_id q \<noteq> []"
  shows "refusable url email_str (\<lambda>d. True) (convert_inputs plans) convert_bounds convert_body = {''start_date''}"
proof (rule refusable_eqI)
  let ?g = "(convert_init [])\<lparr>cd_planId := p_id q\<rparr>"
  show "list_all (input_valid url) (convert_inputs plans ?g)"
    using assms by (simp add: convert_inputs_def input_defs convert_init_def)
  show "violated email_str convert_bounds (convert_body ?g) = {''start_date''}"
    by (simp add: convert_bounds_def convert_body_def violated_obj convert_init_def iso_date_def)
qed (simp_all add: keeps_def convert_body_def convert_bounds_def)

lemma lost_refusable:
  "refusable url email_str (\<lambda>d. True) lost_inputs status_bounds (\<lambda>d. status_body LD_lost (or_null (trim (lg_reason d))))
    = {''lost_reason''}"
proof (rule refusable_eqI)
  let ?g = "lost_dialog_init\<lparr>lg_reason := replicate 501 (CHR ''a'')\<rparr>"
  show "list_all (input_valid url) (lost_inputs ?g)"
    by (simp add: lost_inputs_def input_defs)
  show "violated email_str status_bounds (status_body LD_lost (or_null (trim (lg_reason ?g)))) = {''lost_reason''}"
    by (simp add: status_bounds_def status_body_def refusable_simps jopt_def)
qed (simp_all add: keeps_def status_body_def status_bounds_def)

lemma activity_refusable:
  "refusable url email_str (\<lambda>f. \<not> activity_disabled f) activity_inputs activity_bounds
    (\<lambda>f. activity_body (af_type f) (trim (af_note f))) = {''note''}"
proof (rule refusable_eqI)
  let ?g = "activity_init\<lparr>af_note := replicate 2001 (CHR ''a'')\<rparr>"
  show "\<not> activity_disabled ?g"
    by (simp add: activity_disabled_def activity_init_def trim_replicate not_ws_a)
  show "list_all (input_valid url) (activity_inputs ?g)"
    by (simp add: activity_inputs_def input_defs)
  show "violated email_str activity_bounds (activity_body (af_type ?g) (trim (af_note ?g))) = {''note''}"
    by (simp add: activity_bounds_def activity_body_def refusable_simps)
qed (simp_all add: keeps_def activity_body_def activity_bounds_def)

lemma create_user_refusable:
  assumes "\<not> email_str ''a@b''"
  shows "refusable url email_str (\<lambda>f. True) create_user_inputs create_user_bounds
    (\<lambda>f. create_user_json (create_user_handleSubmit tenantId f)) = {''email''}"
proof (rule refusable_eqI)
  let ?g = "user_form_init\<lparr>uf_email := ''a@b'', uf_password := replicate 8 (CHR ''a'')\<rparr>"
  show "list_all (input_valid url) (create_user_inputs ?g)"
    by (simp add: create_user_inputs_def input_defs html_email_ab user_form_init_def ALL_GYM_ROLES_def)
  show "violated email_str create_user_bounds (create_user_json (create_user_handleSubmit tenantId ?g)) = {''email''}"
    using assms by (simp add: create_user_bounds_def create_user_json_def create_user_handleSubmit_def refusable_simps jopt_def)
qed (auto simp: keeps_def create_user_json_def create_user_bounds_def create_user_handleSubmit_def create_user_inputs_def
    input_defs bound_ok_or_null)

text \<open>The address is sent when it was changed.\<close>

lemma user_patch_members:
  obtains kvs where "user_patch_json p = JObj kvs" "map_of kvs ''email'' = map_option JStr (up_email p)"
    "map_of kvs ''password'' = map_option JStr (up_password p)"
proof
  let ?ms = "[(''first_name'', map_option text_or_null (up_first_name p)),
      (''last_name'', map_option text_or_null (up_last_name p)), (''email'', map_option JStr (up_email p)),
      (''phone'', map_option text_or_null (up_phone p)), (''role'', map_option (\<lambda>r. JStr (role_text r)) (up_role p)),
      (''is_active'', map_option JBool (up_is_active p)), (''password'', map_option JStr (up_password p))]"
  have keys: "distinct (map fst ?ms)" by simp
  let ?kvs = "map (\<lambda>(k, v). (k, the v)) (filter (\<lambda>(k, v). v \<noteq> None) ?ms)"
  show "user_patch_json p = JObj ?kvs" by (simp only: user_patch_json_def json_object_def)
  show "map_of ?kvs ''email'' = map_option JStr (up_email p)" "map_of ?kvs ''password'' = map_option JStr (up_password p)"
    by (simp_all only: map_of_json_object [OF keys]) simp_all
qed

lemma edit_user_refusable:
  assumes "\<not> email_str ''a@b''" "u_email u \<noteq> ''a@b''"
  shows "refusable url email_str (\<lambda>f. True) edit_user_inputs update_user_bounds
    (\<lambda>f. user_patch_json (edit_user_patch u f)) = {''email''}"
proof (rule refusable_eqI)
  let ?g = "(edit_user_init u)\<lparr>eu_email := ''a@b'', eu_role := R_staff\<rparr>"
  show "list_all (input_valid url) (edit_user_inputs ?g)"
    by (simp add: edit_user_inputs_def input_defs html_email_ab edit_user_init_def ALL_GYM_ROLES_def)
  show "violated email_str update_user_bounds (user_patch_json (edit_user_patch u ?g)) = {''email''}"
    by (rule user_patch_members [of "edit_user_patch u ?g"])
      (use assms in \<open>simp add: update_user_bounds_def violated_obj edit_user_patch_def edit_user_init_def changed_def\<close>)
next
  fix f assume "list_all (input_valid url) (edit_user_inputs f)"
  then show "keeps email_str update_user_bounds {''email''} (user_patch_json (edit_user_patch u f))"
    by (rule_tac user_patch_members [of "edit_user_patch u f"])
      (auto simp: keeps_def update_user_bounds_def edit_user_patch_def edit_user_inputs_def input_defs)
qed simp

lemma login_refusable:
  assumes "\<not> email_str ''a@b''"
  shows "refusable url email_str (\<lambda>p. True) login_inputs login_bounds login_body = {''email''}"
proof (rule refusable_eqI)
  let ?g = "login_page_init\<lparr>Auth.lp_email := ''a@b'', Auth.lp_password := ''a''\<rparr>"
  show "list_all (input_valid url) (login_inputs ?g)"
    by (simp add: login_inputs_def input_defs html_email_ab)
  show "violated email_str login_bounds (login_body ?g) = {''email''}"
    using assms by (simp add: login_bounds_def login_body_def refusable_simps)
qed (simp_all add: keeps_def login_body_def login_bounds_def)

lemma tenant_refusable:
  "refusable url email_str (\<lambda>f. True) tenant_inputs tenant_bounds (\<lambda>f. tenant_json (tenant_handleSubmit f))
    = {''slug'', ''name''}"
proof (rule refusable_eqI)
  let ?g = "(tenant_form_init None)\<lparr>tf_slug := ''a'', tf_name := replicate 201 (CHR ''a'')\<rparr>"
  show "list_all (input_valid url) (tenant_inputs ?g)"
    by (simp add: tenant_inputs_def input_defs tenant_form_init_def nullish_def)
  show "violated email_str tenant_bounds (tenant_json (tenant_handleSubmit ?g)) = {''slug'', ''name''}"
    by (simp add: tenant_bounds_def tenant_json_def tenant_handleSubmit_def violated_obj slug_accepted_def insert_commute)
qed (simp_all add: keeps_def tenant_json_def tenant_bounds_def)

text \<open>Every subscription dialog keeps the bounds; of the detail only when it is at most 200 characters long when the
  method is changed, which its input sees to while it is shown.\<close>

lemma enroll_refusable:
  "refusable url email_str (\<lambda>f. length (en_paymentDetail f) \<le> 200) (enroll_inputs plans) enroll_bounds (enroll_body memberId) = {}"
proof (rule refusable_emptyI)
  fix f assume "length (en_paymentDetail f) \<le> 200" "list_all (input_valid url) (enroll_inputs plans f)"
  then show "keeps email_str enroll_bounds {} (enroll_body memberId f)"
    using trim_length [of "en_paymentDetail f"]
    by (auto simp: enroll_inputs_def input_defs enroll_bounds_def keeps_def enroll_body_def bound_ok_or_null)
qed

lemma freeze_refusable: "refusable url email_str (\<lambda>d. True) freeze_inputs freeze_bounds freeze_body = {}"
  by (rule refusable_emptyI)
    (auto simp: freeze_inputs_def input_defs freeze_bounds_def keeps_def freeze_body_def bound_ok_or_null)

lemma renew_refusable:
  "refusable url email_str (\<lambda>f. True) (renew_inputs current) renew_bounds (renew_body current) = {}"
proof (rule refusable_emptyI)
  fix f assume "list_all (input_valid url) (renew_inputs current f)"
  then show "keeps email_str renew_bounds {} (renew_body current f)"
    using trim_length [of "rn_newPaymentDetail f"]
    by (cases "methodChanged current f")
      (auto simp: renew_inputs_def input_defs renew_bounds_def keeps_def renew_body_def bound_ok_or_null)
qed

lemma change_refusable:
  "refusable url email_str (\<lambda>f. True) (\<lambda>(plan, day). change_inputs plans current plan day) change_bounds
    (\<lambda>(plan, day). change_body plan day) = {}"
  by (rule refusable_emptyI)
    (auto simp: change_inputs_def input_defs change_bounds_def keeps_def change_body_def bound_ok_or_null)

lemma reasons_short: "list_all (\<lambda>r. length r \<le> 64) REASON_OPTIONS"
  by (simp add: REASON_OPTIONS_def)

lemma cancel_refusable:
  "refusable url email_str (\<lambda>f. True) (\<lambda>(reason, detail). cancel_inputs reason detail) cancel_bounds
    (\<lambda>(reason, detail). cancel_body reason detail) = {}"
  using reasons_short by (intro refusable_emptyI)
    (auto simp: cancel_inputs_def input_defs cancel_bounds_def keeps_def cancel_body_def bound_ok_or_null list_all_iff)

lemma override_refusable:
  "refusable url email_str (\<lambda>r. True) override_inputs entry_bounds
    (\<lambda>r. entry_body memberId classId True (override_submit r)) = {}"
proof (rule refusable_emptyI)
  fix r assume "list_all (input_valid url) (override_inputs r)"
  then show "keeps email_str entry_bounds {} (entry_body memberId classId True (override_submit r))"
    using trim_length [of r]
    by (auto simp: override_inputs_def input_defs entry_bounds_def keeps_def entry_body_def override_submit_def bound_ok_or_null)
qed

text \<open>A cleared date of payment is sent as an empty text.\<close>

lemma record_refusable:
  assumes "\<And>d. iso_date (printed d)"
  shows "refusable url email_str (\<lambda>d. record_handleSubmit memberId today a d \<noteq> None) record_text_inputs record_bounds
    (\<lambda>d. record_json printed (the (record_handleSubmit memberId today a d))) = {''paid_at'', ''notes''}"
proof (rule refusable_eqI)
  let ?g = "(record_dialog_init today None)\<lparr>rd_amount := Typed 1, rd_paidAt := None, rd_notes := replicate 2001 (CHR ''a'')\<rparr>"
  have cents: "text_agorot (Typed 1) = 100" using text_agorot_typed [of 100] by simp
  show "record_handleSubmit memberId today a ?g \<noteq> None"
    by (simp add: record_handleSubmit_def cents)
  show "list_all (input_valid url) (record_text_inputs ?g)"
    by (simp add: record_text_inputs_def input_defs record_dialog_init_def nullish_def)
  show "violated email_str record_bounds (record_json printed (the (record_handleSubmit memberId today a ?g))) = {''paid_at'', ''notes''}"
    by (simp add: record_bounds_def record_json_def record_handleSubmit_def cents refusable_simps jopt_def iso_date_def insert_commute)
next
  fix d assume "record_handleSubmit memberId today a d \<noteq> None"
  then show "keeps email_str record_bounds {''paid_at'', ''notes''} (record_json printed (the (record_handleSubmit memberId today a d)))"
    by (auto simp: keeps_def record_bounds_def record_json_def record_handleSubmit_def Let_def split: if_splits)
qed

lemma refund_refusable:
  assumes "100 \<le> remaining data p"
  shows "refusable url email_str (\<lambda>d. refund_handleSubmit data p d \<noteq> None) refund_text_inputs refund_bounds
    (\<lambda>d. refund_json (the (refund_handleSubmit data p d))) = {''reason''}"
proof (rule refusable_eqI)
  let ?g = "(refund_dialog_init data p)\<lparr>rf_amount := Typed 1, rf_reason := replicate 501 (CHR ''a'')\<rparr>"
  have cents: "text_agorot (Typed 1) = 100" using text_agorot_typed [of 100] by simp
  show "refund_handleSubmit data p ?g \<noteq> None"
    using assms by (simp add: refund_handleSubmit_def cents)
  show "list_all (input_valid url) (refund_text_inputs ?g)"
    by (simp add: refund_text_inputs_def input_defs)
  show "violated email_str refund_bounds (refund_json (the (refund_handleSubmit data p ?g))) = {''reason''}"
    using assms by (simp add: refund_bounds_def refund_json_def refund_handleSubmit_def cents refusable_simps jopt_def)
next
  fix d assume "refund_handleSubmit data p d \<noteq> None"
  then show "keeps email_str refund_bounds {''reason''} (refund_json (the (refund_handleSubmit data p d)))"
    by (auto simp: keeps_def refund_bounds_def refund_json_def refund_handleSubmit_def Let_def split: if_splits)
qed

lemma assign_refusable:
  "refusable url email_str (\<lambda>f. assign_handleSubmit f \<noteq> None) assign_text_inputs assign_bounds
    (\<lambda>f. assign_json (the (assign_handleSubmit f))) = {''role''}"
proof (rule refusable_eqI)
  let ?g = "assign_init\<lparr>as_coach := Some sample_coach, as_role := replicate 41 (CHR ''a'')\<rparr>"
  show "assign_handleSubmit ?g \<noteq> None"
    by (simp add: assign_handleSubmit_def)
  show "list_all (input_valid url) (assign_text_inputs ?g)"
    by (simp add: assign_text_inputs_def input_defs assign_init_def)
  show "violated email_str assign_bounds (assign_json (the (assign_handleSubmit ?g))) = {''role''}"
    by (simp add: assign_bounds_def assign_json_def assign_handleSubmit_def refusable_simps)
next
  fix f assume "assign_handleSubmit f \<noteq> None"
  then show "keeps email_str assign_bounds {''role''} (assign_json (the (assign_handleSubmit f)))"
    by (auto simp: keeps_def assign_bounds_def assign_json_def assign_handleSubmit_def split: option.splits)
qed

lemma template_refusable:
  "refusable url email_str (\<lambda>f. template_handleSubmit f \<noteq> None) template_text_inputs template_bounds
    (\<lambda>f. template_json (the (template_handleSubmit f))) = {}"
proof (rule refusable_emptyI)
  fix f assume "template_handleSubmit f \<noteq> None" "list_all (input_valid url) (template_text_inputs f)"
  then show "keeps email_str template_bounds {} (template_json (the (template_handleSubmit f)))"
    by (auto simp: keeps_def template_bounds_def template_json_def template_handleSubmit_def template_text_inputs_def
        input_defs clock_text_def split: option.splits if_splits)
qed

lemma adhoc_refusable:
  "refusable url email_str (\<lambda>f. adhoc_handleSubmit utc_of f \<noteq> None) adhoc_text_inputs adhoc_bounds
    (\<lambda>f. adhoc_json printed (the (adhoc_handleSubmit utc_of f))) = {''notes''}"
proof (rule refusable_eqI)
  let ?g = "(adhoc_init (\<lambda>t. t) 0)\<lparr>ah_cls := Some sample_gym_class, ah_notes := replicate 501 (CHR ''a'')\<rparr>"
  show "adhoc_handleSubmit utc_of ?g \<noteq> None"
    by (simp add: adhoc_handleSubmit_def)
  show "list_all (input_valid url) (adhoc_text_inputs ?g)"
    by (simp add: adhoc_text_inputs_def input_defs)
  show "violated email_str adhoc_bounds (adhoc_json printed (the (adhoc_handleSubmit utc_of ?g))) = {''notes''}"
    by (simp add: adhoc_bounds_def adhoc_json_def adhoc_handleSubmit_def refusable_simps jopt_def)
qed (simp_all add: keeps_def adhoc_json_def adhoc_bounds_def)

lemma panel_refusable:
  "refusable url email_str (\<lambda>p. dp_session p = s \<and> dp_confirm p) panel_inputs cancel_session_bounds
    (\<lambda>p. JObj [(''reason'', jopt JStr (or_null (dp_reason p)))]) = {''reason''}"
proof (rule refusable_eqI)
  let ?g = "(panel_init s)\<lparr>dp_confirm := True, dp_reason := replicate 501 (CHR ''a'')\<rparr>"
  show "dp_session ?g = s \<and> dp_confirm ?g" by (simp add: panel_init_def)
  show "list_all (input_valid url) (panel_inputs ?g)"
    by (simp add: panel_inputs_def input_defs)
  show "violated email_str cancel_session_bounds (JObj [(''reason'', jopt JStr (or_null (dp_reason ?g)))]) = {''reason''}"
    by (simp add: cancel_session_bounds_def refusable_simps jopt_def)
qed (simp_all add: keeps_def cancel_session_bounds_def)

lemma bulk_refusable:
  "refusable url email_str (\<lambda>f. bulk_handleSubmit links f \<noteq> None) (bulk_text_inputs links) bulk_bounds
    (\<lambda>f. bulk_json (the (bulk_handleSubmit links f))) = {''reason''}"
proof (rule refusable_eqI)
  let ?g = "bulk_init\<lparr>bf_cls := Some sample_gym_class, bf_from := ''2026-01-01'', bf_to := ''2026-01-31'',
    bf_reason := replicate 501 (CHR ''a'')\<rparr>"
  show "bulk_handleSubmit links ?g \<noteq> None"
    by (simp add: bulk_handleSubmit_def bulk_init_def)
  show "list_all (input_valid url) (bulk_text_inputs links ?g)"
    by (simp add: bulk_text_inputs_def input_defs bulk_init_def needsSubPay_def iso_date_def)
  show "violated email_str bulk_bounds (bulk_json (the (bulk_handleSubmit links ?g))) = {''reason''}"
    by (simp add: bulk_bounds_def bulk_json_def bulk_handleSubmit_def bulk_init_def needsSubPay_def refusable_simps
        jopt_def iso_date_def)
next
  fix f assume "bulk_handleSubmit links f \<noteq> None" "list_all (input_valid url) (bulk_text_inputs links f)"
  then show "keeps email_str bulk_bounds {''reason''} (bulk_json (the (bulk_handleSubmit links f)))"
    by (auto simp: keeps_def bulk_bounds_def bulk_json_def bulk_handleSubmit_def bulk_text_inputs_def input_defs jopt_def
        split: option.splits if_splits)
qed

section \<open>All forms\<close>



end
