(* ===== verification/ServerGates.thy ===== *)
theory ServerGates
  imports ListPages
begin

text \<open>
  Who may call what: the checks of role, tenant and feature flag that the services of the server run
  before anything else, for every query and mutation of the client. A row that a call names is taken
  to be one of the caller's gym; rows of other gyms are answered with \<open>not found\<close>, which is left out.
\<close>

section \<open>The caller\<close>

text \<open>What the token says; it is issued at the login from the user's row.\<close>

record caller =
  cl_sub :: string
  cl_role :: role
  cl_tenant :: "string option"

definition caller_of :: "user \<Rightarrow> caller" where
  "caller_of u = \<lparr>cl_sub = u_id u, cl_role = u_role u, cl_tenant = u_tenant_id u\<rparr>"

definition is_feature_enabled :: "tenant_features \<Rightarrow> feature \<Rightarrow> bool" where
  "is_feature_enabled features_enabled f = (if f \<notin> set GATED_FEATURES then True else flag_on features_enabled f)"

section \<open>The checks of the services\<close>

text \<open>The attendance, coach, payment and subscription services want a tenant; the member, class and plan
  services also turn the platform's administrators away.\<close>

definition require_tenant :: "caller \<Rightarrow> app_error option" where
  "require_tenant c = check_that (cl_tenant c \<noteq> None) InsufficientPermissionsError"

definition require_gym_tenant :: "caller \<Rightarrow> app_error option" where
  "require_gym_tenant c = check_that (\<not> (cl_role c = R_super_admin \<or> cl_tenant c = None)) InsufficientPermissionsError"

definition require_staff :: "caller \<Rightarrow> app_error option" where
  "require_staff c = check_that (cl_role c \<in> {R_staff, R_owner, R_super_admin}) InsufficientPermissionsError"

definition require_staff_in_tenant :: "caller \<Rightarrow> app_error option" where
  "require_staff_in_tenant c = first_error [require_staff c, require_tenant c]"

definition require_owner_in_tenant :: "caller \<Rightarrow> app_error option" where
  "require_owner_in_tenant c = first_error [require_owner (cl_role c), require_tenant c]"

definition require_writer_in_tenant :: "caller \<Rightarrow> app_error option" where
  "require_writer_in_tenant c = first_error
     [check_that (cl_role c \<in> {R_staff, R_sales, R_owner, R_super_admin}) InsufficientPermissionsError, require_tenant c]"

definition require_reader_in_tenant :: "caller \<Rightarrow> app_error option" where
  "require_reader_in_tenant c = first_error
     [check_that (cl_role c \<noteq> R_coach) InsufficientPermissionsError, require_tenant c]"

text \<open>\<open>flags\<close> are the flags of the caller's gym.\<close>

definition require_schedule_enabled :: "tenant_features \<Rightarrow> caller \<Rightarrow> app_error option" where
  "require_schedule_enabled flags c = first_error
     [require_tenant c, check_that (is_feature_enabled flags F_schedule) (FeatureDisabledError ''schedule'')]"

definition require_leads_enabled :: "tenant_features \<Rightarrow> caller \<Rightarrow> app_error option" where
  "require_leads_enabled flags c = first_error
     [require_tenant c, check_that (is_feature_enabled flags F_leads) (FeatureDisabledError ''leads'')]"

definition lead_writer :: "tenant_features \<Rightarrow> caller \<Rightarrow> app_error option" where
  "lead_writer flags c = first_error
     [require_leads_enabled flags c,
      check_that (cl_role c \<in> {R_owner, R_sales, R_super_admin}) InsufficientPermissionsError]"

definition lead_reader :: "tenant_features \<Rightarrow> caller \<Rightarrow> app_error option" where
  "lead_reader flags c = first_error
     [require_leads_enabled flags c, check_that (cl_role c \<noteq> R_coach) InsufficientPermissionsError]"

definition schedule_owner :: "tenant_features \<Rightarrow> caller \<Rightarrow> app_error option" where
  "schedule_owner flags c = first_error [require_schedule_enabled flags c, require_owner (cl_role c)]"

text \<open>A coach reads his own row only; \<open>own\<close> is the row linked to the caller's user.\<close>

definition read_coach :: "string option \<Rightarrow> caller \<Rightarrow> string \<Rightarrow> app_error option" where
  "read_coach own c coach_id = first_error
     [require_tenant c,
      check_that (\<not> (cl_role c = R_coach \<and> own \<noteq> Some coach_id)) (CoachNotFoundError coach_id)]"

definition read_tenant :: "caller \<Rightarrow> string \<Rightarrow> app_error option" where
  "read_tenant c tenant_id =
     check_that (cl_role c = R_super_admin \<or> cl_tenant c = Some tenant_id) (TenantNotFoundError tenant_id)"

definition require_super_admin_or_same_tenant :: "caller \<Rightarrow> string \<Rightarrow> app_error option" where
  "require_super_admin_or_same_tenant c tenant_id =
     check_that (cl_role c = R_super_admin \<or> cl_tenant c = Some tenant_id) InsufficientPermissionsError"

section \<open>Which check guards which call\<close>

text \<open>
  One line per call of the client: the check that the service method behind its endpoint runs first.
  \<^verbatim>\<open>attendance_service.py\<close>: \<open>list_for_tenant\<close>, \<open>list_for_member\<close>, \<open>summary_for_member\<close> and \<open>quota_check\<close> want a
  tenant, \<open>record_entry\<close> and \<open>undo\<close> staff, \<open>reassign_coach\<close> an owner.
  \<^verbatim>\<open>gym_class_service.py\<close> and \<^verbatim>\<open>membership_plan_service.py\<close>: the lists want a gym, a read by id only looks at
  whose row it is, every change wants an owner. \<^verbatim>\<open>coach_service.py\<close>: \<open>list_coaches\<close> and
  \<open>list_coaches_for_class\<close> want a tenant, \<open>get_coach\<close>, \<open>list_classes_for_coach\<close> and \<open>earnings_for\<close> the coach's own row,
  the summary and every change an owner. \<^verbatim>\<open>lead_service.py\<close> and \<^verbatim>\<open>schedule_service.py\<close>: the flag first, then the
  role. \<^verbatim>\<open>member_service.py\<close>: \<open>create\<close> and \<open>list_for_tenant\<close> want a gym, \<open>cancel\<close> an owner; \<open>update\<close>, \<open>freeze\<close> and
  \<open>unfreeze\<close> look at whose row it is. \<^verbatim>\<open>payment_service.py\<close>: readers, writers and owners.
  \<^verbatim>\<open>subscription_service.py\<close>: lists want a tenant, reads by id look at whose row it is, changes want staff.
  \<^verbatim>\<open>tenant_service.py\<close>, \<^verbatim>\<open>user_service.py\<close> and their routers: the platform's administrators, an owner for the
  changes of a user.
\<close>

primrec read_gate :: "tenant_features \<Rightarrow> string option \<Rightarrow> caller \<Rightarrow> hook \<Rightarrow> app_error option" where
  "read_gate flags own c (UseAttendanceList _) = require_tenant c"
| "read_gate flags own c (UseMemberAttendance _) = require_tenant c"
| "read_gate flags own c (UseMemberAttendanceSummary _) = require_tenant c"
| "read_gate flags own c (UseQuotaCheck _ _ _) = require_tenant c"
| "read_gate flags own c (UseClasses _) = require_gym_tenant c"
| "read_gate flags own c (UseClass _) = None"
| "read_gate flags own c (UseCoaches _) = require_tenant c"
| "read_gate flags own c (UseCoach i) = read_coach own c i"
| "read_gate flags own c (UseCoachesForClass _ _) = require_tenant c"
| "read_gate flags own c (UseClassesForCoach i _) = read_coach own c i"
| "read_gate flags own c (UseCoachEarnings i _ _) = read_coach own c i"
| "read_gate flags own c (UseEarningsSummary _ _) = require_owner_in_tenant c"
| "read_gate flags own c UsePlatformStats = require_super_admin (cl_role c)"
| "read_gate flags own c (UseLeads _) = lead_reader flags c"
| "read_gate flags own c (UseLead _) = lead_reader flags c"
| "read_gate flags own c (UseLeadActivities _) = lead_reader flags c"
| "read_gate flags own c UseLeadStats = lead_reader flags c"
| "read_gate flags own c (UseLostReasons _) = lead_writer flags c"
| "read_gate flags own c (UseMembers _) = require_gym_tenant c"
| "read_gate flags own c (UseMember _) = None"
| "read_gate flags own c (UsePayments _) = require_reader_in_tenant c"
| "read_gate flags own c (UsePayment _) = require_reader_in_tenant c"
| "read_gate flags own c (UseMemberPayments _) = require_reader_in_tenant c"
| "read_gate flags own c UseRevenueSummary = require_reader_in_tenant c"
| "read_gate flags own c (UsePlans _) = require_gym_tenant c"
| "read_gate flags own c (UsePlan _) = None"
| "read_gate flags own c (UseTemplates _) = require_schedule_enabled flags c"
| "read_gate flags own c (UseTemplate _) = require_schedule_enabled flags c"
| "read_gate flags own c (UseSessions _) = require_schedule_enabled flags c"
| "read_gate flags own c (UseSession _) = require_schedule_enabled flags c"
| "read_gate flags own c (UseSubscriptions _) = require_tenant c"
| "read_gate flags own c (UseSubscription _) = None"
| "read_gate flags own c (UseSubscriptionEvents _) = None"
| "read_gate flags own c (UseCurrentSubscriptionForMember _) = require_tenant c"
| "read_gate flags own c (UseSubscriptionHistoryForMember _) = require_tenant c"
| "read_gate flags own c UseTenants = require_super_admin (cl_role c)"
| "read_gate flags own c (UseTenant i) = read_tenant c i"
| "read_gate flags own c (UseTenantStats i) = require_super_admin_or_same_tenant c i"
| "read_gate flags own c (UseTenantUsers _) = require_super_admin (cl_role c)"

primrec write_gate :: "tenant_features \<Rightarrow> caller \<Rightarrow> mutation_hook \<Rightarrow> app_error option" where
  "write_gate flags c (UseRecordEntry _) = require_staff_in_tenant c"
| "write_gate flags c (UseUndoEntry _ _) = require_staff_in_tenant c"
| "write_gate flags c (UseCreateClass _) = first_error [require_owner (cl_role c), require_gym_tenant c]"
| "write_gate flags c (UseUpdateClass _ _) = require_owner (cl_role c)"
| "write_gate flags c (UseDeactivateClass _) = require_owner (cl_role c)"
| "write_gate flags c (UseActivateClass _) = require_owner (cl_role c)"
| "write_gate flags c (UseCreateCoach _) = require_owner_in_tenant c"
| "write_gate flags c (UseUpdateCoach _ _) = require_owner_in_tenant c"
| "write_gate flags c (UseFreezeCoach _) = require_owner_in_tenant c"
| "write_gate flags c (UseUnfreezeCoach _) = require_owner_in_tenant c"
| "write_gate flags c (UseCancelCoach _) = require_owner_in_tenant c"
| "write_gate flags c (UseInviteCoachUser _ _) = require_owner_in_tenant c"
| "write_gate flags c (UseAssignCoachToClass _ _) = require_owner_in_tenant c"
| "write_gate flags c (UseUpdateClassCoachLink _ _) = require_owner_in_tenant c"
| "write_gate flags c (UseDeleteClassCoachLink _) = require_owner_in_tenant c"
| "write_gate flags c (UseReassignEntryCoach _ _) = require_owner_in_tenant c"
| "write_gate flags c (UseCreateLead _) = lead_writer flags c"
| "write_gate flags c (UseUpdateLead _ _) = lead_writer flags c"
| "write_gate flags c (UseSetLeadStatus _ _) = lead_writer flags c"
| "write_gate flags c (UseAssignLead _ _) = lead_writer flags c"
| "write_gate flags c (UseConvertLead _ _) = lead_writer flags c"
| "write_gate flags c (UseAddActivity _ _) = lead_writer flags c"
| "write_gate flags c (UseCreateMember _) = require_gym_tenant c"
| "write_gate flags c (UseUpdateMember _ _) = None"
| "write_gate flags c (UseFreezeMember _ _) = None"
| "write_gate flags c (UseUnfreezeMember _) = None"
| "write_gate flags c (UseCancelMember _) = require_owner (cl_role c)"
| "write_gate flags c (UseRecordPayment _) = require_writer_in_tenant c"
| "write_gate flags c (UseRefundPayment _ _) = require_owner_in_tenant c"
| "write_gate flags c (UseCreatePlan _) = first_error [require_owner (cl_role c), require_gym_tenant c]"
| "write_gate flags c (UseUpdatePlan _ _) = require_owner (cl_role c)"
| "write_gate flags c (UseDeactivatePlan _) = require_owner (cl_role c)"
| "write_gate flags c (UseActivatePlan _) = require_owner (cl_role c)"
| "write_gate flags c (UseCreateTemplate _) = schedule_owner flags c"
| "write_gate flags c (UseUpdateTemplate _ _) = schedule_owner flags c"
| "write_gate flags c (UseDeactivateTemplate _) = schedule_owner flags c"
| "write_gate flags c (UseCreateAdHocSession _) = schedule_owner flags c"
| "write_gate flags c (UseUpdateSession _ _) = schedule_owner flags c"
| "write_gate flags c (UseCancelSession _ _) = schedule_owner flags c"
| "write_gate flags c (UseBulkAction _) = schedule_owner flags c"
| "write_gate flags c (UseUpdateTenantFeatures _ _) = require_super_admin (cl_role c)"
| "write_gate flags c (UseCreateSubscription _) = require_staff_in_tenant c"
| "write_gate flags c (UseFreezeSubscription _ _) = require_staff c"
| "write_gate flags c (UseUnfreezeSubscription _) = require_staff c"
| "write_gate flags c (UseRenewSubscription _ _) = require_staff c"
| "write_gate flags c (UseChangePlan _ _) = require_staff c"
| "write_gate flags c (UseCancelSubscription _ _) = require_staff c"
| "write_gate flags c (UseCreateTenant _) = require_super_admin (cl_role c)"
| "write_gate flags c (UseUpdateTenant _ _) = require_super_admin (cl_role c)"
| "write_gate flags c (UseSuspendTenant _) = require_super_admin (cl_role c)"
| "write_gate flags c (UseActivateTenant _) = require_super_admin (cl_role c)"
| "write_gate flags c (UseCancelTenant _) = require_super_admin (cl_role c)"
| "write_gate flags c (UseCreateUser _ _) = require_super_admin (cl_role c)"
| "write_gate flags c (UseUpdateUser _ _ _) = require_owner (cl_role c)"
| "write_gate flags c (UseDeleteUser _ _) = require_owner (cl_role c)"

lemmas gate_defs = require_tenant_def require_gym_tenant_def require_staff_def require_staff_in_tenant_def
  require_owner_in_tenant_def require_writer_in_tenant_def require_reader_in_tenant_def require_schedule_enabled_def
  require_leads_enabled_def lead_writer_def lead_reader_def schedule_owner_def read_coach_def read_tenant_def
  require_super_admin_or_same_tenant_def require_owner_def require_super_admin_def check_that_def first_error_def

text \<open>Both sides know the same flags for the gated features.\<close>

lemma flag_agrees: "is_feature_enabled flags f \<longleftrightarrow> (isGated f \<longrightarrow> flag_on flags f)"
  by (simp add: is_feature_enabled_def isGated_def)

end
