(* ===== verification/PageAccess.thy ===== *)
theory PageAccess
  imports ServerGates Navigation CheckIn Payments LeadPages Subscriptions Coaches
begin

text \<open>
  What a page asks of the server. Every component with queries or mutations of its own is a node; a page
  renders some of them, under the conditions its code has (the user's role, a query that has
  loaded). The queries and mutations of the components that can be on the screen are compared with the
  checks of \<^verbatim>\<open>ServerGates\<close>. \<open>loaded\<close> says which queries have data. The loaders of the pickers call the list
  functions of the API directly; they stand here as the query of the same call.
\<close>

section \<open>The components\<close>

datatype component =
    Screen page string
  | SidebarC
  | ThePage page string
  | AdminDashboardC
  | GymDashboardC
  | MemberSubscriptionSection string
  | EnrollC string | FreezeC string | RenewC string | ChangePlanC string | CancelSubC string
  | PaymentsSection string
  | RecordPaymentC string | RefundPaymentC payment
  | ClassCoachesSection string | CoachNameChip string | AssignCoachForm string
  | EditCoachCard string | CurrentMonthEarnings string | CoachClassesSection string | InviteLoginSection string
  | PlanFormC
  | MemberPicker "string option" | ActiveMemberWorkspace string | RecentEntriesFeed
  | KanbanBoard bool | LostReasonC | ConvertLeadC string | ActivityFormC string | ActivityTimeline string
  | TemplatesListC | TemplateFormC | AdHocSessionC | BulkActionC | SessionPanelC string
  | TenantStatsSection string | TenantFeaturesSection string | TenantUsersSection string
  | CreateUserFormC string | EditUserC string string

text \<open>What a component is made of: the components it may render, the queries it mounts and the mutations its
  buttons and forms can start.\<close>

record node =
  nd_children :: "component set"
  nd_asks :: "hook set"
  nd_offers :: "mutation_hook set"

definition leaf :: node where
  "leaf = \<lparr>nd_children = {}, nd_asks = {}, nd_offers = {}\<rparr>"

definition no_catalog_filters :: catalog_filters where
  "no_catalog_filters = \<lparr>cf_includeInactive = None, cf_limit = None, cf_offset = None\<rparr>"

definition all_catalog :: catalog_filters where
  "all_catalog = \<lparr>cf_includeInactive = Some True, cf_limit = None, cf_offset = None\<rparr>"

section \<open>The shell and the dashboard\<close>

definition sidebar_node :: "user \<Rightarrow> node" where
  "sidebar_node u = leaf\<lparr>nd_asks := {UseTenant (nullish (u_tenant_id u) [])}\<rparr>"

definition dashboard_node :: "user \<Rightarrow> node" where
  "dashboard_node u = leaf\<lparr>nd_children := (if u_role u = R_super_admin then {AdminDashboardC} else {GymDashboardC})\<rparr>"

definition admin_dashboard_node :: node where
  "admin_dashboard_node = leaf\<lparr>nd_asks := {UsePlatformStats}\<rparr>"

definition gym_dashboard_node :: node where
  "gym_dashboard_node = leaf\<lparr>nd_asks := {UseRevenueSummary}\<rparr>"

section \<open>Members\<close>

definition member_list_node :: "user \<Rightarrow> node" where
  "member_list_node u = leaf\<lparr>nd_asks := range (\<lambda>p. UseMembers (member_filters_of p)),
     nd_offers := range UseCreateMember \<union> range (\<lambda>i. UseFreezeMember i None) \<union> range UseUnfreezeMember
       \<union> (if owner_or_admin (Some u) then range UseCancelMember else {})\<rparr>"

definition member_detail_node :: "(hook \<Rightarrow> bool) \<Rightarrow> string \<Rightarrow> node" where
  "member_detail_node loaded i =
     (if loaded (UseMember i)
      then \<lparr>nd_children = {MemberSubscriptionSection i, PaymentsSection i}, nd_asks = {UseMember i},
            nd_offers = range (UseUpdateMember i)\<rparr>
      else leaf\<lparr>nd_asks := {UseMember i}\<rparr>)"

definition subscription_section_node :: "user \<Rightarrow> string \<Rightarrow> node" where
  "subscription_section_node u memberId =
     \<lparr>nd_children = (if sub_canMutate (Some u)
        then {EnrollC memberId} \<union> range FreezeC \<union> range RenewC \<union> range ChangePlanC \<union> range CancelSubC else {}),
      nd_asks = {UseCurrentSubscriptionForMember memberId, UseSubscriptionHistoryForMember memberId,
        UsePlans no_catalog_filters} \<union> range UseSubscriptionEvents,
      nd_offers = (if sub_canMutate (Some u) then range UseUnfreezeSubscription else {})\<rparr>"

definition enroll_node :: node where
  "enroll_node = leaf\<lparr>nd_asks := {UsePlans no_catalog_filters}, nd_offers := range UseCreateSubscription\<rparr>"

definition freeze_node :: "string \<Rightarrow> node" where
  "freeze_node s = leaf\<lparr>nd_offers := range (UseFreezeSubscription s)\<rparr>"

definition renew_node :: "string \<Rightarrow> node" where
  "renew_node s = leaf\<lparr>nd_offers := range (UseRenewSubscription s)\<rparr>"

definition change_plan_node :: "string \<Rightarrow> node" where
  "change_plan_node s = leaf\<lparr>nd_asks := {UsePlans no_catalog_filters}, nd_offers := range (UseChangePlan s)\<rparr>"

definition cancel_sub_node :: "string \<Rightarrow> node" where
  "cancel_sub_node s = leaf\<lparr>nd_offers := range (UseCancelSubscription s)\<rparr>"

section \<open>Payments\<close>

definition payments_section_node :: "user \<Rightarrow> string \<Rightarrow> node" where
  "payments_section_node u memberId = leaf
     \<lparr>nd_children := (if canWrite (Some u) then {RecordPaymentC memberId} else {})
        \<union> (if canRefund (Some u) then range RefundPaymentC else {}),
      nd_asks := {UseMemberPayments memberId, UseCurrentSubscriptionForMember memberId}\<rparr>"

definition record_payment_node :: node where
  "record_payment_node = leaf\<lparr>nd_offers := range UseRecordPayment\<rparr>"

definition refund_payment_node :: "payment \<Rightarrow> node" where
  "refund_payment_node p =
     leaf\<lparr>nd_asks := {UsePayments (refund_filters p)}, nd_offers := range (UseRefundPayment (pay_id p))\<rparr>"

definition payments_page_node :: "user \<Rightarrow> node" where
  "payments_page_node u = leaf\<lparr>nd_children := (if canRefund (Some u) then range RefundPaymentC else {}),
     nd_asks := range (\<lambda>s. UsePayments (page_filters s)) \<union> {UseRevenueSummary}\<rparr>"

section \<open>Classes and plans\<close>

definition class_list_node :: "user \<Rightarrow> node" where
  "class_list_node u = leaf\<lparr>nd_asks := range (\<lambda>b. UseClasses \<lparr>cf_includeInactive = Some b, cf_limit = None, cf_offset = None\<rparr>),
     nd_offers := (if owner_or_admin (Some u)
       then range UseCreateClass \<union> range UseDeactivateClass \<union> range UseActivateClass else {})\<rparr>"

text \<open>The form of a class is there for whoever opens its page.\<close>

definition class_detail_node :: "(hook \<Rightarrow> bool) \<Rightarrow> string \<Rightarrow> node" where
  "class_detail_node loaded i =
     (if loaded (UseClass i)
      then \<lparr>nd_children = {ClassCoachesSection i}, nd_asks = {UseClass i}, nd_offers = range (UseUpdateClass i)\<rparr>
      else leaf\<lparr>nd_asks := {UseClass i}\<rparr>)"

definition class_coaches_node :: "user \<Rightarrow> string \<Rightarrow> node" where
  "class_coaches_node u classId =
     \<lparr>nd_children = range CoachNameChip \<union> (if owner_or_admin (Some u) then {AssignCoachForm classId} else {}),
      nd_asks = {UseCoachesForClass classId False},
      nd_offers = (if owner_or_admin (Some u) then range UseDeleteClassCoachLink else {})\<rparr>"

definition coach_name_node :: "string \<Rightarrow> node" where
  "coach_name_node coachId = leaf\<lparr>nd_asks := {UseCoach coachId}\<rparr>"

definition assign_coach_node :: "string \<Rightarrow> node" where
  "assign_coach_node classId = leaf\<lparr>nd_asks := range UseCoaches, nd_offers := range (UseAssignCoachToClass classId)\<rparr>"

definition plan_list_node :: "user \<Rightarrow> node" where
  "plan_list_node u = leaf
     \<lparr>nd_children := (if owner_or_admin (Some u) then {PlanFormC} else {}),
      nd_asks := range (\<lambda>b. UsePlans \<lparr>cf_includeInactive = Some b, cf_limit = None, cf_offset = None\<rparr>) \<union> {UseClasses all_catalog},
      nd_offers := (if owner_or_admin (Some u)
        then range UseCreatePlan \<union> range UseDeactivatePlan \<union> range UseActivatePlan else {})\<rparr>"

definition plan_detail_node :: "(hook \<Rightarrow> bool) \<Rightarrow> string \<Rightarrow> node" where
  "plan_detail_node loaded i =
     (if loaded (UsePlan i)
      then \<lparr>nd_children = {PlanFormC}, nd_asks = {UsePlan i}, nd_offers = range (UseUpdatePlan i)\<rparr>
      else leaf\<lparr>nd_asks := {UsePlan i}\<rparr>)"

definition plan_form_node :: node where
  "plan_form_node = leaf\<lparr>nd_asks := {UseClasses no_catalog_filters}\<rparr>"

section \<open>The check-in page\<close>

definition check_in_node :: node where
  "check_in_node = leaf\<lparr>nd_children := range MemberPicker \<union> range ActiveMemberWorkspace \<union> {RecentEntriesFeed}\<rparr>"

definition member_picker_node :: "string option \<Rightarrow> node" where
  "member_picker_node selected = leaf\<lparr>nd_asks := {UseMember (nullish selected [])} \<union> range UseMembers\<rparr>"

definition workspace_node :: "(hook \<Rightarrow> bool) \<Rightarrow> string \<Rightarrow> node" where
  "workspace_node loaded memberId = leaf
     \<lparr>nd_asks := {UseMember memberId, UseClasses no_catalog_filters, UseMemberAttendanceSummary memberId},
      nd_offers := (if loaded (UseMember memberId) \<and> loaded (UseMemberAttendanceSummary memberId)
        then range UseRecordEntry else {})\<rparr>"

definition recent_filters :: entry_filters where
  "recent_filters = \<lparr>ef_memberId = None, ef_classId = None, ef_dateFrom = None, ef_dateTo = None,
     ef_includeUndone = None, ef_undoneOnly = None, ef_overrideOnly = None, ef_limit = Some 10, ef_offset = None\<rparr>"

definition recent_entries_node :: "(hook \<Rightarrow> bool) \<Rightarrow> node" where
  "recent_entries_node loaded = leaf
     \<lparr>nd_asks := {UseAttendanceList recent_filters, UseClasses all_catalog},
      nd_offers := (if loaded (UseAttendanceList recent_filters)
        then range (\<lambda>i. UseUndoEntry i (JObj [(''reason'', JNull)])) else {})\<rparr>"

section \<open>Coaches\<close>

definition coach_list_node :: "user \<Rightarrow> node" where
  "coach_list_node u = leaf\<lparr>nd_asks := range (\<lambda>p. UseCoaches (coach_filters_of p)),
     nd_offers := (if owner_or_admin (Some u)
       then range UseCreateCoach \<union> range UseFreezeCoach \<union> range UseUnfreezeCoach \<union> range UseCancelCoach else {})\<rparr>"

definition coach_detail_node :: "user \<Rightarrow> (hook \<Rightarrow> bool) \<Rightarrow> string \<Rightarrow> node" where
  "coach_detail_node u loaded i =
     (if loaded (UseCoach i)
      then \<lparr>nd_children = {CurrentMonthEarnings i, CoachClassesSection i}
              \<union> (if owner_or_admin (Some u) then {EditCoachCard i, InviteLoginSection i} else {}),
            nd_asks = {UseCoach i}, nd_offers = {}\<rparr>
      else leaf\<lparr>nd_asks := {UseCoach i}\<rparr>)"

definition edit_coach_node :: "string \<Rightarrow> node" where
  "edit_coach_node i = leaf\<lparr>nd_offers := range (UseUpdateCoach i)\<rparr>"

definition earnings_node :: "string \<Rightarrow> node" where
  "earnings_node i = leaf\<lparr>nd_asks := range (\<lambda>(frm, til). UseCoachEarnings i frm til)\<rparr>"

definition coach_classes_node :: "string \<Rightarrow> node" where
  "coach_classes_node i = leaf\<lparr>nd_asks := {UseClassesForCoach i False, UseClasses all_catalog}\<rparr>"

definition invite_node :: "string \<Rightarrow> node" where
  "invite_node i = leaf\<lparr>nd_offers := range (UseInviteCoachUser i)\<rparr>"

section \<open>Leads\<close>

definition leads_page_node :: "user \<Rightarrow> node" where
  "leads_page_node u =
     \<lparr>nd_children = {KanbanBoard (lead_canMutate (Some u))},
      nd_asks = range (\<lambda>p. UseLeads (leads_filters p)) \<union> {UseLeadStats},
      nd_offers = (if lead_canMutate (Some u) then range UseCreateLead else {})\<rparr>"

definition kanban_node :: "bool \<Rightarrow> node" where
  "kanban_node canMutate = leaf
     \<lparr>nd_children := (if canMutate then {LostReasonC} else {}),
      nd_offers := (if canMutate then range (\<lambda>(i, d). UseSetLeadStatus i d) else {})\<rparr>"

definition lost_reason_node :: node where
  "lost_reason_node = leaf\<lparr>nd_asks := {UseLostReasons lost_filters}\<rparr>"

definition lead_detail_node :: "user \<Rightarrow> (hook \<Rightarrow> bool) \<Rightarrow> string \<Rightarrow> node" where
  "lead_detail_node u loaded i =
     (if loaded (UseLead i)
      then \<lparr>nd_children = {ActivityTimeline i}
              \<union> (if lead_canMutate (Some u) then {ActivityFormC i, ConvertLeadC i, LostReasonC} else {}),
            nd_asks = {UseLead i},
            nd_offers = (if lead_canMutate (Some u) then range (UseUpdateLead i) \<union> range (UseSetLeadStatus i) else {})\<rparr>
      else leaf\<lparr>nd_asks := {UseLead i}\<rparr>)"

definition convert_lead_node :: "string \<Rightarrow> node" where
  "convert_lead_node i = leaf\<lparr>nd_asks := {UsePlans no_catalog_filters}, nd_offers := range (UseConvertLead i)\<rparr>"

definition activity_form_node :: "string \<Rightarrow> node" where
  "activity_form_node i = leaf\<lparr>nd_offers := range (UseAddActivity i)\<rparr>"

definition activity_timeline_node :: "string \<Rightarrow> node" where
  "activity_timeline_node i = leaf\<lparr>nd_asks := {UseLeadActivities i}\<rparr>"

section \<open>The schedule\<close>

definition no_coach_filters :: coach_filters where
  "no_coach_filters = \<lparr>chf_status = None, chf_search = None, chf_limit = None, chf_offset = None\<rparr>"

definition week_filters :: "string \<times> string \<Rightarrow> session_filters" where
  "week_filters r = \<lparr>sf_from = fst r, sf_to = snd r, sf_class_id = None, sf_coach_id = None, sf_include_cancelled = Some True\<rparr>"

definition schedule_page_node :: "user \<Rightarrow> node" where
  "schedule_page_node u = leaf
     \<lparr>nd_children := range SessionPanelC
        \<union> (if owner_or_admin (Some u) then {TemplatesListC, TemplateFormC, AdHocSessionC, BulkActionC} else {}),
      nd_asks := range (\<lambda>r. UseSessions (week_filters r)) \<union> {UseClasses all_catalog, UseCoaches no_coach_filters}\<rparr>"

definition active_templates :: template_filters where
  "active_templates = \<lparr>tf_class_id = None, tf_only_active = Some True\<rparr>"

definition templates_list_node :: node where
  "templates_list_node = leaf\<lparr>nd_asks := {UseTemplates active_templates}, nd_offers := range UseDeactivateTemplate\<rparr>"

definition template_form_node :: node where
  "template_form_node = leaf\<lparr>nd_asks := range UseClasses \<union> range UseCoaches, nd_offers := range UseCreateTemplate\<rparr>"

definition adhoc_node :: node where
  "adhoc_node = leaf\<lparr>nd_asks := range UseClasses \<union> range UseCoaches, nd_offers := range UseCreateAdHocSession\<rparr>"

definition bulk_node :: node where
  "bulk_node = leaf\<lparr>nd_asks := range UseClasses \<union> range UseCoaches \<union> range (\<lambda>i. UseCoachesForClass i False),
     nd_offers := range UseBulkAction\<rparr>"

definition session_panel_node :: "user \<Rightarrow> string \<Rightarrow> node" where
  "session_panel_node u s = leaf
     \<lparr>nd_asks := (if owner_or_admin (Some u) then range UseCoaches else {}),
      nd_offers := (if owner_or_admin (Some u) then range (UseUpdateSession s) \<union> range (UseCancelSession s) else {})\<rparr>"

section \<open>Gyms\<close>

definition tenant_list_node :: node where
  "tenant_list_node = leaf\<lparr>nd_asks := {UseTenants},
     nd_offers := range UseCreateTenant \<union> range UseSuspendTenant \<union> range UseActivateTenant \<union> range UseCancelTenant\<rparr>"

definition tenant_detail_node :: "(hook \<Rightarrow> bool) \<Rightarrow> string \<Rightarrow> node" where
  "tenant_detail_node loaded i =
     (if loaded (UseTenant i)
      then \<lparr>nd_children = {TenantStatsSection i, TenantFeaturesSection i, TenantUsersSection i},
            nd_asks = {UseTenant i}, nd_offers = range (UseUpdateTenant i)\<rparr>
      else leaf\<lparr>nd_asks := {UseTenant i}\<rparr>)"

definition tenant_stats_node :: "string \<Rightarrow> node" where
  "tenant_stats_node i = leaf\<lparr>nd_asks := {UseTenantStats i}\<rparr>"

definition tenant_features_node :: "string \<Rightarrow> node" where
  "tenant_features_node i = leaf\<lparr>nd_offers := range (UseUpdateTenantFeatures i)\<rparr>"

definition tenant_users_node :: "string \<Rightarrow> node" where
  "tenant_users_node i = leaf\<lparr>nd_children := {CreateUserFormC i} \<union> range (EditUserC i), nd_asks := {UseTenantUsers i}\<rparr>"

definition create_user_node :: "string \<Rightarrow> node" where
  "create_user_node i = leaf\<lparr>nd_offers := range (UseCreateUser (Some i))\<rparr>"

definition edit_user_node :: "string \<Rightarrow> string \<Rightarrow> node" where
  "edit_user_node i uid = leaf\<lparr>nd_offers := range (UseUpdateUser (Some i) uid)\<rparr>"

section \<open>The tree\<close>

fun page_node :: "user \<Rightarrow> (hook \<Rightarrow> bool) \<Rightarrow> page \<Rightarrow> string \<Rightarrow> node" where
  "page_node u loaded LandingPage i = leaf"
| "page_node u loaded LoginPage i = leaf"
| "page_node u loaded DashboardPage i = dashboard_node u"
| "page_node u loaded TenantListPage i = tenant_list_node"
| "page_node u loaded TenantDetailPage i = tenant_detail_node loaded i"
| "page_node u loaded MemberListPage i = member_list_node u"
| "page_node u loaded MemberDetailPage i = member_detail_node loaded i"
| "page_node u loaded ClassListPage i = class_list_node u"
| "page_node u loaded ClassDetailPage i = class_detail_node loaded i"
| "page_node u loaded PlanListPage i = plan_list_node u"
| "page_node u loaded PlanDetailPage i = plan_detail_node loaded i"
| "page_node u loaded CheckInPage i = check_in_node"
| "page_node u loaded CoachListPage i = coach_list_node u"
| "page_node u loaded CoachDetailPage i = coach_detail_node u loaded i"
| "page_node u loaded SchedulePage i = schedule_page_node u"
| "page_node u loaded LeadsPage i = leads_page_node u"
| "page_node u loaded LeadDetailPage i = lead_detail_node u loaded i"
| "page_node u loaded PaymentsPage i = payments_page_node u"

fun node_of :: "user \<Rightarrow> (hook \<Rightarrow> bool) \<Rightarrow> component \<Rightarrow> node" where
  "node_of u loaded (Screen p i) =
     leaf\<lparr>nd_children := {ThePage p i} \<union> (if page_feature p = None then {} else {SidebarC})\<rparr>"
| "node_of u loaded SidebarC = sidebar_node u"
| "node_of u loaded (ThePage p i) = page_node u loaded p i"
| "node_of u loaded AdminDashboardC = admin_dashboard_node"
| "node_of u loaded GymDashboardC = gym_dashboard_node"
| "node_of u loaded (MemberSubscriptionSection m) = subscription_section_node u m"
| "node_of u loaded (EnrollC m) = enroll_node"
| "node_of u loaded (FreezeC s) = freeze_node s"
| "node_of u loaded (RenewC s) = renew_node s"
| "node_of u loaded (ChangePlanC s) = change_plan_node s"
| "node_of u loaded (CancelSubC s) = cancel_sub_node s"
| "node_of u loaded (PaymentsSection m) = payments_section_node u m"
| "node_of u loaded (RecordPaymentC m) = record_payment_node"
| "node_of u loaded (RefundPaymentC p) = refund_payment_node p"
| "node_of u loaded (ClassCoachesSection c) = class_coaches_node u c"
| "node_of u loaded (CoachNameChip c) = coach_name_node c"
| "node_of u loaded (AssignCoachForm c) = assign_coach_node c"
| "node_of u loaded (EditCoachCard c) = edit_coach_node c"
| "node_of u loaded (CurrentMonthEarnings c) = earnings_node c"
| "node_of u loaded (CoachClassesSection c) = coach_classes_node c"
| "node_of u loaded (InviteLoginSection c) = invite_node c"
| "node_of u loaded PlanFormC = plan_form_node"
| "node_of u loaded (MemberPicker m) = member_picker_node m"
| "node_of u loaded (ActiveMemberWorkspace m) = workspace_node loaded m"
| "node_of u loaded RecentEntriesFeed = recent_entries_node loaded"
| "node_of u loaded (KanbanBoard b) = kanban_node b"
| "node_of u loaded LostReasonC = lost_reason_node"
| "node_of u loaded (ConvertLeadC l) = convert_lead_node l"
| "node_of u loaded (ActivityFormC l) = activity_form_node l"
| "node_of u loaded (ActivityTimeline l) = activity_timeline_node l"
| "node_of u loaded TemplatesListC = templates_list_node"
| "node_of u loaded TemplateFormC = template_form_node"
| "node_of u loaded AdHocSessionC = adhoc_node"
| "node_of u loaded BulkActionC = bulk_node"
| "node_of u loaded (SessionPanelC s) = session_panel_node u s"
| "node_of u loaded (TenantStatsSection i) = tenant_stats_node i"
| "node_of u loaded (TenantFeaturesSection i) = tenant_features_node i"
| "node_of u loaded (TenantUsersSection i) = tenant_users_node i"
| "node_of u loaded (CreateUserFormC i) = create_user_node i"
| "node_of u loaded (EditUserC i uid) = edit_user_node i uid"

text \<open>The components that can be on the screen of a page.\<close>

inductive on_screen :: "user \<Rightarrow> (hook \<Rightarrow> bool) \<Rightarrow> component \<Rightarrow> component \<Rightarrow> bool" for u loaded where
  root: "on_screen u loaded c c"
| child: "on_screen u loaded c d \<Longrightarrow> e \<in> nd_children (node_of u loaded d) \<Longrightarrow> on_screen u loaded c e"


section \<open>Where a component stands\<close>

text \<open>The page a component belongs to and what its place says of the user.\<close>

primrec place :: "user \<Rightarrow> (hook \<Rightarrow> bool) \<Rightarrow> page \<Rightarrow> component \<Rightarrow> bool" where
  "place u loaded p (Screen q i) = (q = p)"
| "place u loaded p SidebarC = (page_feature p \<noteq> None)"
| "place u loaded p (ThePage q i) = (q = p)"
| "place u loaded p AdminDashboardC = (p = DashboardPage \<and> u_role u = R_super_admin)"
| "place u loaded p GymDashboardC = (p = DashboardPage \<and> u_role u \<noteq> R_super_admin)"
| "place u loaded p (MemberSubscriptionSection m) = (p = MemberDetailPage)"
| "place u loaded p (EnrollC m) = (p = MemberDetailPage \<and> sub_canMutate (Some u))"
| "place u loaded p (FreezeC m) = (p = MemberDetailPage \<and> sub_canMutate (Some u))"
| "place u loaded p (RenewC m) = (p = MemberDetailPage \<and> sub_canMutate (Some u))"
| "place u loaded p (ChangePlanC m) = (p = MemberDetailPage \<and> sub_canMutate (Some u))"
| "place u loaded p (CancelSubC m) = (p = MemberDetailPage \<and> sub_canMutate (Some u))"
| "place u loaded p (PaymentsSection m) = (p = MemberDetailPage)"
| "place u loaded p (RecordPaymentC m) = (p = MemberDetailPage \<and> canWrite (Some u))"
| "place u loaded p (RefundPaymentC m) = (p \<in> {MemberDetailPage, PaymentsPage} \<and> canRefund (Some u))"
| "place u loaded p (ClassCoachesSection c) = (p = ClassDetailPage)"
| "place u loaded p (CoachNameChip c) = (p = ClassDetailPage)"
| "place u loaded p (AssignCoachForm c) = (p = ClassDetailPage \<and> owner_or_admin (Some u))"
| "place u loaded p (EditCoachCard c) = (p = CoachDetailPage \<and> owner_or_admin (Some u))"
| "place u loaded p (CurrentMonthEarnings c) = (p = CoachDetailPage \<and> loaded (UseCoach c))"
| "place u loaded p (CoachClassesSection c) = (p = CoachDetailPage \<and> loaded (UseCoach c))"
| "place u loaded p (InviteLoginSection c) = (p = CoachDetailPage \<and> owner_or_admin (Some u))"
| "place u loaded p PlanFormC = (p \<in> {PlanListPage, PlanDetailPage})"
| "place u loaded p (MemberPicker m) = (p = CheckInPage)"
| "place u loaded p (ActiveMemberWorkspace m) = (p = CheckInPage)"
| "place u loaded p RecentEntriesFeed = (p = CheckInPage)"
| "place u loaded p (KanbanBoard b) = (p = LeadsPage \<and> b = lead_canMutate (Some u))"
| "place u loaded p LostReasonC = (p \<in> {LeadsPage, LeadDetailPage} \<and> lead_canMutate (Some u))"
| "place u loaded p (ConvertLeadC l) = (p = LeadDetailPage \<and> lead_canMutate (Some u))"
| "place u loaded p (ActivityFormC l) = (p = LeadDetailPage \<and> lead_canMutate (Some u))"
| "place u loaded p (ActivityTimeline l) = (p = LeadDetailPage)"
| "place u loaded p TemplatesListC = (p = SchedulePage \<and> owner_or_admin (Some u))"
| "place u loaded p TemplateFormC = (p = SchedulePage \<and> owner_or_admin (Some u))"
| "place u loaded p AdHocSessionC = (p = SchedulePage \<and> owner_or_admin (Some u))"
| "place u loaded p BulkActionC = (p = SchedulePage \<and> owner_or_admin (Some u))"
| "place u loaded p (SessionPanelC s) = (p = SchedulePage)"
| "place u loaded p (TenantStatsSection i) = (p = TenantDetailPage)"
| "place u loaded p (TenantFeaturesSection i) = (p = TenantDetailPage)"
| "place u loaded p (TenantUsersSection i) = (p = TenantDetailPage)"
| "place u loaded p (CreateUserFormC i) = (p = TenantDetailPage)"
| "place u loaded p (EditUserC i uid) = (p = TenantDetailPage)"

lemmas node_defs = leaf_def sidebar_node_def dashboard_node_def admin_dashboard_node_def gym_dashboard_node_def
  member_list_node_def member_detail_node_def subscription_section_node_def enroll_node_def freeze_node_def
  renew_node_def change_plan_node_def cancel_sub_node_def payments_section_node_def record_payment_node_def
  refund_payment_node_def payments_page_node_def class_list_node_def class_detail_node_def class_coaches_node_def
  coach_name_node_def assign_coach_node_def plan_list_node_def plan_detail_node_def plan_form_node_def
  check_in_node_def member_picker_node_def workspace_node_def recent_entries_node_def coach_list_node_def
  coach_detail_node_def edit_coach_node_def earnings_node_def coach_classes_node_def invite_node_def
  leads_page_node_def kanban_node_def lost_reason_node_def lead_detail_node_def convert_lead_node_def
  activity_form_node_def activity_timeline_node_def schedule_page_node_def templates_list_node_def
  template_form_node_def adhoc_node_def bulk_node_def session_panel_node_def tenant_list_node_def
  tenant_detail_node_def tenant_stats_node_def tenant_features_node_def tenant_users_node_def
  create_user_node_def edit_user_node_def

lemma page_children_placed:
  "e \<in> nd_children (page_node u loaded p i) \<Longrightarrow> place u loaded p e"
  by (cases p) (auto simp: node_defs split: if_splits)

lemma children_placed:
  assumes "place u loaded p d" "e \<in> nd_children (node_of u loaded d)"
  shows "place u loaded p e"
  using assms page_children_placed
  by (cases d) (auto simp: node_defs split: if_splits)

lemma on_screen_placed: "on_screen u loaded (Screen p i) d \<Longrightarrow> place u loaded p d"
  by (induction "Screen p i" d rule: on_screen.induct) (simp_all add: children_placed)


section \<open>Who may see a page\<close>

text \<open>The page that a location shows to a user is one his role and his gym's flags give him.\<close>

definition opened :: "user \<Rightarrow> tenant_features \<Rightarrow> page \<Rightarrow> bool" where
  "opened u flags p \<longleftrightarrow> (\<exists>f. page_feature p = Some f \<and> canAccess (Some u) f EMPTY_OVERRIDES flags)"

text \<open>The server gives every user but the platform's administrators a gym.\<close>

definition session_ok :: "user \<Rightarrow> bool" where
  "session_ok u \<longleftrightarrow> u_role u \<noteq> R_super_admin \<longrightarrow> (\<exists>t. u_tenant_id u = Some t \<and> t \<noteq> [])"

lemma shown_opened:
  assumes "visit 1 (auth_value a) path = Some (path', Page p)" "x_user (auth_value a) = Some u" "page_feature p \<noteq> None"
  shows "opened u (x_tenantFeatures (auth_value a)) p"
  using visit_settles [of a path] assms by (auto simp: opened_def)

lemma opened_role:
  "opened u flags TenantListPage \<Longrightarrow> u_role u = R_super_admin"
  "opened u flags TenantDetailPage \<Longrightarrow> u_role u = R_super_admin"
  "opened u flags MemberListPage \<Longrightarrow> u_role u \<in> {R_owner, R_staff, R_sales}"
  "opened u flags MemberDetailPage \<Longrightarrow> u_role u \<in> {R_owner, R_staff, R_sales}"
  "opened u flags ClassListPage \<Longrightarrow> u_role u \<in> {R_owner, R_staff, R_sales, R_coach}"
  "opened u flags ClassDetailPage \<Longrightarrow> u_role u \<in> {R_owner, R_staff, R_sales, R_coach}"
  "opened u flags PlanListPage \<Longrightarrow> u_role u = R_owner"
  "opened u flags PlanDetailPage \<Longrightarrow> u_role u = R_owner"
  "opened u flags CheckInPage \<Longrightarrow> u_role u \<in> {R_owner, R_staff, R_coach}"
  "opened u flags CoachListPage \<Longrightarrow> u_role u \<in> {R_owner, R_coach}"
  "opened u flags CoachDetailPage \<Longrightarrow> u_role u \<in> {R_owner, R_coach}"
  "opened u flags SchedulePage \<Longrightarrow> u_role u \<in> {R_owner, R_coach} \<and> is_feature_enabled flags F_schedule"
  "opened u flags LeadsPage \<Longrightarrow> u_role u \<in> {R_owner, R_staff, R_sales} \<and> is_feature_enabled flags F_leads"
  "opened u flags LeadDetailPage \<Longrightarrow> u_role u \<in> {R_owner, R_staff, R_sales} \<and> is_feature_enabled flags F_leads"
  "opened u flags PaymentsPage \<Longrightarrow> u_role u \<in> {R_owner, R_staff, R_sales}"
  by (cases "u_role u"; simp add: opened_def canAccess_Some EMPTY_OVERRIDES_def isGated_def GATED_FEATURES_def is_feature_enabled_def)+

lemma opened_public [simp]: "\<not> opened u flags LandingPage" "\<not> opened u flags LoginPage"
  by (simp_all add: opened_def)

lemmas role_guards = owner_or_admin_def sub_canMutate_def canWrite_def canRefund_def lead_canMutate_def

lemma caller_of_simps [simp]:
  "cl_role (caller_of u) = u_role u" "cl_tenant (caller_of u) = u_tenant_id u" "cl_sub (caller_of u) = u_id u"
  by (simp_all add: caller_of_def)

lemma session_tenant: "session_ok u \<Longrightarrow> u_role u \<noteq> R_super_admin \<Longrightarrow> \<exists>t. u_tenant_id u = Some t \<and> t \<noteq> []"
  by (simp add: session_ok_def)

text \<open>What the server refuses although the page asks for it.\<close>

definition refused_read :: "string option \<Rightarrow> user \<Rightarrow> hook \<Rightarrow> bool" where
  "refused_read own u h \<longleftrightarrow>
     u_role u = R_coach \<and> (h = UseRevenueSummary \<or> (\<exists>j. h = UseCoach j \<and> own \<noteq> Some j))"

definition refused_write :: "user \<Rightarrow> mutation_hook \<Rightarrow> bool" where
  "refused_write u m \<longleftrightarrow>
     u_role u \<in> {R_staff, R_sales, R_coach} \<and> (\<exists>i d. m = UseUpdateClass i d)
     \<or> u_role u = R_coach \<and> ((\<exists>d. m = UseRecordEntry d) \<or> (\<exists>i d. m = UseUndoEntry i d))"


text \<open>The checks, for a caller with a gym and for the platform's administrators.\<close>

lemma gym_gates:
  assumes "session_ok u" "u_role u \<noteq> R_super_admin"
  shows "require_tenant (caller_of u) = None"
    "require_gym_tenant (caller_of u) = None"
    "require_staff_in_tenant (caller_of u) = require_staff (caller_of u)"
    "require_owner_in_tenant (caller_of u) = require_owner (u_role u)"
    "(require_reader_in_tenant (caller_of u) = None) = (u_role u \<noteq> R_coach)"
    "(require_writer_in_tenant (caller_of u) = None) = (u_role u \<noteq> R_coach)"
    "(read_coach own (caller_of u) i = None) = (u_role u = R_coach \<longrightarrow> own = Some i)"
    "read_tenant (caller_of u) (nullish (u_tenant_id u) []) = None"
    "is_feature_enabled flags F_schedule \<Longrightarrow> require_schedule_enabled flags (caller_of u) = None"
    "is_feature_enabled flags F_schedule \<Longrightarrow> schedule_owner flags (caller_of u) = require_owner (u_role u)"
    "is_feature_enabled flags F_leads \<Longrightarrow> (lead_reader flags (caller_of u) = None) = (u_role u \<noteq> R_coach)"
    "is_feature_enabled flags F_leads \<Longrightarrow> (lead_writer flags (caller_of u) = None) = (u_role u \<in> {R_owner, R_sales})"
  using session_tenant [OF assms] assms(2)
  by (cases "u_role u"; force simp: gate_defs nullish_def)+

lemma role_gates:
  "(require_owner r = None) = (r \<in> {R_owner, R_super_admin})"
  "(require_super_admin r = None) = (r = R_super_admin)"
  "(require_staff (caller_of u) = None) = (u_role u \<in> {R_owner, R_staff, R_super_admin})"
  by (auto simp: gate_defs)

lemma both_checks: "(first_error [a, b] = None) = (a = None \<and> b = None)"
  by (cases a; cases b) (simp_all add: first_error_def)

lemma own_gym: "session_ok u \<Longrightarrow> read_tenant (caller_of u) (nullish (u_tenant_id u) []) = None"
  by (cases "u_role u = R_super_admin") (simp_all add: gym_gates, simp add: gate_defs)

lemma admin_gates:
  assumes "u_role u = R_super_admin"
  shows "read_tenant (caller_of u) i = None" "require_super_admin_or_same_tenant (caller_of u) i = None"
  using assms by (simp_all add: gate_defs)

lemma page_asks:
  assumes "opened u flags p" "session_ok u" "h \<in> nd_asks (page_node u loaded p i)"
  shows "read_gate flags own (caller_of u) h = None \<longleftrightarrow> \<not> refused_read own u h"
  using assms
  by (cases p) (auto dest!: opened_role simp: node_defs gym_gates role_gates admin_gates refused_read_def
      simp del: not_None_eq split: if_splits)

lemma page_offers:
  assumes "opened u flags p" "session_ok u" "m \<in> nd_offers (page_node u loaded p i)"
  shows "write_gate flags (caller_of u) m = None \<longleftrightarrow> \<not> refused_write u m"
  using assms
  by (cases p) (auto dest!: opened_role simp: node_defs gym_gates role_gates both_checks admin_gates refused_write_def role_guards
      simp del: not_None_eq split: if_splits)

lemma component_asks:
  assumes "opened u flags p" "session_ok u" "place u loaded p d" "h \<in> nd_asks (node_of u loaded d)"
    "q_enabled (query_of_hook h)" "\<And>j. loaded (UseCoach j) \<Longrightarrow> read_coach own (caller_of u) j = None"
  shows "read_gate flags own (caller_of u) h = None \<longleftrightarrow> \<not> refused_read own u h"
  using assms page_asks [of u flags p h loaded]
  by (cases d) (auto dest!: opened_role simp: node_defs own_gym gym_gates role_gates admin_gates refused_read_def role_guards
      simp del: not_None_eq split: if_splits)

lemma component_offers:
  assumes "opened u flags p" "session_ok u" "place u loaded p d" "m \<in> nd_offers (node_of u loaded d)"
  shows "write_gate flags (caller_of u) m = None \<longleftrightarrow> \<not> refused_write u m"
  using assms page_offers [of u flags p m loaded]
  by (cases d) (auto dest!: opened_role simp: node_defs gym_gates role_gates both_checks admin_gates refused_write_def role_guards
      simp del: not_None_eq split: if_splits)

section \<open>The screens and the server\<close>

text \<open>C1: what the screens ask is granted: on every page a location shows to a signed-in user, the server
  grants every enabled query of every component on the screen, and the only ones it refuses are
  two a coach's screens make: the revenue of the dashboard and, on a class, the rows of other coaches.\<close>

theorem pages_ask_granted:
  assumes "visit 1 (auth_value a) path = Some (path', Page p)" "page_feature p \<noteq> None"
    and "x_user (auth_value a) = Some u" "session_ok u"
    and "\<And>h'. loaded h' \<Longrightarrow> read_gate (x_tenantFeatures (auth_value a)) own (caller_of u) h' = None"
    and "on_screen u loaded (Screen p i) d" "h \<in> nd_asks (node_of u loaded d)" "q_enabled (query_of_hook h)"
  shows "read_gate (x_tenantFeatures (auth_value a)) own (caller_of u) h \<noteq> None \<longleftrightarrow>
     u_role u = R_coach \<and> (h = UseRevenueSummary \<or> (\<exists>j. h = UseCoach j \<and> own \<noteq> Some j))"
proof -
  note opn = shown_opened [OF assms(1,3,2)]
  have row: "read_coach own (caller_of u) j = None" if "loaded (UseCoach j)" for j
    using assms(5) [OF that] by simp
  from component_asks [OF opn assms(4) on_screen_placed [OF assms(6)] assms(7,8) row]
  show ?thesis by (simp add: refused_read_def del: not_None_eq)
qed

text \<open>C2: what the screens offer is granted: the server grants every mutation that a component on the screen
  can start, except for the form of a class, which staff, sales and coaches see and only an owner
  may save, and for the entries that a coach records or takes back on the check-in page.\<close>

theorem pages_offer_granted:
  assumes "visit 1 (auth_value a) path = Some (path', Page p)" "page_feature p \<noteq> None"
    and "x_user (auth_value a) = Some u" "session_ok u"
    and "on_screen u loaded (Screen p i) d" "m \<in> nd_offers (node_of u loaded d)"
  shows "write_gate (x_tenantFeatures (auth_value a)) (caller_of u) m \<noteq> None \<longleftrightarrow>
     u_role u \<in> {R_staff, R_sales, R_coach} \<and> (\<exists>j data. m = UseUpdateClass j data)
     \<or> u_role u = R_coach \<and> ((\<exists>data. m = UseRecordEntry data) \<or> (\<exists>j data. m = UseUndoEntry j data))"
proof -
  note opn = shown_opened [OF assms(1,3,2)]
  from component_offers [OF opn assms(4) on_screen_placed [OF assms(5)] assms(6)]
  show ?thesis by (simp only: refused_write_def not_not)
qed

lemma sample_session_ok: "session_ok (sample_user r)"
  by (simp add: session_ok_def sample_user_def)

text \<open>A coach on the dashboard: his screen asks for the revenue.\<close>

theorem pages_ask_granted_witness:
  "read_gate (x_tenantFeatures (auth_value (signed_in R_coach))) (Some ''c1'') (caller_of (sample_user R_coach))
     UseRevenueSummary \<noteq> None"
proof -
  let ?a = "signed_in R_coach" and ?u = "sample_user R_coach"
  have v: "visit 1 (auth_value ?a) ''/dashboard'' = Some (''/dashboard'', Page DashboardPage)"
    by (simp add: visit_steps signed_in_value)
  have pf: "page_feature DashboardPage \<noteq> None" by simp
  have s: "on_screen ?u (\<lambda>h. False) (Screen DashboardPage []) GymDashboardC"
    by (rule on_screen.child [OF on_screen.child [OF on_screen.root, of "ThePage DashboardPage []"]])
      (simp_all add: leaf_def dashboard_node_def)
  have h: "UseRevenueSummary \<in> nd_asks (node_of ?u (\<lambda>h. False) GymDashboardC)"
    by (simp add: leaf_def gym_dashboard_node_def)
  have e: "q_enabled (query_of_hook UseRevenueSummary)" by (simp add: useRevenueSummary_def)
  have l: "False \<Longrightarrow> read_gate (x_tenantFeatures (auth_value ?a)) (Some ''c1'') (caller_of ?u) h' = None" for h' by simp
  from pages_ask_granted [OF v pf signed_in_value(3) sample_session_ok l s h e]
  show ?thesis by simp
qed

text \<open>A coach at the check-in page, after he has chosen a member.\<close>

theorem pages_offer_granted_witness:
  "write_gate (x_tenantFeatures (auth_value (signed_in R_coach))) (caller_of (sample_user R_coach))
     (UseRecordEntry (JObj [])) \<noteq> None"
proof -
  let ?a = "signed_in R_coach" and ?u = "sample_user R_coach" and ?l = "\<lambda>h :: hook. True"
  have v: "visit 1 (auth_value ?a) ''/check-in'' = Some (''/check-in'', Page CheckInPage)"
    by (simp add: visit_steps signed_in_value canAccess_Some isGated_def GATED_FEATURES_def)
  have pf: "page_feature CheckInPage \<noteq> None" by simp
  have s: "on_screen ?u ?l (Screen CheckInPage []) (ActiveMemberWorkspace ''m1'')"
    by (rule on_screen.child [OF on_screen.child [OF on_screen.root, of "ThePage CheckInPage []"]])
      (simp_all add: leaf_def check_in_node_def)
  have m: "UseRecordEntry (JObj []) \<in> nd_offers (node_of ?u ?l (ActiveMemberWorkspace ''m1''))"
    by (simp add: leaf_def workspace_node_def)
  from pages_offer_granted [OF v pf signed_in_value(3) sample_session_ok s m]
  show ?thesis by simp
qed

end
