(* ===== verification/Views.thy ===== *)
theory Views
  imports Shell Scanner Payments LeadPages Subscriptions PlanForms ScheduleDialogs Coaches ListColumns UserForms
begin

text \<open>
  What the components show: the parts of their markup that depend on the data, as functions from the
  state and the loaded queries to a record of what is on the screen. A Hebrew label is named by the value
  it stands for, and an amount is the number of agorot that the browser's number format prints.
\<close>

section \<open>Lists that load\<close>

text \<open>The four faces of a list: loading, failed, empty, or its rows.\<close>

datatype 'row shown = ShLoading | ShFailed thrown | ShEmpty | ShRows "'row list"

definition shown_list :: "bool \<Rightarrow> thrown option \<Rightarrow> 'a list option \<Rightarrow> ('a \<Rightarrow> 'row) \<Rightarrow> 'row shown" where
  [view_defs]: "shown_list isLoading error data line =
     (if isLoading then ShLoading
      else case error of
        Some e \<Rightarrow> ShFailed e
      | None \<Rightarrow> (case data of Some (x # xs) \<Rightarrow> ShRows (map line (x # xs)) | _ \<Rightarrow> ShEmpty))"

primrec rows_of :: "'row shown \<Rightarrow> 'row list" where
  "rows_of ShLoading = []"
| "rows_of (ShFailed e) = []"
| "rows_of ShEmpty = []"
| "rows_of (ShRows rs) = rs"

lemma rows_of_shown: "rows_of (shown_list False None data line) = map line (nullish data [])"
  by (auto simp: shown_list_def nullish_def split: option.splits list.splits)

section \<open>The sidebar\<close>

text \<open>A link shows its label in the full bar; in the rail the label is the link's title.\<close>

record sidebar_link =
  ln_item :: nav_item
  ln_label :: bool
  ln_title :: bool

record sidebar_bar =
  sb_logo :: string
  sb_name :: "string option"
  sb_toggle :: bool
  sb_links :: "sidebar_link list"
  sb_banner :: "(string \<times> string \<times> string) option"
  sb_logoutLabel :: bool
  sb_logoutTitle :: bool

definition sidebarLink :: "bool \<Rightarrow> nav_item \<Rightarrow> sidebar_link" where
  "sidebarLink collapsed item = \<lparr>ln_item = item, ln_label = (\<not> collapsed), ln_title = collapsed\<rparr>"

definition userBanner :: "user option \<Rightarrow> (string \<times> string \<times> string) option" where
  "userBanner user = map_option (\<lambda>u. (getInitials u, getDisplayName u, u_email u)) user"

definition sidebar :: "auth_context \<Rightarrow> tenant option \<Rightarrow> bool \<Rightarrow> bool \<Rightarrow> sidebar_bar" where
  "sidebar ctx tenant collapsed toggle =
     \<lparr>sb_logo = brandLogo tenant,
      sb_name = (if collapsed then None else Some (brandName tenant)),
      sb_toggle = toggle,
      sb_links = map (sidebarLink collapsed) (visibleItems ctx),
      sb_banner = (if collapsed then None else userBanner (x_user ctx)),
      sb_logoutLabel = (\<not> collapsed), sb_logoutTitle = collapsed\<rparr>"

text \<open>The drawer of a phone has no toggle and is never collapsed.\<close>

definition layout_sidebar :: "auth_context \<Rightarrow> tenant option \<Rightarrow> layout \<Rightarrow> sidebar_bar option" where
  "layout_sidebar ctx tenant l = (case layout_view l of
     NoSidebar \<Rightarrow> None
   | DrawerSidebar \<Rightarrow> Some (sidebar ctx tenant False False)
   | FullSidebar \<Rightarrow> Some (sidebar ctx tenant False True)
   | RailSidebar \<Rightarrow> Some (sidebar ctx tenant True True))"

text \<open>A click on a link: in the drawer \<open>onNavigate\<close> closes it first.\<close>

definition link_click :: "layout \<Rightarrow> nav_item \<Rightarrow> layout_event list" where
  "link_click l item =
     (if layout_view l = DrawerSidebar then [CloseDrawer, GoTo (nav_to item)] else [GoTo (nav_to item)])"

text \<open>Whatever the width and the preference, a visible sidebar lists exactly the items the user can open,
  each with its name on it or as its title, and a click leaves no drawer over the page it opens.\<close>

lemma sidebar_named_links:
  assumes "layout_sidebar ctx tenant l = Some b"
  shows "map ln_item (sb_links b) = visibleItems ctx"
    and "k \<in> set (sb_links b) \<Longrightarrow> ln_label k \<noteq> ln_title k"
    and "sb_logoutLabel b \<noteq> sb_logoutTitle b"
  using assms
  by (auto simp: layout_sidebar_def sidebar_def sidebarLink_def comp_def split: sidebar_view.splits)

lemma link_click_closes:
  "layout_view (layout_run (link_click l item) l) \<noteq> DrawerSidebar"
  by (auto simp: link_click_def layout_run_def layout_view_def split: if_splits)

lemma link_click_opens: "ly_path (layout_run (link_click l item) l) = nav_to item"
  by (simp add: link_click_def layout_run_def)

section \<open>The figures of the dashboards\<close>

record platform_stats =
  ps_active_tenants :: int
  ps_new_tenants_this_month :: int
  ps_total_members :: int
  ps_total_tenants :: int
  ps_total_users :: int

record tenant_stats =
  ts_active_members :: int
  ts_total_members :: int
  ts_total_users :: int

record stat_card =
  sd_value :: stat_text
  sd_hint :: "int option"

definition admin_cards :: "platform_stats option \<Rightarrow> bool \<Rightarrow> bool \<Rightarrow> stat_card list" where
  "admin_cards data isLoading error =
     [\<lparr>sd_value = admin_fmt (map_option ps_total_tenants data) isLoading error, sd_hint = None\<rparr>,
      \<lparr>sd_value = admin_fmt (map_option ps_active_tenants data) isLoading error, sd_hint = None\<rparr>,
      \<lparr>sd_value = admin_fmt (map_option ps_new_tenants_this_month data) isLoading error, sd_hint = None\<rparr>,
      \<lparr>sd_value = admin_fmt (map_option ps_total_users data) isLoading error,
       sd_hint = map_option ps_total_members data\<rparr>]"

definition tenant_cards :: "tenant_stats option \<Rightarrow> bool \<Rightarrow> thrown option \<Rightarrow> (stat_value \<times> int option) list" where
  "tenant_cards data isLoading error =
     [(stat_fmt (map_option ts_active_members data) isLoading error, map_option ts_total_members data),
      (stat_fmt (map_option ts_total_members data) isLoading error, None),
      (stat_fmt (map_option ts_total_users data) isLoading error, None)]"

section \<open>Payments\<close>

text \<open>One row of the ledger, on the member's page and on the payments page; \<open>pw_refund\<close> is the mark of a
  refund row, \<open>pw_fully\<close> the note that the payment was refunded in full.\<close>

record payment_row =
  pw_refund :: bool
  pw_amount :: "int \<times> string"
  pw_method :: payment_method
  pw_date :: string
  pw_notes :: "string option"
  pw_button :: bool
  pw_fully :: bool

definition payment_row :: "user option \<Rightarrow> payment list \<Rightarrow> payment \<Rightarrow> payment_row" where
  [view_defs]: "payment_row usr payments p =
     \<lparr>pw_refund = (pay_refund_of_payment_id p \<noteq> None), pw_amount = (pay_amount_cents p, pay_currency p),
      pw_method = pay_payment_method p, pw_date = pay_paid_at p, pw_notes = pay_notes p,
      pw_button = refund_button usr payments p, pw_fully = isFullyRefunded (Some payments) p\<rparr>"

text \<open>The section of the member page leaves an empty note out.\<close>

definition section_row :: "user option \<Rightarrow> payment list \<Rightarrow> payment \<Rightarrow> payment_row" where
  [view_defs]: "section_row usr payments p =
     (payment_row usr payments p)\<lparr>pw_notes := (if truthy_str (pay_notes p) then pay_notes p else None)\<rparr>"

record section_figures =
  fg_gross :: int
  fg_refunds :: "int option"
  fg_net :: int
  fg_currency :: string

record payments_view =
  vp_record :: bool
  vp_figures :: "section_figures option"
  vp_list :: "payment_row shown"

definition payments_section_view ::
  "user option \<Rightarrow> bool \<Rightarrow> thrown option \<Rightarrow> payment list option \<Rightarrow> subscription option \<Rightarrow> payments_view" where
  "payments_section_view usr isLoading error payments liveSub =
     \<lparr>vp_record = canWrite usr,
      vp_figures = (if nullish payments [] = [] then None
        else let t = section_totals payments in
          Some \<lparr>fg_gross = gross t, fg_refunds = (if refunds t > 0 then Some (refunds t) else None),
                fg_net = section_net payments, fg_currency = section_currency payments liveSub\<rparr>),
      vp_list = shown_list isLoading error payments (section_row usr (nullish payments []))\<rparr>"

text \<open>The banner of the payments page: this month's revenue and, when the server could compare, whether it
  rose, by how much, and the last month's.\<close>

definition revenue_banner :: "revenue_summary option \<Rightarrow> (int \<times> string \<times> (bool \<times> rat \<times> int) option) option" where
  "revenue_banner summary = map_option (\<lambda>r.
     (rr_cents (rs_this_month r), rs_currency r,
      map_option (\<lambda>p. (p \<ge> 0, \<bar>p\<bar>, rr_cents (rs_last_month r))) (rs_mom_pct r))) summary"

definition payments_page_view :: "user option \<Rightarrow> bool \<Rightarrow> thrown option \<Rightarrow> payment list option \<Rightarrow> payment_row shown" where
  "payments_page_view usr isLoading error payments =
     shown_list isLoading error payments (payment_row usr (nullish payments []))"

lemma gross_refunds_sign: "0 \<le> gross (section_totals ps)" "0 \<le> refunds (section_totals ps)"
  using totals_fold [of "\<lparr>gross = 0, refunds = 0\<rparr>" "nullish ps []"] by (simp_all add: section_totals_def)

lemma fully_not_refund: "isFullyRefunded ps p \<Longrightarrow> pay_refund_of_payment_id p \<noteq> None \<Longrightarrow> pay_refund_of_payment_id p = Some []"
  by (auto simp: isFullyRefunded_def truthy_str_def split: if_splits)

text \<open>The figures above the list add up and are the sum of the rows below them, and a row never carries
  both the refund button and the note that it was refunded.\<close>

lemma payments_section_adds_up:
  assumes "vp_figures (payments_section_view usr False None payments liveSub) = Some f"
  shows "fg_gross f - nullish (fg_refunds f) 0 = fg_net f"
    and "fg_net f = sum_list (map (fst \<circ> pw_amount) (rows_of (vp_list (payments_section_view usr False None payments liveSub))))"
proof -
  have f: "fg_gross f - nullish (fg_refunds f) 0 = section_net payments" "fg_net f = section_net payments"
    using assms gross_refunds_sign [of payments]
    by (auto simp: payments_section_view_def Let_def section_net_def nullish_def split: if_splits)
  then show "fg_gross f - nullish (fg_refunds f) 0 = fg_net f" by simp
  have n: "section_net payments = sum_list (map pay_amount_cents (nullish payments []))"
    using section_net_is_sum [of "nullish payments []"]
    by (simp add: section_net_def section_totals_def nullish_def split: option.splits)
  have "map (fst \<circ> pw_amount) (rows_of (vp_list (payments_section_view usr False None payments liveSub)))
      = map pay_amount_cents (nullish payments [])"
    by (simp add: payments_section_view_def rows_of_shown section_row_def payment_row_def)
  with f n show "fg_net f = sum_list (map (fst \<circ> pw_amount) (rows_of (vp_list (payments_section_view usr False None payments liveSub))))"
    by simp
qed

lemma button_or_note: "\<not> (pw_button (payment_row usr ps p) \<and> pw_fully (payment_row usr ps p))"
  by (simp add: payment_row_def refund_button_def)

text \<open>The three figures of the refund dialog, each \<open>(cents / 100).toFixed(0)\<close>: a tie goes to the larger number.\<close>

definition toFixed0 :: "int \<Rightarrow> int" where
  "toFixed0 cents = (if cents < 0 then - ((- cents + 50) div 100) else (cents + 50) div 100)"

definition refund_figures :: "payment list option \<Rightarrow> payment \<Rightarrow> int \<times> int \<times> int" where
  "refund_figures data p =
     (toFixed0 (pay_amount_cents p), toFixed0 (alreadyRefunded data p), toFixed0 (remaining data p))"

lemma toFixed0_whole: "toFixed0 (100 * n) = n"
proof -
  have "(- (100 * n) + 50) div 100 = - n" by linarith
  then show ?thesis by (simp add: toFixed0_def)
qed

lemma toFixed0_near: "0 \<le> c \<Longrightarrow> \<bar>100 * toFixed0 c - c\<bar> \<le> 50"
  unfolding toFixed0_def by auto

text \<open>The dialog's figures: on a sound ledger the amount is the refunded part and the rest up to one unit,
  and exactly when both parts are whole; but a rest below half a unit is shown as nothing.\<close>

lemma refund_figures_sum:
  assumes "ledger_ok ledger" "p \<in> set ledger" "\<not> is_refund p" "refund_figures (Some ledger) p = (a, b, c)"
  shows "\<bar>a - (b + c)\<bar> \<le> 1"
    and "100 dvd pay_amount_cents p \<Longrightarrow> 100 dvd refunded ledger (pay_id p) \<Longrightarrow> a = b + c"
    and "remaining (Some ledger) p < 50 \<Longrightarrow> c = 0"
proof -
  let ?x = "pay_amount_cents p" and ?r = "refunded ledger (pay_id p)"
  have pos: "0 < ?x" "?r \<le> ?x" using assms(1-3) by (auto simp: ledger_ok_def)
  have "pay_amount_cents q \<le> 0" if "q \<in> set (refunds_for ledger (pay_id p))" for q
    using assms(1) that by (fastforce simp: ledger_ok_def refunds_for_def is_refund_def)
  then have r0: "0 \<le> ?r" by (auto simp: refunded_def intro!: sum_list_nonneg)
  have e: "a = (?x + 50) div 100" "b = (?r + 50) div 100" "c = (?x - ?r + 50) div 100"
    using assms(4) pos r0 by (auto simp: refund_figures_def toFixed0_def remaining_def alreadyRefunded_eq)
  have near: "100 * a \<le> ?x + 50" "?x < 100 * a + 50" "100 * b \<le> ?r + 50" "?r < 100 * b + 50"
    "100 * c \<le> ?x - ?r + 50" "?x - ?r < 100 * c + 50"
    unfolding e by linarith+
  then show "\<bar>a - (b + c)\<bar> \<le> 1" by linarith
  show "a = b + c" if "100 dvd ?x" "100 dvd ?r"
  proof -
    from that obtain k m where "?x = 100 * k" "?r = 100 * m" by (auto elim!: dvdE)
    with near have "a = k" "b = m" "c = k - m" by linarith+
    then show ?thesis by simp
  qed
  show "c = 0" if "remaining (Some ledger) p < 50"
    using that pos unfolding e by (simp add: remaining_def alreadyRefunded_eq)
qed

section \<open>The subscriptions of a member\<close>

text \<open>\<open>planById.get(id)?.name\<close>; \<open>None\<close> is the dash.\<close>

definition plan_name :: "membership_plan list option \<Rightarrow> string \<Rightarrow> string option" where
  [view_defs]: "plan_name plans i = map_option p_name (map_by_id p_id (nullish plans []) i)"

record sub_card =
  sv_plan :: "string option"
  sv_price :: "int \<times> string"
  sv_status :: subscription_status
  sv_started :: "string option"
  sv_expires :: "string option"
  sv_payment :: "payment_method \<times> string option"
  sv_unfreezes :: "string option option"
  sv_actions :: "sub_action list"

text \<open>An expiry that is missing reads as a standing order, a missing thaw date as by hand only; the line of the
  thaw is there for a frozen subscription only. \<open>NIS\<close> is the currency's sign.\<close>

definition currentSubCard :: "user option \<Rightarrow> membership_plan list option \<Rightarrow> subscription \<Rightarrow> sub_card" where
  "currentSubCard user plans s =
     \<lparr>sv_plan = plan_name plans (s_plan_id s),
      sv_price = (s_price_cents s, if s_currency s = ''ILS'' then ''NIS'' else s_currency s),
      sv_status = s_status s, sv_started = or_null (s_started_at s), sv_expires = truthy_opt (s_expires_at s),
      sv_payment = formatPaymentMethod (s_payment_method s) (s_payment_method_detail s),
      sv_unfreezes = (if s_status s = SS_frozen then Some (truthy_opt (s_frozen_until s)) else None),
      sv_actions = (if sub_canMutate user then card_actions (s_status s) else [])\<rparr>"

record history_row =
  hv_plan :: "string option"
  hv_status :: subscription_status
  hv_started :: "string option"
  hv_ended :: "string option"

definition ended_at :: "subscription \<Rightarrow> string option" where
  "ended_at s = (case s_cancelled_at s of Some t \<Rightarrow> Some t
     | None \<Rightarrow> (case s_replaced_at s of Some t \<Rightarrow> Some t | None \<Rightarrow> s_expired_at s))"

definition history_row :: "membership_plan list option \<Rightarrow> subscription \<Rightarrow> history_row" where
  "history_row plans s = \<lparr>hv_plan = plan_name plans (s_plan_id s), hv_status = s_status s,
     hv_started = or_null (s_started_at s), hv_ended = truthy_opt (ended_at s)\<rparr>"

record timeline_entry =
  te_type :: subscription_event_type
  te_pills :: "pill list"
  te_date :: string
  te_detail :: "string option"

definition timeline_entry :: "subscription_event \<Rightarrow> timeline_entry" where
  "timeline_entry ev = \<lparr>te_type = se_event_type ev, te_pills = pills ev, te_date = se_occurred_at ev,
     te_detail = (case map_of (se_event_data ev) ''detail'' of Some (JStr d) \<Rightarrow> or_null d | _ \<Rightarrow> None)\<rparr>"

datatype current_view = CurrentLoading | CurrentCard sub_card | NoCurrent bool

record subscriptions_view =
  vs_current :: current_view
  vs_timeline :: "timeline_entry list option"
  vs_history :: "history_row list"

definition subscriptions_view ::
  "user option \<Rightarrow> bool \<Rightarrow> subscription option \<Rightarrow> subscription list option \<Rightarrow> membership_plan list option
    \<Rightarrow> subscription_event list option \<Rightarrow> subscriptions_view" where
  "subscriptions_view user isLoading current history plans events =
     \<lparr>vs_current = (if isLoading then CurrentLoading
        else case current of Some s \<Rightarrow> CurrentCard (currentSubCard user plans s) | None \<Rightarrow> NoCurrent (sub_canMutate user)),
      vs_timeline = (if focusSub current history = None then None
        else Some (map timeline_entry (nullish events []))),
      vs_history = map (history_row plans) (pastSubs current history)\<rparr>"

text \<open>The buttons on the screen are the actions of the section.\<close>

fun view_actions :: "current_view \<Rightarrow> sub_action list" where
  "view_actions CurrentLoading = []"
| "view_actions (CurrentCard c) = sv_actions c"
| "view_actions (NoCurrent enroll) = (if enroll then [ActEnroll] else [])"

lemma view_actions_section:
  "view_actions (vs_current (subscriptions_view user False current history plans events))
     = section_actions (sub_canMutate user) current"
  by (auto simp: subscriptions_view_def currentSubCard_def section_actions_def split: option.splits)

text \<open>Every subscription of the history is shown exactly once, in the card or in the table.\<close>

lemma every_subscription_once:
  assumes "distinct (map s_id hist)" "s \<in> set hist"
  shows "map_option s_id current = Some (s_id s) \<longleftrightarrow> s \<notin> set (pastSubs current (Some hist))"
    and "distinct (map s_id (pastSubs current (Some hist)))"
  using assms by (cases current; auto simp: pastSubs_def nullish_def distinct_map_filter)+

text \<open>\<open>usePlans()\<close> loads the active plans only, so a subscription on a plan that was deactivated has no name.\<close>

lemma inactive_plan_nameless:
  assumes "list_all p_is_active loaded" "distinct (map p_id plans)" "set loaded \<subseteq> set plans"
    and "p \<in> set plans" "\<not> p_is_active p"
  shows "plan_name (Some loaded) (p_id p) = None"
proof (rule ccontr)
  assume "plan_name (Some loaded) (p_id p) \<noteq> None"
  then obtain q where "map_by_id p_id loaded (p_id p) = Some q" by (auto simp: plan_name_def nullish_def)
  then have "q \<in> set loaded" "p_id q = p_id p" by (auto dest: map_by_id_Some)
  with assms show False by (auto simp: list_all_iff distinct_map dest: inj_onD)
qed

section \<open>The panel of a session\<close>

datatype panel_badge = NoBadge | CancelledBadge | EditedBadge

record panel_view =
  vd_badge :: panel_badge
  vd_head :: "(string \<times> string) option"
  vd_swap :: bool
  vd_swapDisabled :: bool
  vd_assistant :: "(string \<times> string) option"
  vd_notes :: "string option"
  vd_reason :: "string option"
  vd_error :: "thrown option"
  vd_cancel :: bool
  vd_confirm :: bool

definition coach_names :: "coach \<Rightarrow> string \<times> string" where
  "coach_names c = (co_first_name c, co_last_name c)"

definition panel_view :: "user option \<Rightarrow> active_meta \<Rightarrow> session_panel \<Rightarrow> panel_view" where
  "panel_view user meta p =
     (let s = dp_session p; cancelled = (cs_status s = SN_cancelled) in
      \<lparr>vd_badge = (if cancelled then CancelledBadge else if cs_is_customized s then EditedBadge else NoBadge),
       vd_head = map_option coach_names (am_head meta),
       vd_swap = panel_editable user p,
       vd_swapDisabled = (dp_pendingHead p = None \<or> isPending (dp_update p)),
       vd_assistant = map_option coach_names (am_assistant meta),
       vd_notes = truthy_opt (cs_notes s),
       vd_reason = (if cancelled then truthy_opt (cs_cancellation_reason s) else None),
       vd_error = panel_error p,
       vd_cancel = panel_editable user p,
       vd_confirm = dp_confirm p\<rparr>)"

text \<open>What is on the screen decides what can be asked: a swap needs its enabled button.\<close>

lemma swap_needs_button:
  "SwapHead i c \<in> set (snd (panel_step user e p)) \<Longrightarrow>
   vd_swap (panel_view user meta p) \<and> \<not> vd_swapDisabled (panel_view user meta p)"
  by (cases e) (auto simp: panel_view_def Let_def split: option.splits if_splits)

section \<open>The check-in page\<close>

datatype tone = ToneGrey | ToneGreen | ToneAmber

record class_tile =
  ct_name :: string
  ct_color :: "string option"
  ct_state :: card_state
  ct_tone :: tone
  ct_disabled :: bool

definition tile_tone :: "summary_item list \<Rightarrow> string \<Rightarrow> tone" where
  "tile_tone summary c = (case findQuotaForClass summary c of
     None \<Rightarrow> ToneGrey | Some q \<Rightarrow> if si_allowed q then ToneGreen else ToneAmber)"

definition class_tile :: "summary_item list \<Rightarrow> bool \<Rightarrow> gym_class \<Rightarrow> class_tile" where
  "class_tile summary disabled c =
     \<lparr>ct_name = gc_name c, ct_color = truthy_opt (gc_color c), ct_state = class_card summary (gc_id c),
      ct_tone = tile_tone summary (gc_id c), ct_disabled = disabled\<rparr>"

text \<open>\<open>wm_chips\<close> is \<open>None\<close> for the note that the member has no subscription, which also takes the grid away.\<close>

record member_view =
  wm_name :: "string \<times> string"
  wm_chips :: "(chip_label \<times> string option option) list option"
  wm_tiles :: "class_tile list option"
  wm_error :: "thrown option"
  wm_confirm :: "(string \<times> quota_label) option"
  wm_override :: "(string \<times> string) option"

datatype workspace_view = WorkspaceLoading | MemberMissing | MemberShown member_view

definition class_names :: "gym_class list option \<Rightarrow> string \<rightharpoonup> string" where
  "class_names classes i = map_option gc_name (map_by_id gc_id (nullish classes []) i)"

definition workspace_view ::
  "bool \<Rightarrow> thrown option \<Rightarrow> member option \<Rightarrow> gym_class list option \<Rightarrow> summary_item list option \<Rightarrow> workspace \<Rightarrow> workspace_view" where
  "workspace_view isLoading error member classes summary w =
     (if isLoading then WorkspaceLoading
      else case (error, member) of
        (None, Some m) \<Rightarrow>
          let items = nullish summary [] in
          MemberShown \<lparr>wm_name = (m_first_name m, m_last_name m),
            wm_chips = (if items = [] then None else Some (map (chip (class_names classes)) items)),
            wm_tiles = (if items = [] then None else Some (map (class_tile items (ws_pending w \<noteq> None)) (nullish classes []))),
            wm_error = (if items = [] then None else ws_error w),
            wm_confirm = ws_confirmFor w, wm_override = ws_overrideFor w\<rparr>
      | _ \<Rightarrow> MemberMissing)"

text \<open>The colour of a tile says what a tap does: green asks to confirm, grey and amber ask for a reason.\<close>

lemma tile_tone_tells_tap:
  assumes "ws_confirmFor w = None" "ws_overrideFor w = None"
  shows "tile_tone summary c = ToneGreen \<longleftrightarrow> ws_confirmFor (handleClassTap (Some summary) c w) \<noteq> None"
    and "tile_tone summary c \<noteq> ToneGreen \<longleftrightarrow> ws_overrideFor (handleClassTap (Some summary) c w) \<noteq> None"
  using assms by (auto simp: tile_tone_def handleClassTap_def split: option.splits)

text \<open>The feed of the last entries; it is not there at all while it loads or has nothing to show.\<close>

record feed_row =
  fd_class :: "string option"
  fd_override :: bool
  fd_undone :: bool
  fd_when :: time_ago
  fd_undo :: bool

definition feed_row :: "gym_class list option \<Rightarrow> (string \<Rightarrow> int) \<Rightarrow> int \<Rightarrow> class_entry \<Rightarrow> feed_row" where
  "feed_row classes time_of now e =
     \<lparr>fd_class = class_names classes (ce_class_id e), fd_override = ce_override e,
      fd_undone = truthy_str (ce_undone_at e), fd_when = timeAgo now (time_of (ce_entered_at e)),
      fd_undo = undo_button now (time_of (ce_entered_at e)) e\<rparr>"

definition recentEntriesFeed ::
  "bool \<Rightarrow> class_entry list option \<Rightarrow> gym_class list option \<Rightarrow> (string \<Rightarrow> int) \<Rightarrow> int \<Rightarrow> feed_row list option" where
  "recentEntriesFeed isLoading entries classes time_of now =
     (if isLoading then None else if nullish entries [] = [] then None
      else Some (map (feed_row classes time_of now) (nullish entries [])))"

lemma undone_not_offered: "\<not> (fd_undone (feed_row classes time_of now e) \<and> fd_undo (feed_row classes time_of now e))"
  by (simp add: feed_row_def undo_button_def)

section \<open>The list pages\<close>

text \<open>
  What stands around the table: the button of the create form, the form with the error of the last try, the
  filter chips with the active one, the empty state in place of the table, and the confirmation.
\<close>

record ('st, 'row) list_view =
  lw_button :: bool
  lw_form :: "thrown option option"
  lw_chips :: "('st option \<times> bool) list"
  lw_empty :: "empty_message option"
  lw_confirm :: "('row \<times> bool) option"

definition filter_chips :: "'st list \<Rightarrow> 'st option \<Rightarrow> ('st option \<times> bool) list" where
  "filter_chips order chosen = (None, chosen = None) # map (\<lambda>s. (Some s, chosen = Some s)) order"

definition list_view ::
  "bool \<Rightarrow> ('st option \<times> bool) list \<Rightarrow> (('st, 'row) list_page \<Rightarrow> empty_message) \<Rightarrow> bool \<Rightarrow> bool \<Rightarrow> 'row list option
    \<Rightarrow> ('st, 'row) list_page \<Rightarrow> ('st, 'row) list_view" where
  "list_view canCreate chips message isLoading error data p =
     \<lparr>lw_button = canCreate,
      lw_form = (if gl_showCreate p then Some (mutation_error (gl_create p)) else None),
      lw_chips = chips,
      lw_empty = (if shows_empty_state isLoading error data then Some (message p) else None),
      lw_confirm = map_option (\<lambda>row. (row, isPending (gl_cancel p))) (gl_confirmCancel p)\<rparr>"

definition member_list_view :: "bool \<Rightarrow> bool \<Rightarrow> member list option \<Rightarrow> (member_status, member) list_page \<Rightarrow> (member_status, member) list_view" where
  "member_list_view isLoading error data p =
     list_view True (filter_chips MEMBER_STATUS_ORDER (gl_statusFilter p)) filtered_empty_message isLoading error data p"

definition coach_list_view :: "user option \<Rightarrow> bool \<Rightarrow> bool \<Rightarrow> coach list option \<Rightarrow> (coach_status, coach) list_page \<Rightarrow> (coach_status, coach) list_view" where
  "coach_list_view user isLoading error data p =
     list_view (owner_or_admin user) (filter_chips COACH_STATUS_ORDER (gl_statusFilter p)) filtered_empty_message isLoading error data p"

text \<open>Classes and plans hide the button while the form is open and have a checkbox in place of the chips.\<close>

definition class_list_view :: "user option \<Rightarrow> bool \<Rightarrow> bool \<Rightarrow> gym_class list option \<Rightarrow> (unit, gym_class) list_page \<Rightarrow> (unit, gym_class) list_view" where
  "class_list_view user isLoading error data p =
     list_view (owner_or_admin user \<and> \<not> gl_showCreate p) [] inactive_empty_message isLoading error data p"

definition plan_list_view :: "user option \<Rightarrow> bool \<Rightarrow> bool \<Rightarrow> membership_plan list option \<Rightarrow> (unit, membership_plan) list_page \<Rightarrow> (unit, membership_plan) list_view" where
  "plan_list_view user isLoading error data p =
     list_view (owner_or_admin user \<and> \<not> gl_showCreate p) [] inactive_empty_message isLoading error data p"

definition tenant_list_view :: "bool \<Rightarrow> bool \<Rightarrow> tenant list option \<Rightarrow> (unit, tenant) list_page \<Rightarrow> (unit, tenant) list_view" where
  "tenant_list_view isLoading error data p = list_view True [] (\<lambda>_. NothingYet) isLoading error data p"

lemma one_chip:
  assumes "distinct order" "\<And>s. chosen = Some s \<Longrightarrow> s \<in> set order"
  shows "length (filter snd (filter_chips order chosen)) = 1"
proof (cases chosen)
  case (Some s)
  have "filter snd (map (\<lambda>t. (Some t, s = t)) xs) = (if s \<in> set xs then [(Some s, True)] else [])"
    if "distinct xs" for xs
    using that by (induction xs) auto
  from this [OF assms(1)] assms(2) [OF Some] show ?thesis by (simp add: filter_chips_def Some)
qed (simp add: filter_chips_def)

lemma members_one_chip:
  "length (filter snd (lw_chips (member_list_view l e data p))) = 1"
  "length (filter snd (lw_chips (coach_list_view user l e data' p'))) = 1"
  using one_chip [of MEMBER_STATUS_ORDER "gl_statusFilter p"] one_chip [of COACH_STATUS_ORDER "gl_statusFilter p'"]
  by (simp_all add: member_list_view_def coach_list_view_def list_view_def status_orders)

section \<open>Cards and rows\<close>

record lead_card =
  lk_name :: "string \<times> string"
  lk_phone :: string
  lk_source :: lead_source
  lk_notes :: "string option"
  lk_age :: age_label

definition leadCard :: "int \<Rightarrow> (string \<Rightarrow> int) \<Rightarrow> lead \<Rightarrow> lead_card" where
  "leadCard now time_of l = \<lparr>lk_name = (l_first_name l, l_last_name l), lk_phone = l_phone l,
     lk_source = l_source l, lk_notes = truthy_opt (l_notes l), lk_age = ageLabel now (time_of (l_created_at l))\<rparr>"

text \<open>\<open>hh:mm\<close> of an instant, from local milliseconds.\<close>

definition pad2 :: "int \<Rightarrow> string" where
  "pad2 n = (let s = string_of_int n in if length s < 2 then ''0'' @ s else s)"

definition session_time :: "(int \<Rightarrow> int) \<Rightarrow> int \<Rightarrow> string" where
  "session_time local t = pad2 (getHours local t) @ '':'' @ pad2 (local t mod 3600000 div 60000)"

definition time_label :: "(int \<Rightarrow> int) \<Rightarrow> (string \<Rightarrow> int) \<Rightarrow> class_session \<Rightarrow> string \<times> string" where
  "time_label local time_of s = (session_time local (time_of (cs_starts_at s)), session_time local (time_of (cs_ends_at s)))"

text \<open>A row of the entitlement builder: the options of its class select, the quantity unless the row is
  unlimited, and the reset period whose help text stands below it.\<close>

record ent_row_view =
  ev_options :: "(string \<times> bool) list"
  ev_value :: string
  ev_quantity :: "int option option"
  ev_reset :: reset_period

definition entitlementRow :: "gym_class list option \<Rightarrow> ent_input \<Rightarrow> ent_row_view" where
  "entitlementRow classes row =
     \<lparr>ev_options = map (\<lambda>c. (gc_id c, gc_is_active c)) (class_options (nullish classes []) row),
      ev_value = nullish (ei_class_id row) [],
      ev_quantity = (if ei_reset_period row = RP_unlimited then None else Some (ei_quantity row)),
      ev_reset = ei_reset_period row\<rparr>"

definition entitlementsBuilder :: "gym_class list option \<Rightarrow> ent_input list \<Rightarrow> ent_row_view list option" where
  "entitlementsBuilder classes rows = (if rows = [] then None else Some (map (entitlementRow classes) rows))"

text \<open>The row shows a select without the option of its own value when the class was deactivated.\<close>

lemma inactive_class_row:
  assumes "list_all gc_is_active classes" "distinct (map gc_id all_classes)" "set classes \<subseteq> set all_classes"
    and "c \<in> set all_classes" "\<not> gc_is_active c" "ei_class_id row = Some (gc_id c)"
  shows "ev_value (entitlementRow (Some classes) row) = gc_id c
    \<and> gc_id c \<notin> fst ` set (ev_options (entitlementRow (Some classes) row))"
proof -
  have "gc_id d \<noteq> gc_id c" if "d \<in> set classes" for d
    using that assms by (auto simp: list_all_iff distinct_map dest: inj_onD)
  then have "gc_id c \<notin> gc_id ` set classes" by force
  moreover have "fst ` set (ev_options (entitlementRow (Some classes) row)) \<subseteq> gc_id ` set classes"
    by (auto simp: entitlementRow_def class_options_def nullish_def)
  moreover have "ev_value (entitlementRow (Some classes) row) = gc_id c"
    using assms(6) by (simp add: entitlementRow_def nullish_def)
  ultimately show ?thesis by (meson subsetD)
qed

end
