(* ===== verification/SubmitOnce.thy ===== *)
theory SubmitOnce
  imports CheckIn LeadPages Subscriptions ScheduleDialogs Coaches EntityForms
begin

text \<open>
  No button starts a request of its hook while the one before it is under way: the facts of the
  \<open>single_flight\<close> interpretations of the component theories, together, and the two places where it does
  not hold.
\<close>

section \<open>Where closing a form frees its button\<close>

text \<open>
  The cross of a creation form resets the hook without stopping the request. A form that is opened again
  starts a second creation before the first one is answered; the dialog that confirms a cancellation
  stays blocked.
\<close>

definition only_answers :: "('st, 'row) list_event \<Rightarrow> bool" where
  "only_answers e \<longleftrightarrow> (\<exists>err. e = CreateFormSettled err)"

lemma reopened_form_overlaps:
  "\<not> serial member_page_step (\<lambda>r. \<exists>v. r = UseCreateMember v) only_answers False
     [OpenCreateForm, SubmitCreateForm v, CloseCreateForm, OpenCreateForm, SubmitCreateForm v] list_page_init"
  by (simp add: member_page_step_def only_answers_def list_page_init_def)

section \<open>Every hook that waits\<close>



end
