(* ===== verification/Dates.thy ===== *)
theory Dates
  imports Coaches
begin

text \<open>
  The \<open>date\<close> of Python's standard library, as the services of the server compute with it: a year, a month
  and a day, ordered in that order. \<open>ordinal\<close> counts the days from 1 January 1970, so that the difference of two dates
  is a number of days. The library's limits on the year (1 to 9999) are left out.
\<close>

section \<open>Dates and their order\<close>

datatype date = Date (dt_year: int) (dt_month: int) (dt_day: int)

lemma date_eq_iff: "d = e \<longleftrightarrow> dt_year d = dt_year e \<and> dt_month d = dt_month e \<and> dt_day d = dt_day e"
  by (cases d; cases e) simp

instantiation date :: linorder
begin

definition less_date :: "date \<Rightarrow> date \<Rightarrow> bool" where
  "less_date d e \<longleftrightarrow> dt_year d < dt_year e \<or> dt_year d = dt_year e \<and>
     (dt_month d < dt_month e \<or> dt_month d = dt_month e \<and> dt_day d < dt_day e)"

definition less_eq_date :: "date \<Rightarrow> date \<Rightarrow> bool" where
  "less_eq_date d e \<longleftrightarrow> d < e \<or> d = e"

instance
  by standard (auto simp: less_eq_date_def less_date_def date_eq_iff)

end

definition is_leap :: "int \<Rightarrow> bool" where
  "is_leap y \<longleftrightarrow> y mod 4 = 0 \<and> (y mod 100 \<noteq> 0 \<or> y mod 400 = 0)"

text \<open>\<open>calendar.monthrange(y, m)[1]\<close>.\<close>

definition days_in_month :: "int \<Rightarrow> int \<Rightarrow> int" where
  "days_in_month y m = (if m = 2 then if is_leap y then 29 else 28 else if m \<in> {4, 6, 9, 11} then 30 else 31)"

definition valid_date :: "date \<Rightarrow> bool" where
  "valid_date d \<longleftrightarrow> 1 \<le> dt_month d \<and> dt_month d \<le> 12 \<and> 1 \<le> dt_day d \<and> dt_day d \<le> days_in_month (dt_year d) (dt_month d)"

definition ordinal :: "date \<Rightarrow> int" where
  "ordinal d = month_start (dt_year d) (dt_month d - 1) + dt_day d - 1"

lemma days_in_month_bounds: "28 \<le> days_in_month y m" "days_in_month y m \<le> 31"
  by (simp_all add: days_in_month_def)

lemma days_in_month_pos [simp]: "1 \<le> days_in_month y m"
  using days_in_month_bounds(1) [of y m] by linarith

section \<open>The calendar\<close>

text \<open>The days before the first of March of a year, up to a constant.\<close>

definition march_days :: "int \<Rightarrow> int" where
  "march_days y = 365 * y + y div 4 - y div 100 + y div 400"

lemma month_start_formula:
  assumes "0 \<le> m" "m \<le> 11"
  shows "month_start y m = march_days (if m < 2 then y - 1 else y)
     + (153 * (if m < 2 then m + 10 else m - 2) + 2) div 5 - 719468"
proof -
  have d: "m div 12 = 0" "m mod 12 = m" using assms by simp_all
  define y' where "y' = (if m < 2 then y - 1 else y)"
  define q r where "q = y' div 400" and "r = y' mod 400"
  have y': "y' = r + 400 * q" by (simp add: q_def r_def)
  have "(r + 4 * (100 * q)) div 4 = r div 4 + 100 * q" "(r + 100 * (4 * q)) div 100 = r div 100 + 4 * q" by simp_all
  then have parts: "y' div 4 = r div 4 + 100 * q" "y' div 100 = r div 100 + 4 * q" by (simp_all add: y')
  have year: "(if m + 1 \<le> 2 then y - 1 else y) = y'" "y + 0 = y"
    and month: "(if 2 < m + 1 then m + 1 - 3 else m + 1 + 9) = (if m < 2 then m + 10 else m - 2)"
    by (auto simp: y'_def)
  have rest: "y' - q * 400 = r" using y' by simp
  show ?thesis
    unfolding month_start_def march_days_def Let_def d year month y'_def [symmetric] q_def [symmetric] rest
    using parts y' by linarith
qed

lemma div_step:
  assumes "0 < k"
  shows "y div k = (y - 1) div k + (if y mod k = 0 then 1 else 0 :: int)"
proof (cases "y mod k = 0")
  case True
  have "y = k * (y div k) + y mod k" by simp
  with True have e: "y - 1 = (k - 1) + k * (y div k - 1)" unfolding right_diff_distrib by linarith
  have "((k - 1) + k * z) div k = z" for z using assms by simp
  from this [of "y div k - 1"] have "(y - 1) div k = y div k - 1" unfolding e [symmetric] .
  with True show ?thesis by simp
next
  case False
  then have m: "0 < y mod k" "y mod k - 1 < k" using assms pos_mod_bound [of k y] pos_mod_sign [of k y] by linarith+
  have e: "y - 1 = (y mod k - 1) + k * (y div k)" by simp
  have "((y mod k - 1) + k * z) div k = z" for z using assms m by simp
  from this [of "y div k"] have "(y - 1) div k = y div k" unfolding e [symmetric] .
  with False show ?thesis by simp
qed

lemma leap_cases: "y mod 400 = 0 \<Longrightarrow> y mod 100 = 0" "y mod 100 = 0 \<Longrightarrow> y mod 4 = 0" for y :: int
  by (simp_all add: mod_eq_0_iff_dvd) (erule dvd_trans [rotated], simp)+

lemma year_length: "march_days y = march_days (y - 1) + (if is_leap y then 366 else 365)"
proof -
  have "(if a then 1 else 0) - (if b then 1 else 0) + (if c then 1 else 0) = (if a \<and> (\<not> b \<or> c) then 1 else 0 :: int)"
    if "c \<Longrightarrow> b" "b \<Longrightarrow> a" for a b c
    using that by (cases a; cases b; cases c) simp_all
  from this [OF leap_cases [of y]]
  have "(if y mod 4 = 0 then 1 else 0) - (if y mod 100 = 0 then 1 else 0) + (if y mod 400 = 0 then 1 else 0)
      = (if is_leap y then 1 else 0 :: int)"
    unfolding is_leap_def .
  then obtain a b c l :: int where l: "a - b + c = l" "(if is_leap y then 366 else 365) = 365 + l"
    and "a = (if y mod 4 = 0 then 1 else 0)" "b = (if y mod 100 = 0 then 1 else 0)" "c = (if y mod 400 = 0 then 1 else 0)"
    by simp
  then have "y div 4 = (y - 1) div 4 + a" "y div 100 = (y - 1) div 100 + b" "y div 400 = (y - 1) div 400 + c"
    by (simp_all only:) (rule div_step, simp)+
  moreover have "365 * y + (p + a) - (q + b) + (r + c) = 365 * (y - 1) + p - q + r + (365 + (a - b + c))" for p q r
    by simp
  ultimately show ?thesis unfolding march_days_def l(2) l(1) [symmetric] by (simp only:)
qed

lemma month_carry: "month_start y 12 = month_start (y + 1) 0"
  by (simp add: month_start_def)

text \<open>The difference of two months is the length \<open>monthrange\<close> gives.\<close>

lemma month_length:
  assumes "1 \<le> m" "m \<le> 12"
  shows "month_start y m = month_start y (m - 1) + days_in_month y m"
proof -
  have "m = 1 \<or> m = 2 \<or> m = 3 \<or> m = 4 \<or> m = 5 \<or> m = 6 \<or> m = 7 \<or> m = 8 \<or> m = 9 \<or> m = 10 \<or> m = 11 \<or> m = 12"
    using assms by presburger
  then show ?thesis
    by (elim disjE) (simp_all add: month_start_formula month_carry days_in_month_def year_length [of y])
qed

text \<open>Months are numbered through: \<open>first_of i\<close> is the first day of month \<open>i\<close> since January of the year 0.\<close>

definition month_index :: "date \<Rightarrow> int" where
  "month_index d = 12 * dt_year d + (dt_month d - 1)"

definition first_of :: "int \<Rightarrow> int" where
  "first_of i = month_start 0 i"

definition length_of :: "int \<Rightarrow> int" where
  "length_of i = days_in_month (i div 12) (i mod 12 + 1)"

lemma month_start_index: "month_start y m = first_of (12 * y + m)"
  by (simp add: first_of_def month_start_def)

lemma first_of_Suc: "first_of (i + 1) = first_of i + length_of i"
proof -
  have "1 \<le> i mod 12 + 1" "i mod 12 + 1 \<le> 12" using pos_mod_bound [of 12 i] by simp_all
  from month_length [OF this, of "i div 12"] show ?thesis
    by (simp add: month_start_index length_of_def)
qed

lemma length_of_bounds: "28 \<le> length_of i" "length_of i \<le> 31"
  unfolding length_of_def by (rule days_in_month_bounds)+

lemma first_of_mono: "i < j \<Longrightarrow> first_of i + length_of i \<le> first_of j"
proof (induction "nat (j - i)" arbitrary: j)
  case (Suc n)
  show ?case
  proof (cases "j = i + 1")
    case False
    with Suc.prems Suc.hyps(2) have "first_of i + length_of i \<le> first_of (j - 1)" by (intro Suc.hyps(1)) auto
    then show ?thesis using first_of_Suc [of "j - 1"] length_of_bounds [of "j - 1"] by simp
  qed (simp add: first_of_Suc)
qed simp

lemma ordinal_first: "ordinal d = first_of (month_index d) + dt_day d - 1"
  by (simp add: ordinal_def month_start_index month_index_def)

lemma length_of_index: "valid_date d \<Longrightarrow> length_of (month_index d) = days_in_month (dt_year d) (dt_month d)"
proof -
  assume "valid_date d"
  then have "(12 * dt_year d + (dt_month d - 1)) div 12 = dt_year d" "(12 * dt_year d + (dt_month d - 1)) mod 12 = dt_month d - 1"
    by (simp_all add: valid_date_def div_add1_eq mod_add_left_eq)
  then show ?thesis by (simp add: length_of_def month_index_def)
qed

lemma valid_day: "valid_date d \<Longrightarrow> 1 \<le> dt_day d \<and> dt_day d \<le> length_of (month_index d)"
  by (simp add: length_of_index) (simp add: valid_date_def)

lemma date_less_index:
  "valid_date d \<Longrightarrow> valid_date e \<Longrightarrow> d < e \<longleftrightarrow> month_index d < month_index e \<or> month_index d = month_index e \<and> dt_day d < dt_day e"
  unfolding valid_date_def less_date_def month_index_def by linarith

lemma ordinal_less: "valid_date d \<Longrightarrow> valid_date e \<Longrightarrow> ordinal d < ordinal e \<longleftrightarrow> d < e"
proof -
  have less: "ordinal x < ordinal y" if "valid_date x" "valid_date y" "month_index x < month_index y" for x y
    using first_of_mono [OF that(3)] valid_day [OF that(1)] valid_day [OF that(2)] by (simp add: ordinal_first)
  assume d: "valid_date d" and e: "valid_date e"
  show ?thesis
    using less [OF d e] less [OF e d]
    by (cases "month_index d" "month_index e" rule: linorder_cases) (auto simp: date_less_index [OF d e] ordinal_first)
qed

lemma ordinal_le: "valid_date d \<Longrightarrow> valid_date e \<Longrightarrow> ordinal d \<le> ordinal e \<longleftrightarrow> d \<le> e"
  by (metis not_less ordinal_less)

lemma ordinal_inject: "valid_date d \<Longrightarrow> valid_date e \<Longrightarrow> ordinal d = ordinal e \<longleftrightarrow> d = e"
  by (metis order_antisym order_refl ordinal_le)

section \<open>Adding days\<close>

text \<open>\<open>d + timedelta(days=1)\<close> and \<open>d - timedelta(days=1)\<close>; \<open>add_days\<close> iterates them.\<close>

definition next_day :: "date \<Rightarrow> date" where
  "next_day d =
     (if dt_day d < days_in_month (dt_year d) (dt_month d) then Date (dt_year d) (dt_month d) (dt_day d + 1)
      else if dt_month d = 12 then Date (dt_year d + 1) 1 1
      else Date (dt_year d) (dt_month d + 1) 1)"

definition prev_day :: "date \<Rightarrow> date" where
  "prev_day d =
     (if 1 < dt_day d then Date (dt_year d) (dt_month d) (dt_day d - 1)
      else if dt_month d = 1 then Date (dt_year d - 1) 12 31
      else Date (dt_year d) (dt_month d - 1) (days_in_month (dt_year d) (dt_month d - 1)))"

definition add_days :: "nat \<Rightarrow> date \<Rightarrow> date" where
  "add_days n = next_day ^^ n"

text \<open>\<open>(b - a).days\<close>.\<close>

definition days_between :: "date \<Rightarrow> date \<Rightarrow> int" where
  "days_between a b = ordinal b - ordinal a"

lemma valid_next [simp]: "valid_date d \<Longrightarrow> valid_date (next_day d)"
  by (auto simp: next_day_def valid_date_def)

lemma valid_prev [simp]: "valid_date d \<Longrightarrow> valid_date (prev_day d)"
  by (auto simp: prev_day_def valid_date_def days_in_month_def [of _ 12])

lemma ordinal_next: "valid_date d \<Longrightarrow> ordinal (next_day d) = ordinal d + 1"
  using month_length [of "dt_month d" "dt_year d"] month_carry [of "dt_year d"]
  by (auto simp: next_day_def ordinal_def valid_date_def)

lemma ordinal_prev: "valid_date d \<Longrightarrow> ordinal (prev_day d) = ordinal d - 1"
  using month_length [of "dt_month d - 1" "dt_year d"] month_length [of 12 "dt_year d - 1"] month_carry [of "dt_year d - 1"]
  by (auto simp: prev_day_def ordinal_def valid_date_def days_in_month_def [of _ 12])

lemma valid_add [simp]: "valid_date d \<Longrightarrow> valid_date (add_days n d)"
  by (induction n) (simp_all add: add_days_def)

lemma ordinal_add: "valid_date d \<Longrightarrow> ordinal (add_days n d) = ordinal d + int n"
  by (induction n) (simp_all add: add_days_def ordinal_next valid_add [unfolded add_days_def])

end
