(* ===== verification/Earnings.thy ===== *)
theory Earnings
  imports Dates "HOL-Library.AList"
begin

text \<open>
  What a coach earns: the payroll arithmetic of \<^verbatim>\<open>backend/app/services/coach_service.py\<close>, whose result the
  earnings card of \<^verbatim>\<open>features/coaches/CoachDetailPage.tsx\<close> shows, and the counting queries of the
  repositories of entries and sessions. \<open>tof\<close> reads the ISO text of a timestamp as milliseconds; a time stored with a
  coach counts only through its day.
\<close>

section \<open>Decimal numbers\<close>

text \<open>
  \<open>Decimal\<close> under its default context: every operation rounds its exact result to 28 significant digits,
  ties to even.
\<close>

function num_digits :: "int \<Rightarrow> int" where
  "num_digits n = (if n < 10 then 1 else 1 + num_digits (n div 10))"
  by pat_completeness auto
termination
  by (relation "measure nat") auto

declare num_digits.simps [simp del]

definition decimal_exponent :: "rat \<Rightarrow> int" where
  "decimal_exponent x =
     (let (a, b) = quotient_of \<bar>x\<bar>; e = num_digits a - num_digits b
      in if 10 powi e \<le> \<bar>x\<bar> then e else e - 1)"

definition decimal :: "rat \<Rightarrow> rat" where
  "decimal x = (if x = 0 then 0
     else let ulp = 10 powi (decimal_exponent x - 27) in of_int (round_even (x / ulp)) * ulp)"

lemma num_digits_pos: "1 \<le> num_digits n"
proof (induction n rule: num_digits.induct)
  case (1 n)
  then show ?case by (subst num_digits.simps) (cases "n < 10"; force)
qed

lemma num_digits_upper: "n < 10 ^ nat (num_digits n)"
proof (induction n rule: num_digits.induct)
  case (1 n)
  show ?case
  proof (cases "n < 10")
    case False
    with 1 have "n div 10 < 10 ^ nat (num_digits (n div 10))" by simp
    then have "n < 10 * 10 ^ nat (num_digits (n div 10))" by linarith
    moreover have "nat (num_digits n) = Suc (nat (num_digits (n div 10)))"
      using False num_digits_pos [of "n div 10"] by (subst num_digits.simps) simp
    ultimately show ?thesis by simp
  qed (subst num_digits.simps, simp)
qed

lemma num_digits_lower: "0 < n \<Longrightarrow> 10 ^ nat (num_digits n - 1) \<le> n"
proof (induction n rule: num_digits.induct)
  case (1 n)
  show ?case
  proof (cases "n < 10")
    case False
    then have "10 ^ nat (num_digits (n div 10) - 1) \<le> n div 10" by (intro 1) auto
    then have "10 * 10 ^ nat (num_digits (n div 10) - 1) \<le> n" by linarith
    moreover have "nat (num_digits n - 1) = Suc (nat (num_digits (n div 10) - 1))"
      using False num_digits_pos [of "n div 10"] by (subst num_digits.simps) simp
    ultimately show ?thesis by simp
  qed (use 1 in \<open>simp add: num_digits.simps [of n]\<close>)
qed

lemma decimal_exponent_le:
  assumes "x \<noteq> 0" shows "10 powi (decimal_exponent x) \<le> \<bar>x\<bar>"
proof -
  obtain a b where q: "quotient_of \<bar>x\<bar> = (a, b)" by (metis surj_pair)
  have b: "b > 0" using q by (rule quotient_of_denom_pos)
  have x: "\<bar>x\<bar> = of_int a / of_int b" using q by (rule quotient_of_div)
  have a: "a > 0"
  proof (rule ccontr)
    assume "\<not> a > 0"
    then have "(of_int a :: rat) / of_int b \<le> 0" using b by (simp add: divide_nonpos_pos)
    with x assms show False by simp
  qed
  define la lb where "la = num_digits a" and "lb = num_digits b"
  have pos: "1 \<le> la" "1 \<le> lb" unfolding la_def lb_def by (rule num_digits_pos)+
  have "10 ^ nat (la - 1) \<le> a" unfolding la_def using a by (rule num_digits_lower)
  then have "(10 :: rat) ^ nat (la - 1) \<le> of_int a" by (metis of_int_le_iff of_int_numeral of_int_power)
  then have la: "10 powi (la - 1) \<le> (of_int a :: rat)" using pos by (simp add: power_int_def)
  have "b < 10 ^ nat lb" unfolding lb_def by (rule num_digits_upper)
  then have "of_int b \<le> (10 :: rat) ^ nat lb" by (metis less_imp_le of_int_le_iff of_int_numeral of_int_power)
  then have lb: "of_int b \<le> (10 :: rat) powi lb" using pos by (simp add: power_int_def)
  have "10 powi (la - lb - 1) * 10 powi lb = (10 :: rat) powi (la - 1)"
    by (simp add: power_int_add [symmetric])
  moreover have "10 powi (la - lb - 1) * of_int b \<le> 10 powi (la - lb - 1) * (10 :: rat) powi lb"
    using lb by (rule mult_left_mono) simp
  ultimately have "10 powi (la - lb - 1) * of_int b \<le> (of_int a :: rat)"
    using la by linarith
  then have "10 powi (la - lb - 1) \<le> \<bar>x\<bar>" using b by (simp add: x pos_le_divide_eq)
  then show ?thesis by (simp add: decimal_exponent_def q la_def lb_def Let_def)
qed

lemma decimal_zero [simp]: "decimal 0 = 0"
  by (simp add: decimal_def)

lemma decimal_error: "\<bar>decimal x - x\<bar> \<le> \<bar>x\<bar> / (2 * 10 ^ 27)"
proof (cases "x = 0")
  case False
  define u :: rat where "u = 10 powi (decimal_exponent x - 27)"
  have u: "u > 0" by (simp add: u_def)
  have "\<bar>decimal x - x\<bar> = \<bar>of_int (round_even (x / u)) - x / u\<bar> * u"
    using False u by (simp add: decimal_def Let_def u_def [symmetric] abs_mult_pos left_diff_distrib)
  also have "\<dots> \<le> u / 2" using round_even_error [of "x / u"] u by simp
  also have "u = 10 powi (decimal_exponent x) / 10 ^ 27" by (simp add: u_def power_int_diff)
  finally show ?thesis using decimal_exponent_le [OF False] by (simp add: field_simps)
qed simp

lemma round_even_int [simp]: "round_even (of_int n) = n"
  by (simp add: round_even_def)

text \<open>Whole numbers below \<open>10 ^ 28\<close> are not rounded.\<close>

lemma decimal_int:
  assumes "\<bar>n\<bar> < 10 ^ 28" shows "decimal (of_int n) = of_int n"
proof (cases "n = 0")
  case False
  let ?x = "of_int n :: rat"
  have "10 powi (decimal_exponent ?x) \<le> \<bar>?x\<bar>" by (rule decimal_exponent_le) (simp add: False)
  also have "\<bar>?x\<bar> < 10 ^ 28" using assms by (metis of_int_abs of_int_less_iff of_int_numeral of_int_power)
  finally have "(10 :: rat) powi (decimal_exponent ?x) < 10 powi 28" by simp
  then have e: "decimal_exponent ?x \<le> 27" using power_int_increasing [of 28 "decimal_exponent ?x" "10 :: rat"] by linarith
  define k where "k = nat (27 - decimal_exponent ?x)"
  have "(10 :: rat) powi (decimal_exponent ?x - 27) = inverse (10 ^ k)"
    using e by (simp add: k_def power_int_def power_one_over inverse_eq_divide)
  then have "decimal ?x = of_int (round_even (?x * 10 ^ k)) * inverse (10 ^ k)"
    using False by (simp add: decimal_def Let_def divide_inverse)
  also have "?x * 10 ^ k = of_int (n * 10 ^ k)" by simp
  finally show ?thesis by (simp only: round_even_int) simp
qed simp

section \<open>A monthly salary\<close>

definition first_of_next_month :: "date \<Rightarrow> date" where
  "first_of_next_month d =
     (if dt_month d = 12 then Date (dt_year d + 1) 1 1 else Date (dt_year d) (dt_month d + 1) 1)"

lemma month_index_next: "month_index (first_of_next_month d) = month_index d + 1"
  by (simp add: first_of_next_month_def month_index_def)

lemma month_index_mono: "valid_date d \<Longrightarrow> valid_date e \<Longrightarrow> d \<le> e \<Longrightarrow> month_index d \<le> month_index e"
  by (auto simp: le_less date_less_index)

text \<open>
  The loop over the months of a span; \<open>cursor\<close> is the first day of a month. Dates are valid in Python, which
  the loop's condition repeats so that it is total here.
\<close>

function prorate_months :: "int \<Rightarrow> date \<Rightarrow> date \<Rightarrow> date \<Rightarrow> rat \<Rightarrow> rat" where
  "prorate_months monthly_cents span_from span_to cursor acc =
     (if cursor \<le> span_to \<and> valid_date cursor \<and> valid_date span_to then
        let dim = days_in_month (dt_year cursor) (dt_month cursor);
            month_end = Date (dt_year cursor) (dt_month cursor) dim;
            ov_start = max cursor span_from;
            ov_end = min month_end span_to;
            overlap_days = days_between ov_start ov_end + 1
        in prorate_months monthly_cents span_from span_to (first_of_next_month cursor)
             (if overlap_days > 0
              then decimal (acc + decimal (decimal (of_int monthly_cents * of_int overlap_days) / of_int dim)) else acc)
      else acc)"
  by pat_completeness auto

termination
proof (relation "measure (\<lambda>(c, f, t, cursor, acc). nat (month_index t + 1 - month_index cursor))", goal_cases)
  case (2 c f t cursor)
  then have "month_index cursor \<le> month_index t" by (intro month_index_mono) simp_all
  then show ?case by (simp add: month_index_next)
qed simp

declare prorate_months.simps [simp del]

definition fixed_prorated :: "int \<Rightarrow> date \<Rightarrow> date \<Rightarrow> int" where
  "fixed_prorated monthly_cents span_from span_to =
     (if span_to < span_from then 0
      else round_even (prorate_months monthly_cents span_from span_to (Date (dt_year span_from) (dt_month span_from) 1) 0))"

subsection \<open>The reference: a day's share of every day\<close>

text \<open>Each day of a span earns the part of the salary that one day is of its month.\<close>

fun daily_pay :: "int \<Rightarrow> date \<Rightarrow> nat \<Rightarrow> rat" where
  "daily_pay cents d 0 = 0"
| "daily_pay cents d (Suc n) =
     of_int cents / of_int (days_in_month (dt_year d) (dt_month d)) + daily_pay cents (next_day d) n"

lemma daily_pay_append: "daily_pay cents d (m + n) = daily_pay cents d m + daily_pay cents (add_days m d) n"
  by (induction m arbitrary: d) (simp_all add: add_days_def funpow_swap1)

lemma daily_pay_month:
  "dt_day d + int n - 1 \<le> days_in_month (dt_year d) (dt_month d) \<Longrightarrow>
   daily_pay cents d n = of_nat n * of_int cents / of_int (days_in_month (dt_year d) (dt_month d))"
proof (induction n arbitrary: d)
  case (Suc n)
  show ?case
  proof (cases n)
    case (Suc m)
    with Suc.prems have e: "next_day d = Date (dt_year d) (dt_month d) (dt_day d + 1)" by (simp add: next_day_def)
    have "daily_pay cents (next_day d) n = of_nat n * of_int cents / of_int (days_in_month (dt_year d) (dt_month d))"
      using Suc.IH [of "next_day d"] Suc.prems by (simp add: e)
    then show ?thesis by (simp add: add_divide_distrib distrib_right)
  qed simp
qed simp

lemma daily_pay_nonneg: "0 \<le> cents \<Longrightarrow> 0 \<le> daily_pay cents d n"
  using days_in_month_pos by (induction n arbitrary: d) (auto intro!: add_nonneg_nonneg divide_nonneg_nonneg simp: order_trans [OF zero_le_one])

subsection \<open>The loop computes it\<close>

lemma next_cursor:
  assumes "valid_date c" "dt_day c = 1"
  shows "valid_date (first_of_next_month c)" "dt_day (first_of_next_month c) = 1"
    "ordinal (first_of_next_month c) = ordinal c + days_in_month (dt_year c) (dt_month c)"
  using assms month_length [of "dt_month c" "dt_year c"] month_carry [of "dt_year c"]
  by (auto simp: first_of_next_month_def valid_date_def ordinal_def)

text \<open>The days of the span from a cursor on, and where the part of its month ends.\<close>

definition days_left :: "date \<Rightarrow> date \<Rightarrow> nat" where
  "days_left d span_to = nat (days_between d span_to + 1)"

lemma daily_pay_cut:
  assumes s: "valid_date s" and t: "valid_date span_to" and c: "valid_date c" "dt_day c = 1"
    and m: "dt_year s = dt_year c" "dt_month s = dt_month c" and st: "s \<le> span_to"
    and k: "k = days_between s (min (Date (dt_year c) (dt_month c) (days_in_month (dt_year c) (dt_month c))) span_to) + 1"
  shows "0 < k" "k \<le> 31"
    "daily_pay cents s (days_left s span_to) =
       of_int cents * of_int k / of_int (days_in_month (dt_year c) (dt_month c))
       + daily_pay cents (first_of_next_month c) (days_left (first_of_next_month c) span_to)"
proof -
  let ?dim = "days_in_month (dt_year c) (dt_month c)"
  let ?e = "Date (dt_year c) (dt_month c) ?dim" and ?n = "first_of_next_month c"
  have e: "valid_date ?e" using c by (simp add: valid_date_def)
  have day: "1 \<le> dt_day s" "dt_day s \<le> ?dim" using s m by (simp_all add: valid_date_def)
  have oe: "ordinal ?e = ordinal s + ?dim - dt_day s" by (simp add: ordinal_def m)
  have on: "ordinal ?n = ordinal ?e + 1" using next_cursor [OF c] by (simp add: ordinal_def c)
  have ot: "ordinal s \<le> ordinal span_to" using ordinal_le [OF s t] st by simp
  have k': "k = min (ordinal ?e) (ordinal span_to) - ordinal s + 1"
    using ordinal_le [OF e t] by (simp add: k days_between_def min_def)
  then show k0: "0 < k" using oe ot day by simp
  have kd: "dt_day s + k - 1 \<le> ?dim" using k' oe by simp
  then show "k \<le> 31" using day days_in_month_bounds(2) [of "dt_year c" "dt_month c"] by linarith
  have part: "daily_pay cents s (nat k) = of_int cents * of_int k / of_int ?dim"
    using daily_pay_month [of s "nat k" cents] kd k0 m by simp
  have "days_left s span_to = nat k + days_left ?n span_to"
    using k0 on oe ot day unfolding k' days_left_def days_between_def min_def by (simp split: if_splits)
  then have "daily_pay cents s (days_left s span_to)
      = of_int cents * of_int k / of_int ?dim + daily_pay cents (add_days (nat k) s) (days_left ?n span_to)"
    by (simp add: daily_pay_append part)
  moreover have "daily_pay cents (add_days (nat k) s) (days_left ?n span_to) = daily_pay cents ?n (days_left ?n span_to)"
  proof (cases "ordinal ?n \<le> ordinal span_to")
    case True
    then have "ordinal (add_days (nat k) s) = ordinal ?n" using on k0 k' by (simp add: ordinal_add s)
    then show ?thesis using ordinal_inject [OF valid_add [OF s] next_cursor(1) [OF c]] by simp
  next
    case False
    then have "days_left ?n span_to = 0" by (simp add: days_left_def days_between_def)
    then show ?thesis by simp
  qed
  ultimately show "daily_pay cents s (days_left s span_to)
      = of_int cents * of_int k / of_int ?dim + daily_pay cents ?n (days_left ?n span_to)" by simp
qed

lemma decimal_nonneg: "0 \<le> x \<Longrightarrow> 0 \<le> decimal x"
proof -
  assume x: "0 \<le> x"
  with decimal_error [of x] have "x - decimal x \<le> x / (2 * 10 ^ 27)" by (simp only: abs_le_iff abs_of_nonneg) linarith
  moreover have "x / (2 * 10 ^ 27) \<le> x" using x by simp
  ultimately show ?thesis by linarith
qed

text \<open>One round of the loop: at most \<open>10 ^ -10\<close> is lost, whatever has been added up so far.\<close>

lemma round_near:
  assumes "0 \<le> cents" "cents \<le> 10 ^ 12" "0 < k" "k \<le> dm" "dm \<le> 31" "0 \<le> acc" "acc \<le> 10 ^ 16"
  defines "z \<equiv> decimal (acc + decimal (decimal (of_int cents * of_int k) / of_int dm))"
  shows "0 \<le> z" "\<bar>z - (acc + of_int cents * of_int k / of_int dm)\<bar> \<le> 1 / 10 ^ 10"
    "z \<le> acc + 10 ^ 12 + 1"
proof -
  define y :: rat where "y = of_int cents * of_int k / of_int dm"
  have c: "0 \<le> (of_int cents :: rat)" "of_int cents \<le> (10 ^ 12 :: rat)"
    using assms(1,2) by (simp, metis of_int_le_iff of_int_numeral of_int_power)
  have "cents * k \<le> 10 ^ 12 * 31" by (rule mult_mono) (use assms(1-5) in auto)
  then have "\<bar>cents * k\<bar> \<le> 10 ^ 12 * 31" using assms(1,3) by simp
  then have "decimal (of_int (cents * k)) = of_int (cents * k)" by (intro decimal_int) simp
  then have p: "decimal (of_int cents * of_int k) = of_int cents * of_int k" by simp
  have "of_int k / of_int dm \<le> (1 :: rat)" using assms(3,4) by simp
  then have "y \<le> of_int cents" unfolding y_def times_divide_eq_right [symmetric]
    using c(1) mult_left_mono [of "of_int k / of_int dm" 1 "of_int cents :: rat"] by simp
  moreover have "0 \<le> y" using c(1) assms(3,4) by (simp add: y_def)
  ultimately have y: "0 \<le> y" "y \<le> 10 ^ 12" using c(2) by linarith+
  define w where "w = decimal y"
  have w: "\<bar>w - y\<bar> \<le> 1 / 10 ^ 15" "0 \<le> w"
    using decimal_error [of y] y decimal_nonneg [of y] by (simp_all add: w_def abs_le_iff field_simps)
  have z: "z = decimal (acc + w)" by (simp add: z_def p y_def w_def)
  have "\<bar>z - (acc + w)\<bar> \<le> (acc + w) / (2 * 10 ^ 27)"
    using decimal_error [of "acc + w"] assms(6) w(2) by (simp add: z)
  moreover have "w \<le> y + 1"
  proof -
    have "w - y \<le> 1 / 10 ^ 15" using w(1) by (simp only: abs_le_iff)
    also have "\<dots> \<le> 1" by simp
    finally show ?thesis by linarith
  qed
  then have "acc + w \<le> 2 * 10 ^ 16" using y(2) assms(7) by simp
  ultimately have "\<bar>z - (acc + w)\<bar> \<le> 1 / 10 ^ 11" by (simp add: field_simps)
  moreover have "\<bar>z - (acc + y)\<bar> \<le> \<bar>z - (acc + w)\<bar> + \<bar>w - y\<bar>"
    using abs_triangle_ineq [of "z - (acc + w)" "w - y"] by simp
  ultimately have "\<bar>z - (acc + y)\<bar> \<le> 1 / 10 ^ 11 + 1 / 10 ^ 15" using w(1) by linarith
  also have "\<dots> \<le> 1 / 10 ^ 10" by simp
  finally show zy: "\<bar>z - (acc + of_int cents * of_int k / of_int dm)\<bar> \<le> 1 / 10 ^ 10"
    by (simp only: y_def)
  show "0 \<le> z" unfolding z using assms(6) w(2) by (intro decimal_nonneg) simp
  show "z \<le> acc + 10 ^ 12 + 1" using zy y(2) by (simp only: y_def [symmetric] abs_le_iff) simp
qed

lemma cursor_month:
  assumes "valid_date c" "dt_day c = 1" "valid_date d" "month_index d \<le> month_index c"
  shows "dt_year (max c d) = dt_year c" "dt_month (max c d) = dt_month c" "valid_date (max c d)"
    "max (first_of_next_month c) d = first_of_next_month c"
proof -
  have n: "valid_date (first_of_next_month c)" using next_cursor(1) assms(1,2) .
  have "d < first_of_next_month c" using assms(4) by (simp add: date_less_index [OF assms(3) n] month_index_next)
  then show "max (first_of_next_month c) d = first_of_next_month c" by simp
  show "valid_date (max c d)" using assms by (simp add: max_def)
  have "dt_year (max c d) = dt_year c \<and> dt_month (max c d) = dt_month c"
  proof (cases "c \<le> d")
    case True
    with assms(4) have "month_index d = month_index c" using month_index_mono [OF assms(1,3)] by simp
    then have "dt_year d = dt_year c \<and> dt_month d = dt_month c"
      using assms(1,3) unfolding month_index_def valid_date_def by presburger
    with True show ?thesis by (simp add: max_def)
  qed (simp add: max_def)
  then show "dt_year (max c d) = dt_year c" "dt_month (max c d) = dt_month c" by simp_all
qed

lemma loop_near:
  assumes f: "valid_date f" and t: "valid_date t" "f \<le> t" and cents: "0 \<le> cents" "cents \<le> 10 ^ 12"
    and c: "valid_date c" "dt_day c = 1" "month_index f \<le> month_index c"
    and m: "m = nat (month_index t + 1 - month_index c)"
    and acc: "0 \<le> acc" "acc + of_nat m * (10 ^ 12 + 1) \<le> 10 ^ 16"
  shows "\<bar>prorate_months cents f t c acc - (acc + daily_pay cents (max c f) (days_left (max c f) t))\<bar> \<le> of_nat m / 10 ^ 10"
  using c m acc
proof (induction m arbitrary: c acc)
  case 0
  then have "t < c" using t(1) by (simp add: date_less_index)
  moreover from this have "ordinal t < ordinal c" using 0 t(1) by (simp add: ordinal_less)
  ultimately show ?case using 0 t
    by (subst prorate_months.simps) (auto simp: max_def days_left_def days_between_def not_le)
next
  case (Suc m)
  note c = Suc.prems(1,2)
  show ?case
  proof (cases "c \<le> t")
    case False
    then have "ordinal t < ordinal c" using c t(1) by (simp add: ordinal_less not_le)
    with False show ?thesis using t
      by (subst prorate_months.simps) (auto simp: max_def days_left_def days_between_def)
  next
    case True
    let ?dim = "days_in_month (dt_year c) (dt_month c)"
    let ?k = "days_between (max c f) (min (Date (dt_year c) (dt_month c) ?dim) t) + 1"
    let ?z = "decimal (acc + decimal (decimal (of_int cents * of_int ?k) / of_int ?dim))"
    let ?n = "first_of_next_month c"
    note s = cursor_month [OF c f Suc.prems(3)]
    have "max c f \<le> t" using True t(2) by simp
    note cut = daily_pay_cut [OF s(3) t(1) c s(1,2) this refl]
    have kd: "?k \<le> ?dim"
    proof -
      have "valid_date (Date (dt_year c) (dt_month c) ?dim)" using c by (simp add: valid_date_def)
      then have "ordinal (min (Date (dt_year c) (dt_month c) ?dim) t) \<le> ordinal (Date (dt_year c) (dt_month c) ?dim)"
        using ordinal_le t(1) by (simp add: min_def) (metis linear ordinal_le)
      moreover have "ordinal c \<le> ordinal (max c f)" using ordinal_le [OF c(1) s(3)] by simp
      ultimately show ?thesis by (simp add: days_between_def ordinal_def c(2))
    qed
    have a: "0 \<le> acc" "acc \<le> 10 ^ 16" using Suc.prems(5,6) by (simp_all add: distrib_right)
    note near = round_near [OF cents cut(1) kd days_in_month_bounds(2) a]
    have loop: "prorate_months cents f t c acc = prorate_months cents f t ?n ?z"
      using True c t(1) cut(1) by (subst prorate_months.simps) (simp add: Let_def)
    have "\<bar>prorate_months cents f t ?n ?z - (?z + daily_pay cents (max ?n f) (days_left (max ?n f) t))\<bar> \<le> of_nat m / 10 ^ 10"
    proof (rule Suc.IH)
      show "?z + of_nat m * (10 ^ 12 + 1) \<le> 10 ^ 16" using near(3) Suc.prems(6) by (simp add: distrib_right)
    qed (use next_cursor c Suc.prems near(1) in \<open>simp_all add: month_index_next\<close>)
    then have "\<bar>prorate_months cents f t c acc - (?z + daily_pay cents ?n (days_left ?n t))\<bar> \<le> of_nat m / 10 ^ 10"
      by (simp only: loop s(4))
    with near(2) cut(3) [of cents] show ?thesis unfolding of_nat_Suc add_divide_distrib by linarith
  qed
qed

text \<open>For amounts up to ten billion and spans up to a hundred years.\<close>

lemma fixed_near:
  assumes d: "valid_date span_from" "valid_date span_to" "span_from \<le> span_to" and cents: "0 \<le> cents" "cents \<le> 10 ^ 12"
    and months: "month_index span_to < month_index span_from + 1200"
  shows "\<bar>of_int (fixed_prorated cents span_from span_to) - daily_pay cents span_from (days_left span_from span_to)\<bar>
    \<le> 1 / 2 + 1 / 10 ^ 6"
proof -
  let ?c = "Date (dt_year span_from) (dt_month span_from) 1"
  let ?m = "nat (month_index span_to + 1 - month_index ?c)"
  have c: "valid_date ?c" "dt_day ?c = 1" "month_index ?c = month_index span_from"
    using d(1) by (simp_all add: valid_date_def month_index_def)
  have "?c \<le> span_from" using c d(1) by (auto simp: le_less date_less_index date_eq_iff valid_date_def)
  then have s: "max ?c span_from = span_from" by (simp add: max_def)
  have m: "?m \<le> 1200" using months c(3) by simp
  then have "(of_nat ?m :: rat) * (10 ^ 12 + 1) \<le> 1200 * (10 ^ 12 + 1)" by (intro mult_right_mono) simp_all
  then have "0 + (of_nat ?m :: rat) * (10 ^ 12 + 1) \<le> 10 ^ 16" by simp
  from loop_near [OF d(1,2,3) cents c(1,2) eq_refl [OF c(3) [symmetric]] refl order_refl this]
  have "\<bar>prorate_months cents span_from span_to ?c 0 - daily_pay cents span_from (days_left span_from span_to)\<bar>
    \<le> of_nat ?m / 10 ^ 10" by (simp only: s add_0)
  also have "\<dots> \<le> 1 / 10 ^ 6" using m by simp
  finally have "\<bar>prorate_months cents span_from span_to ?c 0 - daily_pay cents span_from (days_left span_from span_to)\<bar> \<le> 1 / 10 ^ 6" .
  moreover have "fixed_prorated cents span_from span_to = round_even (prorate_months cents span_from span_to ?c 0)"
    using d(3) by (simp add: fixed_prorated_def not_less [symmetric])
  ultimately show ?thesis using round_even_error [of "prorate_months cents span_from span_to ?c 0"] by linarith
qed

subsection \<open>Whole months and the month of the card\<close>

text \<open>Day \<open>k\<close> of month \<open>i\<close>.\<close>

definition month_date :: "int \<Rightarrow> int \<Rightarrow> date" where
  "month_date i k = Date (i div 12) (i mod 12 + 1) k"

lemma month_date_valid: "1 \<le> k \<Longrightarrow> k \<le> length_of i \<Longrightarrow> valid_date (month_date i k)"
  using pos_mod_bound [of 12 i] by (simp add: month_date_def valid_date_def length_of_def)

lemma month_date_simps [simp]:
  "month_index (month_date i k) = i" "dt_day (month_date i k) = k" "ordinal (month_date i k) = first_of i + k - 1"
  "days_in_month (dt_year (month_date i k)) (dt_month (month_date i k)) = length_of i"
  by (simp_all add: month_date_def month_index_def ordinal_first length_of_def)

lemma first_of_next_month_date [simp]: "first_of_next_month (month_date i k) = month_date (i + 1) 1"
proof -
  define q r where "q = i div 12" and "r = i mod 12"
  have i: "i + 1 = (r + 1) + 12 * q" and r: "0 \<le> r" "r < 12" by (simp_all add: q_def r_def)
  have "(i + 1) div 12 = q + (r + 1) div 12" "(i + 1) mod 12 = (r + 1) mod 12"
    unfolding i by simp_all
  moreover have "r \<noteq> 11 \<Longrightarrow> (r + 1) div 12 = 0 \<and> (r + 1) mod 12 = r + 1" using r by simp
  ultimately have "r = 11 \<Longrightarrow> (i + 1) div 12 = i div 12 + 1 \<and> (i + 1) mod 12 = 0"
    "r \<noteq> 11 \<Longrightarrow> (i + 1) div 12 = i div 12 \<and> (i + 1) mod 12 = i mod 12 + 1"
    by (simp_all add: q_def) (simp add: r_def)
  then show ?thesis unfolding r_def by (cases "i mod 12 = 11") (simp_all add: first_of_next_month_def month_date_def)
qed

lemma month_date_le: "1 \<le> k \<Longrightarrow> k \<le> length_of i \<Longrightarrow> 1 \<le> k' \<Longrightarrow> k' \<le> length_of j \<Longrightarrow> i < j \<Longrightarrow> month_date i k \<le> month_date j k'"
  by (simp add: le_less date_less_index month_date_valid)

lemma daily_pay_whole:
  "daily_pay cents (month_date i 1) (days_left (month_date i 1) (month_date (i + int n) (length_of (i + int n)))) = of_int cents * of_nat (n + 1)"
proof (induction n arbitrary: i)
  case 0
  have "days_left (month_date i 1) (month_date i (length_of i)) = nat (length_of i)"
    by (simp add: days_left_def days_between_def)
  then show ?case using length_of_bounds [of i] by (simp add: daily_pay_month)
next
  case (Suc n)
  let ?t = "month_date (i + int (Suc n)) (length_of (i + int (Suc n)))"
  have len: "1 \<le> length_of j" for j using length_of_bounds(1) [of j] by linarith
  have v: "valid_date ?t" "valid_date (month_date i 1)" "valid_date (month_date i (length_of i))"
    using len by (auto intro!: month_date_valid)
  have le: "month_date i 1 \<le> ?t" "month_date i (length_of i) \<le> ?t" using len by (auto intro!: month_date_le)
  have e: "Date (dt_year (month_date i 1)) (dt_month (month_date i 1)) (length_of i) = month_date i (length_of i)"
    by (simp add: month_date_def)
  have "daily_pay cents (month_date i 1) (days_left (month_date i 1) ?t)
      = of_int cents * of_int (length_of i) / of_int (length_of i)
        + daily_pay cents (month_date (i + 1) 1) (days_left (month_date (i + 1) 1) ?t)"
    using daily_pay_cut(3) [OF v(2,1,2) _ refl refl le(1) refl, of cents] le(2)
    by (simp add: e min_def days_between_def)
  also have "daily_pay cents (month_date (i + 1) 1) (days_left (month_date (i + 1) 1) ?t) = of_int cents * of_nat (n + 1)"
    using Suc.IH [of "i + 1"] by (simp add: add.commute add.left_commute)
  finally show ?case using len [of i] by (simp add: distrib_left)
qed

lemma near_integer: "\<bar>of_int a - of_int b\<bar> \<le> (1 / 2 + 1 / 10 ^ 6 :: rat) \<Longrightarrow> a = b"
proof -
  assume "\<bar>of_int a - of_int b\<bar> \<le> (1 / 2 + 1 / 10 ^ 6 :: rat)"
  also have "\<dots> < 1" by simp
  finally have "\<bar>of_int (a - b)\<bar> < (1 :: rat)" by simp
  then have "\<bar>a - b\<bar> < 1" by (metis of_int_abs of_int_less_1_iff)
  then show ?thesis by simp
qed

lemma whole_months:
  assumes "0 \<le> cents" "cents \<le> 10 ^ 12" "n < 1200"
  shows "fixed_prorated cents (month_date i 1) (month_date (i + int n) (length_of (i + int n))) = cents * (int n + 1)"
proof (rule near_integer)
  let ?j = "i + int n"
  have len: "0 < length_of j" for j using length_of_bounds(1) [of j] by linarith
  have d: "valid_date (month_date i 1)" "valid_date (month_date ?j (length_of ?j))"
    using len by (auto intro!: month_date_valid simp: int_one_le_iff_zero_less)
  have "first_of i \<le> first_of ?j"
    using first_of_mono [of i ?j] len [of i] by (cases "n = 0") auto
  then have "ordinal (month_date i 1) \<le> ordinal (month_date ?j (length_of ?j))" using len [of ?j] by simp
  then have "month_date i 1 \<le> month_date ?j (length_of ?j)" using ordinal_le [OF d] by simp
  from fixed_near [OF d this assms(1,2)] assms(3) daily_pay_whole [of cents i n]
  show "\<bar>of_int (fixed_prorated cents (month_date i 1) (month_date ?j (length_of ?j))) - of_int (cents * (int n + 1))\<bar>
    \<le> (1 / 2 + 1 / 10 ^ 6 :: rat)" by (simp add: add.commute)
qed

text \<open>C11: the salary of a span, for amounts up to ten billion and spans of less than a hundred years, is the sum of
  what every single day earns, rounded: it differs from it by at most a half and a millionth. Over whole months
  it is the monthly amount times their number, exactly.\<close>

theorem fixed_pay_daily:
  assumes "valid_date span_from" "valid_date span_to" "span_from \<le> span_to" "0 \<le> cents" "cents \<le> 10 ^ 12"
    and "month_index span_to < month_index span_from + 1200" "n < 1200"
  shows "\<bar>of_int (fixed_prorated cents span_from span_to) - daily_pay cents span_from (days_left span_from span_to)\<bar>
      \<le> 1 / 2 + 1 / 10 ^ 6
    \<and> fixed_prorated cents (month_date i 1) (month_date (i + int n) (length_of (i + int n))) = cents * (int n + 1)"
  using fixed_near [OF assms(1-6)] whole_months [OF assms(4,5,7)] by blast

theorem fixed_pay_daily_witness:
  "\<bar>of_int (fixed_prorated 300000 (Date 2026 4 20) (Date 2026 5 10))
      - daily_pay 300000 (Date 2026 4 20) (days_left (Date 2026 4 20) (Date 2026 5 10))\<bar> \<le> 1 / 2 + 1 / 10 ^ 6
   \<and> fixed_prorated 300000 (month_date 24316 1) (month_date (24316 + int 2) (length_of (24316 + int 2))) = 300000 * (int 2 + 1)"
proof -
  have a: "valid_date (Date 2026 4 20)" "valid_date (Date 2026 5 10)"
    by (simp_all add: valid_date_def days_in_month_def)
  have b: "Date 2026 4 20 \<le> Date 2026 5 10" by (simp add: less_eq_date_def less_date_def)
  have c: "(0 :: int) \<le> 300000" "(300000 :: int) \<le> 10 ^ 12" by simp_all
  have d: "month_index (Date 2026 5 10) < month_index (Date 2026 4 20) + 1200" by (simp add: month_index_def)
  have e: "(2 :: nat) < 1200" by simp
  from fixed_pay_daily [OF a b c d e, where i = 24316] show ?thesis .
qed

section \<open>The month of the card\<close>

lemma date_of_ordinal:
  "valid_date d \<Longrightarrow> 1 \<le> k \<Longrightarrow> k \<le> length_of i \<Longrightarrow> ordinal d = first_of i + k - 1 \<Longrightarrow> d = month_date i k"
  using ordinal_inject [of d "month_date i k"] month_date_valid [of k i] by simp

text \<open>The whole month but its last day, and the last day of the month before it.\<close>

lemma shifted_pay:
  "daily_pay cents (month_date (i - 1) (length_of (i - 1))) (days_left (month_date (i - 1) (length_of (i - 1))) (month_date i (length_of i - 1)))
   = of_int cents / of_int (length_of (i - 1)) + of_int cents * of_int (length_of i - 1) / of_int (length_of i)"
proof -
  let ?d = "month_date (i - 1) (length_of (i - 1))" and ?L = "length_of i"
  have n: "next_day ?d = month_date i 1"
    using first_of_next_month_date [of "i - 1" "length_of (i - 1)"]
    by (simp add: next_day_def first_of_next_month_def split: if_splits)
  have L: "28 \<le> ?L" by (rule length_of_bounds)
  have "days_left ?d (month_date i (?L - 1)) = Suc (nat (?L - 1))"
    using L first_of_Suc [of "i - 1"] by (simp add: days_left_def days_between_def)
  then show ?thesis using L by (simp add: n daily_pay_month)
qed

text \<open>C27: the salary on the earnings card of a month. West of Greenwich, or on it, the card shows the monthly amount; east
  of it, where the range it asks for is shifted by a day, it shows the share of the last day of the month before
  and of all days but the last of this month, rounded.\<close>

theorem salary_on_card:
  assumes tz: "\<And>t. \<bar>t - utc_of t\<bar> < DAY_ms" and d: "valid_date d" "valid_date e"
    and range: "currentMonthRange utc_of year month = (ordinal d, ordinal e)" and cents: "0 \<le> cents" "cents \<le> 10 ^ 12"
  defines "i \<equiv> 12 * year + month"
  shows "((\<forall>t. t \<le> utc_of t) \<longrightarrow> fixed_prorated cents d e = cents)
    \<and> ((\<forall>t. utc_of t < t) \<longrightarrow>
        \<bar>of_int (fixed_prorated cents d e)
          - (of_int cents / of_int (length_of (i - 1)) + of_int cents * of_int (length_of i - 1) / of_int (length_of i))\<bar>
        \<le> (1 / 2 + 1 / 10 ^ 6 :: rat))"
proof (intro conjI impI)
  note L = length_of_bounds(1) [of i] length_of_bounds(1) [of "i - 1"]
  note starts = month_start_index [of year] i_def [symmetric]
  have i1: "12 * year + (month + 1) = i + 1" by (simp add: i_def)
  {
    assume "\<forall>t. t \<le> utc_of t"
    with month_range_shifted [OF tz] range
    have "ordinal d = first_of i" "ordinal e = first_of (i + 1) - 1" by (simp_all add: starts i1)
    then have "d = month_date i 1" "e = month_date i (length_of i)"
      using L by (auto intro!: date_of_ordinal d simp: first_of_Suc)
    then show "fixed_prorated cents d e = cents" using whole_months [OF cents, of 0 i] by simp
  next
    assume "\<forall>t. utc_of t < t"
    with month_range_shifted [OF tz] range
    have "ordinal d = first_of i - 1" "ordinal e = first_of (i + 1) - 2" by (simp_all add: starts i1)
    then have de: "d = month_date (i - 1) (length_of (i - 1))" "e = month_date i (length_of i - 1)"
      using L first_of_Suc [of "i - 1"] by (auto intro!: date_of_ordinal d simp: first_of_Suc)
    have "d \<le> e" unfolding de by (rule month_date_le) (use L in simp_all)
    from fixed_near [OF d this cents] show "\<bar>of_int (fixed_prorated cents d e)
          - (of_int cents / of_int (length_of (i - 1)) + of_int cents * of_int (length_of i - 1) / of_int (length_of i))\<bar>
        \<le> (1 / 2 + 1 / 10 ^ 6 :: rat)" by (simp add: de shifted_pay)
  }
qed

text \<open>In Israel the card of March 2026 adds thirty-seven agorot and ten shekels to a salary of three thousand.\<close>

lemma card_of_march: "fixed_prorated 300000 (Date 2026 2 28) (Date 2026 3 30) = 301037"
  by code_simp

theorem salary_on_card_witness:
  "currentMonthRange (\<lambda>t. t - 7200000) 2026 2 = (ordinal (Date 2026 2 28), ordinal (Date 2026 3 30))
   \<and> \<bar>of_int (fixed_prorated 300000 (Date 2026 2 28) (Date 2026 3 30)) - (300000 / 28 + 300000 * 30 / 31)\<bar> \<le> (1 / 2 + 1 / 10 ^ 6 :: rat)"
proof -
  have tz: "\<bar>t - (t - 7200000)\<bar> < DAY_ms" for t :: int by (simp add: DAY_ms_def)
  have d: "valid_date (Date 2026 2 28)" "valid_date (Date 2026 3 30)"
    by (simp_all add: valid_date_def days_in_month_def is_leap_def)
  have r: "currentMonthRange (\<lambda>t. t - 7200000) 2026 2 = (ordinal (Date 2026 2 28), ordinal (Date 2026 3 30))"
    by (simp add: currentMonthRange_def ordinal_def month_start_def iso_day_def DAY_ms_def)
  have c: "(0 :: int) \<le> 300000" "(300000 :: int) \<le> 10 ^ 12" by simp_all
  have l: "length_of (12 * 2026 + 2 - 1) = 28" "length_of (12 * 2026 + 2) = 31"
    by (simp_all add: length_of_def days_in_month_def is_leap_def)
  from salary_on_card [OF tz d r c] have "\<bar>of_int (fixed_prorated 300000 (Date 2026 2 28) (Date 2026 3 30))
      - (of_int 300000 / of_int (length_of (12 * 2026 + 2 - 1))
         + of_int 300000 * of_int (length_of (12 * 2026 + 2) - 1) / of_int (length_of (12 * 2026 + 2)))\<bar> \<le> (1 / 2 + 1 / 10 ^ 6 :: rat)"
    by (auto dest: conjunct2)
  then show ?thesis using r unfolding l by simp
qed

section \<open>Counting what a coach did\<close>

definition start_of_day :: "date \<Rightarrow> int" where
  "start_of_day d = ordinal d * DAY_ms"

text \<open>The queries of the repositories, on the rows of the tables; \<open>since\<close> is included and \<open>until\<close> is not.\<close>

definition attributed :: "(string \<Rightarrow> int) \<Rightarrow> string \<Rightarrow> string \<Rightarrow> string \<Rightarrow> int \<Rightarrow> int \<Rightarrow> class_entry \<Rightarrow> bool" where
  "attributed tof tenant_id coach_id class_id since until e \<longleftrightarrow>
     ce_tenant_id e = tenant_id \<and> ce_coach_id e = Some coach_id \<and> ce_class_id e = class_id \<and> ce_undone_at e = None
     \<and> since \<le> tof (ce_entered_at e) \<and> tof (ce_entered_at e) < until"

definition count_effective :: "(string \<Rightarrow> int) \<Rightarrow> class_entry list \<Rightarrow> string \<Rightarrow> string \<Rightarrow> string \<Rightarrow> int \<Rightarrow> int \<Rightarrow> int" where
  "count_effective tof entries tenant_id coach_id class_id since until =
     int (length (filter (attributed tof tenant_id coach_id class_id since until) entries))"

definition count_distinct_days :: "(string \<Rightarrow> int) \<Rightarrow> class_entry list \<Rightarrow> string \<Rightarrow> string \<Rightarrow> string \<Rightarrow> int \<Rightarrow> int \<Rightarrow> int" where
  "count_distinct_days tof entries tenant_id coach_id class_id since until =
     int (length (remdups (map (\<lambda>e. tof (ce_entered_at e) div DAY_ms)
       (filter (attributed tof tenant_id coach_id class_id since until) entries))))"

definition count_scheduled :: "(string \<Rightarrow> int) \<Rightarrow> class_session list \<Rightarrow> string \<Rightarrow> string \<Rightarrow> string \<Rightarrow> int \<Rightarrow> int \<Rightarrow> int" where
  "count_scheduled tof sessions tenant_id coach_id class_id since until =
     int (length (filter (\<lambda>s. cs_tenant_id s = tenant_id \<and> cs_head_coach_id s = Some coach_id \<and> cs_class_id s = class_id
       \<and> cs_status s = SN_scheduled \<and> since \<le> tof (cs_starts_at s) \<and> tof (cs_starts_at s) < until) sessions))"

section \<open>The pay of a link\<close>

text \<open>A link as the server stores it, with its dates.\<close>

record pay_link =
  pl_class_id :: string
  pl_coach_id :: string
  pl_role :: string
  pl_pay_model :: pay_model
  pl_amount :: int
  pl_starts_on :: date
  pl_ends_on :: "date option"

text \<open>The rows of the gym, and whether its schedule feature is on.\<close>

record gym_rows =
  gr_tenant_id :: string
  gr_schedule :: bool
  gr_entries :: "class_entry list"
  gr_sessions :: "class_session list"
  gr_links :: "pay_link list"
  gr_class_names :: "(string \<times> string) list"
  gr_currency :: string

definition pay_for_link :: "(string \<Rightarrow> int) \<Rightarrow> gym_rows \<Rightarrow> pay_link \<Rightarrow> date \<Rightarrow> date \<Rightarrow> int \<times> int" where
  "pay_for_link tof g link span_from span_to =
     (let since = start_of_day span_from; until = start_of_day (next_day span_to) in
      case pl_pay_model link of
        PY_fixed \<Rightarrow> (fixed_prorated (pl_amount link) span_from span_to, days_between span_from span_to + 1)
      | PY_per_session \<Rightarrow>
          (let units = (if gr_schedule g
             then count_scheduled tof (gr_sessions g) (gr_tenant_id g) (pl_coach_id link) (pl_class_id link) since until
             else count_distinct_days tof (gr_entries g) (gr_tenant_id g) (pl_coach_id link) (pl_class_id link) since until)
           in (units * pl_amount link, units))
      | PY_per_attendance \<Rightarrow>
          (let n = count_effective tof (gr_entries g) (gr_tenant_id g) (pl_coach_id link) (pl_class_id link) since until
           in (n * pl_amount link, n)))"

text \<open>Counting is additive over adjoining intervals; for days the cut has to be a midnight.\<close>

lemma filter_interval_add:
  "a \<le> b \<Longrightarrow> b \<le> c \<Longrightarrow>
   length (filter (\<lambda>x. P x \<and> a \<le> t x \<and> t x < (c :: int)) xs)
     = length (filter (\<lambda>x. P x \<and> a \<le> t x \<and> t x < b) xs) + length (filter (\<lambda>x. P x \<and> b \<le> t x \<and> t x < c) xs)"
  by (induction xs) auto

lemma count_effective_add:
  "a \<le> b \<Longrightarrow> b \<le> c \<Longrightarrow> count_effective tof es t co cl a c = count_effective tof es t co cl a b + count_effective tof es t co cl b c"
  unfolding count_effective_def attributed_def conj_assoc [symmetric]
  by (subst conj_assoc, subst filter_interval_add [of a b c]) (simp_all add: conj_assoc)

lemma count_scheduled_add:
  "a \<le> b \<Longrightarrow> b \<le> c \<Longrightarrow> count_scheduled tof ss t co cl a c = count_scheduled tof ss t co cl a b + count_scheduled tof ss t co cl b c"
  unfolding count_scheduled_def conj_assoc [symmetric]
  by (subst conj_assoc, subst filter_interval_add [of a b c]) (simp_all add: conj_assoc)

lemma count_distinct_days_add:
  assumes "x \<le> y" "y \<le> z"
  shows "count_distinct_days tof es t co cl (x * DAY_ms) (z * DAY_ms)
    = count_distinct_days tof es t co cl (x * DAY_ms) (y * DAY_ms) + count_distinct_days tof es t co cl (y * DAY_ms) (z * DAY_ms)"
proof -
  let ?days = "\<lambda>a b. (\<lambda>e. tof (ce_entered_at e) div DAY_ms) ` {e \<in> set es. attributed tof t co cl (a * DAY_ms) (b * DAY_ms) e}"
  have count: "count_distinct_days tof es t co cl (a * DAY_ms) (b * DAY_ms) = int (card (?days a b))" for a b
    by (simp add: count_distinct_days_def length_remdups_card_conv)
  have D: "DAY_ms > 0" by (simp add: DAY_ms_def)
  have le: "a * DAY_ms \<le> s \<longleftrightarrow> a \<le> s div DAY_ms" for a s :: int
  proof
    assume "a * DAY_ms \<le> s"
    from zdiv_mono1 [OF this D] D show "a \<le> s div DAY_ms" by simp
  next
    assume "a \<le> s div DAY_ms"
    then have "a * DAY_ms \<le> s div DAY_ms * DAY_ms" using D by simp
    also have "\<dots> \<le> s" using D pos_mod_sign [of DAY_ms s] by (simp add: minus_mod_eq_div_mult [symmetric])
    finally show "a * DAY_ms \<le> s" .
  qed
  have day: "a * DAY_ms \<le> s \<longleftrightarrow> a \<le> s div DAY_ms" "s < a * DAY_ms \<longleftrightarrow> s div DAY_ms < a" for a s :: int
    using le [of a s] by linarith+
  have "?days x z = ?days x y \<union> ?days y z" using assms by (force simp: attributed_def day)
  moreover have "?days x y \<inter> ?days y z = {}" by (auto simp: attributed_def day)
  ultimately show ?thesis by (simp add: count card_Un_disjoint)
qed

section \<open>The breakdown\<close>

text \<open>The dates of a coach: the day he was hired, and the days on which he was frozen or cancelled.\<close>

record paid_coach =
  ec_id :: string
  ec_hired_at :: date
  ec_frozen_at :: "date option"
  ec_cancelled_at :: "date option"

definition coach_effective_window :: "paid_coach \<Rightarrow> date \<Rightarrow> date \<Rightarrow> (date \<times> date) option" where
  "coach_effective_window coach range_from range_to =
     (let start = max range_from (ec_hired_at coach);
          upto = (case ec_cancelled_at coach of None \<Rightarrow> range_to | Some c \<Rightarrow> min range_to c);
          upto = (case ec_frozen_at coach of None \<Rightarrow> upto | Some f \<Rightarrow> min upto (prev_day f))
      in if upto < start then None else Some (start, upto))"

record breakdown =
  eb_range :: "date \<times> date"
  eb_effective :: "(date \<times> date) option"
  eb_currency :: string
  eb_total_cents :: int
  eb_by_link :: "earnings_row list"
  eb_by_class_cents :: "(string \<times> int) list"
  eb_by_pay_model_cents :: "(string \<times> int) list"

text \<open>\<open>d[k] += cents\<close> on a \<open>defaultdict(int)\<close>.\<close>

definition add_cents :: "string \<Rightarrow> int \<Rightarrow> (string \<times> int) list \<Rightarrow> (string \<times> int) list" where
  "add_cents k cents d = AList.update k (nullish (map_of d k) 0 + cents) d"

definition breakdown_zero :: "date \<times> date \<Rightarrow> string \<Rightarrow> breakdown" where
  "breakdown_zero asked currency = \<lparr>eb_range = asked, eb_effective = None, eb_currency = currency, eb_total_cents = 0,
     eb_by_link = [], eb_by_class_cents = [], eb_by_pay_model_cents = []\<rparr>"

definition links_in_range :: "gym_rows \<Rightarrow> paid_coach \<Rightarrow> date \<Rightarrow> date \<Rightarrow> pay_link list" where
  "links_in_range g coach range_from range_to = filter (\<lambda>l. pl_coach_id l = ec_id coach \<and> pl_starts_on l \<le> range_to
     \<and> (case pl_ends_on l of None \<Rightarrow> True | Some e \<Rightarrow> range_from \<le> e)) (gr_links g)"

definition link_span :: "date \<Rightarrow> date \<Rightarrow> pay_link \<Rightarrow> date \<times> date" where
  "link_span eff_from eff_to link = (max eff_from (pl_starts_on link), min eff_to (nullish (pl_ends_on link) eff_to))"

text \<open>One turn of the loop over the links.\<close>

definition add_link :: "(string \<Rightarrow> int) \<Rightarrow> gym_rows \<Rightarrow> date \<Rightarrow> date \<Rightarrow> pay_link \<Rightarrow> breakdown \<Rightarrow> breakdown" where
  "add_link tof g eff_from eff_to link b =
     (let (span_from, span_to) = link_span eff_from eff_to link in
      if span_to < span_from then b
      else
        let (cents, unit) = pay_for_link tof g link span_from span_to
        in b\<lparr>eb_total_cents := eb_total_cents b + cents,
             eb_by_class_cents := add_cents (pl_class_id link) cents (eb_by_class_cents b),
             eb_by_pay_model_cents := add_cents (pay_model_text (pl_pay_model link)) cents (eb_by_pay_model_cents b),
             eb_by_link := eb_by_link b @ [\<lparr>er_cents = cents, er_class_id = pl_class_id link,
               er_class_name = map_of (gr_class_names g) (pl_class_id link), er_pay_amount_cents = pl_amount link,
               er_pay_model = pl_pay_model link, er_role = pl_role link, er_unit_count = unit\<rparr>]\<rparr>)"

text \<open>\<open>printed\<close> is the ISO text of a date in the message.\<close>

definition earnings_for ::
  "(string \<Rightarrow> int) \<Rightarrow> (date \<Rightarrow> string) \<Rightarrow> gym_rows \<Rightarrow> paid_coach \<Rightarrow> date \<Rightarrow> date \<Rightarrow> app_error + breakdown" where
  "earnings_for tof printed g coach range_from range_to =
     (if range_to < range_from
      then Inl (InvalidEarningsRangeError (''to ('' @ printed range_to @ '') must be >= from ('' @ printed range_from @ '')''))
      else case coach_effective_window coach range_from range_to of
        None \<Rightarrow> Inr (breakdown_zero (range_from, range_to) (gr_currency g))
      | Some (eff_from, eff_to) \<Rightarrow>
          Inr (fold (add_link tof g eff_from eff_to) (links_in_range g coach eff_from eff_to)
            ((breakdown_zero (range_from, range_to) (gr_currency g))\<lparr>eb_effective := Some (eff_from, eff_to)\<rparr>)))"

subsection \<open>The sums agree\<close>

definition cents_of :: "(earnings_row \<Rightarrow> bool) \<Rightarrow> earnings_row list \<Rightarrow> int" where
  "cents_of P rows = sum_list (map er_cents (filter P rows))"

definition sums_ok :: "breakdown \<Rightarrow> bool" where
  "sums_ok b \<longleftrightarrow> eb_total_cents b = cents_of (\<lambda>_. True) (eb_by_link b)
     \<and> distinct (map fst (eb_by_class_cents b)) \<and> distinct (map fst (eb_by_pay_model_cents b))
     \<and> (\<forall>c. nullish (map_of (eb_by_class_cents b) c) 0 = cents_of (\<lambda>r. er_class_id r = c) (eb_by_link b))
     \<and> (\<forall>m. nullish (map_of (eb_by_pay_model_cents b) m) 0 = cents_of (\<lambda>r. pay_model_text (er_pay_model r) = m) (eb_by_link b))
     \<and> sum_list (map snd (eb_by_class_cents b)) = eb_total_cents b
     \<and> sum_list (map snd (eb_by_pay_model_cents b)) = eb_total_cents b"

lemma cents_of_append [simp]: "cents_of P (rs @ [r]) = cents_of P rs + (if P r then er_cents r else 0)"
  by (simp add: cents_of_def)

lemma add_cents_keys: "distinct (map fst d) \<Longrightarrow> distinct (map fst (add_cents k c d))"
  unfolding add_cents_def by (rule distinct_update)

lemma add_cents_value: "nullish (map_of (add_cents k c d) k') 0 = nullish (map_of d k') 0 + (if k' = k then c else 0)"
  by (simp add: add_cents_def update_conv nullish_def)

lemma update_sum:
  "distinct (map fst d) \<Longrightarrow> sum_list (map snd (AList.update k v d)) = sum_list (map snd d) + v - nullish (map_of d k) 0"
  for v :: int
  by (induction d) (auto simp: nullish_def)

lemma add_cents_sum: "distinct (map fst d) \<Longrightarrow> sum_list (map snd (add_cents k c d)) = sum_list (map snd d) + c"
  by (simp add: add_cents_def update_sum)

lemma sums_ok_add_link: "sums_ok b \<Longrightarrow> sums_ok (add_link tof g f t link b)"
  by (simp add: sums_ok_def add_link_def Let_def split_beta add_cents_keys add_cents_value add_cents_sum)

lemma sums_ok_fold: "sums_ok b \<Longrightarrow> sums_ok (fold (add_link tof g f t) links b)"
  by (induction links arbitrary: b) (simp_all add: sums_ok_add_link)

lemma fold_add_link_range:
  "eb_range (fold (add_link tof g f t) links b) = eb_range b" "eb_effective (fold (add_link tof g f t) links b) = eb_effective b"
  by (induction links arbitrary: b) (simp_all add: add_link_def Let_def split_beta)

text \<open>What a coach is employed for: from the hiring to the cancellation or the day before the freeze.\<close>

definition employed :: "paid_coach \<Rightarrow> date \<times> date \<Rightarrow> bool" where
  "employed coach w \<longleftrightarrow> ec_hired_at coach \<le> fst w \<and> fst w \<le> snd w
     \<and> (case ec_cancelled_at coach of None \<Rightarrow> True | Some c \<Rightarrow> snd w \<le> c)
     \<and> (case ec_frozen_at coach of None \<Rightarrow> True | Some f \<Rightarrow> snd w \<le> prev_day f)"

lemma window_employed:
  "coach_effective_window coach a b = Some w \<Longrightarrow> employed coach w \<and> a \<le> fst w \<and> snd w \<le> b"
  by (auto simp: coach_effective_window_def employed_def Let_def not_less min_le_iff_disj split: option.splits if_splits)


definition sample_gym :: gym_rows where
  "sample_gym = \<lparr>gr_tenant_id = ''gym'', gr_schedule = False, gr_entries = [], gr_sessions = [],
     gr_links = [\<lparr>pl_class_id = ''yoga'', pl_coach_id = ''c1'', pl_role = ''head'', pl_pay_model = PY_per_session,
       pl_amount = 20000, pl_starts_on = Date 2026 1 1, pl_ends_on = None\<rparr>], gr_class_names = [], gr_currency = ''ILS''\<rparr>"


text \<open>Cutting a span between two days cuts the pay of a link by session or by attendance into two parts.\<close>

lemma pay_cut_adds_up:
  assumes "pl_pay_model link \<noteq> PY_fixed" and d: "valid_date a" "valid_date b" "valid_date c" and "a \<le> b" "b < c"
  shows "pay_for_link tof g link a c =
    (fst (pay_for_link tof g link a b) + fst (pay_for_link tof g link (next_day b) c),
     snd (pay_for_link tof g link a b) + snd (pay_for_link tof g link (next_day b) c))"
proof -
  have o: "ordinal a \<le> ordinal (next_day b)" "ordinal (next_day b) \<le> ordinal (next_day c)"
    using assms(5,6) ordinal_le [OF d(1,2)] ordinal_less [OF d(2,3)] by (simp_all add: ordinal_next d)
  then have s: "start_of_day a \<le> start_of_day (next_day b)" "start_of_day (next_day b) \<le> start_of_day (next_day c)"
    by (simp_all add: start_of_day_def DAY_ms_def)
  show ?thesis using assms(1)
    by (cases "pl_pay_model link") (simp_all add: pay_for_link_def Let_def distrib_right count_effective_add [OF s]
        count_scheduled_add [OF s] count_distinct_days_add [OF o, folded start_of_day_def])
qed

end
