(* ===== verification/Lifecycle.thy ===== *)
theory Lifecycle
  imports Dates Subscriptions
begin

text \<open>
  The subscriptions of one member over time: the dates that
  \<^verbatim>\<open>backend/app/services/subscription_service.py\<close> computes, the updates of its repository, the two nightly
  jobs of \<^verbatim>\<open>backend/app/workers/subscription_tasks.py\<close>, and the constraints of the table
  (\<^verbatim>\<open>adapters/storage/postgres/subscription/models.py\<close>), which have the last word. Roles and the tenant are
  checked before (\<^verbatim>\<open>ServerGates\<close>); events and payment details are left out.
\<close>

section \<open>The rows\<close>

record sub_life =
  sl_id :: string
  sl_plan_id :: string
  sl_status :: subscription_status
  sl_started_at :: date
  sl_expires_at :: "date option"
  sl_frozen_at :: "date option"
  sl_frozen_until :: "date option"
  sl_expired_at :: "date option"
  sl_cancelled_at :: "date option"
  sl_replaced_at :: "date option"

record member_life =
  ml_id :: string
  ml_tenant :: string
  ml_subs :: "sub_life list"
  ml_member :: member_status

text \<open>The \<open>CHECK\<close> constraints of a row, and the partial unique index of a member.\<close>

definition row_checks :: "sub_life \<Rightarrow> bool" where
  "row_checks s \<longleftrightarrow>
     (sl_status s \<noteq> SS_frozen \<and> sl_frozen_at s = None \<and> sl_frozen_until s = None
      \<or> sl_status s = SS_frozen \<and> sl_frozen_at s \<noteq> None)
   \<and> (sl_status s \<noteq> SS_cancelled \<and> sl_cancelled_at s = None \<or> sl_status s = SS_cancelled \<and> sl_cancelled_at s \<noteq> None)
   \<and> (sl_status s \<noteq> SS_replaced \<and> sl_replaced_at s = None \<or> sl_status s = SS_replaced \<and> sl_replaced_at s \<noteq> None)
   \<and> (case (sl_frozen_until s, sl_frozen_at s) of (Some u, Some f) \<Rightarrow> f \<le> u | _ \<Rightarrow> True)"

definition live_rows :: "sub_life list \<Rightarrow> sub_life list" where
  "live_rows = filter (\<lambda>s. is_live (sl_status s))"

definition table_ok :: "sub_life list \<Rightarrow> bool" where
  "table_ok subs \<longleftrightarrow> list_all row_checks subs \<and> length (live_rows subs) \<le> 1"

section \<open>The dates\<close>

definition resolve_expires_at :: "membership_plan \<Rightarrow> date \<Rightarrow> date option \<Rightarrow> date option" where
  "resolve_expires_at plan started_at caller_override =
     (case caller_override of
        Some e \<Rightarrow> Some e
      | None \<Rightarrow>
         (case p_duration_days plan of
            Some n \<Rightarrow> if p_type plan = PT_one_time then Some (add_days (nat n) started_at) else None
          | None \<Rightarrow> None))"

fun billing_period_days :: "billing_period \<Rightarrow> nat" where
  "billing_period_days BP_monthly = 30"
| "billing_period_days BP_quarterly = 90"
| "billing_period_days BP_yearly = 365"
| "billing_period_days BP_one_time = 30"

definition default_renewal_expires_at :: "sub_life \<Rightarrow> membership_plan \<Rightarrow> date \<Rightarrow> date" where
  "default_renewal_expires_at s plan today =
     (let base = (case sl_expires_at s of
                    Some e \<Rightarrow> if sl_status s = SS_active then max today e else today
                  | None \<Rightarrow> today)
      in case p_duration_days plan of
           Some n \<Rightarrow> if p_type plan = PT_one_time then add_days (nat n) base
                     else add_days (billing_period_days (p_billing_period plan)) base
         | None \<Rightarrow> add_days (billing_period_days (p_billing_period plan)) base)"

definition extend_expires_for_unfreeze :: "sub_life \<Rightarrow> date \<Rightarrow> date option" where
  "extend_expires_for_unfreeze s today =
     (case (sl_expires_at s, sl_frozen_at s) of
        (Some e, Some f) \<Rightarrow> Some (add_days (nat (max 0 (days_between f today))) e)
      | _ \<Rightarrow> sl_expires_at s)"

definition should_auto_unfreeze :: "date \<Rightarrow> sub_life \<Rightarrow> bool" where
  "should_auto_unfreeze today s \<longleftrightarrow> sl_status s = SS_frozen \<and> (case sl_frozen_until s of None \<Rightarrow> False | Some u \<Rightarrow> u \<le> today)"

definition should_auto_expire :: "date \<Rightarrow> sub_life \<Rightarrow> bool" where
  "should_auto_expire today s \<longleftrightarrow> sl_status s = SS_active \<and> (case sl_expires_at s of None \<Rightarrow> False | Some e \<Rightarrow> e < today)"

section \<open>The updates of the repository\<close>

definition new_sub :: "string \<Rightarrow> membership_plan \<Rightarrow> date \<Rightarrow> date option \<Rightarrow> sub_life" where
  "new_sub i plan started_at expires_at = \<lparr>sl_id = i, sl_plan_id = p_id plan, sl_status = SS_active, sl_started_at = started_at,
     sl_expires_at = expires_at, sl_frozen_at = None, sl_frozen_until = None, sl_expired_at = None,
     sl_cancelled_at = None, sl_replaced_at = None\<rparr>"

definition row_freeze :: "date \<Rightarrow> date option \<Rightarrow> sub_life \<Rightarrow> sub_life" where
  "row_freeze today frozen_until s = s\<lparr>sl_status := SS_frozen, sl_frozen_at := Some today, sl_frozen_until := frozen_until\<rparr>"

definition row_unfreeze :: "date \<Rightarrow> sub_life \<Rightarrow> sub_life" where
  "row_unfreeze today s = s\<lparr>sl_status := SS_active, sl_frozen_at := None, sl_frozen_until := None,
     sl_expires_at := extend_expires_for_unfreeze s today\<rparr>"

definition row_expire :: "date \<Rightarrow> sub_life \<Rightarrow> sub_life" where
  "row_expire today s = s\<lparr>sl_status := SS_expired, sl_expired_at := Some today\<rparr>"

definition row_renew :: "date \<Rightarrow> membership_plan \<Rightarrow> date option \<Rightarrow> sub_life \<Rightarrow> sub_life" where
  "row_renew today plan new_expires_at s = s\<lparr>sl_status := SS_active,
     sl_expires_at := Some (nullish new_expires_at (default_renewal_expires_at s plan today))\<rparr>"

definition row_cancel :: "date \<Rightarrow> sub_life \<Rightarrow> sub_life" where
  "row_cancel today s = s\<lparr>sl_status := SS_cancelled, sl_cancelled_at := Some today\<rparr>"

definition row_replace :: "date \<Rightarrow> sub_life \<Rightarrow> sub_life" where
  "row_replace effective s = s\<lparr>sl_status := SS_replaced, sl_replaced_at := Some effective\<rparr>"

text \<open>\<open>UPDATE ... WHERE id = i\<close>, the lookup by id, and the row of a member that is live.\<close>

definition update_row :: "string \<Rightarrow> (sub_life \<Rightarrow> sub_life) \<Rightarrow> sub_life list \<Rightarrow> sub_life list" where
  "update_row i f = map (\<lambda>s. if sl_id s = i then f s else s)"

definition sub_by_id :: "string \<Rightarrow> sub_life list \<Rightarrow> sub_life option" where
  "sub_by_id i = List.find (\<lambda>s. sl_id s = i)"

section \<open>The service\<close>

text \<open>
  What a request ends with: an error of the service, an error of the database, which no handler of the
  server names (status 500), or the rows it commits. A failed request rolls back.
\<close>

datatype fault = Service app_error | Database

definition write_rows :: "member_life \<Rightarrow> sub_life list \<Rightarrow> member_status \<Rightarrow> fault + member_life" where
  "write_rows m subs status = (if table_ok subs then Inr (m\<lparr>ml_subs := subs, ml_member := status\<rparr>) else Inl Database)"

definition insert_row :: "member_life \<Rightarrow> sub_life list \<Rightarrow> sub_life \<Rightarrow> fault + member_life" where
  "insert_row m subs s =
     (if table_ok (subs @ [s]) then Inr (m\<lparr>ml_subs := subs @ [s], ml_member := MS_active\<rparr>)
      else Inl (Service (MemberAlreadyHasActiveSubscriptionError (ml_id m))))"

definition refuse :: "string \<Rightarrow> string \<Rightarrow> fault + member_life" where
  "refuse current action = Inl (Service (InvalidSubscriptionStateTransitionError current action))"

text \<open>The row a transition is about; another id is not found.\<close>

definition with_sub :: "member_life \<Rightarrow> string \<Rightarrow> (sub_life \<Rightarrow> fault + member_life) \<Rightarrow> fault + member_life" where
  "with_sub m i k = (case sub_by_id i (ml_subs m) of
     None \<Rightarrow> Inl (Service (SubscriptionNotFoundError i)) | Some s \<Rightarrow> k s)"

definition with_plan ::
  "membership_plan list \<Rightarrow> string \<Rightarrow> string \<Rightarrow> (membership_plan \<Rightarrow> fault + member_life) \<Rightarrow> fault + member_life" where
  "with_plan plans tenant plan_id k = (case List.find (\<lambda>p. p_id p = plan_id) plans of
     None \<Rightarrow> Inl (Service (MembershipPlanNotFoundError plan_id))
   | Some plan \<Rightarrow>
      if p_tenant_id plan \<noteq> tenant then Inl (Service SubscriptionPlanMismatchError)
      else if \<not> p_is_active plan then refuse ''inactive'' ''subscribe to''
      else k plan)"

text \<open>
  The operations, with the id of the row they are about or, first, the id the database gives to a new
  one. The dates of the body that are \<open>None\<close> are left out by the caller.
\<close>

datatype life_op = Enroll string string "date option" "date option" | Freeze string "date option" | Unfreeze string
  | Renew string "date option" | ChangePlan string string string "date option" | Cancel string

fun life_step :: "membership_plan list \<Rightarrow> date \<Rightarrow> life_op \<Rightarrow> member_life \<Rightarrow> fault + member_life" where
  "life_step plans today (Enroll new_id plan_id started_at expires_at) m =
     with_plan plans (ml_tenant m) plan_id (\<lambda>plan.
       if live_rows (ml_subs m) \<noteq> [] then Inl (Service (MemberAlreadyHasActiveSubscriptionError (ml_id m)))
       else let start = nullish started_at today
            in insert_row m (ml_subs m) (new_sub new_id plan start (resolve_expires_at plan start expires_at)))"
| "life_step plans today (Freeze i frozen_until) m =
     with_sub m i (\<lambda>s.
       if \<not> can_freeze (sl_status s) then refuse (subscription_status_text (sl_status s)) ''freeze''
       else write_rows m (update_row i (row_freeze today frozen_until) (ml_subs m)) MS_frozen)"
| "life_step plans today (Unfreeze i) m =
     with_sub m i (\<lambda>s.
       if \<not> can_unfreeze (sl_status s) then refuse (subscription_status_text (sl_status s)) ''unfreeze''
       else write_rows m (update_row i (row_unfreeze today) (ml_subs m)) MS_active)"
| "life_step plans today (Renew i new_expires_at) m =
     with_sub m i (\<lambda>s.
       if \<not> can_renew (sl_status s) then refuse (subscription_status_text (sl_status s)) ''renew''
       else case List.find (\<lambda>p. p_id p = sl_plan_id s) plans of
           None \<Rightarrow> Inl (Service (MembershipPlanNotFoundError (sl_plan_id s)))
         | Some plan \<Rightarrow> write_rows m (update_row i (row_renew today plan new_expires_at) (ml_subs m)) MS_active)"
| "life_step plans today (ChangePlan i new_id new_plan_id effective_date) m =
     with_sub m i (\<lambda>s.
       if \<not> can_change_plan (sl_status s) then refuse (subscription_status_text (sl_status s)) ''change plan''
       else if sl_plan_id s = new_plan_id then Inl (Service SamePlanChangeError)
       else with_plan plans (ml_tenant m) new_plan_id (\<lambda>plan.
         let effective = nullish effective_date today;
             subs = update_row i (row_replace effective) (ml_subs m)
         in if \<not> table_ok subs then Inl Database
            else insert_row m subs (new_sub new_id plan effective (resolve_expires_at plan effective None))))"
| "life_step plans today (Cancel i) m =
     with_sub m i (\<lambda>s.
       if \<not> can_cancel (sl_status s) then refuse (subscription_status_text (sl_status s)) ''cancel''
       else write_rows m (update_row i (row_cancel today) (ml_subs m)) MS_cancelled)"

text \<open>The nightly jobs: each row that is due is updated, then the member's status.\<close>

fun each_due :: "(sub_life \<Rightarrow> sub_life) \<Rightarrow> member_status \<Rightarrow> sub_life list \<Rightarrow> member_life \<Rightarrow> fault + member_life" where
  "each_due f status [] m = Inr m"
| "each_due f status (s # due) m =
     (case write_rows m (update_row (sl_id s) f (ml_subs m)) status of
        Inl e \<Rightarrow> Inl e
      | Inr m' \<Rightarrow> each_due f status due m')"

definition auto_unfreeze_due :: "date \<Rightarrow> member_life \<Rightarrow> fault + member_life" where
  "auto_unfreeze_due today m = each_due (row_unfreeze today) MS_active (filter (should_auto_unfreeze today) (ml_subs m)) m"

definition auto_expire_due :: "date \<Rightarrow> member_life \<Rightarrow> fault + member_life" where
  "auto_expire_due today m = each_due (row_expire today) MS_expired (filter (should_auto_expire today) (ml_subs m)) m"

section \<open>One row at a time\<close>

lemma live_rows_append [simp]: "live_rows (xs @ ys) = live_rows xs @ live_rows ys"
  by (simp add: live_rows_def)

lemma live_rows_Cons [simp]: "live_rows (s # ys) = (if is_live (sl_status s) then s # live_rows ys else live_rows ys)"
  by (simp add: live_rows_def)

lemma live_rows_Nil [simp]: "live_rows [] = []"
  by (simp add: live_rows_def)

lemma row_ids [simp]:
  "sl_id (row_freeze today u s) = sl_id s" "sl_id (row_unfreeze today s) = sl_id s" "sl_id (row_expire today s) = sl_id s"
  "sl_id (row_renew today plan e s) = sl_id s" "sl_id (row_cancel today s) = sl_id s" "sl_id (row_replace t s) = sl_id s"
  "sl_id (new_sub i plan t e) = i"
  by (simp_all add: row_freeze_def row_unfreeze_def row_expire_def row_renew_def row_cancel_def row_replace_def new_sub_def)

lemma row_statuses [simp]:
  "sl_status (row_freeze today u s) = SS_frozen" "sl_status (row_unfreeze today s) = SS_active"
  "sl_status (row_expire today s) = SS_expired" "sl_status (row_renew today plan e s) = SS_active"
  "sl_status (row_cancel today s) = SS_cancelled" "sl_status (row_replace t s) = SS_replaced"
  "sl_status (new_sub i plan t e) = SS_active"
  by (simp_all add: row_freeze_def row_unfreeze_def row_expire_def row_renew_def row_cancel_def row_replace_def new_sub_def)

lemma live_statuses [simp]:
  "is_live SS_active" "is_live SS_frozen" "\<not> is_live SS_expired" "\<not> is_live SS_cancelled" "\<not> is_live SS_replaced"
  by (simp_all add: is_live_def)

definition ids_distinct :: "sub_life list \<Rightarrow> bool" where
  "ids_distinct subs \<longleftrightarrow> distinct (map sl_id subs)"

lemma update_row_split:
  assumes "ids_distinct subs" "sub_by_id i subs = Some s"
  obtains xs ys where "subs = xs @ s # ys" "sl_id s = i" "\<And>f. update_row i f subs = xs @ f s # ys"
proof -
  from assms(2) have s: "s \<in> set subs" "sl_id s = i" by (auto simp: sub_by_id_def dest: find_Some_mem)
  then obtain xs ys where subs: "subs = xs @ s # ys" by (auto dest: split_list)
  with assms(1) s(2) have "i \<notin> sl_id ` set xs" "i \<notin> sl_id ` set ys" by (auto simp: ids_distinct_def)
  then have "map (\<lambda>s. if sl_id s = i then f s else s) xs = xs" "map (\<lambda>s. if sl_id s = i then f s else s) ys = ys" for f
    by (auto intro!: map_idI)
  with subs s(2) that [of xs ys] show thesis by (simp add: update_row_def)
qed

lemma update_row_ids: "(\<And>s. sl_id (f s) = sl_id s) \<Longrightarrow> map sl_id (update_row i f subs) = map sl_id subs"
  by (simp add: update_row_def)

lemma sub_by_id_update:
  "(\<And>s. sl_id (f s) = sl_id s) \<Longrightarrow> sub_by_id i (update_row i f subs) = map_option f (sub_by_id i subs)"
  by (induction subs) (simp_all add: sub_by_id_def update_row_def)

section \<open>The member in step with the subscriptions\<close>

text \<open>
  \<open>_sync_member_status\<close>: with a live subscription the member's status is the subscription's; without one a
  member who ever had a subscription is expired or cancelled.
\<close>

fun mirrored :: "subscription_status \<Rightarrow> member_status" where
  "mirrored SS_frozen = MS_frozen"
| "mirrored SS_active = MS_active"
| "mirrored SS_expired = MS_expired"
| "mirrored SS_cancelled = MS_cancelled"
| "mirrored SS_replaced = MS_active"

definition member_in_step :: "member_life \<Rightarrow> bool" where
  "member_in_step m \<longleftrightarrow> table_ok (ml_subs m) \<and> ids_distinct (ml_subs m)
     \<and> list_all (\<lambda>s. ml_member m = mirrored (sl_status s)) (live_rows (ml_subs m))
     \<and> (live_rows (ml_subs m) = [] \<and> ml_subs m \<noteq> [] \<longrightarrow> ml_member m \<in> {MS_expired, MS_cancelled})"

lemma write_live:
  assumes m: "member_in_step m" "sub_by_id i (ml_subs m) = Some s" "\<And>s. sl_id (f s) = sl_id s"
    and w: "write_rows m (update_row i f (ml_subs m)) status = Inr m'"
    and live: "is_live (sl_status (f s))" "status = mirrored (sl_status (f s))"
  shows "member_in_step m'"
proof -
  from m(1) have ids: "ids_distinct (ml_subs m)" by (simp add: member_in_step_def)
  obtain xs ys where "update_row i f (ml_subs m) = xs @ f s # ys" by (rule update_row_split [OF ids m(2)]) blast
  moreover have "map sl_id (update_row i f (ml_subs m)) = map sl_id (ml_subs m)" by (rule update_row_ids) (rule m(3))
  ultimately show ?thesis using ids w live
    by (auto simp: member_in_step_def write_rows_def table_ok_def ids_distinct_def split: if_splits)
qed

lemma write_ended:
  assumes m: "member_in_step m" "sub_by_id i (ml_subs m) = Some s" "\<And>s. sl_id (f s) = sl_id s"
    and w: "write_rows m (update_row i f (ml_subs m)) status = Inr m'"
    and ended: "\<not> is_live (sl_status (f s))" "status \<in> {MS_expired, MS_cancelled}"
    and only: "is_live (sl_status s) \<or> live_rows (ml_subs m) = []"
  shows "member_in_step m'"
proof -
  from m(1) have ids: "ids_distinct (ml_subs m)" by (simp add: member_in_step_def)
  obtain xs ys where subs: "ml_subs m = xs @ s # ys" and upd: "update_row i f (ml_subs m) = xs @ f s # ys"
    by (rule update_row_split [OF ids m(2)]) blast
  from subs only m(1) have "live_rows xs = []" "live_rows ys = []"
    by (auto simp: member_in_step_def table_ok_def split: if_splits)
  moreover have "map sl_id (update_row i f (ml_subs m)) = map sl_id (ml_subs m)" by (rule update_row_ids) (rule m(3))
  ultimately show ?thesis using ids w ended upd
    by (auto simp: member_in_step_def write_rows_def ids_distinct_def split: if_splits)
qed

lemma insert_kept:
  assumes "insert_row m subs n = Inr m'" "sl_status n = SS_active" "ids_distinct subs" "sl_id n \<notin> sl_id ` set subs"
  shows "member_in_step m'"
  using assms by (auto simp: insert_row_def member_in_step_def table_ok_def ids_distinct_def split: if_splits)

lemma update_row_set: "sl_id ` set (update_row i f subs) = sl_id ` set subs" if "\<And>s. sl_id (f s) = sl_id s"
  using update_row_ids [of f i subs, OF that] by (metis set_map)

text \<open>
  What the database and the screens see to: a new row gets a new id, and a subscription is cancelled
  from the card of the live one, or when none is live.
\<close>

fun op_possible :: "member_life \<Rightarrow> life_op \<Rightarrow> bool" where
  "op_possible m (Enroll new_id _ _ _) \<longleftrightarrow> new_id \<notin> sl_id ` set (ml_subs m)"
| "op_possible m (ChangePlan _ new_id _ _) \<longleftrightarrow> new_id \<notin> sl_id ` set (ml_subs m)"
| "op_possible m (Cancel i) \<longleftrightarrow> live_rows (ml_subs m) = [] \<or> i \<in> sl_id ` set (live_rows (ml_subs m))"
| "op_possible m _ \<longleftrightarrow> True"

lemma with_sub_InrE [elim]:
  assumes "with_sub m i k = Inr r"
  obtains s where "sub_by_id i (ml_subs m) = Some s" "k s = Inr r"
  using assms by (auto simp: with_sub_def split: option.splits)

lemma with_plan_InrE [elim]:
  assumes "with_plan plans t p k = Inr r"
  obtains plan where "List.find (\<lambda>q. p_id q = p) plans = Some plan" "k plan = Inr r"
  using assms by (auto simp: with_plan_def refuse_def split: option.splits if_splits)

lemma live_by_id:
  assumes "ids_distinct subs" "sub_by_id i subs = Some s" "i \<in> sl_id ` set (live_rows subs)"
  shows "is_live (sl_status s)"
proof -
  from assms(3) obtain r where r: "r \<in> set subs" "is_live (sl_status r)" "sl_id r = i" by (auto simp: live_rows_def)
  with find_by_key [of sl_id subs r] assms(1,2) have "r = s" by (simp add: ids_distinct_def sub_by_id_def)
  with r show ?thesis by simp
qed

lemma step_kept:
  assumes m: "member_in_step m" and possible: "op_possible m op" and step: "life_step plans today op m = Inr m'"
  shows "member_in_step m'"
proof -
  from m have ids: "ids_distinct (ml_subs m)" by (simp add: member_in_step_def)
  show ?thesis
  proof (cases op)
    case (Enroll i p a e)
    with step obtain plan t x where "insert_row m (ml_subs m) (new_sub i plan t x) = Inr m'"
      by (auto simp: Let_def split: if_splits)
    from insert_kept [OF this _ ids] possible Enroll show ?thesis by simp
  next
    case (Freeze i u)
    with step obtain s where "sub_by_id i (ml_subs m) = Some s"
      "write_rows m (update_row i (row_freeze today u) (ml_subs m)) MS_frozen = Inr m'"
      by (auto simp: refuse_def split: if_splits)
    from write_live [OF m this(1) _ this(2)] show ?thesis by simp
  next
    case (Unfreeze i)
    with step obtain s where "sub_by_id i (ml_subs m) = Some s"
      "write_rows m (update_row i (row_unfreeze today) (ml_subs m)) MS_active = Inr m'"
      by (auto simp: refuse_def split: if_splits)
    from write_live [OF m this(1) _ this(2)] show ?thesis by simp
  next
    case (Renew i e)
    with step obtain s plan where "sub_by_id i (ml_subs m) = Some s"
      "write_rows m (update_row i (row_renew today plan e) (ml_subs m)) MS_active = Inr m'"
      by (auto simp: refuse_def split: if_splits option.splits)
    from write_live [OF m this(1) _ this(2)] show ?thesis by simp
  next
    case (ChangePlan i n p e)
    from step [unfolded ChangePlan life_step.simps] obtain plan where "(let effective = nullish e today;
        subs = update_row i (row_replace effective) (ml_subs m)
      in if \<not> table_ok subs then Inl Database
         else insert_row m subs (new_sub n plan effective (resolve_expires_at plan effective None))) = Inr m'"
      by (elim with_sub_InrE) (auto simp: refuse_def split: if_splits elim: with_plan_InrE)
    then obtain t x where ins: "insert_row m (update_row i (row_replace t) (ml_subs m)) (new_sub n plan t x) = Inr m'"
      by (auto simp: Let_def split: if_splits)
    have "ids_distinct (update_row i (row_replace t) (ml_subs m))"
      using ids by (simp add: ids_distinct_def update_row_ids)
    from insert_kept [OF ins _ this] possible ChangePlan show ?thesis by (simp add: update_row_set)
  next
    case (Cancel i)
    with step obtain s where s: "sub_by_id i (ml_subs m) = Some s"
      and w: "write_rows m (update_row i (row_cancel today) (ml_subs m)) MS_cancelled = Inr m'"
      by (auto simp: refuse_def split: if_splits)
    with possible Cancel live_by_id [OF ids] have "is_live (sl_status s) \<or> live_rows (ml_subs m) = []" by auto
    with write_ended [OF m s _ w] show ?thesis by simp
  qed
qed

section \<open>The nights\<close>

lemma due_one:
  assumes "member_in_step m" "\<And>s. P s \<Longrightarrow> is_live (sl_status s)"
  obtains "filter P (ml_subs m) = []"
  | s where "filter P (ml_subs m) = [s]" "sub_by_id (sl_id s) (ml_subs m) = Some s" "P s" "live_rows (ml_subs m) = [s]"
proof -
  have "filter P (ml_subs m) = filter P (live_rows (ml_subs m))"
    using assms(2) unfolding live_rows_def filter_filter by (metis)
  moreover from assms(1) have "length (live_rows (ml_subs m)) \<le> 1" by (simp add: member_in_step_def table_ok_def)
  then consider "live_rows (ml_subs m) = []" | s where "live_rows (ml_subs m) = [s]"
    by (cases "live_rows (ml_subs m)"; cases "tl (live_rows (ml_subs m))") auto
  ultimately consider "filter P (ml_subs m) = []" | s where "filter P (ml_subs m) = [s]" "live_rows (ml_subs m) = [s]" "P s"
    by (metis filter.simps)
  then show thesis
  proof cases
    case (2 s)
    then have "s \<in> set (filter P (ml_subs m))" by simp
    then have "s \<in> set (ml_subs m)" by simp
    with assms(1) have "sub_by_id (sl_id s) (ml_subs m) = Some s"
      using find_by_key [of sl_id "ml_subs m" s] by (simp add: member_in_step_def ids_distinct_def sub_by_id_def)
    with 2 that(2) show ?thesis by blast
  qed (use that(1) in blast)
qed

lemma table_ok_update:
  assumes "table_ok subs" "ids_distinct subs" "sub_by_id i subs = Some s" "is_live (sl_status s)" "row_checks (f s)"
  shows "table_ok (update_row i f subs)"
proof -
  obtain xs ys where subs: "subs = xs @ s # ys" and upd: "update_row i f subs = xs @ f s # ys"
    by (rule update_row_split [OF assms(2,3)]) blast
  with assms(1,4) have "live_rows xs = []" "live_rows ys = []" "list_all row_checks xs" "list_all row_checks ys"
    by (simp_all add: table_ok_def)
  with assms(5) show ?thesis by (simp add: upd table_ok_def)
qed

lemma night:
  assumes m: "member_in_step m" and P: "\<And>s. P s \<Longrightarrow> is_live (sl_status s)"
    and f: "\<And>s. sl_id (f s) = sl_id s" "\<And>s. P s \<Longrightarrow> row_checks s \<Longrightarrow> row_checks (f s)" "\<And>s. \<not> P (f s)"
    and st: "(\<forall>s. is_live (sl_status (f s)) \<and> status = mirrored (sl_status (f s)))
      \<or> (\<forall>s. \<not> is_live (sl_status (f s))) \<and> status \<in> {MS_expired, MS_cancelled}"
  obtains m' where "each_due f status (filter P (ml_subs m)) m = Inr m'" "member_in_step m'" "filter P (ml_subs m') = []"
    "\<And>Q. (\<And>s. \<not> Q (f s)) \<Longrightarrow> filter Q (ml_subs m) = [] \<Longrightarrow> filter Q (ml_subs m') = []"
proof (rule due_one [OF m, of P])
  assume "filter P (ml_subs m) = []"
  with m that [of m] show thesis by simp
next
  fix s
  assume 2: "filter P (ml_subs m) = [s]" "sub_by_id (sl_id s) (ml_subs m) = Some s" "P s" "live_rows (ml_subs m) = [s]"
  from m have ids: "ids_distinct (ml_subs m)" by (simp add: member_in_step_def)
  obtain xs ys where subs: "ml_subs m = xs @ s # ys" and upd: "update_row (sl_id s) f (ml_subs m) = xs @ f s # ys"
    by (rule update_row_split [OF ids 2(2)]) blast
  define m' where "m' = m\<lparr>ml_subs := xs @ f s # ys, ml_member := status\<rparr>"
  from m have "table_ok (ml_subs m)" "row_checks s" by (simp_all add: member_in_step_def table_ok_def subs)
  with table_ok_update [OF this(1) ids 2(2), of f] P [OF 2(3)] f(2) [OF 2(3)] have "table_ok (xs @ f s # ys)"
    by (simp add: upd)
  then have w: "write_rows m (update_row (sl_id s) f (ml_subs m)) status = Inr m'"
    by (simp add: write_rows_def upd m'_def)
  have "member_in_step m'"
    using st write_live [OF m 2(2) f(1) w] write_ended [OF m 2(2) f(1) w] P [OF 2(3)] by blast
  moreover have "filter P (ml_subs m') = []"
    using 2(1,3) subs f(3) by (auto simp: m'_def filter_eq_Cons_iff append_eq_Cons_conv)
  ultimately show ?thesis using w 2(1) subs by (intro that [of m']) (auto simp: m'_def split: if_splits)
qed (rule P)

lemma unfreeze_night:
  assumes "member_in_step m"
  obtains m' where "auto_unfreeze_due today m = Inr m'" "member_in_step m'" "filter (should_auto_unfreeze today) (ml_subs m') = []"
  unfolding auto_unfreeze_due_def
  by (rule night [OF assms, of "should_auto_unfreeze today" "row_unfreeze today" MS_active])
    (auto simp: should_auto_unfreeze_def row_checks_def row_unfreeze_def)

lemma expire_night:
  assumes "member_in_step m"
  obtains m' where "auto_expire_due today m = Inr m'" "member_in_step m'" "filter (should_auto_expire today) (ml_subs m') = []"
    "filter (should_auto_unfreeze today) (ml_subs m) = [] \<Longrightarrow> filter (should_auto_unfreeze today) (ml_subs m') = []"
  unfolding auto_expire_due_def
  by (rule night [OF assms, of "should_auto_expire today" "row_expire today" MS_expired])
    (auto simp: should_auto_expire_def should_auto_unfreeze_def row_checks_def row_expire_def)

text \<open>The life of a member from the first enrolment on: requests that are granted, and the nights.\<close>

inductive member_lives :: "membership_plan list \<Rightarrow> member_life \<Rightarrow> bool" for plans where
  joined: "ml_subs m = [] \<Longrightarrow> member_lives plans m"
| request: "member_lives plans m \<Longrightarrow> op_possible m op \<Longrightarrow> life_step plans today op m = Inr m' \<Longrightarrow> member_lives plans m'"
| unfreeze_job: "member_lives plans m \<Longrightarrow> auto_unfreeze_due today m = Inr m' \<Longrightarrow> member_lives plans m'"
| expire_job: "member_lives plans m \<Longrightarrow> auto_expire_due today m = Inr m' \<Longrightarrow> member_lives plans m'"


text \<open>C23: the two nightly jobs, run one after the other, meet no constraint of the table, and leave nothing
  for a second run: no subscription is due for either of them any more.\<close>

theorem night_settles:
  assumes "member_in_step m"
  shows "\<exists>m1 m2. auto_unfreeze_due today m = Inr m1 \<and> auto_expire_due today m1 = Inr m2 \<and> member_in_step m2
    \<and> auto_unfreeze_due today m2 = Inr m2 \<and> auto_expire_due today m2 = Inr m2"
proof -
  obtain m1 where m1: "auto_unfreeze_due today m = Inr m1" "member_in_step m1"
    "filter (should_auto_unfreeze today) (ml_subs m1) = []" by (rule unfreeze_night [OF assms])
  obtain m2 where m2: "auto_expire_due today m1 = Inr m2" "member_in_step m2"
    "filter (should_auto_expire today) (ml_subs m2) = []" "filter (should_auto_unfreeze today) (ml_subs m2) = []"
    using m1(3) by (rule_tac expire_night [OF m1(2)]) blast
  from m1 m2 show ?thesis by (simp add: auto_unfreeze_due_def [of _ m2] auto_expire_due_def [of _ m2])
qed

section \<open>Freezing\<close>

lemma frozen_days_back:
  assumes "sl_expires_at s = Some e" "valid_date e" "valid_date f" "valid_date t" "f \<le> t"
  shows "\<exists>e'. sl_expires_at (row_unfreeze t (row_freeze f u s)) = Some e' \<and> valid_date e' \<and> days_between t e' = days_between f e"
  using assms
  by (simp add: row_unfreeze_def row_freeze_def extend_expires_for_unfreeze_def days_between_def ordinal_add ordinal_le)

text \<open>C22: a freeze costs a member no paid day: after the freeze and the return as many days are left until the
  expiry as on the day of the freeze, the subscription is active again, and the night's expiry job leaves
  it alone unless it had already run out before the freeze.\<close>

theorem freeze_keeps_days:
  assumes s: "sub_by_id i (ml_subs m) = Some s" and e: "sl_expires_at s = Some e"
    and dates: "valid_date e" "valid_date f" "valid_date t" "f \<le> t"
    and freeze: "life_step plans f (Freeze i u) m = Inr m1" and unfreeze: "life_step plans t (Unfreeze i) m1 = Inr m2"
  shows "\<exists>r e'. sub_by_id i (ml_subs m2) = Some r \<and> sl_status r = SS_active \<and> sl_expires_at r = Some e'
    \<and> days_between t e' = days_between f e \<and> (f \<le> e \<longrightarrow> \<not> should_auto_expire t r)"
proof -
  from freeze have m1: "ml_subs m1 = update_row i (row_freeze f u) (ml_subs m)"
    by (auto elim!: with_sub_InrE simp: write_rows_def refuse_def split: if_splits)
  from unfreeze have m2: "ml_subs m2 = update_row i (row_unfreeze t) (ml_subs m1)"
    by (auto elim!: with_sub_InrE simp: write_rows_def refuse_def split: if_splits)
  define r where "r = row_unfreeze t (row_freeze f u s)"
  have r: "sub_by_id i (ml_subs m2) = Some r" by (simp add: m1 m2 sub_by_id_update s r_def)
  obtain e' where e': "sl_expires_at r = Some e'" "valid_date e'" "days_between t e' = days_between f e"
    using frozen_days_back [OF e dates] unfolding r_def by blast
  have "\<not> should_auto_expire t r" if "f \<le> e"
    using that e' dates by (simp add: should_auto_expire_def days_between_def not_less flip: ordinal_le)
  with r e' show ?thesis by (auto simp: r_def)
qed

text \<open>
  The updates that end a subscription or replace it leave the columns of a freeze as they are, which
  the constraint on them refuses.
\<close>

lemma frozen_row_stuck:
  assumes "table_ok subs" "sub_by_id i subs = Some s" "sl_status s = SS_frozen"
    and "\<And>s. sl_frozen_at (f s) = sl_frozen_at s" "\<And>s. sl_status (f s) \<noteq> SS_frozen"
  shows "\<not> table_ok (update_row i f subs)"
proof -
  from assms(2) have s: "s \<in> set subs" "sl_id s = i" by (auto simp: sub_by_id_def dest: find_Some_mem)
  with assms(1,3) have "sl_frozen_at s \<noteq> None" by (auto simp: table_ok_def list_all_iff row_checks_def)
  with assms(4,5) have "\<not> row_checks (f s)" by (simp add: row_checks_def)
  moreover from s have "f s \<in> set (update_row i f subs)" by (force simp: update_row_def)
  ultimately show ?thesis by (auto simp: table_ok_def list_all_iff)
qed

text \<open>C10: a frozen subscription offers its cancellation and the change of its plan, and the service lets both
  pass, but the database refuses the update, so the request fails with an error no handler names; after
  the freeze has ended the cancellation goes through.\<close>

theorem frozen_cannot_leave:
  assumes m: "member_in_step m" and s: "sub_by_id i (ml_subs m) = Some s" "sl_status s = SS_frozen"
    and plan: "List.find (\<lambda>p. p_id p = j) plans = Some plan" "p_tenant_id plan = ml_tenant m" "p_is_active plan" "j \<noteq> sl_plan_id s"
  shows "{ActCancel, ActChangePlan} \<subseteq> set (card_actions (sl_status s)) \<and> can_cancel (sl_status s) \<and> can_change_plan (sl_status s)
    \<and> life_step plans today (Cancel i) m = Inl Database \<and> life_step plans today (ChangePlan i n j d) m = Inl Database
    \<and> (\<exists>m1 m2. life_step plans today (Unfreeze i) m = Inr m1 \<and> life_step plans today (Cancel i) m1 = Inr m2)"
proof -
  from m have ok: "table_ok (ml_subs m)" and ids: "ids_distinct (ml_subs m)" by (simp_all add: member_in_step_def)
  note stuck = frozen_row_stuck [OF ok s]
  have "\<not> table_ok (update_row i (row_cancel today) (ml_subs m))" by (rule stuck) (simp_all add: row_cancel_def)
  moreover have "\<not> table_ok (update_row i (row_replace t) (ml_subs m))" for t by (rule stuck) (simp_all add: row_replace_def)
  ultimately have fails: "life_step plans today (Cancel i) m = Inl Database" "life_step plans today (ChangePlan i n j d) m = Inl Database"
    using s plan by (simp_all add: with_sub_def with_plan_def write_rows_def Let_def guard_defs)
  from ok s(1) have "row_checks s" by (auto simp: table_ok_def list_all_iff sub_by_id_def dest: find_Some_mem)
  with s(2) have free: "row_checks (row_unfreeze today s)" "row_checks (row_cancel today (row_unfreeze today s))"
    by (auto simp: row_checks_def row_unfreeze_def row_cancel_def)
  define subs where "subs = update_row i (row_unfreeze today) (ml_subs m)"
  define m1 where "m1 = m\<lparr>ml_subs := subs, ml_member := MS_active\<rparr>"
  have subs: "table_ok subs" "ids_distinct subs" "sub_by_id i subs = Some (row_unfreeze today s)"
    using table_ok_update [OF ok ids s(1), of "row_unfreeze today"] free(1) s ids
    by (simp_all add: subs_def sub_by_id_update ids_distinct_def update_row_ids)
  then have "table_ok (update_row i (row_cancel today) subs)"
    using table_ok_update [OF subs, of "row_cancel today"] free(2) by simp
  with subs s have "life_step plans today (Unfreeze i) m = Inr m1 \<and> (\<exists>m2. life_step plans today (Cancel i) m1 = Inr m2)"
    by (simp add: with_sub_def write_rows_def guard_defs m1_def flip: subs_def)
  with fails s(2) show ?thesis by (auto simp: card_actions_def guard_defs)
qed

section \<open>The service's checks as the client's properties use them\<close>

text \<open>A row and the subscription the client holds of it.\<close>

definition same_sub :: "string \<Rightarrow> subscription \<Rightarrow> sub_life \<Rightarrow> bool" where
  "same_sub tenant r s \<longleftrightarrow> s_id r = sl_id s \<and> s_tenant_id r = tenant \<and> s_plan_id r = sl_plan_id s \<and> s_status r = sl_status s"

fun op_on :: "string \<Rightarrow> string \<Rightarrow> date option \<Rightarrow> sub_op \<Rightarrow> life_op" where
  "op_on i n d OpFreeze = Freeze i d"
| "op_on i n d OpUnfreeze = Unfreeze i"
| "op_on i n d OpRenew = Renew i d"
| "op_on i n d (OpChangePlan p) = ChangePlan i n p d"
| "op_on i n d OpCancel = Cancel i"

lemma service_guards_agree:
  assumes "sub_by_id i (ml_subs m) = Some s" "same_sub (ml_tenant m) r s" "server_sub_op plans r op = Inl e"
  shows "life_step plans today (op_on i n d op) m = Inl (Service e)"
  using assms
  by (cases op) (auto simp: same_sub_def guarded_def refuse_def with_sub_def with_plan_def split: if_splits option.splits)

text \<open>
  A cancellation of an expired row while a later subscription of the member is live leaves the member
  cancelled; no screen of the client asks for it.
\<close>

lemma stale_cancel:
  assumes "member_in_step m" "sub_by_id i (ml_subs m) = Some s" "sl_status s = SS_expired"
    and "life_step plans today (Cancel i) m = Inr m'" "r \<in> set (live_rows (ml_subs m))"
  shows "ml_member m' = MS_cancelled \<and> r \<in> set (live_rows (ml_subs m')) \<and> \<not> member_in_step m'"
proof -
  from assms(1) have ids: "ids_distinct (ml_subs m)" by (simp add: member_in_step_def)
  obtain xs ys where "ml_subs m = xs @ s # ys" "update_row i (row_cancel today) (ml_subs m) = xs @ row_cancel today s # ys"
    by (rule update_row_split [OF ids assms(2)]) blast
  moreover from assms(2-4) have "m' = m\<lparr>ml_subs := update_row i (row_cancel today) (ml_subs m), ml_member := MS_cancelled\<rparr>"
    by (auto simp: with_sub_def write_rows_def guard_defs split: if_splits)
  ultimately have m': "ml_member m' = MS_cancelled" "r \<in> set (live_rows (ml_subs m'))" using assms(3,5) by auto
  moreover have "mirrored (sl_status r) \<noteq> MS_cancelled" using assms(5) by (auto simp: live_rows_def is_live_def)
  ultimately show ?thesis by (simp add: member_in_step_def list_all_iff) (metis)
qed

text \<open>The row a change to a recurring plan opens has no expiry, whatever was left of the old one.\<close>

lemma plan_change_drops_expiry:
  assumes "life_step plans today (ChangePlan i n p d) m = Inr m'" "List.find (\<lambda>q. p_id q = p) plans = Some plan"
    "p_type plan = PT_recurring"
  shows "sl_expires_at (last (ml_subs m')) = None \<and> sl_id (last (ml_subs m')) = n"
  using assms
  by (auto elim!: with_sub_InrE simp: refuse_def with_plan_def insert_row_def Let_def resolve_expires_at_def new_sub_def
      split: if_splits option.splits)

section \<open>A member's first months\<close>

definition monthly_plan :: "string \<Rightarrow> membership_plan" where
  "monthly_plan i = \<lparr>p_billing_period = BP_monthly, p_created_at = [], p_currency = ''ILS'', p_custom_attrs = [],
     p_description = None, p_duration_days = None, p_entitlements = [], p_id = i, p_is_active = True, p_name = ''Monthly'',
     p_price_cents = 25000, p_tenant_id = ''g'', p_type = PT_recurring, p_updated_at = []\<rparr>"

definition new_member :: member_life where
  "new_member = \<lparr>ml_id = ''m'', ml_tenant = ''g'', ml_subs = [], ml_member = MS_active\<rparr>"

definition enrolled_member :: member_life where
  "enrolled_member = new_member\<lparr>ml_subs := [new_sub ''s1'' (monthly_plan ''p1'') (Date 2026 1 5) (Some (Date 2026 3 1))]\<rparr>"

definition frozen_member :: "date option \<Rightarrow> member_life" where
  "frozen_member u = enrolled_member\<lparr>ml_subs := map (row_freeze (Date 2026 2 1) u) (ml_subs enrolled_member), ml_member := MS_frozen\<rparr>"

definition returned_member :: member_life where
  "returned_member = enrolled_member\<lparr>ml_subs := map (row_unfreeze (Date 2026 2 20)) (ml_subs (frozen_member None))\<rparr>"

lemmas course_defs = new_member_def enrolled_member_def frozen_member_def returned_member_def monthly_plan_def
  with_sub_def with_plan_def write_rows_def insert_row_def sub_by_id_def update_row_def table_ok_def row_checks_def
  row_freeze_def new_sub_def resolve_expires_at_def guard_defs nullish_def Let_def

lemma enrolment: "life_step [monthly_plan ''p1''] (Date 2026 1 5) (Enroll ''s1'' ''p1'' None (Some (Date 2026 3 1))) new_member = Inr enrolled_member"
  by (simp add: course_defs)

lemma first_freeze: "u \<in> {None, Some (Date 2026 2 20)} \<Longrightarrow>
  life_step [monthly_plan ''p1''] (Date 2026 2 1) (Freeze ''s1'' u) enrolled_member = Inr (frozen_member u)"
  by (auto simp: course_defs less_eq_date_def less_date_def)

lemma first_return: "life_step [monthly_plan ''p1''] (Date 2026 2 20) (Unfreeze ''s1'') (frozen_member None) = Inr returned_member"
  by (simp add: course_defs row_unfreeze_def)

lemma frozen_in_step: "member_in_step (frozen_member u)" if "u \<in> {None, Some (Date 2026 2 20)}"
  using that by (auto simp: member_in_step_def ids_distinct_def course_defs less_eq_date_def less_date_def)


theorem night_settles_witness:
  "let m = frozen_member (Some (Date 2026 2 20)); today = Date 2026 2 20 in
   should_auto_unfreeze today (hd (ml_subs m)) \<and>
   (\<exists>m1 m2. auto_unfreeze_due today m = Inr m1 \<and> auto_expire_due today m1 = Inr m2 \<and> member_in_step m2
     \<and> auto_unfreeze_due today m2 = Inr m2 \<and> auto_expire_due today m2 = Inr m2)"
proof -
  have "should_auto_unfreeze (Date 2026 2 20) (hd (ml_subs (frozen_member (Some (Date 2026 2 20)))))"
    by (simp add: should_auto_unfreeze_def course_defs)
  with night_settles [OF frozen_in_step, of "Some (Date 2026 2 20)" "Date 2026 2 20"] show ?thesis unfolding Let_def by blast
qed

theorem freeze_keeps_days_witness:
  "\<exists>r e'. sub_by_id ''s1'' (ml_subs returned_member) = Some r \<and> sl_status r = SS_active \<and> sl_expires_at r = Some e'
    \<and> days_between (Date 2026 2 20) e' = days_between (Date 2026 2 1) (Date 2026 3 1)
    \<and> (Date 2026 2 1 \<le> Date 2026 3 1 \<longrightarrow> \<not> should_auto_expire (Date 2026 2 20) r)"
proof -
  let ?s = "new_sub ''s1'' (monthly_plan ''p1'') (Date 2026 1 5) (Some (Date 2026 3 1))"
  have "sub_by_id ''s1'' (ml_subs enrolled_member) = Some ?s" "sl_expires_at ?s = Some (Date 2026 3 1)"
    by (simp_all add: course_defs)
  moreover have "valid_date (Date 2026 3 1)" "valid_date (Date 2026 2 1)" "valid_date (Date 2026 2 20)"
    by (simp_all add: valid_date_def days_in_month_def)
  moreover have "Date 2026 2 1 \<le> Date 2026 2 20" by (simp add: less_eq_date_def less_date_def)
  moreover have "life_step [monthly_plan ''p1''] (Date 2026 2 1) (Freeze ''s1'' None) enrolled_member = Inr (frozen_member None)"
    by (rule first_freeze) simp
  ultimately show ?thesis by (rule freeze_keeps_days [OF _ _ _ _ _ _ _ first_return])
qed

theorem frozen_cannot_leave_witness:
  "let plans = [monthly_plan ''p1'', monthly_plan ''p2'']; today = Date 2026 2 10; m = frozen_member None in
   life_step plans today (Cancel ''s1'') m = Inl Database
   \<and> life_step plans today (ChangePlan ''s1'' ''s2'' ''p2'' None) m = Inl Database"
proof -
  let ?s = "row_freeze (Date 2026 2 1) None (new_sub ''s1'' (monthly_plan ''p1'') (Date 2026 1 5) (Some (Date 2026 3 1)))"
  let ?plans = "[monthly_plan ''p1'', monthly_plan ''p2'']"
  have m: "member_in_step (frozen_member None)" by (rule frozen_in_step) simp
  have s: "sub_by_id ''s1'' (ml_subs (frozen_member None)) = Some ?s" "sl_status ?s = SS_frozen"
    by (simp_all add: course_defs)
  have plan: "List.find (\<lambda>p. p_id p = ''p2'') ?plans = Some (monthly_plan ''p2'')"
    "p_tenant_id (monthly_plan ''p2'') = ml_tenant (frozen_member None)" "p_is_active (monthly_plan ''p2'')" "''p2'' \<noteq> sl_plan_id ?s"
    by (simp_all add: course_defs)
  from frozen_cannot_leave [OF m s plan, of "Date 2026 2 10" "''s2''" None] show ?thesis unfolding Let_def by blast
qed

end
