(* ===== verification/Materialize.thy ===== *)
theory Materialize
  imports Dates
begin

text \<open>
  How a recurring rule becomes sessions of the calendar: \<^verbatim>\<open>backend/app/services/schedule_materialize.py\<close>,
  the horizon of \<^verbatim>\<open>backend/app/services/schedule_service.py\<close> that a new rule and the nightly job
  extend, and the re-materialization after an edit. \<open>utc_of\<close> turns local milliseconds of the gym's time zone
  into an instant and \<open>local\<close> an instant into local milliseconds; the rows of the sessions table are a list.
\<close>

section \<open>The dates of a rule\<close>

record schedule_rule =
  ru_id :: string
  ru_class_id :: string
  ru_weekdays :: "string list"
  ru_start_time :: int
  ru_end_time :: int
  ru_head_coach_id :: string
  ru_assistant_coach_id :: "string option"
  ru_starts_on :: date
  ru_ends_on :: "date option"
  ru_is_active :: bool

text \<open>Python's \<open>date.weekday()\<close> counts from Monday; 1 January 1970 was a Thursday.\<close>

definition weekday :: "date \<Rightarrow> int" where
  "weekday d = (ordinal d + 3) mod 7"

definition weekday_code :: "date \<Rightarrow> string" where
  "weekday_code d = WEEKDAYS ! nat ((weekday d + 1) mod 7)"

definition covers :: "schedule_rule \<Rightarrow> date \<Rightarrow> bool" where
  "covers r d =
     (if \<not> ru_is_active r then False
      else if d < ru_starts_on r then False
      else if (case ru_ends_on r of None \<Rightarrow> False | Some e \<Rightarrow> e < d) then False
      else weekday_code d \<in> set (ru_weekdays r))"

text \<open>The loop over the days; as in \<^verbatim>\<open>Earnings\<close> its condition repeats that Python's dates are valid.\<close>

function covered_days :: "schedule_rule \<Rightarrow> date \<Rightarrow> date \<Rightarrow> date list" where
  "covered_days r cursor stop =
     (if cursor \<le> stop \<and> valid_date cursor \<and> valid_date stop
      then (if covers r cursor then [cursor] else []) @ covered_days r (next_day cursor) stop
      else [])"
  by pat_completeness auto

termination
  by (relation "measure (\<lambda>(r, c, u). nat (ordinal u + 1 - ordinal c))")
    (auto simp: ordinal_next ordinal_le [symmetric])

declare covered_days.simps [simp del]

definition materialize_dates :: "schedule_rule \<Rightarrow> date \<Rightarrow> date \<Rightarrow> date list" where
  "materialize_dates r range_from range_to =
     (if range_to < range_from then []
      else if \<not> ru_is_active r then []
      else
        let start = max range_from (ru_starts_on r);
            stop = (case ru_ends_on r of None \<Rightarrow> range_to | Some e \<Rightarrow> min range_to e)
        in if stop < start then [] else covered_days r start stop)"

lemma next_day_le: "valid_date d \<Longrightarrow> valid_date e \<Longrightarrow> next_day d \<le> e \<longleftrightarrow> d < e"
  using ordinal_le [of "next_day d" e] ordinal_less [of d e] by (simp add: ordinal_next) linarith

lemma covered_days_set:
  "valid_date c \<Longrightarrow> valid_date u \<Longrightarrow>
   set (covered_days r c u) = {d. valid_date d \<and> c \<le> d \<and> d \<le> u \<and> covers r d}
   \<and> sorted (covered_days r c u) \<and> distinct (covered_days r c u)"
proof (induction r c u rule: covered_days.induct)
  case (1 r c u)
  show ?case
  proof (cases "c \<le> u")
    case True
    have "{d. valid_date d \<and> next_day c \<le> d \<and> d \<le> u \<and> covers r d} = {d. valid_date d \<and> c < d \<and> d \<le> u \<and> covers r d}"
      using next_day_le [OF 1(2)] by (intro Collect_cong) blast
    with 1(1) True 1(2,3)
    have ih: "set (covered_days r (next_day c) u) = {d. valid_date d \<and> c < d \<and> d \<le> u \<and> covers r d}"
      "sorted (covered_days r (next_day c) u)" "distinct (covered_days r (next_day c) u)" by simp_all
    have e: "covered_days r c u = (if covers r c then [c] else []) @ covered_days r (next_day c) u"
      using True 1(2,3) by (subst covered_days.simps) simp
    have "set (covered_days r c u) = {d. valid_date d \<and> c \<le> d \<and> d \<le> u \<and> covers r d}"
    proof (rule set_eqI)
      fix d
      have "c \<le> d \<longleftrightarrow> d = c \<or> c < d" by auto
      then show "d \<in> set (covered_days r c u) \<longleftrightarrow> d \<in> {d. valid_date d \<and> c \<le> d \<and> d \<le> u \<and> covers r d}"
        using True 1(2) by (simp add: e ih(1)) blast
    qed
    moreover have "sorted (covered_days r c u)" "distinct (covered_days r c u)"
      using ih by (simp_all add: e less_imp_le)
    ultimately show ?thesis by blast
  next
    case False
    then have "covered_days r c u = []" by (subst covered_days.simps) simp
    with False show ?thesis by auto
  qed
qed

text \<open>Exactly the dates of the range that the rule covers, in order.\<close>

lemma materialize_dates_set:
  assumes "valid_date a" "valid_date b" "valid_date (ru_starts_on r)" "\<And>e. ru_ends_on r = Some e \<Longrightarrow> valid_date e"
  shows "set (materialize_dates r a b) = {d. valid_date d \<and> a \<le> d \<and> d \<le> b \<and> covers r d}
    \<and> sorted (materialize_dates r a b) \<and> distinct (materialize_dates r a b)"
proof (cases "\<not> b < a \<and> ru_is_active r")
  case False
  then have "materialize_dates r a b = []" by (auto simp: materialize_dates_def)
  with False show ?thesis by (auto simp: covers_def)
next
  case True
  define start stop where "start = max a (ru_starts_on r)"
    and "stop = (case ru_ends_on r of None \<Rightarrow> b | Some e \<Rightarrow> min b e)"
  have v: "valid_date start" "valid_date stop"
    using assms by (auto simp: start_def stop_def max_def min_def split: option.splits)
  have "covered_days r start stop = []" if "\<not> start \<le> stop" using that by (subst covered_days.simps) simp
  then have m: "materialize_dates r a b = covered_days r start stop"
    using True by (simp add: materialize_dates_def start_def [symmetric] stop_def [symmetric] not_le)
  have "start \<le> d \<and> d \<le> stop \<and> covers r d \<longleftrightarrow> a \<le> d \<and> d \<le> b \<and> covers r d" for d
    by (auto simp: start_def stop_def covers_def not_less split: option.splits if_splits)
  then show ?thesis using covered_days_set [OF v, of r] unfolding m by simp
qed

section \<open>The sessions table\<close>

record session_row =
  sr_id :: nat
  sr_template_id :: "string option"
  sr_class_id :: string
  sr_starts_at :: int
  sr_ends_at :: int
  sr_head_coach_id :: "string option"
  sr_assistant_coach_id :: "string option"
  sr_status :: session_status
  sr_is_customized :: bool

definition session_timestamps :: "(int \<Rightarrow> int) \<Rightarrow> schedule_rule \<Rightarrow> int \<Rightarrow> int \<times> int" where
  "session_timestamps utc_of r day = (utc_of (day * DAY_ms + ru_start_time r), utc_of (day * DAY_ms + ru_end_time r))"

text \<open>
  The partial unique index on the rule and the start. The table also wants every end after its start, which
  the entity of the rule has checked of the two times of day.
\<close>

definition taken :: "string \<Rightarrow> int \<Rightarrow> session_row list \<Rightarrow> bool" where
  "taken rule_id starts rows \<longleftrightarrow> (\<exists>s \<in> set rows. sr_template_id s = Some rule_id \<and> sr_starts_at s = starts)"

definition unique_starts :: "session_row list \<Rightarrow> bool" where
  "unique_starts rows \<longleftrightarrow> distinct (map (\<lambda>s. (sr_template_id s, sr_starts_at s)) (filter (\<lambda>s. sr_template_id s \<noteq> None) rows))"

definition new_row :: "(int \<Rightarrow> int) \<Rightarrow> schedule_rule \<Rightarrow> date \<Rightarrow> nat \<Rightarrow> session_row" where
  "new_row utc_of r d n = \<lparr>sr_id = n, sr_template_id = Some (ru_id r), sr_class_id = ru_class_id r,
     sr_starts_at = fst (session_timestamps utc_of r (ordinal d)), sr_ends_at = snd (session_timestamps utc_of r (ordinal d)),
     sr_head_coach_id = Some (ru_head_coach_id r), sr_assistant_coach_id = ru_assistant_coach_id r,
     sr_status = SN_scheduled, sr_is_customized = False\<rparr>"

text \<open>\<open>INSERT ... ON CONFLICT DO NOTHING\<close>, and the loop that counts what it inserted.\<close>

definition materialize_session :: "(int \<Rightarrow> int) \<Rightarrow> schedule_rule \<Rightarrow> date \<Rightarrow> session_row list \<times> nat \<Rightarrow> session_row list \<times> nat" where
  "materialize_session utc_of r d = (\<lambda>(rows, created).
     if taken (ru_id r) (fst (session_timestamps utc_of r (ordinal d))) rows then (rows, created)
     else (rows @ [new_row utc_of r d (length rows)], created + 1))"

definition DEFAULT_HORIZON_WEEKS :: nat where
  "DEFAULT_HORIZON_WEEKS = 8"

definition materialize_horizon :: "(int \<Rightarrow> int) \<Rightarrow> date \<Rightarrow> schedule_rule \<Rightarrow> session_row list \<Rightarrow> session_row list \<times> nat" where
  "materialize_horizon utc_of today r rows =
     fold (materialize_session utc_of r) (materialize_dates r today (add_days (7 * DEFAULT_HORIZON_WEEKS) today)) (rows, 0)"

lemma materialize_session_pair:
  "materialize_session utc_of r d (rows, n) =
     (if taken (ru_id r) (fst (session_timestamps utc_of r (ordinal d))) rows then (rows, n)
      else (rows @ [new_row utc_of r d (length rows)], n + 1))"
  by (simp add: materialize_session_def)

lemma taken_mono: "set rows \<subseteq> set rows' \<Longrightarrow> taken i t rows \<Longrightarrow> taken i t rows'"
  by (auto simp: taken_def)

lemma unique_append:
  "unique_starts rows \<Longrightarrow> \<not> taken (ru_id r) (fst (session_timestamps utc_of r (ordinal d))) rows \<Longrightarrow>
   unique_starts (rows @ [new_row utc_of r d n])"
  by (force simp: unique_starts_def taken_def new_row_def)

text \<open>What the loop does to the table: it only appends, keeps the index and leaves every date with a row.\<close>

lemma horizon_loop:
  assumes "unique_starts rows"
  shows "\<exists>more. fst (fold (materialize_session utc_of r) ds (rows, n)) = rows @ more
      \<and> snd (fold (materialize_session utc_of r) ds (rows, n)) = n + length more
      \<and> unique_starts (rows @ more)
      \<and> (\<forall>s \<in> set more. sr_template_id s = Some (ru_id r) \<and> sr_status s = SN_scheduled \<and> \<not> sr_is_customized s)
      \<and> (\<forall>d \<in> set ds. taken (ru_id r) (fst (session_timestamps utc_of r (ordinal d))) (rows @ more))"
  using assms
proof (induction ds arbitrary: rows n)
  case (Cons d ds)
  show ?case
  proof (cases "taken (ru_id r) (fst (session_timestamps utc_of r (ordinal d))) rows")
    case True
    from Cons.IH [OF Cons.prems, of n] obtain more where m:
      "fst (fold (materialize_session utc_of r) ds (rows, n)) = rows @ more"
      "snd (fold (materialize_session utc_of r) ds (rows, n)) = n + length more" "unique_starts (rows @ more)"
      "\<forall>s \<in> set more. sr_template_id s = Some (ru_id r) \<and> sr_status s = SN_scheduled \<and> \<not> sr_is_customized s"
      "\<forall>d \<in> set ds. taken (ru_id r) (fst (session_timestamps utc_of r (ordinal d))) (rows @ more)" by blast
    have "taken (ru_id r) (fst (session_timestamps utc_of r (ordinal d))) (rows @ more)"
      by (rule taken_mono [OF _ True]) simp
    with m True show ?thesis by (intro exI [of _ more]) (simp add: materialize_session_pair)
  next
    case False
    let ?new = "new_row utc_of r d (length rows)"
    from Cons.IH [OF unique_append [OF Cons.prems False], of "length rows" "n + 1"] obtain more where m:
      "fst (fold (materialize_session utc_of r) ds (rows @ [?new], n + 1)) = (rows @ [?new]) @ more"
      "snd (fold (materialize_session utc_of r) ds (rows @ [?new], n + 1)) = n + 1 + length more"
      "unique_starts ((rows @ [?new]) @ more)"
      "\<forall>s \<in> set more. sr_template_id s = Some (ru_id r) \<and> sr_status s = SN_scheduled \<and> \<not> sr_is_customized s"
      "\<forall>d \<in> set ds. taken (ru_id r) (fst (session_timestamps utc_of r (ordinal d))) ((rows @ [?new]) @ more)" by blast
    have "taken (ru_id r) (fst (session_timestamps utc_of r (ordinal d))) (rows @ ?new # more)"
      by (simp add: taken_def new_row_def)
    with m False show ?thesis
      by (intro exI [of _ "?new # more"]) (simp add: materialize_session_pair new_row_def [of utc_of r d])
  qed
qed simp

lemma horizon_again:
  "(\<And>d. d \<in> set ds \<Longrightarrow> taken (ru_id r) (fst (session_timestamps utc_of r (ordinal d))) rows) \<Longrightarrow>
   fold (materialize_session utc_of r) ds (rows, n) = (rows, n)"
  by (induction ds) (simp_all add: materialize_session_pair)

text \<open>C19: extending the horizon of a rule only appends rows, as many as it reports, all of them plain rows of the rule, and
  keeps the index; afterwards every date of the next eight weeks that the rule covers has its row, and doing it again on the
  same day inserts nothing.\<close>

theorem horizon_covered:
  assumes "unique_starts rows" "valid_date today" "valid_date (ru_starts_on r)"
    and "\<And>e. ru_ends_on r = Some e \<Longrightarrow> valid_date e"
  shows "\<exists>more. materialize_horizon utc_of today r rows = (rows @ more, length more)
    \<and> unique_starts (rows @ more)
    \<and> list_all (\<lambda>s. sr_template_id s = Some (ru_id r) \<and> sr_status s = SN_scheduled \<and> \<not> sr_is_customized s) more
    \<and> (\<forall>d. valid_date d \<and> today \<le> d \<and> d \<le> add_days 56 today \<and> covers r d
          \<longrightarrow> taken (ru_id r) (utc_of (ordinal d * DAY_ms + ru_start_time r)) (rows @ more))
    \<and> materialize_horizon utc_of today r (rows @ more) = (rows @ more, 0)"
proof -
  let ?ds = "materialize_dates r today (add_days (7 * DEFAULT_HORIZON_WEEKS) today)"
  have ds: "set ?ds = {d. valid_date d \<and> today \<le> d \<and> d \<le> add_days 56 today \<and> covers r d}"
    using materialize_dates_set [OF assms(2) valid_add [OF assms(2)] assms(3,4), of 56]
    by (simp add: DEFAULT_HORIZON_WEEKS_def)
  from horizon_loop [OF assms(1), of utc_of r ?ds 0] obtain more where m:
    "fold (materialize_session utc_of r) ?ds (rows, 0) = (rows @ more, length more)" "unique_starts (rows @ more)"
    "\<forall>s \<in> set more. sr_template_id s = Some (ru_id r) \<and> sr_status s = SN_scheduled \<and> \<not> sr_is_customized s"
    "\<forall>d \<in> set ?ds. taken (ru_id r) (fst (session_timestamps utc_of r (ordinal d))) (rows @ more)"
    by (auto simp: prod_eq_iff)
  have "materialize_horizon utc_of today r (rows @ more) = (rows @ more, 0)"
    unfolding materialize_horizon_def using m(4) by (intro horizon_again) blast
  moreover have "\<forall>d. valid_date d \<and> today \<le> d \<and> d \<le> add_days 56 today \<and> covers r d
      \<longrightarrow> taken (ru_id r) (utc_of (ordinal d * DAY_ms + ru_start_time r)) (rows @ more)"
    using m(4) unfolding ds by (simp add: session_timestamps_def)
  ultimately show ?thesis using m(1-3) unfolding materialize_horizon_def by (intro exI [of _ more]) (simp add: list_all_iff)
qed

definition sample_rule :: schedule_rule where
  "sample_rule = \<lparr>ru_id = ''t1'', ru_class_id = ''yoga'', ru_weekdays = [''sun'', ''tue''], ru_start_time = 64800000, ru_end_time = 68400000,
     ru_head_coach_id = ''c1'', ru_assistant_coach_id = None, ru_starts_on = Date 2026 5 1, ru_ends_on = Some (Date 2026 5 10),
     ru_is_active = True\<rparr>"

theorem horizon_covered_witness:
  "covers sample_rule (Date 2026 5 3) \<and> (\<exists>more. materialize_horizon (\<lambda>t. t - 10800000) (Date 2026 5 1) sample_rule [] = (more, length more)
     \<and> taken ''t1'' (ordinal (Date 2026 5 3) * DAY_ms + 54000000) more)"
proof -
  have u: "unique_starts []" by (simp add: unique_starts_def)
  have v: "valid_date (Date 2026 5 1)" "valid_date (ru_starts_on sample_rule)" "valid_date (Date 2026 5 3)"
    "\<And>e. ru_ends_on sample_rule = Some e \<Longrightarrow> valid_date e"
    by (auto simp: valid_date_def days_in_month_def sample_rule_def)
  have c: "covers sample_rule (Date 2026 5 3)" by code_simp
  have "Date 2026 5 1 \<le> Date 2026 5 3" by (simp add: less_eq_date_def less_date_def)
  moreover have "Date 2026 5 3 \<le> add_days 56 (Date 2026 5 1)"
    by (subst ordinal_le [symmetric]) (use v in \<open>simp_all add: ordinal_add\<close>, simp add: ordinal_def)
  moreover obtain more where m: "materialize_horizon (\<lambda>t. t - 10800000) (Date 2026 5 1) sample_rule [] = (more, length more)"
    "\<forall>d. valid_date d \<and> Date 2026 5 1 \<le> d \<and> d \<le> add_days 56 (Date 2026 5 1) \<and> covers sample_rule d
      \<longrightarrow> taken (ru_id sample_rule) (ordinal d * DAY_ms + ru_start_time sample_rule - 10800000) more"
    using horizon_covered [OF u v(1,2,4), of "\<lambda>t. t - 10800000"] unfolding append_Nil by blast
  ultimately have "taken (ru_id sample_rule) (ordinal (Date 2026 5 3) * DAY_ms + ru_start_time sample_rule - 10800000) more"
    using v(3) c by blast
  then show ?thesis using m(1) c by (auto simp: sample_rule_def add.commute)
qed

section \<open>Editing a rule\<close>

text \<open>The rows an edit may change: from now on, scheduled, and not customized.\<close>

definition plain_future :: "int \<Rightarrow> string \<Rightarrow> session_row \<Rightarrow> bool" where
  "plain_future now rule_id s \<longleftrightarrow> sr_template_id s = Some rule_id \<and> now \<le> sr_starts_at s
     \<and> sr_status s = SN_scheduled \<and> \<not> sr_is_customized s"

definition moved :: "(int \<Rightarrow> int) \<Rightarrow> (int \<Rightarrow> int) \<Rightarrow> schedule_rule \<Rightarrow> session_row \<Rightarrow> session_row" where
  "moved utc_of local r s =
     (let (starts, ends) = session_timestamps utc_of r (local (sr_starts_at s) div DAY_ms)
      in s\<lparr>sr_starts_at := starts, sr_ends_at := ends, sr_head_coach_id := Some (ru_head_coach_id r),
           sr_assistant_coach_id := ru_assistant_coach_id r\<rparr>)"

text \<open>One \<open>UPDATE\<close>; \<open>None\<close> is the integrity error when another row of the rule has that start.\<close>

definition update_session :: "session_row \<Rightarrow> session_row list \<Rightarrow> session_row list option" where
  "update_session s' rows =
     (if \<exists>s \<in> set rows. sr_id s \<noteq> sr_id s' \<and> sr_template_id s = sr_template_id s' \<and> sr_starts_at s = sr_starts_at s' then None
      else Some (map (\<lambda>s. if sr_id s = sr_id s' then s' else s) rows))"

fun update_all :: "session_row list \<Rightarrow> session_row list \<Rightarrow> session_row list option" where
  "update_all [] rows = Some rows"
| "update_all (s # ss) rows = Option.bind (update_session s rows) (update_all ss)"

definition rematerialize_future ::
  "(int \<Rightarrow> int) \<Rightarrow> (int \<Rightarrow> int) \<Rightarrow> int \<Rightarrow> date \<Rightarrow> schedule_rule \<Rightarrow> session_row list \<Rightarrow> session_row list option" where
  "rematerialize_future utc_of local now today r rows =
     map_option (\<lambda>rows. fst (materialize_horizon utc_of today r rows))
       (update_all (map (moved utc_of local r) (filter (plain_future now (ru_id r)) rows)) rows)"

lemma moved_simps [simp]:
  "sr_id (moved utc_of local r s) = sr_id s" "sr_template_id (moved utc_of local r s) = sr_template_id s"
  "sr_status (moved utc_of local r s) = sr_status s" "sr_is_customized (moved utc_of local r s) = sr_is_customized s"
  "sr_starts_at (moved utc_of local r s) = utc_of (local (sr_starts_at s) div DAY_ms * DAY_ms + ru_start_time r)"
  by (simp_all add: moved_def session_timestamps_def)

text \<open>Updates with distinct ids: the rows of other ids stay, and the new ones are in the table.\<close>

lemma update_all_rows:
  "update_all ss rows = Some rows' \<Longrightarrow> distinct (map sr_id ss) \<Longrightarrow> sr_id ` set ss \<subseteq> sr_id ` set rows \<Longrightarrow>
   set ss \<subseteq> set rows' \<and> {s \<in> set rows. sr_id s \<notin> sr_id ` set ss} \<subseteq> set rows'"
proof (induction ss arbitrary: rows)
  case (Cons s ss)
  then obtain rows1 where u: "update_session s rows = Some rows1" "update_all ss rows1 = Some rows'"
    by (auto simp: Option.bind_eq_Some_conv)
  then have rows1: "rows1 = map (\<lambda>x. if sr_id x = sr_id s then s else x) rows"
    by (simp add: update_session_def split: if_splits)
  have s: "s \<in> set rows1" "sr_id s \<notin> sr_id ` set ss" using Cons.prems(2,3) by (auto simp: rows1)
  have "map sr_id rows1 = map sr_id rows" by (simp add: rows1)
  then have "sr_id ` set rows1 = sr_id ` set rows" by (metis list.set_map)
  with Cons.IH [OF u(2)] Cons.prems(2,3)
  have ih: "set ss \<subseteq> set rows'" "{x \<in> set rows1. sr_id x \<notin> sr_id ` set ss} \<subseteq> set rows'" by auto
  have "{x \<in> set rows. sr_id x \<notin> sr_id ` set (s # ss)} \<subseteq> {x \<in> set rows1. sr_id x \<notin> sr_id ` set ss}"
    by (auto simp: rows1)
  with ih s show ?case by auto
qed simp

lemma horizon_keeps: "set rows \<subseteq> set (fst (materialize_horizon utc_of today r rows))"
proof -
  have "set rows \<subseteq> set (fst (fold (materialize_session utc_of r) ds (rows, n)))" for ds n
  proof (induction ds arbitrary: rows n)
    case (Cons d ds)
    have "set rows \<subseteq> set (fst (materialize_session utc_of r d (rows, n)))" by (simp add: materialize_session_pair subset_insertI)
    moreover obtain rows1 n1 where e: "materialize_session utc_of r d (rows, n) = (rows1, n1)" by (metis surj_pair)
    ultimately show ?case using Cons.IH [of rows1 n1] by auto
  qed simp
  then show ?thesis unfolding materialize_horizon_def .
qed

text \<open>
  An edit leaves the cancelled, the customized and the past sessions and those of other rules as they are, and
  moves every other session of the rule to the new time of its own day; so a session on a weekday that the edit removed
  stays in the calendar.
\<close>

lemma edits_survive:
  assumes "rematerialize_future utc_of local now today r rows = Some rows'" "distinct (map sr_id rows)" "s \<in> set rows"
  shows "(if plain_future now (ru_id r) s then moved utc_of local r s else s) \<in> set rows'"
proof -
  let ?ss = "map (moved utc_of local r) (filter (plain_future now (ru_id r)) rows)"
  from assms(1) obtain rows1 where u: "update_all ?ss rows = Some rows1"
    and r: "rows' = fst (materialize_horizon utc_of today r rows1)" by (auto simp: rematerialize_future_def)
  have "distinct (map sr_id ?ss)" using assms(2) by (simp add: comp_def distinct_map_filter)
  moreover have "sr_id ` set ?ss \<subseteq> sr_id ` set rows" by auto
  ultimately have "set ?ss \<subseteq> set rows1 \<and> {s \<in> set rows. sr_id s \<notin> sr_id ` set ?ss} \<subseteq> set rows1"
    by (rule update_all_rows [OF u])
  then have k: "set ?ss \<subseteq> set rows1" "{s \<in> set rows. sr_id s \<notin> sr_id ` set ?ss} \<subseteq> set rows1"
    by blast+
  have "(if plain_future now (ru_id r) s then moved utc_of local r s else s) \<in> set rows1"
  proof (cases "plain_future now (ru_id r) s")
    case True
    then have "moved utc_of local r s \<in> set ?ss" using assms(3) by simp
    with True k(1) show ?thesis by auto
  next
    case False
    have "sr_id s \<notin> sr_id ` set ?ss"
    proof
      assume "sr_id s \<in> sr_id ` set ?ss"
      then obtain x where "x \<in> set rows" "plain_future now (ru_id r) x" "sr_id x = sr_id s" by auto
      with assms(2,3) False show False by (metis distinct_map inj_onD)
    qed
    with False k(2) assms(3) show ?thesis by auto
  qed
  then show ?thesis using horizon_keeps [of rows1 utc_of today r] r by auto
qed

lemma removed_weekday_stays:
  assumes "rematerialize_future utc_of local now today r rows = Some rows'" "distinct (map sr_id rows)" "s \<in> set rows"
    and "plain_future now (ru_id r) s"
  shows "\<exists>s' \<in> set rows'. sr_id s' = sr_id s \<and> sr_status s' = SN_scheduled
    \<and> sr_starts_at s' = utc_of (local (sr_starts_at s) div DAY_ms * DAY_ms + ru_start_time r)"
  using edits_survive [OF assms(1-3)] assms(4) by (intro bexI [of _ "moved utc_of local r s"]) (simp_all add: plain_future_def)

end
