(* ===== verification/Attendance.thy ===== *)
theory Attendance
  imports CheckIn Lifecycle Earnings Materialize "HOL-Library.List_Lexorder" "HOL-Library.Char_ord"
begin

text \<open>
  The entries of a gym over time: \<^verbatim>\<open>backend/app/services/attendance_service.py\<close> with the queries of its
  repositories. \<^verbatim>\<open>CheckIn\<close> has the decision whether an entry is accepted, given the number of entries
  that count; here are the windows these are counted in, the coach and the session an entry is attributed to, the
  entries table under recording, undoing and correction, and what an entry adds to the coach's pay. Python's clock
  counts microseconds: \<open>us_of\<close> reads a timestamp and \<open>printed\<close> prints it. Roles are checked in \<^verbatim>\<open>ServerGates\<close>.
\<close>

section \<open>Moments and windows\<close>

definition DAY_us :: int where
  "DAY_us = 24 * 60 * 60 * 1000000"

text \<open>A \<open>datetime\<close> in UTC: its date, and the microseconds since midnight.\<close>

record moment =
  at_date :: date
  at_time :: int

definition valid_moment :: "moment \<Rightarrow> bool" where
  "valid_moment now \<longleftrightarrow> valid_date (at_date now) \<and> 0 \<le> at_time now \<and> at_time now < DAY_us"

definition midnight :: "date \<Rightarrow> int" where
  "midnight d = ordinal d * DAY_us"

definition instant :: "moment \<Rightarrow> int" where
  "instant now = midnight (at_date now) + at_time now"

text \<open>\<open>elapsed.days // days\<close> with \<open>//\<close> rounding down, also before the start.\<close>

definition compute_window_start :: "reset_period \<Rightarrow> moment \<Rightarrow> date \<Rightarrow> billing_period \<Rightarrow> int" where
  "compute_window_start reset_period now sub_started_at billing_period = (case reset_period of
     RP_weekly \<Rightarrow> midnight (at_date now) - (weekday (at_date now) + 1) mod 7 * DAY_us
   | RP_monthly \<Rightarrow> midnight (Date (dt_year (at_date now)) (dt_month (at_date now)) 1)
   | RP_billing_period \<Rightarrow>
       (let days = int (billing_period_days billing_period);
            start_dt = midnight sub_started_at;
            elapsed = instant now - start_dt;
            cycles_done = elapsed div DAY_us div days
        in start_dt + cycles_done * days * DAY_us)
   | RP_never \<Rightarrow> midnight sub_started_at
   | RP_unlimited \<Rightarrow> 0)"

lemma DAY_us_pos [simp]: "0 < DAY_us" "DAY_us \<noteq> 0"
  by (simp_all add: DAY_us_def)

lemma day_of_moment: "valid_moment now \<Longrightarrow> instant now div DAY_us = ordinal (at_date now)"
  by (simp add: instant_def midnight_def valid_moment_def)

lemma date_le_instant:
  assumes "valid_moment a" "valid_moment b" "instant a \<le> instant b"
  shows "ordinal (at_date a) \<le> ordinal (at_date b)"
  using zdiv_mono1 [OF assms(3) DAY_us_pos(1)] assms(1,2) by (simp add: day_of_moment)

lemma sunday_mono: "a \<le> b \<Longrightarrow> a - (a + 4) mod 7 \<le> b - (b + 4) mod (7 :: int)"
proof -
  assume "a \<le> b"
  then have "(a + 4) div 7 \<le> (b + 4) div 7" by (intro zdiv_mono1) simp_all
  then show ?thesis using div_mult_mod_eq [of "a + 4" 7] div_mult_mod_eq [of "b + 4" 7] by linarith
qed

lemma weekday_sunday: "(weekday d + 1) mod 7 = (ordinal d + 4) mod 7"
  using mod_add_left_eq [of "ordinal d + 3" 7 1] by (simp add: weekday_def add.commute)

lemma first_of_month_ordinal: "ordinal (Date (dt_year d) (dt_month d) 1) = first_of (month_index d)"
  by (simp add: ordinal_first month_index_def)

lemma billing_days_pos [simp]: "0 < int (billing_period_days b)"
  by (cases b) simp_all

text \<open>
  A window begins no later than the moment it is asked for, unless it is the whole subscription and that has
  not begun; and as time goes on windows only move forward.
\<close>

lemma window_begins:
  assumes now: "valid_moment now" and not_never: "reset_period \<in> {RP_weekly, RP_monthly, RP_billing_period}"
  shows "compute_window_start reset_period now started b \<le> instant now"
proof -
  from now have d: "valid_date (at_date now)" "midnight (at_date now) \<le> instant now" by (simp_all add: valid_moment_def instant_def)
  show ?thesis
  proof (cases reset_period)
    case RP_weekly
    have "0 \<le> (weekday (at_date now) + 1) mod 7 * DAY_us" by (simp add: order_less_imp_le)
    with d(2) show ?thesis by (simp add: RP_weekly compute_window_start_def)
  next
    case RP_monthly
    have "first_of (month_index (at_date now)) \<le> ordinal (at_date now)"
      using valid_day [OF d(1)] by (simp add: ordinal_first)
    then have "midnight (Date (dt_year (at_date now)) (dt_month (at_date now)) 1) \<le> midnight (at_date now)"
      by (simp add: midnight_def first_of_month_ordinal order_less_imp_le mult_right_mono)
    with d(2) show ?thesis by (simp add: RP_monthly compute_window_start_def)
  next
    case RP_billing_period
    define n where "n = int (billing_period_days b)"
    define e where "e = instant now - midnight started"
    have "e div DAY_us div n * n \<le> e div DAY_us"
      using div_mult_mod_eq [of "e div DAY_us" n] pos_mod_sign [of n "e div DAY_us"] billing_days_pos [of b]
      unfolding n_def by linarith
    then have "e div DAY_us div n * n * DAY_us \<le> e div DAY_us * DAY_us" by (simp add: mult_right_mono order_less_imp_le)
    also have "\<dots> \<le> e" using pos_mod_sign [of DAY_us e] by (simp add: minus_mod_eq_div_mult [symmetric])
    finally show ?thesis by (simp add: RP_billing_period compute_window_start_def Let_def n_def e_def)
  qed (use not_never in simp_all)
qed

lemma window_moves_on:
  assumes "valid_moment a" "valid_moment b" "instant a \<le> instant b"
  shows "compute_window_start reset_period a started p \<le> compute_window_start reset_period b started p"
proof -
  have days: "ordinal (at_date a) \<le> ordinal (at_date b)" using assms by (rule date_le_instant)
  show ?thesis
  proof (cases reset_period)
    case RP_weekly
    from sunday_mono [OF days] show ?thesis
      by (simp add: RP_weekly compute_window_start_def midnight_def weekday_sunday mult_right_mono order_less_imp_le
          flip: left_diff_distrib)
  next
    case RP_monthly
    have v: "valid_date (at_date a)" "valid_date (at_date b)" using assms by (simp_all add: valid_moment_def)
    with days have "month_index (at_date a) \<le> month_index (at_date b)" by (simp add: month_index_mono ordinal_le)
    then have "first_of (month_index (at_date a)) \<le> first_of (month_index (at_date b))"
      using first_of_mono [of "month_index (at_date a)" "month_index (at_date b)"] length_of_bounds [of "month_index (at_date a)"]
      by (cases "month_index (at_date a) = month_index (at_date b)") auto
    then show ?thesis by (simp add: RP_monthly compute_window_start_def midnight_def first_of_month_ordinal mult_right_mono order_less_imp_le)
  next
    case RP_billing_period
    have "(instant a - midnight started) div DAY_us div n \<le> (instant b - midnight started) div DAY_us div n" if "0 < n" for n
      using assms(3) that by (intro zdiv_mono1) simp_all
    from this [OF billing_days_pos [of p]] show ?thesis
      by (simp add: RP_billing_period compute_window_start_def Let_def mult_right_mono order_less_imp_le)
  qed (simp_all add: compute_window_start_def)
qed

section \<open>The rows\<close>

text \<open>A member's live subscription, with what its plan covers.\<close>

record live_sub =
  lv_id :: string
  lv_started_at :: date
  lv_entitlements :: "plan_entitlement list"
  lv_billing_period :: billing_period

text \<open>A coach's link to a class, with the days he teaches and whether he comes first.\<close>

record teaching_link = pay_link +
  tl_is_primary :: bool
  tl_weekdays :: "string list"

text \<open>What the service reads of the gym beside the entries.\<close>

record desk =
  dk_tenant_id :: string
  dk_live :: "string \<Rightarrow> live_sub option"
  dk_schedule :: bool
  dk_sessions :: "class_session list"
  dk_links :: "teaching_link list"
  dk_coaches :: "coach list"

section \<open>Counting and attribution\<close>

definition effective_since :: "(string \<Rightarrow> int) \<Rightarrow> string \<Rightarrow> string option \<Rightarrow> int \<Rightarrow> class_entry \<Rightarrow> bool" where
  "effective_since us_of member_id class_id since e \<longleftrightarrow>
     ce_member_id e = member_id \<and> ce_undone_at e = None \<and> since \<le> us_of (ce_entered_at e)
     \<and> (case class_id of None \<Rightarrow> True | Some c \<Rightarrow> ce_class_id e = c)"

definition count_effective_entries :: "(string \<Rightarrow> int) \<Rightarrow> class_entry list \<Rightarrow> string \<Rightarrow> string option \<Rightarrow> int \<Rightarrow> int" where
  "count_effective_entries us_of entries member_id class_id since =
     int (length (filter (effective_since us_of member_id class_id since) entries))"

definition used_in_window :: "(string \<Rightarrow> int) \<Rightarrow> class_entry list \<Rightarrow> moment \<Rightarrow> string \<Rightarrow> live_sub \<Rightarrow> plan_entitlement \<Rightarrow> int" where
  "used_in_window us_of entries now member_id sub e =
     count_effective_entries us_of entries member_id (pe_class_id e)
       (compute_window_start (pe_reset_period e) now (lv_started_at sub) (lv_billing_period sub))"

definition TOLERANCE_us :: int where
  "TOLERANCE_us = 30 * 60 * 1000000"

definition find_active_for_class :: "(string \<Rightarrow> int) \<Rightarrow> desk \<Rightarrow> string \<Rightarrow> int \<Rightarrow> class_session option" where
  "find_active_for_class us_of g class_id when =
     (case sort_key (\<lambda>s. \<bar>us_of (cs_starts_at s) - when\<bar>)
        (filter (\<lambda>s. cs_tenant_id s = dk_tenant_id g \<and> cs_class_id s = class_id \<and> cs_status s = SN_scheduled
           \<and> us_of (cs_starts_at s) \<le> when + TOLERANCE_us \<and> when - TOLERANCE_us \<le> us_of (cs_ends_at s)) (dk_sessions g))
      of [] \<Rightarrow> None | s # _ \<Rightarrow> Some s)"

text \<open>A stable sort by coach and then by rank is \<open>ORDER BY is_primary DESC, coach_id ASC\<close>.\<close>

definition find_attribution_candidates :: "desk \<Rightarrow> string \<Rightarrow> date \<Rightarrow> teaching_link list" where
  "find_attribution_candidates g class_id day =
     sort_key (\<lambda>l. \<not> tl_is_primary l) (sort_key pl_coach_id
       (filter (\<lambda>l. pl_class_id l = class_id \<and> pl_starts_on l \<le> day
          \<and> (case pl_ends_on l of None \<Rightarrow> True | Some e \<Rightarrow> day \<le> e)
          \<and> list_ex (\<lambda>c. co_id c = pl_coach_id l \<and> co_status c = CS_active) (dk_coaches g)
          \<and> (tl_weekdays l = [] \<or> weekday_code day \<in> set (tl_weekdays l))) (dk_links g)))"

definition attribute :: "(string \<Rightarrow> int) \<Rightarrow> desk \<Rightarrow> string \<Rightarrow> moment \<Rightarrow> string option \<times> string option" where
  "attribute us_of g class_id now =
     (case (if dk_schedule g then find_active_for_class us_of g class_id (instant now) else None) of
        Some sess \<Rightarrow> (cs_head_coach_id sess, Some (cs_id sess))
      | None \<Rightarrow>
         (case find_attribution_candidates g class_id (at_date now) of
            [] \<Rightarrow> (None, None)
          | first # _ \<Rightarrow> (Some (pl_coach_id first), None)))"

section \<open>The operations\<close>

text \<open>\<open>caller_id\<close> is the user who asks, \<open>new_id\<close> the id the database gives to the row, whose time of entry is the time of the request.\<close>

definition record_row ::
  "(string \<Rightarrow> int) \<Rightarrow> (int \<Rightarrow> string) \<Rightarrow> desk \<Rightarrow> moment \<Rightarrow> string option \<Rightarrow> string \<Rightarrow> string \<Rightarrow> string \<Rightarrow> live_sub
     \<Rightarrow> override_kind option \<times> string option \<Rightarrow> class_entry" where
  "record_row us_of printed g now caller_id new_id member_id class_id sub kind =
     \<lparr>ce_class_id = class_id, ce_coach_id = fst (attribute us_of g class_id now), ce_entered_at = printed (instant now),
      ce_entered_by = caller_id, ce_id = new_id, ce_member_id = member_id, ce_override = (fst kind \<noteq> None),
      ce_override_kind = fst kind, ce_override_reason = snd kind, ce_session_id = snd (attribute us_of g class_id now),
      ce_subscription_id = lv_id sub, ce_tenant_id = dk_tenant_id g, ce_undone_at = None, ce_undone_by = None,
      ce_undone_reason = None\<rparr>"

text \<open>The decision, from the rows as they are when it is taken.\<close>

definition entry_decision ::
  "(string \<Rightarrow> int) \<Rightarrow> desk \<Rightarrow> moment \<Rightarrow> string \<Rightarrow> string \<Rightarrow> bool \<Rightarrow> string option \<Rightarrow> class_entry list
     \<Rightarrow> app_error + override_kind option \<times> string option" where
  "entry_decision us_of g now member_id class_id override reason entries =
     (case dk_live g member_id of
        None \<Rightarrow> record_entry (\<lambda>_. 0) None member_id class_id override reason
      | Some sub \<Rightarrow> record_entry (used_in_window us_of entries now member_id sub) (Some (lv_entitlements sub))
          member_id class_id override reason)"

datatype desk_op = RecordEntry "string option" string string string bool "string option"
  | UndoEntry "string option" string "string option" | ReassignCoach string "string option"

definition update_entry :: "string \<Rightarrow> (class_entry \<Rightarrow> class_entry) \<Rightarrow> class_entry list \<Rightarrow> class_entry list" where
  "update_entry i f = map (\<lambda>e. if ce_id e = i then f e else e)"

fun desk_step ::
  "(string \<Rightarrow> int) \<Rightarrow> (int \<Rightarrow> string) \<Rightarrow> (int \<Rightarrow> string) \<Rightarrow> desk \<Rightarrow> moment \<Rightarrow> desk_op \<Rightarrow> class_entry list
     \<Rightarrow> app_error + class_entry list" where
  "desk_step us_of printed hours g now (RecordEntry caller_id new_id member_id class_id override reason) entries =
     (case entry_decision us_of g now member_id class_id override reason entries of
        Inl e \<Rightarrow> Inl e
      | Inr kind \<Rightarrow>
         (case dk_live g member_id of
            None \<Rightarrow> Inl (MemberHasNoActiveSubscriptionError member_id)
          | Some sub \<Rightarrow> Inr (entries @ [record_row us_of printed g now caller_id new_id member_id class_id sub kind])))"
| "desk_step us_of printed hours g now (UndoEntry caller_id i reason) entries =
     (case List.find (\<lambda>e. ce_id e = i) entries of
        None \<Rightarrow> Inl (ClassEntryNotFoundError i)
      | Some e \<Rightarrow>
         if ce_tenant_id e \<noteq> dk_tenant_id g then Inl (ClassEntryNotFoundError i)
         else if ce_undone_at e \<noteq> None then Inl (ClassEntryAlreadyUndoneError i)
         else if \<not> can_undo (map_option us_of (ce_undone_at e)) (us_of (ce_entered_at e)) (instant now)
         then Inl (UndoWindowExpiredError (hours (instant now - us_of (ce_entered_at e))))
         else Inr (update_entry i (\<lambda>e. e\<lparr>ce_undone_at := Some (printed (instant now)), ce_undone_by := caller_id,
           ce_undone_reason := reason\<rparr>) entries))"
| "desk_step us_of printed hours g now (ReassignCoach i coach_id) entries =
     (case List.find (\<lambda>e. ce_id e = i) entries of
        None \<Rightarrow> Inl (ClassEntryNotFoundError i)
      | Some e \<Rightarrow>
         if ce_tenant_id e \<noteq> dk_tenant_id g then Inl (ClassEntryNotFoundError i)
         else (case coach_id of
            None \<Rightarrow> Inr (update_entry i (\<lambda>e. e\<lparr>ce_coach_id := None\<rparr>) entries)
          | Some c \<Rightarrow>
             if list_ex (\<lambda>x. co_id x = c \<and> co_tenant_id x = dk_tenant_id g) (dk_coaches g)
             then Inr (update_entry i (\<lambda>e. e\<lparr>ce_coach_id := Some c\<rparr>) entries)
             else Inl (CoachNotFoundError c)))"

section \<open>Quotas are kept\<close>

text \<open>
  What happened at the desk up to a moment, from an empty table on: requests that were granted, one after the
  other, with a clock that does not go back, new ids for new rows, and the same subscriptions and plans all along.
\<close>

inductive desk_course ::
  "(string \<Rightarrow> int) \<Rightarrow> (int \<Rightarrow> string) \<Rightarrow> (int \<Rightarrow> string) \<Rightarrow> desk \<Rightarrow> moment \<Rightarrow> class_entry list \<Rightarrow> bool"
  for us_of printed hours g where
  opened: "valid_moment now \<Longrightarrow> desk_course us_of printed hours g now []"
| later: "desk_course us_of printed hours g past es \<Longrightarrow> valid_moment now \<Longrightarrow> instant past \<le> instant now \<Longrightarrow>
    desk_course us_of printed hours g now es"
| granted: "desk_course us_of printed hours g now es \<Longrightarrow> desk_step us_of printed hours g now op es = Inr es' \<Longrightarrow>
    desk_course us_of printed hours g now es'"

text \<open>The entries of the current window that were charged to an entitlement.\<close>

definition charged_to :: "(string \<Rightarrow> int) \<Rightarrow> string \<Rightarrow> live_sub \<Rightarrow> plan_entitlement \<Rightarrow> int \<Rightarrow> class_entry \<Rightarrow> bool" where
  "charged_to us_of member_id sub e since x \<longleftrightarrow>
     effective_since us_of member_id None since x \<and> \<not> ce_override x
     \<and> find_matching_entitlement (lv_entitlements sub) (ce_class_id x) = Some e"

definition charged :: "(string \<Rightarrow> int) \<Rightarrow> string \<Rightarrow> live_sub \<Rightarrow> plan_entitlement \<Rightarrow> moment \<Rightarrow> class_entry list \<Rightarrow> int" where
  "charged us_of member_id sub e now es = int (length (filter (charged_to us_of member_id sub e
     (compute_window_start (pe_reset_period e) now (lv_started_at sub) (lv_billing_period sub))) es))"

lemma filter_length_mono: "(\<And>x. x \<in> set xs \<Longrightarrow> P x \<Longrightarrow> Q x) \<Longrightarrow> length (filter P xs) \<le> length (filter Q xs)"
  by (induction xs) (auto simp: le_Suc_eq)

lemma filter_length_map: "(\<And>x. P (f x) \<Longrightarrow> P x) \<Longrightarrow> length (filter P (map f xs)) \<le> length (filter P xs)"
  by (induction xs) (auto simp: le_Suc_eq)

lemma match_class: "find_matching_entitlement ents c = Some e \<Longrightarrow> pe_class_id e = Some c \<or> pe_class_id e = None"
  by (auto simp: find_matching_entitlement_def dest!: find_Some_mem split: option.splits)

text \<open>What is charged to an entitlement is among what the query counts for it.\<close>

lemma charged_le_used: "charged us_of m sub e now es \<le> used_in_window us_of es now m sub e"
  unfolding charged_def used_in_window_def count_effective_entries_def of_nat_le_iff
  by (rule filter_length_mono) (auto simp: charged_to_def effective_since_def dest: match_class split: option.splits)

lemma charged_later:
  assumes "valid_moment past" "valid_moment now" "instant past \<le> instant now"
  shows "charged us_of m sub e now es \<le> charged us_of m sub e past es"
  using window_moves_on [OF assms, of "pe_reset_period e" "lv_started_at sub" "lv_billing_period sub"]
  unfolding charged_def of_nat_le_iff
  by (intro filter_length_mono) (auto simp: charged_to_def effective_since_def)

lemma charged_update:
  assumes "\<And>x since. charged_to us_of m sub e since (f x) \<Longrightarrow> charged_to us_of m sub e since x"
  shows "charged us_of m sub e now (update_entry i f es) \<le> charged us_of m sub e now es"
  using assms unfolding charged_def update_entry_def of_nat_le_iff by (intro filter_length_map) (auto split: if_splits)

lemma undone_not_charged: "\<not> charged_to us_of m sub e since (x\<lparr>ce_undone_at := Some t, ce_undone_by := c, ce_undone_reason := r\<rparr>)"
  by (simp add: charged_to_def effective_since_def)

lemma coach_not_charged: "charged_to us_of m sub e since (x\<lparr>ce_coach_id := c\<rparr>) = charged_to us_of m sub e since x"
  by (simp add: charged_to_def effective_since_def)

text \<open>An entry that is charged to an entitlement with a quota found room in it.\<close>

lemma granted_room:
  assumes "entry_decision us_of g now m c override reason es = Inr (None, None)" "dk_live g m = Some sub"
    and "find_matching_entitlement (lv_entitlements sub) c = Some e" "pe_reset_period e \<noteq> RP_unlimited"
  shows "used_in_window us_of es now m sub e < nullish (pe_quantity e) 0"
  using assms
  by (auto simp: entry_decision_def record_entry_def quota_check_for_sub_def quota_for_entitlement_def Let_def split: if_splits)

lemma decision_reason: "entry_decision us_of g now m c override reason es = Inr kind \<Longrightarrow> fst kind = None \<Longrightarrow> kind = (None, None)"
  by (auto simp: entry_decision_def record_entry_def Let_def split: option.splits if_splits)

lemma charged_step:
  assumes live: "dk_live g m = Some sub" and metered: "pe_reset_period e \<noteq> RP_unlimited"
    and bound: "charged us_of m sub e now es \<le> max 0 (nullish (pe_quantity e) 0)"
    and step: "desk_step us_of printed hours g now op es = Inr es'"
  shows "charged us_of m sub e now es' \<le> max 0 (nullish (pe_quantity e) 0)"
proof (cases op)
  case (RecordEntry caller_id i k c override reason)
  with step obtain kind s where kind: "entry_decision us_of g now k c override reason es = Inr kind" "dk_live g k = Some s"
    and es': "es' = es @ [record_row us_of printed g now caller_id i k c s kind]"
    by (auto split: sum.splits option.splits)
  let ?r = "record_row us_of printed g now caller_id i k c s kind"
  let ?w = "compute_window_start (pe_reset_period e) now (lv_started_at sub) (lv_billing_period sub)"
  show ?thesis
  proof (cases "charged_to us_of m sub e ?w ?r")
    case True
    then have r: "k = m" "fst kind = None" "find_matching_entitlement (lv_entitlements sub) c = Some e"
      by (auto simp: charged_to_def effective_since_def record_row_def)
    from decision_reason [OF kind(1) r(2)] kind(1) r(1) have "entry_decision us_of g now m c override reason es = Inr (None, None)"
      by simp
    from granted_room [OF this live r(3) metered] charged_le_used [of us_of m sub e now es]
    show ?thesis using True by (simp add: es' charged_def)
  next
    case False
    with bound show ?thesis by (simp add: es' charged_def)
  qed
next
  case (UndoEntry caller_id i reason)
  with step obtain t where "es' = update_entry i (\<lambda>x. x\<lparr>ce_undone_at := Some t, ce_undone_by := caller_id, ce_undone_reason := reason\<rparr>) es"
    by (auto split: option.splits if_splits)
  with charged_update [of us_of m sub e "\<lambda>x. x\<lparr>ce_undone_at := Some t, ce_undone_by := caller_id, ce_undone_reason := reason\<rparr>"
    now i es] bound
  show ?thesis by (simp add: undone_not_charged)
next
  case (ReassignCoach i coach_id)
  with step obtain c where "es' = update_entry i (\<lambda>x. x\<lparr>ce_coach_id := c\<rparr>) es"
    by (auto split: option.splits if_splits)
  with charged_update [of us_of m sub e "\<lambda>x. x\<lparr>ce_coach_id := c\<rparr>" now i es] bound
  show ?thesis by (simp add: coach_not_charged)
qed

text \<open>C8: at no moment does the desk hold more entries than the plan grants: over any course of recordings, with and without
  override, undoings and corrections, the entries in the current window that were charged to an entitlement
  of a member's plan without an override number at most its quota. Windows are weeks, months, billing periods or the
  whole subscription.\<close>

theorem quota_kept:
  assumes course: "desk_course us_of printed hours g now es"
    and live: "dk_live g member_id = Some sub" and metered: "pe_reset_period e \<noteq> RP_unlimited"
  shows "charged us_of member_id sub e now es \<le> max 0 (nullish (pe_quantity e) 0)"
proof -
  have "valid_moment now \<and> charged us_of member_id sub e now es \<le> max 0 (nullish (pe_quantity e) 0)"
    using course
  proof induction
    case (opened now)
    then show ?case by (simp add: charged_def)
  next
    case (later past es now)
    with charged_later [of past now us_of member_id sub e es] show ?case by simp
  next
    case (granted now es op es')
    with charged_step [OF live metered] show ?case by blast
  qed
  then show ?thesis by blast
qed

section \<open>An entry and the coach's pay\<close>

text \<open>The payroll reads milliseconds.\<close>

abbreviation pay_clock :: "(string \<Rightarrow> int) \<Rightarrow> string \<Rightarrow> int" where
  "pay_clock us_of t \<equiv> us_of t div 1000"

lemma on_or_after:
  assumes "valid_moment now" "valid_date d"
  shows "start_of_day d \<le> instant now div 1000 \<longleftrightarrow> d \<le> at_date now"
proof -
  have v: "valid_date (at_date now)" and t: "0 \<le> at_time now" "at_time now < DAY_us" using assms(1) by (simp_all add: valid_moment_def)
  define r where "r = at_time now div 1000"
  have r: "0 \<le> r" "r < 86400000"
    using t zdiv_mono1 [of "at_time now" "DAY_us - 1" 1000] by (simp_all add: r_def DAY_us_def pos_imp_zdiv_nonneg_iff)
  have "instant now = at_time now + ordinal (at_date now) * 86400000 * 1000" by (simp add: instant_def midnight_def DAY_us_def)
  then have "instant now div 1000 = ordinal (at_date now) * 86400000 + r"
    using div_mult_self1 [of 1000 "at_time now" "ordinal (at_date now) * 86400000"] by (simp add: r_def add.commute)
  then have "start_of_day d \<le> instant now div 1000 \<longleftrightarrow> ordinal d * 86400000 \<le> ordinal (at_date now) * 86400000 + r"
    by (simp add: start_of_day_def DAY_ms_def)
  also have "\<dots> \<longleftrightarrow> ordinal d \<le> ordinal (at_date now)" using r by linarith
  also have "\<dots> \<longleftrightarrow> d \<le> at_date now" using ordinal_le [OF assms(2) v] .
  finally show ?thesis .
qed

lemma before_next_day:
  assumes "valid_moment now" "valid_date d"
  shows "instant now div 1000 < start_of_day (next_day d) \<longleftrightarrow> at_date now \<le> d"
  using on_or_after [OF assms(1) valid_next [OF assms(2)]] next_day_le [OF assms(2), of "at_date now"] assms(1)
  by (simp add: valid_moment_def not_le [symmetric])


section \<open>Attribution\<close>

text \<open>The coach of an entry without a session is an active one who teaches the class that day.\<close>

lemma attributed_coach_teaches:
  assumes "attribute us_of g c now = (Some coach, None)"
  shows "\<exists>l \<in> set (dk_links g). pl_coach_id l = coach \<and> pl_class_id l = c \<and> pl_starts_on l \<le> at_date now
    \<and> (tl_weekdays l = [] \<or> weekday_code (at_date now) \<in> set (tl_weekdays l))
    \<and> list_ex (\<lambda>x. co_id x = coach \<and> co_status x = CS_active) (dk_coaches g)"
proof -
  from assms obtain l ls where l: "find_attribution_candidates g c (at_date now) = l # ls" "pl_coach_id l = coach"
    by (auto simp: attribute_def split: option.splits list.splits if_splits)
  then have "l \<in> set (find_attribution_candidates g c (at_date now))" by simp
  with l(2) show ?thesis by (auto simp: find_attribution_candidates_def)
qed

text \<open>With a session the coach is the session's, also where it has none: then the entry has no coach.\<close>

lemma attributed_session:
  assumes "attribute us_of g c now = (coach, Some i)"
  shows "\<exists>s \<in> set (dk_sessions g). cs_id s = i \<and> cs_head_coach_id s = coach \<and> cs_class_id s = c \<and> cs_status s = SN_scheduled"
proof -
  from assms obtain s where s: "find_active_for_class us_of g c (instant now) = Some s" "cs_id s = i" "cs_head_coach_id s = coach"
    by (auto simp: attribute_def split: option.splits list.splits if_splits)
  then have "s \<in> set (dk_sessions g)" "cs_class_id s = c" "cs_status s = SN_scheduled"
    by (auto simp: find_active_for_class_def split: list.splits dest!: arg_cong [of "sort_key _ _" _ set])
  with s show ?thesis by blast
qed

text \<open>A correction takes any coach of the gym, also one who is frozen or has left.\<close>

lemma reassign_takes_frozen:
  assumes "List.find (\<lambda>e. ce_id e = i) es = Some e" "ce_tenant_id e = dk_tenant_id g"
    and "c \<in> set (dk_coaches g)" "co_tenant_id c = dk_tenant_id g"
  shows "\<exists>es'. desk_step us_of printed hours g now (ReassignCoach i (Some (co_id c))) es = Inr es'"
  using assms by (auto simp: list_ex_iff)

text \<open>
  A subscription that begins on a later day is live at once, and until then a quota over its whole length counts nothing.
\<close>

lemma early_entries_uncounted:
  assumes "pe_reset_period e = RP_never" "\<forall>x \<in> set es. us_of (ce_entered_at x) < midnight (lv_started_at sub)"
  shows "used_in_window us_of es now m sub e = 0"
  using assms by (auto simp: used_in_window_def count_effective_entries_def effective_since_def compute_window_start_def filter_empty_conv)

section \<open>A week at the desk\<close>

definition clock_text :: "int \<Rightarrow> string" where
  "clock_text t = string_of_nat (nat t)"

definition read_clock :: "string \<Rightarrow> int" where
  "read_clock s = int (nat_of_string s)"

definition weekly_yoga :: plan_entitlement where
  "weekly_yoga = \<lparr>pe_class_id = Some ''yoga'', pe_created_at = [], pe_id = ''e1'', pe_plan_id = ''p1'',
     pe_quantity = Some 1, pe_reset_period = RP_weekly\<rparr>"

definition yoga_sub :: live_sub where
  "yoga_sub = \<lparr>lv_id = ''s1'', lv_started_at = Date 2026 1 5, lv_entitlements = [weekly_yoga], lv_billing_period = BP_monthly\<rparr>"

definition yoga_desk :: desk where
  "yoga_desk = \<lparr>dk_tenant_id = ''g'', dk_live = (\<lambda>m. if m = ''m1'' then Some yoga_sub else None), dk_schedule = False,
     dk_sessions = [],
     dk_links = [\<lparr>pl_class_id = ''yoga'', pl_coach_id = ''c1'', pl_role = ''head'', pl_pay_model = PY_per_attendance,
       pl_amount = 2000, pl_starts_on = Date 2026 1 1, pl_ends_on = None, tl_is_primary = True, tl_weekdays = []\<rparr>],
     dk_coaches = [\<lparr>co_cancelled_at = None, co_created_at = [], co_custom_attrs = [], co_email = None, co_first_name = ''Dana'',
       co_frozen_at = None, co_hired_at = [], co_id = ''c1'', co_last_name = ''Levi'', co_phone = None, co_status = CS_active,
       co_tenant_id = ''g'', co_updated_at = [], co_user_id = None\<rparr>]\<rparr>"

definition tuesday :: moment where
  "tuesday = \<lparr>at_date = Date 2026 3 3, at_time = 36000000000\<rparr>"

definition yoga_row :: "string \<Rightarrow> class_entry" where
  "yoga_row i = record_row read_clock clock_text yoga_desk tuesday None i ''m1'' ''yoga'' yoga_sub (None, None)"

lemma tuesday_instant: "instant tuesday = 1772532000000000"
  by code_simp

lemma tuesday_valid: "valid_moment tuesday"
  by code_simp

lemma clock_reads: "0 \<le> t \<Longrightarrow> read_clock (clock_text t) = t"
  by (simp add: read_clock_def clock_text_def nat_of_string_of_nat)

lemma first_entry: "entry_decision read_clock yoga_desk tuesday ''m1'' ''yoga'' False None [] = Inr (None, None)"
  by (simp add: entry_decision_def yoga_desk_def yoga_sub_def weekly_yoga_def record_entry_def quota_check_for_sub_def
      find_matching_entitlement_def quota_for_entitlement_def used_in_window_def count_effective_entries_def nullish_def Let_def)

lemma first_step: "desk_step read_clock clock_text clock_text yoga_desk tuesday (RecordEntry None i ''m1'' ''yoga'' False None) []
    = Inr [yoga_row i]"
  by (simp add: first_entry yoga_row_def) (simp add: yoga_desk_def)

lemma yoga_row_charged:
  "charged_to read_clock ''m1'' yoga_sub weekly_yoga
     (compute_window_start RP_weekly tuesday (lv_started_at yoga_sub) (lv_billing_period yoga_sub)) (yoga_row i)"
proof -
  have "read_clock (ce_entered_at (yoga_row i)) = instant tuesday"
    by (simp add: yoga_row_def record_row_def clock_reads tuesday_instant)
  with window_begins [OF tuesday_valid, of RP_weekly] show ?thesis
    by (simp add: charged_to_def effective_since_def yoga_row_def record_row_def yoga_sub_def weekly_yoga_def find_matching_entitlement_def)
qed

text \<open>
  The decision and the insertion are two statements without a lock: two desks that decide before either has inserted
  both record the last entry of the week.
\<close>

lemma two_desks_exceed:
  "entry_decision read_clock yoga_desk tuesday ''m1'' ''yoga'' False None [] = Inr (None, None)
   \<and> charged read_clock ''m1'' yoga_sub weekly_yoga tuesday ([] @ [yoga_row ''x1''] @ [yoga_row ''x2'']) = 2
   \<and> nullish (pe_quantity weekly_yoga) 0 = 1"
  using first_entry yoga_row_charged by (simp add: charged_def weekly_yoga_def nullish_def)

theorem quota_kept_witness:
  "charged read_clock ''m1'' yoga_sub weekly_yoga tuesday [yoga_row ''x1''] = 1
   \<and> charged read_clock ''m1'' yoga_sub weekly_yoga tuesday [yoga_row ''x1''] \<le> max 0 (nullish (pe_quantity weekly_yoga) 0)"
proof -
  have "desk_course read_clock clock_text clock_text yoga_desk tuesday []" by (rule desk_course.opened) (rule tuesday_valid)
  then have course: "desk_course read_clock clock_text clock_text yoga_desk tuesday [yoga_row ''x1'']"
    by (rule desk_course.granted) (rule first_step)
  have live: "dk_live yoga_desk ''m1'' = Some yoga_sub" by (simp add: yoga_desk_def)
  have metered: "pe_reset_period weekly_yoga \<noteq> RP_unlimited" by (simp add: weekly_yoga_def)
  have "charged read_clock ''m1'' yoga_sub weekly_yoga tuesday [yoga_row ''x1''] = 1"
    using yoga_row_charged by (simp add: charged_def weekly_yoga_def)
  with quota_kept [OF course live metered] show ?thesis by simp
qed


end
