(* ===== verification/Calendar.thy ===== *)
theory Calendar
  imports Materialize Lifecycle ListPages Earnings "HOL-Library.Multiset"
begin

text \<open>
  The calendar of a gym under the operations of \<^verbatim>\<open>backend/app/services/schedule_service.py\<close>: recurring rules
  that are created, edited and deactivated, single sessions that are placed, edited and cancelled, bulk actions on
  a class and a range of days, and the nightly job of \<^verbatim>\<open>workers/schedule_tasks.py\<close>. The owner's rank and the feature
  are checked in \<^verbatim>\<open>ServerGates\<close>, the pay of a substitute in \<^verbatim>\<open>BulkActions\<close>. Times are in milliseconds.
\<close>

section \<open>The state\<close>

record calendar =
  cl_rules :: "schedule_rule list"
  cl_rows :: "session_row list"

text \<open>The constraints on a rule and on a row; another gym's class or coach is unknown.\<close>

definition rule_checks :: "schedule_rule \<Rightarrow> bool" where
  "rule_checks r \<longleftrightarrow> ru_weekdays r \<noteq> [] \<and> ru_start_time r < ru_end_time r
     \<and> (case ru_ends_on r of None \<Rightarrow> True | Some e \<Rightarrow> ru_starts_on r \<le> e)"

definition rows_ok :: "session_row list \<Rightarrow> bool" where
  "rows_ok rows \<longleftrightarrow> unique_starts rows \<and> list_all (\<lambda>s. sr_starts_at s < sr_ends_at s) rows"

record known =
  kn_class :: "string \<Rightarrow> bool"
  kn_coach :: "string \<Rightarrow> bool"

definition assert_class :: "known \<Rightarrow> string \<Rightarrow> app_error option" where
  "assert_class k c = check_that (kn_class k c) (GymClassNotFoundError c)"

definition assert_coach :: "known \<Rightarrow> string option \<Rightarrow> app_error option" where
  "assert_coach k coach = (case coach of None \<Rightarrow> None | Some c \<Rightarrow> check_that (kn_coach k c) (CoachNotFoundError c))"

definition after :: "app_error option list \<Rightarrow> fault + 'a \<Rightarrow> fault + 'a" where
  "after checks result = (case first_error checks of Some e \<Rightarrow> Inl (Service e) | None \<Rightarrow> result)"

section \<open>The operations\<close>

text \<open>
  A rule is given with the id the database made for it, an edit with all values the rule has afterwards. The number of a
  row stands for its id. \<open>Nightly\<close> is the job over all active rules.
\<close>

datatype cal_op =
    CreateRule schedule_rule
  | EditRule string schedule_rule
  | DeactivateRule string
  | PlaceSession string int int "string option" "string option"
  | EditSession nat "string option" "string option" "int option" "int option" bool
  | CancelSessionRow nat
  | BulkCancel string date date
  | BulkSwap string date date string
  | Nightly

definition update_number :: "nat \<Rightarrow> (session_row \<Rightarrow> session_row) \<Rightarrow> session_row list \<Rightarrow> session_row list" where
  "update_number n f = map (\<lambda>s. if sr_id s = n then f s else s)"

definition update_each :: "(session_row \<Rightarrow> session_row) \<Rightarrow> session_row list \<Rightarrow> session_row list \<Rightarrow> session_row list" where
  "update_each f targets rows = fold (\<lambda>s. update_number (sr_id s) f) targets rows"

definition cancelled_row :: "session_row \<Rightarrow> session_row" where
  "cancelled_row s = s\<lparr>sr_status := SN_cancelled, sr_is_customized := True\<rparr>"

definition dropped_row :: "session_row \<Rightarrow> session_row" where
  "dropped_row s = s\<lparr>sr_status := SN_cancelled\<rparr>"

definition swapped_row :: "string \<Rightarrow> session_row \<Rightarrow> session_row" where
  "swapped_row coach s = s\<lparr>sr_head_coach_id := Some coach, sr_is_customized := True\<rparr>"

definition edited_row :: "string option \<Rightarrow> string option \<Rightarrow> int option \<Rightarrow> int option \<Rightarrow> session_row \<Rightarrow> session_row" where
  "edited_row head assistant starts ends s =
     s\<lparr>sr_head_coach_id := (case head of None \<Rightarrow> sr_head_coach_id s | Some c \<Rightarrow> Some c),
       sr_assistant_coach_id := (case assistant of None \<Rightarrow> sr_assistant_coach_id s | Some c \<Rightarrow> Some c),
       sr_starts_at := nullish starts (sr_starts_at s), sr_ends_at := nullish ends (sr_ends_at s),
       sr_is_customized := True\<rparr>"

text \<open>\<open>list_in_range_for_class\<close>, on the days of the range in UTC.\<close>

definition in_bulk_range :: "string \<Rightarrow> date \<Rightarrow> date \<Rightarrow> session_row \<Rightarrow> bool" where
  "in_bulk_range class_id from_date to_date s \<longleftrightarrow> sr_class_id s = class_id \<and> start_of_day from_date \<le> sr_starts_at s
     \<and> sr_starts_at s < start_of_day (next_day to_date) \<and> sr_status s = SN_scheduled"

definition bulk_targets :: "string \<Rightarrow> date \<Rightarrow> date \<Rightarrow> session_row list \<Rightarrow> session_row list" where
  "bulk_targets class_id from_date to_date rows = sort_key sr_starts_at (filter (in_bulk_range class_id from_date to_date) rows)"

definition bulk_range_error :: "(date \<Rightarrow> string) \<Rightarrow> date \<Rightarrow> date \<Rightarrow> app_error option" where
  "bulk_range_error printed from_date to_date =
     (if to_date < from_date
      then Some (InvalidBulkRangeError (''to_date ('' @ printed to_date @ '') must be >= from_date ('' @ printed from_date @ '')''))
      else check_that (days_between from_date to_date \<le> 366) (InvalidBulkRangeError ''bulk range > 1 year is not allowed''))"

definition rule_by_id :: "string \<Rightarrow> schedule_rule list \<Rightarrow> schedule_rule option" where
  "rule_by_id i = List.find (\<lambda>r. ru_id r = i)"

definition row_by_number :: "nat \<Rightarrow> session_row list \<Rightarrow> session_row option" where
  "row_by_number n = List.find (\<lambda>s. sr_id s = n)"

definition set_rule :: "schedule_rule \<Rightarrow> schedule_rule list \<Rightarrow> schedule_rule list" where
  "set_rule r = map (\<lambda>q. if ru_id q = ru_id r then r else q)"

definition with_rows :: "calendar \<Rightarrow> session_row list \<Rightarrow> fault + calendar" where
  "with_rows cal rows = (if rows_ok rows then Inr (cal\<lparr>cl_rows := rows\<rparr>) else Inl Database)"

fun cal_step ::
  "(int \<Rightarrow> int) \<Rightarrow> (int \<Rightarrow> int) \<Rightarrow> (date \<Rightarrow> string) \<Rightarrow> known \<Rightarrow> int \<Rightarrow> date \<Rightarrow> cal_op \<Rightarrow> calendar \<Rightarrow> fault + calendar" where
  "cal_step utc_of local printed k now today (CreateRule r) cal =
     after [assert_class k (ru_class_id r), assert_coach k (Some (ru_head_coach_id r)), assert_coach k (ru_assistant_coach_id r)]
       (if \<not> rule_checks r then Inl Database
        else Inr \<lparr>cl_rules = cl_rules cal @ [r], cl_rows = fst (materialize_horizon utc_of today r (cl_rows cal))\<rparr>)"
| "cal_step utc_of local printed k now today (EditRule i r) cal =
     (case rule_by_id i (cl_rules cal) of
        None \<Rightarrow> Inl (Service (ClassScheduleTemplateNotFoundError i))
      | Some old \<Rightarrow>
         let r' = r\<lparr>ru_id := i, ru_class_id := ru_class_id old\<rparr> in
         if \<not> rule_checks r' then Inl Database
         else (case rematerialize_future utc_of local now today r' (cl_rows cal) of
            None \<Rightarrow> Inl Database
          | Some rows \<Rightarrow> Inr \<lparr>cl_rules = set_rule r' (cl_rules cal), cl_rows = rows\<rparr>))"
| "cal_step utc_of local printed k now today (DeactivateRule i) cal =
     (case rule_by_id i (cl_rules cal) of
        None \<Rightarrow> Inl (Service (ClassScheduleTemplateNotFoundError i))
      | Some r \<Rightarrow>
         Inr \<lparr>cl_rules = set_rule (r\<lparr>ru_is_active := False\<rparr>) (cl_rules cal),
              cl_rows = update_each dropped_row (filter (plain_future now i) (cl_rows cal)) (cl_rows cal)\<rparr>)"
| "cal_step utc_of local printed k now today (PlaceSession class_id starts ends head assistant) cal =
     after [assert_class k class_id, assert_coach k head, assert_coach k assistant]
       (with_rows cal (cl_rows cal @ [\<lparr>sr_id = length (cl_rows cal), sr_template_id = None, sr_class_id = class_id,
          sr_starts_at = starts, sr_ends_at = ends, sr_head_coach_id = head, sr_assistant_coach_id = assistant,
          sr_status = SN_scheduled, sr_is_customized = True\<rparr>]))"
| "cal_step utc_of local printed k now today (EditSession n head assistant starts ends noted) cal =
     (case row_by_number n (cl_rows cal) of
        None \<Rightarrow> Inl (Service (ClassSessionNotFoundError (string_of_nat n)))
      | Some s \<Rightarrow>
         after [check_that (sr_status s = SN_scheduled)
                  (SessionStatusTransitionError (string_of_nat n) (session_status_text (sr_status s)) ''edit''),
                assert_coach k head, assert_coach k assistant]
           (if head = None \<and> assistant = None \<and> starts = None \<and> ends = None \<and> \<not> noted then Inr cal
            else with_rows cal (update_number n (edited_row head assistant starts ends) (cl_rows cal))))"
| "cal_step utc_of local printed k now today (CancelSessionRow n) cal =
     (case row_by_number n (cl_rows cal) of
        None \<Rightarrow> Inl (Service (ClassSessionNotFoundError (string_of_nat n)))
      | Some s \<Rightarrow>
         after [check_that (sr_status s = SN_scheduled)
                  (SessionStatusTransitionError (string_of_nat n) (session_status_text (sr_status s)) ''cancel'')]
           (Inr (cal\<lparr>cl_rows := update_number n cancelled_row (cl_rows cal)\<rparr>)))"
| "cal_step utc_of local printed k now today (BulkCancel class_id from_date to_date) cal =
     after [bulk_range_error printed from_date to_date, assert_class k class_id]
       (Inr (cal\<lparr>cl_rows := update_each cancelled_row (bulk_targets class_id from_date to_date (cl_rows cal)) (cl_rows cal)\<rparr>))"
| "cal_step utc_of local printed k now today (BulkSwap class_id from_date to_date coach) cal =
     after [bulk_range_error printed from_date to_date, assert_class k class_id, assert_coach k (Some coach)]
       (Inr (cal\<lparr>cl_rows := update_each (swapped_row coach) (bulk_targets class_id from_date to_date (cl_rows cal)) (cl_rows cal)\<rparr>))"
| "cal_step utc_of local printed k now today Nightly cal =
     Inr (cal\<lparr>cl_rows := fold (\<lambda>r rows. fst (materialize_horizon utc_of today r rows)) (filter ru_is_active (cl_rules cal)) (cl_rows cal)\<rparr>)"

section \<open>Rows keep their number and their start\<close>

definition numbered :: "session_row list \<Rightarrow> bool" where
  "numbered rows \<longleftrightarrow> map sr_id rows = [0..<length rows]"

definition table_kept :: "session_row list \<Rightarrow> bool" where
  "table_kept rows \<longleftrightarrow> numbered rows \<and> unique_starts rows"

lemma numbered_distinct: "numbered rows \<Longrightarrow> distinct (map sr_id rows)"
  by (simp add: numbered_def)

lemma numbered_append: "numbered rows \<Longrightarrow> sr_id s = length rows \<Longrightarrow> numbered (rows @ [s])"
  by (simp add: numbered_def)

lemma numbered_map: "(\<And>s. sr_id (f s) = sr_id s) \<Longrightarrow> numbered (map f rows) \<longleftrightarrow> numbered rows"
  by (simp add: numbered_def comp_def)

lemma unique_by_number:
  assumes "distinct (map sr_id rows)"
  shows "unique_starts rows \<longleftrightarrow> (\<forall>s \<in> set rows. \<forall>t \<in> set rows. sr_template_id s \<noteq> None
    \<and> sr_template_id s = sr_template_id t \<and> sr_starts_at s = sr_starts_at t \<longrightarrow> sr_id s = sr_id t)"
proof -
  have "distinct rows" using assms by (simp add: distinct_map)
  moreover have "sr_id s = sr_id t \<longleftrightarrow> s = t" if "s \<in> set rows" "t \<in> set rows" for s t
    using assms that by (auto simp: distinct_map dest: inj_onD)
  ultimately show ?thesis by (auto simp: unique_starts_def distinct_map inj_on_def)
qed

lemma table_kept_map:
  assumes "table_kept rows" "\<And>s. sr_id (f s) = sr_id s" "\<And>s. sr_template_id (f s) = sr_template_id s" "\<And>s. sr_starts_at (f s) = sr_starts_at s"
  shows "table_kept (map f rows)"
proof -
  have n: "numbered rows" "unique_starts rows" "numbered (map f rows)"
    using assms(1) by (simp_all add: table_kept_def numbered_map assms(2))
  have "unique_starts (map f rows)"
    using n(2) unfolding unique_by_number [OF numbered_distinct [OF n(1)]] unique_by_number [OF numbered_distinct [OF n(3)]]
    by (simp only: set_map ball_simps assms(2-4))
  with n(3) show ?thesis by (simp add: table_kept_def)
qed

text \<open>The nightly job and a new rule append rows.\<close>

lemma horizon_numbered: "numbered rows \<Longrightarrow> numbered (fst (fold (materialize_session utc_of r) ds (rows, n)))"
proof (induction ds arbitrary: rows n)
  case (Cons d ds)
  then show ?case
    using Cons.IH [OF numbered_append [OF Cons.prems, of "new_row utc_of r d (length rows)"]]
    by (simp add: materialize_session_pair new_row_def)
qed simp

lemma horizon_kept: "table_kept rows \<Longrightarrow> table_kept (fst (materialize_horizon utc_of today r rows))"
  using horizon_loop [of rows utc_of r _ 0] horizon_numbered [of rows utc_of r _ 0]
  unfolding table_kept_def materialize_horizon_def by metis

lemma nights_kept:
  "table_kept rows \<Longrightarrow> table_kept (fold (\<lambda>r rows. fst (materialize_horizon utc_of today r rows)) rs rows)
     \<and> set rows \<subseteq> set (fold (\<lambda>r rows. fst (materialize_horizon utc_of today r rows)) rs rows)"
proof (induction rs arbitrary: rows)
  case (Cons r rs)
  from Cons.IH [OF horizon_kept [OF Cons.prems, of utc_of today r]] horizon_keeps [of rows utc_of today r] show ?case by auto
qed simp

text \<open>An edit updates row by row, each against the index.\<close>

lemma update_all_kept: "update_all ss rows = Some rows' \<Longrightarrow> table_kept rows \<Longrightarrow> table_kept rows'"
proof (induction ss arbitrary: rows)
  case (Cons s ss)
  then obtain rows1 where u: "update_session s rows = Some rows1" "update_all ss rows1 = Some rows'"
    by (auto simp: Option.bind_eq_Some_conv)
  let ?f = "\<lambda>x. if sr_id x = sr_id s then s else x"
  from u(1) have rows1: "rows1 = map ?f rows"
    and free: "\<And>x. x \<in> set rows \<Longrightarrow> sr_id x \<noteq> sr_id s \<Longrightarrow> \<not> (sr_template_id x = sr_template_id s \<and> sr_starts_at x = sr_starts_at s)"
    by (auto simp: update_session_def split: if_splits)
  have "numbered rows1" using Cons.prems(2) unfolding rows1 table_kept_def by (subst numbered_map) simp_all
  moreover have "unique_starts rows1"
    unfolding unique_by_number [OF numbered_distinct [OF calculation]]
  proof (intro ballI impI)
    fix x y
    assume x: "x \<in> set rows1" and y: "y \<in> set rows1"
      and xy: "sr_template_id x \<noteq> None \<and> sr_template_id x = sr_template_id y \<and> sr_starts_at x = sr_starts_at y"
    have old: "z = s \<or> z \<in> set rows \<and> sr_id z \<noteq> sr_id s" if "z \<in> set rows1" for z
      using that by (auto simp: rows1)
    have "sr_id u = sr_id v" if "u \<in> set rows" "v \<in> set rows" "sr_template_id u \<noteq> None"
      "sr_template_id u = sr_template_id v" "sr_starts_at u = sr_starts_at v" for u v
      using Cons.prems(2) that unique_by_number [OF numbered_distinct] unfolding table_kept_def by blast
    with old [OF x] old [OF y] xy free show "sr_id x = sr_id y" by metis
  qed
  ultimately show ?case using Cons.IH [OF u(2)] by (simp add: table_kept_def)
qed simp

lemma rematerialize_kept:
  assumes "rematerialize_future utc_of local now today r rows = Some rows'" "table_kept rows"
  shows "table_kept rows' \<and> (\<forall>s \<in> set rows. \<not> plain_future now (ru_id r) s \<longrightarrow> s \<in> set rows')"
proof -
  from assms(1) obtain rows1 where "update_all (map (moved utc_of local r) (filter (plain_future now (ru_id r)) rows)) rows = Some rows1"
    "rows' = fst (materialize_horizon utc_of today r rows1)" by (auto simp: rematerialize_future_def)
  then have "table_kept rows'" using assms(2) by (simp add: update_all_kept horizon_kept)
  moreover have "s \<in> set rows'" if "s \<in> set rows" "\<not> plain_future now (ru_id r) s" for s
    using edits_survive [OF assms(1) _ that(1)] assms(2) that(2) by (simp add: table_kept_def numbered_distinct)
  ultimately show ?thesis by blast
qed

section \<open>Updates of several rows\<close>

lemma update_each_map:
  "(\<And>s. sr_id (f s) = sr_id s) \<Longrightarrow> distinct (map sr_id ts) \<Longrightarrow>
   update_each f ts rows = map (\<lambda>s. if sr_id s \<in> sr_id ` set ts then f s else s) rows"
proof (induction ts arbitrary: rows)
  case Nil
  then show ?case by (simp add: update_each_def)
next
  case (Cons t ts)
  have "update_each f (t # ts) rows = update_each f ts (update_number (sr_id t) f rows)" by (simp add: update_each_def)
  also have "\<dots> = map (\<lambda>s. if sr_id s \<in> sr_id ` set ts then f s else s) (update_number (sr_id t) f rows)"
    using Cons by (intro Cons.IH) simp_all
  also have "\<dots> = map (\<lambda>s. if sr_id s \<in> sr_id ` set (t # ts) then f s else s) rows"
    using Cons.prems(2) by (auto simp: update_number_def Cons.prems(1))
  finally show ?case .
qed

lemma update_chosen:
  assumes "numbered rows" "\<And>s. sr_id (f s) = sr_id s" "mset ts = mset (filter P rows)"
  shows "update_each f ts rows = map (\<lambda>s. if P s then f s else s) rows"
proof -
  have d: "distinct (map sr_id rows)" using assms(1) by (rule numbered_distinct)
  then have "distinct (map sr_id (filter P rows))" by (rule distinct_map_filter)
  moreover have "mset (map sr_id ts) = mset (map sr_id (filter P rows))" using assms(3) by (metis mset_map)
  ultimately have "distinct (map sr_id ts)" by (metis mset_eq_imp_distinct_iff)
  with assms(2) have "update_each f ts rows = map (\<lambda>s. if sr_id s \<in> sr_id ` set ts then f s else s) rows"
    by (rule update_each_map)
  moreover have "sr_id s \<in> sr_id ` set ts \<longleftrightarrow> P s" if "s \<in> set rows" for s
    using that d assms(3) by (auto simp: mset_eq_setD [OF assms(3)] distinct_map dest: inj_onD)
  ultimately show ?thesis by simp
qed

lemma row_changes [simp]:
  "sr_id (cancelled_row s) = sr_id s" "sr_template_id (cancelled_row s) = sr_template_id s" "sr_starts_at (cancelled_row s) = sr_starts_at s"
  "sr_id (dropped_row s) = sr_id s" "sr_template_id (dropped_row s) = sr_template_id s" "sr_starts_at (dropped_row s) = sr_starts_at s"
  "sr_id (swapped_row c s) = sr_id s" "sr_template_id (swapped_row c s) = sr_template_id s" "sr_starts_at (swapped_row c s) = sr_starts_at s"
  "sr_id (edited_row h a b e s) = sr_id s"
  by (simp_all add: cancelled_row_def dropped_row_def swapped_row_def edited_row_def)

lemma after_Inr [simp]: "after checks result = Inr x \<longleftrightarrow> list_all (\<lambda>e. e = None) checks \<and> result = Inr x"
  by (cases "first_error checks") (simp_all add: after_def flip: first_error_None)

lemma bulk_chosen:
  assumes "numbered rows" "\<And>s. sr_id (f s) = sr_id s"
  shows "update_each f (bulk_targets c a b rows) rows = map (\<lambda>s. if in_bulk_range c a b s then f s else s) rows"
  by (rule update_chosen) (simp_all add: assms bulk_targets_def)

text \<open>C21: a bulk action changes exactly the scheduled sessions of the class that start on a day of the range, the
  first and the last included, and no other row.\<close>

theorem bulk_changes_range:
  assumes "numbered (cl_rows cal)"
    and "cal_step utc_of local printed k now today op cal = Inr cal'"
    and "op = BulkCancel c a b \<and> f = cancelled_row \<or> op = BulkSwap c a b coach \<and> f = swapped_row coach"
  shows "cl_rows cal' = map (\<lambda>s. if sr_class_id s = c \<and> sr_status s = SN_scheduled \<and> start_of_day a \<le> sr_starts_at s
      \<and> sr_starts_at s < start_of_day (next_day b) then f s else s) (cl_rows cal) \<and> cl_rules cal' = cl_rules cal"
proof -
  have "cal' = cal\<lparr>cl_rows := update_each f (bulk_targets c a b (cl_rows cal)) (cl_rows cal)\<rparr> \<and> (\<forall>s. sr_id (f s) = sr_id s)"
    using assms(2,3) by auto
  with bulk_chosen [OF assms(1), of f c a b] show ?thesis
    by (auto simp: in_bulk_range_def intro!: map_cong)
qed

section \<open>What the calendar never loses\<close>

fun by_rules :: "cal_op \<Rightarrow> bool" where
  "by_rules (CreateRule _) = True"
| "by_rules (EditRule _ _) = True"
| "by_rules (DeactivateRule _) = True"
| "by_rules Nightly = True"
| "by_rules _ = False"

definition settled_row :: "bool \<Rightarrow> int \<Rightarrow> session_row \<Rightarrow> bool" where
  "settled_row rules_only now s \<longleftrightarrow> sr_status s = SN_cancelled \<or> rules_only \<and> (sr_is_customized s \<or> sr_starts_at s < now)"

lemma with_rows_kept: "with_rows cal rows = Inr cal' \<Longrightarrow> numbered rows \<Longrightarrow> table_kept (cl_rows cal') \<and> cl_rows cal' = rows"
  by (auto simp: with_rows_def rows_ok_def table_kept_def split: if_splits)

lemma chosen_kept:
  assumes "table_kept rows" "rows' = map (\<lambda>s. if P s then f s else s) rows" "\<And>s. P s \<Longrightarrow> \<not> Q s"
    and "\<And>s. sr_id (f s) = sr_id s" "\<And>s. sr_template_id (f s) = sr_template_id s" "\<And>s. sr_starts_at (f s) = sr_starts_at s"
  shows "table_kept rows' \<and> (\<forall>s \<in> set rows. Q s \<longrightarrow> s \<in> set rows')"
proof -
  have "table_kept rows'" unfolding assms(2) by (rule table_kept_map [OF assms(1)]) (simp_all add: assms(4-6))
  moreover have "s \<in> set rows'" if "s \<in> set rows" "Q s" for s
    using that assms(3) unfolding assms(2) by (force simp: image_iff)
  ultimately show ?thesis by blast
qed

lemma number_chosen:
  assumes "numbered rows" "row_by_number n rows = Some s"
  shows "s \<in> set rows" "update_number n f rows = map (\<lambda>x. if x = s then f x else x) rows"
proof -
  from assms(2) have s: "s \<in> set rows" "sr_id s = n" by (auto simp: row_by_number_def dest: find_Some_mem)
  then show "s \<in> set rows" by simp
  have "sr_id x = n \<longleftrightarrow> x = s" if "x \<in> set rows" for x
    using that s numbered_distinct [OF assms(1)] by (auto simp: distinct_map dest: inj_onD)
  then show "update_number n f rows = map (\<lambda>x. if x = s then f x else x) rows" by (simp add: update_number_def)
qed

lemma cal_step_kept:
  assumes kept: "table_kept (cl_rows cal)" and step: "cal_step utc_of local printed k now today op cal = Inr cal'"
  shows "table_kept (cl_rows cal') \<and> (\<forall>s \<in> set (cl_rows cal). settled_row (by_rules op) now s \<longrightarrow> s \<in> set (cl_rows cal'))"
proof -
  let ?Q = "settled_row (by_rules op) now"
  from kept have num: "numbered (cl_rows cal)" by (simp add: table_kept_def)
  show ?thesis
  proof (cases op)
    case (CreateRule r)
    with step horizon_kept [OF kept] horizon_keeps [of "cl_rows cal" utc_of today r] show ?thesis
      by (auto split: if_splits)
  next
    case (EditRule i r)
    with step obtain old where old: "rule_by_id i (cl_rules cal) = Some old" by (cases "rule_by_id i (cl_rules cal)") auto
    define r' where "r' = r\<lparr>ru_id := i, ru_class_id := ru_class_id old\<rparr>"
    from step old EditRule obtain rows where r: "rematerialize_future utc_of local now today r' (cl_rows cal) = Some rows" "cl_rows cal' = rows"
      by (cases "rematerialize_future utc_of local now today r' (cl_rows cal)") (auto simp: Let_def r'_def split: if_splits)
    have "\<not> plain_future now (ru_id r') s" if "?Q s" for s
      using that by (auto simp: settled_row_def plain_future_def)
    with rematerialize_kept [OF r(1) kept] r(2) show ?thesis by blast
  next
    case (DeactivateRule i)
    with step have "cl_rows cal' = update_each dropped_row (filter (plain_future now i) (cl_rows cal)) (cl_rows cal)"
      by (auto split: option.splits)
    also have "\<dots> = map (\<lambda>s. if plain_future now i s then dropped_row s else s) (cl_rows cal)"
      by (rule update_chosen [OF num]) simp_all
    finally show ?thesis
      by (rule chosen_kept [OF kept]) (auto simp: settled_row_def plain_future_def)
  next
    case (PlaceSession c starts ends head assistant)
    with step obtain s where "with_rows cal (cl_rows cal @ [s]) = Inr cal'" "sr_id s = length (cl_rows cal)" by fastforce
    with with_rows_kept [OF this(1) numbered_append [OF num]] show ?thesis by auto
  next
    case (EditSession n head assistant starts ends noted)
    with step obtain s where s: "row_by_number n (cl_rows cal) = Some s" "sr_status s = SN_scheduled"
      and c: "cal' = cal \<or> with_rows cal (update_number n (edited_row head assistant starts ends) (cl_rows cal)) = Inr cal'"
      by (auto simp: check_that_def split: option.splits if_splits)
    from c show ?thesis
    proof
      assume w: "with_rows cal (update_number n (edited_row head assistant starts ends) (cl_rows cal)) = Inr cal'"
      have "numbered (update_number n (edited_row head assistant starts ends) (cl_rows cal))"
        using num unfolding update_number_def by (subst numbered_map) simp_all
      from with_rows_kept [OF w this] number_chosen [OF num s(1)] s(2) show ?thesis
        by (force simp: EditSession settled_row_def image_iff)
    qed (use kept in simp)
  next
    case (CancelSessionRow n)
    with step obtain s where s: "row_by_number n (cl_rows cal) = Some s" "sr_status s = SN_scheduled"
      and "cl_rows cal' = update_number n cancelled_row (cl_rows cal)"
      by (auto simp: check_that_def split: option.splits if_splits)
    then have "cl_rows cal' = map (\<lambda>x. if x = s then cancelled_row x else x) (cl_rows cal)" by (simp add: number_chosen(2) [OF num s(1)])
    then show ?thesis by (rule chosen_kept [OF kept]) (use s(2) in \<open>auto simp: CancelSessionRow settled_row_def\<close>)
  next
    case (BulkCancel c a b)
    with step bulk_chosen [OF num, of cancelled_row c a b]
    have "cl_rows cal' = map (\<lambda>s. if in_bulk_range c a b s then cancelled_row s else s) (cl_rows cal)" by auto
    then show ?thesis by (rule chosen_kept [OF kept]) (auto simp: BulkCancel settled_row_def in_bulk_range_def)
  next
    case (BulkSwap c a b coach)
    with step bulk_chosen [OF num, of "swapped_row coach" c a b]
    have "cl_rows cal' = map (\<lambda>s. if in_bulk_range c a b s then swapped_row coach s else s) (cl_rows cal)" by auto
    then show ?thesis by (rule chosen_kept [OF kept]) (auto simp: BulkSwap settled_row_def in_bulk_range_def)
  next
    case Nightly
    with step nights_kept [OF kept, of utc_of today "filter ru_is_active (cl_rules cal)"] show ?thesis by auto
  qed
qed

text \<open>A course of requests and nights; a request that fails leaves the calendar as it is.\<close>

fun cal_run ::
  "(int \<Rightarrow> int) \<Rightarrow> (int \<Rightarrow> int) \<Rightarrow> (date \<Rightarrow> string) \<Rightarrow> known \<Rightarrow> (int \<times> date \<times> cal_op) list \<Rightarrow> calendar \<Rightarrow> calendar" where
  "cal_run utc_of local printed k [] cal = cal"
| "cal_run utc_of local printed k ((now, today, op) # ops) cal =
     cal_run utc_of local printed k ops
       (case cal_step utc_of local printed k now today op cal of Inl _ \<Rightarrow> cal | Inr cal' \<Rightarrow> cal')"

lemma cal_run_kept:
  "table_kept (cl_rows cal) \<Longrightarrow> table_kept (cl_rows (cal_run utc_of local printed k ops cal))
   \<and> (\<forall>s \<in> set (cl_rows cal). (\<forall>(now, today, op) \<in> set ops. settled_row (by_rules op) now s)
        \<longrightarrow> s \<in> set (cl_rows (cal_run utc_of local printed k ops cal)))"
proof (induction utc_of local printed k ops cal rule: cal_run.induct)
  case (2 utc_of local printed k now today op ops cal)
  show ?case
  proof (cases "cal_step utc_of local printed k now today op cal")
    case (Inl e)
    with 2 show ?thesis by auto
  next
    case (Inr cal')
    from cal_step_kept [OF 2(2) Inr] have "table_kept (cl_rows cal')"
      "\<forall>s \<in> set (cl_rows cal). settled_row (by_rules op) now s \<longrightarrow> s \<in> set (cl_rows cal')" by blast+
    with 2(1) Inr show ?thesis by auto
  qed
qed simp

text \<open>C9: over any course of requests and nights no rule has two sessions at one time, and what has happened stays: a
  cancelled session is never changed again, and as long as only rules are created, edited and deactivated and nights
  pass, neither are the sessions an owner has customized and those that had begun.\<close>

theorem calendar_keeps_history:
  assumes "table_kept (cl_rows cal)" "s \<in> set (cl_rows cal)"
    and "sr_status s = SN_cancelled
      \<or> (\<forall>(now, today, op) \<in> set ops. by_rules op \<and> (sr_is_customized s \<or> sr_starts_at s < now))"
  shows "s \<in> set (cl_rows (cal_run utc_of local printed k ops cal))
    \<and> unique_starts (cl_rows (cal_run utc_of local printed k ops cal))"
proof -
  have "\<forall>(now, today, op) \<in> set ops. settled_row (by_rules op) now s"
    using assms(3) by (auto simp: settled_row_def)
  with cal_run_kept [OF assms(1), of utc_of local printed k ops] assms(2) show ?thesis
    by (simp add: table_kept_def)
qed

text \<open>A new rule asks whether its coaches belong to the gym; an edit does not.\<close>

lemma edit_takes_any_coach:
  "cal_step utc_of local printed k now today (EditRule i r) cal = cal_step utc_of local printed k' now today (EditRule i r) cal"
  "\<not> kn_coach k (ru_head_coach_id r) \<Longrightarrow> kn_class k (ru_class_id r) \<Longrightarrow>
   cal_step utc_of local printed k now today (CreateRule r) cal = Inl (Service (CoachNotFoundError (ru_head_coach_id r)))"
  by (simp_all add: after_def assert_class_def assert_coach_def check_that_def first_error_def)

section \<open>A Sunday in May\<close>

definition sunday_rule :: "int \<Rightarrow> schedule_rule" where
  "sunday_rule hour = \<lparr>ru_id = ''t1'', ru_class_id = ''yoga'', ru_weekdays = [''sun''], ru_start_time = hour * 3600000,
     ru_end_time = (hour + 1) * 3600000, ru_head_coach_id = ''c1'', ru_assistant_coach_id = None,
     ru_starts_on = Date 2026 5 3, ru_ends_on = Some (Date 2026 5 3), ru_is_active = True\<rparr>"

definition sunday_row :: "int \<Rightarrow> nat \<Rightarrow> session_row" where
  "sunday_row hour n = new_row (\<lambda>t. t) (sunday_rule hour) (Date 2026 5 3) n"

definition all_known :: known where
  "all_known = \<lparr>kn_class = (\<lambda>_. True), kn_coach = (\<lambda>_. True)\<rparr>"

lemma sunday_dates: "materialize_dates (sunday_rule hour) (Date 2026 5 1) (add_days (7 * DEFAULT_HORIZON_WEEKS) (Date 2026 5 1)) = [Date 2026 5 3]"
proof -
  let ?a = "Date 2026 5 1" and ?b = "add_days (7 * DEFAULT_HORIZON_WEEKS) (Date 2026 5 1)" and ?d = "Date 2026 5 3"
  have v: "valid_date ?a" "valid_date ?b" "valid_date ?d" "valid_date (ru_starts_on (sunday_rule hour))"
    "\<And>e. ru_ends_on (sunday_rule hour) = Some e \<Longrightarrow> valid_date e"
    by (auto simp: valid_date_def [of "Date _ _ _"] days_in_month_def sunday_rule_def)
  have "weekday_code ?d = ''sun''" by code_simp
  then have "covers (sunday_rule hour) d \<longleftrightarrow> d = ?d" for d
    by (auto simp: covers_def sunday_rule_def intro: order_antisym)
  moreover have "?a \<le> ?d" by (simp add: less_eq_date_def less_date_def)
  moreover have "?d \<le> ?b"
    by (subst ordinal_le [symmetric]) (use v in \<open>simp_all add: ordinal_add DEFAULT_HORIZON_WEEKS_def\<close>, simp add: ordinal_def)
  ultimately have "set (materialize_dates (sunday_rule hour) ?a ?b) = {?d}" "distinct (materialize_dates (sunday_rule hour) ?a ?b)"
    using materialize_dates_set [OF v(1,2,4,5)] v(3) by auto
  then show ?thesis
    by (cases "materialize_dates (sunday_rule hour) ?a ?b"; cases "tl (materialize_dates (sunday_rule hour) ?a ?b)") auto
qed

lemma sunday_horizon:
  "materialize_horizon (\<lambda>t. t) (Date 2026 5 1) (sunday_rule hour) rows =
     (if taken ''t1'' (ordinal (Date 2026 5 3) * DAY_ms + hour * 3600000) rows then (rows, 0)
      else (rows @ [sunday_row hour (length rows)], 1))"
  by (simp add: materialize_horizon_def sunday_dates materialize_session_pair session_timestamps_def sunday_row_def)
    (simp add: sunday_rule_def)

lemma sunday_row_simps [simp]:
  "sr_id (sunday_row hour n) = n" "sr_template_id (sunday_row hour n) = Some ''t1''" "sr_status (sunday_row hour n) = SN_scheduled"
  "sr_is_customized (sunday_row hour n) = False" "sr_class_id (sunday_row hour n) = ''yoga''"
  "sr_starts_at (sunday_row hour n) = ordinal (Date 2026 5 3) * DAY_ms + hour * 3600000"
  by (simp_all add: sunday_row_def new_row_def session_timestamps_def sunday_rule_def)

text \<open>
  A date that was cancelled comes back when the time of its rule is edited: the cancelled row keeps the old time, so the
  new time of that date is free.
\<close>

definition sunday_calendar :: calendar where
  "sunday_calendar = \<lparr>cl_rules = [sunday_rule 18], cl_rows = [cancelled_row (sunday_row 18 0)]\<rparr>"

lemma sunday_cancelled:
  "cal_run (\<lambda>t. t) (\<lambda>t. t) (\<lambda>_. []) all_known
     [(0, Date 2026 5 1, CreateRule (sunday_rule 18)), (0, Date 2026 5 1, CancelSessionRow 0)] \<lparr>cl_rules = [], cl_rows = []\<rparr>
   = sunday_calendar"
proof -
  have "rule_checks (sunday_rule 18)" by (simp add: rule_checks_def sunday_rule_def)
  then have create: "cal_step (\<lambda>t. t) (\<lambda>t. t) (\<lambda>_. []) all_known 0 (Date 2026 5 1) (CreateRule (sunday_rule 18)) \<lparr>cl_rules = [], cl_rows = []\<rparr>
      = Inr \<lparr>cl_rules = [sunday_rule 18], cl_rows = [sunday_row 18 0]\<rparr>"
    by (simp add: sunday_horizon taken_def after_def assert_class_def assert_coach_def check_that_def first_error_def all_known_def
        split: option.splits)
  then show ?thesis
    by (simp add: row_by_number_def update_number_def after_def check_that_def first_error_def sunday_calendar_def)
qed

lemma cancelled_date_comes_back:
  "cal_step (\<lambda>t. t) (\<lambda>t. t) (\<lambda>_. []) all_known 0 (Date 2026 5 1) (EditRule ''t1'' (sunday_rule 19)) sunday_calendar
   = Inr \<lparr>cl_rules = [sunday_rule 19], cl_rows = [cancelled_row (sunday_row 18 0), sunday_row 19 1]\<rparr>"
proof -
  have r: "(sunday_rule 19)\<lparr>ru_id := ''t1'', ru_class_id := ''yoga''\<rparr> = sunday_rule 19" "rule_checks (sunday_rule 19)"
    "ru_id (sunday_rule hour) = ''t1''" "ru_class_id (sunday_rule hour) = ''yoga''" for hour
    by (simp_all add: rule_checks_def sunday_rule_def)
  have "\<not> plain_future 0 ''t1'' (cancelled_row (sunday_row 18 0))" by (simp add: plain_future_def cancelled_row_def)
  moreover have "\<not> taken ''t1'' (ordinal (Date 2026 5 3) * DAY_ms + 19 * 3600000) [cancelled_row (sunday_row 18 0)]"
    by (simp add: taken_def)
  ultimately have "rematerialize_future (\<lambda>t. t) (\<lambda>t. t) 0 (Date 2026 5 1) (sunday_rule 19) [cancelled_row (sunday_row 18 0)]
      = Some [cancelled_row (sunday_row 18 0), sunday_row 19 1]"
    by (simp add: rematerialize_future_def r sunday_horizon)
  then show ?thesis by (simp add: sunday_calendar_def rule_by_id_def set_rule_def r Let_def)
qed

theorem bulk_changes_range_witness:
  "cl_rows (sunday_calendar\<lparr>cl_rows := [sunday_row 18 0]\<rparr>) = [sunday_row 18 0]
   \<and> (\<exists>cal'. cal_step (\<lambda>t. t) (\<lambda>t. t) (\<lambda>_. []) all_known 0 (Date 2026 5 1) (BulkCancel ''yoga'' (Date 2026 5 3) (Date 2026 5 3))
       (sunday_calendar\<lparr>cl_rows := [sunday_row 18 0]\<rparr>) = Inr cal' \<and> cl_rows cal' = [cancelled_row (sunday_row 18 0)])"
proof -
  let ?cal = "sunday_calendar\<lparr>cl_rows := [sunday_row 18 0]\<rparr>"
  have num: "numbered (cl_rows ?cal)" by (simp add: numbered_def)
  obtain cal' where step: "cal_step (\<lambda>t. t) (\<lambda>t. t) (\<lambda>_. []) all_known 0 (Date 2026 5 1) (BulkCancel ''yoga'' (Date 2026 5 3) (Date 2026 5 3))
      ?cal = Inr cal'"
    by (simp add: bulk_range_error_def days_between_def check_that_def assert_class_def all_known_def)
  have "start_of_day (Date 2026 5 3) \<le> sr_starts_at (sunday_row 18 0) \<and> sr_starts_at (sunday_row 18 0) < start_of_day (next_day (Date 2026 5 3))"
    by (simp add: start_of_day_def ordinal_next valid_date_def days_in_month_def DAY_ms_def distrib_right)
  with bulk_changes_range [OF num step, of "''yoga''" "Date 2026 5 3" "Date 2026 5 3" cancelled_row] step show ?thesis by simp
qed

theorem calendar_keeps_history_witness:
  "let s = cancelled_row (sunday_row 18 0); ops = [(0, Date 2026 5 1, EditRule ''t1'' (sunday_rule 19)), (1, Date 2026 5 2, Nightly)];
       cal' = cal_run (\<lambda>t. t) (\<lambda>t. t) (\<lambda>_. []) all_known ops sunday_calendar
   in s \<in> set (cl_rows cal') \<and> unique_starts (cl_rows cal')"
proof -
  have "table_kept (cl_rows sunday_calendar)" by (simp add: table_kept_def numbered_def unique_starts_def sunday_calendar_def)
  moreover have "cancelled_row (sunday_row 18 0) \<in> set (cl_rows sunday_calendar)" by (simp add: sunday_calendar_def)
  moreover have "sr_status (cancelled_row (sunday_row 18 0)) = SN_cancelled" by (simp add: cancelled_row_def)
  ultimately show ?thesis unfolding Let_def by (intro calendar_keeps_history disjI1)
qed

end
