(* ===== verification/FormViews.thy ===== *)
theory FormViews
  imports Views FormInputs
begin

text \<open>
  What the forms and dialogs show: for each one the elements of its page with the values they hold, in the order
  of the markup, the error above the buttons, and whether the submit button is enabled and reads as busy. The
  text inputs are those of \<^verbatim>\<open>FormInputs\<close>; here stand the number and date inputs, the pickers, checkboxes and
  notes around them, and the conditions under which an element is on the page at all. Two questions are
  answered form by form: whether a click on an enabled button can be ignored, and whether two states
  that look the same send the same request.
\<close>

section \<open>Elements\<close>

text \<open>
  An element carries a key for its Hebrew label. \<open>NumberEl\<close> holds the text of a number input with
  \<open>required\<close>, \<open>min\<close>, \<open>max\<close> and \<open>step\<close>; \<open>DayEl\<close> and \<open>ClockEl\<close> hold dates and times as numbers, as their forms do;
  \<open>DisabledEl\<close> is an input that is disabled; \<open>PickEl\<close> is an \<open>AsyncCombobox\<close>, of which the page only has the
  label of its value; \<open>ChoiceEl\<close> is a row of buttons, some of them pressed; \<open>OptionsEl\<close> gives the labels of the
  options of the select after it: value, name, price (in agorot, or in whole units where it is rounded to them)
  and currency.
\<close>

datatype control =
    InputEl string input
  | DisabledEl string input
  | NumberEl string bool "rat option" "rat option" rat num_text
  | DayEl string bool "int option" "int option" "int option"
  | ClockEl string int
  | TickEl string bool
  | PickEl string "string option"
  | ChoiceEl string "(string \<times> bool) list"
  | OptionsEl "(string \<times> string \<times> int \<times> string) list"
  | NoteEl string "string list"
  | ImageEl "string option"
  | ErrorEl hebrew
  | ButtonEl string

record form_view =
  fm_body :: "control list"
  fm_error :: "hebrew option"
  fm_busy :: bool
  fm_enabled :: bool

text \<open>
  A number stands on its step, counted from \<open>min\<close>, which is a multiple of the step everywhere. The text of a
  printed number is the shortest that reads back as it, so it is on the step when it is the double nearest to a
  multiple.
\<close>

definition on_step :: "rat \<Rightarrow> num_text \<Rightarrow> bool" where
  "on_step s t = (case t of
     EmptyText \<Rightarrow> True
   | Typed v \<Rightarrow> of_int \<lfloor>v / s\<rfloor> * s = v
   | Printed x \<Rightarrow> fl (of_int (js_round (x / s)) * s) = x)"

definition number_valid :: "bool \<Rightarrow> rat option \<Rightarrow> rat option \<Rightarrow> rat \<Rightarrow> num_text \<Rightarrow> bool" where
  "number_valid req lo hi s t \<longleftrightarrow> (if t = EmptyText then \<not> req else
     (case lo of None \<Rightarrow> True | Some l \<Rightarrow> l \<le> js_Number t)
     \<and> (case hi of None \<Rightarrow> True | Some h \<Rightarrow> js_Number t \<le> h) \<and> on_step s t)"

fun control_valid :: "(string \<Rightarrow> bool) \<Rightarrow> control \<Rightarrow> bool" where
  "control_valid url (InputEl k i) = input_valid url i"
| "control_valid url (NumberEl k req lo hi s t) = number_valid req lo hi s t"
| "control_valid url (DayEl k req lo hi d) =
     (case d of None \<Rightarrow> \<not> req | Some n \<Rightarrow>
        (case lo of None \<Rightarrow> True | Some l \<Rightarrow> l \<le> n) \<and> (case hi of None \<Rightarrow> True | Some h \<Rightarrow> n \<le> h))"
| "control_valid url e = True"

text \<open>A click on the button submits the form when the browser finds every element valid.\<close>

definition submittable :: "(string \<Rightarrow> bool) \<Rightarrow> form_view \<Rightarrow> bool" where
  "submittable url v \<longleftrightarrow> fm_enabled v \<and> list_all (control_valid url) (fm_body v)"

definition ignored :: "(string \<Rightarrow> bool) \<Rightarrow> form_view \<Rightarrow> 'r option \<Rightarrow> bool" where
  "ignored url v r \<longleftrightarrow> submittable url v \<and> r = None"

definition labelled :: "string list \<Rightarrow> input list \<Rightarrow> control list" where
  [view_defs]: "labelled ks is = map (\<lambda>(k, i). InputEl k i) (zip ks is)"

text \<open>Most forms end alike: the error, the cancel button, and a submit button that is disabled and busy while the
  request is under way.\<close>

definition plain_form :: "control list \<Rightarrow> hebrew option \<Rightarrow> bool \<Rightarrow> form_view" where
  [view_defs]: "plain_form body error submitting =
     \<lparr>fm_body = body, fm_error = error, fm_busy = submitting, fm_enabled = (\<not> submitting)\<rparr>"

section \<open>The subscription dialogs\<close>

definition plan_options :: "membership_plan list \<Rightarrow> (string \<times> string \<times> int \<times> string) list" where
  [view_defs]: "plan_options ps = map (\<lambda>p. (p_id p, p_name p, p_price_cents p, ''NIS'')) ps"

definition sub_form :: "control list \<Rightarrow> mutation_state \<Rightarrow> form_view" where
  [view_defs]: "sub_form body m = plain_form body (map_option humanizeSubscriptionError (mutation_error m)) (isPending m)"

definition enroll_view :: "bool \<Rightarrow> membership_plan list option \<Rightarrow> mutation_state \<Rightarrow> enroll_form \<Rightarrow> form_view" where
  "enroll_view plansLoading plans m f = sub_form
     ((if plansLoading then [NoteEl ''loading'' []]
       else [OptionsEl (plan_options (nullish plans [])),
             InputEl ''plan'' (plain_input (SelectBox ([] # map p_id (nullish plans []))) True (en_planId f))])
      @ [InputEl ''started_at'' (plain_input DateBox False (en_startedAt f)),
         InputEl ''payment_method'' (plain_input (SelectBox (map payment_method_text PAYMENT_METHOD_OPTIONS)) True
           (payment_method_text (en_paymentMethod f)))]
      @ (if en_paymentMethod f = PM_other
         then [InputEl ''detail'' ((plain_input TextBox True (en_paymentDetail f))\<lparr>in_maxLength := Some 200\<rparr>)] else [])
      @ (if en_paymentMethod f = PM_credit_card
         then [InputEl ''card_note'' ((plain_input TextBox False (en_paymentDetail f))\<lparr>in_maxLength := Some 200\<rparr>)] else [])
      @ (if en_paymentMethod f = PM_standing_order then [NoteEl ''no_expiry'' []]
         else [InputEl ''expires_at'' (plain_input DateBox False (en_expiresAt f))])) m"

definition freeze_view :: "mutation_state \<Rightarrow> string \<Rightarrow> form_view" where
  "freeze_view m frozenUntil = sub_form
     [NoteEl ''freeze_stops_the_count'' [], InputEl ''frozen_until'' (plain_input DateBox False frozenUntil)] m"

definition renew_view :: "string option \<Rightarrow> payment_method \<Rightarrow> mutation_state \<Rightarrow> renew_form \<Rightarrow> form_view" where
  "renew_view currentExpiresAt currentPaymentMethod m f = sub_form
     ([if truthy_str currentExpiresAt then NoteEl ''expires_now'' [nullish currentExpiresAt []] else NoteEl ''no_expiry'' [],
       InputEl ''new_expires_at'' (plain_input DateBox False (rn_newExpiresAt f)),
       InputEl ''new_payment_method'' (plain_input (SelectBox ([] # map payment_method_text PAYMENT_METHOD_OPTIONS)) False
         (case rn_newPaymentMethod f of None \<Rightarrow> [] | Some m \<Rightarrow> payment_method_text m))]
      @ (if methodChanged currentPaymentMethod f
         then [InputEl ''detail'' ((plain_input TextBox False (rn_newPaymentDetail f))\<lparr>in_maxLength := Some 200\<rparr>),
               NoteEl (if rn_newPaymentMethod f = Some PM_other then ''better_described'' else ''optional'') []]
         else [])) m"

definition change_view ::
  "bool \<Rightarrow> membership_plan list option \<Rightarrow> string \<Rightarrow> mutation_state \<Rightarrow> string \<times> string \<Rightarrow> form_view" where
  "change_view plansLoading plans currentPlanId m f = (case f of (newPlanId, effectiveDate) \<Rightarrow> sub_form
     ([NoteEl ''old_becomes_replaced'' []]
      @ (if plansLoading then [NoteEl ''loading'' []]
         else if candidatePlans plans currentPlanId = [] then [NoteEl ''no_other_plan'' []]
         else [OptionsEl (plan_options (candidatePlans plans currentPlanId)),
               InputEl ''plan''
                 (plain_input (SelectBox ([] # map p_id (candidatePlans plans currentPlanId))) True newPlanId)])
      @ [InputEl ''effective_date'' (plain_input DateBox False effectiveDate)]) m)"

definition cancel_view :: "mutation_state \<Rightarrow> string \<times> string \<Rightarrow> form_view" where
  "cancel_view m f = (case f of (reason, detail) \<Rightarrow> sub_form
     [NoteEl ''final'' [],
      InputEl ''reason'' (plain_input (SelectBox ([] # REASON_OPTIONS)) False reason),
      InputEl ''detail'' ((plain_input TextArea False detail)\<lparr>in_maxLength := Some 500\<rparr>)] m)"

section \<open>Members, coaches, classes and leads\<close>

definition member_form_view :: "hebrew option \<Rightarrow> bool \<Rightarrow> member_form \<Rightarrow> form_view" where
  "member_form_view error submitting f = plain_form
     (labelled [''first_name'', ''last_name'', ''gender'', ''date_of_birth'', ''phone'', ''email'', ''join_date'', ''notes'']
       (member_inputs f)) error submitting"

definition coach_form_view :: "hebrew option \<Rightarrow> bool \<Rightarrow> coach_form \<Rightarrow> form_view" where
  "coach_form_view error submitting f =
     plain_form (labelled [''first_name'', ''last_name'', ''phone'', ''email''] (coach_inputs f)) error submitting"

text \<open>The swatches, the free colour behind the last of them, and the chosen colour with its button to clear it.\<close>

definition colorPicker :: "string \<Rightarrow> control list" where
  "colorPicker color =
     [ChoiceEl ''presets'' (map (\<lambda>hex. (hex, color = hex)) PRESET_COLORS),
      ChoiceEl ''custom'' [((if isCustomColor color then color else ''rainbow''), isCustomColor color)],
      InputEl ''free_color'' (plain_input ColorBox False (color_input_value color))]
     @ (if color = [] then [NoteEl ''no_color'' []] else [NoteEl ''chosen'' [color], ButtonEl ''clear''])"

definition class_form_view :: "hebrew option \<Rightarrow> bool \<Rightarrow> class_form \<Rightarrow> form_view" where
  "class_form_view error submitting f = plain_form
     ([InputEl ''name'' ((plain_input TextBox True (cf_name f))\<lparr>in_maxLength := Some 100\<rparr>),
       InputEl ''description'' (plain_input TextArea False (cf_description f))]
      @ colorPicker (cf_color f)) error submitting"

definition lead_form_view :: "hebrew option \<Rightarrow> bool \<Rightarrow> lead_form \<Rightarrow> form_view" where
  "lead_form_view error submitting f = plain_form
     (labelled [''first_name'', ''last_name'', ''phone'', ''email'', ''source'', ''notes''] (lead_inputs f)) error submitting"

text \<open>The plan select of the conversion is disabled while the plans load, and so is the button while no plan is picked.\<close>

definition convert_view ::
  "lead \<Rightarrow> bool \<Rightarrow> membership_plan list option \<Rightarrow> convert_dialog \<Rightarrow> form_view" where
  "convert_view l plansLoading plans d =
     \<lparr>fm_body = [NoteEl ''lead'' [l_first_name l, l_last_name l, l_phone l]]
        @ (case truthy_opt (l_email l) of None \<Rightarrow> [] | Some e \<Rightarrow> [NoteEl ''email'' [e]])
        @ [OptionsEl (map (\<lambda>p. (p_id p, p_name p, toFixed0 (p_price_cents p), p_currency p)) (activePlans plans)),
           (if plansLoading then DisabledEl else InputEl) ''plan''
             (plain_input (SelectBox ([] # map p_id (activePlans plans))) True (cd_planId d))]
        @ (if \<not> plansLoading \<and> activePlans plans = [] then [NoteEl ''no_active_plan'' []] else [])
        @ [InputEl ''start_date'' (plain_input DateBox False (cd_startDate d)),
           InputEl ''payment_method''
             (plain_input (SelectBox (map payment_method_text [PM_cash, PM_credit_card, PM_standing_order, PM_other])) False
               (payment_method_text (cd_paymentMethod d))),
           TickEl ''copy_notes'' (cd_copyNotes d)],
      fm_error = map_option humanizeLeadError (mutation_error (cd_convert d)),
      fm_busy = isPending (cd_convert d), fm_enabled = (\<not> convert_disabled d)\<rparr>"

text \<open>The suggestions are buttons under the input, each with how often the reason was given.\<close>

definition lost_view :: "bool \<Rightarrow> lost_reason_row list option \<Rightarrow> lost_dialog \<Rightarrow> form_view" where
  "lost_view loading suggestions d = plain_form
     (InputEl ''reason'' (plain_input TextBox False (lg_reason d))
      # map (\<lambda>row. NoteEl ''suggestion'' [lr_reason row, string_of_int (lr_count row)]) (suggestion_list suggestions d))
     None loading"

definition activity_view :: "activity_form \<Rightarrow> form_view" where
  "activity_view f =
     \<lparr>fm_body = [ChoiceEl ''type'' (map (\<lambda>t. (lead_activity_type_text t, af_type f = t)) activity_types),
                 InputEl ''note'' (plain_input TextArea False (af_note f))],
      fm_error = map_option humanizeLeadError (mutation_error (af_add f)),
      fm_busy = isPending (af_add f), fm_enabled = (\<not> activity_disabled f)\<rparr>"

section \<open>Gyms and users\<close>

text \<open>The preview of the logo, the button that opens the file dialog, and the error of the upload stand between the
  name and the contact data.\<close>

definition tenant_form_view :: "hebrew option \<Rightarrow> bool \<Rightarrow> mutation_state \<Rightarrow> tenant_form \<Rightarrow> form_view" where
  "tenant_form_view error submitting upload f =
     \<lparr>fm_body = labelled [''name'', ''slug''] (take 2 (tenant_inputs f))
        @ [ImageEl (truthy_opt (tf_logo_presigned_url f)),
           ButtonEl (if isPending upload then ''uploading'' else ''choose_file'')]
        @ (case mutation_error upload of None \<Rightarrow> [] | Some e \<Rightarrow> [ErrorEl (humanizeUploadError e)])
        @ labelled [''phone'', ''email'', ''website'', ''address_street'', ''address_city'', ''address_postal_code'',
             ''address_country'', ''legal_name'', ''tax_id'', ''timezone'', ''currency''] (drop 2 (tenant_inputs f)),
      fm_error = error, fm_busy = submitting, fm_enabled = (\<not> tenant_submit_disabled submitting upload)\<rparr>"

definition create_user_view :: "mutation_state \<Rightarrow> user_form \<Rightarrow> form_view" where
  "create_user_view m f = plain_form
     (labelled [''first_name'', ''last_name'', ''email'', ''phone'', ''password'', ''role''] (create_user_inputs f))
     (map_option humanizeUserError (mutation_error m)) (isPending m)"

definition edit_user_view :: "mutation_state \<Rightarrow> edit_user \<Rightarrow> form_view" where
  "edit_user_view m f = plain_form
     (labelled [''first_name'', ''last_name'', ''email'', ''phone'', ''role'', ''status'', ''password''] (edit_user_inputs f))
     (map_option humanizeUserError (mutation_error m)) (isPending m)"

definition login_view :: "login_page \<Rightarrow> form_view" where
  "login_view p = plain_form (labelled [''email'', ''password''] (login_inputs p)) (lp_error p) (lp_loading p)"

definition invite_view :: "coach_page \<Rightarrow> form_view" where
  "invite_view p = plain_form (labelled [''email'', ''password''] (invite_inputs p))
     (map_option humanizeCoachError (mutation_error (cp_invite p))) (isPending (cp_invite p))"

section \<open>Payments and entries\<close>

text \<open>\<open>failed\<close> is the error of the mutation. Only a dialog with a subscription has the checkbox that links the
  payment to it.\<close>

definition record_view :: "int \<Rightarrow> active_sub option \<Rightarrow> thrown option \<Rightarrow> record_dialog \<Rightarrow> form_view" where
  "record_view today activeSub failed d =
     \<lparr>fm_body =
        [NumberEl ''amount'' True (Some 0) None (1/100) (rd_amount d),
         InputEl ''payment_method''
           (plain_input (SelectBox (map payment_method_text [PM_cash, PM_credit_card, PM_standing_order, PM_other])) False
             (payment_method_text (rd_method d))),
         DayEl ''paid_at'' False (date_min today d) (Some today) (rd_paidAt d),
         TickEl ''backdate'' (rd_showBackdate d)]
        @ (case activeSub of None \<Rightarrow> [] | Some _ \<Rightarrow> [TickEl ''link'' (rd_linkSub d)])
        @ [InputEl ''notes'' (plain_input TextArea False (rd_notes d))],
      fm_error = map_option humanizePaymentError failed, fm_busy = rd_pending d,
      fm_enabled = (\<not> record_submit_disabled d)\<rparr>"

definition refund_view :: "payment list option \<Rightarrow> payment \<Rightarrow> string \<Rightarrow> thrown option \<Rightarrow> refund_dialog \<Rightarrow> form_view" where
  "refund_view data p currency failed d =
     (case refund_figures data p of (original, before, rest) \<Rightarrow>
     \<lparr>fm_body =
        [NoteEl ''original'' [string_of_int original, currency], NoteEl ''refunded'' [string_of_int before, currency],
         NoteEl ''remaining'' [string_of_int rest, currency],
         NumberEl ''amount'' True (Some 0) (Some (shekels (remaining data p))) (1/100) (rf_amount d)]
        @ (if overflow data p d then [NoteEl ''more_than_remaining'' []] else [])
        @ [InputEl ''reason'' (plain_input TextBox False (rf_reason d))],
      fm_error = map_option humanizePaymentError failed, fm_busy = rf_pending d,
      fm_enabled = (\<not> refund_submit_disabled data p d)\<rparr>)"

definition override_view :: "string \<Rightarrow> string \<Rightarrow> bool \<Rightarrow> string \<Rightarrow> form_view" where
  "override_view kind className submitting reason = plain_form
     [NoteEl (if kind = ''quota_exceeded'' then ''quota_used_up'' else ''not_in_plan'') [className],
      InputEl ''reason'' ((plain_input TextBox False reason)\<lparr>in_maxLength := Some 500\<rparr>)] None submitting"

section \<open>Plans\<close>

definition printed_int :: "int option \<Rightarrow> num_text" where
  [view_defs]: "printed_int n = (case n of None \<Rightarrow> EmptyText | Some k \<Rightarrow> Printed (of_int k))"

definition RESET_PERIODS :: "reset_period list" where
  "RESET_PERIODS = [RP_weekly, RP_monthly, RP_billing_period, RP_never, RP_unlimited]"

text \<open>A row of the builder: its class, with the inactive one it may still name, the quantity unless it is unlimited,
  and the reset period.\<close>

definition row_elements :: "gym_class list option \<Rightarrow> ent_input \<Rightarrow> control list" where
  "row_elements classes row = (let v = entitlementRow classes row in
     [NoteEl ''inactive'' (map fst (filter (\<lambda>(_, active). \<not> active) (ev_options v))),
      InputEl ''class'' (plain_input (SelectBox ([] # map fst (ev_options v))) False (ev_value v)),
      (case ev_quantity v of
         None \<Rightarrow> NoteEl ''unlimited'' []
       | Some q \<Rightarrow> NumberEl ''quantity'' True (Some 1) None 1 (printed_int q)),
      InputEl ''reset'' (plain_input (SelectBox (map reset_period_text RESET_PERIODS)) False (reset_period_text (ev_reset v))),
      ButtonEl ''remove''])"

definition builder_elements :: "gym_class list option \<Rightarrow> ent_input list \<Rightarrow> control list" where
  "builder_elements classes rows =
     (if rows = [] then [NoteEl ''every_class'' []] else concat (map (row_elements classes) rows)) @ [ButtonEl ''add'']"

definition plan_form_view :: "gym_class list option \<Rightarrow> hebrew option \<Rightarrow> bool \<Rightarrow> plan_form \<Rightarrow> form_view" where
  "plan_form_view classes error submitting f = plain_form
     ([InputEl ''name'' ((plain_input TextBox True (pn_name f))\<lparr>in_maxLength := Some 100\<rparr>),
       InputEl ''currency'' (plain_input (SelectBox [''ILS'', ''USD'', ''EUR'']) False (pn_currency f)),
       InputEl ''description'' (plain_input TextArea False (pn_description f)),
       InputEl ''type'' (plain_input (SelectBox (map plan_type_text [PT_recurring, PT_one_time])) False (plan_type_text (pn_type f))),
       NoteEl ''price_in'' [pn_currency f],
       NumberEl ''price'' True (Some 0) None (1/100) (pn_priceShekels f)]
      @ (if pn_type f = PT_recurring
         then [InputEl ''billing_period''
                 (plain_input (SelectBox (map billing_period_text [BP_monthly, BP_quarterly, BP_yearly])) False
                   (billing_period_text (pn_billing_period f)))]
         else [NumberEl ''duration_days'' True (Some 1) None 1 (printed_int (pn_duration_days f))])
      @ builder_elements classes (pn_entitlements f)) error submitting"

section \<open>The calendar and the assignment of coaches\<close>

definition weekdaysPicker :: "string list \<Rightarrow> control list" where
  [view_defs]: "weekdaysPicker value =
     [ChoiceEl ''days'' (map (\<lambda>d. (d, d \<in> set value)) WEEKDAYS),
      if value = [] then NoteEl ''every_day'' [] else NoteEl ''days_chosen'' [string_of_int (int (length value))]]"

definition class_pick :: "gym_class option \<Rightarrow> control" where
  [view_defs]: "class_pick c = PickEl ''class'' (map_option gc_name c)"

definition coach_label :: "coach \<Rightarrow> string" where
  "coach_label c = co_first_name c @ '' '' @ co_last_name c"

definition coach_pick :: "string \<Rightarrow> coach option \<Rightarrow> control" where
  [view_defs]: "coach_pick k c = PickEl k (map_option coach_label c)"

definition pay_model_input :: "pay_model \<Rightarrow> input" where
  [view_defs]: "pay_model_input m = plain_input (SelectBox [''fixed'', ''per_session'', ''per_attendance'']) False (pay_model_text m)"

definition pay_amount :: "pay_model \<Rightarrow> rat \<Rightarrow> control" where
  [view_defs]: "pay_amount m amount = NumberEl (if m = PY_fixed then ''per_month'' else ''per_unit'') False (Some 0) None 1 (Printed amount)"

definition schedule_form :: "control list \<Rightarrow> mutation_state \<Rightarrow> bool \<Rightarrow> form_view" where
  [view_defs]: "schedule_form body m disabled =
     \<lparr>fm_body = body, fm_error = map_option humanizeScheduleError (mutation_error m), fm_busy = isPending m,
      fm_enabled = (\<not> disabled)\<rparr>"

definition adhoc_view :: "mutation_state \<Rightarrow> adhoc_form \<Rightarrow> form_view" where
  "adhoc_view m f = schedule_form
     [class_pick (ah_cls f), DayEl ''date'' True None None (Some (ah_date f)), ClockEl ''start'' (ah_start f),
      ClockEl ''end'' (ah_end f), coach_pick ''head'' (ah_coach f),
      InputEl ''notes'' (plain_input TextArea False (ah_notes f))] m (adhoc_disabled f m)"

definition template_view :: "template_form \<Rightarrow> form_view" where
  "template_view f = schedule_form
     ([class_pick (te_cls f)] @ weekdaysPicker (te_weekdays f)
      @ [NoteEl ''at_least_one_day'' [], InputEl ''start'' (plain_input TimeBox True (te_start f)),
         InputEl ''end'' (plain_input TimeBox True (te_end f)), coach_pick ''head'' (te_head f),
         coach_pick ''assistant'' (te_assistant f)]) (te_mutation f) (template_disabled f)"

definition bulk_view :: "class_coach list option \<Rightarrow> mutation_state \<Rightarrow> bulk_form \<Rightarrow> form_view" where
  "bulk_view links m f = schedule_form
     ([class_pick (bf_cls f), InputEl ''from'' (plain_input DateBox True (bf_from f)),
       InputEl ''to'' (plain_input DateBox True (bf_to f)),
       InputEl ''action'' (plain_input (SelectBox [''cancel'', ''swap_coach'']) False (bulk_action_text (bf_action f)))]
      @ (if bf_action f = BK_swap_coach then [coach_pick ''coach'' (bf_coach f)] else [])
      @ (if needsSubPay links f
         then [NoteEl ''no_rate'' [], InputEl ''pay_model'' (pay_model_input (bf_subPayModel f)),
               pay_amount (bf_subPayModel f) (bf_subPayAmount f)] else [])
      @ (if bf_action f = BK_cancel then [InputEl ''reason'' (plain_input TextBox False (bf_reason f))] else []))
     m (bulk_disabled m f)"

definition assign_view :: "assign_form \<Rightarrow> form_view" where
  "assign_view f =
     \<lparr>fm_body = [coach_pick ''coach'' (as_coach f), InputEl ''role'' (plain_input TextBox False (as_role f)),
          InputEl ''pay_model'' (pay_model_input (as_payModel f)), pay_amount (as_payModel f) (as_amount f)]
        @ weekdaysPicker (as_weekdays f) @ [TickEl ''primary'' (as_isPrimary f)],
      fm_error = map_option humanizeCoachError (mutation_error (as_mutation f)), fm_busy = isPending (as_mutation f),
      fm_enabled = (\<not> assign_disabled f)\<rparr>"

text \<open>The inputs on the page are the ones whose bounds \<^verbatim>\<open>FormInputs\<close> compares with the server's.\<close>

definition inputs_of :: "form_view \<Rightarrow> input list" where
  "inputs_of v = concat (map (\<lambda>e. case e of InputEl k i \<Rightarrow> [i] | _ \<Rightarrow> []) (fm_body v))"

lemma sub_inputs:
  "inputs_of (enroll_view False plans m f) = enroll_inputs plans f"
  "inputs_of (freeze_view m frozenUntil) = freeze_inputs frozenUntil"
  "inputs_of (renew_view expires current m r) = renew_inputs current r"
  "candidatePlans plans i \<noteq> [] \<Longrightarrow> inputs_of (change_view False plans i m (p, e)) = change_inputs plans i p e"
  "inputs_of (cancel_view m (why, detail)) = cancel_inputs why detail"
  by (simp_all add: inputs_of_def enroll_view_def freeze_view_def renew_view_def change_view_def cancel_view_def sub_form_def
      plain_form_def enroll_inputs_def freeze_inputs_def renew_inputs_def change_inputs_def cancel_inputs_def)

lemma entity_inputs:
  "inputs_of (member_form_view error submitting mf) = member_inputs mf"
  "inputs_of (coach_form_view error submitting cf) = coach_inputs cf"
  "inputs_of (class_form_view error submitting gf) = class_inputs gf"
  "inputs_of (lead_form_view error submitting lf) = lead_inputs lf"
  "inputs_of (convert_view l False plans cd) = convert_inputs plans cd"
  "inputs_of (tenant_form_view error submitting upload tf) = tenant_inputs tf"
  "inputs_of (create_user_view m uf) = create_user_inputs uf"
  "inputs_of (edit_user_view m eu) = edit_user_inputs eu"
  "inputs_of (login_view lp) = login_inputs lp"
  "inputs_of (invite_view cp) = invite_inputs cp"
  by (simp_all add: inputs_of_def labelled_def plain_form_def member_form_view_def member_inputs_def coach_form_view_def
      coach_inputs_def class_form_view_def colorPicker_def class_inputs_def lead_form_view_def lead_inputs_def
      convert_view_def convert_inputs_def tenant_form_view_def tenant_inputs_def create_user_view_def
      create_user_inputs_def edit_user_view_def edit_user_inputs_def login_view_def login_inputs_def invite_view_def
      invite_inputs_def split: option.split) auto

lemma dialog_inputs:
  "inputs_of (record_view today a failed rd) = record_text_inputs rd"
  "inputs_of (refund_view data p currency failed rf) = refund_text_inputs rf"
  "inputs_of (override_view kind className busy reason) = override_inputs reason"
  "inputs_of (activity_view af) = activity_inputs af"
  "inputs_of (adhoc_view m ah) = adhoc_text_inputs ah"
  "inputs_of (template_view te) = template_text_inputs te"
  "inputs_of (bulk_view links m bf) = bulk_text_inputs links bf"
  "inputs_of (assign_view fm) = assign_text_inputs fm"
  by (simp_all add: inputs_of_def record_view_def record_text_inputs_def refund_view_def refund_text_inputs_def
      override_view_def plain_form_def override_inputs_def activity_view_def activity_inputs_def schedule_form_def
      adhoc_view_def adhoc_text_inputs_def template_view_def template_text_inputs_def weekdaysPicker_def class_pick_def
      coach_pick_def bulk_view_def bulk_text_inputs_def pay_model_input_def pay_amount_def assign_view_def
      assign_text_inputs_def split: option.split prod.split)

section \<open>No click is ignored\<close>

lemma fl_close: "0 < x \<Longrightarrow> x * (3/4) \<le> fl x"
proof -
  assume x: "0 < x"
  have "\<bar>fl x - x\<bar> \<le> x / 2 ^ 53" using fl_error [of x] x by simp
  also have "\<dots> \<le> x * (1/4)" using x by (simp add: field_simps)
  finally show ?thesis by linarith
qed

lemma fl_pos_iff [simp]: "0 < fl x \<longleftrightarrow> 0 < x"
proof
  assume "0 < fl x"
  show "0 < x"
  proof (rule ccontr)
    assume "\<not> 0 < x"
    then have "\<bar>x\<bar> / 2 ^ 53 \<le> - x" by (simp add: field_simps)
    with fl_error [of x] have "fl x \<le> 0" by linarith
    with \<open>0 < fl x\<close> show False by simp
  qed
next
  assume "0 < x"
  with fl_close [OF this] show "0 < fl x" by linarith
qed

text \<open>A positive amount of whole agorot, however large, is sent as a positive number of agorot.\<close>

lemma agorot_positive:
  assumes "0 < k" shows "0 < agorot (fl (of_int k / 100))"
proof -
  let ?x = "of_int k / 100 :: rat"
  have k: "(1 :: rat) \<le> of_int k" using assms by simp
  then have x: "0 < ?x" by simp
  have "?x * (3/4) \<le> fl ?x" by (rule fl_close [OF x])
  then have y: "of_int k * (3/4) \<le> fl ?x * 100" by simp
  moreover have "0 < fl ?x * 100" using x by simp
  ultimately have "of_int k * (3/4) * (3/4) \<le> fl (fl ?x * 100)"
    using fl_close [of "fl ?x * 100"] mult_right_mono [OF y, of "3/4"] by simp
  with k have "1/2 \<le> fl (fl ?x * 100)" by linarith
  then show ?thesis unfolding agorot_def js_mul_def js_round_def by linarith
qed

lemma amount_sent:
  assumes "number_valid True lo hi (1/100) t" "0 < js_Number t"
  shows "0 < text_agorot t"
proof -
  have "\<exists>k. js_Number t = fl (of_int k / 100)"
  proof (cases t)
    case (Typed v)
    with assms(1) have "of_int \<lfloor>v / (1/100)\<rfloor> * (1/100) = v" by (simp add: number_valid_def on_step_def)
    then have "v = of_int \<lfloor>v / (1/100)\<rfloor> / 100" by (metis mult.right_neutral times_divide_eq_right)
    then have "fl v = fl (of_int \<lfloor>v / (1/100)\<rfloor> / 100)" by (rule arg_cong)
    with Typed show ?thesis by (auto simp: js_Number_def)
  next
    case (Printed x)
    with assms(1) have "fl (of_int (js_round (x / (1/100))) * (1/100)) = x" by (simp add: number_valid_def on_step_def)
    then have "x = fl (of_int (js_round (x / (1/100))) / 100)" by simp
    with Printed show ?thesis unfolding js_Number_def by auto
  qed (use assms in \<open>simp add: js_Number_def\<close>)
  then obtain k where k: "js_Number t = fl (of_int k / 100)" by blast
  with assms(2) have "0 < k" by simp
  then show ?thesis by (simp add: text_agorot_def k agorot_positive)
qed

lemma record_answered: "\<not> ignored url (record_view today a failed d) (record_handleSubmit memberId today a d)"
  using amount_sent [of "Some 0" None "rd_amount d"]
  by (auto simp: ignored_def submittable_def record_view_def record_submit_disabled_def record_handleSubmit_def Let_def
      split: if_splits)

lemma refund_answered: "\<not> ignored url (refund_view data p currency failed d) (refund_handleSubmit data p d)"
  using amount_sent [of "Some 0" "Some (shekels (remaining data p))" "rf_amount d"]
  by (auto simp: ignored_def submittable_def refund_view_def refund_submit_disabled_def overflow_def refund_handleSubmit_def
      Let_def split: if_splits prod.splits)

lemma calendar_answered:
  "\<not> ignored url (template_view te) (template_handleSubmit te)"
  "\<not> ignored url (adhoc_view m ah) (adhoc_handleSubmit utc_of ah)"
  "\<not> ignored url (bulk_view links m bf) (bulk_handleSubmit links bf)"
  "\<not> ignored url (assign_view fm) (assign_handleSubmit fm)"
  by (auto simp: ignored_def submittable_def template_view_def template_disabled_def template_handleSubmit_def
      adhoc_view_def adhoc_disabled_def adhoc_handleSubmit_def bulk_view_def bulk_disabled_def bulk_handleSubmit_def
      assign_view_def assign_disabled_def assign_handleSubmit_def schedule_form_def split: option.splits)

definition sent_request :: "'a list \<Rightarrow> 'a option" where
  "sent_request xs = (case xs of [] \<Rightarrow> None | x # _ \<Rightarrow> Some x)"

lemma lead_answered:
  "\<not> ignored url (convert_view l loading plans d) (sent_request (snd (convert_handleSubmit l d)))"
  "\<not> ignored url (activity_view f) (sent_request (snd (activity_handleSubmit leadId f)))"
  by (auto simp: ignored_def submittable_def convert_view_def convert_disabled_def convert_handleSubmit_def
      activity_view_def activity_disabled_def activity_handleSubmit_def sent_request_def)

lemma input_required: "input_valid url (plain_input k True v) \<Longrightarrow> v \<noteq> []"
  by (simp add: input_valid_def plain_input_def)

lemma enroll_ignored:
  "ignored url (enroll_view loading plans m f) (dialog_request memberId current (EnrollDialog f))
     \<longleftrightarrow> submittable url (enroll_view loading plans m f) \<and> loading \<and> en_planId f = []"
  by (cases loading)
    (auto simp: ignored_def submittable_def enroll_view_def sub_form_def plain_form_def dest: input_required)

lemma change_ignored:
  "ignored url (change_view loading plans (s_plan_id s) m (p, e)) (dialog_request memberId (Some s) (ChangePlanDialog p e))
     \<longleftrightarrow> submittable url (change_view loading plans (s_plan_id s) m (p, e))
       \<and> (loading \<or> candidatePlans plans (s_plan_id s) = []) \<and> p = []"
  by (cases loading; cases "candidatePlans plans (s_plan_id s) = []")
    (auto simp: ignored_def submittable_def change_view_def sub_form_def plain_form_def dest: input_required)

section \<open>The page says what is sent\<close>

text \<open>States of \<open>A\<close> with the same page have the same request.\<close>

definition determined_on :: "'s set \<Rightarrow> ('s \<Rightarrow> 'v) \<Rightarrow> ('s \<Rightarrow> 'r) \<Rightarrow> bool" where
  "determined_on A view sent \<longleftrightarrow> (\<forall>f \<in> A. \<forall>g \<in> A. view f = view g \<longrightarrow> sent f = sent g)"

lemma determinedI: "(\<And>f g. f \<in> A \<Longrightarrow> g \<in> A \<Longrightarrow> view f = view g \<Longrightarrow> sent f = sent g) \<Longrightarrow> determined_on A view sent"
  unfolding determined_on_def by blast

lemma plain_input_eq [simp]:
  "plain_input k r v = plain_input k' r' v' \<longleftrightarrow> k = k' \<and> r = r' \<and> v = v'"
  "(plain_input k r v)\<lparr>in_maxLength := n\<rparr> = (plain_input k' r' v')\<lparr>in_maxLength := n'\<rparr> \<longleftrightarrow> k = k' \<and> r = r' \<and> n = n' \<and> v = v'"
  "(plain_input k r v)\<lparr>in_minLength := n\<rparr> = (plain_input k' r' v')\<lparr>in_minLength := n'\<rparr> \<longleftrightarrow> k = k' \<and> r = r' \<and> n = n' \<and> v = v'"
  by (simp_all add: plain_input_def)

lemma method_text_eq [simp]: "payment_method_text m = payment_method_text m' \<longleftrightarrow> m = m'"
  by (cases m; cases m') simp_all

lemma role_text_eq [simp]: "role_text r = role_text r' \<longleftrightarrow> r = r'"
  by (cases r; cases r') simp_all

lemma source_text_eq [simp]: "lead_source_text l = lead_source_text l' \<longleftrightarrow> l = l'"
  by (cases l; cases l') simp_all

lemma plan_type_text_eq [simp]: "plan_type_text t = plan_type_text t' \<longleftrightarrow> t = t'"
  by (cases t; cases t') simp_all

lemma billing_text_eq [simp]: "billing_period_text b = billing_period_text b' \<longleftrightarrow> b = b'"
  by (cases b; cases b') simp_all

lemma reset_text_eq [simp]: "reset_period_text x = reset_period_text x' \<longleftrightarrow> x = x'"
  by (cases x; cases x') simp_all

lemma pay_model_text_eq [simp]: "pay_model_text y = pay_model_text y' \<longleftrightarrow> y = y'"
  by (cases y; cases y') simp_all

lemma action_text_eq [simp]: "bulk_action_text z = bulk_action_text z' \<longleftrightarrow> z = z'"
  by (cases z; cases z') simp_all

lemma method_text_ne [simp]: "payment_method_text m \<noteq> []" "[] \<noteq> payment_method_text m"
  by (cases m; simp)+

lemma sub_form_eq [simp]: "sub_form b m = sub_form b' m \<longleftrightarrow> b = b'"
  by (simp add: sub_form_def plain_form_def)

lemma plain_form_eq [simp]: "plain_form b e w = plain_form b' e w \<longleftrightarrow> b = b'"
  by (simp add: plain_form_def)

text \<open>The subscription dialogs: a plan that is not shown has not been picked, and the detail of the payment is
  hidden for cash and standing orders.\<close>

lemma enroll_determined:
  "determined_on {f. (en_planId f = [] \<or> \<not> loading) \<and> (detail_field_shown f \<or> en_paymentDetail f = [])}
     (enroll_view loading plans m) (enroll_body memberId)"
proof (rule determinedI)
  fix f g
  assume A: "f \<in> {f. (en_planId f = [] \<or> \<not> loading) \<and> (detail_field_shown f \<or> en_paymentDetail f = [])}"
    "g \<in> {f. (en_planId f = [] \<or> \<not> loading) \<and> (detail_field_shown f \<or> en_paymentDetail f = [])}"
    and same: "enroll_view loading plans m f = enroll_view loading plans m g"
  from same have "en_paymentMethod f = en_paymentMethod g"
    by (auto simp: enroll_view_def split: if_splits)
  with same A show "enroll_body memberId f = enroll_body memberId g"
    by (cases "en_paymentMethod g"; cases loading)
      (auto simp: enroll_view_def enroll_body_def detail_field_shown_def)
qed

lemma freeze_determined: "determined_on UNIV (freeze_view m) freeze_body"
  by (auto intro!: determinedI simp: freeze_view_def)

lemma renew_determined: "determined_on UNIV (renew_view expires current m) (renew_body current)"
proof (rule determinedI)
  fix f g assume same: "renew_view expires current m f = renew_view expires current m g"
  then have e: "rn_newExpiresAt f = rn_newExpiresAt g" and k: "rn_newPaymentMethod f = rn_newPaymentMethod g"
    by (auto simp: renew_view_def split: option.splits)
  then have c: "methodChanged current f \<longleftrightarrow> methodChanged current g" by (simp add: methodChanged_def)
  with same have "methodChanged current f \<Longrightarrow> rn_newPaymentDetail f = rn_newPaymentDetail g"
    by (simp add: renew_view_def)
  with e k c show "renew_body current f = renew_body current g" by (simp add: renew_body_def)
qed

lemma change_determined:
  "determined_on {f. fst f = [] \<or> \<not> loading \<and> candidatePlans plans currentPlanId \<noteq> []}
     (change_view loading plans currentPlanId m) (\<lambda>(p, e). change_body p e)"
  by (auto intro!: determinedI simp: change_view_def split: if_splits prod.splits)

lemma cancel_determined: "determined_on UNIV (cancel_view m) (\<lambda>(r, d). cancel_body r d)"
  by (auto intro!: determinedI simp: cancel_view_def)

text \<open>The forms whose inputs hold everything they send.\<close>

lemma plain_forms_determined:
  "determined_on UNIV (coach_form_view error submitting) coach_handleSubmit"
  "determined_on UNIV (class_form_view error submitting) class_handleSubmit"
  "determined_on UNIV (lead_form_view error submitting) lead_values"
  "determined_on UNIV (create_user_view m) (create_user_handleSubmit tenantId)"
  "determined_on UNIV (edit_user_view m) (edit_user_handleSubmit u)"
  "determined_on UNIV login_view login_body"
  "determined_on UNIV invite_view (\<lambda>p. invite_json (cp_email p) (cp_password p))"
  by (auto intro!: determinedI simp: coach_form_view_def coach_inputs_def coach_handleSubmit_def labelled_def
      class_form_view_def class_handleSubmit_def colorPicker_def lead_form_view_def lead_inputs_def lead_values_def
      create_user_view_def create_user_inputs_def create_user_handleSubmit_def edit_user_view_def edit_user_inputs_def
      edit_user_handleSubmit_def edit_user_patch_def login_view_def login_inputs_def login_body_def plain_form_def
      invite_view_def invite_inputs_def split: if_splits)

lemma activity_type_text_eq [simp]: "lead_activity_type_text t = lead_activity_type_text u \<longleftrightarrow> t = u"
  by (cases t; cases u) simp_all

lemma dialogs_determined:
  "determined_on UNIV (convert_view l loading plans) convert_body"
  "determined_on UNIV (lost_view busy suggestions) (\<lambda>d. trim (lg_reason d))"
  "determined_on UNIV (override_view kind className busy) override_submit"
  by (auto intro!: determinedI simp: convert_view_def convert_body_def lost_view_def override_view_def plain_form_def
      split: if_splits)

lemma record_determined:
  "determined_on UNIV (record_view today activeSub failed) (record_handleSubmit memberId today activeSub)"
proof (rule determinedI)
  fix f g assume same: "record_view today activeSub failed f = record_view today activeSub failed g"
  then have "rd_amount f = rd_amount g" "rd_method f = rd_method g" "rd_paidAt f = rd_paidAt g" "rd_notes f = rd_notes g"
    "activeSub \<noteq> None \<Longrightarrow> rd_linkSub f = rd_linkSub g"
    by (auto simp: record_view_def split: option.splits)
  then show "record_handleSubmit memberId today activeSub f = record_handleSubmit memberId today activeSub g"
    by (cases activeSub) (simp_all add: record_handleSubmit_def isBackdated_def Let_def)
qed

lemma refund_determined: "determined_on UNIV (refund_view data p currency failed) (refund_handleSubmit data p)"
proof (rule determinedI)
  fix f g assume "refund_view data p currency failed f = refund_view data p currency failed g"
  then have "rf_amount f = rf_amount g" "rf_reason f = rf_reason g"
    by (auto simp: refund_view_def split: prod.splits if_splits)
  then show "refund_handleSubmit data p f = refund_handleSubmit data p g" by (simp add: refund_handleSubmit_def Let_def)
qed

lemma activity_determined:
  "determined_on {f. af_type f \<in> set activity_types} activity_view (\<lambda>f. activity_body (af_type f) (trim (af_note f)))"
  by (auto intro!: determinedI simp: activity_view_def activity_types_def)

text \<open>A gym's form does not show the key of the logo nor the locale, a member's not the custom fields; and an
  optional text of a member that is empty looks like one that is null.\<close>

lemma tenant_determined:
  "determined_on {f. tf_logo_url f = logo \<and> tf_locale f = locale} (tenant_form_view error submitting upload) tenant_handleSubmit"
  by (auto intro!: determinedI simp: tenant_form_view_def tenant_inputs_def labelled_def tenant_handleSubmit_def
      split: option.splits)

definition no_empty_text :: "member_form \<Rightarrow> bool" where
  "no_empty_text f \<longleftrightarrow> Some [] \<notin> {mm_email f, mm_date_of_birth f, mm_gender f, mm_join_date f, mm_notes f}"

lemma nullish_nonempty: "x \<noteq> Some [] \<Longrightarrow> y \<noteq> Some [] \<Longrightarrow> nullish x [] = nullish y [] \<longleftrightarrow> x = y"
  by (cases x; cases y) (auto simp: nullish_def)

lemma member_determined:
  "determined_on {f. mm_custom_fields f = attrs \<and> no_empty_text f} (member_form_view error submitting) member_handleSubmit"
  by (intro determinedI) (auto simp: member_form_view_def member_inputs_def labelled_def member_handleSubmit_def
      no_empty_text_def nullish_nonempty intro: member_form.equality)

lemma member_null_unseen:
  "member_form_view error submitting (member_setField MI_email [] (member_form_init None))
     = member_form_view error submitting (member_form_init None)
   \<and> member_handleSubmit (member_setField MI_email [] (member_form_init None)) \<noteq> member_handleSubmit (member_form_init None)"
  by (simp add: member_form_view_def member_inputs_def member_form_init_def member_handleSubmit_def nullish_def or_null_def)

text \<open>The pickers show labels, so the labels have to tell the items apart; the weekday strip shows which days are
  pressed, not in which order.\<close>

lemma picked_eq:
  assumes "inj_on label A" "set_option x \<subseteq> A" "set_option y \<subseteq> A"
  shows "map_option label x = map_option label y \<longleftrightarrow> x = y"
  using assms by (cases x; cases y) (auto dest: inj_onD)

lemma adhoc_determined:
  assumes "inj_on gc_name (set classes)" "inj_on coach_label (set coaches)"
  shows "determined_on {f. set_option (ah_cls f) \<subseteq> set classes \<and> set_option (ah_coach f) \<subseteq> set coaches}
    (adhoc_view m) (adhoc_handleSubmit utc_of)"
  by (intro determinedI) (simp add: adhoc_view_def schedule_form_def class_pick_def coach_pick_def adhoc_handleSubmit_def
      picked_eq [OF assms(1)] picked_eq [OF assms(2)] split: option.split)

lemma pressed_eq:
  assumes "set v \<subseteq> set WEEKDAYS" "set w \<subseteq> set WEEKDAYS"
    and "map (\<lambda>d. (d, d \<in> set v)) WEEKDAYS = map (\<lambda>d. (d, d \<in> set w)) WEEKDAYS"
  shows "set v = set w"
  using assms by (auto simp: subset_eq)

lemma template_determined:
  assumes "inj_on gc_name (set classes)" "inj_on coach_label (set coaches)"
  shows "determined_on {f. template_inv classes coaches f} template_view
    (\<lambda>f. map_option (\<lambda>b. (b\<lparr>tb_weekdays := []\<rparr>, set (tb_weekdays b))) (template_handleSubmit f))"
proof (rule determinedI)
  fix f g assume "f \<in> {f. template_inv classes coaches f}" "g \<in> {f. template_inv classes coaches f}"
    and same: "template_view f = template_view g"
  then have inv: "template_inv classes coaches f" "template_inv classes coaches g" by simp_all
  from inv same have "te_cls f = te_cls g" "te_head f = te_head g" "te_assistant f = te_assistant g"
    by (simp_all add: template_view_def schedule_form_def weekdaysPicker_def class_pick_def coach_pick_def template_inv_def
        picked_eq [OF assms(1)] picked_eq [OF assms(2)])
  moreover from same have "te_start f = te_start g" "te_end f = te_end g"
    by (simp_all add: template_view_def schedule_form_def weekdaysPicker_def)
  moreover have "set (te_weekdays f) = set (te_weekdays g)"
    by (rule pressed_eq) (use inv same in \<open>simp_all add: template_view_def schedule_form_def weekdaysPicker_def
      template_inv_def valid_weekdays_distinct\<close>)
  then have "set (te_weekdays f) = set (te_weekdays g)" "te_weekdays f = [] \<longleftrightarrow> te_weekdays g = []"
    by (simp_all flip: set_empty)
  ultimately show "map_option (\<lambda>b. (b\<lparr>tb_weekdays := []\<rparr>, set (tb_weekdays b))) (template_handleSubmit f)
      = map_option (\<lambda>b. (b\<lparr>tb_weekdays := []\<rparr>, set (tb_weekdays b))) (template_handleSubmit g)"
    by (simp add: template_handleSubmit_def split: option.split)
qed

text \<open>The range dialog keeps the reason when the action is changed, and then hides it.\<close>

definition bulk_picked :: "gym_class list \<Rightarrow> coach list \<Rightarrow> bulk_form \<Rightarrow> bool" where
  "bulk_picked classes coaches f \<longleftrightarrow> set_option (bf_cls f) \<subseteq> set classes \<and> set_option (bf_coach f) \<subseteq> set coaches
     \<and> (bf_action f = BK_swap_coach \<longrightarrow> bf_reason f = [])"

lemma bulk_determined:
  assumes "inj_on gc_name (set classes)" "inj_on coach_label (set coaches)"
  shows "determined_on {f. bulk_picked classes coaches f} (bulk_view links m) (bulk_handleSubmit links)"
proof (rule determinedI)
  fix f g assume "f \<in> {f. bulk_picked classes coaches f}" "g \<in> {f. bulk_picked classes coaches f}"
    and same: "bulk_view links m f = bulk_view links m g"
  then have picked: "bulk_picked classes coaches f" "bulk_picked classes coaches g" by simp_all
  from same have a: "bf_action f = bf_action g" "bf_from f = bf_from g" "bf_to f = bf_to g"
    by (simp_all add: bulk_view_def schedule_form_def)
  from same picked have c: "bf_cls f = bf_cls g"
    by (simp add: bulk_view_def schedule_form_def class_pick_def bulk_picked_def picked_eq [OF assms(1)])
  show "bulk_handleSubmit links f = bulk_handleSubmit links g"
  proof (cases "bf_action g")
    case BK_cancel
    with a have "\<not> needsSubPay links f" "\<not> needsSubPay links g" by (simp_all add: needsSubPay_def)
    with same a c BK_cancel show ?thesis by (simp add: bulk_view_def schedule_form_def bulk_handleSubmit_def split: option.split)
  next
    case BK_swap_coach
    with same a picked have h: "bf_coach f = bf_coach g"
      by (simp add: bulk_view_def schedule_form_def coach_pick_def bulk_picked_def picked_eq [OF assms(2)])
    with a c have n: "needsSubPay links f \<longleftrightarrow> needsSubPay links g" unfolding needsSubPay_def subHasRateForRange_def by (simp only: a c h)
    with same BK_swap_coach a h have "needsSubPay links g \<Longrightarrow> bf_subPayModel f = bf_subPayModel g \<and> bf_subPayAmount f = bf_subPayAmount g"
      by (simp add: bulk_view_def schedule_form_def pay_model_input_def pay_amount_def)
    with n a c h BK_swap_coach picked show ?thesis
      by (cases "bf_cls g"; cases "bf_coach g"; cases "needsSubPay links g") (simp_all add: bulk_handleSubmit_def bulk_picked_def)
  qed
qed

lemma assign_determined:
  assumes "inj_on coach_label (set coaches)"
  shows "determined_on {f. assign_inv coaches f} assign_view
    (\<lambda>f. map_option (\<lambda>b. (b\<lparr>ab_weekdays := []\<rparr>, set (ab_weekdays b))) (assign_handleSubmit f))"
proof (rule determinedI)
  fix f g assume "f \<in> {f. assign_inv coaches f}" "g \<in> {f. assign_inv coaches f}" and same: "assign_view f = assign_view g"
  then have inv: "assign_inv coaches f" "assign_inv coaches g" by simp_all
  have opt: "set_option (as_coach f) \<subseteq> set coaches" "set_option (as_coach g) \<subseteq> set coaches"
    using inv by (auto simp: assign_inv_def split: option.splits)
  from same have "as_coach f = as_coach g" "as_role f = as_role g" "as_isPrimary f = as_isPrimary g"
    "as_payModel f = as_payModel g" "as_amount f = as_amount g"
    by (simp_all add: assign_view_def weekdaysPicker_def coach_pick_def picked_eq [OF assms opt] pay_model_input_def pay_amount_def)
  moreover have "set (as_weekdays f) = set (as_weekdays g)"
    by (rule pressed_eq) (use inv same in \<open>simp_all add: assign_view_def weekdaysPicker_def assign_inv_def valid_weekdays_distinct\<close>)
  ultimately show "map_option (\<lambda>b. (b\<lparr>ab_weekdays := []\<rparr>, set (ab_weekdays b))) (assign_handleSubmit f)
      = map_option (\<lambda>b. (b\<lparr>ab_weekdays := []\<rparr>, set (ab_weekdays b))) (assign_handleSubmit g)"
    by (simp add: assign_handleSubmit_def split: option.split)
qed

text \<open>A plan form that came about by editing, whose rows name a class or none. The rows are read off their elements.\<close>

lemma row_elements_inj:
  assumes "row_elements classes r = row_elements classes q"
    "row_shape r" "row_shape q" "ei_class_id r \<noteq> Some []" "ei_class_id q \<noteq> Some []"
  shows "r = q"
proof -
  have "ei_reset_period r = ei_reset_period q" "ei_class_id r = ei_class_id q"
    using assms by (auto simp: row_elements_def entitlementRow_def Let_def nullish_nonempty)
  moreover from this have "ei_quantity r = ei_quantity q"
    using assms by (auto simp: row_elements_def entitlementRow_def Let_def row_shape_def printed_int_def split: if_splits option.splits)
  ultimately show ?thesis by simp
qed

lemma length_row_elements: "length (row_elements classes r) = 5"
  by (simp add: row_elements_def Let_def)

lemma builder_inj:
  assumes "builder_elements classes rs = builder_elements classes qs" "list_all row_shape rs" "list_all row_shape qs"
    and "Some [] \<notin> ei_class_id ` set rs" "Some [] \<notin> ei_class_id ` set qs"
  shows "rs = qs"
proof -
  let ?e = "map (row_elements classes)"
  have len: "length (concat (?e xs)) = 5 * length xs" for xs
    by (induction xs) (simp_all add: length_row_elements)
  have five: "[NoteEl k ks] \<noteq> concat (?e xs)" "concat (?e xs) \<noteq> [NoteEl k ks]" for k ks xs
  proof -
    have "length [NoteEl k ks] \<noteq> length (concat (?e xs))" unfolding len by simp
    then show "[NoteEl k ks] \<noteq> concat (?e xs)" "concat (?e xs) \<noteq> [NoteEl k ks]" by metis+
  qed
  have "length rs = length qs \<and> concat (?e rs) = concat (?e qs)"
    using assms(1) arg_cong [where f = length, OF assms(1)] len [of rs] len [of qs]
    by (auto simp: builder_elements_def five split: if_splits)
  then have n: "length rs = length qs" and e: "concat (?e rs) = concat (?e qs)" by blast+
  have "?e rs = ?e qs"
    by (rule concat_injective [OF e]) (auto simp: n set_zip length_row_elements)
  then have "row_elements classes (rs ! i) = row_elements classes (qs ! i)" if "i < length rs" for i
    using that n by (metis nth_map)
  moreover have "row_shape (rs ! i) \<and> row_shape (qs ! i) \<and> ei_class_id (rs ! i) \<noteq> Some [] \<and> ei_class_id (qs ! i) \<noteq> Some []"
    if "i < length rs" for i
  proof -
    have "rs ! i \<in> set rs" "qs ! i \<in> set qs" using that n by simp_all
    then show ?thesis using assms(2-5) by (metis image_eqI list_all_iff)
  qed
  ultimately have "rs ! i = qs ! i" if "i < length rs" for i
    using that by (blast intro: row_elements_inj)
  with n show ?thesis by (rule nth_equalityI)
qed

lemma plan_determined:
  "determined_on {f. plan_shape f \<and> pn_custom_attrs f = attrs \<and> Some [] \<notin> ei_class_id ` set (pn_entitlements f)}
     (plan_form_view classes error submitting) plan_handleSubmit"
proof (rule determinedI)
  fix f g
  assume "f \<in> {f. plan_shape f \<and> pn_custom_attrs f = attrs \<and> Some [] \<notin> ei_class_id ` set (pn_entitlements f)}"
    "g \<in> {f. plan_shape f \<and> pn_custom_attrs f = attrs \<and> Some [] \<notin> ei_class_id ` set (pn_entitlements f)}"
    and same: "plan_form_view classes error submitting f = plan_form_view classes error submitting g"
  then have shape: "plan_shape f" "plan_shape g" and attrs: "pn_custom_attrs f = pn_custom_attrs g"
    and named: "Some [] \<notin> ei_class_id ` set (pn_entitlements f)" "Some [] \<notin> ei_class_id ` set (pn_entitlements g)"
    by simp_all
  from same have top: "pn_name f = pn_name g" "pn_currency f = pn_currency g" "pn_description f = pn_description g"
    "pn_type f = pn_type g" "pn_priceShekels f = pn_priceShekels g"
    by (auto simp: plan_form_view_def)
  from same top have billing: "pn_type g = PT_recurring \<Longrightarrow> pn_billing_period f = pn_billing_period g"
    and days: "pn_type g = PT_one_time \<Longrightarrow> pn_duration_days f = pn_duration_days g"
    and rows: "builder_elements classes (pn_entitlements f) = builder_elements classes (pn_entitlements g)"
    by (auto simp: plan_form_view_def printed_int_def split: if_splits option.splits)
  have "pn_entitlements f = pn_entitlements g"
    by (rule builder_inj [OF rows]) (use shape named in \<open>auto simp: plan_shape_def split: if_splits\<close>)
  with top billing days shape attrs show "plan_handleSubmit f = plan_handleSubmit g"
    by (cases "pn_type g") (auto simp: plan_handleSubmit_def plan_shape_def)
qed

section \<open>What is sent unseen\<close>

lemma unseenI: "f \<in> A \<Longrightarrow> g \<in> A \<Longrightarrow> view f = view g \<Longrightarrow> sent f \<noteq> sent g \<Longrightarrow> \<not> determined_on A view sent"
  unfolding determined_on_def by blast

lemma not_ws_x: "\<not> is_ws (CHR ''x'')"
  by (simp add: is_ws_def)

lemma enroll_unseen: "\<not> determined_on UNIV (enroll_view loading plans m) (enroll_body memberId)"
proof (rule unseenI)
  let ?f = "\<lparr>en_planId = [], en_startedAt = [], en_expiresAt = [], en_paymentMethod = PM_cash, en_paymentDetail = []\<rparr>"
  show "enroll_view loading plans m ?f = enroll_view loading plans m (?f\<lparr>en_paymentDetail := ''x''\<rparr>)"
    by (simp add: enroll_view_def)
  show "enroll_body memberId ?f \<noteq> enroll_body memberId (?f\<lparr>en_paymentDetail := ''x''\<rparr>)"
    by (simp add: enroll_body_def trim_def not_ws_x or_null_def jopt_def)
qed simp_all

lemma member_unseen: "\<not> determined_on UNIV (member_form_view error submitting) member_handleSubmit"
  by (rule unseenI [OF UNIV_I UNIV_I conjunct1 [OF member_null_unseen] conjunct2 [OF member_null_unseen]])

lemma tenant_unseen: "\<not> determined_on UNIV (tenant_form_view error submitting upload) tenant_handleSubmit"
proof (rule unseenI)
  let ?f = "tenant_form_init None"
  show "tenant_form_view error submitting upload ?f = tenant_form_view error submitting upload (?f\<lparr>tf_locale := []\<rparr>)"
    by (simp add: tenant_form_view_def tenant_inputs_def)
  show "tenant_handleSubmit ?f \<noteq> tenant_handleSubmit (?f\<lparr>tf_locale := []\<rparr>)"
    by (simp add: tenant_handleSubmit_def tenant_form_init_def nullish_def)
qed simp_all

lemma plan_unseen: "\<not> determined_on UNIV (plan_form_view classes error submitting) plan_handleSubmit"
proof (rule unseenI)
  let ?f = "plan_form_init None"
  show "plan_form_view classes error submitting ?f
      = plan_form_view classes error submitting (?f\<lparr>pn_custom_attrs := [([], JNull)]\<rparr>)"
    by (simp add: plan_form_view_def)
  show "plan_handleSubmit ?f \<noteq> plan_handleSubmit (?f\<lparr>pn_custom_attrs := [([], JNull)]\<rparr>)"
    by (simp add: plan_handleSubmit_def plan_form_init_def)
qed simp_all

lemma bulk_unseen: "\<not> determined_on UNIV (bulk_view links m) (bulk_handleSubmit links)"
proof (rule unseenI)
  let ?f = "bulk_init\<lparr>bf_cls := Some sample_gym_class, bf_from := ''x'', bf_to := ''x'', bf_action := BK_swap_coach,
    bf_coach := Some sample_coach\<rparr>" and ?g = "\<lambda>f. f\<lparr>bf_reason := ''x''\<rparr>"
  have n: "needsSubPay links (?g f) = needsSubPay links f" for f
    by (simp add: needsSubPay_def subHasRateForRange_def cong: option.case_cong)
  show "bulk_view links m ?f = bulk_view links m (?g ?f)"
    unfolding bulk_view_def n by (simp add: bulk_disabled_def)
  show "bulk_handleSubmit links ?f \<noteq> bulk_handleSubmit links (?g ?f)"
    by (simp add: bulk_handleSubmit_def bulk_init_def or_null_def)
qed simp_all

text \<open>The dialog of a user closes without a request when it shows what it opened with.\<close>

lemma edit_user_untouched:
  "edit_user_handleSubmit u f = CloseOnly \<longleftrightarrow> edit_user_view m f = edit_user_view m (edit_user_init u)"
  by (auto simp: edit_user_handleSubmit_def patch_keys_def edit_user_patch_def changed_def edit_user_view_def labelled_def
      edit_user_inputs_def edit_user_init_def split: if_splits)

text \<open>Sunday, then Monday; or Monday, then Sunday.\<close>

lemma template_unseen: "\<not> determined_on UNIV template_view template_handleSubmit"
proof (rule unseenI)
  let ?f = "template_init\<lparr>te_cls := Some sample_gym_class, te_head := Some sample_coach, te_weekdays := [''sun'', ''mon'']\<rparr>"
  show "template_view ?f = template_view (?f\<lparr>te_weekdays := [''mon'', ''sun'']\<rparr>)"
    by (auto simp: template_view_def schedule_form_def weekdaysPicker_def template_disabled_def)
  show "template_handleSubmit ?f \<noteq> template_handleSubmit (?f\<lparr>te_weekdays := [''mon'', ''sun'']\<rparr>)"
    by (simp add: template_handleSubmit_def)
qed simp_all

lemma assign_unseen: "\<not> determined_on UNIV assign_view assign_handleSubmit"
proof (rule unseenI)
  let ?f = "assign_init\<lparr>as_coach := Some sample_coach, as_weekdays := [''sun'', ''mon'']\<rparr>"
  show "assign_view ?f = assign_view (?f\<lparr>as_weekdays := [''mon'', ''sun'']\<rparr>)"
    by (auto simp: assign_view_def weekdaysPicker_def assign_disabled_def)
  show "assign_handleSubmit ?f \<noteq> assign_handleSubmit (?f\<lparr>as_weekdays := [''mon'', ''sun'']\<rparr>)"
    by (simp add: assign_handleSubmit_def)
qed simp_all

section \<open>All forms\<close>




end
