(* ===== verification/PageViews.thy ===== *)
theory PageViews
  imports FormViews
begin

text \<open>
  The pages of one entity and the smaller components they are made of: what the pages of members, classes, plans,
  gyms, coaches and leads show, when their forms are mounted and with which state, and the cards, switches and
  dialogs that the views of \<^verbatim>\<open>Views\<close> and \<^verbatim>\<open>FormViews\<close> leave out. Buttons are compared with the steps of the page
  they belong to.
\<close>

section \<open>The frame of a page\<close>

text \<open>While the query is loading, when it failed or answered nothing, and otherwise. Most pages show
  \<open>error?.message\<close>, which may be missing and then gives way to a text of the page.\<close>

datatype ('w, 'v) page_frame = FrameLoading | FrameFailed 'w | FrameShown 'v

fun error_text :: "thrown \<Rightarrow> string option" where
  "error_text (ApiError m s) = Some m"
| "error_text (ErrorWithStatus m s) = Some m"
| "error_text (PlainError m) = Some m"
| "error_text NotAnError = None"

definition error_message :: "thrown option \<Rightarrow> string option" where
  "error_message error = Option.bind error error_text"

definition entity_frame ::
  "(thrown option \<Rightarrow> 'w) \<Rightarrow> bool \<Rightarrow> thrown option \<Rightarrow> 'a option \<Rightarrow> ('a \<Rightarrow> 'v) \<Rightarrow> ('w, 'v) page_frame" where
  "entity_frame failed isLoading error data page = (case entity_view isLoading error data of
     ViewLoading \<Rightarrow> FrameLoading
   | ViewMissing \<Rightarrow> FrameFailed (failed error)
   | ViewForm x \<Rightarrow> FrameShown (page x))"

record entity_page_view =
  xv_title :: "string list"
  xv_note :: "string option"
  xv_form :: form_view

definition member_page_view :: "bool \<Rightarrow> thrown option \<Rightarrow> member option \<Rightarrow> mutation_state \<Rightarrow> member_form \<Rightarrow> (string option, entity_page_view) page_frame" where
  "member_page_view isLoading error member m f = entity_frame error_message isLoading error member (\<lambda>x.
     \<lparr>xv_title = [m_first_name x, m_last_name x], xv_note = Some (m_phone x),
      xv_form = member_form_view (map_option humanizeMemberError (mutation_error m)) (isPending m) f\<rparr>)"

definition class_page_view :: "bool \<Rightarrow> thrown option \<Rightarrow> gym_class option \<Rightarrow> mutation_state \<Rightarrow> class_form \<Rightarrow> (string option, entity_page_view) page_frame" where
  "class_page_view isLoading error cls m f = entity_frame error_message isLoading error cls (\<lambda>x.
     \<lparr>xv_title = [gc_name x], xv_note = None,
      xv_form = class_form_view (map_option humanizeClassError (mutation_error m)) (isPending m) f\<rparr>)"

definition plan_page_view ::
  "bool \<Rightarrow> thrown option \<Rightarrow> membership_plan option \<Rightarrow> gym_class list option \<Rightarrow> mutation_state \<Rightarrow> plan_form \<Rightarrow> (string option, entity_page_view) page_frame" where
  "plan_page_view isLoading error plan classes m f = entity_frame error_message isLoading error plan (\<lambda>x.
     \<lparr>xv_title = [p_name x], xv_note = None,
      xv_form = plan_form_view classes (map_option humanizePlanError (mutation_error m)) (isPending m) f\<rparr>)"

definition tenant_page_view ::
  "bool \<Rightarrow> thrown option \<Rightarrow> tenant option \<Rightarrow> mutation_state \<Rightarrow> mutation_state \<Rightarrow> tenant_form \<Rightarrow> (string option, entity_page_view) page_frame" where
  "tenant_page_view isLoading error tenant m upload f = entity_frame error_message isLoading error tenant (\<lambda>x.
     \<lparr>xv_title = [t_name x], xv_note = Some (t_slug x),
      xv_form = tenant_form_view (map_option humanizeTenantError (mutation_error m)) (isPending m) upload f\<rparr>)"

section \<open>The life of a form on its page\<close>

text \<open>
  The form keeps its state in \<open>useState\<close>, initialised from the entity when it is mounted, and no \<open>key\<close> ties it to
  the entity. One rendering of the page: the form is mounted anew when it was not there, keeps its state when it
  was, and goes when the page shows something else.
\<close>

definition mounted :: "('a \<Rightarrow> 'f) \<Rightarrow> bool \<times> thrown option \<times> 'a option \<Rightarrow> 'f option \<Rightarrow> 'f option" where
  "mounted init query form = (case query of (isLoading, error, data) \<Rightarrow>
     (case entity_view isLoading error data of
        ViewForm x \<Rightarrow> Some (nullish form (init x))
      | _ \<Rightarrow> None))"

definition answer_has_data :: "bool \<times> thrown option \<times> 'a option \<Rightarrow> bool" where
  "answer_has_data q \<longleftrightarrow> (case q of (isLoading, error, data) \<Rightarrow> \<not> isLoading \<and> error = None \<and> data \<noteq> None)"

lemma mounted_ok: "answer_has_data q \<Longrightarrow> mounted init q (Some f) = Some f"
  by (cases q) (auto simp: answer_has_data_def mounted_def entity_view_def nullish_def)

text \<open>What was typed survives any number of answers that bring data, whatever the data is.\<close>

lemma form_edits_survive:
  "list_all answer_has_data qs \<Longrightarrow> fold (mounted init) qs (Some f) = Some f"
  by (induction qs) (simp_all add: mounted_ok)

text \<open>A fetch in the background that fails sets \<open>error\<close> and keeps \<open>data\<close>: the page shows the error in place of the
  form, and the form that comes back with the next answer has lost what was typed.\<close>

lemma failed_refetch_drops_edits:
  "fold (mounted init) [(False, Some e, Some x), (False, None, Some y)] (Some f) = Some (init y)"
  by (simp add: mounted_def entity_frame_def entity_view_def nullish_def)

text \<open>Moving through the history from the page of one member to that of another, whose data is still cached, changes
  the route but not the form: it still holds the first member, and saves it over the second.\<close>

lemma form_of_other_member:
  assumes "fold (mounted (\<lambda>m. member_form_init (Some m))) [(False, None, Some a), (False, None, Some b)] None = Some f"
  shows "f = member_form_init (Some a)"
    and "m_phone (server_update_member (member_handleSubmit f) b) = m_phone a"
  using assms by (auto simp: mounted_def entity_frame_def entity_view_def nullish_def server_update_member_def member_handleSubmit_def
      member_form_init_def)

section \<open>The page of a lead\<close>

datatype lead_button = EditLead | ConvertToMember | MarkLost | ReopenLead

record lead_page_view =
  gv_name :: "string \<times> string"
  gv_status :: lead_status
  gv_phone :: string
  gv_email :: "string option"
  gv_lostReason :: "string option"
  gv_memberLink :: "string option"
  gv_buttons :: "lead_button list"
  gv_error :: "hebrew option"
  gv_edit :: "form_view option"
  gv_notes :: "string option"
  gv_activity :: bool
  gv_convert :: "form_view option"
  gv_lostBusy :: "bool option"
  gv_reopenBusy :: "bool option"

definition lead_buttons :: "user option \<Rightarrow> lead \<Rightarrow> detail_page \<Rightarrow> lead_button list" where
  [view_defs]: "lead_buttons user l p =
     (if lead_canMutate user then
        (if \<not> dp_editing p \<and> l_status l \<noteq> LD_converted then [EditLead] else [])
        @ (if isOpen l then [ConvertToMember] else [])
        @ (if isOpen l then [MarkLost] else [])
        @ (if l_status l = LD_lost then [ReopenLead] else [])
      else [])"

text \<open>\<open>f\<close> is the state of the edit form, \<open>plans\<close> what the conversion dialog has loaded.\<close>

definition lead_page ::
  "user option \<Rightarrow> lead \<Rightarrow> bool \<Rightarrow> membership_plan list option \<Rightarrow> lead_form \<Rightarrow> detail_page \<Rightarrow> lead_page_view" where
  "lead_page user l plansLoading plans f p =
     \<lparr>gv_name = (l_first_name l, l_last_name l), gv_status = l_status l, gv_phone = l_phone l,
      gv_email = truthy_opt (l_email l),
      gv_lostReason = (if l_status l = LD_lost then truthy_opt (l_lost_reason l) else None),
      gv_memberLink = map_option (\<lambda>m. ''/members/'' @ m) (truthy_opt (l_converted_member_id l)),
      gv_buttons = lead_buttons user l p,
      gv_error = map_option humanizeLeadError (mutation_error (dp_setStatus p)),
      gv_edit = (if dp_editing p
        then Some (lead_form_view (map_option humanizeLeadError (mutation_error (detail_page.dp_update p))) (isPending (detail_page.dp_update p)) f)
        else None),
      gv_notes = (if dp_editing p then None else truthy_opt (l_notes l)),
      gv_activity = (lead_canMutate user \<and> l_status l \<noteq> LD_converted),
      gv_convert = map_option (convert_view l plansLoading plans) (dp_convert p),
      gv_lostBusy = (if dp_pendingLost p then Some (isPending (dp_setStatus p)) else None),
      gv_reopenBusy = (if dp_confirmReopen p then Some (isPending (dp_setStatus p)) else None)\<rparr>"

definition lead_page_frame ::
  "user option \<Rightarrow> bool \<Rightarrow> thrown option \<Rightarrow> lead option \<Rightarrow> bool \<Rightarrow> membership_plan list option \<Rightarrow> lead_form \<Rightarrow> detail_page
    \<Rightarrow> (hebrew, lead_page_view) page_frame" where
  "lead_page_frame user isLoading error lead plansLoading plans f p =
     entity_frame (\<lambda>e. humanizeLeadError (nullish e NotAnError)) isLoading error lead
       (\<lambda>l. lead_page user l plansLoading plans f p)"

text \<open>A button is there exactly when its click does something; nothing is open yet in the third and fourth case.\<close>

lemma lead_buttons_act:
  "EditLead \<in> set (lead_buttons user l p) \<longleftrightarrow> fst (detail_step user l ClickEdit p) \<noteq> p"
  "dp_convert p = None \<Longrightarrow> ConvertToMember \<in> set (lead_buttons user l p) \<longleftrightarrow> fst (detail_step user l (ClickConvert today) p) \<noteq> p"
  "\<not> dp_pendingLost p \<Longrightarrow> MarkLost \<in> set (lead_buttons user l p) \<longleftrightarrow> fst (detail_step user l ClickLost p) \<noteq> p"
  "\<not> dp_confirmReopen p \<Longrightarrow> ReopenLead \<in> set (lead_buttons user l p) \<longleftrightarrow> fst (detail_step user l ClickReopen p) \<noteq> p"
  by (auto simp: lead_buttons_def edit_button_def open_buttons_def reopen_button_def isOpen_def
      dest: arg_cong [where f = dp_editing] arg_cong [where f = dp_convert] arg_cong [where f = dp_pendingLost]
        arg_cong [where f = dp_confirmReopen])

text \<open>The confirmations start their request exactly while they are shown and not busy.\<close>

lemma lead_confirmations_act:
  "gv_lostBusy (lead_page user l b plans f p) = Some False \<longleftrightarrow> snd (detail_step user l (DetailConfirmLost why) p) \<noteq> []"
  "gv_reopenBusy (lead_page user l b plans f p) = Some False \<longleftrightarrow> snd (detail_step user l ConfirmReopen p) \<noteq> []"
  "gv_edit (lead_page user l b plans f p) = Some v \<Longrightarrow> fm_enabled v \<longleftrightarrow> snd (detail_step user l (SubmitEdit f) p) \<noteq> []"
  by (auto simp: lead_page_def handleLost_def handleReopen_def handleEdit_def lead_form_view_def plain_form_def
      split: if_splits)

section \<open>The page of a coach\<close>

record taught_class =
  tk_path :: string
  tk_name :: "string option"
  tk_role :: string
  tk_model :: pay_model
  tk_amount :: rat
  tk_days :: "string option"

definition taught_class :: "gym_class list option \<Rightarrow> class_coach \<Rightarrow> taught_class" where
  "taught_class classes k =
     \<lparr>tk_path = ''/classes/'' @ cc_class_id k, tk_name = class_name_of classes (cc_class_id k), tk_role = cc_role k,
      tk_model = cc_pay_model k, tk_amount = shekels (cc_pay_amount_cents k), tk_days = days_text (cc_weekdays k)\<rparr>"

definition coach_classes :: "bool \<Rightarrow> class_coach list option \<Rightarrow> gym_class list option \<Rightarrow> taught_class shown" where
  "coach_classes isLoading links classes = shown_list isLoading None links (taught_class classes)"

text \<open>The card of the month: the sum, the range when both ends are known, and the lines or the note that there are none.\<close>

record earnings_card =
  xe_title :: "(string \<times> string) option"
  xe_total :: "rat \<times> string"
  xe_range :: "(string \<times> string) option"
  xe_lines :: "earnings_line list option"

definition earningsCard :: "(string \<times> string) option \<Rightarrow> earnings \<Rightarrow> earnings_card" where
  "earningsCard title d =
     \<lparr>xe_title = title, xe_total = (shekels (ea_total_cents d), ea_currency d), xe_range = range_line d,
      xe_lines = (if ea_by_link d = [] then None else Some (earnings_lines d))\<rparr>"

datatype earnings_section = EarningsLoading | NoEarnings | EarningsShown earnings_card

definition currentMonthEarnings :: "string \<times> string \<Rightarrow> bool \<Rightarrow> earnings option \<Rightarrow> earnings_section" where
  "currentMonthEarnings month isLoading data =
     (if isLoading then EarningsLoading
      else case data of None \<Rightarrow> NoEarnings | Some d \<Rightarrow> EarningsShown (earningsCard (Some month) d))"

record coach_view =
  qv_name :: "string \<times> string"
  qv_status :: coach_status
  qv_editButton :: bool
  qv_edit :: "form_view option"
  qv_invite :: "form_view option"

definition coach_page_view :: "user option \<Rightarrow> bool \<Rightarrow> thrown option \<Rightarrow> coach option \<Rightarrow> coach_form \<Rightarrow> coach_page
    \<Rightarrow> (unit, coach_view) page_frame" where
  "coach_page_view user isLoading error coach f p = entity_frame (\<lambda>_. ()) isLoading error coach (\<lambda>c.
     \<lparr>qv_name = (co_first_name c, co_last_name c), qv_status = co_status c,
      qv_editButton = (owner_or_admin user \<and> \<not> cp_editing p),
      qv_edit = (if edit_card_shown user p
        then Some (coach_form_view (map_option humanizeCoachError (mutation_error (cp_update p))) (isPending (cp_update p)) f)
        else None),
      qv_invite = (if invite_shown user c then Some (invite_view p) else None)\<rparr>)"

text \<open>The page does what it shows: the edit button opens the form, the form saves while its button is enabled, and an
  invitation is sent when the browser lets the form through and its button is enabled.\<close>

lemma coach_page_acts:
  assumes "coach_page_view user False None (Some c) f p = FrameShown v"
  shows "qv_editButton v \<longleftrightarrow> fst (coach_detail_step user c CpEdit p) \<noteq> p"
    and "qv_edit v = Some w \<Longrightarrow> fm_enabled w \<longleftrightarrow> snd (coach_detail_step user c (CpSave values) p) \<noteq> []"
    and "qv_invite v = Some w \<Longrightarrow> submittable url w \<Longrightarrow> snd (coach_detail_step user c CpInvite p) \<noteq> []"
  using assms
  by (auto simp: coach_page_view_def entity_frame_def entity_view_def edit_card_shown_def coach_form_view_def plain_form_def invite_view_def
      submittable_def labelled_def invite_inputs_def input_defs dest: arg_cong [where f = cp_editing] split: if_splits)

section \<open>Cards, switches and small dialogs\<close>

text \<open>The card of a member: the text under the code is the one the code encodes.\<close>

record qr_card =
  qc_name :: string
  qc_code :: string
  qc_text :: string

definition memberQrButton :: "string \<Rightarrow> string \<Rightarrow> bool \<Rightarrow> qr_card option" where
  "memberQrButton memberId memberName opened =
     (if opened then Some \<lparr>qc_name = memberName, qc_code = qr_payload memberId, qc_text = memberId\<rparr> else None)"

lemma card_scans_as_member:
  "memberQrButton i name opened = Some c \<Longrightarrow> uuid_shape i \<Longrightarrow> decode_payload (qc_code c) = Some (qc_text c)"
  by (auto simp: memberQrButton_def card_reads_back split: if_splits)

text \<open>The password input: its type, and what the button with the eye offers.\<close>

datatype eye = ShowPassword | HidePassword

definition passwordInput :: "bool \<Rightarrow> input_kind \<times> eye" where
  "passwordInput revealed = (if revealed then (TextBox, HidePassword) else (PasswordBox, ShowPassword))"

definition click_eye :: "bool \<Rightarrow> bool" where
  "click_eye revealed = (\<not> revealed)"

lemma password_masked: "fst (passwordInput ((click_eye ^^ n) False)) = PasswordBox \<longleftrightarrow> even n"
  by (induction n) (auto simp: passwordInput_def click_eye_def)

text \<open>Neither type of the input changes what the browser demands of the text.\<close>

lemma password_kind_free: "kind_ok url (fst (passwordInput a)) v = kind_ok url (fst (passwordInput b)) v"
  by (auto simp: passwordInput_def kind_ok_def)

record confirm_view =
  cw_title :: string
  cw_message :: string
  cw_cancel :: string
  cw_confirm :: string
  cw_enabled :: bool

definition confirmDialog :: "string \<Rightarrow> string \<Rightarrow> string \<Rightarrow> string option \<Rightarrow> bool \<Rightarrow> confirm_view" where
  "confirmDialog title message confirmLabel cancelLabel loading =
     \<lparr>cw_title = title, cw_message = message, cw_cancel = nullish cancelLabel ''cancel'',
      cw_confirm = (if loading then ''...'' else confirmLabel), cw_enabled = (\<not> loading)\<rparr>"

text \<open>A cell of the week: struck through and marked when cancelled, tinted otherwise, with a star when it follows no rule.
  \<open>None\<close> for the coach is the note that there is none.\<close>

record cell_view =
  xc_name :: "string option"
  xc_struck :: bool
  xc_banned :: bool
  xc_star :: bool
  xc_tint :: "string option"
  xc_coach :: "(string \<times> string) option"
  xc_time :: "string \<times> string"

definition cell_view :: "(int \<Rightarrow> int) \<Rightarrow> (string \<Rightarrow> int) \<Rightarrow> gym_class list \<Rightarrow> coach list \<Rightarrow> class_session \<Rightarrow> cell_view" where
  "cell_view local time_of classes coaches s = (let k = sessionCard classes coaches s in
     \<lparr>xc_name = sk_class k, xc_struck = sk_cancelled k, xc_banned = sk_cancelled k,
      xc_star = (sk_adhoc k \<and> \<not> sk_cancelled k),
      xc_tint = (if sk_cancelled k then None else Some (nullish (sk_tint k) ''#e5e7eb'')),
      xc_coach = sk_coach k, xc_time = time_label local time_of s\<rparr>)"

text \<open>The switches of a gym, and the button that is there while a change waits to be saved.\<close>

record features_view =
  xf_save :: "bool option"
  xf_switches :: "(string \<times> bool) list"
  xf_error :: "hebrew option"

definition features_view :: "flags \<Rightarrow> mutation_state \<Rightarrow> features_section \<Rightarrow> features_view" where
  "features_view features m s =
     \<lparr>xf_save = (if flags_dirty s then Some (\<not> isPending m) else None),
      xf_switches = map (\<lambda>k. (k, switch_on features s k)) [''coaches'', ''schedule'', ''leads''],
      xf_error = map_option humanizeScheduleError (mutation_error m)\<rparr>"

text \<open>A click on a switch flips that one; the save button is there exactly when a click on it sends something. Two
  clicks on a switch show what was there before, but leave the button.\<close>

lemma features_view_toggle:
  "xf_switches (features_view features m (toggle_flag features k s))
     = map (\<lambda>(j, b). (j, if j = k then \<not> b else b)) (xf_switches (features_view features m s))"
  by (auto simp: features_view_def toggle_flag_switch)

lemma features_view_save:
  "xf_save (features_view features m s) \<noteq> None \<longleftrightarrow> features_handleSave s \<noteq> None"
  "xf_switches (features_view features m (toggle_flag features k (toggle_flag features k s))) = xf_switches (features_view features m s)"
  "xf_save (features_view features m (toggle_flag features k (toggle_flag features k s))) = Some (\<not> isPending m)"
proof -
  show "xf_save (features_view features m s) \<noteq> None \<longleftrightarrow> features_handleSave s \<noteq> None"
    by (simp add: features_view_def features_handleSave_def)
  show "xf_switches (features_view features m (toggle_flag features k (toggle_flag features k s))) = xf_switches (features_view features m s)"
    unfolding features_view_toggle map_map by (rule map_idI) (auto split: if_splits)
  have "AList.update k b xs \<noteq> []" for b and xs :: flags by (cases xs) auto
  then show "xf_save (features_view features m (toggle_flag features k (toggle_flag features k s))) = Some (\<not> isPending m)"
    by (simp add: features_view_def flags_dirty_def toggle_flag_def)
qed

end
