(* ===== verification/Spec2Isabelle.thy ===== *)
theory Spec2Isabelle
  imports ErrorContract Shell QueryHooks CheckIn Scanner JsNumber Payments LeadPages Subscriptions
    PlanForms ListColumns TenantForms UserForms Coaches ScheduleDialogs BulkActions EntityForms
    Bodies FormInputs PageAccess Views SubmitOnce Earnings Lifecycle Attendance Calendar
    FormViews PageViews
begin

text \<open>
  A verification development of DopaCRM, a multi-tenant system for gyms: the React client under
  \<^verbatim>\<open>frontend/src\<close>, in TypeScript, together with those rules of the Python server under
  \<^verbatim>\<open>backend/app\<close> that the client has to agree with. Paths below are relative to these two
  directories.

  \<^bold>\<open>The program.\<close> A page of the client reads the session from the auth provider, mounts query hooks,
  and renders sections, dialogs and forms. A form keeps its state, turns it into a request object on
  submit and hands that to a mutation hook. A hook calls a function of \<^verbatim>\<open>features/*/api.ts\<close>, which
  builds a path and a body for \<^verbatim>\<open>lib/api-client.ts\<close>; the answer comes back as JSON, or as a thrown
  \<open>ApiError\<close> that a humanizer of \<^verbatim>\<open>lib/api-errors.ts\<close> turns into the Hebrew text the page shows. What
  an endpoint takes and answers is declared in \<^verbatim>\<open>lib/api-schema.ts\<close>, which is made from the server's
  own description. On the other side a service of the server checks the caller's role, gym and
  feature flags, then the state of the row, and either changes it or raises a domain error that
  \<^verbatim>\<open>api/error_handler.py\<close> makes a status and a body. The development models this circle piece by piece
  and proves where the two halves agree, and exactly where they do not.
\<close>

text \<open>
  \<^bold>\<open>The theories, from the bottom up.\<close>

  \<^item> \<^verbatim>\<open>Prelude\<close>: strings, truthiness, \<open>??\<close>, JSON values and the collections of rewrite rules
    (\<open>js_simps\<close>, \<open>api_defs\<close>, \<open>view_defs\<close>). \<^verbatim>\<open>JsNumber\<close>: doubles as rationals with rounding to nearest,
    \<open>Math.round\<close>, and the conversion between shekels and agorot. \<^verbatim>\<open>QueryString\<close>: \<open>URLSearchParams\<close>
    with percent encoding and its inverse.
  \<^item> \<^verbatim>\<open>Types\<close>: the responses as records and the unions as datatypes. \<^verbatim>\<open>TsTypes\<close>, \<^verbatim>\<open>ApiSchema\<close>,
    \<^verbatim>\<open>ApiOperations\<close>, \<^verbatim>\<open>ApiSignatures\<close>: the API description as data, with the meaning of its types, and
    the declared types of the API functions.
  \<^item> \<^verbatim>\<open>ApiErrors\<close>, \<^verbatim>\<open>ApiClient\<close>, \<^verbatim>\<open>Endpoints\<close>, \<^verbatim>\<open>QueryHooks\<close>: the humanizers, the request pipeline, one
    definition per API function, and the query and mutation hooks with their cache keys and
    invalidations.
  \<^item> \<^verbatim>\<open>ServerErrors\<close>, \<^verbatim>\<open>ErrorContract\<close>: the exception classes, the handler, and the way of an error
    from the service to the screen. \<^verbatim>\<open>Conformance\<close>, \<^verbatim>\<open>CallTypes\<close>: that every hook makes a declared
    call with the declared types. \<^verbatim>\<open>Bodies\<close>: the JSON of every form and its type.
  \<^item> \<^verbatim>\<open>Permissions\<close>, \<^verbatim>\<open>Auth\<close>, \<^verbatim>\<open>Navigation\<close>, \<^verbatim>\<open>Shell\<close>: features, roles and flags
    (\<^verbatim>\<open>features/auth/permissions.ts\<close>), the session with its asynchronous calls, the route table with the
    guards and the sidebar, and the shell (\<^verbatim>\<open>hooks\<close>, \<^verbatim>\<open>components/layout\<close>).
  \<^item> \<^verbatim>\<open>UiMachine\<close>: runs of event handlers. \<^verbatim>\<open>Combobox\<close>, \<^verbatim>\<open>DataTable\<close>: the shared picker and table
    (\<^verbatim>\<open>components/ui\<close>). \<^verbatim>\<open>ListPages\<close>, \<^verbatim>\<open>ListColumns\<close>: the five list pages.
  \<^item> \<^verbatim>\<open>CheckIn\<close>, \<^verbatim>\<open>Scanner\<close> (\<^verbatim>\<open>features/attendance\<close>), \<^verbatim>\<open>Payments\<close>, \<^verbatim>\<open>Leads\<close>, \<^verbatim>\<open>LeadPages\<close>,
    \<^verbatim>\<open>Subscriptions\<close>, \<^verbatim>\<open>PlanForms\<close>, \<^verbatim>\<open>TenantForms\<close>, \<^verbatim>\<open>UserForms\<close>, \<^verbatim>\<open>EntityForms\<close> (members, classes and
    coaches), \<^verbatim>\<open>Coaches\<close>, \<^verbatim>\<open>Schedule\<close>, \<^verbatim>\<open>ScheduleDialogs\<close>, \<^verbatim>\<open>BulkActions\<close>: the state, handlers and derived
    values of the directories of \<^verbatim>\<open>features\<close>, each with the rules of the service it talks to.
  \<^item> \<^verbatim>\<open>FormInputs\<close>: what the browser checks in each input against the bounds of the server's
    schemas. \<^verbatim>\<open>ServerGates\<close>, \<^verbatim>\<open>PageAccess\<close>: the checks of role, gym and flag of every service method,
    and the components a page renders with the queries and mutations they hold. \<^verbatim>\<open>Views\<close>: what a
    component shows for its state and its queries. \<^verbatim>\<open>SubmitOnce\<close>: that no button starts a request
    while the one before it is under way. \<^verbatim>\<open>FormViews\<close>, \<^verbatim>\<open>PageViews\<close>: what every form and dialog shows,
    when the browser lets its button through, and the pages of one entity with the smaller components on them.
  \<^item> \<^verbatim>\<open>Dates\<close>: Python's calendar dates, in their order, with the number of a day and the addition of days.
    \<^verbatim>\<open>Earnings\<close>: the payroll of \<^verbatim>\<open>services/coach_service.py\<close>. \<^verbatim>\<open>Materialize\<close>: from recurring rules to sessions
    (\<^verbatim>\<open>services/schedule_materialize.py\<close>). \<^verbatim>\<open>Lifecycle\<close>: the subscriptions of a member over time, with the
    constraints of their table and the nightly jobs (\<^verbatim>\<open>services/subscription_service.py\<close>).
    \<^verbatim>\<open>Attendance\<close>: the table of entries, the windows their quotas are counted in, and the coach an entry is
    credited to (\<^verbatim>\<open>services/attendance_service.py\<close>). \<^verbatim>\<open>Calendar\<close>: the rows of rules and sessions under every
    operation of the schedule and the nightly job (\<^verbatim>\<open>services/schedule_service.py\<close>,
    \<^verbatim>\<open>workers/schedule_tasks.py\<close>).
\<close>

text \<open>
  \<^bold>\<open>How the code is rendered.\<close> The state of a component is a record with the members of its
  \<open>useState\<close> hooks; a user event or the settling of a promise is a constructor of an event type; a
  handler is a step function from event and state to the new state and the requests it starts; and a
  sequence of events is a list, so that every interleaving of clicks and answers is covered. A
  \<open>useMutation\<close> hook is a value of \<open>mutation_state\<close>. Where the provider, the picker and the scanner
  have calls under way at the same time, the state counts or lists them, and reachability is an
  inductive predicate. A thrown value is \<open>Inl\<close>, a returned one \<open>Inr\<close>; \<open>undefined\<close> and \<open>null\<close> are
  \<open>None\<close>. A server operation is a function to \<open>app_error + 'a\<close>, its guards in the order of the
  source. A Hebrew literal is a constructor or the value it labels.

  \<^bold>\<open>The interfaces\<close> are locales, each interpreted on the model. \<open>humanizer\<close>: what a page may rely on
  in an error text; thirteen interpretations in \<^verbatim>\<open>ApiErrors\<close>. \<open>query_codec\<close>: a list endpoint and its
  reader; \<open>to_query\<close> and \<open>from_query\<close> in \<^verbatim>\<open>QueryString\<close>. \<open>permission_check\<close>: what routes and sidebar
  need of \<open>canAccess\<close>. \<open>ui_machine\<close>: an invariant of the state and a property of every request that is
  started; interpreted on the board, the lead page, the subscription section, the assignment and
  class-coach sections, the rule, template and session dialogs and the entity pages.
  \<open>single_flight\<close>: a hook whose button waits for its answer; interpreted on the check-in, the list pages and
  the pages and dialogs of leads, subscriptions, the schedule, coaches and the entity pages.
  \<open>row_contract\<close> and \<open>exact_row_contract\<close>: the actions of a list row are among, or exactly, those the
  server grants; interpreted on members, coaches, classes and plans.

  \<^bold>\<open>What the theorems show.\<close> Requests: every hook makes a declared call, equal keys mean equal
  calls, a mutation refreshes what it writes, a list query is read back as it was set, and each form
  sends JSON of the declared type. Agreement with the server: the tapped class, the refund button and
  dialog, the row menus, the drops of the board, the bulk action, the plan form, the subscription
  section and the lead page ask for what the service accepts, with the exceptions written into the
  statements. Access: for every page, role, flag map and set of loaded queries, which components are
  on the screen and that the server grants what they ask for and offer, with the exceptions named.
  The screen: two states of a form that show the same page
  send the same request, values listed in the statement apart, and an enabled button that the browser lets
  through always starts one, with the two exceptions named.
  State: the session, the picker, the scanner's camera and the dialogs keep their invariants over every
  sequence of events. Errors: the outcome of a call for every answer of the network, and which texts
  the browser lets through although the server refuses them. Contracts: the salary of a span is the sum of
  its days, rounded, and a breakdown adds up; the horizon of a rule is covered and covering it is idempotent;
  and the status of a member follows the subscriptions over every course of operations and nights, a
  freeze costs no paid day, and a frozen subscription cannot be cancelled although it is offered. At one
  desk the entries charged to a quota, those with an override apart, never exceed it, and an entry adds to
  the pay of its coach exactly what undoing it takes back; no operation on the calendar loses a cancelled session,
  the rules and the nightly job leave the customized and the past ones too, and a bulk change concerns exactly the
  sessions of its range.
\<close>

text \<open>
  \<^bold>\<open>Bounds and fuel.\<close> Following the redirects of a location takes a fuel argument; one redirect
  always suffices (\<open>visit_settles\<close>). All other loops are structural or have a termination proof. Money
  in agorot is an integer; where the code computes it with doubles the theorems ask for amounts of at
  most \<open>10 ^ 15\<close> agorot, below which every step of the conversion is exact enough for \<open>Math.round\<close> to
  return the amount typed. Salaries are computed with \<open>Decimal\<close>, 28 digits to even at every step; the theorems
  ask for amounts of at most \<open>10 ^ 12\<close> agorot and spans of at most 1200 months, for which the accumulated
  error stays below a millionth. Time values are integers in milliseconds. The two loops over dates repeat in
  their condition that the dates are valid, as Python's always are, so that they are total.

  \<^bold>\<open>Parameters.\<close> Code outside the repository is an argument of the definitions that use it: the
  network behind \<open>fetch\<close>, how the query cache matches a key with an invalidation, the decoding of
  frames and the events of the camera library, the time zone (\<open>local\<close>, \<open>utc_of\<close>), the reading and
  printing of dates (\<open>tof\<close>, \<open>printed\<close>, \<open>days_apart\<close>), the number format of the browser, the hash of a
  password, the signed address of a logo, what counts as an address of a page or of e-mail
  (\<open>url\<close>, \<open>email_str\<close>), the number of entries in an entitlement's window where only the answer of the
  server matters (\<^verbatim>\<open>CheckIn\<close>), the instant of a wall-clock time in the zone of the gym (\<open>us_of\<close>), and the
  queries that have \<open>loaded\<close>.

  \<^bold>\<open>Not modelled.\<close> \<^verbatim>\<open>features/landing\<close> is static markup. \<^verbatim>\<open>components/ui\<close> other than the table, the
  picker, the badge, the password input and the confirmation wraps third-party primitives in style classes; \<^verbatim>\<open>main.tsx\<close>, \<^verbatim>\<open>app/providers.tsx\<close>
  and the query client's options mount third-party code. Style classes, icons and the wording of Hebrew
  labels are left out throughout, and so are the focus handling of the picker and the propagation of
  clicks in the table. Of the server the routers, the migrations, logging, the storage of everything but subscriptions,
  entries, rules and sessions, the timeline of events and the dashboard's counts are left out. The upload of a logo goes around the mutation
  hooks and is treated in \<^verbatim>\<open>ApiClient\<close> and \<^verbatim>\<open>TenantForms\<close>, not in \<^verbatim>\<open>PageAccess\<close>. Rows of another gym,
  which the server answers with \<open>not found\<close>, are not part of \<^verbatim>\<open>ServerGates\<close>.
\<close>

end
